(* ===== verification/Closeros_Prelude.thy ===== *)
theory Closeros_Prelude
  imports Main "HOL-Library.Word" "HOL-Library.Char_ord" "HOL-Library.List_Lexorder"
    "HOL-Library.Product_Lexorder" "HOL-Library.Sublist"
begin

text \<open>
  Shared vocabulary of the development: UUIDs, timestamps, durations, the fragment of Python's
  string methods and regular expressions the backend's validators use, and results of fallible
  code. Conventions used in every theory:

  \<^item> Python's \<open>isinstance\<close> tests are discharged by the HOL types: a field annotated \<open>UUID\<close> has
    type \<open>uuid\<close>, so the \<open>TypeError\<close> branch of such a test has no counterpart.
  \<^item> A fallible function returns \<open>'e + 'a\<close>, with \<open>Inl\<close> the exception that the source raises.
  \<^item> A \<open>datetime\<close> is naive or aware, as in Python; the tests for \<open>tzinfo\<close> and \<open>utcoffset()\<close> are
    explicit in the model. Its value counts microseconds (UTC for an aware one). The end of the
    calendar (year 9999, \<open>OverflowError\<close>) is not modelled.
  \<^item> Strings are lists of code points below 256.
\<close>

named_theorems result_simps "equations and characterisations for the sequencing of results"
named_theorems enum_simps "membership and decoding facts for enumerations"

lemma pred_option_code [code]: "pred_option P None = True" "pred_option P (Some x) = P x"
  by simp_all

section \<open>Results of fallible code\<close>

definition bindE :: "'e + 'a \<Rightarrow> ('a \<Rightarrow> 'e + 'b) \<Rightarrow> 'e + 'b" where
  "bindE m f = (case m of Inl e \<Rightarrow> Inl e | Inr x \<Rightarrow> f x)"

definition raise_if :: "bool \<Rightarrow> 'e \<Rightarrow> 'e + unit" where
  "raise_if c e = (if c then Inl e else Inr ())"

lemma bindE_simps [simp]:
  "bindE (Inl e) f = Inl e"
  "bindE (Inr x) f = f x"
  by (simp_all add: bindE_def)

lemma bindE_Inr_iff [result_simps]:
  "bindE m f = Inr y \<longleftrightarrow> (\<exists>x. m = Inr x \<and> f x = Inr y)"
  by (cases m) simp_all

lemma bindE_Inl_iff:
  "bindE m f = Inl e \<longleftrightarrow> m = Inl e \<or> (\<exists>x. m = Inr x \<and> f x = Inl e)"
  by (cases m) simp_all

lemma raise_if_simps [simp]:
  "raise_if True e = Inl e"
  "raise_if False e = Inr ()"
  by (simp_all add: raise_if_def)

lemma raise_if_Inr_iff [result_simps]: "raise_if c e = Inr u \<longleftrightarrow> \<not> c"
  by (cases c) (simp_all add: raise_if_def)

lemma raise_if_Inl_iff [result_simps]: "raise_if c e = Inl e' \<longleftrightarrow> c \<and> e' = e"
  by (cases c) (auto simp: raise_if_def)

lemma if_Inl_Inr_iff [result_simps]:
  "(if c then Inl e else m) = Inr y \<longleftrightarrow> \<not> c \<and> m = Inr y"
  by simp

fun is_ok :: "'e + 'a \<Rightarrow> bool" where
  "is_ok (Inl e) = False"
| "is_ok (Inr x) = True"

lemma is_ok_iff: "is_ok r \<longleftrightarrow> (\<exists>x. r = Inr x)"
  by (cases r) auto

text \<open>A check applied to a present value only (\<open>if x is not None: ...\<close>).\<close>

definition when_some :: "'a option \<Rightarrow> ('a \<Rightarrow> 'e + unit) \<Rightarrow> 'e + unit" where
  "when_some x f = (case x of None \<Rightarrow> Inr () | Some v \<Rightarrow> f v)"

lemma when_some_simps [simp]:
  "when_some None f = Inr ()"
  "when_some (Some v) f = f v"
  by (simp_all add: when_some_def)

lemma when_some_Inr_iff [result_simps]:
  "when_some x f = Inr u \<longleftrightarrow> (\<forall>v. x = Some v \<longrightarrow> f v = Inr ())"
  by (cases x) simp_all

text \<open>A loop that converts every element and stops at the first exception.\<close>

fun map_result :: "('a \<Rightarrow> 'e + 'b) \<Rightarrow> 'a list \<Rightarrow> 'e + 'b list" where
  "map_result f [] = Inr []"
| "map_result f (x # xs) = bindE (f x) (\<lambda>y. bindE (map_result f xs) (\<lambda>ys. Inr (y # ys)))"

lemma map_result_Inr:
  "map_result f xs = Inr ys \<Longrightarrow> length ys = length xs \<and> (\<forall>i < length xs. f (xs ! i) = Inr (ys ! i))"
  by (induction xs arbitrary: ys) (auto simp: bindE_Inr_iff less_Suc_eq_0_disj)

section \<open>Computations with state and exceptions\<close>

text \<open>
  A computation changes a state and returns or raises; as in Python, what it did before raising
  stays done.
\<close>

type_synonym ('s, 'e, 'a) comp = "'s \<Rightarrow> ('e + 'a) \<times> 's"

definition returnS :: "'a \<Rightarrow> ('s, 'e, 'a) comp" where
  "returnS x = (\<lambda>s. (Inr x, s))"

definition raiseS :: "'e \<Rightarrow> ('s, 'e, 'a) comp" where
  "raiseS e = (\<lambda>s. (Inl e, s))"

definition bindS :: "('s, 'e, 'a) comp \<Rightarrow> ('a \<Rightarrow> ('s, 'e, 'b) comp) \<Rightarrow> ('s, 'e, 'b) comp" where
  "bindS m f = (\<lambda>s. case m s of (Inl e, s') \<Rightarrow> (Inl e, s') | (Inr x, s') \<Rightarrow> f x s')"

definition tryS :: "('s, 'e, 'a) comp \<Rightarrow> ('e \<Rightarrow> ('s, 'e, 'b) comp) \<Rightarrow> ('a \<Rightarrow> ('s, 'e, 'b) comp) \<Rightarrow> ('s, 'e, 'b) comp" where
  "tryS m h f = (\<lambda>s. case m s of (Inl e, s') \<Rightarrow> h e s' | (Inr x, s') \<Rightarrow> f x s')"

lemma returnS_apply [simp]: "returnS x s = (Inr x, s)"
  by (simp add: returnS_def)

lemma raiseS_apply [simp]: "raiseS e s = (Inl e, s)"
  by (simp add: raiseS_def)

lemma bindS_apply:
  "m s = (Inr x, s') \<Longrightarrow> bindS m f s = f x s'"
  "m s = (Inl e, s') \<Longrightarrow> bindS m f s = (Inl e, s')"
  by (simp_all add: bindS_def)

lemma tryS_apply:
  "m s = (Inr x, s') \<Longrightarrow> tryS m h f s = f x s'"
  "m s = (Inl e, s') \<Longrightarrow> tryS m h f s = h e s'"
  by (simp_all add: tryS_def)

section \<open>Timestamps\<close>

datatype datetime = Naive int | Aware int

fun aware :: "datetime \<Rightarrow> bool" where
  "aware (Naive t) = False"
| "aware (Aware t) = True"

fun instant :: "datetime \<Rightarrow> int" where
  "instant (Naive t) = t"
| "instant (Aware t) = t"

text \<open>
  Python orders two naive or two aware values by their time and raises \<open>TypeError\<close> on a mixed
  pair. The order below is total: it agrees with Python on pairs of one kind and puts every
  naive value first. Code that may compare a mixed pair tests for it explicitly.
\<close>

instantiation datetime :: linorder
begin

definition less_eq_datetime :: "datetime \<Rightarrow> datetime \<Rightarrow> bool" where
  "less_eq_datetime a b \<longleftrightarrow>
     (if aware a = aware b then instant a \<le> instant b else aware b)"

definition less_datetime :: "datetime \<Rightarrow> datetime \<Rightarrow> bool" where
  "less_datetime a b \<longleftrightarrow> a \<le> b \<and> \<not> b \<le> (a::datetime)"

instance
proof
  fix x y z :: datetime
  show "x < y \<longleftrightarrow> x \<le> y \<and> \<not> y \<le> x" by (simp add: less_datetime_def)
  show "x \<le> x" by (simp add: less_eq_datetime_def)
  show "x \<le> y \<Longrightarrow> y \<le> z \<Longrightarrow> x \<le> z"
    by (auto simp: less_eq_datetime_def split: if_splits)
  show "x \<le> y \<Longrightarrow> y \<le> x \<Longrightarrow> x = y"
    by (cases x; cases y) (auto simp: less_eq_datetime_def)
  show "x \<le> y \<or> y \<le> x" by (auto simp: less_eq_datetime_def)
qed

end

lemma datetime_order_simps [simp]:
  "Aware s \<le> Aware t \<longleftrightarrow> s \<le> t"
  "Aware s < Aware t \<longleftrightarrow> s < t"
  "Naive s \<le> Naive t \<longleftrightarrow> s \<le> t"
  "Naive s < Naive t \<longleftrightarrow> s < t"
  by (auto simp: less_eq_datetime_def less_datetime_def)

lemma aware_obtain: "aware a \<Longrightarrow> (\<And>t. a = Aware t \<Longrightarrow> P) \<Longrightarrow> P"
  by (cases a) auto

fun dt_plus :: "datetime \<Rightarrow> int \<Rightarrow> datetime" where
  "dt_plus (Naive t) d = Naive (t + d)"
| "dt_plus (Aware t) d = Aware (t + d)"

lemma aware_dt_plus [simp]: "aware (dt_plus a d) = aware a"
  by (cases a) simp_all

lemma instant_dt_plus [simp]: "instant (dt_plus a d) = instant a + d"
  by (cases a) simp_all

lemma dt_plus_less [simp]:
  "a < dt_plus a d \<longleftrightarrow> 0 < d"
  "a \<le> dt_plus a d \<longleftrightarrow> 0 \<le> d"
  by (cases a; simp)+

lemma dt_plus_mono [simp]: "dt_plus a d \<le> dt_plus b d \<longleftrightarrow> a \<le> b"
  by (cases a; cases b) (auto simp: less_eq_datetime_def)

definition timedelta_seconds :: "int \<Rightarrow> int" where
  "timedelta_seconds n = n * 1000000"

definition timedelta_minutes :: "int \<Rightarrow> int" where
  "timedelta_minutes n = timedelta_seconds (n * 60)"

definition timedelta_hours :: "int \<Rightarrow> int" where
  "timedelta_hours n = timedelta_minutes (n * 60)"

definition timedelta_days :: "int \<Rightarrow> int" where
  "timedelta_days n = timedelta_hours (n * 24)"

lemmas timedelta_defs =
  timedelta_seconds_def timedelta_minutes_def timedelta_hours_def timedelta_days_def

text \<open>The validator that most modules repeat: the value itself when it is aware.\<close>

definition require_aware :: "'e \<Rightarrow> datetime \<Rightarrow> 'e + unit" where
  "require_aware e d = raise_if (\<not> aware d) e"

lemma require_aware_Inr_iff [result_simps]: "require_aware e d = Inr u \<longleftrightarrow> aware d"
  by (simp add: require_aware_def result_simps)

lemma require_aware_Aware [simp]: "require_aware e (Aware t) = Inr ()"
  by (simp add: require_aware_def)

section \<open>Strings\<close>

definition is_lower_az :: "char \<Rightarrow> bool" where
  "is_lower_az c \<longleftrightarrow> 97 \<le> (of_char c :: nat) \<and> of_char c \<le> (122 :: nat)"

definition is_digit09 :: "char \<Rightarrow> bool" where
  "is_digit09 c \<longleftrightarrow> 48 \<le> (of_char c :: nat) \<and> of_char c \<le> (57 :: nat)"

text \<open>\<open>str.isspace\<close> on one code point below 256.\<close>

definition is_space :: "char \<Rightarrow> bool" where
  "is_space c \<longleftrightarrow>
     (let n = (of_char c :: nat) in (9 \<le> n \<and> n \<le> 13) \<or> (28 \<le> n \<and> n \<le> 32) \<or> n = 133 \<or> n = 160)"

text \<open>\<open>str.strip()\<close>.\<close>

definition lstrip :: "string \<Rightarrow> string" where
  "lstrip s = dropWhile is_space s"

definition strip :: "string \<Rightarrow> string" where
  "strip s = rev (lstrip (rev (lstrip s)))"

text \<open>\<open>str.lower()\<close>: the ASCII letters and the Latin-1 capitals shift by 32.\<close>

definition to_lower_char :: "char \<Rightarrow> char" where
  "to_lower_char c =
     (let n = (of_char c :: nat)
      in if (65 \<le> n \<and> n \<le> 90) \<or> (192 \<le> n \<and> n \<le> 222 \<and> n \<noteq> 215) then char_of (n + 32) else c)"

definition to_lower :: "string \<Rightarrow> string" where
  "to_lower s = map to_lower_char s"

lemma dropWhile_hd: "dropWhile P xs = y # ys \<Longrightarrow> \<not> P y"
  by (induction xs) (auto split: if_splits)

lemma lstrip_idem [simp]: "lstrip (lstrip s) = lstrip s"
  by (simp add: lstrip_def dropWhile_idem)

lemma lstrip_fixed: "s = [] \<or> \<not> is_space (hd s) \<Longrightarrow> lstrip s = s"
  by (cases s) (auto simp: lstrip_def)

lemma lstrip_hd: "lstrip s \<noteq> [] \<Longrightarrow> \<not> is_space (hd (lstrip s))"
  unfolding lstrip_def by (rule hd_dropWhile)

lemma lstrip_suffix: "\<exists>p. s = p @ lstrip s"
  by (metis lstrip_def takeWhile_dropWhile_id)

lemma strip_hd: "strip s \<noteq> [] \<Longrightarrow> \<not> is_space (hd (strip s))"
proof -
  assume ne: "strip s \<noteq> []"
  obtain p where p: "rev (lstrip s) = p @ lstrip (rev (lstrip s))"
    using lstrip_suffix by blast
  then have eq: "lstrip s = strip s @ rev p"
    by (metis rev_append rev_rev_ident strip_def)
  with ne have "hd (lstrip s) = hd (strip s)" and "lstrip s \<noteq> []" by auto
  then show ?thesis using lstrip_hd by metis
qed

lemma strip_last: "strip s \<noteq> [] \<Longrightarrow> \<not> is_space (last (strip s))"
  unfolding strip_def using lstrip_hd [of "rev (lstrip s)"] by (auto simp: last_rev)

lemma strip_fixed:
  assumes "s = [] \<or> (\<not> is_space (hd s) \<and> \<not> is_space (last s))"
  shows "strip s = s"
proof (cases "s = []")
  case True
  then show ?thesis by (simp add: strip_def lstrip_def)
next
  case False
  with assms have "lstrip s = s" and "lstrip (rev s) = rev s"
    by (auto intro!: lstrip_fixed simp: hd_rev)
  then show ?thesis by (simp add: strip_def)
qed

lemma strip_idem [simp]: "strip (strip s) = strip s"
  using strip_hd [of s] strip_last [of s] by (intro strip_fixed) blast

lemma length_lstrip: "length (lstrip s) \<le> length s"
  by (simp add: lstrip_def length_dropWhile_le)

lemma length_strip: "length (strip s) \<le> length s"
  unfolding strip_def using length_lstrip [of s] length_lstrip [of "rev (lstrip s)"] by simp

text \<open>
  A pattern \<open>^[a-z][C]{0,n}$\<close> used with \<open>fullmatch\<close>: a first letter, then at most \<open>n\<close> characters
  of the class \<open>C\<close>.
\<close>

definition matches_ident :: "(char \<Rightarrow> bool) \<Rightarrow> nat \<Rightarrow> string \<Rightarrow> bool" where
  "matches_ident cls n s =
     (case s of [] \<Rightarrow> False | c # cs \<Rightarrow> is_lower_az c \<and> list_all cls cs \<and> length cs \<le> n)"

text \<open>The two character classes of these patterns: \<open>[a-z0-9_]\<close> and \<open>[a-z0-9_-]\<close>.\<close>

definition ident_char :: "char \<Rightarrow> bool" where
  "ident_char c \<longleftrightarrow> is_lower_az c \<or> is_digit09 c \<or> c = CHR ''_''"

definition ident_dash_char :: "char \<Rightarrow> bool" where
  "ident_dash_char c \<longleftrightarrow> ident_char c \<or> c = CHR ''-''"

lemmas ident_defs =
  matches_ident_def ident_char_def ident_dash_char_def is_lower_az_def is_digit09_def

lemma matches_ident_length: "matches_ident cls n s \<Longrightarrow> 1 \<le> length s \<and> length s \<le> Suc n"
  by (auto simp: matches_ident_def split: list.splits)

section \<open>String enumerations\<close>

text \<open>
  A \<open>StrEnum\<close> is a datatype with its values: \<open>Enum(text)\<close> is the member with that value, and
  raises \<open>ValueError\<close> (here \<open>None\<close>) when there is none.
\<close>

definition enum_of :: "('a \<Rightarrow> string) \<Rightarrow> 'a list \<Rightarrow> string \<Rightarrow> 'a option" where
  "enum_of val members s = find (\<lambda>m. val m = s) members"

lemma enum_of_value:
  assumes "distinct (map val members)" and "m \<in> set members"
  shows "enum_of val members (val m) = Some m"
  using assms unfolding enum_of_def
  by (induction members) (auto simp: image_iff)

lemma enum_of_SomeD: "enum_of val members s = Some m \<Longrightarrow> val m = s \<and> m \<in> set members"
  by (auto simp: enum_of_def find_Some_iff)

section \<open>Substrings and columns\<close>

text \<open>\<open>fragment in key\<close> on strings.\<close>

fun contains_fragment :: "string \<Rightarrow> string \<Rightarrow> bool" where
  "contains_fragment frag [] = (frag = [])"
| "contains_fragment frag (c # s) = (prefix frag (c # s) \<or> contains_fragment frag s)"

text \<open>The range of an \<open>Integer\<close> column.\<close>

definition fits_int4 :: "int \<Rightarrow> bool" where
  "fits_int4 n \<longleftrightarrow> - 2147483648 \<le> n \<and> n \<le> 2147483647"

section \<open>UUIDs\<close>

type_synonym uuid = "128 word"

definition hexdigit :: "nat \<Rightarrow> char" where
  "hexdigit d = (if d < 10 then char_of (48 + d) else char_of (87 + d))"

text \<open>The \<open>w\<close> low hexadecimal digits of \<open>n\<close>, most significant first.\<close>

fun hex_fixed :: "nat \<Rightarrow> nat \<Rightarrow> string" where
  "hex_fixed 0 n = []"
| "hex_fixed (Suc w) n = hex_fixed w (n div 16) @ [hexdigit (n mod 16)]"

text \<open>\<open>str(uuid)\<close>: the groups of 8, 4, 4, 4 and 12 hexadecimal digits, joined by hyphens.\<close>

definition uuid_str :: "uuid \<Rightarrow> string" where
  "uuid_str u =
     (let n = unat u in
      hex_fixed 8 (n div 16 ^ 24) @ ''-'' @ hex_fixed 4 (n div 16 ^ 20) @ ''-'' @
      hex_fixed 4 (n div 16 ^ 16) @ ''-'' @ hex_fixed 4 (n div 16 ^ 12) @ ''-'' @ hex_fixed 12 n)"

lemma length_hex_fixed [simp]: "length (hex_fixed w n) = w"
  by (induction w arbitrary: n) simp_all

lemma length_uuid_str [simp]: "length (uuid_str u) = 36"
  by (simp add: uuid_str_def Let_def)

text \<open>Lexicographic comparison of strings of equal length, one segment at a time.\<close>

lemma less_append_same_length:
  fixes a b c d :: "'a::linorder list"
  assumes "length a = length b"
  shows "a @ c < b @ d \<longleftrightarrow> a < b \<or> (a = b \<and> c < d)"
  using assms by (induction a b rule: list_induct2) auto

lemma hexdigit_less: "i < 16 \<Longrightarrow> j < 16 \<Longrightarrow> hexdigit i < hexdigit j \<longleftrightarrow> i < j"
  by (auto simp: hexdigit_def less_char_def)

lemma hexdigit_eq: "i < 16 \<Longrightarrow> j < 16 \<Longrightarrow> hexdigit i = hexdigit j \<longleftrightarrow> i = j"
  using hexdigit_less [of i j] hexdigit_less [of j i] by (metis less_irrefl linorder_neqE)

lemma digit_split:
  fixes a b x y :: nat
  assumes "x < 16" and "y < 16"
  shows "16 * a + x = 16 * b + y \<longleftrightarrow> a = b \<and> x = y"
    and "16 * a + x < 16 * b + y \<longleftrightarrow> a < b \<or> (a = b \<and> x < y)"
  using assms by arith+

lemma mod_digit: "k mod 16 ^ Suc w = 16 * (k div 16 mod 16 ^ w) + k mod 16" for k :: nat
  by (simp add: mod_mult2_eq)

lemma hex_fixed_eq: "hex_fixed w m = hex_fixed w n \<longleftrightarrow> m mod 16 ^ w = n mod 16 ^ w"
proof (induction w arbitrary: m n)
  case 0
  show ?case by simp
next
  case (Suc w)
  show ?case
    unfolding mod_digit by (simp add: Suc.IH hexdigit_eq digit_split)
qed

lemma hex_fixed_less: "hex_fixed w m < hex_fixed w n \<longleftrightarrow> m mod 16 ^ w < n mod 16 ^ w"
proof (induction w arbitrary: m n)
  case 0
  show ?case by simp
next
  case (Suc w)
  show ?case
    unfolding mod_digit
    by (simp add: Suc.IH less_append_same_length hex_fixed_eq hexdigit_less digit_split)
qed

lemma hex_fixed_add: "hex_fixed (v + w) n = hex_fixed v (n div 16 ^ w) @ hex_fixed w n"
proof (induction w arbitrary: n)
  case 0
  show ?case by simp
next
  case (Suc w)
  then show ?case by (simp add: div_mult2_eq)
qed

lemma hex_fixed_groups:
  "hex_fixed 32 n = hex_fixed 8 (n div 16 ^ 24) @ hex_fixed 4 (n div 16 ^ 20) @
     hex_fixed 4 (n div 16 ^ 16) @ hex_fixed 4 (n div 16 ^ 12) @ hex_fixed 12 n"
  using hex_fixed_add [of 8 24 n] hex_fixed_add [of 4 20 n] hex_fixed_add [of 4 16 n]
    hex_fixed_add [of 4 12 n] by simp

lemma unat_uuid_mod: "unat (u :: uuid) mod 16 ^ 32 = unat u"
proof -
  have "unat u < 2 ^ 128" using unsigned_less [of u, where ?'a = nat] by simp
  also have "(2::nat) ^ 128 = 16 ^ 32" by simp
  finally show ?thesis by simp
qed

text \<open>
  The backend breaks ties by comparing \<open>str(uuid)\<close>. The lowercase digits order as their values and
  the hyphens stand at fixed places, so this is the order of the 128-bit numbers.
\<close>

lemma uuid_str_less: "uuid_str a < uuid_str b \<longleftrightarrow> a < b"
proof -
  have "uuid_str a < uuid_str b \<longleftrightarrow> hex_fixed 32 (unat a) < hex_fixed 32 (unat b)"
    unfolding uuid_str_def Let_def hex_fixed_groups
    by (simp add: less_append_same_length)
  also have "\<dots> \<longleftrightarrow> unat a < unat b"
    by (simp only: hex_fixed_less unat_uuid_mod)
  finally show ?thesis by (simp add: word_less_nat_alt)
qed

lemma uuid_str_eq [simp]: "uuid_str a = uuid_str b \<longleftrightarrow> a = b"
  using uuid_str_less [of a b] uuid_str_less [of b a] by (metis less_irrefl linorder_neqE)

end
