(* ===== verification/Outbox_Domain.thy ===== *)
theory Outbox_Domain
  imports Closeros_Prelude
begin

text \<open>
  The transactional outbox's domain model (\<open>domain/outbox.py\<close>): the job entity with its
  constructor checks, the table of allowed transitions, the retry delay and every operation of
  the job's state machine. A successful operation ends in \<open>dataclasses.replace\<close>, which runs the
  constructor checks again; the model does the same.
\<close>

section \<open>Enumerations\<close>

datatype outbox_job_kind =
    JK_WEBHOOK_NORMALIZE | JK_CONTENT_REDACT | JK_MESSAGE_ANALYZE | JK_NOTIFICATION_DELIVER
  | JK_RETENTION_DELETE | JK_KNOWLEDGE_INDEX | JK_RECONCILIATION_RUN | JK_CSV_IMPORT
  | JK_METRICS_RECALCULATE | JK_PROVIDER_MESSAGE_SEND | JK_PROVIDER_TEMPLATES_SYNC
  | JK_MEDIA_FETCH | JK_MEDIA_SCAN | JK_CRM_SYNC

fun job_kind_value :: "outbox_job_kind \<Rightarrow> string" where
  "job_kind_value JK_WEBHOOK_NORMALIZE = ''webhook.normalize''"
| "job_kind_value JK_CONTENT_REDACT = ''content.redact''"
| "job_kind_value JK_MESSAGE_ANALYZE = ''message.analyze''"
| "job_kind_value JK_NOTIFICATION_DELIVER = ''notification.deliver''"
| "job_kind_value JK_RETENTION_DELETE = ''retention.delete''"
| "job_kind_value JK_KNOWLEDGE_INDEX = ''knowledge.index''"
| "job_kind_value JK_RECONCILIATION_RUN = ''reconciliation.run''"
| "job_kind_value JK_CSV_IMPORT = ''csv.import''"
| "job_kind_value JK_METRICS_RECALCULATE = ''metrics.recalculate''"
| "job_kind_value JK_PROVIDER_MESSAGE_SEND = ''provider.message.send''"
| "job_kind_value JK_PROVIDER_TEMPLATES_SYNC = ''provider.templates.sync''"
| "job_kind_value JK_MEDIA_FETCH = ''media.fetch''"
| "job_kind_value JK_MEDIA_SCAN = ''media.scan''"
| "job_kind_value JK_CRM_SYNC = ''crm.sync''"

definition job_kinds :: "outbox_job_kind list" where
  "job_kinds =
     [JK_WEBHOOK_NORMALIZE, JK_CONTENT_REDACT, JK_MESSAGE_ANALYZE, JK_NOTIFICATION_DELIVER,
      JK_RETENTION_DELETE, JK_KNOWLEDGE_INDEX, JK_RECONCILIATION_RUN, JK_CSV_IMPORT,
      JK_METRICS_RECALCULATE, JK_PROVIDER_MESSAGE_SEND, JK_PROVIDER_TEMPLATES_SYNC,
      JK_MEDIA_FETCH, JK_MEDIA_SCAN, JK_CRM_SYNC]"

datatype outbox_job_state =
    JS_PENDING | JS_PUBLISHING | JS_PUBLISHED | JS_PROCESSING | JS_RETRY_SCHEDULED
  | JS_SUCCEEDED | JS_DEAD_LETTER | JS_CANCELLED

fun job_state_value :: "outbox_job_state \<Rightarrow> string" where
  "job_state_value JS_PENDING = ''pending''"
| "job_state_value JS_PUBLISHING = ''publishing''"
| "job_state_value JS_PUBLISHED = ''published''"
| "job_state_value JS_PROCESSING = ''processing''"
| "job_state_value JS_RETRY_SCHEDULED = ''retry_scheduled''"
| "job_state_value JS_SUCCEEDED = ''succeeded''"
| "job_state_value JS_DEAD_LETTER = ''dead_letter''"
| "job_state_value JS_CANCELLED = ''cancelled''"

definition job_states :: "outbox_job_state list" where
  "job_states =
     [JS_PENDING, JS_PUBLISHING, JS_PUBLISHED, JS_PROCESSING, JS_RETRY_SCHEDULED, JS_SUCCEEDED,
      JS_DEAD_LETTER, JS_CANCELLED]"

datatype outbox_job_phase = PH_PUBLISHER | PH_PROCESSOR

fun job_phase_value :: "outbox_job_phase \<Rightarrow> string" where
  "job_phase_value PH_PUBLISHER = ''publisher''"
| "job_phase_value PH_PROCESSOR = ''processor''"

definition job_phases :: "outbox_job_phase list" where
  "job_phases = [PH_PUBLISHER, PH_PROCESSOR]"

datatype outbox_error_code =
    EC_PUBLISH_FAILED | EC_QUEUE_UNAVAILABLE | EC_HANDLER_FAILED | EC_HANDLER_NOT_IMPLEMENTED
  | EC_HANDLER_TIMEOUT | EC_RESOURCE_UNAVAILABLE | EC_STALE_CLAIM | EC_TRANSITION_INVALID
  | EC_CLAIM_EXPIRED | EC_MAX_ATTEMPTS_EXCEEDED | EC_MALFORMED_PROVIDER_EVENT
  | EC_UNSUPPORTED_OPERATION | EC_MISSING_CANONICAL_PARENT | EC_ADAPTER_UNAVAILABLE

fun error_code_value :: "outbox_error_code \<Rightarrow> string" where
  "error_code_value EC_PUBLISH_FAILED = ''publish_failed''"
| "error_code_value EC_QUEUE_UNAVAILABLE = ''queue_unavailable''"
| "error_code_value EC_HANDLER_FAILED = ''handler_failed''"
| "error_code_value EC_HANDLER_NOT_IMPLEMENTED = ''handler_not_implemented''"
| "error_code_value EC_HANDLER_TIMEOUT = ''handler_timeout''"
| "error_code_value EC_RESOURCE_UNAVAILABLE = ''resource_unavailable''"
| "error_code_value EC_STALE_CLAIM = ''stale_claim''"
| "error_code_value EC_TRANSITION_INVALID = ''transition_invalid''"
| "error_code_value EC_CLAIM_EXPIRED = ''claim_expired''"
| "error_code_value EC_MAX_ATTEMPTS_EXCEEDED = ''max_attempts_exceeded''"
| "error_code_value EC_MALFORMED_PROVIDER_EVENT = ''malformed_provider_event''"
| "error_code_value EC_UNSUPPORTED_OPERATION = ''unsupported_operation''"
| "error_code_value EC_MISSING_CANONICAL_PARENT = ''missing_canonical_parent''"
| "error_code_value EC_ADAPTER_UNAVAILABLE = ''adapter_unavailable''"

definition error_codes :: "outbox_error_code list" where
  "error_codes =
     [EC_PUBLISH_FAILED, EC_QUEUE_UNAVAILABLE, EC_HANDLER_FAILED, EC_HANDLER_NOT_IMPLEMENTED,
      EC_HANDLER_TIMEOUT, EC_RESOURCE_UNAVAILABLE, EC_STALE_CLAIM, EC_TRANSITION_INVALID,
      EC_CLAIM_EXPIRED, EC_MAX_ATTEMPTS_EXCEEDED, EC_MALFORMED_PROVIDER_EVENT,
      EC_UNSUPPORTED_OPERATION, EC_MISSING_CANONICAL_PARENT, EC_ADAPTER_UNAVAILABLE]"

datatype outbox_attempt_outcome = AO_SUCCEEDED | AO_FAILED | AO_RECLAIMED

fun attempt_outcome_value :: "outbox_attempt_outcome \<Rightarrow> string" where
  "attempt_outcome_value AO_SUCCEEDED = ''succeeded''"
| "attempt_outcome_value AO_FAILED = ''failed''"
| "attempt_outcome_value AO_RECLAIMED = ''reclaimed''"

definition attempt_outcomes :: "outbox_attempt_outcome list" where
  "attempt_outcomes = [AO_SUCCEEDED, AO_FAILED, AO_RECLAIMED]"

section \<open>Constants and the transition table\<close>

definition MAX_PRIORITY :: int where "MAX_PRIORITY = 1000"
definition MIN_PRIORITY :: int where "MIN_PRIORITY = 0"
definition DEFAULT_PRIORITY :: int where "DEFAULT_PRIORITY = 100"
definition DEFAULT_MAX_ATTEMPTS :: int where "DEFAULT_MAX_ATTEMPTS = 10"
definition MIN_SCHEMA_VERSION :: int where "MIN_SCHEMA_VERSION = 1"
definition MAX_SCHEMA_VERSION :: int where "MAX_SCHEMA_VERSION = 1000"
definition PUBLISHER_LEASE_SECONDS :: int where "PUBLISHER_LEASE_SECONDS = 60"
definition PROCESSOR_LEASE_SECONDS :: int where "PROCESSOR_LEASE_SECONDS = 300"
definition RETRY_BASE_DELAY_SECONDS :: int where "RETRY_BASE_DELAY_SECONDS = 30"
definition RETRY_MAX_DELAY_SECONDS :: int where "RETRY_MAX_DELAY_SECONDS = 3600"
definition RETRY_BACKOFF_MULTIPLIER :: int where "RETRY_BACKOFF_MULTIPLIER = 2"

lemmas outbox_constants =
  MAX_PRIORITY_def MIN_PRIORITY_def DEFAULT_PRIORITY_def DEFAULT_MAX_ATTEMPTS_def
  MIN_SCHEMA_VERSION_def MAX_SCHEMA_VERSION_def PUBLISHER_LEASE_SECONDS_def
  PROCESSOR_LEASE_SECONDS_def RETRY_BASE_DELAY_SECONDS_def RETRY_MAX_DELAY_SECONDS_def
  RETRY_BACKOFF_MULTIPLIER_def

definition GLOBAL_JOB_KINDS :: "outbox_job_kind list" where
  "GLOBAL_JOB_KINDS = [JK_RECONCILIATION_RUN]"

fun ALLOWED_TRANSITIONS :: "outbox_job_state \<Rightarrow> outbox_job_state list" where
  "ALLOWED_TRANSITIONS JS_PENDING = [JS_PUBLISHING, JS_CANCELLED]"
| "ALLOWED_TRANSITIONS JS_PUBLISHING =
     [JS_PUBLISHED, JS_RETRY_SCHEDULED, JS_DEAD_LETTER, JS_PENDING]"
| "ALLOWED_TRANSITIONS JS_PUBLISHED = [JS_PROCESSING]"
| "ALLOWED_TRANSITIONS JS_PROCESSING =
     [JS_SUCCEEDED, JS_RETRY_SCHEDULED, JS_DEAD_LETTER, JS_PUBLISHED]"
| "ALLOWED_TRANSITIONS JS_RETRY_SCHEDULED = [JS_PUBLISHING, JS_CANCELLED]"
| "ALLOWED_TRANSITIONS JS_SUCCEEDED = []"
| "ALLOWED_TRANSITIONS JS_DEAD_LETTER = [JS_PENDING]"
| "ALLOWED_TRANSITIONS JS_CANCELLED = []"

text \<open>
  The exceptions of the module. \<open>Outbox_TypeError\<close> is Python's \<open>TypeError\<close> when a naive and an
  aware timestamp are compared.
\<close>

datatype outbox_error =
    OutboxInvariantError string
  | OutboxTransitionError string
  | OutboxClaimError string
  | Outbox_TypeError string

section \<open>Entities\<close>

record outbox_job_reference =
  ref_resource_type :: string
  ref_resource_id :: uuid
  ref_schema_version :: int
  ref_tenant_id :: "uuid option"
  ref_secondary_id :: "uuid option"

record outbox_job =
  oj_id :: uuid
  oj_tenant_id :: "uuid option"
  oj_job_kind :: outbox_job_kind
  oj_reference :: outbox_job_reference
  oj_deduplication_key :: string
  oj_priority :: int
  oj_state :: outbox_job_state
  oj_available_at :: datetime
  oj_created_at :: datetime
  oj_attempt_count :: int
  oj_max_attempts :: int
  oj_version :: int
  oj_claim_token :: "uuid option"
  oj_claimed_by :: "string option"
  oj_claimed_at :: "datetime option"
  oj_claim_expires_at :: "datetime option"
  oj_published_at :: "datetime option"
  oj_processing_started_at :: "datetime option"
  oj_completed_at :: "datetime option"
  oj_last_error_code :: "outbox_error_code option"

record outbox_job_attempt =
  at_id :: uuid
  at_job_id :: uuid
  at_attempt_number :: int
  at_phase :: outbox_job_phase
  at_started_at :: datetime
  at_finished_at :: datetime
  at_outcome :: outbox_attempt_outcome
  at_claim_token :: uuid
  at_error_code :: "outbox_error_code option"

section \<open>Validators\<close>

definition validate_aware_datetime :: "string \<Rightarrow> datetime \<Rightarrow> outbox_error + unit" where
  "validate_aware_datetime field_name value =
     require_aware (OutboxInvariantError (field_name @ '' must be timezone-aware'')) value"

definition validate_deduplication_key :: "string \<Rightarrow> outbox_error + unit" where
  "validate_deduplication_key value =
     raise_if (\<not> matches_ident ident_dash_char 127 value)
       (OutboxInvariantError ''deduplication_key format is invalid'')"

definition validate_worker_id :: "string \<Rightarrow> outbox_error + string" where
  "validate_worker_id value =
     (if \<not> matches_ident ident_dash_char 63 value
      then Inl (OutboxInvariantError ''worker_id format is invalid'') else Inr value)"

definition validate_resource_type :: "string \<Rightarrow> outbox_error + unit" where
  "validate_resource_type value =
     raise_if (\<not> matches_ident ident_char 63 value)
       (OutboxInvariantError ''resource_type format is invalid'')"

definition validate_priority :: "int \<Rightarrow> outbox_error + unit" where
  "validate_priority value =
     raise_if (\<not> (MIN_PRIORITY \<le> value \<and> value \<le> MAX_PRIORITY))
       (OutboxInvariantError ''priority is out of bounds'')"

definition validate_attempt_count :: "int \<Rightarrow> outbox_error + unit" where
  "validate_attempt_count value =
     raise_if (value < 0) (OutboxInvariantError ''attempt_count must not be negative'')"

definition validate_max_attempts :: "int \<Rightarrow> outbox_error + unit" where
  "validate_max_attempts value =
     raise_if (value < 1) (OutboxInvariantError ''max_attempts must be positive'')"

definition validate_schema_version :: "int \<Rightarrow> outbox_error + unit" where
  "validate_schema_version value =
     raise_if (\<not> (MIN_SCHEMA_VERSION \<le> value \<and> value \<le> MAX_SCHEMA_VERSION))
       (OutboxInvariantError ''schema_version is out of bounds'')"

definition validate_version :: "int \<Rightarrow> outbox_error + unit" where
  "validate_version value =
     raise_if (value < 1) (OutboxInvariantError ''version must be positive'')"

definition validate_job_tenant_scope ::
  "outbox_job_kind \<Rightarrow> uuid option \<Rightarrow> outbox_error + unit" where
  "validate_job_tenant_scope job_kind tenant_id =
     (if job_kind \<in> set GLOBAL_JOB_KINDS
      then raise_if (tenant_id \<noteq> None)
             (OutboxInvariantError ''global job kinds require tenant_id to be absent'')
      else raise_if (tenant_id = None)
             (OutboxInvariantError ''tenant-scoped job kinds require tenant_id''))"

definition assert_transition ::
  "outbox_job_state \<Rightarrow> outbox_job_state \<Rightarrow> outbox_error + unit" where
  "assert_transition current target =
     raise_if (target \<notin> set (ALLOWED_TRANSITIONS current))
       (OutboxTransitionError ''outbox state transition is not permitted'')"

definition assert_claim_token :: "outbox_job \<Rightarrow> uuid \<Rightarrow> outbox_error + unit" where
  "assert_claim_token job claim_token =
     raise_if (oj_claim_token job \<noteq> Some claim_token)
       (OutboxClaimError ''claim token does not match'')"

text \<open>Python's comparison of two timestamps, which raises on a naive/aware pair.\<close>

definition compare_lt :: "datetime \<Rightarrow> datetime \<Rightarrow> outbox_error + bool" where
  "compare_lt a b =
     (if aware a \<noteq> aware b
      then Inl (Outbox_TypeError ''can't compare offset-naive and offset-aware datetimes'')
      else Inr (a < b))"

definition assert_claim_not_expired :: "outbox_job \<Rightarrow> datetime \<Rightarrow> outbox_error + unit" where
  "assert_claim_not_expired job now =
     (case oj_claim_expires_at job of
        None \<Rightarrow> Inl (OutboxClaimError ''claim expiry is missing'')
      | Some expires_at \<Rightarrow>
          bindE (compare_lt now expires_at) (\<lambda>before.
          raise_if (\<not> before) (OutboxClaimError ''claim lease has expired'')))"

definition assert_expected_version :: "outbox_job \<Rightarrow> int \<Rightarrow> outbox_error + unit" where
  "assert_expected_version job expected_version =
     raise_if (oj_version job \<noteq> expected_version)
       (OutboxClaimError ''outbox job version does not match'')"

definition calculate_retry_delay_seconds :: "int \<Rightarrow> outbox_error + int" where
  "calculate_retry_delay_seconds attempt_count =
     (if attempt_count < 1
      then Inl (OutboxInvariantError ''attempt_count must be positive for retry delay'')
      else let exponent = nat (attempt_count - 1);
               delay = RETRY_BASE_DELAY_SECONDS * RETRY_BACKOFF_MULTIPLIER ^ exponent
           in Inr (min RETRY_MAX_DELAY_SECONDS delay))"

section \<open>Constructors\<close>

definition OutboxJobReference_post_init ::
  "outbox_job_reference \<Rightarrow> outbox_error + outbox_job_reference" where
  "OutboxJobReference_post_init ref =
     bindE (validate_resource_type (ref_resource_type ref)) (\<lambda>_.
     bindE (validate_schema_version (ref_schema_version ref)) (\<lambda>_.
     Inr ref))"

definition OutboxJob_post_init :: "outbox_job \<Rightarrow> outbox_error + outbox_job" where
  "OutboxJob_post_init job =
     bindE (validate_job_tenant_scope (oj_job_kind job) (oj_tenant_id job)) (\<lambda>_.
     bindE (raise_if (ref_tenant_id (oj_reference job) \<noteq> None \<and>
                      ref_tenant_id (oj_reference job) \<noteq> oj_tenant_id job)
              (OutboxInvariantError ''reference tenant_id must match job tenant_id'')) (\<lambda>_.
     bindE (validate_deduplication_key (oj_deduplication_key job)) (\<lambda>_.
     bindE (validate_priority (oj_priority job)) (\<lambda>_.
     bindE (validate_aware_datetime ''available_at'' (oj_available_at job)) (\<lambda>_.
     bindE (validate_aware_datetime ''created_at'' (oj_created_at job)) (\<lambda>_.
     bindE (validate_attempt_count (oj_attempt_count job)) (\<lambda>_.
     bindE (validate_max_attempts (oj_max_attempts job)) (\<lambda>_.
     bindE (validate_version (oj_version job)) (\<lambda>_.
     bindE (when_some (oj_claimed_by job)
              (\<lambda>w. bindE (validate_worker_id w) (\<lambda>_. Inr ()))) (\<lambda>_.
     bindE (when_some (oj_claimed_at job) (validate_aware_datetime ''claimed_at'')) (\<lambda>_.
     bindE (when_some (oj_claim_expires_at job) (validate_aware_datetime ''claim_expires_at''))
       (\<lambda>_.
     bindE (when_some (oj_published_at job) (validate_aware_datetime ''published_at'')) (\<lambda>_.
     bindE (when_some (oj_processing_started_at job)
              (validate_aware_datetime ''processing_started_at'')) (\<lambda>_.
     bindE (when_some (oj_completed_at job) (validate_aware_datetime ''completed_at'')) (\<lambda>_.
     Inr job)))))))))))))))"

definition OutboxJobAttempt_post_init ::
  "outbox_job_attempt \<Rightarrow> outbox_error + outbox_job_attempt" where
  "OutboxJobAttempt_post_init at =
     bindE (raise_if (at_attempt_number at < 1)
              (OutboxInvariantError ''attempt_number must be a positive integer'')) (\<lambda>_.
     bindE (validate_aware_datetime ''started_at'' (at_started_at at)) (\<lambda>_.
     bindE (validate_aware_datetime ''finished_at'' (at_finished_at at)) (\<lambda>_.
     bindE (raise_if (at_finished_at at < at_started_at at)
              (OutboxInvariantError ''finished_at must not be earlier than started_at'')) (\<lambda>_.
     Inr at))))"

section \<open>Operations of the state machine\<close>

definition build_outbox_job ::
  "uuid \<Rightarrow> uuid option \<Rightarrow> outbox_job_kind \<Rightarrow> outbox_job_reference \<Rightarrow> string \<Rightarrow> datetime \<Rightarrow>
   datetime option \<Rightarrow> int \<Rightarrow> int \<Rightarrow> outbox_error + outbox_job" where
  "build_outbox_job job_id tenant_id job_kind reference deduplication_key created_at available_at
     priority max_attempts =
     (let resolved_available_at = (case available_at of None \<Rightarrow> created_at | Some a \<Rightarrow> a) in
      OutboxJob_post_init
        \<lparr>oj_id = job_id, oj_tenant_id = tenant_id, oj_job_kind = job_kind,
         oj_reference = reference, oj_deduplication_key = deduplication_key,
         oj_priority = priority, oj_state = JS_PENDING, oj_available_at = resolved_available_at,
         oj_created_at = created_at, oj_attempt_count = 0, oj_max_attempts = max_attempts,
         oj_version = 1, oj_claim_token = None, oj_claimed_by = None, oj_claimed_at = None,
         oj_claim_expires_at = None, oj_published_at = None, oj_processing_started_at = None,
         oj_completed_at = None, oj_last_error_code = None\<rparr>)"

definition claim_for_publishing ::
  "outbox_job \<Rightarrow> uuid \<Rightarrow> string \<Rightarrow> datetime \<Rightarrow> int \<Rightarrow> outbox_error + outbox_job" where
  "claim_for_publishing job claim_token worker_id now expected_version =
     bindE (assert_expected_version job expected_version) (\<lambda>_.
     bindE (raise_if (oj_state job \<notin> {JS_PENDING, JS_RETRY_SCHEDULED})
              (OutboxTransitionError ''job is not claimable for publishing'')) (\<lambda>_.
     bindE (compare_lt now (oj_available_at job)) (\<lambda>early.
     bindE (raise_if early (OutboxTransitionError ''job is not yet available'')) (\<lambda>_.
     bindE (assert_transition (oj_state job) JS_PUBLISHING) (\<lambda>_.
     bindE (validate_worker_id worker_id) (\<lambda>validated_worker_id.
     OutboxJob_post_init
       (job\<lparr>oj_state := JS_PUBLISHING, oj_claim_token := Some claim_token,
            oj_claimed_by := Some validated_worker_id, oj_claimed_at := Some now,
            oj_claim_expires_at :=
              Some (dt_plus now (timedelta_seconds PUBLISHER_LEASE_SECONDS)),
            oj_version := oj_version job + 1\<rparr>)))))))"

definition mark_published ::
  "outbox_job \<Rightarrow> uuid \<Rightarrow> datetime \<Rightarrow> int \<Rightarrow> outbox_error + outbox_job" where
  "mark_published job claim_token now expected_version =
     bindE (assert_expected_version job expected_version) (\<lambda>_.
     bindE (raise_if (oj_state job \<noteq> JS_PUBLISHING)
              (OutboxTransitionError ''job is not in publishing state'')) (\<lambda>_.
     bindE (assert_claim_token job claim_token) (\<lambda>_.
     bindE (assert_claim_not_expired job now) (\<lambda>_.
     bindE (assert_transition (oj_state job) JS_PUBLISHED) (\<lambda>_.
     OutboxJob_post_init
       (job\<lparr>oj_state := JS_PUBLISHED, oj_published_at := Some now, oj_claim_token := None,
            oj_claimed_by := None, oj_claimed_at := None, oj_claim_expires_at := None,
            oj_last_error_code := None, oj_version := oj_version job + 1\<rparr>))))))"

definition schedule_retry ::
  "outbox_job \<Rightarrow> uuid \<Rightarrow> outbox_job_phase \<Rightarrow> outbox_error_code \<Rightarrow> datetime \<Rightarrow> int \<Rightarrow>
   outbox_error + outbox_job" where
  "schedule_retry job claim_token phase error_code now expected_version =
     bindE (assert_expected_version job expected_version) (\<lambda>_.
     bindE (raise_if (phase = PH_PUBLISHER \<and> oj_state job \<noteq> JS_PUBLISHING)
              (OutboxTransitionError ''job is not in publishing state'')) (\<lambda>_.
     bindE (raise_if (phase = PH_PROCESSOR \<and> oj_state job \<noteq> JS_PROCESSING)
              (OutboxTransitionError ''job is not in processing state'')) (\<lambda>_.
     bindE (assert_claim_token job claim_token) (\<lambda>_.
     bindE (assert_claim_not_expired job now) (\<lambda>_.
     let next_attempt_count = oj_attempt_count job + 1 in
     bindE (raise_if (oj_max_attempts job \<le> next_attempt_count)
              (OutboxTransitionError ''retry budget exhausted'')) (\<lambda>_.
     bindE (assert_transition (oj_state job) JS_RETRY_SCHEDULED) (\<lambda>_.
     bindE (calculate_retry_delay_seconds next_attempt_count) (\<lambda>delay_seconds.
     OutboxJob_post_init
       (job\<lparr>oj_state := JS_RETRY_SCHEDULED, oj_attempt_count := next_attempt_count,
            oj_available_at := dt_plus now (timedelta_seconds delay_seconds),
            oj_claim_token := None, oj_claimed_by := None, oj_claimed_at := None,
            oj_claim_expires_at := None,
            oj_processing_started_at :=
              (if phase = PH_PROCESSOR then None else oj_processing_started_at job),
            oj_published_at := (if phase = PH_PROCESSOR then None else oj_published_at job),
            oj_last_error_code := Some error_code, oj_version := oj_version job + 1\<rparr>)))))))))"

definition mark_dead_letter ::
  "outbox_job \<Rightarrow> uuid \<Rightarrow> outbox_error_code \<Rightarrow> datetime \<Rightarrow> int \<Rightarrow> outbox_error + outbox_job" where
  "mark_dead_letter job claim_token error_code now expected_version =
     bindE (assert_expected_version job expected_version) (\<lambda>_.
     bindE (raise_if (oj_state job \<notin> {JS_PUBLISHING, JS_PROCESSING})
              (OutboxTransitionError ''job is not in a dead-letterable state'')) (\<lambda>_.
     bindE (assert_claim_token job claim_token) (\<lambda>_.
     bindE (assert_claim_not_expired job now) (\<lambda>_.
     bindE (assert_transition (oj_state job) JS_DEAD_LETTER) (\<lambda>_.
     OutboxJob_post_init
       (job\<lparr>oj_state := JS_DEAD_LETTER, oj_completed_at := Some now, oj_claim_token := None,
            oj_claimed_by := None, oj_claimed_at := None, oj_claim_expires_at := None,
            oj_last_error_code := Some error_code, oj_version := oj_version job + 1\<rparr>))))))"

definition claim_for_processing ::
  "outbox_job \<Rightarrow> uuid \<Rightarrow> string \<Rightarrow> datetime \<Rightarrow> int \<Rightarrow> outbox_error + outbox_job" where
  "claim_for_processing job claim_token worker_id now expected_version =
     bindE (assert_expected_version job expected_version) (\<lambda>_.
     bindE (raise_if (oj_state job \<noteq> JS_PUBLISHED)
              (OutboxTransitionError ''job is not claimable for processing'')) (\<lambda>_.
     bindE (compare_lt now (oj_available_at job)) (\<lambda>early.
     bindE (raise_if early (OutboxTransitionError ''job is not yet available'')) (\<lambda>_.
     bindE (assert_transition (oj_state job) JS_PROCESSING) (\<lambda>_.
     bindE (validate_worker_id worker_id) (\<lambda>validated_worker_id.
     OutboxJob_post_init
       (job\<lparr>oj_state := JS_PROCESSING, oj_claim_token := Some claim_token,
            oj_claimed_by := Some validated_worker_id, oj_claimed_at := Some now,
            oj_claim_expires_at :=
              Some (dt_plus now (timedelta_seconds PROCESSOR_LEASE_SECONDS)),
            oj_processing_started_at := Some now, oj_version := oj_version job + 1\<rparr>)))))))"

definition mark_succeeded ::
  "outbox_job \<Rightarrow> uuid \<Rightarrow> datetime \<Rightarrow> int \<Rightarrow> outbox_error + outbox_job" where
  "mark_succeeded job claim_token now expected_version =
     bindE (assert_expected_version job expected_version) (\<lambda>_.
     bindE (raise_if (oj_state job \<noteq> JS_PROCESSING)
              (OutboxTransitionError ''job is not in processing state'')) (\<lambda>_.
     bindE (assert_claim_token job claim_token) (\<lambda>_.
     bindE (assert_claim_not_expired job now) (\<lambda>_.
     bindE (assert_transition (oj_state job) JS_SUCCEEDED) (\<lambda>_.
     OutboxJob_post_init
       (job\<lparr>oj_state := JS_SUCCEEDED, oj_completed_at := Some now, oj_claim_token := None,
            oj_claimed_by := None, oj_claimed_at := None, oj_claim_expires_at := None,
            oj_last_error_code := None, oj_version := oj_version job + 1\<rparr>))))))"

definition recover_expired_publisher_claim ::
  "outbox_job \<Rightarrow> datetime \<Rightarrow> outbox_error + outbox_job" where
  "recover_expired_publisher_claim job now =
     bindE (raise_if (oj_state job \<noteq> JS_PUBLISHING)
              (OutboxTransitionError ''job is not in publishing state'')) (\<lambda>_.
     bindE (case oj_claim_expires_at job of
              None \<Rightarrow> Inl (OutboxTransitionError ''publisher claim has not expired'')
            | Some expires_at \<Rightarrow>
                bindE (compare_lt now expires_at) (\<lambda>before.
                raise_if before (OutboxTransitionError ''publisher claim has not expired''))) (\<lambda>_.
     bindE (assert_transition (oj_state job) JS_PENDING) (\<lambda>_.
     OutboxJob_post_init
       (job\<lparr>oj_state := JS_PENDING, oj_claim_token := None, oj_claimed_by := None,
            oj_claimed_at := None, oj_claim_expires_at := None,
            oj_version := oj_version job + 1\<rparr>))))"

definition recover_expired_processor_claim ::
  "outbox_job \<Rightarrow> datetime \<Rightarrow> outbox_error + outbox_job" where
  "recover_expired_processor_claim job now =
     bindE (raise_if (oj_state job \<noteq> JS_PROCESSING)
              (OutboxTransitionError ''job is not in processing state'')) (\<lambda>_.
     bindE (case oj_claim_expires_at job of
              None \<Rightarrow> Inl (OutboxTransitionError ''processor claim has not expired'')
            | Some expires_at \<Rightarrow>
                bindE (compare_lt now expires_at) (\<lambda>before.
                raise_if before (OutboxTransitionError ''processor claim has not expired''))) (\<lambda>_.
     bindE (assert_transition (oj_state job) JS_PUBLISHED) (\<lambda>_.
     OutboxJob_post_init
       (job\<lparr>oj_state := JS_PUBLISHED, oj_claim_token := None, oj_claimed_by := None,
            oj_claimed_at := None, oj_claim_expires_at := None,
            oj_processing_started_at := None, oj_version := oj_version job + 1\<rparr>))))"

definition renew_processor_claim ::
  "outbox_job \<Rightarrow> uuid \<Rightarrow> datetime \<Rightarrow> int \<Rightarrow> outbox_error + outbox_job" where
  "renew_processor_claim job claim_token now expected_version =
     bindE (assert_expected_version job expected_version) (\<lambda>_.
     bindE (raise_if (oj_state job \<noteq> JS_PROCESSING)
              (OutboxTransitionError ''job is not in processing state'')) (\<lambda>_.
     bindE (assert_claim_token job claim_token) (\<lambda>_.
     bindE (assert_claim_not_expired job now) (\<lambda>_.
     OutboxJob_post_init
       (job\<lparr>oj_claim_expires_at :=
              Some (dt_plus now (timedelta_seconds PROCESSOR_LEASE_SECONDS)),
            oj_version := oj_version job + 1\<rparr>)))))"

definition requeue_dead_letter :: "outbox_job \<Rightarrow> datetime \<Rightarrow> outbox_error + outbox_job" where
  "requeue_dead_letter job now =
     bindE (raise_if (oj_state job \<noteq> JS_DEAD_LETTER)
              (OutboxTransitionError ''job is not in dead letter state'')) (\<lambda>_.
     bindE (assert_transition (oj_state job) JS_PENDING) (\<lambda>_.
     OutboxJob_post_init
       (job\<lparr>oj_state := JS_PENDING, oj_attempt_count := 0, oj_available_at := now,
            oj_completed_at := None, oj_published_at := None,
            oj_processing_started_at := None, oj_claim_token := None, oj_claimed_by := None,
            oj_claimed_at := None, oj_claim_expires_at := None, oj_last_error_code := None,
            oj_version := oj_version job + 1\<rparr>)))"

end
