(* ===== verification/Outbox_Machine.thy ===== *)
theory Outbox_Machine
  imports Outbox_Domain
begin

text \<open>
  The outbox job's state machine as a whole: what the constructor guarantees, when each operation
  succeeds and with which result, the contracts the operations share (as locales, interpreted on
  every operation), runs of operations, and the properties of every reachable job.
\<close>

section \<open>What the constructor guarantees\<close>

definition reference_ok :: "outbox_job_reference \<Rightarrow> bool" where
  "reference_ok ref \<longleftrightarrow>
     matches_ident ident_char 63 (ref_resource_type ref) \<and>
     1 \<le> ref_schema_version ref \<and> ref_schema_version ref \<le> 1000"

definition job_ok :: "outbox_job \<Rightarrow> bool" where
  "job_ok job \<longleftrightarrow>
     (oj_job_kind job = JK_RECONCILIATION_RUN \<longleftrightarrow> oj_tenant_id job = None) \<and>
     (ref_tenant_id (oj_reference job) = None \<or>
      ref_tenant_id (oj_reference job) = oj_tenant_id job) \<and>
     matches_ident ident_dash_char 127 (oj_deduplication_key job) \<and>
     0 \<le> oj_priority job \<and> oj_priority job \<le> 1000 \<and>
     aware (oj_available_at job) \<and> aware (oj_created_at job) \<and>
     0 \<le> oj_attempt_count job \<and> 1 \<le> oj_max_attempts job \<and> 1 \<le> oj_version job \<and>
     pred_option (matches_ident ident_dash_char 63) (oj_claimed_by job) \<and>
     pred_option aware (oj_claimed_at job) \<and> pred_option aware (oj_claim_expires_at job) \<and>
     pred_option aware (oj_published_at job) \<and>
     pred_option aware (oj_processing_started_at job) \<and> pred_option aware (oj_completed_at job)"

definition attempt_ok :: "outbox_job_attempt \<Rightarrow> bool" where
  "attempt_ok at \<longleftrightarrow>
     1 \<le> at_attempt_number at \<and> aware (at_started_at at) \<and> aware (at_finished_at at) \<and>
     at_started_at at \<le> at_finished_at at"

lemmas validator_defs =
  validate_aware_datetime_def validate_deduplication_key_def validate_worker_id_def
  validate_resource_type_def validate_priority_def validate_attempt_count_def
  validate_max_attempts_def validate_schema_version_def validate_version_def
  validate_job_tenant_scope_def GLOBAL_JOB_KINDS_def

lemma validate_worker_id_Inr_iff [result_simps]:
  "validate_worker_id w = Inr w' \<longleftrightarrow> matches_ident ident_dash_char 63 w \<and> w' = w"
  by (auto simp: validate_worker_id_def)

lemma reference_post_init_Inr_iff:
  "OutboxJobReference_post_init ref = Inr ref' \<longleftrightarrow> reference_ok ref \<and> ref' = ref"
  by (auto simp: OutboxJobReference_post_init_def validator_defs reference_ok_def result_simps
      outbox_constants)

lemma when_some_pred_option:
  "(\<forall>v. x = Some v \<longrightarrow> P v) \<longleftrightarrow> pred_option P x"
  by (cases x) simp_all

lemma tenant_scope_Inr_iff [result_simps]:
  "validate_job_tenant_scope k t = Inr u \<longleftrightarrow> (k = JK_RECONCILIATION_RUN \<longleftrightarrow> t = None)"
  by (auto simp: validator_defs result_simps)

lemma job_post_init_Inr_iff [result_simps]:
  "OutboxJob_post_init job = Inr job' \<longleftrightarrow> job_ok job \<and> job' = job"
  unfolding OutboxJob_post_init_def job_ok_def
  by (simp add: result_simps validate_aware_datetime_def validate_deduplication_key_def
      validate_priority_def validate_attempt_count_def validate_max_attempts_def
      validate_version_def outbox_constants when_some_pred_option not_less)
     blast

lemma attempt_post_init_Inr_iff:
  "OutboxJobAttempt_post_init at = Inr at' \<longleftrightarrow> attempt_ok at \<and> at' = at"
  by (auto simp: OutboxJobAttempt_post_init_def attempt_ok_def result_simps validator_defs)

section \<open>When each operation succeeds\<close>

text \<open>The delay in seconds after the failed attempt number \<open>n\<close>, as the documentation gives it.\<close>

definition backoff :: "int \<Rightarrow> int" where
  "backoff n = min 3600 (30 * 2 ^ nat (n - 1))"

lemma calculate_retry_delay_Inr_iff [result_simps]:
  "calculate_retry_delay_seconds n = Inr d \<longleftrightarrow> 1 \<le> n \<and> d = backoff n"
  by (auto simp: calculate_retry_delay_seconds_def outbox_constants backoff_def)

lemma not_expired_Inr_iff:
  "assert_claim_not_expired job now = Inr u \<longleftrightarrow>
     (\<exists>e. oj_claim_expires_at job = Some e \<and> aware now = aware e \<and> now < e)"
  by (auto simp: assert_claim_not_expired_def compare_lt_def result_simps
      split: option.splits if_splits)

lemma compare_lt_Inr_iff [result_simps]:
  "compare_lt a b = Inr r \<longleftrightarrow> aware a = aware b \<and> r = (a < b)"
  by (auto simp: compare_lt_def)

lemma expected_version_Inr_iff [result_simps]:
  "assert_expected_version job v = Inr u \<longleftrightarrow> oj_version job = v"
  by (simp add: assert_expected_version_def result_simps)

lemma claim_token_Inr_iff [result_simps]:
  "assert_claim_token job tok = Inr u \<longleftrightarrow> oj_claim_token job = Some tok"
  by (simp add: assert_claim_token_def result_simps)

lemma transition_Inr_iff [result_simps]:
  "assert_transition s t = Inr u \<longleftrightarrow> t \<in> set (ALLOWED_TRANSITIONS s)"
  by (simp add: assert_transition_def result_simps)

text \<open>The lease of a job at a time: it has an expiry and the time is before it.\<close>

definition lease_live :: "outbox_job \<Rightarrow> datetime \<Rightarrow> bool" where
  "lease_live job now \<longleftrightarrow>
     aware now \<and> (\<exists>e. oj_claim_expires_at job = Some e \<and> now < e)"

definition lease_over :: "outbox_job \<Rightarrow> datetime \<Rightarrow> bool" where
  "lease_over job now \<longleftrightarrow>
     aware now \<and> (\<exists>e. oj_claim_expires_at job = Some e \<and> e \<le> now)"

lemma not_expired_iff_lease_live:
  assumes "job_ok job"
  shows "assert_claim_not_expired job now = Inr u \<longleftrightarrow> lease_live job now"
  using assms by (auto simp: not_expired_Inr_iff lease_live_def job_ok_def)

lemma lease_live_aware: "lease_live job now \<Longrightarrow> aware now"
  by (simp add: lease_live_def)

lemma attempts_nonneg: "job_ok job \<Longrightarrow> 0 \<le> oj_attempt_count job"
  by (simp add: job_ok_def)

lemma lease_live_not_over: "lease_live job now \<Longrightarrow> \<not> lease_over job now"
  by (auto simp: lease_live_def lease_over_def)

lemma available_aware: "job_ok job \<Longrightarrow> aware (oj_available_at job)"
  by (simp add: job_ok_def)

lemma expiry_aware: "job_ok job \<Longrightarrow> oj_claim_expires_at job = Some e \<Longrightarrow> aware e"
  by (simp add: job_ok_def)

lemma claim_for_publishing_Inr_iff:
  assumes "job_ok job"
  shows "claim_for_publishing job tok w now v = Inr job' \<longleftrightarrow>
     oj_version job = v \<and> oj_state job \<in> {JS_PENDING, JS_RETRY_SCHEDULED} \<and> aware now \<and>
     oj_available_at job \<le> now \<and> matches_ident ident_dash_char 63 w \<and>
     job' = job\<lparr>oj_state := JS_PUBLISHING, oj_claim_token := Some tok, oj_claimed_by := Some w,
       oj_claimed_at := Some now, oj_claim_expires_at := Some (dt_plus now (timedelta_seconds 60)),
       oj_version := oj_version job + 1\<rparr>"
    (is "_ \<longleftrightarrow> ?g0 \<and> ?g1 \<and> ?g2 \<and> ?g3 \<and> ?g4 \<and> job' = ?new")
proof -
  have ok: "job_ok ?new \<longleftrightarrow> matches_ident ident_dash_char 63 w \<and> aware now" using assms by (simp add: job_ok_def)
  show ?thesis
    unfolding claim_for_publishing_def
    using ok available_aware [OF assms] by (auto simp: result_simps not_less outbox_constants)
qed

lemma mark_published_Inr_iff:
  assumes "job_ok job"
  shows "mark_published job tok now v = Inr job' \<longleftrightarrow>
     oj_version job = v \<and> oj_state job = JS_PUBLISHING \<and> oj_claim_token job = Some tok \<and>
     lease_live job now \<and>
     job' = job\<lparr>oj_state := JS_PUBLISHED, oj_published_at := Some now, oj_claim_token := None,
       oj_claimed_by := None, oj_claimed_at := None, oj_claim_expires_at := None,
       oj_last_error_code := None, oj_version := oj_version job + 1\<rparr>"
    (is "_ \<longleftrightarrow> ?g0 \<and> ?g1 \<and> ?g2 \<and> ?g3 \<and> job' = ?new")
proof -
  have ok: "job_ok ?new \<longleftrightarrow> aware now" using assms by (simp add: job_ok_def)
  show ?thesis
    unfolding mark_published_def
    using ok by (auto simp: result_simps not_expired_iff_lease_live [OF assms] outbox_constants
        dest: lease_live_aware)
qed

lemma schedule_retry_Inr_iff:
  assumes "job_ok job"
  shows "schedule_retry job tok phase ec now v = Inr job' \<longleftrightarrow>
     oj_version job = v \<and>
     oj_state job = (case phase of PH_PUBLISHER \<Rightarrow> JS_PUBLISHING | PH_PROCESSOR \<Rightarrow> JS_PROCESSING) \<and>
     oj_claim_token job = Some tok \<and> lease_live job now \<and>
     oj_attempt_count job + 1 < oj_max_attempts job \<and>
     job' = job\<lparr>oj_state := JS_RETRY_SCHEDULED, oj_attempt_count := oj_attempt_count job + 1,
       oj_available_at :=
         dt_plus now (timedelta_seconds (backoff (oj_attempt_count job + 1))),
       oj_claim_token := None, oj_claimed_by := None, oj_claimed_at := None,
       oj_claim_expires_at := None,
       oj_processing_started_at :=
         (if phase = PH_PROCESSOR then None else oj_processing_started_at job),
       oj_published_at := (if phase = PH_PROCESSOR then None else oj_published_at job),
       oj_last_error_code := Some ec, oj_version := oj_version job + 1\<rparr>"
    (is "_ \<longleftrightarrow> ?g0 \<and> ?g1 \<and> ?g2 \<and> ?g3 \<and> ?g4 \<and> job' = ?new")
proof -
  have ok: "job_ok ?new \<longleftrightarrow> aware now" using assms by (simp add: job_ok_def)
  show ?thesis
    unfolding schedule_retry_def Let_def
    using assms ok
    by (cases phase) (auto simp: result_simps not_expired_iff_lease_live attempts_nonneg
        dest: lease_live_aware)
qed

lemma mark_dead_letter_Inr_iff:
  assumes "job_ok job"
  shows "mark_dead_letter job tok ec now v = Inr job' \<longleftrightarrow>
     oj_version job = v \<and> oj_state job \<in> {JS_PUBLISHING, JS_PROCESSING} \<and>
     oj_claim_token job = Some tok \<and> lease_live job now \<and>
     job' = job\<lparr>oj_state := JS_DEAD_LETTER, oj_completed_at := Some now, oj_claim_token := None,
       oj_claimed_by := None, oj_claimed_at := None, oj_claim_expires_at := None,
       oj_last_error_code := Some ec, oj_version := oj_version job + 1\<rparr>"
    (is "_ \<longleftrightarrow> ?g0 \<and> ?g1 \<and> ?g2 \<and> ?g3 \<and> job' = ?new")
proof -
  have ok: "job_ok ?new \<longleftrightarrow> aware now" using assms by (simp add: job_ok_def)
  show ?thesis
    unfolding mark_dead_letter_def
    using ok by (auto simp: result_simps not_expired_iff_lease_live [OF assms] outbox_constants
        dest: lease_live_aware)
qed

lemma claim_for_processing_Inr_iff:
  assumes "job_ok job"
  shows "claim_for_processing job tok w now v = Inr job' \<longleftrightarrow>
     oj_version job = v \<and> oj_state job = JS_PUBLISHED \<and> aware now \<and> oj_available_at job \<le> now \<and>
     matches_ident ident_dash_char 63 w \<and>
     job' = job\<lparr>oj_state := JS_PROCESSING, oj_claim_token := Some tok, oj_claimed_by := Some w,
       oj_claimed_at := Some now, oj_claim_expires_at := Some (dt_plus now (timedelta_seconds 300)),
       oj_processing_started_at := Some now, oj_version := oj_version job + 1\<rparr>"
    (is "_ \<longleftrightarrow> ?g0 \<and> ?g1 \<and> ?g2 \<and> ?g3 \<and> ?g4 \<and> job' = ?new")
proof -
  have ok: "job_ok ?new \<longleftrightarrow> matches_ident ident_dash_char 63 w \<and> aware now" using assms by (simp add: job_ok_def)
  show ?thesis
    unfolding claim_for_processing_def
    using ok available_aware [OF assms] by (auto simp: result_simps not_less outbox_constants)
qed

lemma mark_succeeded_Inr_iff:
  assumes "job_ok job"
  shows "mark_succeeded job tok now v = Inr job' \<longleftrightarrow>
     oj_version job = v \<and> oj_state job = JS_PROCESSING \<and> oj_claim_token job = Some tok \<and>
     lease_live job now \<and>
     job' = job\<lparr>oj_state := JS_SUCCEEDED, oj_completed_at := Some now, oj_claim_token := None,
       oj_claimed_by := None, oj_claimed_at := None, oj_claim_expires_at := None,
       oj_last_error_code := None, oj_version := oj_version job + 1\<rparr>"
    (is "_ \<longleftrightarrow> ?g0 \<and> ?g1 \<and> ?g2 \<and> ?g3 \<and> job' = ?new")
proof -
  have ok: "job_ok ?new \<longleftrightarrow> aware now" using assms by (simp add: job_ok_def)
  show ?thesis
    unfolding mark_succeeded_def
    using ok by (auto simp: result_simps not_expired_iff_lease_live [OF assms] outbox_constants
        dest: lease_live_aware)
qed

lemma recover_publisher_Inr_iff:
  assumes "job_ok job"
  shows "recover_expired_publisher_claim job now = Inr job' \<longleftrightarrow>
     oj_state job = JS_PUBLISHING \<and> lease_over job now \<and>
     job' = job\<lparr>oj_state := JS_PENDING, oj_claim_token := None, oj_claimed_by := None,
       oj_claimed_at := None, oj_claim_expires_at := None, oj_version := oj_version job + 1\<rparr>"
    (is "_ \<longleftrightarrow> ?g0 \<and> ?g1 \<and> job' = ?new")
proof -
  have ok: "job_ok ?new" using assms by (simp add: job_ok_def)
  show ?thesis
    unfolding recover_expired_publisher_claim_def
    using ok by (auto simp: result_simps lease_over_def not_less expiry_aware [OF assms]
        split: option.splits)
qed

lemma recover_processor_Inr_iff:
  assumes "job_ok job"
  shows "recover_expired_processor_claim job now = Inr job' \<longleftrightarrow>
     oj_state job = JS_PROCESSING \<and> lease_over job now \<and>
     job' = job\<lparr>oj_state := JS_PUBLISHED, oj_claim_token := None, oj_claimed_by := None,
       oj_claimed_at := None, oj_claim_expires_at := None, oj_processing_started_at := None,
       oj_version := oj_version job + 1\<rparr>"
    (is "_ \<longleftrightarrow> ?g0 \<and> ?g1 \<and> job' = ?new")
proof -
  have ok: "job_ok ?new" using assms by (simp add: job_ok_def)
  show ?thesis
    unfolding recover_expired_processor_claim_def
    using ok by (auto simp: result_simps lease_over_def not_less expiry_aware [OF assms]
        split: option.splits)
qed

lemma renew_processor_claim_Inr_iff:
  assumes "job_ok job"
  shows "renew_processor_claim job tok now v = Inr job' \<longleftrightarrow>
     oj_version job = v \<and> oj_state job = JS_PROCESSING \<and> oj_claim_token job = Some tok \<and>
     lease_live job now \<and>
     job' = job\<lparr>oj_claim_expires_at := Some (dt_plus now (timedelta_seconds 300)),
       oj_version := oj_version job + 1\<rparr>"
    (is "_ \<longleftrightarrow> ?g0 \<and> ?g1 \<and> ?g2 \<and> ?g3 \<and> job' = ?new")
proof -
  have ok: "job_ok ?new \<longleftrightarrow> aware now" using assms by (simp add: job_ok_def)
  show ?thesis
    unfolding renew_processor_claim_def
    using ok by (auto simp: result_simps not_expired_iff_lease_live [OF assms] outbox_constants
        dest: lease_live_aware)
qed

lemma requeue_dead_letter_Inr_iff:
  assumes "job_ok job"
  shows "requeue_dead_letter job now = Inr job' \<longleftrightarrow>
     oj_state job = JS_DEAD_LETTER \<and> aware now \<and>
     job' = job\<lparr>oj_state := JS_PENDING, oj_attempt_count := 0, oj_available_at := now,
       oj_completed_at := None, oj_published_at := None, oj_processing_started_at := None,
       oj_claim_token := None, oj_claimed_by := None, oj_claimed_at := None,
       oj_claim_expires_at := None, oj_last_error_code := None, oj_version := oj_version job + 1\<rparr>"
    (is "_ \<longleftrightarrow> ?g0 \<and> ?g1 \<and> job' = ?new")
proof -
  have ok: "job_ok ?new \<longleftrightarrow> aware now" using assms by (simp add: job_ok_def)
  show ?thesis
    unfolding requeue_dead_letter_def using ok by (auto simp: result_simps)
qed

lemmas op_Inr_iffs =
  claim_for_publishing_Inr_iff mark_published_Inr_iff schedule_retry_Inr_iff
  mark_dead_letter_Inr_iff claim_for_processing_Inr_iff mark_succeeded_Inr_iff
  recover_publisher_Inr_iff recover_processor_Inr_iff renew_processor_claim_Inr_iff
  requeue_dead_letter_Inr_iff

section \<open>The invariant of a job's life\<close>

definition claimed_state :: "outbox_job_state \<Rightarrow> bool" where
  "claimed_state s \<longleftrightarrow> s = JS_PUBLISHING \<or> s = JS_PROCESSING"

definition settled_state :: "outbox_job_state \<Rightarrow> bool" where
  "settled_state s \<longleftrightarrow> s = JS_SUCCEEDED \<or> s = JS_DEAD_LETTER"

definition queued_state :: "outbox_job_state \<Rightarrow> bool" where
  "queued_state s \<longleftrightarrow> s = JS_PENDING \<or> s = JS_RETRY_SCHEDULED \<or> s = JS_PUBLISHING"

definition sent_state :: "outbox_job_state \<Rightarrow> bool" where
  "sent_state s \<longleftrightarrow> s = JS_PUBLISHED \<or> s = JS_PROCESSING \<or> s = JS_SUCCEEDED"

definition lifecycle :: "outbox_job \<Rightarrow> bool" where
  "lifecycle job \<longleftrightarrow>
     oj_attempt_count job < oj_max_attempts job \<and>
     oj_state job \<noteq> JS_CANCELLED \<and>
     (oj_claim_token job \<noteq> None \<longleftrightarrow> claimed_state (oj_state job)) \<and>
     (oj_claimed_by job \<noteq> None \<longleftrightarrow> claimed_state (oj_state job)) \<and>
     (oj_claimed_at job \<noteq> None \<longleftrightarrow> claimed_state (oj_state job)) \<and>
     (oj_claim_expires_at job \<noteq> None \<longleftrightarrow> claimed_state (oj_state job)) \<and>
     (oj_completed_at job \<noteq> None \<longleftrightarrow> settled_state (oj_state job)) \<and>
     (sent_state (oj_state job) \<longrightarrow> oj_published_at job \<noteq> None) \<and>
     (queued_state (oj_state job) \<longrightarrow> oj_published_at job = None) \<and>
     (oj_state job = JS_PROCESSING \<or> oj_state job = JS_SUCCEEDED \<longrightarrow>
        oj_processing_started_at job \<noteq> None) \<and>
     (queued_state (oj_state job) \<or> oj_state job = JS_PUBLISHED \<longrightarrow>
        oj_processing_started_at job = None) \<and>
     (sent_state (oj_state job) \<longrightarrow> oj_last_error_code job = None) \<and>
     (oj_state job = JS_RETRY_SCHEDULED \<longrightarrow>
        1 \<le> oj_attempt_count job \<and> oj_last_error_code job \<noteq> None) \<and>
     (oj_state job = JS_DEAD_LETTER \<longrightarrow> oj_last_error_code job \<noteq> None)"

lemmas state_class_defs =
  claimed_state_def settled_state_def queued_state_def sent_state_def

text \<open>What no operation of a job changes.\<close>

definition same_job :: "outbox_job \<Rightarrow> outbox_job \<Rightarrow> bool" where
  "same_job job job' \<longleftrightarrow>
     oj_id job' = oj_id job \<and> oj_tenant_id job' = oj_tenant_id job \<and>
     oj_job_kind job' = oj_job_kind job \<and> oj_reference job' = oj_reference job \<and>
     oj_deduplication_key job' = oj_deduplication_key job \<and>
     oj_priority job' = oj_priority job \<and> oj_created_at job' = oj_created_at job \<and>
     oj_max_attempts job' = oj_max_attempts job"

lemma same_job_refl [simp]: "same_job job job"
  by (simp add: same_job_def)

lemma same_job_trans: "same_job a b \<Longrightarrow> same_job b c \<Longrightarrow> same_job a c"
  by (simp add: same_job_def)

text \<open>The effect every successful operation has.\<close>

definition job_effect :: "outbox_job \<Rightarrow> outbox_job \<Rightarrow> bool" where
  "job_effect job job' \<longleftrightarrow>
     job_ok job' \<and> lifecycle job' \<and> same_job job job' \<and> oj_version job' = oj_version job + 1 \<and>
     (oj_state job' = oj_state job \<or> oj_state job' \<in> set (ALLOWED_TRANSITIONS (oj_state job)))"

section \<open>Contracts of the operations\<close>

text \<open>
  Every operation of the machine, with its other arguments fixed, is a partial update of a job:
  it produces a valid job of the same identity, one version later, in a state the transition table
  allows, and it keeps the life-cycle invariant.
\<close>

locale job_operation =
  fixes opr :: "outbox_job \<Rightarrow> outbox_error + outbox_job"
  assumes keeps_ok: "opr job = Inr job' \<Longrightarrow> job_ok job'"
    and bumps_version: "job_ok job \<Longrightarrow> opr job = Inr job' \<Longrightarrow> oj_version job' = oj_version job + 1"
    and keeps_identity: "job_ok job \<Longrightarrow> opr job = Inr job' \<Longrightarrow> same_job job job'"
    and follows_table: "job_ok job \<Longrightarrow> opr job = Inr job' \<Longrightarrow>
      oj_state job' = oj_state job \<or> oj_state job' \<in> set (ALLOWED_TRANSITIONS (oj_state job))"
    and keeps_lifecycle: "job_ok job \<Longrightarrow> lifecycle job \<Longrightarrow> opr job = Inr job' \<Longrightarrow> lifecycle job'"
begin

lemma effect: "job_ok job \<Longrightarrow> lifecycle job \<Longrightarrow> opr job = Inr job' \<Longrightarrow> job_effect job job'"
  unfolding job_effect_def
  using keeps_ok bumps_version keeps_identity follows_table keeps_lifecycle by metis

lemma final_state_stuck:
  assumes "job_ok job" and "ALLOWED_TRANSITIONS (oj_state job) = []" and "opr job = Inr job'"
  shows "oj_state job' = oj_state job"
  using follows_table [OF assms(1,3)] assms(2) by simp

end

text \<open>
  An operation of a worker also names the version it has read. It is refused when another
  operation came in between.
\<close>

locale fenced_operation =
  fixes vop :: "int \<Rightarrow> outbox_job \<Rightarrow> outbox_error + outbox_job"
  assumes each_version: "job_operation (vop v)"
    and refuses_version: "oj_version job \<noteq> v \<Longrightarrow>
      vop v job = Inl (OutboxClaimError ''outbox job version does not match'')"
begin

lemma loses_race:
  assumes "job_ok job" and "job_operation other" and "other job = Inr job'"
  shows "vop (oj_version job) job' = Inl (OutboxClaimError ''outbox job version does not match'')"
  using job_operation.bumps_version [OF assms(2,1,3)] by (intro refuses_version) simp

lemma at_most_once:
  assumes "job_ok job" and "vop v job = Inr job'"
  shows "vop v job' = Inl (OutboxClaimError ''outbox job version does not match'')"
proof -
  have "v = oj_version job"
    using assms(2) refuses_version [of job v] by (cases "oj_version job = v") simp_all
  with assms loses_race [OF assms(1) each_version] show ?thesis by metis
qed

end

text \<open>An operation of the holder of a claim: the token matches and the lease is live.\<close>

locale claim_operation = fenced_operation vop
  for vop :: "int \<Rightarrow> outbox_job \<Rightarrow> outbox_error + outbox_job" +
  fixes token :: uuid and now :: datetime
  assumes holds_claim: "job_ok job \<Longrightarrow> vop v job = Inr job' \<Longrightarrow>
    oj_claim_token job = Some token \<and> lease_live job now"
begin

lemma other_token_refused:
  assumes "job_ok job" and "oj_claim_token job \<noteq> Some token"
  shows "\<not> is_ok (vop v job)"
  using holds_claim assms by (metis is_ok_iff)

lemma expired_refused:
  assumes "job_ok job" and "lease_over job now"
  shows "\<not> is_ok (vop v job)"
  using holds_claim assms lease_live_not_over by (metis is_ok_iff)

end

section \<open>Every operation meets its contract\<close>

lemma job_operation_intro:
  assumes ok: "\<And>job job'. opr job = Inr job' \<Longrightarrow> job_ok job'"
    and rest: "\<And>job job'. job_ok job \<Longrightarrow> opr job = Inr job' \<Longrightarrow>
      oj_version job' = oj_version job + 1 \<and> same_job job job' \<and>
      (oj_state job' = oj_state job \<or> oj_state job' \<in> set (ALLOWED_TRANSITIONS (oj_state job))) \<and>
      (lifecycle job \<longrightarrow> lifecycle job')"
  shows "job_operation opr"
  using assms by unfold_locales blast+

lemmas contract_simps = same_job_def lifecycle_def state_class_defs

lemma results_ok:
  shows "claim_for_publishing job tok w now v = Inr job' \<Longrightarrow> job_ok job'"
    and "mark_published job tok now v = Inr job' \<Longrightarrow> job_ok job'"
    and "schedule_retry job tok phase ec now v = Inr job' \<Longrightarrow> job_ok job'"
    and "mark_dead_letter job tok ec now v = Inr job' \<Longrightarrow> job_ok job'"
    and "claim_for_processing job tok w now v = Inr job' \<Longrightarrow> job_ok job'"
    and "mark_succeeded job tok now v = Inr job' \<Longrightarrow> job_ok job'"
    and "recover_expired_publisher_claim job now = Inr job' \<Longrightarrow> job_ok job'"
    and "recover_expired_processor_claim job now = Inr job' \<Longrightarrow> job_ok job'"
    and "renew_processor_claim job tok now v = Inr job' \<Longrightarrow> job_ok job'"
    and "requeue_dead_letter job now = Inr job' \<Longrightarrow> job_ok job'"
  by (auto simp: result_simps Let_def claim_for_publishing_def
      mark_published_def schedule_retry_def
      mark_dead_letter_def claim_for_processing_def mark_succeeded_def
      recover_expired_publisher_claim_def recover_expired_processor_claim_def
      renew_processor_claim_def requeue_dead_letter_def)

lemma claim_for_publishing_contract: "job_operation (\<lambda>job. claim_for_publishing job tok w now v)"
  by (rule job_operation_intro)
    (erule results_ok, simp add: claim_for_publishing_Inr_iff, elim conjE disjE,
     simp_all add: contract_simps)

lemma mark_published_contract: "job_operation (\<lambda>job. mark_published job tok now v)"
  by (rule job_operation_intro)
    (erule results_ok, simp add: mark_published_Inr_iff contract_simps)

lemma schedule_retry_contract: "job_operation (\<lambda>job. schedule_retry job tok phase ec now v)"
  by (rule job_operation_intro)
    (erule results_ok, cases phase,
     simp_all add: schedule_retry_Inr_iff attempts_nonneg contract_simps)

lemma mark_dead_letter_contract: "job_operation (\<lambda>job. mark_dead_letter job tok ec now v)"
  by (rule job_operation_intro)
    (erule results_ok, simp add: mark_dead_letter_Inr_iff, elim conjE disjE,
     simp_all add: contract_simps)

lemma claim_for_processing_contract: "job_operation (\<lambda>job. claim_for_processing job tok w now v)"
  by (rule job_operation_intro)
    (erule results_ok, simp add: claim_for_processing_Inr_iff contract_simps)

lemma mark_succeeded_contract: "job_operation (\<lambda>job. mark_succeeded job tok now v)"
  by (rule job_operation_intro)
    (erule results_ok, simp add: mark_succeeded_Inr_iff contract_simps)

lemma recover_publisher_contract: "job_operation (\<lambda>job. recover_expired_publisher_claim job now)"
  by (rule job_operation_intro)
    (erule results_ok, simp add: recover_publisher_Inr_iff contract_simps)

lemma recover_processor_contract: "job_operation (\<lambda>job. recover_expired_processor_claim job now)"
  by (rule job_operation_intro)
    (erule results_ok, simp add: recover_processor_Inr_iff contract_simps)

lemma renew_processor_claim_contract: "job_operation (\<lambda>job. renew_processor_claim job tok now v)"
  by (rule job_operation_intro)
    (erule results_ok, simp add: renew_processor_claim_Inr_iff contract_simps)

lemma requeue_dead_letter_contract: "job_operation (\<lambda>job. requeue_dead_letter job now)"
  by (rule job_operation_intro)
    (erule results_ok, simp add: requeue_dead_letter_Inr_iff contract_simps job_ok_def)

lemmas operation_contracts =
  claim_for_publishing_contract mark_published_contract schedule_retry_contract
  mark_dead_letter_contract claim_for_processing_contract mark_succeeded_contract
  recover_publisher_contract recover_processor_contract renew_processor_claim_contract
  requeue_dead_letter_contract

interpretation recover_pub: job_operation "\<lambda>job. recover_expired_publisher_claim job now" for now
  by (rule recover_publisher_contract)

interpretation recover_proc: job_operation "\<lambda>job. recover_expired_processor_claim job now" for now
  by (rule recover_processor_contract)

interpretation requeue: job_operation "\<lambda>job. requeue_dead_letter job now" for now
  by (rule requeue_dead_letter_contract)

lemma version_guard:
  "oj_version job \<noteq> v \<Longrightarrow>
   assert_expected_version job v = Inl (OutboxClaimError ''outbox job version does not match'')"
  by (simp add: assert_expected_version_def)

lemma version_refusals:
  assumes "oj_version job \<noteq> v"
  shows "claim_for_publishing job tok w now v =
      Inl (OutboxClaimError ''outbox job version does not match'')"
    and "claim_for_processing job tok w now v =
      Inl (OutboxClaimError ''outbox job version does not match'')"
    and "mark_published job tok now v =
      Inl (OutboxClaimError ''outbox job version does not match'')"
    and "schedule_retry job tok phase ec now v =
      Inl (OutboxClaimError ''outbox job version does not match'')"
    and "mark_dead_letter job tok ec now v =
      Inl (OutboxClaimError ''outbox job version does not match'')"
    and "mark_succeeded job tok now v =
      Inl (OutboxClaimError ''outbox job version does not match'')"
    and "renew_processor_claim job tok now v =
      Inl (OutboxClaimError ''outbox job version does not match'')"
  using version_guard [OF assms]
  by (simp_all add: claim_for_publishing_def claim_for_processing_def mark_published_def
      schedule_retry_def mark_dead_letter_def mark_succeeded_def renew_processor_claim_def)

lemma claim_holders:
  assumes "job_ok job"
  shows "mark_published job tok now v = Inr job' \<Longrightarrow>
      oj_claim_token job = Some tok \<and> lease_live job now"
    and "schedule_retry job tok phase ec now v = Inr job' \<Longrightarrow>
      oj_claim_token job = Some tok \<and> lease_live job now"
    and "mark_dead_letter job tok ec now v = Inr job' \<Longrightarrow>
      oj_claim_token job = Some tok \<and> lease_live job now"
    and "mark_succeeded job tok now v = Inr job' \<Longrightarrow>
      oj_claim_token job = Some tok \<and> lease_live job now"
    and "renew_processor_claim job tok now v = Inr job' \<Longrightarrow>
      oj_claim_token job = Some tok \<and> lease_live job now"
  using assms by (simp_all add: mark_published_Inr_iff schedule_retry_Inr_iff
      mark_dead_letter_Inr_iff mark_succeeded_Inr_iff renew_processor_claim_Inr_iff)

interpretation claim_pub: fenced_operation "\<lambda>v job. claim_for_publishing job tok w now v"
  for tok w now
  by (rule fenced_operation.intro) (rule claim_for_publishing_contract, erule version_refusals)

interpretation claim_proc: fenced_operation "\<lambda>v job. claim_for_processing job tok w now v"
  for tok w now
  by (rule fenced_operation.intro) (rule claim_for_processing_contract, erule version_refusals)

interpretation mark_pub: claim_operation "\<lambda>v job. mark_published job tok now v" tok now
  for tok now
  by (intro claim_operation.intro claim_operation_axioms.intro fenced_operation.intro)
    (rule mark_published_contract, erule version_refusals, erule (1) claim_holders)

interpretation retry: claim_operation "\<lambda>v job. schedule_retry job tok phase ec now v" tok now
  for tok phase ec now
  by (intro claim_operation.intro claim_operation_axioms.intro fenced_operation.intro)
    (rule schedule_retry_contract, erule version_refusals, erule (1) claim_holders)

interpretation dead_letter: claim_operation "\<lambda>v job. mark_dead_letter job tok ec now v" tok now
  for tok ec now
  by (intro claim_operation.intro claim_operation_axioms.intro fenced_operation.intro)
    (rule mark_dead_letter_contract, erule version_refusals, erule (1) claim_holders)

interpretation succeed: claim_operation "\<lambda>v job. mark_succeeded job tok now v" tok now
  for tok now
  by (intro claim_operation.intro claim_operation_axioms.intro fenced_operation.intro)
    (rule mark_succeeded_contract, erule version_refusals, erule (1) claim_holders)

interpretation renew: claim_operation "\<lambda>v job. renew_processor_claim job tok now v" tok now
  for tok now
  by (intro claim_operation.intro claim_operation_axioms.intro fenced_operation.intro)
    (rule renew_processor_claim_contract, erule version_refusals, erule (1) claim_holders)

section \<open>Runs\<close>

text \<open>The operations as events, with the arguments a worker or the operator supplies.\<close>

datatype job_event =
    Claim_For_Publishing uuid string datetime int
  | Mark_Published uuid datetime int
  | Schedule_Retry uuid outbox_job_phase outbox_error_code datetime int
  | Mark_Dead_Letter uuid outbox_error_code datetime int
  | Claim_For_Processing uuid string datetime int
  | Mark_Succeeded uuid datetime int
  | Recover_Publisher_Claim datetime
  | Recover_Processor_Claim datetime
  | Renew_Processor_Claim uuid datetime int
  | Requeue_Dead_Letter datetime

fun job_apply :: "job_event \<Rightarrow> outbox_job \<Rightarrow> outbox_error + outbox_job" where
  "job_apply (Claim_For_Publishing tok w now v) = (\<lambda>job. claim_for_publishing job tok w now v)"
| "job_apply (Mark_Published tok now v) = (\<lambda>job. mark_published job tok now v)"
| "job_apply (Schedule_Retry tok phase ec now v) = (\<lambda>job. schedule_retry job tok phase ec now v)"
| "job_apply (Mark_Dead_Letter tok ec now v) = (\<lambda>job. mark_dead_letter job tok ec now v)"
| "job_apply (Claim_For_Processing tok w now v) = (\<lambda>job. claim_for_processing job tok w now v)"
| "job_apply (Mark_Succeeded tok now v) = (\<lambda>job. mark_succeeded job tok now v)"
| "job_apply (Recover_Publisher_Claim now) = (\<lambda>job. recover_expired_publisher_claim job now)"
| "job_apply (Recover_Processor_Claim now) = (\<lambda>job. recover_expired_processor_claim job now)"
| "job_apply (Renew_Processor_Claim tok now v) = (\<lambda>job. renew_processor_claim job tok now v)"
| "job_apply (Requeue_Dead_Letter now) = (\<lambda>job. requeue_dead_letter job now)"

fun job_run :: "job_event list \<Rightarrow> outbox_job \<Rightarrow> outbox_error + outbox_job" where
  "job_run [] job = Inr job"
| "job_run (e # es) job = bindE (job_apply e job) (job_run es)"

fun event_time :: "job_event \<Rightarrow> datetime" where
  "event_time (Claim_For_Publishing tok w now v) = now"
| "event_time (Mark_Published tok now v) = now"
| "event_time (Schedule_Retry tok phase ec now v) = now"
| "event_time (Mark_Dead_Letter tok ec now v) = now"
| "event_time (Claim_For_Processing tok w now v) = now"
| "event_time (Mark_Succeeded tok now v) = now"
| "event_time (Recover_Publisher_Claim now) = now"
| "event_time (Recover_Processor_Claim now) = now"
| "event_time (Renew_Processor_Claim tok now v) = now"
| "event_time (Requeue_Dead_Letter now) = now"

text \<open>The claim token under which a worker acts; claiming and recovery act under none.\<close>

fun event_token :: "job_event \<Rightarrow> uuid option" where
  "event_token (Mark_Published tok now v) = Some tok"
| "event_token (Schedule_Retry tok phase ec now v) = Some tok"
| "event_token (Mark_Dead_Letter tok ec now v) = Some tok"
| "event_token (Mark_Succeeded tok now v) = Some tok"
| "event_token (Renew_Processor_Claim tok now v) = Some tok"
| "event_token _ = None"

fun event_version :: "job_event \<Rightarrow> int option" where
  "event_version (Claim_For_Publishing tok w now v) = Some v"
| "event_version (Mark_Published tok now v) = Some v"
| "event_version (Schedule_Retry tok phase ec now v) = Some v"
| "event_version (Mark_Dead_Letter tok ec now v) = Some v"
| "event_version (Claim_For_Processing tok w now v) = Some v"
| "event_version (Mark_Succeeded tok now v) = Some v"
| "event_version (Renew_Processor_Claim tok now v) = Some v"
| "event_version _ = None"

fun is_retry :: "job_event \<Rightarrow> bool" where
  "is_retry (Schedule_Retry tok phase ec now v) = True"
| "is_retry _ = False"

fun is_requeue :: "job_event \<Rightarrow> bool" where
  "is_requeue (Requeue_Dead_Letter now) = True"
| "is_requeue _ = False"

text \<open>The jobs a program can hold: built by \<open>build_outbox_job\<close>, then changed by operations.\<close>

inductive reachable_job :: "outbox_job \<Rightarrow> bool" where
  built: "build_outbox_job i t k r d c a p m = Inr job \<Longrightarrow> reachable_job job"
| stepped: "reachable_job job \<Longrightarrow> job_apply e job = Inr job' \<Longrightarrow> reachable_job job'"

lemma job_apply_contract: "job_operation (job_apply e)"
  by (cases e) (simp_all add: operation_contracts)

interpretation event: job_operation "job_apply e" for e
  by (rule job_apply_contract)

lemma build_outbox_job_lifecycle:
  assumes "build_outbox_job i t k r d c a p m = Inr job"
  shows "job_ok job \<and> lifecycle job"
  using assms
  by (auto simp: build_outbox_job_def Let_def result_simps contract_simps job_ok_def)

lemma reachable_job_inv: "reachable_job job \<Longrightarrow> job_ok job \<and> lifecycle job"
proof (induction rule: reachable_job.induct)
  case (built i t k r d c a p m job)
  then show ?case by (rule build_outbox_job_lifecycle)
next
  case (stepped job e job')
  then show ?case using event.keeps_ok event.keeps_lifecycle by blast
qed

lemma job_run_facts:
  assumes "job_ok job" and "job_run es job = Inr job'"
  shows "job_ok job' \<and> same_job job job' \<and> oj_version job' = oj_version job + int (length es) \<and>
    (lifecycle job \<longrightarrow> lifecycle job')"
  using assms
proof (induction es arbitrary: job)
  case Nil
  then show ?case by simp
next
  case (Cons e es)
  from Cons.prems(2) obtain mid where mid: "job_apply e job = Inr mid" "job_run es mid = Inr job'"
    by (auto simp: bindE_Inr_iff)
  with Cons.prems(1) have "job_ok mid" "same_job job mid" "oj_version mid = oj_version job + 1"
    "lifecycle job \<longrightarrow> lifecycle mid"
    using event.keeps_ok event.keeps_identity event.bumps_version event.keeps_lifecycle by blast+
  with Cons.IH [OF \<open>job_ok mid\<close> mid(2)] show ?case
    by (auto intro: same_job_trans)
qed

lemma event_version_refused:
  "event_version e = Some v \<Longrightarrow> oj_version job \<noteq> v \<Longrightarrow>
   job_apply e job = Inl (OutboxClaimError ''outbox job version does not match'')"
  by (cases e) (auto simp: version_refusals)

lemma live_lease_only_holder:
  assumes "job_ok job" and "claimed_state (oj_state job)" and "lease_live job (event_time e)"
    and "job_apply e job = Inr job'"
  shows "event_token e = oj_claim_token job"
  using assms lease_live_not_over [OF assms(3)]
  by (cases e) (auto simp: op_Inr_iffs claimed_state_def)

lemma backoff_bounds: "1 \<le> n \<Longrightarrow> 30 \<le> backoff n \<and> backoff n \<le> 3600"
  by (simp add: backoff_def min_def)

lemma backoff_mono: "m \<le> n \<Longrightarrow> backoff m \<le> backoff n"
proof -
  assume "m \<le> n"
  then have "(2::int) ^ nat (m - 1) \<le> 2 ^ nat (n - 1)"
    by (intro power_increasing) auto
  then show ?thesis unfolding backoff_def by (intro min.mono mult_left_mono) simp_all
qed

lemma backoff_saturates: "8 \<le> n \<Longrightarrow> backoff n = 3600"
proof -
  assume "8 \<le> n"
  then have "(2::int) ^ 7 \<le> 2 ^ nat (n - 1)" by (intro power_increasing) auto
  then show ?thesis by (simp add: backoff_def min_def)
qed

lemma backoff_full_iff: "1 \<le> n \<Longrightarrow> backoff n = 3600 \<longleftrightarrow> 8 \<le> n"
proof
  assume "1 \<le> n" and full: "backoff n = 3600"
  show "8 \<le> n"
  proof (rule ccontr)
    assume "\<not> 8 \<le> n"
    then have "backoff n \<le> backoff 7" by (intro backoff_mono) simp
    with full show False by (simp add: backoff_def)
  qed
qed (rule backoff_saturates)

lemma attempts_of_event:
  assumes "job_ok job" and "job_apply e job = Inr job'" and "\<not> is_requeue e"
  shows "oj_attempt_count job' = oj_attempt_count job + (if is_retry e then 1 else 0)"
  using assms by (cases e) (auto simp: op_Inr_iffs)

lemma attempts_of_run:
  assumes "job_ok job" and "job_run es job = Inr job'" and "list_all (\<lambda>e. \<not> is_requeue e) es"
  shows "oj_attempt_count job' = oj_attempt_count job + int (length (filter is_retry es))"
  using assms
proof (induction es arbitrary: job)
  case Nil
  then show ?case by simp
next
  case (Cons e es)
  from Cons.prems(2) obtain mid where mid: "job_apply e job = Inr mid" "job_run es mid = Inr job'"
    by (auto simp: bindE_Inr_iff)
  then have "job_ok mid" using event.keeps_ok by blast
  with Cons mid attempts_of_event [OF Cons.prems(1) mid(1)] show ?case by simp
qed

lemma final_refused: "job_ok job \<Longrightarrow> oj_state job = JS_SUCCEEDED \<Longrightarrow> job_apply e job \<noteq> Inr job'"
  by (cases e) (auto simp: op_Inr_iffs split: outbox_job_phase.splits)

lemma job_run_append: "job_run (es @ fs) job = bindE (job_run es job) (job_run fs)"
  by (induction es arbitrary: job) (auto simp: bindE_def split: sum.splits)

subsection \<open>Ways to completion\<close>

lemma finish_processing:
  assumes "job_ok job" and "oj_state job = JS_PROCESSING" and "lifecycle job"
  shows "\<exists>e job'. job_apply e job = Inr job' \<and> oj_state job' = JS_SUCCEEDED"
proof -
  from assms(3,2) obtain tok x where held: "oj_claim_token job = Some tok"
    "oj_claim_expires_at job = Some x" by (auto simp: lifecycle_def state_class_defs)
  have live: "lease_live job (dt_plus x (- 1))"
    using held expiry_aware [OF assms(1) held(2)] by (cases x) (auto simp: lease_live_def)
  have "\<exists>job'. mark_succeeded job tok (dt_plus x (- 1)) (oj_version job) = Inr job' \<and>
    oj_state job' = JS_SUCCEEDED"
    using assms held live by (simp add: mark_succeeded_Inr_iff)
  then show ?thesis by (metis job_apply.simps(6))
qed

lemma start_processing:
  assumes "job_ok job" and "oj_state job = JS_PUBLISHED"
  shows "\<exists>e job'. job_apply e job = Inr job' \<and> oj_state job' = JS_PROCESSING"
proof -
  have "\<exists>job'. claim_for_processing job 0 ''w'' (oj_available_at job) (oj_version job) = Inr job' \<and>
    oj_state job' = JS_PROCESSING"
    using assms by (simp add: claim_for_processing_Inr_iff available_aware ident_defs)
  then show ?thesis by (metis job_apply.simps(5))
qed

lemma finish_publishing:
  assumes "job_ok job" and "oj_state job = JS_PUBLISHING" and "lifecycle job"
  shows "\<exists>e job'. job_apply e job = Inr job' \<and> oj_state job' = JS_PUBLISHED"
proof -
  from assms(3,2) obtain tok x where held: "oj_claim_token job = Some tok"
    "oj_claim_expires_at job = Some x" by (auto simp: lifecycle_def state_class_defs)
  have live: "lease_live job (dt_plus x (- 1))"
    using held expiry_aware [OF assms(1) held(2)] by (cases x) (auto simp: lease_live_def)
  have "\<exists>job'. mark_published job tok (dt_plus x (- 1)) (oj_version job) = Inr job' \<and>
    oj_state job' = JS_PUBLISHED"
    using assms held live by (simp add: mark_published_Inr_iff)
  then show ?thesis by (metis job_apply.simps(2))
qed

lemma start_publishing:
  assumes "job_ok job" and "oj_state job = JS_PENDING \<or> oj_state job = JS_RETRY_SCHEDULED"
  shows "\<exists>e job'. job_apply e job = Inr job' \<and> oj_state job' = JS_PUBLISHING"
proof -
  have "\<exists>job'. claim_for_publishing job 0 ''w'' (oj_available_at job) (oj_version job) = Inr job' \<and>
    oj_state job' = JS_PUBLISHING"
    using assms by (simp add: claim_for_publishing_Inr_iff available_aware ident_defs)
  then show ?thesis by (metis job_apply.simps(1))
qed

lemma requeue_possible:
  assumes "job_ok job" and "oj_state job = JS_DEAD_LETTER"
  shows "\<exists>e job'. job_apply e job = Inr job' \<and> oj_state job' = JS_PENDING"
proof -
  have "\<exists>job'. requeue_dead_letter job (Aware 0) = Inr job' \<and> oj_state job' = JS_PENDING"
    using assms by (simp add: requeue_dead_letter_Inr_iff)
  then show ?thesis by (metis job_apply.simps(10))
qed

text \<open>How many steps each state is away from success.\<close>

fun distance :: "outbox_job_state \<Rightarrow> nat" where
  "distance JS_SUCCEEDED = 0"
| "distance JS_PROCESSING = 1"
| "distance JS_PUBLISHED = 2"
| "distance JS_PUBLISHING = 3"
| "distance JS_PENDING = 4"
| "distance JS_RETRY_SCHEDULED = 4"
| "distance JS_DEAD_LETTER = 5"
| "distance JS_CANCELLED = 6"

lemma step_towards_success:
  assumes "job_ok job" and "lifecycle job" and "oj_state job \<noteq> JS_SUCCEEDED"
  shows "\<exists>e job'. job_apply e job = Inr job' \<and> distance (oj_state job') < distance (oj_state job)"
proof (cases "oj_state job")
  case JS_PENDING
  then show ?thesis using start_publishing [OF assms(1)] by fastforce
next
  case JS_RETRY_SCHEDULED
  then show ?thesis using start_publishing [OF assms(1)] by fastforce
next
  case JS_PUBLISHING
  then show ?thesis using finish_publishing [OF assms(1) _ assms(2)] by fastforce
next
  case JS_PUBLISHED
  then show ?thesis using start_processing [OF assms(1)] by fastforce
next
  case JS_PROCESSING
  then show ?thesis using finish_processing [OF assms(1) _ assms(2)] by fastforce
next
  case JS_DEAD_LETTER
  then show ?thesis using requeue_possible [OF assms(1)] by fastforce
next
  case JS_CANCELLED
  then show ?thesis using assms(2) by (simp add: lifecycle_def)
qed (use assms(3) in simp)

lemma run_to_success:
  assumes "job_ok job" and "lifecycle job"
  shows "\<exists>es job'. job_run es job = Inr job' \<and> oj_state job' = JS_SUCCEEDED \<and> length es \<le> 5"
proof -
  have "\<exists>es job'. job_run es job = Inr job' \<and> oj_state job' = JS_SUCCEEDED \<and>
    length es \<le> distance (oj_state job)"
    using assms
  proof (induction "distance (oj_state job)" arbitrary: job rule: less_induct)
    case less
    show ?case
    proof (cases "oj_state job = JS_SUCCEEDED")
      case True
      then show ?thesis by (intro exI [of _ "[]"] exI [of _ job]) simp
    next
      case False
      then obtain e mid where e: "job_apply e job = Inr mid"
        and d: "distance (oj_state mid) < distance (oj_state job)"
        using step_towards_success [OF less.prems] by blast
      then obtain es job' where "job_run es mid = Inr job'" "oj_state job' = JS_SUCCEEDED"
        "length es \<le> distance (oj_state mid)"
        using less.hyps [OF d event.keeps_ok [OF e]] event.keeps_lifecycle [OF less.prems e] by blast
      with e d show ?thesis by (intro exI [of _ "e # es"] exI [of _ job']) simp
    qed
  qed
  moreover have "distance (oj_state job) \<le> 5"
    using assms(2) by (cases "oj_state job") (simp_all add: lifecycle_def)
  ultimately show ?thesis by (meson le_trans)
qed

section \<open>Properties of the state machine\<close>

text \<open>A concrete job for the examples: a media fetch of one tenant, created at time 0.\<close>

definition sample_job :: outbox_job where
  "sample_job =
     \<lparr>oj_id = 1, oj_tenant_id = Some 7, oj_job_kind = JK_MEDIA_FETCH,
      oj_reference = \<lparr>ref_resource_type = ''media'', ref_resource_id = 9, ref_schema_version = 1,
        ref_tenant_id = Some 7, ref_secondary_id = None\<rparr>,
      oj_deduplication_key = ''media-9'', oj_priority = 100, oj_state = JS_PENDING,
      oj_available_at = Aware 0, oj_created_at = Aware 0, oj_attempt_count = 0,
      oj_max_attempts = 3, oj_version = 1, oj_claim_token = None, oj_claimed_by = None,
      oj_claimed_at = None, oj_claim_expires_at = None, oj_published_at = None,
      oj_processing_started_at = None, oj_completed_at = None, oj_last_error_code = None\<rparr>"

definition sample_claimed :: outbox_job where
  "sample_claimed = sample_job
     \<lparr>oj_state := JS_PUBLISHING, oj_claim_token := Some 5, oj_claimed_by := Some ''pub-1'',
      oj_claimed_at := Some (Aware 0), oj_claim_expires_at := Some (Aware 60000000),
      oj_version := 2\<rparr>"

lemma sample_job_ok: "job_ok sample_job"
  by (simp add: job_ok_def sample_job_def ident_defs)

lemma sample_claimed_ok: "job_ok sample_claimed"
  by (simp add: job_ok_def sample_job_def sample_claimed_def ident_defs)

lemma sample_job_reachable: "reachable_job sample_job"
  by (rule reachable_job.built [of 1 "Some 7" JK_MEDIA_FETCH
        "\<lparr>ref_resource_type = ''media'', ref_resource_id = 9, ref_schema_version = 1,
          ref_tenant_id = Some 7, ref_secondary_id = None\<rparr>" "''media-9''" "Aware 0" None 100 3])
    (use sample_job_ok in \<open>simp add: build_outbox_job_def Let_def result_simps sample_job_def\<close>)

lemma sample_claim:
  "job_apply (Claim_For_Publishing 5 ''pub-1'' (Aware 0) 1) sample_job = Inr sample_claimed"
  using sample_job_ok
  by (simp add: claim_for_publishing_Inr_iff)
    (simp add: sample_job_def sample_claimed_def ident_defs timedelta_defs)

lemma sample_claimed_reachable: "reachable_job sample_claimed"
  using reachable_job.stepped [OF sample_job_reachable sample_claim] .

text \<open>
  C7. Every job the program can hold, built by \<open>build_outbox_job\<close> and then changed by any sequence
  of operations of any workers, passes the constructor checks and is in a consistent point of its
  life: claim fields are present exactly while a worker holds the job, a completion time exactly
  when it is settled, a publication time once it was published, an error code after a failure;
  fewer attempts are recorded than the budget allows; and it is never cancelled.
\<close>

theorem reachable_job_lifecycle:
  assumes "reachable_job job"
  shows "job_ok job \<and> lifecycle job"
  using assms by (rule reachable_job_inv)

theorem reachable_job_lifecycle_witness:
  "reachable_job sample_claimed \<and> job_ok sample_claimed \<and> lifecycle sample_claimed"
  using reachable_job_lifecycle [OF sample_claimed_reachable] sample_claimed_reachable by simp

text \<open>
  C18. Optimistic concurrency: once any operation of any worker has gone through, an operation that
  still names an earlier version is refused with \<open>OutboxClaimError\<close>, however many operations came
  in between. In particular no operation of a worker is applied twice.
\<close>

theorem stale_version_refused:
  assumes "job_ok job" and "job_run es job = Inr job'" and "es \<noteq> []"
    and "event_version e = Some v" and "v \<le> oj_version job"
  shows "job_apply e job' = Inl (OutboxClaimError ''outbox job version does not match'')"
proof -
  have "oj_version job' = oj_version job + int (length es)"
    using job_run_facts [OF assms(1,2)] by blast
  with assms(3,5) have "oj_version job' \<noteq> v" by (cases es) auto
  with assms(4) show ?thesis by (rule event_version_refused)
qed

theorem stale_version_refused_witness:
  "job_apply (Claim_For_Publishing 6 ''pub-2'' (Aware 0) 1) sample_claimed =
     Inl (OutboxClaimError ''outbox job version does not match'')"
  by (rule stale_version_refused [where es = "[Claim_For_Publishing 5 ''pub-1'' (Aware 0) 1]"
        and job = sample_job and v = 1, OF sample_job_ok])
    (use sample_claim in \<open>simp_all add: sample_job_def\<close>)

text \<open>
  C8. Mutual exclusion: while the lease of a claimed job is live, the only operations that can
  change the job are those of the worker that presents the claim's token. Claims by others,
  recovery and requeueing fail.
\<close>

theorem live_lease_excludes_others:
  assumes "reachable_job job" and "claimed_state (oj_state job)"
    and "lease_live job (event_time e)" and "event_token e \<noteq> oj_claim_token job"
  shows "\<not> is_ok (job_apply e job)"
  using live_lease_only_holder assms reachable_job_inv by (metis is_ok_iff)

theorem live_lease_excludes_others_witness:
  "\<not> is_ok (job_apply (Recover_Publisher_Claim (Aware 59999999)) sample_claimed)"
  by (rule live_lease_excludes_others [OF sample_claimed_reachable])
    (simp_all add: sample_claimed_def claimed_state_def lease_live_def)

text \<open>
  C19. Backoff: after a retry scheduled at \<open>now\<close> for a job with \<open>n\<close> recorded attempts, no worker
  claims the job again before \<open>min 3600 (30 * 2 ^ n)\<close> seconds have passed, and at that time the
  claim is granted.
\<close>

theorem retry_waits_backoff:
  assumes "job_ok job" and "schedule_retry job tok phase ec now v = Inr job'"
    and "matches_ident ident_dash_char 63 w" and "aware later"
  shows "is_ok (claim_for_publishing job' tok' w later (oj_version job')) \<longleftrightarrow>
     instant now + 1000000 * min 3600 (30 * 2 ^ nat (oj_attempt_count job)) \<le> instant later"
proof -
  have ok': "job_ok job'" by (rule results_ok(3) [OF assms(2)])
  have st: "oj_state job' = JS_RETRY_SCHEDULED" and live: "lease_live job now"
    and av: "oj_available_at job' =
      dt_plus now (timedelta_seconds (backoff (oj_attempt_count job + 1)))"
    using assms(1,2) by (simp_all add: schedule_retry_Inr_iff)
  have "is_ok (claim_for_publishing job' tok' w later (oj_version job')) \<longleftrightarrow>
    oj_available_at job' \<le> later"
    using ok' st assms(3,4) by (simp add: is_ok_iff claim_for_publishing_Inr_iff)
  also have "\<dots> \<longleftrightarrow> instant (oj_available_at job') \<le> instant later"
    using available_aware [OF ok'] assms(4) by (simp add: less_eq_datetime_def)
  finally show ?thesis
    by (simp add: av backoff_def timedelta_defs mult.commute)
qed

theorem retry_waits_backoff_witness:
  "\<exists>job'. schedule_retry sample_claimed 5 PH_PUBLISHER EC_QUEUE_UNAVAILABLE (Aware 10) 2 = Inr job' \<and>
     is_ok (claim_for_publishing job' 6 ''pub-2'' (Aware 30000010) (oj_version job')) \<and>
     \<not> is_ok (claim_for_publishing job' 6 ''pub-2'' (Aware 30000009) (oj_version job'))"
proof -
  obtain job' where r:
    "schedule_retry sample_claimed 5 PH_PUBLISHER EC_QUEUE_UNAVAILABLE (Aware 10) 2 = Inr job'"
    using sample_claimed_ok
    by (simp add: schedule_retry_Inr_iff)
      (simp add: sample_claimed_def sample_job_def lease_live_def)
  have w: "matches_ident ident_dash_char 63 ''pub-2''" by (simp add: ident_defs)
  have n: "oj_attempt_count sample_claimed = 0" by (simp add: sample_claimed_def sample_job_def)
  from retry_waits_backoff [OF sample_claimed_ok r w, of "Aware 30000010" 6]
    retry_waits_backoff [OF sample_claimed_ok r w, of "Aware 30000009" 6] r n
  show ?thesis by simp
qed

text \<open>
  C20. The retry budget: in a run without an operator's requeue, at most \<open>max_attempts - 1\<close> retries
  are ever scheduled, counted from the job's creation.
\<close>

theorem retries_within_budget:
  assumes "reachable_job job" and "job_run es job = Inr job'"
    and "list_all (\<lambda>e. \<not> is_requeue e) es"
  shows "oj_attempt_count job + int (length (filter is_retry es)) \<le> oj_max_attempts job - 1"
proof -
  from reachable_job_inv [OF assms(1)] have ok: "job_ok job" "lifecycle job" by simp_all
  with job_run_facts [OF ok(1) assms(2)]
  have "oj_attempt_count job' < oj_max_attempts job"
    by (simp add: lifecycle_def same_job_def)
  with attempts_of_run [OF ok(1) assms(2,3)] show ?thesis by linarith
qed

theorem retries_within_budget_witness:
  "oj_attempt_count sample_job +
     int (length (filter is_retry [Claim_For_Publishing 5 ''pub-1'' (Aware 0) 1]))
   \<le> oj_max_attempts sample_job - 1"
  by (rule retries_within_budget [OF sample_job_reachable, where job' = sample_claimed])
    (use sample_claim in simp_all)

text \<open>
  C21. No reachable job is stuck: from every reachable state, some sequence of at most five
  operations brings the job to success.
\<close>

theorem reachable_job_can_succeed:
  assumes "reachable_job job"
  shows "\<exists>es job'. length es \<le> 5 \<and> job_run es job = Inr job' \<and> oj_state job' = JS_SUCCEEDED"
  using run_to_success reachable_job_inv [OF assms] by blast

theorem reachable_job_can_succeed_witness:
  "\<exists>es job'. length es \<le> 5 \<and> job_run es sample_claimed = Inr job' \<and>
     oj_state job' = JS_SUCCEEDED"
  by (rule reachable_job_can_succeed [OF sample_claimed_reachable])

text \<open>
  Completion happens at most once and is final: in a run, nothing follows a successful
  \<open>mark_succeeded\<close>.
\<close>

theorem success_is_final:
  assumes "job_ok job" and "job_run (es @ Mark_Succeeded tok now v # fs) job = Inr job'"
  shows "fs = [] \<and> oj_state job' = JS_SUCCEEDED"
proof -
  from assms(2) obtain mid fin where mid: "job_run es job = Inr mid"
    and fin: "mark_succeeded mid tok now v = Inr fin" "job_run fs fin = Inr job'"
    by (auto simp: job_run_append bindE_Inr_iff)
  have "job_ok mid" using job_run_facts [OF assms(1) mid] by simp
  with fin(1) have st: "job_ok fin" "oj_state fin = JS_SUCCEEDED"
    using results_ok(6) by (blast, simp add: mark_succeeded_Inr_iff)
  with fin(2) have "fs = []"
    by (cases fs) (auto simp: bindE_Inr_iff final_refused)
  with fin(2) st show ?thesis by simp
qed

theorem success_is_final_witness:
  "\<exists>es fs job'. job_run (es @ Mark_Succeeded 8 (Aware 2) 5 # fs) sample_job = Inr job' \<and>
     fs = [] \<and> oj_state job' = JS_SUCCEEDED"
proof -
  let ?es = "[Claim_For_Publishing 5 ''pub-1'' (Aware 0) 1, Mark_Published 5 (Aware 1) 2,
    Claim_For_Processing 8 ''proc-1'' (Aware 2) 3, Renew_Processor_Claim 8 (Aware 2) 4]"
  have "is_ok (job_run (?es @ Mark_Succeeded 8 (Aware 2) 5 # []) sample_job)" by code_simp
  then obtain job' where
    "job_run (?es @ Mark_Succeeded 8 (Aware 2) 5 # []) sample_job = Inr job'"
    unfolding is_ok_iff by blast
  with success_is_final [OF sample_job_ok this] show ?thesis by blast
qed

text \<open>
  The retry delay: \<open>calculate_retry_delay_seconds\<close> returns for every positive attempt number, at
  least 30 seconds and at most an hour, never less for a later attempt than for an earlier one, and
  the hour exactly from the eighth attempt on.
\<close>

theorem retry_delay_shape:
  assumes "1 \<le> n" and "n \<le> m"
  shows "\<exists>d d'. calculate_retry_delay_seconds n = Inr d \<and> calculate_retry_delay_seconds m = Inr d' \<and>
    30 \<le> d \<and> d \<le> d' \<and> d' \<le> 3600 \<and> (d' = 3600 \<longleftrightarrow> 8 \<le> m)"
  using assms backoff_bounds [of n] backoff_bounds [of m] backoff_mono [OF assms(2)]
    backoff_full_iff [of m]
  by (simp add: result_simps)

theorem retry_delay_shape_witness:
  "\<exists>d d'. calculate_retry_delay_seconds 2 = Inr d \<and> calculate_retry_delay_seconds 9 = Inr d' \<and>
    30 \<le> d \<and> d \<le> d' \<and> d' \<le> 3600 \<and> (d' = 3600 \<longleftrightarrow> 8 \<le> (9::int))"
  by (rule retry_delay_shape) simp_all

end
