(* ===== verification/Outbox_Repository.thy ===== *)
theory Outbox_Repository
  imports Outbox_Machine
begin

text \<open>
  Persistence of outbox jobs: the row types and constraints of \<open>infrastructure/outbox_orm.py\<close>, the
  mappers of \<open>infrastructure/outbox_mappers.py\<close> and every method of the repositories in
  \<open>infrastructure/outbox_repositories.py\<close>. A table is the list of its rows. A query is what its
  expression says: a filter, a stable sort by the \<open>ORDER BY\<close> key, a prefix of length \<open>LIMIT\<close>;
  \<open>FOR UPDATE SKIP LOCKED\<close> leaves out the rows of a given predicate \<open>locked\<close>, the rows other
  transactions hold. A write is checked against the table's column types, \<open>CHECK\<close> constraints,
  primary key and unique indexes. \<open>uuid4\<close> is a parameter, the stream of values it returns, with the
  number of values drawn so far passed along.
\<close>

section \<open>Rows\<close>

record outbox_job_row =
  row_id :: uuid
  row_tenant_id :: "uuid option"
  row_job_kind :: string
  row_resource_type :: string
  row_resource_id :: uuid
  row_secondary_resource_id :: "uuid option"
  row_schema_version :: int
  row_deduplication_key :: string
  row_priority :: int
  row_state :: string
  row_available_at :: datetime
  row_created_at :: datetime
  row_attempt_count :: int
  row_max_attempts :: int
  row_claim_token :: "uuid option"
  row_claimed_by :: "string option"
  row_claimed_at :: "datetime option"
  row_claim_expires_at :: "datetime option"
  row_published_at :: "datetime option"
  row_processing_started_at :: "datetime option"
  row_completed_at :: "datetime option"
  row_last_error_code :: "string option"
  row_version :: int

record outbox_job_attempt_row =
  arow_id :: uuid
  arow_job_id :: uuid
  arow_attempt_number :: int
  arow_phase :: string
  arow_started_at :: datetime
  arow_finished_at :: datetime
  arow_outcome :: string
  arow_error_code :: "string option"
  arow_claim_token :: uuid

text \<open>
  Column types: \<open>Integer\<close> is a 32-bit column, \<open>String(n)\<close> holds at most \<open>n\<close> characters, and
  \<open>TIMESTAMP(timezone=True)\<close> holds aware timestamps.
\<close>

definition job_columns_fit :: "outbox_job_row \<Rightarrow> bool" where
  "job_columns_fit row \<longleftrightarrow>
     length (row_job_kind row) \<le> 64 \<and> length (row_resource_type row) \<le> 64 \<and>
     fits_int4 (row_schema_version row) \<and> length (row_deduplication_key row) \<le> 128 \<and>
     fits_int4 (row_priority row) \<and> length (row_state row) \<le> 32 \<and>
     aware (row_available_at row) \<and> aware (row_created_at row) \<and>
     fits_int4 (row_attempt_count row) \<and> fits_int4 (row_max_attempts row) \<and>
     pred_option (\<lambda>s. length s \<le> 64) (row_claimed_by row) \<and>
     pred_option aware (row_claimed_at row) \<and> pred_option aware (row_claim_expires_at row) \<and>
     pred_option aware (row_published_at row) \<and>
     pred_option aware (row_processing_started_at row) \<and>
     pred_option aware (row_completed_at row) \<and>
     pred_option (\<lambda>s. length s \<le> 64) (row_last_error_code row) \<and> fits_int4 (row_version row)"

text \<open>The \<open>CHECK\<close> constraints of \<open>outbox_jobs\<close>, in the order of \<open>__table_args__\<close>.\<close>

definition job_row_checks :: "outbox_job_row \<Rightarrow> bool" where
  "job_row_checks row \<longleftrightarrow>
     row_job_kind row \<in> set (map job_kind_value job_kinds) \<and>
     row_state row \<in> set (map job_state_value job_states) \<and>
     (0 \<le> row_priority row \<and> row_priority row \<le> 1000) \<and>
     0 \<le> row_attempt_count row \<and>
     1 \<le> row_max_attempts row \<and>
     (1 \<le> row_schema_version row \<and> row_schema_version row \<le> 1000) \<and>
     1 \<le> row_version row \<and>
     matches_ident ident_dash_char 127 (row_deduplication_key row) \<and>
     matches_ident ident_char 63 (row_resource_type row) \<and>
     pred_option (matches_ident ident_dash_char 63) (row_claimed_by row) \<and>
     pred_option (\<lambda>s. s \<in> set (map error_code_value error_codes)) (row_last_error_code row) \<and>
     ((row_job_kind row = ''reconciliation.run'' \<and> row_tenant_id row = None) \<or>
      (row_job_kind row \<noteq> ''reconciliation.run'' \<and> row_tenant_id row \<noteq> None))"

text \<open>
  The two partial unique indexes together: one deduplication key per tenant, and one among the jobs
  without a tenant.
\<close>

definition dedup_index :: "outbox_job_row \<Rightarrow> uuid option \<times> string" where
  "dedup_index row = (row_tenant_id row, row_deduplication_key row)"

definition attempt_columns_fit :: "outbox_job_attempt_row \<Rightarrow> bool" where
  "attempt_columns_fit row \<longleftrightarrow>
     fits_int4 (arow_attempt_number row) \<and> length (arow_phase row) \<le> 16 \<and>
     aware (arow_started_at row) \<and> aware (arow_finished_at row) \<and>
     length (arow_outcome row) \<le> 16 \<and> pred_option (\<lambda>s. length s \<le> 64) (arow_error_code row)"

definition attempt_row_checks :: "outbox_job_attempt_row \<Rightarrow> bool" where
  "attempt_row_checks row \<longleftrightarrow>
     arow_phase row \<in> set (map job_phase_value job_phases) \<and>
     arow_outcome row \<in> set (map attempt_outcome_value attempt_outcomes) \<and>
     1 \<le> arow_attempt_number row \<and>
     pred_option (\<lambda>s. s \<in> set (map error_code_value error_codes)) (arow_error_code row) \<and>
     arow_started_at row \<le> arow_finished_at row"

section \<open>Errors\<close>

text \<open>
  The exceptions that leave a repository: the persistence errors of
  \<open>application/outbox_persistence.py\<close>, those of the domain that no handler catches, \<open>ValueError\<close>
  and the driver's own errors.
\<close>

datatype outbox_repo_error =
    OutboxPersistenceError string
  | OutboxRecordNotFoundError string
  | DuplicateOutboxJobError string
  | OutboxStaleVersionError string
  | OutboxClaimMismatchError string
  | Uncaught outbox_error
  | Repo_ValueError string
  | DriverError string

definition uncaught :: "outbox_error + 'a \<Rightarrow> outbox_repo_error + 'a" where
  "uncaught r = (case r of Inl e \<Rightarrow> Inl (Uncaught e) | Inr x \<Rightarrow> Inr x)"

definition enum_member :: "('a \<Rightarrow> string) \<Rightarrow> 'a list \<Rightarrow> string \<Rightarrow> outbox_repo_error + 'a" where
  "enum_member val members s =
     (case enum_of val members s of
        None \<Rightarrow> Inl (Repo_ValueError (s @ '' is not a valid member'')) | Some m \<Rightarrow> Inr m)"

section \<open>Mappers\<close>

definition optional_error_code ::
  "string option \<Rightarrow> outbox_repo_error + outbox_error_code option" where
  "optional_error_code c =
     (case c of
        None \<Rightarrow> Inr None
      | Some x \<Rightarrow> bindE (enum_member error_code_value error_codes x) (\<lambda>ec. Inr (Some ec)))"

definition outbox_job_to_row :: "outbox_job \<Rightarrow> outbox_job_row" where
  "outbox_job_to_row job =
     \<lparr>row_id = oj_id job, row_tenant_id = oj_tenant_id job,
      row_job_kind = job_kind_value (oj_job_kind job),
      row_resource_type = ref_resource_type (oj_reference job),
      row_resource_id = ref_resource_id (oj_reference job),
      row_secondary_resource_id = ref_secondary_id (oj_reference job),
      row_schema_version = ref_schema_version (oj_reference job),
      row_deduplication_key = oj_deduplication_key job, row_priority = oj_priority job,
      row_state = job_state_value (oj_state job), row_available_at = oj_available_at job,
      row_created_at = oj_created_at job, row_attempt_count = oj_attempt_count job,
      row_max_attempts = oj_max_attempts job, row_claim_token = oj_claim_token job,
      row_claimed_by = oj_claimed_by job, row_claimed_at = oj_claimed_at job,
      row_claim_expires_at = oj_claim_expires_at job, row_published_at = oj_published_at job,
      row_processing_started_at = oj_processing_started_at job,
      row_completed_at = oj_completed_at job,
      row_last_error_code = map_option error_code_value (oj_last_error_code job),
      row_version = oj_version job\<rparr>"

definition outbox_job_to_domain :: "outbox_job_row \<Rightarrow> outbox_repo_error + outbox_job" where
  "outbox_job_to_domain row =
     bindE (uncaught (OutboxJobReference_post_init
       \<lparr>ref_resource_type = row_resource_type row, ref_resource_id = row_resource_id row,
        ref_schema_version = row_schema_version row, ref_tenant_id = row_tenant_id row,
        ref_secondary_id = row_secondary_resource_id row\<rparr>)) (\<lambda>reference.
     bindE (enum_member job_kind_value job_kinds (row_job_kind row)) (\<lambda>kind.
     bindE (enum_member job_state_value job_states (row_state row)) (\<lambda>state.
     bindE (optional_error_code (row_last_error_code row)) (\<lambda>error_code.
     uncaught (OutboxJob_post_init
       \<lparr>oj_id = row_id row, oj_tenant_id = row_tenant_id row, oj_job_kind = kind,
        oj_reference = reference, oj_deduplication_key = row_deduplication_key row,
        oj_priority = row_priority row, oj_state = state,
        oj_available_at = row_available_at row, oj_created_at = row_created_at row,
        oj_attempt_count = row_attempt_count row, oj_max_attempts = row_max_attempts row,
        oj_version = row_version row, oj_claim_token = row_claim_token row,
        oj_claimed_by = row_claimed_by row, oj_claimed_at = row_claimed_at row,
        oj_claim_expires_at = row_claim_expires_at row, oj_published_at = row_published_at row,
        oj_processing_started_at = row_processing_started_at row,
        oj_completed_at = row_completed_at row, oj_last_error_code = error_code\<rparr>)))))"

definition update_outbox_job_row :: "outbox_job_row \<Rightarrow> outbox_job \<Rightarrow> outbox_job_row" where
  "update_outbox_job_row row job = row
     \<lparr>row_tenant_id := oj_tenant_id job, row_job_kind := job_kind_value (oj_job_kind job),
      row_resource_type := ref_resource_type (oj_reference job),
      row_resource_id := ref_resource_id (oj_reference job),
      row_secondary_resource_id := ref_secondary_id (oj_reference job),
      row_schema_version := ref_schema_version (oj_reference job),
      row_deduplication_key := oj_deduplication_key job, row_priority := oj_priority job,
      row_state := job_state_value (oj_state job), row_available_at := oj_available_at job,
      row_created_at := oj_created_at job, row_attempt_count := oj_attempt_count job,
      row_max_attempts := oj_max_attempts job, row_claim_token := oj_claim_token job,
      row_claimed_by := oj_claimed_by job, row_claimed_at := oj_claimed_at job,
      row_claim_expires_at := oj_claim_expires_at job, row_published_at := oj_published_at job,
      row_processing_started_at := oj_processing_started_at job,
      row_completed_at := oj_completed_at job,
      row_last_error_code := map_option error_code_value (oj_last_error_code job),
      row_version := oj_version job\<rparr>"

definition outbox_job_attempt_to_row :: "outbox_job_attempt \<Rightarrow> outbox_job_attempt_row" where
  "outbox_job_attempt_to_row at =
     \<lparr>arow_id = at_id at, arow_job_id = at_job_id at,
      arow_attempt_number = at_attempt_number at, arow_phase = job_phase_value (at_phase at),
      arow_started_at = at_started_at at, arow_finished_at = at_finished_at at,
      arow_outcome = attempt_outcome_value (at_outcome at),
      arow_error_code = map_option error_code_value (at_error_code at),
      arow_claim_token = at_claim_token at\<rparr>"

definition outbox_job_attempt_to_domain ::
  "outbox_job_attempt_row \<Rightarrow> outbox_repo_error + outbox_job_attempt" where
  "outbox_job_attempt_to_domain row =
     bindE (enum_member job_phase_value job_phases (arow_phase row)) (\<lambda>phase.
     bindE (enum_member attempt_outcome_value attempt_outcomes (arow_outcome row)) (\<lambda>outcome.
     bindE (optional_error_code (arow_error_code row)) (\<lambda>error_code.
     uncaught (OutboxJobAttempt_post_init
       \<lparr>at_id = arow_id row, at_job_id = arow_job_id row,
        at_attempt_number = arow_attempt_number row, at_phase = phase,
        at_started_at = arow_started_at row, at_finished_at = arow_finished_at row,
        at_outcome = outcome, at_claim_token = arow_claim_token row,
        at_error_code = error_code\<rparr>))))"

section \<open>Repository of jobs\<close>

text \<open>\<open>_flush\<close>: the table after the write meets its constraints, or the error is translated.\<close>

definition flush_jobs :: "outbox_job_row list \<Rightarrow> outbox_repo_error + unit" where
  "flush_jobs rows =
     (if \<not> list_all job_columns_fit rows then Inl (DriverError ''value out of column range'')
      else if \<not> list_all job_row_checks rows \<or> \<not> distinct (map row_id rows)
      then Inl (OutboxPersistenceError ''outbox persistence integrity error'')
      else if \<not> distinct (map dedup_index rows)
      then Inl (DuplicateOutboxJobError ''outbox persistence integrity error'')
      else Inr ())"

fun map_domain_error :: "outbox_error \<Rightarrow> outbox_repo_error" where
  "map_domain_error (OutboxClaimError m) =
     OutboxClaimMismatchError ''outbox claim validation failed''"
| "map_domain_error (OutboxTransitionError m) =
     OutboxClaimMismatchError ''outbox transition validation failed''"
| "map_domain_error e = Uncaught e"

text \<open>In the claiming methods one handler maps both errors.\<close>

fun map_domain_transition_error :: "outbox_error \<Rightarrow> outbox_repo_error" where
  "map_domain_transition_error (OutboxClaimError m) =
     OutboxClaimMismatchError ''outbox transition validation failed''"
| "map_domain_transition_error (OutboxTransitionError m) =
     OutboxClaimMismatchError ''outbox transition validation failed''"
| "map_domain_transition_error e = Uncaught e"

definition catching :: "('e \<Rightarrow> 'f) \<Rightarrow> 'e + 'a \<Rightarrow> 'f + 'a" where
  "catching h r = (case r of Inl e \<Rightarrow> Inl (h e) | Inr x \<Rightarrow> Inr x)"

definition get_row :: "outbox_job_row list \<Rightarrow> uuid \<Rightarrow> outbox_job_row option" where
  "get_row rows job_id = find (\<lambda>row. row_id row = job_id) rows"

definition get_job_row_required ::
  "outbox_job_row list \<Rightarrow> uuid \<Rightarrow> outbox_repo_error + outbox_job_row" where
  "get_job_row_required rows job_id =
     (case get_row rows job_id of
        None \<Rightarrow> Inl (OutboxRecordNotFoundError ''outbox job not found'') | Some row \<Rightarrow> Inr row)"

text \<open>The assignment to the attributes of the row object with the given identity.\<close>

definition store_row :: "outbox_job_row list \<Rightarrow> outbox_job_row \<Rightarrow> outbox_job_row list" where
  "store_row rows new = map (\<lambda>row. if row_id row = row_id new then new else row) rows"

definition enqueue ::
  "outbox_job_row list \<Rightarrow> outbox_job \<Rightarrow> outbox_repo_error + outbox_job_row list" where
  "enqueue rows job =
     (let rows' = rows @ [outbox_job_to_row job] in
      bindE (flush_jobs rows') (\<lambda>_. Inr rows'))"

definition get_by_id ::
  "outbox_job_row list \<Rightarrow> uuid \<Rightarrow> outbox_repo_error + outbox_job option" where
  "get_by_id rows job_id =
     (case get_row rows job_id of
        None \<Rightarrow> Inr None
      | Some row \<Rightarrow> bindE (outbox_job_to_domain row) (\<lambda>job. Inr (Some job)))"

definition find_by_deduplication_key ::
  "outbox_job_row list \<Rightarrow> uuid option \<Rightarrow> string \<Rightarrow> outbox_repo_error + outbox_job option" where
  "find_by_deduplication_key rows tenant_id key =
     (case filter (\<lambda>row. row_deduplication_key row = key \<and> row_tenant_id row = tenant_id) rows of
        [] \<Rightarrow> Inr None
      | [row] \<Rightarrow> bindE (outbox_job_to_domain row) (\<lambda>job. Inr (Some job))
      | _ \<Rightarrow> Inl (DriverError ''multiple rows were found''))"

text \<open>
  \<open>get_or_create\<close> with the rows that other transactions commit between its lookup and its insert
  (\<open>committed\<close>), and with what the session does with a statement after a failed flush
  (\<open>reselect\<close>: the exception it raises, if it does).
\<close>

definition get_or_create ::
  "outbox_repo_error option \<Rightarrow> outbox_job_row list \<Rightarrow> outbox_job_row list \<Rightarrow> outbox_job \<Rightarrow>
   outbox_repo_error + (outbox_job_row list \<times> outbox_job \<times> bool)" where
  "get_or_create reselect committed rows job =
     bindE (find_by_deduplication_key rows (oj_tenant_id job) (oj_deduplication_key job))
       (\<lambda>existing.
     case existing of
       Some found \<Rightarrow> Inr (rows @ committed, found, False)
     | None \<Rightarrow>
         (case enqueue (rows @ committed) job of
            Inr rows' \<Rightarrow> Inr (rows', job, True)
          | Inl (DuplicateOutboxJobError m) \<Rightarrow>
              (case reselect of
                 Some e \<Rightarrow> Inl e
               | None \<Rightarrow>
                   bindE (find_by_deduplication_key (rows @ committed) (oj_tenant_id job)
                            (oj_deduplication_key job)) (\<lambda>again.
                   case again of
                     None \<Rightarrow> Inl (DuplicateOutboxJobError m)
                   | Some found \<Rightarrow> Inr (rows @ committed, found, False)))
          | Inl e \<Rightarrow> Inl e))"

definition kind_allowed :: "outbox_job_kind list option \<Rightarrow> outbox_job_row \<Rightarrow> bool" where
  "kind_allowed allowed row =
     (case allowed of None \<Rightarrow> True
      | Some kinds \<Rightarrow> row_job_kind row \<in> set (map job_kind_value kinds))"

definition publish_order :: "outbox_job_row \<Rightarrow> int \<times> datetime \<times> datetime" where
  "publish_order row = (row_priority row, row_available_at row, row_created_at row)"

definition select_publishable ::
  "(uuid \<Rightarrow> bool) \<Rightarrow> outbox_job_row list \<Rightarrow> datetime \<Rightarrow> nat \<Rightarrow> outbox_job_kind list option \<Rightarrow>
   outbox_job_row list" where
  "select_publishable locked rows now batch_size allowed =
     take batch_size (sort_key publish_order
       (filter (\<lambda>row. row_state row \<in> {job_state_value JS_PENDING, job_state_value JS_RETRY_SCHEDULED} \<and>
                      row_available_at row \<le> now \<and> kind_allowed allowed row \<and>
                      \<not> locked (row_id row)) rows))"

text \<open>The loop over the selected rows: the table, the jobs claimed, and the count of UUIDs drawn.\<close>

fun claim_rows ::
  "(nat \<Rightarrow> uuid) \<Rightarrow> nat \<Rightarrow> string \<Rightarrow> datetime \<Rightarrow> outbox_job_row list \<Rightarrow> outbox_job_row list \<Rightarrow>
   outbox_repo_error + (outbox_job_row list \<times> outbox_job list \<times> nat)" where
  "claim_rows uuid4 drawn worker_id now [] rows = Inr (rows, [], drawn)"
| "claim_rows uuid4 drawn worker_id now (row # rest) rows =
     bindE (outbox_job_to_domain row) (\<lambda>current.
     bindE (catching map_domain_transition_error
              (claim_for_publishing current (uuid4 drawn) worker_id now (oj_version current)))
       (\<lambda>updated.
     bindE (claim_rows uuid4 (Suc drawn) worker_id now rest
              (store_row rows (update_outbox_job_row row updated))) (\<lambda>(rows', claimed, drawn').
     Inr (rows', updated # claimed, drawn'))))"

definition claim_publisher_batch ::
  "(nat \<Rightarrow> uuid) \<Rightarrow> nat \<Rightarrow> (uuid \<Rightarrow> bool) \<Rightarrow> outbox_job_row list \<Rightarrow> string \<Rightarrow> datetime \<Rightarrow> int \<Rightarrow>
   outbox_job_kind list option \<Rightarrow>
   outbox_repo_error + (outbox_job_row list \<times> outbox_job list \<times> nat)" where
  "claim_publisher_batch uuid4 drawn locked rows worker_id now batch_size allowed =
     bindE (raise_if (batch_size < 1) (Repo_ValueError ''batch_size must be positive'')) (\<lambda>_.
     bindE (claim_rows uuid4 drawn worker_id now
              (select_publishable locked rows now (nat batch_size) allowed) rows)
       (\<lambda>(rows', claimed, drawn').
     bindE (if claimed \<noteq> [] then flush_jobs rows' else Inr ()) (\<lambda>_.
     Inr (rows', claimed, drawn'))))"

text \<open>
  The body that the finalising methods repeat: load the row, apply a domain operation to the job,
  compare versions, write the row back and flush.
\<close>

definition finalize ::
  "outbox_job_row list \<Rightarrow> uuid \<Rightarrow> int option \<Rightarrow> (outbox_job \<Rightarrow> outbox_repo_error + outbox_job) \<Rightarrow>
   outbox_repo_error + (outbox_job_row list \<times> outbox_job)" where
  "finalize rows job_id expected_version dop =
     bindE (get_job_row_required rows job_id) (\<lambda>row.
     bindE (outbox_job_to_domain row) (\<lambda>current.
     bindE (dop current) (\<lambda>updated.
     bindE (when_some expected_version (\<lambda>v.
              raise_if (row_version row \<noteq> v)
                (OutboxStaleVersionError ''outbox job version mismatch''))) (\<lambda>_.
     let rows' = store_row rows (update_outbox_job_row row updated) in
     bindE (flush_jobs rows') (\<lambda>_.
     Inr (rows', updated))))))"

definition repo_mark_published ::
  "outbox_job_row list \<Rightarrow> uuid \<Rightarrow> uuid \<Rightarrow> datetime \<Rightarrow> int \<Rightarrow>
   outbox_repo_error + (outbox_job_row list \<times> outbox_job)" where
  "repo_mark_published rows job_id claim_token now expected_version =
     finalize rows job_id (Some expected_version) (\<lambda>current.
       catching map_domain_error (mark_published current claim_token now expected_version))"

definition repo_schedule_retry ::
  "outbox_job_row list \<Rightarrow> uuid \<Rightarrow> uuid \<Rightarrow> string \<Rightarrow> datetime \<Rightarrow> int \<Rightarrow> string \<Rightarrow>
   outbox_repo_error + (outbox_job_row list \<times> outbox_job)" where
  "repo_schedule_retry rows job_id claim_token error_code now expected_version phase =
     finalize rows job_id (Some expected_version) (\<lambda>current.
       bindE (enum_member job_phase_value job_phases phase) (\<lambda>resolved_phase.
       bindE (enum_member error_code_value error_codes error_code) (\<lambda>resolved_error.
       catching map_domain_error
         (schedule_retry current claim_token resolved_phase resolved_error now
            expected_version))))"

definition repo_mark_dead_letter ::
  "outbox_job_row list \<Rightarrow> uuid \<Rightarrow> uuid \<Rightarrow> string \<Rightarrow> datetime \<Rightarrow> int \<Rightarrow>
   outbox_repo_error + (outbox_job_row list \<times> outbox_job)" where
  "repo_mark_dead_letter rows job_id claim_token error_code now expected_version =
     finalize rows job_id (Some expected_version) (\<lambda>current.
       bindE (enum_member error_code_value error_codes error_code) (\<lambda>resolved_error.
       catching map_domain_error
         (mark_dead_letter current claim_token resolved_error now expected_version)))"

definition repo_claim_for_processing ::
  "(nat \<Rightarrow> uuid) \<Rightarrow> nat \<Rightarrow> (uuid \<Rightarrow> bool) \<Rightarrow> outbox_job_row list \<Rightarrow> uuid \<Rightarrow> string \<Rightarrow> datetime \<Rightarrow>
   outbox_job_kind list option \<Rightarrow>
   outbox_repo_error + (outbox_job_row list \<times> outbox_job option \<times> nat)" where
  "repo_claim_for_processing uuid4 drawn locked rows job_id worker_id now allowed =
     (case find (\<lambda>row. row_id row = job_id \<and> row_state row = job_state_value JS_PUBLISHED \<and>
                       row_available_at row \<le> now \<and> kind_allowed allowed row \<and>
                       \<not> locked (row_id row)) rows of
        None \<Rightarrow> Inr (rows, None, drawn)
      | Some row \<Rightarrow>
          bindE (outbox_job_to_domain row) (\<lambda>current.
          bindE (catching map_domain_transition_error
                   (claim_for_processing current (uuid4 drawn) worker_id now (oj_version current)))
            (\<lambda>updated.
          let rows' = store_row rows (update_outbox_job_row row updated) in
          bindE (flush_jobs rows') (\<lambda>_.
          Inr (rows', Some updated, Suc drawn)))))"

definition repo_mark_succeeded ::
  "outbox_job_row list \<Rightarrow> uuid \<Rightarrow> uuid \<Rightarrow> datetime \<Rightarrow> int \<Rightarrow>
   outbox_repo_error + (outbox_job_row list \<times> outbox_job)" where
  "repo_mark_succeeded rows job_id claim_token now expected_version =
     finalize rows job_id (Some expected_version) (\<lambda>current.
       catching map_domain_error (mark_succeeded current claim_token now expected_version))"

definition select_expired ::
  "(uuid \<Rightarrow> bool) \<Rightarrow> outbox_job_row list \<Rightarrow> datetime \<Rightarrow> outbox_job_row list" where
  "select_expired locked rows now =
     filter (\<lambda>row. (case row_claim_expires_at row of None \<Rightarrow> False | Some e \<Rightarrow> e \<le> now) \<and>
                   row_state row \<in> {job_state_value JS_PUBLISHING, job_state_value JS_PROCESSING} \<and>
                   \<not> locked (row_id row)) rows"

fun recover_rows ::
  "datetime \<Rightarrow> outbox_job_row list \<Rightarrow> outbox_job_row list \<Rightarrow>
   outbox_repo_error + (outbox_job_row list \<times> outbox_job list)" where
  "recover_rows now [] rows = Inr (rows, [])"
| "recover_rows now (row # rest) rows =
     bindE (outbox_job_to_domain row) (\<lambda>current.
     case (if oj_state current = JS_PUBLISHING then recover_expired_publisher_claim current now
           else recover_expired_processor_claim current now) of
       Inl (OutboxTransitionError m) \<Rightarrow> recover_rows now rest rows
     | Inl e \<Rightarrow> Inl (Uncaught e)
     | Inr updated \<Rightarrow>
         bindE (recover_rows now rest (store_row rows (update_outbox_job_row row updated)))
           (\<lambda>(rows', recovered). Inr (rows', updated # recovered)))"

definition recover_expired_claims ::
  "(uuid \<Rightarrow> bool) \<Rightarrow> outbox_job_row list \<Rightarrow> datetime \<Rightarrow>
   outbox_repo_error + (outbox_job_row list \<times> outbox_job list)" where
  "recover_expired_claims locked rows now =
     bindE (recover_rows now (select_expired locked rows now) rows) (\<lambda>(rows', recovered).
     bindE (if recovered \<noteq> [] then flush_jobs rows' else Inr ()) (\<lambda>_.
     Inr (rows', recovered)))"

record outbox_reconciliation_filter =
  qf_tenant_id :: "uuid option"
  qf_overdue_before :: "datetime option"
  qf_limit :: int

fun rows_to_domain :: "outbox_job_row list \<Rightarrow> outbox_repo_error + outbox_job list" where
  "rows_to_domain [] = Inr []"
| "rows_to_domain (row # rows) =
     bindE (outbox_job_to_domain row) (\<lambda>job. bindE (rows_to_domain rows) (\<lambda>jobs. Inr (job # jobs)))"

definition list_by_state ::
  "outbox_job_row list \<Rightarrow> outbox_job_state \<Rightarrow> outbox_reconciliation_filter \<Rightarrow>
   outbox_repo_error + outbox_job list" where
  "list_by_state rows state qf =
     bindE (raise_if (qf_limit qf < 1) (Repo_ValueError ''limit must be positive'')) (\<lambda>_.
     rows_to_domain (take (nat (qf_limit qf))
       (sort_key (\<lambda>row. (row_available_at row, row_created_at row))
         (filter (\<lambda>row. row_state row = job_state_value state \<and>
                  (case qf_tenant_id qf of None \<Rightarrow> True | Some t \<Rightarrow> row_tenant_id row = Some t) \<and>
                  (case qf_overdue_before qf of None \<Rightarrow> True | Some b \<Rightarrow> row_available_at row \<le> b))
            rows))))"

definition repo_renew_processor_claim ::
  "outbox_job_row list \<Rightarrow> uuid \<Rightarrow> uuid \<Rightarrow> datetime \<Rightarrow> int \<Rightarrow>
   outbox_repo_error + (outbox_job_row list \<times> outbox_job)" where
  "repo_renew_processor_claim rows job_id claim_token now expected_version =
     finalize rows job_id (Some expected_version) (\<lambda>current.
       catching map_domain_error (renew_processor_claim current claim_token now expected_version))"

text \<open>Requeueing names no version; only transition errors are handled.\<close>

definition repo_requeue_dead_letter ::
  "outbox_job_row list \<Rightarrow> uuid \<Rightarrow> datetime \<Rightarrow> outbox_repo_error + (outbox_job_row list \<times> outbox_job)" where
  "repo_requeue_dead_letter rows job_id now =
     finalize rows job_id None (\<lambda>current.
       catching (\<lambda>e. case e of
           OutboxTransitionError m \<Rightarrow>
             OutboxClaimMismatchError ''outbox transition validation failed''
         | _ \<Rightarrow> Uncaught e)
         (requeue_dead_letter current now))"

section \<open>Repository of attempts\<close>

text \<open>An attempt needs its job (foreign key) and a new identity.\<close>

definition append_attempt_row ::
  "outbox_job_row list \<Rightarrow> outbox_job_attempt_row list \<Rightarrow> outbox_job_attempt \<Rightarrow>
   outbox_repo_error + outbox_job_attempt_row list" where
  "append_attempt_row rows attempts at =
     (let row = outbox_job_attempt_to_row at in
      if \<not> attempt_columns_fit row then Inl (DriverError ''value out of column range'')
      else if \<not> attempt_row_checks row \<or> arow_id row \<in> set (map arow_id attempts) \<or>
              arow_job_id row \<notin> set (map row_id rows)
      then Inl (OutboxPersistenceError ''outbox persistence integrity error'')
      else Inr (attempts @ [row]))"

end
