(* ===== verification/Outbox_Store.thy ===== *)
theory Outbox_Store
  imports Outbox_Repository
begin

text \<open>
  Correctness of the outbox repository: decoding undoes encoding; a table of the database is seen
  as a map from identities to jobs, and every finalising method refines the state machine's
  operation on that map (a locale, interpreted on each method); claiming a batch, claiming for
  processing, recovery and insertion are specified against the same map.
\<close>

section \<open>Decoding and encoding\<close>

lemma uncaught_Inr_iff [result_simps]: "uncaught r = Inr x \<longleftrightarrow> r = Inr x"
  by (cases r) (simp_all add: uncaught_def)

lemma catching_Inr_iff [result_simps]: "catching h r = Inr x \<longleftrightarrow> r = Inr x"
  by (cases r) (simp_all add: catching_def)

lemma catching_simps [simp]: "catching h (Inr x) = Inr x" "catching h (Inl e) = Inl (h e)"
  by (simp_all add: catching_def)

lemma member_job_kinds [simp]: "k \<in> set job_kinds"
  by (cases k) (simp_all add: job_kinds_def)

lemma member_job_states [simp]: "s \<in> set job_states"
  by (cases s) (simp_all add: job_states_def)

lemma member_job_phases [simp]: "ph \<in> set job_phases"
  by (cases ph) (simp_all add: job_phases_def)

lemma member_error_codes [simp]: "ec \<in> set error_codes"
  by (cases ec) (simp_all add: error_codes_def)

lemma member_attempt_outcomes [simp]: "oc \<in> set attempt_outcomes"
  by (cases oc) (simp_all add: attempt_outcomes_def)

lemma distinct_values [enum_simps]:
  "distinct (map job_kind_value job_kinds)" "distinct (map job_state_value job_states)"
  "distinct (map job_phase_value job_phases)" "distinct (map error_code_value error_codes)"
  "distinct (map attempt_outcome_value attempt_outcomes)"
  by (simp_all add: job_kinds_def job_states_def job_phases_def error_codes_def
      attempt_outcomes_def)

lemma enum_member_Inr_iff:
  assumes "distinct (map val members)" and "\<And>m. m \<in> set members"
  shows "enum_member val members s = Inr m \<longleftrightarrow> s = val m"
  using enum_of_value [OF assms(1), of m] assms(2) enum_of_SomeD [of val members s]
  by (auto simp: enum_member_def split: option.splits)

lemmas enum_members =
  enum_member_Inr_iff [OF distinct_values(1)] enum_member_Inr_iff [OF distinct_values(2)]
  enum_member_Inr_iff [OF distinct_values(3)] enum_member_Inr_iff [OF distinct_values(4)]
  enum_member_Inr_iff [OF distinct_values(5)]

lemma value_inj [simp]:
  "job_kind_value k = job_kind_value k' \<longleftrightarrow> k = k'"
  "job_state_value s = job_state_value s' \<longleftrightarrow> s = s'"
  "error_code_value e = error_code_value e' \<longleftrightarrow> e = e'"
  "job_phase_value p = job_phase_value p' \<longleftrightarrow> p = p'"
  "attempt_outcome_value a = attempt_outcome_value a' \<longleftrightarrow> a = a'"
  using distinct_values by (auto simp: distinct_map inj_on_def)

declare job_state_value.simps [simp del]

text \<open>A job as the database can hold it: valid, with a reference that names the job's tenant.\<close>

definition stored :: "outbox_job \<Rightarrow> bool" where
  "stored job \<longleftrightarrow>
     job_ok job \<and> reference_ok (oj_reference job) \<and>
     ref_tenant_id (oj_reference job) = oj_tenant_id job"

lemma optional_error_code_Inr_iff:
  "optional_error_code c = Inr ec \<longleftrightarrow> c = map_option error_code_value ec"
  by (cases c; cases ec) (auto simp: optional_error_code_def result_simps enum_members)

lemma enum_member_values [simp]:
  "enum_member job_kind_value job_kinds (job_kind_value k) = Inr k"
  "enum_member job_state_value job_states (job_state_value s) = Inr s"
  "enum_member job_phase_value job_phases (job_phase_value p) = Inr p"
  "enum_member error_code_value error_codes (error_code_value e) = Inr e"
  "enum_member attempt_outcome_value attempt_outcomes (attempt_outcome_value a) = Inr a"
  "optional_error_code (map_option error_code_value c) = Inr c"
  by (simp_all add: enum_members optional_error_code_Inr_iff)

lemma stored_reference:
  assumes "stored job"
  shows "\<lparr>ref_resource_type = ref_resource_type (oj_reference job),
    ref_resource_id = ref_resource_id (oj_reference job),
    ref_schema_version = ref_schema_version (oj_reference job), ref_tenant_id = oj_tenant_id job,
    ref_secondary_id = ref_secondary_id (oj_reference job)\<rparr> = oj_reference job"
  using assms by (cases "oj_reference job") (simp add: stored_def)

lemma to_domain_to_row:
  assumes "stored job"
  shows "outbox_job_to_domain (outbox_job_to_row job) = Inr job"
proof -
  have "reference_ok (oj_reference job)" "job_ok job" using assms by (simp_all add: stored_def)
  then have "uncaught (OutboxJobReference_post_init (oj_reference job)) = Inr (oj_reference job)"
    and "uncaught (OutboxJob_post_init job) = Inr job"
    by (simp_all add: result_simps reference_post_init_Inr_iff)
  then show ?thesis
    by (simp add: outbox_job_to_domain_def outbox_job_to_row_def stored_reference [OF assms])
      (cases job, simp)
qed

lemma to_domain_stored:
  assumes "outbox_job_to_domain row = Inr job"
  shows "stored job" and "row = outbox_job_to_row job"
  using assms
  by (auto simp: outbox_job_to_domain_def outbox_job_to_row_def stored_def result_simps
      reference_post_init_Inr_iff enum_members optional_error_code_Inr_iff)

lemma to_domain_Inr_iff:
  "outbox_job_to_domain row = Inr job \<longleftrightarrow> stored job \<and> row = outbox_job_to_row job"
  using to_domain_to_row to_domain_stored by blast

lemma to_row_simps [simp]:
  "row_id (outbox_job_to_row job) = oj_id job"
  "row_version (outbox_job_to_row job) = oj_version job"
  "row_state (outbox_job_to_row job) = job_state_value (oj_state job)"
  "row_available_at (outbox_job_to_row job) = oj_available_at job"
  "row_created_at (outbox_job_to_row job) = oj_created_at job"
  "row_priority (outbox_job_to_row job) = oj_priority job"
  "row_tenant_id (outbox_job_to_row job) = oj_tenant_id job"
  "row_deduplication_key (outbox_job_to_row job) = oj_deduplication_key job"
  "row_claim_expires_at (outbox_job_to_row job) = oj_claim_expires_at job"
  "row_job_kind (outbox_job_to_row job) = job_kind_value (oj_job_kind job)"
  by (simp_all add: outbox_job_to_row_def)

lemma update_row_to_row:
  "oj_id job' = oj_id job \<Longrightarrow>
   update_outbox_job_row (outbox_job_to_row job) job' = outbox_job_to_row job'"
  by (simp add: update_outbox_job_row_def outbox_job_to_row_def)

text \<open>Every valid job meets the constraints of its table; only the 32-bit columns can overflow.\<close>

definition in_range :: "outbox_job \<Rightarrow> bool" where
  "in_range job \<longleftrightarrow>
     oj_attempt_count job \<le> 2147483647 \<and> oj_max_attempts job \<le> 2147483647 \<and>
     oj_version job \<le> 2147483647"

lemma job_kind_value_length [simp]: "length (job_kind_value k) \<le> 64"
  by (cases k) simp_all

lemma job_state_value_length [simp]: "length (job_state_value s) \<le> 32"
  by (cases s) (simp_all add: job_state_value.simps)

lemma error_code_value_length [simp]: "length (error_code_value e) \<le> 64"
  by (cases e) simp_all

lemma optional_code_columns [simp]:
  "pred_option (\<lambda>s. length s \<le> 64) (map_option error_code_value c)"
  "pred_option (\<lambda>s. s \<in> error_code_value ` set error_codes) (map_option error_code_value c)"
  by (cases c; simp)+

lemma worker_column:
  "pred_option (matches_ident ident_dash_char 63) w \<Longrightarrow> pred_option (\<lambda>s. length s \<le> 64) w"
  by (cases w) (auto dest: matches_ident_length)

lemma kind_value_global: "job_kind_value k = ''reconciliation.run'' \<longleftrightarrow> k = JK_RECONCILIATION_RUN"
  by (cases k) simp_all

lemma stored_columns_fit: "stored job \<Longrightarrow> job_columns_fit (outbox_job_to_row job) \<longleftrightarrow> in_range job"
  by (auto simp: job_columns_fit_def stored_def outbox_job_to_row_def in_range_def job_ok_def
      fits_int4_def reference_ok_def worker_column dest!: matches_ident_length)

lemma stored_checks: "stored job \<Longrightarrow> job_row_checks (outbox_job_to_row job)"
  by (auto simp: job_row_checks_def stored_def outbox_job_to_row_def job_ok_def reference_ok_def
      kind_value_global)

section \<open>The table as a map of jobs\<close>

text \<open>A table of the database: it meets its constraints and every row is a job mid-life.\<close>

definition table_ok :: "outbox_job_row list \<Rightarrow> bool" where
  "table_ok rows \<longleftrightarrow>
     flush_jobs rows = Inr () \<and>
     (\<forall>row \<in> set rows. \<exists>job. outbox_job_to_domain row = Inr job \<and> lifecycle job)"

text \<open>The abstract store: a finite map from identities to jobs.\<close>

definition view :: "outbox_job_row list \<Rightarrow> uuid \<rightharpoonup> outbox_job" where
  "view rows job_id =
     (case get_row rows job_id of
        None \<Rightarrow> None
      | Some row \<Rightarrow> (case outbox_job_to_domain row of Inl e \<Rightarrow> None | Inr job \<Rightarrow> Some job))"

lemma flush_Inr_iff:
  "flush_jobs rows = Inr u \<longleftrightarrow>
     list_all job_columns_fit rows \<and> list_all job_row_checks rows \<and>
     distinct (map row_id rows) \<and> distinct (map dedup_index rows)"
  by (auto simp: flush_jobs_def)

lemma table_ok_iff:
  "table_ok rows \<longleftrightarrow>
     distinct (map row_id rows) \<and> distinct (map dedup_index rows) \<and>
     (\<forall>row \<in> set rows. \<exists>job. row = outbox_job_to_row job \<and> stored job \<and> lifecycle job \<and> in_range job)"
proof -
  have row: "(\<exists>job. outbox_job_to_domain row = Inr job \<and> lifecycle job) \<and> job_columns_fit row \<and>
      job_row_checks row \<longleftrightarrow>
    (\<exists>job. row = outbox_job_to_row job \<and> stored job \<and> lifecycle job \<and> in_range job)" for row
    by (auto simp: to_domain_Inr_iff stored_columns_fit stored_checks)
  show ?thesis
    unfolding table_ok_def flush_Inr_iff list_all_iff row [symmetric] ball_conj_distrib by blast
qed

lemma table_row:
  assumes "table_ok rows" and "row \<in> set rows"
  obtains job where "row = outbox_job_to_row job" "stored job" "lifecycle job" "in_range job"
    "outbox_job_to_domain row = Inr job"
  using assms unfolding table_ok_iff to_domain_Inr_iff by blast

lemma get_row_Some: "get_row rows job_id = Some row \<Longrightarrow> row \<in> set rows \<and> row_id row = job_id"
  by (auto simp: get_row_def find_Some_iff)

lemma get_row_distinct:
  "distinct (map row_id rows) \<Longrightarrow> row \<in> set rows \<Longrightarrow> get_row rows (row_id row) = Some row"
  by (induction rows) (auto simp: get_row_def image_iff)

lemma view_Some_iff:
  assumes "table_ok rows"
  shows "view rows job_id = Some job \<longleftrightarrow>
     stored job \<and> oj_id job = job_id \<and> outbox_job_to_row job \<in> set rows"
proof
  assume "view rows job_id = Some job"
  then show "stored job \<and> oj_id job = job_id \<and> outbox_job_to_row job \<in> set rows"
    by (auto simp: view_def to_domain_Inr_iff split: option.splits sum.splits dest: get_row_Some)
next
  assume job: "stored job \<and> oj_id job = job_id \<and> outbox_job_to_row job \<in> set rows"
  moreover have "distinct (map row_id rows)" using assms by (simp add: table_ok_iff)
  ultimately have "get_row rows job_id = Some (outbox_job_to_row job)"
    using get_row_distinct by force
  with job show "view rows job_id = Some job" by (simp add: view_def to_domain_to_row)
qed

lemma view_None_iff: "table_ok rows \<Longrightarrow> view rows job_id = None \<longleftrightarrow> get_row rows job_id = None"
  by (auto simp: view_def split: option.splits sum.splits)
    (metis get_row_Some table_row sum.distinct(1))

lemma view_facts:
  assumes "table_ok rows" and "view rows job_id = Some job"
  shows "stored job" "lifecycle job" "in_range job" "job_ok job" "oj_id job = job_id"
    "get_row rows job_id = Some (outbox_job_to_row job)"
    "outbox_job_to_domain (outbox_job_to_row job) = Inr job"
proof -
  from assms have mem: "stored job" "oj_id job = job_id" "outbox_job_to_row job \<in> set rows"
    by (simp_all add: view_Some_iff)
  from table_row [OF assms(1) mem(3)] obtain job' where
    "outbox_job_to_row job = outbox_job_to_row job'" "stored job'" "lifecycle job'" "in_range job'" .
  moreover from this mem(1) have "job' = job" by (metis sum.inject(2) to_domain_to_row)
  ultimately show "lifecycle job" "in_range job" by simp_all
  show "stored job" "job_ok job" "oj_id job = job_id" using mem by (simp_all add: stored_def)
  show "get_row rows job_id = Some (outbox_job_to_row job)"
    using get_row_distinct [of rows "outbox_job_to_row job"] assms(1) mem by (simp add: table_ok_iff)
  show "outbox_job_to_domain (outbox_job_to_row job) = Inr job" using mem(1) by (rule to_domain_to_row)
qed

text \<open>Writing a changed job back.\<close>

lemma store_row_keeps:
  assumes "\<And>row. row \<in> set rows \<Longrightarrow> row_id row = row_id new \<Longrightarrow> f row = f new"
  shows "map f (store_row rows new) = map f rows"
  using assms by (simp add: store_row_def)

lemma set_store_row:
  "set (store_row rows new) \<subseteq> insert new (set rows)"
  by (auto simp: store_row_def)

lemma get_store_row:
  "get_row (store_row rows new) job_id =
     (if job_id = row_id new \<and> get_row rows job_id \<noteq> None then Some new else get_row rows job_id)"
  by (induction rows) (auto simp: get_row_def store_row_def)

lemma same_job_stored: "stored job \<Longrightarrow> same_job job job' \<Longrightarrow> job_ok job' \<Longrightarrow> stored job'"
  by (simp add: stored_def same_job_def)

lemma same_job_in_range:
  "in_range job \<Longrightarrow> job_effect job job' \<Longrightarrow> in_range job' \<longleftrightarrow> oj_version job' \<le> 2147483647"
  by (auto simp: in_range_def job_effect_def same_job_def lifecycle_def)

definition max_version :: int where "max_version = 2147483647"

text \<open>Every stored version can still be incremented.\<close>

definition room :: "outbox_job_row list \<Rightarrow> bool" where
  "room rows \<longleftrightarrow> list_all (\<lambda>row. row_version row < max_version) rows"

lemma room_view:
  "table_ok rows \<Longrightarrow> room rows \<Longrightarrow> view rows k = Some job \<Longrightarrow> oj_version job < max_version"
  by (auto simp: room_def list_all_iff view_Some_iff)

lemma put_keeps_keys:
  assumes "table_ok rows" and "view rows job_id = Some job" and "same_job job job'"
  shows "map row_id (store_row rows (outbox_job_to_row job')) = map row_id rows"
    and "map dedup_index (store_row rows (outbox_job_to_row job')) = map dedup_index rows"
proof -
  have old: "row = outbox_job_to_row job"
    if "row \<in> set rows" "row_id row = row_id (outbox_job_to_row job')" for row
    using that assms(3) view_facts(5,6) [OF assms(1,2)] get_row_distinct [of rows row] assms(1)
    by (simp add: table_ok_iff same_job_def)
  show "map row_id (store_row rows (outbox_job_to_row job')) = map row_id rows"
    by (rule store_row_keeps) simp
  show "map dedup_index (store_row rows (outbox_job_to_row job')) = map dedup_index rows"
    using assms(3) by (intro store_row_keeps) (auto dest!: old simp: dedup_index_def same_job_def)
qed

lemma put_in_table:
  assumes "table_ok rows" and "view rows job_id = Some job" and "same_job job job'"
  shows "outbox_job_to_row job' \<in> set (store_row rows (outbox_job_to_row job'))"
proof -
  have "outbox_job_to_row job \<in> set rows" using assms(1,2) by (simp add: view_Some_iff)
  with assms(3) show ?thesis unfolding store_row_def by (force simp: same_job_def)
qed

lemma put_table_ok:
  assumes "table_ok rows" and "view rows job_id = Some job" and eff: "job_effect job job'"
    and "oj_version job' \<le> max_version"
  shows "table_ok (store_row rows (outbox_job_to_row job'))"
proof -
  note old = view_facts [OF assms(1,2)]
  have same: "same_job job job'" and ok: "job_ok job'" "lifecycle job'"
    using eff by (simp_all add: job_effect_def)
  have "stored job'" "in_range job'"
    using same_job_stored [OF old(1) same ok(1)] same_job_in_range [OF old(3) eff] assms(4)
    by (simp_all add: max_version_def)
  then have "\<exists>j. row = outbox_job_to_row j \<and> stored j \<and> lifecycle j \<and> in_range j"
    if "row \<in> set (store_row rows (outbox_job_to_row job'))" for row
    using that set_store_row [of rows "outbox_job_to_row job'"] assms(1) ok(2)
    unfolding table_ok_iff by blast
  then show ?thesis
    using put_keeps_keys [OF assms(1,2) same] assms(1) by (simp add: table_ok_iff)
qed

lemma put_view:
  assumes "table_ok rows" and "view rows job_id = Some job" and eff: "job_effect job job'"
  shows "view (store_row rows (outbox_job_to_row job')) = (view rows)(job_id \<mapsto> job')"
proof
  fix k
  note old = view_facts [OF assms(1,2)]
  have same: "same_job job job'" and "job_ok job'" using eff by (simp_all add: job_effect_def)
  then have "outbox_job_to_domain (outbox_job_to_row job') = Inr job'" "oj_id job' = job_id"
    using same_job_stored [OF old(1)] to_domain_to_row old(5) by (simp_all add: same_job_def)
  then show "view (store_row rows (outbox_job_to_row job')) k = ((view rows)(job_id \<mapsto> job')) k"
    using old(6) by (simp add: view_def get_store_row)
qed

lemma put_flush:
  assumes "table_ok rows" and "view rows job_id = Some job" and eff: "job_effect job job'"
  shows "flush_jobs (store_row rows (outbox_job_to_row job')) =
    (if oj_version job' \<le> max_version then Inr ()
     else Inl (DriverError ''value out of column range''))"
proof (cases "oj_version job' \<le> max_version")
  case True
  then show ?thesis using put_table_ok [OF assms] by (simp add: table_ok_def)
next
  case False
  have same: "same_job job job'" and ok: "job_ok job'" using eff by (simp_all add: job_effect_def)
  note old = view_facts [OF assms(1,2)]
  have "\<not> job_columns_fit (outbox_job_to_row job')"
    using False same_job_in_range [OF old(3) eff] stored_columns_fit
      same_job_stored [OF old(1) same ok] by (simp add: max_version_def)
  with put_in_table [OF assms(1,2) same] False show ?thesis
    by (auto simp: flush_jobs_def list_all_iff)
qed

lemma finalize_refines:
  assumes ok: "table_ok rows"
    and eff: "\<And>job job'. job_ok job \<Longrightarrow> lifecycle job \<Longrightarrow> dop job = Inr job' \<Longrightarrow>
      job_effect job job' \<and> (\<forall>v. ev = Some v \<longrightarrow> oj_version job = v)"
  shows "finalize rows job_id ev dop =
    (case view rows job_id of
       None \<Rightarrow> Inl (OutboxRecordNotFoundError ''outbox job not found'')
     | Some job \<Rightarrow> bindE (dop job) (\<lambda>job'.
         if oj_version job' \<le> max_version
         then Inr (store_row rows (outbox_job_to_row job'), job')
         else Inl (DriverError ''value out of column range'')))"
proof (cases "view rows job_id")
  case None
  then have "get_row rows job_id = None" using view_None_iff [OF ok] by blast
  with None show ?thesis by (simp add: finalize_def get_job_row_required_def)
next
  case (Some job)
  note old = view_facts [OF ok Some]
  show ?thesis
  proof (cases "dop job")
    case (Inl e)
    then show ?thesis using Some old by (simp add: finalize_def get_job_row_required_def)
  next
    case (Inr job')
    with eff [OF old(4,2)] have e: "job_effect job job'" "\<forall>v. ev = Some v \<longrightarrow> oj_version job = v"
      by blast+
    have "oj_id job' = oj_id job" using e(1) by (simp add: job_effect_def same_job_def)
    then show ?thesis
      using Some old Inr e(2) put_flush [OF ok Some e(1)]
      by (cases ev)
        (simp_all add: finalize_def get_job_row_required_def update_row_to_row Let_def)
  qed
qed

section \<open>The contract of the finalising methods\<close>

text \<open>
  A repository method that loads, changes and stores one job, against the domain operation it
  wraps: on a table of the database it answers as the domain operation does on the abstract map.
\<close>

locale stored_operation =
  fixes rop :: "outbox_job_row list \<Rightarrow> uuid \<Rightarrow> outbox_repo_error + (outbox_job_row list \<times> outbox_job)"
    and dop :: "outbox_job \<Rightarrow> outbox_error + outbox_job"
    and err :: "outbox_error \<Rightarrow> outbox_repo_error"
  assumes domain: "job_operation dop"
    and refines: "table_ok rows \<Longrightarrow> rop rows job_id =
      (case view rows job_id of
         None \<Rightarrow> Inl (OutboxRecordNotFoundError ''outbox job not found'')
       | Some job \<Rightarrow> bindE (catching err (dop job)) (\<lambda>job'.
           if oj_version job' \<le> max_version
           then Inr (store_row rows (outbox_job_to_row job'), job')
           else Inl (DriverError ''value out of column range'')))"
    and not_stale: "err e \<noteq> OutboxStaleVersionError m"
begin

lemma effect_on_view:
  assumes "table_ok rows" and "view rows job_id = Some job" and "dop job = Inr job'"
  shows "job_effect job job'"
  using job_operation.effect [OF domain view_facts(4,2) [OF assms(1,2)] assms(3)] .

lemma simulates:
  assumes "table_ok rows" and "rop rows job_id = Inr (rows', job')"
  shows "\<exists>job. view rows job_id = Some job \<and> dop job = Inr job' \<and> table_ok rows' \<and>
    view rows' = (view rows)(job_id \<mapsto> job')"
proof -
  from assms refines [OF assms(1), of job_id] obtain job where
    v: "view rows job_id = Some job" and d: "dop job = Inr job'"
    and n: "oj_version job' \<le> max_version" "rows' = store_row rows (outbox_job_to_row job')"
    by (auto simp: result_simps split: option.splits if_splits)
  note eff = effect_on_view [OF assms(1) v d]
  show ?thesis
    using v d n put_table_ok [OF assms(1) v eff] put_view [OF assms(1) v eff] by blast
qed

lemma completes:
  assumes "table_ok rows" and "view rows job_id = Some job" and "dop job = Inr job'"
    and "oj_version job < max_version"
  shows "rop rows job_id = Inr (store_row rows (outbox_job_to_row job'), job')"
proof -
  have "oj_version job' = oj_version job + 1"
    using effect_on_view [OF assms(1-3)] by (simp add: job_effect_def)
  with assms show ?thesis by (simp add: refines)
qed

lemma refuses:
  assumes "table_ok rows" and "view rows job_id = Some job" and "dop job = Inl e"
  shows "rop rows job_id = Inl (err e)"
  using assms by (simp add: refines)

lemma never_stale: "table_ok rows \<Longrightarrow> rop rows job_id \<noteq> Inl (OutboxStaleVersionError m)"
  by (auto simp: refines not_stale bindE_Inl_iff catching_def split: option.splits sum.splits)

end

lemma map_domain_error_not_stale: "map_domain_error e \<noteq> OutboxStaleVersionError m"
  by (cases e) simp_all

definition requeue_error :: "outbox_error \<Rightarrow> outbox_repo_error" where
  "requeue_error e = (case e of
      OutboxTransitionError m \<Rightarrow> OutboxClaimMismatchError ''outbox transition validation failed''
    | _ \<Rightarrow> Uncaught e)"

lemma requeue_error_not_stale: "requeue_error e \<noteq> OutboxStaleVersionError m"
  by (cases e) (simp_all add: requeue_error_def)

lemma finalize_domain_refines:
  assumes "table_ok rows" and "job_operation dop"
    and "\<And>job job' v. job_ok job \<Longrightarrow> dop job = Inr job' \<Longrightarrow> ev = Some v \<Longrightarrow> oj_version job = v"
  shows "finalize rows job_id ev (\<lambda>job. catching err (dop job)) =
    (case view rows job_id of
       None \<Rightarrow> Inl (OutboxRecordNotFoundError ''outbox job not found'')
     | Some job \<Rightarrow> bindE (catching err (dop job)) (\<lambda>job'.
         if oj_version job' \<le> max_version
         then Inr (store_row rows (outbox_job_to_row job'), job')
         else Inl (DriverError ''value out of column range'')))"
  by (rule finalize_refines [OF assms(1)])
    (use job_operation.effect [OF assms(2)] assms(3) in \<open>auto simp: result_simps\<close>)

interpretation r_mark_pub: stored_operation
  "\<lambda>rows job_id. repo_mark_published rows job_id tok now v"
  "\<lambda>job. mark_published job tok now v" map_domain_error for tok now v
  by (rule stored_operation.intro, rule mark_published_contract)
    (unfold repo_mark_published_def,
     erule finalize_domain_refines [OF _ mark_published_contract], simp add: op_Inr_iffs,
     rule map_domain_error_not_stale)

interpretation r_retry: stored_operation
  "\<lambda>rows job_id. repo_schedule_retry rows job_id tok (error_code_value ec) now v (job_phase_value ph)"
  "\<lambda>job. schedule_retry job tok ph ec now v" map_domain_error for tok ec now v ph
  by (rule stored_operation.intro, rule schedule_retry_contract)
    (unfold repo_schedule_retry_def enum_member_values bindE_simps,
     erule finalize_domain_refines [OF _ schedule_retry_contract], simp add: op_Inr_iffs,
     rule map_domain_error_not_stale)

interpretation r_dead_letter: stored_operation
  "\<lambda>rows job_id. repo_mark_dead_letter rows job_id tok (error_code_value ec) now v"
  "\<lambda>job. mark_dead_letter job tok ec now v" map_domain_error for tok ec now v
  by (rule stored_operation.intro, rule mark_dead_letter_contract)
    (unfold repo_mark_dead_letter_def enum_member_values bindE_simps,
     erule finalize_domain_refines [OF _ mark_dead_letter_contract], simp add: op_Inr_iffs,
     rule map_domain_error_not_stale)

interpretation r_succeed: stored_operation
  "\<lambda>rows job_id. repo_mark_succeeded rows job_id tok now v"
  "\<lambda>job. mark_succeeded job tok now v" map_domain_error for tok now v
  by (rule stored_operation.intro, rule mark_succeeded_contract)
    (unfold repo_mark_succeeded_def,
     erule finalize_domain_refines [OF _ mark_succeeded_contract], simp add: op_Inr_iffs,
     rule map_domain_error_not_stale)

interpretation r_renew: stored_operation
  "\<lambda>rows job_id. repo_renew_processor_claim rows job_id tok now v"
  "\<lambda>job. renew_processor_claim job tok now v" map_domain_error for tok now v
  by (rule stored_operation.intro, rule renew_processor_claim_contract)
    (unfold repo_renew_processor_claim_def,
     erule finalize_domain_refines [OF _ renew_processor_claim_contract], simp add: op_Inr_iffs,
     rule map_domain_error_not_stale)

interpretation r_requeue: stored_operation
  "\<lambda>rows job_id. repo_requeue_dead_letter rows job_id now"
  "\<lambda>job. requeue_dead_letter job now" requeue_error for now
  by (rule stored_operation.intro, rule requeue_dead_letter_contract)
    (unfold repo_requeue_dead_letter_def requeue_error_def [symmetric],
     erule finalize_domain_refines [OF _ requeue_dead_letter_contract], simp,
     rule requeue_error_not_stale)

section \<open>Claiming a batch\<close>

definition publishable :: "(uuid \<Rightarrow> bool) \<Rightarrow> datetime \<Rightarrow> outbox_job_kind list option \<Rightarrow> outbox_job \<Rightarrow> bool" where
  "publishable locked now allowed job \<longleftrightarrow>
     (oj_state job = JS_PENDING \<or> oj_state job = JS_RETRY_SCHEDULED) \<and> oj_available_at job \<le> now \<and>
     (\<forall>kinds. allowed = Some kinds \<longrightarrow> oj_job_kind job \<in> set kinds) \<and> \<not> locked (oj_id job)"

lemma kind_allowed_to_row:
  "kind_allowed allowed (outbox_job_to_row job) \<longleftrightarrow>
     (\<forall>kinds. allowed = Some kinds \<longrightarrow> oj_job_kind job \<in> set kinds)"
  by (cases allowed) (auto simp: kind_allowed_def)

lemma distinct_select:
  assumes "distinct (map f rows)"
  shows "distinct (map f (take n (sort_key g (filter P rows))))"
proof -
  have "distinct (map f (sort_key g (filter P rows)))"
    using assms by (auto simp: distinct_map intro: inj_on_subset distinct_filter)
  then show ?thesis by (simp flip: take_map)
qed

lemma in_select: "row \<in> set (take n (sort_key g (filter P rows))) \<Longrightarrow> row \<in> set rows \<and> P row"
  using set_take_subset [of n "sort_key g (filter P rows)"] by auto

text \<open>What \<open>ORDER BY ... LIMIT\<close> leaves out comes after everything it returns.\<close>

lemma select_is_first:
  assumes "row \<in> set (filter P rows)" and "row \<notin> set (take n (sort_key g (filter P rows)))"
    and "sel \<in> set (take n (sort_key g (filter P rows)))"
  shows "g sel \<le> g row"
proof -
  let ?s = "sort_key g (filter P rows)"
  have "row \<in> set ?s" using assms(1) by simp
  then have "row \<in> set (drop n ?s)" using assms(2) by (metis Un_iff append_take_drop_id set_append)
  moreover have "sorted (map g (take n ?s @ drop n ?s))" by simp
  ultimately show ?thesis using assms(3) unfolding map_append sorted_append by simp
qed

lemma claim_rows_spec:
  assumes "table_ok rows" and "distinct (map oj_id js)" and "aware now"
    and "matches_ident ident_dash_char 63 w"
    and "\<And>j. j \<in> set js \<Longrightarrow> view rows (oj_id j) = Some j \<and> oj_version j < max_version \<and>
      oj_state j \<in> {JS_PENDING, JS_RETRY_SCHEDULED} \<and> oj_available_at j \<le> now"
  shows "\<exists>rows' claimed.
    claim_rows uuid4 k w now (map outbox_job_to_row js) rows = Inr (rows', claimed, k + length js) \<and>
    table_ok rows' \<and>
    list_all2 (\<lambda>(i, j) c. claim_for_publishing j (uuid4 i) w now (oj_version j) = Inr c)
      (enumerate k js) claimed \<and>
    view rows' = view rows ++ map_of (map (\<lambda>c. (oj_id c, c)) (rev claimed))"
  using assms
proof (induction js arbitrary: rows k)
  case Nil
  then show ?case by simp
next
  case (Cons j js)
  have j: "view rows (oj_id j) = Some j" "oj_version j < max_version"
    "oj_state j \<in> {JS_PENDING, JS_RETRY_SCHEDULED}" "oj_available_at j \<le> now"
    using Cons.prems(5) [of j] by simp_all
  note old = view_facts [OF Cons.prems(1) j(1)]
  obtain c where c: "claim_for_publishing j (uuid4 k) w now (oj_version j) = Inr c"
    using j old Cons.prems(3,4) by (simp add: claim_for_publishing_Inr_iff)
  have eff: "job_effect j c"
    using job_operation.effect [OF claim_for_publishing_contract old(4,2) c] .
  let ?rows = "store_row rows (outbox_job_to_row c)"
  have cid: "oj_id c = oj_id j" and cv: "oj_version c \<le> max_version"
    using eff j(2) by (simp_all add: job_effect_def same_job_def)
  note put = put_table_ok [OF Cons.prems(1) j(1) eff cv] put_view [OF Cons.prems(1) j(1) eff]
  have rest: "view ?rows (oj_id j') = Some j' \<and> oj_version j' < max_version \<and>
      oj_state j' \<in> {JS_PENDING, JS_RETRY_SCHEDULED} \<and> oj_available_at j' \<le> now"
    if "j' \<in> set js" for j'
  proof -
    have "oj_id j' \<noteq> oj_id j" using imageI [OF that, of oj_id] Cons.prems(2) by auto
    then show ?thesis using Cons.prems(5) [of j'] that put(2) by simp
  qed
  have d: "distinct (map oj_id js)" using Cons.prems(2) by simp
  from Cons.IH [OF put(1) d Cons.prems(3,4) rest, of "Suc k"] obtain rows' claimed where
    IH: "claim_rows uuid4 (Suc k) w now (map outbox_job_to_row js) ?rows =
      Inr (rows', claimed, Suc k + length js)" "table_ok rows'"
    "list_all2 (\<lambda>(i, j) c. claim_for_publishing j (uuid4 i) w now (oj_version j) = Inr c)
      (enumerate (Suc k) js) claimed"
    "view rows' = view ?rows ++ map_of (map (\<lambda>c. (oj_id c, c)) (rev claimed))" by blast
  show ?case
    using IH c old(7) cid put(2) by (simp add: update_row_to_row)
qed

lemma rows_are_jobs:
  assumes "table_ok rows" and "set sel \<subseteq> set rows"
  shows "\<exists>js. sel = map outbox_job_to_row js \<and> (\<forall>j \<in> set js. view rows (oj_id j) = Some j)"
proof (intro exI conjI)
  let ?js = "map (\<lambda>row. projr (outbox_job_to_domain row)) sel"
  have row: "row = outbox_job_to_row (projr (outbox_job_to_domain row)) \<and>
      view rows (row_id row) = Some (projr (outbox_job_to_domain row))"
    if "row \<in> set sel" for row
    using table_row [OF assms(1), of row] that assms(2) view_Some_iff [OF assms(1)]
    by (metis subsetD sum.sel(2) to_row_simps(1))
  then show "sel = map outbox_job_to_row ?js" by (simp add: map_idI)
  show "\<forall>j \<in> set ?js. view rows (oj_id j) = Some j"
    using row by (auto, metis to_row_simps(1))
qed

lemma select_publishable_to_row:
  "outbox_job_to_row j \<in> set (select_publishable locked rows now n allowed) \<Longrightarrow>
   publishable locked now allowed j"
  unfolding select_publishable_def publishable_def
  by (drule in_select) (auto simp: kind_allowed_to_row)

lemma claim_batch_spec:
  assumes ok: "table_ok rows" and now: "aware now" and w: "matches_ident ident_dash_char 63 w"
    and "1 \<le> b" and room: "room rows"
  shows "\<exists>rows' claimed js.
    claim_publisher_batch uuid4 k locked rows w now b allowed = Inr (rows', claimed, k + length js) \<and>
    select_publishable locked rows now (nat b) allowed = map outbox_job_to_row js \<and>
    (\<forall>j \<in> set js. view rows (oj_id j) = Some j \<and> publishable locked now allowed j) \<and>
    list_all2 (\<lambda>(i, j) c. claim_for_publishing j (uuid4 i) w now (oj_version j) = Inr c)
      (enumerate k js) claimed \<and>
    table_ok rows' \<and> view rows' = view rows ++ map_of (map (\<lambda>c. (oj_id c, c)) (rev claimed))"
proof -
  let ?sel = "select_publishable locked rows now (nat b) allowed"
  have "set ?sel \<subseteq> set rows" unfolding select_publishable_def using in_select by fast
  then obtain js where js: "?sel = map outbox_job_to_row js"
    "\<forall>j \<in> set js. view rows (oj_id j) = Some j" using rows_are_jobs [OF ok] by blast
  have pub: "publishable locked now allowed j" if "j \<in> set js" for j
    using js(1) that by (intro select_publishable_to_row [of _ _ rows _ "nat b"]) simp
  have "distinct (map row_id ?sel)"
    unfolding select_publishable_def using ok by (intro distinct_select) (simp add: table_ok_iff)
  then have d: "distinct (map oj_id js)" using js(1) by (simp add: comp_def)
  have "view rows (oj_id j) = Some j \<and> oj_version j < max_version \<and>
      oj_state j \<in> {JS_PENDING, JS_RETRY_SCHEDULED} \<and> oj_available_at j \<le> now" if "j \<in> set js" for j
    using js(2) pub [OF that] room_view [OF ok room] that by (auto simp: publishable_def)
  from claim_rows_spec [OF ok d now w this, of uuid4 k] obtain rows' claimed where
    cl: "claim_rows uuid4 k w now (map outbox_job_to_row js) rows = Inr (rows', claimed, k + length js)"
    "table_ok rows'"
    "list_all2 (\<lambda>(i, j) c. claim_for_publishing j (uuid4 i) w now (oj_version j) = Inr c)
      (enumerate k js) claimed"
    "view rows' = view rows ++ map_of (map (\<lambda>c. (oj_id c, c)) (rev claimed))" by blast
  have "flush_jobs rows' = Inr ()" using cl(2) by (simp add: table_ok_def)
  then have "claim_publisher_batch uuid4 k locked rows w now b allowed = Inr (rows', claimed, k + length js)"
    using assms(4) js(1) cl(1) by (simp add: claim_publisher_batch_def)
  with cl js pub show ?thesis by blast
qed

section \<open>Claiming for processing\<close>

definition processable :: "(uuid \<Rightarrow> bool) \<Rightarrow> datetime \<Rightarrow> outbox_job_kind list option \<Rightarrow> outbox_job \<Rightarrow> bool" where
  "processable locked now allowed job \<longleftrightarrow>
     oj_state job = JS_PUBLISHED \<and> oj_available_at job \<le> now \<and>
     (\<forall>kinds. allowed = Some kinds \<longrightarrow> oj_job_kind job \<in> set kinds) \<and> \<not> locked (oj_id job)"

lemma find_with_id:
  assumes "distinct (map row_id rows)"
  shows "find (\<lambda>row. row_id row = job_id \<and> P row) rows =
    (case get_row rows job_id of None \<Rightarrow> None | Some row \<Rightarrow> if P row then Some row else None)"
  using assms
proof (induction rows)
  case (Cons row rows)
  have none: "find (\<lambda>r. row_id r = job_id \<and> P r) rows = None" if "row_id row = job_id"
    using that Cons.prems by (auto simp: find_None_iff) (metis imageI)
  show ?case
  proof (cases "row_id row = job_id")
    case True
    then show ?thesis using none by (simp add: get_row_def)
  next
    case False
    then show ?thesis using Cons by (simp add: get_row_def)
  qed
qed (simp add: get_row_def)

lemma claim_processing_spec:
  assumes ok: "table_ok rows" and now: "aware now" and w: "matches_ident ident_dash_char 63 w"
    and room: "\<And>job. view rows job_id = Some job \<Longrightarrow> oj_version job < max_version"
  shows "repo_claim_for_processing uuid4 k locked rows job_id w now allowed =
    (case view rows job_id of
       Some job \<Rightarrow>
         (if processable locked now allowed job
          then let job' = job\<lparr>oj_state := JS_PROCESSING, oj_claim_token := Some (uuid4 k),
                 oj_claimed_by := Some w, oj_claimed_at := Some now,
                 oj_claim_expires_at := Some (dt_plus now (timedelta_seconds 300)),
                 oj_processing_started_at := Some now, oj_version := oj_version job + 1\<rparr>
               in Inr (store_row rows (outbox_job_to_row job'), Some job', Suc k)
          else Inr (rows, None, k))
     | None \<Rightarrow> Inr (rows, None, k))"
proof (cases "view rows job_id")
  case None
  then have "get_row rows job_id = None" using view_None_iff [OF ok] by blast
  with None ok show ?thesis
    by (simp add: repo_claim_for_processing_def find_with_id table_ok_iff)
next
  case (Some job)
  note old = view_facts [OF ok Some]
  let ?new = "job\<lparr>oj_state := JS_PROCESSING, oj_claim_token := Some (uuid4 k),
                 oj_claimed_by := Some w, oj_claimed_at := Some now,
                 oj_claim_expires_at := Some (dt_plus now (timedelta_seconds 300)),
                 oj_processing_started_at := Some now, oj_version := oj_version job + 1\<rparr>"
  have f: "find (\<lambda>row. row_id row = job_id \<and> row_state row = job_state_value JS_PUBLISHED \<and>
      row_available_at row \<le> now \<and> kind_allowed allowed row \<and> \<not> locked (row_id row)) rows =
    (if processable locked now allowed job then Some (outbox_job_to_row job) else None)"
    using ok old(6) by (simp add: find_with_id table_ok_iff kind_allowed_to_row processable_def)
  show ?thesis
  proof (cases "processable locked now allowed job")
    case False
    with Some f show ?thesis by (simp add: repo_claim_for_processing_def)
  next
    case True
    then have c: "claim_for_processing job (uuid4 k) w now (oj_version job) = Inr ?new"
      using old(4) now w by (simp add: claim_for_processing_Inr_iff processable_def)
    have eff: "job_effect job ?new"
      using job_operation.effect [OF claim_for_processing_contract old(4,2) c] .
    have "flush_jobs (store_row rows (outbox_job_to_row ?new)) = Inr ()"
      using put_flush [OF ok Some eff] room [OF Some] by simp
    with True Some f c old(7) show ?thesis
      by (simp add: repo_claim_for_processing_def update_row_to_row Let_def)
  qed
qed

section \<open>Recovery of expired claims\<close>

definition recover :: "outbox_job \<Rightarrow> datetime \<Rightarrow> outbox_error + outbox_job" where
  "recover job now =
     (if oj_state job = JS_PUBLISHING then recover_expired_publisher_claim job now
      else recover_expired_processor_claim job now)"

lemma recover_contract: "job_operation (\<lambda>job. recover job now)"
  by (rule job_operation_intro)
    (auto simp: recover_def split: if_splits
      dest: recover_pub.keeps_ok recover_proc.keeps_ok recover_pub.bumps_version
        recover_proc.bumps_version recover_pub.keeps_identity recover_proc.keeps_identity
        recover_pub.follows_table recover_proc.follows_table recover_pub.keeps_lifecycle
        recover_proc.keeps_lifecycle)

lemma recover_Inr_iff:
  assumes "job_ok job"
  shows "(\<exists>job'. recover job now = Inr job') \<longleftrightarrow> claimed_state (oj_state job) \<and> lease_over job now"
  using assms
  by (auto simp: recover_def recover_publisher_Inr_iff recover_processor_Inr_iff claimed_state_def)

lemma recovered_state:
  assumes "job_ok job" and "recover job now = Inr job'"
  shows "oj_state job' = (if oj_state job = JS_PUBLISHING then JS_PENDING else JS_PUBLISHED) \<and>
    oj_claim_expires_at job' = None"
  using assms
  by (auto simp: recover_def recover_publisher_Inr_iff recover_processor_Inr_iff split: if_splits)

definition expired :: "(uuid \<Rightarrow> bool) \<Rightarrow> datetime \<Rightarrow> outbox_job \<Rightarrow> bool" where
  "expired locked now job \<longleftrightarrow>
     claimed_state (oj_state job) \<and> lease_over job now \<and> \<not> locked (oj_id job)"

lemma put_keeps_others:
  assumes "table_ok rows" and "view rows (oj_id j) = Some j" and "job_effect j c"
    and "distinct (map oj_id (j # js))" and "j' \<in> set js"
  shows "view (store_row rows (outbox_job_to_row c)) (oj_id j') = view rows (oj_id j')"
  using put_view [OF assms(1-3)] imageI [OF assms(5), of oj_id] assms(4) by auto

lemma recover_rows_spec:
  assumes "table_ok rows" and "distinct (map oj_id js)"
    and "\<And>j. j \<in> set js \<Longrightarrow> view rows (oj_id j) = Some j \<and> oj_version j < max_version \<and>
      claimed_state (oj_state j) \<and> lease_over j now"
  shows "\<exists>rows' recovered.
    recover_rows now (map outbox_job_to_row js) rows = Inr (rows', recovered) \<and> table_ok rows' \<and>
    list_all2 (\<lambda>j r. recover j now = Inr r) js recovered \<and>
    view rows' = view rows ++ map_of (map (\<lambda>r. (oj_id r, r)) (rev recovered))"
  using assms
proof (induction js arbitrary: rows)
  case Nil
  then show ?case by simp
next
  case (Cons j js)
  have j: "view rows (oj_id j) = Some j" "oj_version j < max_version"
    "claimed_state (oj_state j)" "lease_over j now"
    using Cons.prems(3) [of j] by simp_all
  note old = view_facts [OF Cons.prems(1) j(1)]
  obtain r where r: "recover j now = Inr r" using j recover_Inr_iff [OF old(4)] by blast
  have eff: "job_effect j r"
    using job_operation.effect [OF recover_contract old(4,2) r] .
  let ?rows = "store_row rows (outbox_job_to_row r)"
  have rid: "oj_id r = oj_id j" and rv: "oj_version r \<le> max_version"
    using eff j(2) by (simp_all add: job_effect_def same_job_def)
  note put = put_table_ok [OF Cons.prems(1) j(1) eff rv] put_view [OF Cons.prems(1) j(1) eff]
  have rest: "view ?rows (oj_id j') = Some j' \<and> oj_version j' < max_version \<and>
      claimed_state (oj_state j') \<and> lease_over j' now" if "j' \<in> set js" for j'
    using put_keeps_others [OF Cons.prems(1) j(1) eff Cons.prems(2) that] Cons.prems(3) [of j'] that
    by simp
  have d: "distinct (map oj_id js)" using Cons.prems(2) by simp
  from Cons.IH [OF put(1) d rest] obtain rows' recovered where
    IH: "recover_rows now (map outbox_job_to_row js) ?rows = Inr (rows', recovered)" "table_ok rows'"
    "list_all2 (\<lambda>j r. recover j now = Inr r) js recovered"
    "view rows' = view ?rows ++ map_of (map (\<lambda>r. (oj_id r, r)) (rev recovered))" by blast
  show ?case
    using IH r old(7) rid put(2) by (simp add: update_row_to_row recover_def [symmetric])
qed

lemma select_expired_iff:
  assumes "table_ok rows" and "aware now" and "view rows k = Some job"
  shows "outbox_job_to_row job \<in> set (select_expired locked rows now) \<longleftrightarrow> expired locked now job"
  using assms
  by (auto simp: select_expired_def expired_def lease_over_def claimed_state_def view_Some_iff
      split: option.splits)

text \<open>Fields of the jobs of a table after some of its jobs were replaced.\<close>

lemma view_after_replacing:
  assumes "list_all2 (\<lambda>j c. oj_id c = oj_id j \<and> Q j c) js cs" and "distinct (map oj_id js)"
    and v: "v' = v ++ map_of (map (\<lambda>c. (oj_id c, c)) (rev cs))"
  shows "(\<And>k. k \<notin> oj_id ` set js \<Longrightarrow> v' k = v k)"
    and "(\<And>j. j \<in> set js \<Longrightarrow> \<exists>c \<in> set cs. v' (oj_id j) = Some c \<and> Q j c)"
    and "(\<And>c. c \<in> set cs \<Longrightarrow> v' (oj_id c) = Some c)"
proof -
  have ids: "map oj_id cs = map oj_id js" using assms(1) by (induction rule: list_all2_induct) simp_all
  have keys: "map fst (map (\<lambda>c. (oj_id c, c)) (rev cs)) = rev (map oj_id js)"
    using ids by (simp add: comp_def flip: rev_map)
  have "dom (map_of (map (\<lambda>c. (oj_id c, c)) (rev cs))) = oj_id ` set js"
    using arg_cong [OF ids, of set] by (simp add: dom_map_of_conv_image_fst image_image)
  then show "v' k = v k" if "k \<notin> oj_id ` set js" for k
    using that v by (simp add: map_add_def domIff split: option.splits) blast
  show here: "v' (oj_id c) = Some c" if "c \<in> set cs" for c
  proof -
    have "map_of (map (\<lambda>c. (oj_id c, c)) (rev cs)) (oj_id c) = Some c"
      using that assms(2) keys by (intro map_of_is_SomeI) (simp_all only: distinct_rev, simp)
    with v show ?thesis by simp
  qed
  show "\<exists>c \<in> set cs. v' (oj_id j) = Some c \<and> Q j c" if "j \<in> set js" for j
  proof -
    from that obtain i where i: "i < length js" "js ! i = j" by (auto simp: in_set_conv_nth)
    with list_all2_nthD [OF assms(1) i(1)] list_all2_lengthD [OF assms(1)]
    obtain c where c: "c \<in> set cs" "oj_id c = oj_id j" "Q j c"
      by (metis nth_mem)
    with here [OF c(1)] show ?thesis by auto
  qed
qed

lemma recover_claims_spec:
  assumes ok: "table_ok rows" and now: "aware now"
    and room: "room rows"
  shows "\<exists>rows' recovered js.
    recover_expired_claims locked rows now = Inr (rows', recovered) \<and> table_ok rows' \<and>
    select_expired locked rows now = map outbox_job_to_row js \<and> distinct (map oj_id js) \<and>
    (\<forall>j \<in> set js. view rows (oj_id j) = Some j \<and> expired locked now j) \<and>
    list_all2 (\<lambda>j r. oj_id r = oj_id j \<and> recover j now = Inr r) js recovered \<and>
    view rows' = view rows ++ map_of (map (\<lambda>r. (oj_id r, r)) (rev recovered))"
proof -
  let ?sel = "select_expired locked rows now"
  have "set ?sel \<subseteq> set rows" by (auto simp: select_expired_def)
  then obtain js where js: "?sel = map outbox_job_to_row js"
    "\<forall>j \<in> set js. view rows (oj_id j) = Some j" using rows_are_jobs [OF ok] by blast
  have ex: "expired locked now j" if "j \<in> set js" for j
    using select_expired_iff [OF ok now] js that by (metis image_eqI list.set_map)
  have "distinct (map row_id ?sel)"
    using ok by (simp add: table_ok_iff select_expired_def distinct_map_filter)
  then have d: "distinct (map oj_id js)" using js(1) by (simp add: comp_def)
  have "view rows (oj_id j) = Some j \<and> oj_version j < max_version \<and> claimed_state (oj_state j) \<and>
      lease_over j now" if "j \<in> set js" for j
    using js(2) ex [OF that] room_view [OF ok room] that by (auto simp: expired_def)
  from recover_rows_spec [OF ok d this] obtain rows' recovered where
    r: "recover_rows now (map outbox_job_to_row js) rows = Inr (rows', recovered)" "table_ok rows'"
    "list_all2 (\<lambda>j r. recover j now = Inr r) js recovered"
    "view rows' = view rows ++ map_of (map (\<lambda>r. (oj_id r, r)) (rev recovered))" by blast
  have "flush_jobs rows' = Inr ()" using r(2) by (simp add: table_ok_def)
  then have run: "recover_expired_claims locked rows now = Inr (rows', recovered)"
    using js(1) r(1) by (simp add: recover_expired_claims_def)
  have "list_all2 (\<lambda>j r. oj_id r = oj_id j \<and> recover j now = Inr r) js recovered"
    using r(3) by (rule list.rel_mono_strong)
      (use js(2) view_facts(4) [OF ok] job_operation.keeps_identity [OF recover_contract]
       in \<open>auto simp: same_job_def\<close>)
  with run js(1) d js(2) ex r show ?thesis by blast
qed

lemma recovery_clears:
  assumes ok: "table_ok rows" and now: "aware now"
    and room: "room rows"
    and run: "recover_expired_claims locked rows now = Inr (rows', recovered)"
  shows "select_expired locked rows' now = []"
proof -
  from recover_claims_spec [OF ok now room, where locked = locked] run obtain js where
    s: "table_ok rows'" "select_expired locked rows now = map outbox_job_to_row js"
    "distinct (map oj_id js)" "\<forall>j \<in> set js. view rows (oj_id j) = Some j \<and> expired locked now j"
    "list_all2 (\<lambda>j r. oj_id r = oj_id j \<and> recover j now = Inr r) js recovered"
    "view rows' = view rows ++ map_of (map (\<lambda>r. (oj_id r, r)) (rev recovered))" by auto
  have "\<not> expired locked now job" if job: "view rows' k = Some job" for k job
  proof (cases "k \<in> oj_id ` set js")
    case True
    then obtain j where j: "j \<in> set js" "oj_id j = k" by auto
    with view_after_replacing(2) [OF s(5,3,6) j(1)] job have "recover j now = Inr job" by auto
    then have "oj_claim_expires_at job = None"
      using recovered_state view_facts(4) [OF ok] s(4) j(1) by blast
    then show ?thesis by (simp add: expired_def lease_over_def)
  next
    case False
    then have old: "view rows k = Some job" using view_after_replacing(1) [OF s(5,3,6)] job by simp
    have "outbox_job_to_row job \<notin> set (select_expired locked rows now)"
      using False s(2) view_facts(5) [OF ok old] by (auto simp: dest: arg_cong [of _ _ row_id])
    then show ?thesis using select_expired_iff [OF ok now old] by simp
  qed
  then have none: "row \<notin> set (select_expired locked rows' now)" if "row \<in> set rows'" for row
    using table_row [OF s(1) that] select_expired_iff [OF s(1) now] view_Some_iff [OF s(1)] that
    by metis
  have "row \<notin> set (select_expired locked rows' now)" for row
    using none [of row] by (cases "row \<in> set rows'") (simp_all add: select_expired_def)
  then show ?thesis by (cases "select_expired locked rows' now") auto
qed

section \<open>Inserting\<close>

text \<open>The reference read back from a row names the job's tenant, also where it was left out.\<close>

definition normalize :: "outbox_job \<Rightarrow> outbox_job" where
  "normalize job = job\<lparr>oj_reference := (oj_reference job)\<lparr>ref_tenant_id := oj_tenant_id job\<rparr>\<rparr>"

lemma normalize_simps [simp]:
  "outbox_job_to_row (normalize job) = outbox_job_to_row job"
  "oj_id (normalize job) = oj_id job"
  "lifecycle (normalize job) = lifecycle job"
  "in_range (normalize job) = in_range job"
  by (simp_all add: normalize_def outbox_job_to_row_def lifecycle_def in_range_def)

lemma normalize_stored: "job_ok job \<Longrightarrow> reference_ok (oj_reference job) \<Longrightarrow> stored (normalize job)"
  by (auto simp: normalize_def stored_def job_ok_def reference_ok_def)

lemma stored_normalize: "stored job \<Longrightarrow> normalize job = job"
  by (simp add: normalize_def stored_def)

lemma enqueue_spec:
  assumes ok: "table_ok rows" and "job_ok job" and "reference_ok (oj_reference job)"
    and "lifecycle job" and "in_range job" and new: "oj_id job \<notin> row_id ` set rows"
  shows "enqueue rows job =
    (if (oj_tenant_id job, oj_deduplication_key job) \<in> dedup_index ` set rows
     then Inl (DuplicateOutboxJobError ''outbox persistence integrity error'')
     else Inr (rows @ [outbox_job_to_row job]))"
proof -
  have st: "stored (normalize job)" using assms(2,3) by (rule normalize_stored)
  have "job_columns_fit (outbox_job_to_row job)" "job_row_checks (outbox_job_to_row job)"
    using stored_columns_fit [OF st] stored_checks [OF st] assms(5) by simp_all
  moreover have "list_all job_columns_fit rows" "list_all job_row_checks rows"
    "distinct (map row_id rows)" "distinct (map dedup_index rows)"
    using ok by (simp_all add: table_ok_def flush_Inr_iff)
  ultimately show ?thesis
    using new by (simp add: enqueue_def flush_jobs_def Let_def dedup_index_def)
qed

lemma enqueue_table_ok:
  assumes "table_ok rows" and "job_ok job" and "reference_ok (oj_reference job)" and "lifecycle job"
    and "enqueue rows job = Inr rows'"
  shows "table_ok rows' \<and> rows' = rows @ [outbox_job_to_row job]"
proof -
  have f: "flush_jobs rows' = Inr ()" and rows': "rows' = rows @ [outbox_job_to_row job]"
    using assms(5) by (auto simp: enqueue_def Let_def bindE_Inr_iff)
  have "outbox_job_to_domain (outbox_job_to_row job) = Inr (normalize job)"
    using to_domain_to_row [OF normalize_stored [OF assms(2,3)]] by simp
  then show ?thesis using assms(1,4) f rows' by (auto simp: table_ok_def)
qed

lemma filter_unique_key:
  assumes "distinct (map f xs)"
  shows "filter (\<lambda>x. f x = k) xs = (case find (\<lambda>x. f x = k) xs of None \<Rightarrow> [] | Some x \<Rightarrow> [x])"
  using assms
proof (induction xs)
  case (Cons x xs)
  have "filter (\<lambda>y. f y = k) xs = []" if "f x = k"
    using that Cons.prems by (auto simp: filter_empty_conv) (metis imageI)
  with Cons show ?case by simp
qed simp

lemma find_key_spec:
  assumes "table_ok rows"
  shows "find_by_deduplication_key rows t key =
    (case find (\<lambda>row. dedup_index row = (t, key)) rows of
       None \<Rightarrow> Inr None
     | Some row \<Rightarrow> Inr (view rows (row_id row)))"
proof -
  have d: "distinct (map dedup_index rows)" and i: "distinct (map row_id rows)"
    using assms by (simp_all add: table_ok_iff)
  have f: "filter (\<lambda>row. row_deduplication_key row = key \<and> row_tenant_id row = t) rows =
    (case find (\<lambda>row. dedup_index row = (t, key)) rows of None \<Rightarrow> [] | Some x \<Rightarrow> [x])"
    using filter_unique_key [OF d, of "(t, key)"] by (simp add: dedup_index_def conj_commute)
  show ?thesis
  proof (cases "find (\<lambda>row. dedup_index row = (t, key)) rows")
    case None
    then show ?thesis using f by (simp add: find_by_deduplication_key_def)
  next
    case (Some row)
    then have "row \<in> set rows" by (auto simp: find_Some_iff)
    with assms obtain job where "outbox_job_to_domain row = Inr job" "view rows (row_id row) = Some job"
      using table_row view_Some_iff by (metis to_row_simps(1))
    then show ?thesis using f Some by (simp add: find_by_deduplication_key_def)
  qed
qed

section \<open>Facts about a claimed batch\<close>

lemma list_all2_set2: "list_all2 P xs ys \<Longrightarrow> y \<in> set ys \<Longrightarrow> \<exists>x \<in> set xs. P x y"
  by (induction rule: list_all2_induct) auto

lemma list_all2_enumerate:
  "list_all2 (\<lambda>(i, j) c. P i j c) (enumerate k js) cs \<Longrightarrow> list_all2 (\<lambda>j c. \<exists>i. P i j c) js cs"
  by (induction js arbitrary: k cs) (auto simp: list_all2_Cons1)

text \<open>What a claim of the publisher does to a job.\<close>

definition claimed_from :: "string \<Rightarrow> datetime \<Rightarrow> outbox_job \<Rightarrow> outbox_job \<Rightarrow> bool" where
  "claimed_from w now j c \<longleftrightarrow>
     same_job j c \<and> oj_state c = JS_PUBLISHING \<and> oj_claimed_by c = Some w \<and>
     oj_claim_token c \<noteq> None \<and> oj_version c = oj_version j + 1 \<and>
     oj_available_at c = oj_available_at j \<and>
     oj_claim_expires_at c = Some (dt_plus now (timedelta_seconds 60))"

lemma claim_batch_facts:
  assumes "table_ok rows" and "aware now" and "matches_ident ident_dash_char 63 w"
    and "1 \<le> b" and "room rows"
  obtains rows' claimed js where
    "claim_publisher_batch uuid4 k locked rows w now b allowed = Inr (rows', claimed, k + length claimed)"
    "select_publishable locked rows now (nat b) allowed = map outbox_job_to_row js"
    "\<And>j. j \<in> set js \<Longrightarrow> view rows (oj_id j) = Some j \<and> publishable locked now allowed j"
    "list_all2 (\<lambda>j c. oj_id c = oj_id j \<and> claimed_from w now j c) js claimed"
    "distinct (map oj_id js)" "table_ok rows'"
    "view rows' = view rows ++ map_of (map (\<lambda>c. (oj_id c, c)) (rev claimed))"
proof -
  from claim_batch_spec [OF assms, of uuid4 k locked allowed] obtain rows' claimed js where
    c: "claim_publisher_batch uuid4 k locked rows w now b allowed = Inr (rows', claimed, k + length js)"
    "select_publishable locked rows now (nat b) allowed = map outbox_job_to_row js"
    "\<forall>j \<in> set js. view rows (oj_id j) = Some j \<and> publishable locked now allowed j"
    "list_all2 (\<lambda>(i, j) c. claim_for_publishing j (uuid4 i) w now (oj_version j) = Inr c)
      (enumerate k js) claimed" "table_ok rows'"
    "view rows' = view rows ++ map_of (map (\<lambda>c. (oj_id c, c)) (rev claimed))" by blast
  have l: "list_all2 (\<lambda>j c. oj_id c = oj_id j \<and> claimed_from w now j c) js claimed"
    using list_all2_enumerate [OF c(4)]
  proof (rule list.rel_mono_strong)
    fix j c' assume "j \<in> set js"
      and "\<exists>i. claim_for_publishing j (uuid4 i) w now (oj_version j) = Inr c'"
    moreover have "job_ok j" using \<open>j \<in> set js\<close> c(3) view_facts(4) [OF assms(1)] by blast
    ultimately show "oj_id c' = oj_id j \<and> claimed_from w now j c'"
      by (auto simp: claim_for_publishing_Inr_iff claimed_from_def same_job_def)
  qed
  have "distinct (map row_id (select_publishable locked rows now (nat b) allowed))"
    unfolding select_publishable_def using assms(1) by (intro distinct_select) (simp add: table_ok_iff)
  then have "distinct (map oj_id js)" using c(2) by (simp add: comp_def)
  with that c l list_all2_lengthD [OF l] show ?thesis by auto
qed

lemma batch_held:
  assumes "table_ok rows" and "aware now" and "matches_ident ident_dash_char 63 w"
    and "1 \<le> b" and "room rows"
    and run: "claim_publisher_batch uuid4 k locked rows w now b allowed = Inr (rows', claimed, k')"
  shows "table_ok rows'"
    and "\<And>c. c \<in> set claimed \<Longrightarrow> view rows' (oj_id c) = Some c \<and> oj_state c = JS_PUBLISHING"
    and "\<And>c. c \<in> set claimed \<Longrightarrow>
      \<exists>j. view rows (oj_id c) = Some j \<and> publishable locked now allowed j"
proof -
  obtain rows1 claimed1 js where f:
    "claim_publisher_batch uuid4 k locked rows w now b allowed = Inr (rows1, claimed1, k + length claimed1)"
    "\<And>j. j \<in> set js \<Longrightarrow> view rows (oj_id j) = Some j \<and> publishable locked now allowed j"
    "list_all2 (\<lambda>j c. oj_id c = oj_id j \<and> claimed_from w now j c) js claimed1"
    "distinct (map oj_id js)" "table_ok rows1"
    "view rows1 = view rows ++ map_of (map (\<lambda>c. (oj_id c, c)) (rev claimed1))"
    by (rule claim_batch_facts [OF assms(1-5), of uuid4 k locked allowed]) blast
  with run have eq: "rows1 = rows'" "claimed1 = claimed" by simp_all
  show "table_ok rows'" using f(5) eq by simp
  fix c assume c: "c \<in> set claimed"
  from list_all2_set2 [OF f(3), of c] c eq obtain j where
    j: "j \<in> set js" "oj_id c = oj_id j" "claimed_from w now j c" by auto
  then show "view rows' (oj_id c) = Some c \<and> oj_state c = JS_PUBLISHING"
    using view_after_replacing(3) [OF f(3,4,6), of c] c eq by (simp add: claimed_from_def)
  show "\<exists>j. view rows (oj_id c) = Some j \<and> publishable locked now allowed j" using f(2) j by auto
qed

lemma publishable_left_out:
  assumes ok: "table_ok rows" and sel: "select_publishable locked rows now n allowed = map outbox_job_to_row js"
    and job: "view rows k = Some job" "publishable locked now allowed job" "k \<notin> oj_id ` set js"
  shows "length js = n \<and> (\<forall>j \<in> set js. (oj_priority j, oj_available_at j, oj_created_at j) \<le>
    (oj_priority job, oj_available_at job, oj_created_at job))"
proof -
  let ?P = "\<lambda>row. row_state row \<in> {job_state_value JS_PENDING, job_state_value JS_RETRY_SCHEDULED} \<and>
    row_available_at row \<le> now \<and> kind_allowed allowed row \<and> \<not> locked (row_id row)"
  let ?all = "sort_key publish_order (filter ?P rows)"
  have s: "take n ?all = map outbox_job_to_row js" using sel by (simp add: select_publishable_def)
  have mem: "outbox_job_to_row job \<in> set (filter ?P rows)"
    using job(1,2) view_Some_iff [OF ok] by (auto simp: publishable_def kind_allowed_to_row)
  have id: "oj_id job = k" using view_facts(5) [OF ok job(1)] .
  have out: "outbox_job_to_row job \<notin> set (take n ?all)"
  proof
    assume "outbox_job_to_row job \<in> set (take n ?all)"
    then have "row_id (outbox_job_to_row job) \<in> row_id ` set (map outbox_job_to_row js)"
      unfolding s by (rule imageI)
    then show False using job(3) id by (simp add: image_image)
  qed
  have "n \<le> length ?all"
  proof (rule ccontr)
    assume "\<not> n \<le> length ?all"
    then have "take n ?all = ?all" by simp
    with out mem show False by simp
  qed
  then have "length (take n ?all) = n" by simp
  then have "length js = n" unfolding s by simp
  moreover have "publish_order (outbox_job_to_row j) \<le> publish_order (outbox_job_to_row job)"
    if "j \<in> set js" for j
    using select_is_first [OF mem out, of "outbox_job_to_row j"] s that by simp
  ultimately show ?thesis by (auto simp: publish_order_def)
qed

lemma claimed_left_out:
  assumes "table_ok rows" and "select_publishable locked rows now n allowed = map outbox_job_to_row js"
    and l: "list_all2 (\<lambda>j c. oj_id c = oj_id j \<and> claimed_from w now j c) js claimed"
    and "view rows k = Some job" "publishable locked now allowed job" "k \<notin> oj_id ` set js"
  shows "length claimed = n \<and>
    (\<forall>c \<in> set claimed. (oj_priority c, oj_available_at c, oj_created_at c) \<le>
       (oj_priority job, oj_available_at job, oj_created_at job))"
proof
  note o = publishable_left_out [OF assms(1,2,4,5,6)]
  show "length claimed = n" using o list_all2_lengthD [OF l] by simp
  show "\<forall>c \<in> set claimed. (oj_priority c, oj_available_at c, oj_created_at c) \<le>
       (oj_priority job, oj_available_at job, oj_created_at job)"
  proof
    fix c assume c: "c \<in> set claimed"
    obtain j where j: "j \<in> set js" "claimed_from w now j c" using list_all2_set2 [OF l c] by blast
    then have "oj_priority c = oj_priority j" "oj_available_at c = oj_available_at j"
      "oj_created_at c = oj_created_at j" by (simp_all add: claimed_from_def same_job_def)
    with o j(1) show "(oj_priority c, oj_available_at c, oj_created_at c) \<le>
       (oj_priority job, oj_available_at job, oj_created_at job)" by simp
  qed
qed

lemma recovered_fields:
  assumes "job_ok job" and "recover job now = Inr job'"
  shows "oj_state job' = (if oj_state job = JS_PUBLISHING then JS_PENDING else JS_PUBLISHED) \<and>
    oj_claim_token job' = None"
  using assms
  by (auto simp: recover_def recover_publisher_Inr_iff recover_processor_Inr_iff split: if_splits)

lemma find_key_absent:
  assumes "table_ok rows" and "(t, key) \<notin> dedup_index ` set rows"
  shows "find_by_deduplication_key rows t key = Inr None"
proof -
  have "find (\<lambda>row. dedup_index row = (t, key)) rows = None"
    using assms(2) by (auto simp: find_None_iff) (metis imageI)
  then show ?thesis by (simp add: find_key_spec [OF assms(1)])
qed

lemma find_key_present:
  assumes "table_ok rows" and "(t, key) \<in> dedup_index ` set rows"
  shows "\<exists>found. find_by_deduplication_key rows t key = Inr (Some found) \<and> oj_tenant_id found = t \<and>
    oj_deduplication_key found = key \<and> view rows (oj_id found) = Some found \<and> stored found"
proof -
  obtain row where row: "find (\<lambda>row. dedup_index row = (t, key)) rows = Some row"
    using assms(2) by (cases "find (\<lambda>row. dedup_index row = (t, key)) rows")
      (auto simp: find_None_iff)
  then have mem: "row \<in> set rows" "dedup_index row = (t, key)" by (auto simp: find_Some_iff)
  from table_row [OF assms(1) mem(1)] obtain job where
    "row = outbox_job_to_row job" "stored job" by blast
  moreover from this mem have "view rows (oj_id job) = Some job"
    by (simp add: view_Some_iff [OF assms(1)])
  ultimately show ?thesis
    using row mem by (simp add: find_key_spec [OF assms(1)] dedup_index_def)
qed

lemma find_key_prefix:
  assumes "table_ok (rows @ extra)" and "table_ok rows" and "(t, key) \<in> dedup_index ` set rows"
    and "find_by_deduplication_key (rows @ extra) t key = Inr (Some found)"
  shows "find_by_deduplication_key rows t key = Inr (Some found)"
proof -
  obtain row where row: "find (\<lambda>row. dedup_index row = (t, key)) rows = Some row"
    using assms(3) by (cases "find (\<lambda>row. dedup_index row = (t, key)) rows")
      (auto simp: find_None_iff)
  then have "find (\<lambda>row. dedup_index row = (t, key)) (rows @ extra) = Some row"
    by (induction rows) auto
  moreover have "row \<in> set rows" using row by (auto simp: find_Some_iff)
  moreover from this have "view (rows @ extra) (row_id row) = view rows (row_id row)"
    using get_row_distinct [of rows row] get_row_distinct [of "rows @ extra" row] assms(1,2)
    by (simp add: view_def table_ok_iff)
  ultimately show ?thesis
    using assms(4) row by (simp add: find_key_spec [OF assms(1)] find_key_spec [OF assms(2)])
qed

lemma view_appended:
  assumes "table_ok (rows @ [outbox_job_to_row job])" and "stored job"
  shows "view (rows @ [outbox_job_to_row job]) (oj_id job) = Some job"
  using assms by (simp add: view_Some_iff)

section \<open>Properties of the repository\<close>

text \<open>The method that performs an event on a stored job, for the methods that take a job's identity.\<close>

fun repo_method ::
  "job_event \<Rightarrow>
   (outbox_job_row list \<Rightarrow> uuid \<Rightarrow> outbox_repo_error + (outbox_job_row list \<times> outbox_job)) option" where
  "repo_method (Mark_Published tok now v) =
     Some (\<lambda>rows job_id. repo_mark_published rows job_id tok now v)"
| "repo_method (Schedule_Retry tok ph ec now v) =
     Some (\<lambda>rows job_id.
       repo_schedule_retry rows job_id tok (error_code_value ec) now v (job_phase_value ph))"
| "repo_method (Mark_Dead_Letter tok ec now v) =
     Some (\<lambda>rows job_id. repo_mark_dead_letter rows job_id tok (error_code_value ec) now v)"
| "repo_method (Mark_Succeeded tok now v) =
     Some (\<lambda>rows job_id. repo_mark_succeeded rows job_id tok now v)"
| "repo_method (Renew_Processor_Claim tok now v) =
     Some (\<lambda>rows job_id. repo_renew_processor_claim rows job_id tok now v)"
| "repo_method (Requeue_Dead_Letter now) =
     Some (\<lambda>rows job_id. repo_requeue_dead_letter rows job_id now)"
| "repo_method _ = None"

lemmas stored_contracts =
  r_mark_pub.stored_operation_axioms r_retry.stored_operation_axioms
  r_dead_letter.stored_operation_axioms r_succeed.stored_operation_axioms
  r_renew.stored_operation_axioms r_requeue.stored_operation_axioms

lemma repo_method_contract:
  assumes "repo_method e = Some rop"
  shows "\<exists>err. stored_operation rop (job_apply e) err"
  using assms by (cases e) (auto intro!: exI stored_contracts)

definition sample_table :: "outbox_job_row list" where
  "sample_table = [outbox_job_to_row sample_claimed]"

lemma sample_claimed_stored: "stored sample_claimed"
  using sample_claimed_ok
  by (simp add: stored_def) (simp add: sample_claimed_def sample_job_def reference_ok_def ident_defs)

lemma sample_table_ok: "table_ok sample_table"
proof -
  have "in_range sample_claimed" by (simp add: in_range_def sample_claimed_def sample_job_def)
  then show ?thesis
    using sample_claimed_stored reachable_job_inv [OF sample_claimed_reachable]
    by (auto simp: table_ok_iff sample_table_def)
qed

lemma sample_table_view: "view sample_table 1 = Some sample_claimed"
  using sample_table_ok sample_claimed_stored
  by (simp add: view_Some_iff) (simp add: sample_table_def sample_claimed_def sample_job_def)

lemma sample_table_room: "room sample_table"
  by (simp add: room_def sample_table_def sample_claimed_def sample_job_def max_version_def)

text \<open>
  C22. A row is read back as a job exactly when it is the row written for that job: decoding undoes
  encoding on every valid job whose reference names the job's tenant, and nothing else decodes.
\<close>

theorem job_row_round_trip:
  "outbox_job_to_domain row = Inr job \<longleftrightarrow>
     job_ok job \<and> reference_ok (oj_reference job) \<and>
     ref_tenant_id (oj_reference job) = oj_tenant_id job \<and> row = outbox_job_to_row job"
  using to_domain_Inr_iff [of row job] by (simp add: stored_def)

text \<open>
  C23. The repository refines the state machine: on a table of the database, a method that finalises,
  renews or requeues a job by its identity succeeds exactly when the job exists, the machine's
  operation succeeds on it and its version is below the 32-bit maximum; it then changes that job as
  the operation does and no other, and leaves a table of the database.
\<close>

theorem repository_refines_machine:
  assumes "table_ok rows" and "repo_method e = Some rop"
  shows "case rop rows job_id of
      Inr (rows', job') \<Rightarrow>
        \<exists>job. view rows job_id = Some job \<and> job_apply e job = Inr job' \<and>
          view rows' = (view rows)(job_id \<mapsto> job') \<and> table_ok rows'
    | Inl err \<Rightarrow>
        (view rows job_id = None \<and> err = OutboxRecordNotFoundError ''outbox job not found'') \<or>
        (\<exists>job. view rows job_id = Some job \<and>
           (\<not> is_ok (job_apply e job) \<or> max_version \<le> oj_version job))"
proof -
  from repo_method_contract [OF assms(2)] obtain err where op: "stored_operation rop (job_apply e) err" ..
  show ?thesis
  proof (cases "rop rows job_id")
    case (Inr r)
    then show ?thesis using stored_operation.simulates [OF op assms(1), of job_id] by (cases r) auto
  next
    case (Inl x)
    show ?thesis
    proof (cases "view rows job_id")
      case None
      then show ?thesis using Inl stored_operation.refines [OF op assms(1), of job_id] by simp
    next
      case (Some job)
      then show ?thesis
        using Inl stored_operation.completes [OF op assms(1) Some] by (force simp: is_ok_iff)
    qed
  qed
qed

theorem repository_refines_machine_witness:
  "\<exists>rows' job'. repo_mark_published sample_table 1 5 (Aware 9) 2 = Inr (rows', job') \<and>
     oj_state job' = JS_PUBLISHED \<and> table_ok rows' \<and> view rows' 1 = Some job'"
proof -
  have "repo_method (Mark_Published 5 (Aware 9) 2) =
    Some (\<lambda>rows job_id. repo_mark_published rows job_id 5 (Aware 9) 2)" by simp
  note c = repository_refines_machine [OF sample_table_ok this, of 1]
  have live: "mark_published sample_claimed 5 (Aware 9) 2 \<noteq> Inl e" for e
  proof -
    have "\<exists>job'. mark_published sample_claimed 5 (Aware 9) 2 = Inr job'"
      using sample_claimed_ok
      by (simp add: mark_published_Inr_iff)
        (simp add: sample_claimed_def sample_job_def lease_live_def)
    then show ?thesis by auto
  qed
  have "oj_version sample_claimed < max_version"
    by (simp add: sample_claimed_def max_version_def)
  with c live sample_table_view obtain rows' job' where
    r: "repo_mark_published sample_table 1 5 (Aware 9) 2 = Inr (rows', job')"
    "mark_published sample_claimed 5 (Aware 9) 2 = Inr job'"
    "view rows' = (view sample_table)(1 \<mapsto> job')" "table_ok rows'"
    by (cases "repo_mark_published sample_table 1 5 (Aware 9) 2")
      (auto simp: is_ok_iff, metis sum.exhaust)
  then show ?thesis using sample_claimed_ok by (auto simp: mark_published_Inr_iff)
qed

text \<open>
  \<open>OutboxStaleVersionError\<close> is never raised: the comparison of versions that raises it comes
  after the domain operation, which has already refused a wrong version as a claim mismatch.
\<close>

theorem stale_version_error_unreachable:
  assumes "table_ok rows" and "repo_method e = Some rop"
  shows "rop rows job_id \<noteq> Inl (OutboxStaleVersionError m)"
  using repo_method_contract [OF assms(2)] stored_operation.never_stale [OF _ assms(1)] by blast

theorem stale_version_error_unreachable_witness:
  "repo_mark_published sample_table 1 5 (Aware 9) 1 \<noteq>
     Inl (OutboxStaleVersionError ''outbox job version mismatch'')"
  by (rule stale_version_error_unreachable [OF sample_table_ok, of "Mark_Published 5 (Aware 9) 1"])
    simp

text \<open>
  C24. Claiming a batch: on a table of the database the call returns at most \<open>batch_size\<close> jobs. Each
  was pending or due for a retry, available, of an allowed kind and not locked by another
  transaction, and is now held by this worker under a fresh lease of 60 seconds; no other job
  changes. An eligible job is left out only when the batch is full, and then every claimed job
  comes before it in the order of priority, availability and creation.
\<close>

theorem claim_batch_correct:
  assumes "table_ok rows" and "room rows" and "aware now"
    and "matches_ident ident_dash_char 63 w" and "1 \<le> batch_size"
  shows "\<exists>rows' claimed.
    claim_publisher_batch uuid4 drawn locked rows w now batch_size allowed =
      Inr (rows', claimed, drawn + length claimed) \<and>
    table_ok rows' \<and> int (length claimed) \<le> batch_size \<and> distinct (map oj_id claimed) \<and>
    (\<forall>c \<in> set claimed. view rows' (oj_id c) = Some c \<and>
       (\<exists>j. view rows (oj_id c) = Some j \<and> publishable locked now allowed j \<and> claimed_from w now j c)) \<and>
    (\<forall>k. k \<notin> oj_id ` set claimed \<longrightarrow> view rows' k = view rows k) \<and>
    (\<forall>k job. view rows k = Some job \<and> publishable locked now allowed job \<and> k \<notin> oj_id ` set claimed \<longrightarrow>
       int (length claimed) = batch_size \<and>
       (\<forall>c \<in> set claimed. (oj_priority c, oj_available_at c, oj_created_at c) \<le>
          (oj_priority job, oj_available_at job, oj_created_at job)))"
proof -
  from claim_batch_facts [OF assms(1,3,4,5,2), of uuid4 drawn locked allowed]
  obtain rows' claimed js where b:
    "claim_publisher_batch uuid4 drawn locked rows w now batch_size allowed =
       Inr (rows', claimed, drawn + length claimed)"
    "select_publishable locked rows now (nat batch_size) allowed = map outbox_job_to_row js"
    "\<And>j. j \<in> set js \<Longrightarrow> view rows (oj_id j) = Some j \<and> publishable locked now allowed j"
    "list_all2 (\<lambda>j c. oj_id c = oj_id j \<and> claimed_from w now j c) js claimed"
    "distinct (map oj_id js)" "table_ok rows'"
    "view rows' = view rows ++ map_of (map (\<lambda>c. (oj_id c, c)) (rev claimed))" by blast
  have ids: "map oj_id claimed = map oj_id js"
    using b(4) by (induction rule: list_all2_induct) simp_all
  then have img: "oj_id ` set claimed = oj_id ` set js" by (metis list.set_map)
  have len: "length claimed = length js" using b(4) by (simp add: list_all2_lengthD)
  have "length (map outbox_job_to_row js) \<le> nat batch_size"
    unfolding b(2) [symmetric] select_publishable_def by simp
  then have small: "int (length claimed) \<le> batch_size" using assms(5) len by simp
  note after = view_after_replacing [OF b(4,5,7)]
  have claims: "view rows' (oj_id c) = Some c \<and>
      (\<exists>j. view rows (oj_id c) = Some j \<and> publishable locked now allowed j \<and> claimed_from w now j c)"
    if "c \<in> set claimed" for c
    using list_all2_set2 [OF b(4) that] b(3) after(3) [OF that] by metis
  have left: "int (length claimed) = batch_size \<and>
       (\<forall>c \<in> set claimed. (oj_priority c, oj_available_at c, oj_created_at c) \<le>
          (oj_priority job, oj_available_at job, oj_created_at job))"
    if "view rows k = Some job" "publishable locked now allowed job" "k \<notin> oj_id ` set claimed" for k job
    using claimed_left_out [OF assms(1) b(2,4) that(1,2)] that(3) img assms(5) by simp
  have d: "distinct (map oj_id claimed)" using b(5) ids by simp
  show ?thesis
    by (intro exI [of _ rows'] exI [of _ claimed] conjI ballI allI impI)
      (use b(1,6) small d claims after(1) img left in blast)+
qed

definition sample_queue :: "outbox_job_row list" where
  "sample_queue = [outbox_job_to_row sample_job]"

lemma sample_job_stored: "stored sample_job"
  using sample_job_ok by (simp add: stored_def) (simp add: sample_job_def reference_ok_def ident_defs)

lemma sample_queue_ok: "table_ok sample_queue \<and> room sample_queue \<and> view sample_queue 1 = Some sample_job"
proof -
  have "in_range sample_job" by (simp add: in_range_def sample_job_def)
  then have ok: "table_ok sample_queue"
    using sample_job_stored reachable_job_inv [OF sample_job_reachable]
    by (auto simp: table_ok_iff sample_queue_def)
  moreover have "room sample_queue"
    by (simp add: room_def sample_queue_def sample_job_def max_version_def)
  moreover have "view sample_queue 1 = Some sample_job"
    using sample_job_stored by (simp add: view_Some_iff [OF ok]) (simp add: sample_queue_def sample_job_def)
  ultimately show ?thesis by simp
qed

theorem claim_batch_correct_witness:
  "\<exists>rows' claimed. claim_publisher_batch word_of_nat 5 (\<lambda>_. False) sample_queue ''pub-1'' (Aware 0) 10 None =
     Inr (rows', claimed, 5 + length claimed) \<and> table_ok rows' \<and> int (length claimed) \<le> 10 \<and>
     (1 \<in> oj_id ` set claimed \<or> int (length claimed) = 10)"
proof -
  have p: "publishable (\<lambda>_. False) (Aware 0) None sample_job" by (simp add: publishable_def sample_job_def)
  have w: "matches_ident ident_dash_char 63 ''pub-1''" by (simp add: ident_defs)
  have q: "table_ok sample_queue" "room sample_queue" "view sample_queue 1 = Some sample_job"
    using sample_queue_ok by simp_all
  have a: "aware (Aware 0)" "1 \<le> (10::int)" by simp_all
  from claim_batch_correct [OF q(1,2) a(1) w a(2), of word_of_nat 5 "\<lambda>_. False" None]
  obtain rows' claimed where
    c: "claim_publisher_batch word_of_nat 5 (\<lambda>_. False) sample_queue ''pub-1'' (Aware 0) 10 None =
      Inr (rows', claimed, 5 + length claimed)" "table_ok rows'" "int (length claimed) \<le> 10"
    "\<forall>k job. view sample_queue k = Some job \<and> publishable (\<lambda>_. False) (Aware 0) None job \<and>
      k \<notin> oj_id ` set claimed \<longrightarrow> int (length claimed) = 10 \<and>
       (\<forall>c \<in> set claimed. (oj_priority c, oj_available_at c, oj_created_at c) \<le>
          (oj_priority job, oj_available_at job, oj_created_at job))" by blast
  from c(4) p q(3) have "1 \<in> oj_id ` set claimed \<or> int (length claimed) = 10" by blast
  with c(1-3) show ?thesis by blast
qed

text \<open>
  Two publishers never hold the same job: whatever worker claims a second batch from the table
  that a first batch left, at any time and with any limits, gets none of the jobs of the first.
\<close>

theorem batches_are_disjoint:
  assumes "table_ok rows" and "room rows" and "aware now" and "matches_ident ident_dash_char 63 w"
    and "claim_publisher_batch uuid4 drawn locked rows w now n allowed = Inr (rows1, claimed1, drawn1)"
    and "room rows1" and "aware now'" and "matches_ident ident_dash_char 63 w'"
    and "claim_publisher_batch uuid4' drawn' locked' rows1 w' now' n' allowed' =
      Inr (rows2, claimed2, drawn2)"
  shows "oj_id ` set claimed1 \<inter> oj_id ` set claimed2 = {}"
proof -
  have n: "1 \<le> n" "1 \<le> n'"
    using assms(5,9) by (auto simp: claim_publisher_batch_def bindE_Inr_iff raise_if_Inr_iff)
  note first = batch_held [OF assms(1,3,4) n(1) assms(2,5)]
  note second = batch_held [OF first(1) assms(7,8) n(2) assms(6,9)]
  show ?thesis
  proof (rule ccontr)
    assume "oj_id ` set claimed1 \<inter> oj_id ` set claimed2 \<noteq> {}"
    then obtain c d where "c \<in> set claimed1" "d \<in> set claimed2" "oj_id c = oj_id d" by auto
    with first(2) [of c] second(3) [of d] show False by (auto simp: publishable_def)
  qed
qed

lemma sample_batch:
  "claim_publisher_batch word_of_nat 5 (\<lambda>_. False) sample_queue ''pub-1'' (Aware 0) 10 None =
     Inr (sample_table, [sample_claimed], 6)"
  by code_simp

theorem batches_are_disjoint_witness:
  "\<exists>claimed2. claim_publisher_batch word_of_nat 6 (\<lambda>_. False) sample_table ''pub-2'' (Aware 1) 10 None =
     Inr (sample_table, claimed2, 6) \<and> oj_id ` set [sample_claimed] \<inter> oj_id ` set claimed2 = {}"
proof -
  have second: "claim_publisher_batch word_of_nat 6 (\<lambda>_. False) sample_table ''pub-2'' (Aware 1) 10 None =
     Inr (sample_table, [], 6)" by code_simp
  have w: "matches_ident ident_dash_char 63 ''pub-1''" "matches_ident ident_dash_char 63 ''pub-2''"
    by (simp_all add: ident_defs)
  have q: "table_ok sample_queue" "room sample_queue" "aware (Aware 0)" "aware (Aware 1)"
    using sample_queue_ok by simp_all
  show ?thesis
    using batches_are_disjoint [OF q(1-3) w(1) sample_batch sample_table_room q(4) w(2) second] second
    by blast
qed

text \<open>
  C25. Recovery: every claim that has expired and is not locked is recovered, publishers' jobs to
  pending and processors' to published, and nothing else changes; a second recovery at the same
  time finds nothing to do.
\<close>

theorem recovery_correct:
  assumes "table_ok rows" and "room rows" and "aware now"
  shows "\<exists>rows' recovered.
    recover_expired_claims locked rows now = Inr (rows', recovered) \<and> table_ok rows' \<and>
    (\<forall>k job. view rows k = Some job \<longrightarrow>
       (if expired locked now job
        then \<exists>job'. view rows' k = Some job' \<and> job' \<in> set recovered \<and> oj_claim_token job' = None \<and>
          oj_state job' = (if oj_state job = JS_PUBLISHING then JS_PENDING else JS_PUBLISHED)
        else view rows' k = Some job)) \<and>
    recover_expired_claims locked rows' now = Inr (rows', [])"
proof -
  from recover_claims_spec [OF assms(1,3,2), of locked] obtain rows' recovered js where
    r: "recover_expired_claims locked rows now = Inr (rows', recovered)" "table_ok rows'"
    "select_expired locked rows now = map outbox_job_to_row js" "distinct (map oj_id js)"
    "\<forall>j \<in> set js. view rows (oj_id j) = Some j \<and> expired locked now j"
    "list_all2 (\<lambda>j r. oj_id r = oj_id j \<and> recover j now = Inr r) js recovered"
    "view rows' = view rows ++ map_of (map (\<lambda>r. (oj_id r, r)) (rev recovered))" by blast
  note after = view_after_replacing [OF r(6,4,7)]
  have again: "recover_expired_claims locked rows' now = Inr (rows', [])"
    using recovery_clears [OF assms(1,3,2) r(1)] by (simp add: recover_expired_claims_def)
  have each: "if expired locked now job
        then \<exists>job'. view rows' k = Some job' \<and> job' \<in> set recovered \<and> oj_claim_token job' = None \<and>
          oj_state job' = (if oj_state job = JS_PUBLISHING then JS_PENDING else JS_PUBLISHED)
        else view rows' k = Some job" if job: "view rows k = Some job" for k job
  proof (cases "expired locked now job")
    case True
    then have "outbox_job_to_row job \<in> outbox_job_to_row ` set js"
      using select_expired_iff [OF assms(1,3) job, of locked] r(3) by simp
    then obtain j where j: "j \<in> set js" "outbox_job_to_row job = outbox_job_to_row j" by auto
    then have "oj_id j = k" using view_facts(5) [OF assms(1) job] by (metis to_row_simps(1))
    with j(1) r(5) job have "job = j" by auto
    with after(2) [OF j(1)] \<open>oj_id j = k\<close> obtain c where
      c: "c \<in> set recovered" "view rows' k = Some c" "recover job now = Inr c" by auto
    have "job_ok job" using view_facts(4) [OF assms(1) job] .
    with True c recovered_fields [OF this c(3)] show ?thesis by auto
  next
    case False
    then have "k \<notin> oj_id ` set js" using r(5) job by auto
    with False after(1) job show ?thesis by simp
  qed
  show ?thesis using r(1,2) each again by blast
qed

theorem recovery_correct_witness:
  "\<exists>rows' recovered. recover_expired_claims (\<lambda>_. False) sample_table (Aware 60000000) = Inr (rows', recovered) \<and>
     recover_expired_claims (\<lambda>_. False) rows' (Aware 60000000) = Inr (rows', [])"
  using recovery_correct [OF sample_table_ok sample_table_room, of "Aware 60000000" "\<lambda>_. False"]
  by fastforce

text \<open>
  Inserting is idempotent per deduplication key, also when another transaction inserts the same
  key between the lookup and the insert: when the session answers the second lookup,
  \<open>get_or_create\<close> returns the one job with the key, says whether it created it, and inserts a row
  exactly when no committed row has the key.
\<close>

theorem get_or_create_correct:
  assumes "table_ok (rows @ committed)" and "table_ok rows"
    and "job_ok job" and "reference_ok (oj_reference job)" and "lifecycle job" and "in_range job"
    and "oj_id job \<notin> row_id ` set (rows @ committed)"
  shows "\<exists>rows' found created.
    get_or_create None committed rows job = Inr (rows', found, created) \<and> table_ok rows' \<and>
    oj_tenant_id found = oj_tenant_id job \<and> oj_deduplication_key found = oj_deduplication_key job \<and>
    view rows' (oj_id found) = Some (normalize found) \<and>
    (created \<longleftrightarrow> (oj_tenant_id job, oj_deduplication_key job) \<notin> dedup_index ` set (rows @ committed)) \<and>
    rows' = (if created then rows @ committed @ [outbox_job_to_row job] else rows @ committed)"
proof -
  let ?key = "(oj_tenant_id job, oj_deduplication_key job)" and ?all = "rows @ committed"
  note enq = enqueue_spec [OF assms(1,3-7)]
  show ?thesis
  proof (cases "?key \<in> dedup_index ` set ?all")
    case False
    then have "?key \<notin> dedup_index ` set rows" by auto
    then have none: "find_by_deduplication_key rows (oj_tenant_id job) (oj_deduplication_key job) = Inr None"
      by (rule find_key_absent [OF assms(2)])
    have "enqueue ?all job = Inr (?all @ [outbox_job_to_row job])" using enq False by simp
    moreover note enqueue_table_ok [OF assms(1,3,4,5) this]
    ultimately show ?thesis
      using none False view_appended [OF _ normalize_stored [OF assms(3,4)], of ?all]
      by (simp add: get_or_create_def, blast)
  next
    case True
    then obtain found where f: "find_by_deduplication_key ?all (oj_tenant_id job) (oj_deduplication_key job) = Inr (Some found)"
      "oj_tenant_id found = oj_tenant_id job" "oj_deduplication_key found = oj_deduplication_key job"
      "view ?all (oj_id found) = Some found" "stored found"
      using find_key_present [OF assms(1)] by metis
    have dup: "enqueue ?all job = Inl (DuplicateOutboxJobError ''outbox persistence integrity error'')"
      using enq True by simp
    show ?thesis
    proof (cases "?key \<in> dedup_index ` set rows")
      case in_rows: True
      have "find_by_deduplication_key rows (oj_tenant_id job) (oj_deduplication_key job) = Inr (Some found)"
        using find_key_prefix [OF assms(1,2) in_rows f(1)] .
      then show ?thesis using f True assms(1) by (simp add: get_or_create_def stored_normalize, blast)
    next
      case False
      then have "find_by_deduplication_key rows (oj_tenant_id job) (oj_deduplication_key job) = Inr None"
        by (rule find_key_absent [OF assms(2)])
      then show ?thesis using f dup True assms(1) by (simp add: get_or_create_def stored_normalize, blast)
    qed
  qed
qed

theorem get_or_create_correct_witness:
  "\<exists>rows' found created.
    get_or_create None [] sample_queue (sample_job\<lparr>oj_id := 2\<rparr>) = Inr (rows', found, created) \<and>
    \<not> created \<and> rows' = sample_queue"
proof -
  let ?job = "sample_job\<lparr>oj_id := 2\<rparr>"
  have ok: "table_ok (sample_queue @ [])" "table_ok sample_queue" using sample_queue_ok by simp_all
  have job: "job_ok ?job" "lifecycle ?job" "reference_ok (oj_reference ?job)" "in_range ?job"
    using sample_job_ok reachable_job_inv [OF sample_job_reachable]
    by (simp_all add: job_ok_def lifecycle_def)
      (simp_all add: sample_job_def reference_ok_def in_range_def ident_defs)
  have new: "oj_id ?job \<notin> row_id ` set (sample_queue @ [])"
    by (simp add: sample_queue_def sample_job_def)
  have key: "(oj_tenant_id ?job, oj_deduplication_key ?job) \<in> dedup_index ` set (sample_queue @ [])"
    by (simp add: sample_queue_def dedup_index_def)
  from get_or_create_correct [OF ok job(1,3,2,4) new] obtain rows' found created where
    "get_or_create None [] sample_queue ?job = Inr (rows', found, created)"
    "created \<longleftrightarrow> (oj_tenant_id ?job, oj_deduplication_key ?job) \<notin> dedup_index ` set (sample_queue @ [])"
    "rows' = (if created then sample_queue @ [] @ [outbox_job_to_row ?job] else sample_queue @ [])"
    by blast
  with key show ?thesis by (intro exI [of _ rows'] exI [of _ found] exI [of _ created]) simp
qed

end
