(* ===== verification/Outbox_Services.thy ===== *)
theory Outbox_Services
  imports Outbox_Store
begin

text \<open>
  The services over the outbox: the publisher (\<open>application/outbox_publisher.py\<close>), the processor
  (\<open>application/outbox_processor.py\<close>) and reconciliation (\<open>application/outbox_reconciliation.py\<close>),
  as computations on one transaction's view of the two tables, the queue, and the number of UUIDs
  and clock readings drawn so far. Parameters of the model: \<open>uuid4\<close>, \<open>clock\<close> (the successive
  readings), \<open>locked\<close> (rows held by other transactions), \<open>accepts\<close> (whether the queue takes an
  identity, given what it took before) and the handlers, each with the number of times the renewal
  interval elapses while it runs. A handler's own writes to other tables are not part of the state.
  The renewal task and the handler share one event loop, so a renewal takes place between two steps
  of the handler; after the handler the task is cancelled before the job is finalised. Not
  modelled: a renewal during the finalisation after a failed handler.
\<close>

record outbox_world =
  ow_jobs :: "outbox_job_row list"
  ow_attempts :: "outbox_job_attempt_row list"
  ow_queue :: "uuid list"
  ow_drawn :: nat
  ow_reads :: nat

datatype outbox_service_error =
    OutboxPublisherError string
  | OutboxProcessorError string
  | Repository outbox_repo_error
  | Domain outbox_error

type_synonym 'a outbox_comp = "(outbox_world, outbox_service_error, 'a) comp"

section \<open>Calls of the repositories\<close>

definition on_jobs ::
  "(outbox_job_row list \<Rightarrow> outbox_repo_error + (outbox_job_row list \<times> 'a)) \<Rightarrow> 'a outbox_comp" where
  "on_jobs f = (\<lambda>w. case f (ow_jobs w) of
      Inl e \<Rightarrow> (Inl (Repository e), w)
    | Inr (rows, x) \<Rightarrow> (Inr x, w\<lparr>ow_jobs := rows\<rparr>))"

definition draw_uuid :: "(nat \<Rightarrow> uuid) \<Rightarrow> uuid outbox_comp" where
  "draw_uuid uuid4 = (\<lambda>w. (Inr (uuid4 (ow_drawn w)), w\<lparr>ow_drawn := Suc (ow_drawn w)\<rparr>))"

definition read_clock :: "(nat \<Rightarrow> datetime) \<Rightarrow> datetime outbox_comp" where
  "read_clock clock = (\<lambda>w. (Inr (clock (ow_reads w)), w\<lparr>ow_reads := Suc (ow_reads w)\<rparr>))"

text \<open>
  The token a worker passes on (\<open>job.claim_token\<close> with \<open># type: ignore\<close>): every job a worker handles
  was claimed, so the token is there.
\<close>

definition claim_token_of :: "outbox_job \<Rightarrow> uuid" where
  "claim_token_of job = (case oj_claim_token job of Some t \<Rightarrow> t | None \<Rightarrow> 0)"

text \<open>\<open>_append_attempt\<close> of both services; they differ in the phase.\<close>

definition append_attempt ::
  "(nat \<Rightarrow> uuid) \<Rightarrow> outbox_job_phase \<Rightarrow> outbox_job \<Rightarrow> datetime \<Rightarrow> datetime \<Rightarrow>
   outbox_attempt_outcome \<Rightarrow> outbox_error_code option \<Rightarrow> unit outbox_comp" where
  "append_attempt uuid4 phase job started_at finished_at outcome error_code =
     bindS (draw_uuid uuid4) (\<lambda>attempt_id.
     bindS (case oj_claim_token job of Some t \<Rightarrow> returnS t | None \<Rightarrow> draw_uuid uuid4) (\<lambda>token.
     (\<lambda>w. case OutboxJobAttempt_post_init
          \<lparr>at_id = attempt_id, at_job_id = oj_id job,
           at_attempt_number = max (oj_attempt_count job) 1, at_phase = phase,
           at_started_at = started_at, at_finished_at = finished_at, at_outcome = outcome,
           at_claim_token = token, at_error_code = error_code\<rparr> of
        Inl e \<Rightarrow> (Inl (Domain e), w)
      | Inr attempt \<Rightarrow>
          (case append_attempt_row (ow_jobs w) (ow_attempts w) attempt of
             Inl e \<Rightarrow> (Inl (Repository e), w)
           | Inr rows \<Rightarrow> (Inr (), w\<lparr>ow_attempts := rows\<rparr>)))))"

fun is_claim_mismatch :: "outbox_service_error \<Rightarrow> bool" where
  "is_claim_mismatch (Repository (OutboxClaimMismatchError m)) = True"
| "is_claim_mismatch _ = False"

text \<open>Instances of \<open>OutboxPersistenceError\<close>, the base class of the repository's own errors.\<close>

fun is_persistence_error :: "outbox_service_error \<Rightarrow> bool" where
  "is_persistence_error (Repository (OutboxPersistenceError m)) = True"
| "is_persistence_error (Repository (OutboxRecordNotFoundError m)) = True"
| "is_persistence_error (Repository (DuplicateOutboxJobError m)) = True"
| "is_persistence_error (Repository (OutboxStaleVersionError m)) = True"
| "is_persistence_error (Repository (OutboxClaimMismatchError m)) = True"
| "is_persistence_error _ = False"

text \<open>
  The tail that \<open>_handle_publish_failure\<close> and the processor's \<open>_handle_failure\<close> share: dead-letter
  when the budget is used up, otherwise check and schedule the retry. \<open>err\<close> is the service's
  exception and \<open>outcomes\<close> the two results.
\<close>

definition retry_or_dead_letter ::
  "outbox_job_phase \<Rightarrow> (string \<Rightarrow> outbox_service_error) \<Rightarrow> outbox_job \<Rightarrow> datetime \<Rightarrow>
   outbox_error_code \<Rightarrow> string outbox_comp" where
  "retry_or_dead_letter phase err job now error_code =
     (if oj_max_attempts job \<le> oj_attempt_count job + 1
      then tryS (on_jobs (\<lambda>rows. repo_mark_dead_letter rows (oj_id job) (claim_token_of job)
                   (error_code_value EC_MAX_ATTEMPTS_EXCEEDED) now (oj_version job)))
             (\<lambda>e. raiseS (if is_claim_mismatch e
                          then err ''outbox dead-letter finalization failed'' else e))
             (\<lambda>_. returnS ''dead_lettered'')
      else (case schedule_retry job (claim_token_of job) phase error_code now (oj_version job) of
              Inl (OutboxTransitionError m) \<Rightarrow> raiseS (err ''outbox retry scheduling failed'')
            | Inl e \<Rightarrow> raiseS (Domain e)
            | Inr checked \<Rightarrow>
                tryS (on_jobs (\<lambda>rows. repo_schedule_retry rows (oj_id job) (claim_token_of job)
                        (error_code_value error_code) now (oj_version job) (job_phase_value phase)))
                  (\<lambda>e. raiseS (if is_claim_mismatch e
                               then err ''outbox retry persistence failed'' else e))
                  (\<lambda>_. returnS ''retried'')))"

section \<open>Publisher\<close>

record outbox_publisher_result =
  pr_claimed_count :: nat
  pr_published_count :: nat
  pr_retried_count :: nat
  pr_dead_lettered_count :: nat

definition handle_publish_failure ::
  "(nat \<Rightarrow> uuid) \<Rightarrow> outbox_job \<Rightarrow> datetime \<Rightarrow> datetime \<Rightarrow> outbox_error_code \<Rightarrow> string outbox_comp" where
  "handle_publish_failure uuid4 job started_at now error_code =
     bindS (append_attempt uuid4 PH_PUBLISHER job started_at now AO_FAILED (Some error_code)) (\<lambda>_.
     retry_or_dead_letter PH_PUBLISHER OutboxPublisherError job now error_code)"

definition publish_one ::
  "(nat \<Rightarrow> uuid) \<Rightarrow> (uuid list \<Rightarrow> uuid \<Rightarrow> bool) \<Rightarrow> datetime \<Rightarrow> outbox_job \<Rightarrow> string outbox_comp" where
  "publish_one uuid4 accepts now job = (\<lambda>w.
     if \<not> accepts (ow_queue w) (oj_id job)
     then handle_publish_failure uuid4 job now now EC_QUEUE_UNAVAILABLE w
     else tryS (on_jobs (\<lambda>rows. repo_mark_published rows (oj_id job) (claim_token_of job) now
                           (oj_version job)))
            (\<lambda>e. if is_claim_mismatch e
                  then bindS (append_attempt uuid4 PH_PUBLISHER job now now AO_FAILED
                                (Some EC_STALE_CLAIM)) (\<lambda>_. returnS ''retried'')
                  else if is_persistence_error e
                  then handle_publish_failure uuid4 job now now EC_PUBLISH_FAILED
                  else raiseS e)
            (\<lambda>updated.
              bindS (append_attempt uuid4 PH_PUBLISHER updated now now AO_SUCCEEDED None) (\<lambda>_.
              returnS ''published''))
            (w\<lparr>ow_queue := ow_queue w @ [oj_id job]\<rparr>))"

fun publish_loop ::
  "(nat \<Rightarrow> uuid) \<Rightarrow> (uuid list \<Rightarrow> uuid \<Rightarrow> bool) \<Rightarrow> datetime \<Rightarrow> outbox_job list \<Rightarrow>
   outbox_publisher_result \<Rightarrow> outbox_publisher_result outbox_comp" where
  "publish_loop uuid4 accepts now [] counts = returnS counts"
| "publish_loop uuid4 accepts now (job # jobs) counts =
     bindS (publish_one uuid4 accepts now job) (\<lambda>outcome.
     publish_loop uuid4 accepts now jobs
       (if outcome = ''published''
        then counts\<lparr>pr_published_count := pr_published_count counts + 1\<rparr>
        else if outcome = ''retried''
        then counts\<lparr>pr_retried_count := pr_retried_count counts + 1\<rparr>
        else counts\<lparr>pr_dead_lettered_count := pr_dead_lettered_count counts + 1\<rparr>))"

definition publish_batch ::
  "(nat \<Rightarrow> uuid) \<Rightarrow> (uuid list \<Rightarrow> uuid \<Rightarrow> bool) \<Rightarrow> (uuid \<Rightarrow> bool) \<Rightarrow> string \<Rightarrow> datetime \<Rightarrow> int \<Rightarrow>
   outbox_job_kind list option \<Rightarrow> outbox_publisher_result outbox_comp" where
  "publish_batch uuid4 accepts locked worker_id now batch_size allowed =
     bindS (\<lambda>w. case claim_publisher_batch uuid4 (ow_drawn w) locked (ow_jobs w) worker_id now
                       batch_size allowed of
               Inl e \<Rightarrow> (Inl (Repository e), w)
             | Inr (rows, claimed, drawn) \<Rightarrow>
                 (Inr claimed, w\<lparr>ow_jobs := rows, ow_drawn := drawn\<rparr>))
       (\<lambda>claimed.
     publish_loop uuid4 accepts now claimed
       \<lparr>pr_claimed_count = length claimed, pr_published_count = 0, pr_retried_count = 0,
        pr_dead_lettered_count = 0\<rparr>)"

section \<open>Processor\<close>

record outbox_processor_result =
  qr_job_id :: uuid
  qr_outcome :: string

text \<open>The handlers' typed exceptions, by the module that raises them, and every other exception.\<close>

datatype handler_error_class =
    WebhookNormalizeHandlerError | CsvImportHandlerError | CrmSyncHandlerError
  | ContentRedactHandlerError | MetricsRecalculateHandlerError | KnowledgeIndexHandlerError
  | MessageAnalyzeHandlerError | NotificationDeliverHandlerError | MediaFetchHandlerError
  | MediaScanHandlerError | RetentionPurgeHandlerError | ProviderMessageSendHandlerError
  | ProviderTemplatesSyncHandlerError | OptionalFeatureDisabledHandlerError

datatype handler_exception =
    Typed_Error handler_error_class outbox_error_code bool
  | Other_Error

record typed_handler_failure =
  thf_error_code :: outbox_error_code
  thf_permanent :: bool

fun extract_typed_handler_error :: "handler_exception \<Rightarrow> typed_handler_failure option" where
  "extract_typed_handler_error (Typed_Error cls code permanent) =
     Some \<lparr>thf_error_code = code, thf_permanent = permanent\<rparr>"
| "extract_typed_handler_error Other_Error = None"

text \<open>A run of a handler: how often the renewal interval elapses, and the exception, if any.\<close>

record handler_run =
  hr_ticks :: nat
  hr_raised :: "handler_exception option"

type_synonym handlers = "outbox_job_kind \<rightharpoonup> (outbox_job \<Rightarrow> handler_run)"

definition renew_interval_seconds :: int where
  "renew_interval_seconds = max (PROCESSOR_LEASE_SECONDS div 3) 10"

text \<open>
  \<open>_renew_processor_lease_loop\<close> for the intervals that elapse: the job as the loop leaves it and
  the exception that ends the task, if one does.
\<close>

fun renew_loop ::
  "(nat \<Rightarrow> datetime) \<Rightarrow> nat \<Rightarrow> outbox_job \<Rightarrow> outbox_world \<Rightarrow>
   (outbox_job \<times> outbox_service_error option) \<times> outbox_world" where
  "renew_loop clock 0 current w = ((current, None), w)"
| "renew_loop clock (Suc n) current w =
     (if oj_claim_token current = None then ((current, None), w)
      else case bindS (read_clock clock) (\<lambda>now.
             on_jobs (\<lambda>rows. repo_renew_processor_claim rows (oj_id current)
                       (claim_token_of current) now (oj_version current))) w of
             (Inr renewed, w') \<Rightarrow> renew_loop clock n renewed w'
           | (Inl e, w') \<Rightarrow> ((current, if is_claim_mismatch e then None else Some e), w'))"

definition handle_permanent_failure ::
  "(nat \<Rightarrow> uuid) \<Rightarrow> (nat \<Rightarrow> datetime) \<Rightarrow> outbox_job \<Rightarrow> datetime \<Rightarrow> outbox_error_code \<Rightarrow>
   outbox_processor_result outbox_comp" where
  "handle_permanent_failure uuid4 clock job started_at error_code =
     bindS (read_clock clock) (\<lambda>finished_at.
     bindS (append_attempt uuid4 PH_PROCESSOR job started_at finished_at AO_FAILED
              (Some error_code)) (\<lambda>_.
     tryS (on_jobs (\<lambda>rows. repo_mark_dead_letter rows (oj_id job) (claim_token_of job)
             (error_code_value error_code) finished_at (oj_version job)))
       (\<lambda>e. raiseS (if is_claim_mismatch e
                    then OutboxProcessorError ''outbox dead-letter finalization failed'' else e))
       (\<lambda>_. returnS \<lparr>qr_job_id = oj_id job, qr_outcome = ''dead_lettered''\<rparr>)))"

definition handle_failure ::
  "(nat \<Rightarrow> uuid) \<Rightarrow> (nat \<Rightarrow> datetime) \<Rightarrow> outbox_job \<Rightarrow> datetime \<Rightarrow> outbox_error_code \<Rightarrow>
   outbox_processor_result outbox_comp" where
  "handle_failure uuid4 clock job started_at error_code =
     bindS (read_clock clock) (\<lambda>finished_at.
     bindS (append_attempt uuid4 PH_PROCESSOR job started_at finished_at AO_FAILED
              (Some error_code)) (\<lambda>_.
     bindS (retry_or_dead_letter PH_PROCESSOR OutboxProcessorError job finished_at error_code)
       (\<lambda>outcome.
     returnS \<lparr>qr_job_id = oj_id job, qr_outcome = outcome\<rparr>)))"

text \<open>The \<open>finally\<close> clause: awaiting the cancelled task raises what ended it.\<close>

definition finally_renewal ::
  "outbox_service_error option \<Rightarrow> 'a outbox_comp \<Rightarrow> 'a outbox_comp" where
  "finally_renewal task_error m = (\<lambda>w.
     case task_error of None \<Rightarrow> m w | Some e \<Rightarrow> (Inl e, snd (m w)))"

definition after_handler ::
  "(nat \<Rightarrow> uuid) \<Rightarrow> (nat \<Rightarrow> datetime) \<Rightarrow> uuid \<Rightarrow> datetime \<Rightarrow> handler_exception option \<Rightarrow>
   outbox_job \<Rightarrow> outbox_service_error option \<Rightarrow> outbox_processor_result outbox_comp" where
  "after_handler uuid4 clock job_id started_at raised active task_error =
     (case raised of
        Some error \<Rightarrow>
          finally_renewal task_error
            (case extract_typed_handler_error error of
               Some failure \<Rightarrow>
                 (if thf_permanent failure
                  then handle_permanent_failure uuid4 clock active started_at
                         (thf_error_code failure)
                  else handle_failure uuid4 clock active started_at (thf_error_code failure))
             | None \<Rightarrow> handle_failure uuid4 clock active started_at EC_HANDLER_FAILED)
      | None \<Rightarrow>
          bindS (finally_renewal task_error (returnS ())) (\<lambda>_.
          bindS (read_clock clock) (\<lambda>finished_at.
          tryS (on_jobs (\<lambda>rows. repo_mark_succeeded rows (oj_id active) (claim_token_of active)
                  finished_at (oj_version active)))
            (\<lambda>e. if is_claim_mismatch e
                  then bindS (append_attempt uuid4 PH_PROCESSOR active started_at finished_at
                                AO_FAILED (Some EC_STALE_CLAIM)) (\<lambda>_.
                       returnS \<lparr>qr_job_id = job_id, qr_outcome = ''stale_claim''\<rparr>)
                  else raiseS e)
            (\<lambda>updated.
              bindS (append_attempt uuid4 PH_PROCESSOR updated started_at finished_at
                       AO_SUCCEEDED None) (\<lambda>_.
              returnS \<lparr>qr_job_id = job_id, qr_outcome = ''succeeded''\<rparr>)))))"

text \<open>\<open>_resolve_clock\<close>: the injected clock, a frozen one, or the system's.\<close>

definition resolve_clock ::
  "(nat \<Rightarrow> datetime) option \<Rightarrow> datetime option \<Rightarrow> (nat \<Rightarrow> datetime) \<Rightarrow> nat \<Rightarrow> datetime" where
  "resolve_clock injected now system =
     (case injected of Some c \<Rightarrow> c
      | None \<Rightarrow> (case now of Some t \<Rightarrow> (\<lambda>_. t) | None \<Rightarrow> system))"

definition process_job ::
  "(nat \<Rightarrow> uuid) \<Rightarrow> (nat \<Rightarrow> datetime) \<Rightarrow> (uuid \<Rightarrow> bool) \<Rightarrow> string \<Rightarrow> outbox_job_kind list option \<Rightarrow>
   handlers \<Rightarrow> uuid \<Rightarrow> outbox_processor_result outbox_comp" where
  "process_job uuid4 clock locked worker_id supported handlers job_id =
     bindS (read_clock clock) (\<lambda>claim_at.
     bindS (\<lambda>w. case repo_claim_for_processing uuid4 (ow_drawn w) locked (ow_jobs w) job_id worker_id
                       claim_at supported of
               Inl e \<Rightarrow> (Inl (Repository e), w)
             | Inr (rows, claimed, drawn) \<Rightarrow>
                 (Inr claimed, w\<lparr>ow_jobs := rows, ow_drawn := drawn\<rparr>)) (\<lambda>claimed.
     case claimed of
       None \<Rightarrow> returnS \<lparr>qr_job_id = job_id, qr_outcome = ''not_claimed''\<rparr>
     | Some job \<Rightarrow>
         bindS (read_clock clock) (\<lambda>started_at.
         case handlers (oj_job_kind job) of
           None \<Rightarrow> handle_failure uuid4 clock job started_at EC_HANDLER_NOT_IMPLEMENTED
         | Some handler \<Rightarrow>
             (\<lambda>w. case renew_loop clock (hr_ticks (handler job)) job w of
                ((active, task_error), w') \<Rightarrow>
                  after_handler uuid4 clock job_id started_at (hr_raised (handler job)) active
                    task_error w'))))"

text \<open>The no-op handler takes every kind.\<close>

definition noop_supported_kinds :: "outbox_job_kind list" where
  "noop_supported_kinds = job_kinds"

definition noop_handle :: "outbox_job \<Rightarrow> handler_run" where
  "noop_handle job =
     \<lparr>hr_ticks = 0,
      hr_raised = (if oj_job_kind job \<notin> set noop_supported_kinds then Some Other_Error else None)\<rparr>"

definition build_noop_handlers :: handlers where
  "build_noop_handlers = (\<lambda>kind. if kind \<in> set job_kinds then Some noop_handle else None)"

section \<open>Reconciliation\<close>

record outbox_reconciliation_report =
  rr_recovered_publisher_claims :: nat
  rr_recovered_processor_claims :: nat
  rr_overdue_pending_jobs :: nat
  rr_dead_letter_jobs :: nat

definition read_jobs :: "(outbox_job_row list \<Rightarrow> outbox_repo_error + 'a) \<Rightarrow> 'a outbox_comp" where
  "read_jobs f = (\<lambda>w. case f (ow_jobs w) of Inl e \<Rightarrow> (Inl (Repository e), w) | Inr x \<Rightarrow> (Inr x, w))"

definition reconcile ::
  "(uuid \<Rightarrow> bool) \<Rightarrow> datetime \<Rightarrow> datetime \<Rightarrow> int \<Rightarrow> outbox_reconciliation_report outbox_comp" where
  "reconcile locked now overdue_before limit =
     bindS (on_jobs (\<lambda>rows. recover_expired_claims locked rows now)) (\<lambda>recovered.
     bindS (read_jobs (\<lambda>rows. list_by_state rows JS_PENDING
              \<lparr>qf_tenant_id = None, qf_overdue_before = Some overdue_before, qf_limit = limit\<rparr>))
       (\<lambda>overdue_pending.
     bindS (read_jobs (\<lambda>rows. list_by_state rows JS_DEAD_LETTER
              \<lparr>qf_tenant_id = None, qf_overdue_before = None, qf_limit = limit\<rparr>))
       (\<lambda>dead_letter_jobs.
     returnS
       \<lparr>rr_recovered_publisher_claims = length (filter (\<lambda>job. oj_state job = JS_PENDING) recovered),
        rr_recovered_processor_claims = length (filter (\<lambda>job. oj_state job = JS_PUBLISHED) recovered),
        rr_overdue_pending_jobs = length overdue_pending,
        rr_dead_letter_jobs = length dead_letter_jobs\<rparr>)))"

section \<open>The state between calls\<close>

text \<open>
  The tables are those of a database, and the next \<open>k\<close> values of \<open>uuid4\<close> differ from each other and
  from the identities of the attempts recorded so far.
\<close>

definition world_ok :: "(nat \<Rightarrow> uuid) \<Rightarrow> nat \<Rightarrow> outbox_world \<Rightarrow> bool" where
  "world_ok uuid4 k w \<longleftrightarrow>
     table_ok (ow_jobs w) \<and> distinct (map uuid4 [ow_drawn w ..< ow_drawn w + k]) \<and>
     list_all (\<lambda>n. uuid4 n \<notin> arow_id ` set (ow_attempts w)) [ow_drawn w ..< ow_drawn w + k]"

lemma world_ok_iff:
  "world_ok uuid4 k w \<longleftrightarrow>
     table_ok (ow_jobs w) \<and> inj_on uuid4 {ow_drawn w ..< ow_drawn w + k} \<and>
     (\<forall>n \<in> {ow_drawn w ..< ow_drawn w + k}. uuid4 n \<notin> arow_id ` set (ow_attempts w))"
  by (simp add: world_ok_def distinct_map list_all_iff)

lemma world_ok_drawn:
  "world_ok uuid4 (m + k) w \<Longrightarrow> world_ok uuid4 k (w\<lparr>ow_drawn := ow_drawn w + m\<rparr>)"
  by (auto simp: world_ok_iff intro: inj_on_subset)

lemma world_ok_less: "world_ok uuid4 k w \<Longrightarrow> l \<le> k \<Longrightarrow> world_ok uuid4 l w"
  by (auto simp: world_ok_iff intro: inj_on_subset)

lemma world_ok_table: "world_ok uuid4 k w \<Longrightarrow> table_ok (ow_jobs w)"
  by (simp add: world_ok_def)

definition draws :: "outbox_job \<Rightarrow> nat" where
  "draws job = (if oj_claim_token job = None then 2 else 1)"

lemma append_attempt_ok:
  assumes ok: "world_ok uuid4 (k + 2) w" and job: "view (ow_jobs w) (oj_id job) = Some stored_job"
    and cnt: "oj_attempt_count job \<le> 2147483647"
    and t: "aware s" "aware f" "s \<le> f"
  shows "\<exists>row. append_attempt uuid4 phase job s f outcome ec w =
      (Inr (), w\<lparr>ow_attempts := ow_attempts w @ [row], ow_drawn := ow_drawn w + draws job\<rparr>) \<and>
    world_ok uuid4 k (w\<lparr>ow_attempts := ow_attempts w @ [row], ow_drawn := ow_drawn w + draws job\<rparr>) \<and>
    arow_job_id row = oj_id job \<and> arow_outcome row = attempt_outcome_value outcome \<and>
    arow_attempt_number row = max (oj_attempt_count job) 1 \<and>
    (\<forall>tok. oj_claim_token job = Some tok \<longrightarrow> arow_claim_token row = tok)"
proof -
  define tok where "tok = (case oj_claim_token job of Some x \<Rightarrow> x | None \<Rightarrow> uuid4 (Suc (ow_drawn w)))"
  define at where "at = \<lparr>at_id = uuid4 (ow_drawn w), at_job_id = oj_id job,
    at_attempt_number = max (oj_attempt_count job) 1, at_phase = phase, at_started_at = s,
    at_finished_at = f, at_outcome = outcome, at_claim_token = tok, at_error_code = ec\<rparr>"
  let ?row = "outbox_job_attempt_to_row at"
  have init: "OutboxJobAttempt_post_init at = Inr at"
    using t by (simp add: attempt_post_init_Inr_iff attempt_ok_def at_def)
  have "length (job_phase_value phase) \<le> 16" "length (attempt_outcome_value outcome) \<le> 16"
    by (cases phase; simp) (cases outcome; simp)
  then have cols: "attempt_columns_fit ?row" "attempt_row_checks ?row"
    using t cnt by (simp_all add: attempt_columns_fit_def attempt_row_checks_def
        outbox_job_attempt_to_row_def at_def fits_int4_def)
  have fresh: "uuid4 (ow_drawn w) \<notin> arow_id ` set (ow_attempts w)" and t_ok: "table_ok (ow_jobs w)"
    using ok by (simp_all add: world_ok_iff)
  have "outbox_job_to_row stored_job \<in> set (ow_jobs w)" "oj_id stored_job = oj_id job"
    using job view_Some_iff [OF t_ok] by auto
  then have "oj_id job \<in> row_id ` set (ow_jobs w)" by (metis image_eqI to_row_simps(1))
  then have app: "append_attempt_row (ow_jobs w) (ow_attempts w) at = Inr (ow_attempts w @ [?row])"
    using cols fresh by (simp add: append_attempt_row_def Let_def outbox_job_attempt_to_row_def at_def)
  have "append_attempt uuid4 phase job s f outcome ec w =
      (Inr (), w\<lparr>ow_attempts := ow_attempts w @ [?row], ow_drawn := ow_drawn w + draws job\<rparr>)"
    using init app unfolding append_attempt_def bindS_def draw_uuid_def draws_def at_def tok_def
    by (cases "oj_claim_token job") simp_all
  moreover have "world_ok uuid4 k (w\<lparr>ow_attempts := ow_attempts w @ [?row], ow_drawn := ow_drawn w + draws job\<rparr>)"
    using ok by (auto simp: world_ok_iff outbox_job_attempt_to_row_def at_def draws_def inj_on_eq_iff
        intro: inj_on_subset)
  ultimately show ?thesis
    by (intro exI [of _ ?row]) (auto simp: outbox_job_attempt_to_row_def at_def tok_def)
qed

section \<open>Publishing one job\<close>

text \<open>Where \<open>_publish_one\<close> takes it, given whether the queue accepts it.\<close>

definition publish_outcome :: "bool \<Rightarrow> outbox_job \<Rightarrow> string" where
  "publish_outcome accepted job =
     (if accepted then ''published''
      else if oj_max_attempts job \<le> oj_attempt_count job + 1 then ''dead_lettered'' else ''retried'')"

definition publish_settles :: "bool \<Rightarrow> outbox_job \<Rightarrow> outbox_job \<Rightarrow> bool" where
  "publish_settles accepted job job' \<longleftrightarrow>
     same_job job job' \<and> oj_claim_token job' = None \<and>
     (if accepted then oj_state job' = JS_PUBLISHED \<and> oj_attempt_count job' = oj_attempt_count job
      else if oj_max_attempts job \<le> oj_attempt_count job + 1
      then oj_state job' = JS_DEAD_LETTER \<and> oj_last_error_code job' = Some EC_MAX_ATTEMPTS_EXCEEDED
      else oj_state job' = JS_RETRY_SCHEDULED \<and>
        oj_last_error_code job' = Some EC_QUEUE_UNAVAILABLE \<and>
        oj_attempt_count job' = oj_attempt_count job + 1)"

lemma claim_token_of_Some: "oj_claim_token job = Some t \<Longrightarrow> claim_token_of job = t"
  by (simp add: claim_token_of_def)

lemma on_jobs_Inr:
  "f (ow_jobs w) = Inr (rows, x) \<Longrightarrow> on_jobs f w = (Inr x, w\<lparr>ow_jobs := rows\<rparr>)"
  by (simp add: on_jobs_def)

lemma in_range_attempts: "in_range job \<Longrightarrow> oj_attempt_count job \<le> 2147483647"
  by (simp add: in_range_def)

lemma world_ok_simps [simp]:
  "world_ok uuid4 k (w\<lparr>ow_queue := q\<rparr>) = world_ok uuid4 k w"
  "world_ok uuid4 k (w\<lparr>ow_reads := n\<rparr>) = world_ok uuid4 k w"
  by (simp_all add: world_ok_def)

lemma world_ok_jobs:
  "world_ok uuid4 k w \<Longrightarrow> table_ok rows \<Longrightarrow> world_ok uuid4 k (w\<lparr>ow_jobs := rows\<rparr>)"
  by (simp add: world_ok_def)

text \<open>A finalising call on a job that the table holds, when the machine's operation succeeds.\<close>

context stored_operation
begin

lemma on_world:
  assumes "world_ok uuid4 k w" and "view (ow_jobs w) job_id = Some job" and "dop job = Inr job'"
    and "oj_version job < max_version"
  shows "\<exists>rows. on_jobs (\<lambda>rows. rop rows job_id) w = (Inr job', w\<lparr>ow_jobs := rows\<rparr>) \<and>
    world_ok uuid4 k (w\<lparr>ow_jobs := rows\<rparr>) \<and> view rows = (view (ow_jobs w))(job_id \<mapsto> job')"
proof -
  have t: "table_ok (ow_jobs w)" using assms(1) by (simp add: world_ok_def)
  note c = completes [OF t assms(2-4)]
  show ?thesis
    using c simulates [OF t c] assms(1) by (auto simp: on_jobs_Inr world_ok_jobs)
qed

end

definition held_in :: "outbox_job_phase \<Rightarrow> datetime \<Rightarrow> outbox_job \<Rightarrow> bool" where
  "held_in phase now job \<longleftrightarrow>
     oj_state job = (case phase of PH_PUBLISHER \<Rightarrow> JS_PUBLISHING | PH_PROCESSOR \<Rightarrow> JS_PROCESSING) \<and>
     oj_claim_token job \<noteq> None \<and> lease_live job now \<and> oj_version job < max_version"

definition failure_settles :: "outbox_error_code \<Rightarrow> outbox_job \<Rightarrow> outbox_job \<Rightarrow> bool" where
  "failure_settles ec job job' \<longleftrightarrow>
     same_job job job' \<and> oj_claim_token job' = None \<and>
     (if oj_max_attempts job \<le> oj_attempt_count job + 1
      then oj_state job' = JS_DEAD_LETTER \<and> oj_last_error_code job' = Some EC_MAX_ATTEMPTS_EXCEEDED
      else oj_state job' = JS_RETRY_SCHEDULED \<and> oj_last_error_code job' = Some ec \<and>
        oj_attempt_count job' = oj_attempt_count job + 1)"

lemma retry_or_dead_letter_ok:
  assumes ok: "world_ok uuid4 k w" and job: "view (ow_jobs w) (oj_id job) = Some job"
    and held: "held_in phase now job"
  shows "\<exists>rows job'. retry_or_dead_letter phase err job now ec w =
      (Inr (publish_outcome False job), w\<lparr>ow_jobs := rows\<rparr>) \<and>
    world_ok uuid4 k (w\<lparr>ow_jobs := rows\<rparr>) \<and> view rows = (view (ow_jobs w))(oj_id job \<mapsto> job') \<and>
    failure_settles ec job job'"
proof -
  have t: "table_ok (ow_jobs w)" using ok by (simp add: world_ok_def)
  have jok: "job_ok job" using view_facts(4) [OF t job] .
  obtain tok where tok: "oj_claim_token job = Some tok" "claim_token_of job = tok"
    using held by (auto simp: held_in_def claim_token_of_def)
  have v: "oj_version job < max_version" and live: "lease_live job now"
    using held by (simp_all add: held_in_def)
  show ?thesis
  proof (cases "oj_max_attempts job \<le> oj_attempt_count job + 1")
    case True
    have "oj_state job \<in> {JS_PUBLISHING, JS_PROCESSING}"
      using held by (cases phase) (simp_all add: held_in_def)
    then obtain job' where d: "mark_dead_letter job tok EC_MAX_ATTEMPTS_EXCEEDED now (oj_version job) = Inr job'"
      using jok tok live by (simp add: mark_dead_letter_Inr_iff)
    from r_dead_letter.on_world [OF ok job d v] obtain rows where r:
      "on_jobs (\<lambda>rows. repo_mark_dead_letter rows (oj_id job) tok
         (error_code_value EC_MAX_ATTEMPTS_EXCEEDED) now (oj_version job)) w = (Inr job', w\<lparr>ow_jobs := rows\<rparr>)"
      "world_ok uuid4 k (w\<lparr>ow_jobs := rows\<rparr>)" "view rows = (view (ow_jobs w))(oj_id job \<mapsto> job')" by blast
    have "failure_settles ec job job'"
      using d True jok by (auto simp: failure_settles_def mark_dead_letter_Inr_iff same_job_def)
    then show ?thesis
      using r True tok unfolding retry_or_dead_letter_def publish_outcome_def
      by (intro exI [of _ rows] exI [of _ job']) (simp add: tryS_apply)
  next
    case False
    then obtain job' where d: "schedule_retry job tok phase ec now (oj_version job) = Inr job'"
      using jok tok live held by (simp add: schedule_retry_Inr_iff held_in_def)
    from r_retry.on_world [OF ok job d v] obtain rows where r:
      "on_jobs (\<lambda>rows. repo_schedule_retry rows (oj_id job) tok (error_code_value ec) now
         (oj_version job) (job_phase_value phase)) w = (Inr job', w\<lparr>ow_jobs := rows\<rparr>)"
      "world_ok uuid4 k (w\<lparr>ow_jobs := rows\<rparr>)" "view rows = (view (ow_jobs w))(oj_id job \<mapsto> job')" by blast
    have "failure_settles ec job job'"
      using d False jok by (auto simp: failure_settles_def schedule_retry_Inr_iff same_job_def)
    then show ?thesis
      using r False tok d unfolding retry_or_dead_letter_def publish_outcome_def
      by (intro exI [of _ rows] exI [of _ job']) (simp add: tryS_apply)
  qed
qed

lemma publish_settles_iff:
  "publish_settles False job job' \<longleftrightarrow> failure_settles EC_QUEUE_UNAVAILABLE job job'"
  by (simp add: publish_settles_def failure_settles_def)

text \<open>What publishing one job does to the world, given whether the queue accepted it.\<close>

definition publish_effect ::
  "(nat \<Rightarrow> uuid) \<Rightarrow> nat \<Rightarrow> outbox_world \<Rightarrow> bool \<Rightarrow> outbox_job \<Rightarrow> outbox_world \<Rightarrow> bool" where
  "publish_effect uuid4 k w accepted job w' \<longleftrightarrow>
     world_ok uuid4 k w' \<and>
     (\<exists>job'. view (ow_jobs w') = (view (ow_jobs w))(oj_id job \<mapsto> job') \<and> publish_settles accepted job job') \<and>
     ow_queue w' = ow_queue w @ (if accepted then [oj_id job] else []) \<and>
     length (ow_attempts w') = Suc (length (ow_attempts w))"

lemma publish_one_refused:
  assumes ok: "world_ok uuid4 (k + 2) w" and job: "view (ow_jobs w) (oj_id job) = Some job"
    and held: "held_in PH_PUBLISHER now job" and acc: "\<not> accepts (ow_queue w) (oj_id job)"
  shows "\<exists>w'. publish_one uuid4 accepts now job w = (Inr (publish_outcome False job), w') \<and>
    publish_effect uuid4 k w False job w'"
proof -
  have t: "table_ok (ow_jobs w)" using ok by (simp add: world_ok_def)
  note old = view_facts [OF t job]
  have now: "aware now" using held lease_live_aware by (auto simp: held_in_def)
  from append_attempt_ok [OF ok job in_range_attempts [OF old(3)] now now order.refl]
  obtain row where a: "append_attempt uuid4 PH_PUBLISHER job now now AO_FAILED
      (Some EC_QUEUE_UNAVAILABLE) w =
      (Inr (), w\<lparr>ow_attempts := ow_attempts w @ [row], ow_drawn := ow_drawn w + draws job\<rparr>)"
    "world_ok uuid4 k (w\<lparr>ow_attempts := ow_attempts w @ [row], ow_drawn := ow_drawn w + draws job\<rparr>)"
    by blast
  let ?w = "w\<lparr>ow_attempts := ow_attempts w @ [row], ow_drawn := ow_drawn w + draws job\<rparr>"
  from retry_or_dead_letter_ok [OF a(2) _ held, of OutboxPublisherError EC_QUEUE_UNAVAILABLE] job
  obtain rows job' where r: "retry_or_dead_letter PH_PUBLISHER OutboxPublisherError job now
      EC_QUEUE_UNAVAILABLE ?w = (Inr (publish_outcome False job), ?w\<lparr>ow_jobs := rows\<rparr>)"
    "world_ok uuid4 k (?w\<lparr>ow_jobs := rows\<rparr>)" "view rows = (view (ow_jobs w))(oj_id job \<mapsto> job')"
    "failure_settles EC_QUEUE_UNAVAILABLE job job'" by auto
  show ?thesis
    using acc a(1) r
    by (intro exI [of _ "?w\<lparr>ow_jobs := rows\<rparr>"])
      (auto simp: publish_one_def handle_publish_failure_def bindS_apply publish_settles_iff
        publish_effect_def)
qed

lemma publish_one_accepted:
  assumes ok: "world_ok uuid4 (k + 2) w" and job: "view (ow_jobs w) (oj_id job) = Some job"
    and held: "held_in PH_PUBLISHER now job" and acc: "accepts (ow_queue w) (oj_id job)"
  shows "\<exists>w'. publish_one uuid4 accepts now job w = (Inr (publish_outcome True job), w') \<and>
    publish_effect uuid4 k w True job w'"
proof -
  have t: "table_ok (ow_jobs w)" using ok by (simp add: world_ok_def)
  note old = view_facts [OF t job]
  have now: "aware now" using held lease_live_aware by (auto simp: held_in_def)
  obtain tok where tok: "oj_claim_token job = Some tok" "claim_token_of job = tok"
    using held by (auto simp: held_in_def claim_token_of_def)
  let ?w = "w\<lparr>ow_queue := ow_queue w @ [oj_id job]\<rparr>"
  obtain job' where d: "mark_published job tok now (oj_version job) = Inr job'"
    using old(4) tok held by (simp add: mark_published_Inr_iff held_in_def)
  have okq: "world_ok uuid4 (k + 2) ?w" "view (ow_jobs ?w) (oj_id job) = Some job" using ok job by simp_all
  have v: "oj_version job < max_version" using held by (simp add: held_in_def)
  from r_mark_pub.on_world [OF okq d v] obtain rows where r:
    "on_jobs (\<lambda>rows. repo_mark_published rows (oj_id job) tok now (oj_version job)) ?w =
      (Inr job', ?w\<lparr>ow_jobs := rows\<rparr>)" "world_ok uuid4 (k + 2) (?w\<lparr>ow_jobs := rows\<rparr>)"
    "view rows = (view (ow_jobs w))(oj_id job \<mapsto> job')" by auto
  have j': "oj_id job' = oj_id job" "oj_attempt_count job' = oj_attempt_count job"
    "publish_settles True job job'"
    using d old(4) by (auto simp: mark_published_Inr_iff publish_settles_def same_job_def)
  have "view (ow_jobs (?w\<lparr>ow_jobs := rows\<rparr>)) (oj_id job') = Some job'" using r(3) j'(1) by simp
  from append_attempt_ok [OF r(2) this _ now now order.refl, of PH_PUBLISHER AO_SUCCEEDED None]
    in_range_attempts [OF old(3)] j'(2)
  obtain row where a: "append_attempt uuid4 PH_PUBLISHER job' now now AO_SUCCEEDED None
      (?w\<lparr>ow_jobs := rows\<rparr>) =
      (Inr (), ?w\<lparr>ow_jobs := rows, ow_attempts := ow_attempts w @ [row],
        ow_drawn := ow_drawn w + draws job'\<rparr>)"
    "world_ok uuid4 k (?w\<lparr>ow_jobs := rows, ow_attempts := ow_attempts w @ [row],
        ow_drawn := ow_drawn w + draws job'\<rparr>)" by auto
  show ?thesis
    using acc r j' a tok(2)
    by (intro exI [of _ "?w\<lparr>ow_jobs := rows, ow_attempts := ow_attempts w @ [row],
        ow_drawn := ow_drawn w + draws job'\<rparr>"])
      (auto simp: publish_one_def tryS_apply bindS_apply publish_outcome_def publish_effect_def)
qed

lemma publish_one_ok:
  assumes "world_ok uuid4 (k + 2) w" and "view (ow_jobs w) (oj_id job) = Some job"
    and "held_in PH_PUBLISHER now job"
  shows "\<exists>w'. publish_one uuid4 accepts now job w =
      (Inr (publish_outcome (accepts (ow_queue w) (oj_id job)) job), w') \<and>
    publish_effect uuid4 k w (accepts (ow_queue w) (oj_id job)) job w'"
  using publish_one_refused [OF assms] publish_one_accepted [OF assms]
  by (cases "accepts (ow_queue w) (oj_id job)") simp_all

section \<open>Publishing a batch\<close>

text \<open>The state in which a job of the batch ends, as a predicate on the final table.\<close>

definition ends_in :: "outbox_world \<Rightarrow> outbox_job_state \<Rightarrow> outbox_job \<Rightarrow> bool" where
  "ends_in w st c \<longleftrightarrow> (\<exists>j. view (ow_jobs w) (oj_id c) = Some j \<and> oj_state j = st)"

definition batch_effect ::
  "(nat \<Rightarrow> uuid) \<Rightarrow> nat \<Rightarrow> outbox_world \<Rightarrow> outbox_job list \<Rightarrow> outbox_publisher_result \<Rightarrow>
   outbox_publisher_result \<Rightarrow> outbox_world \<Rightarrow> bool" where
  "batch_effect uuid4 k w cs counts res w' \<longleftrightarrow>
     world_ok uuid4 k w' \<and>
     (\<forall>k. k \<notin> oj_id ` set cs \<longrightarrow> view (ow_jobs w') k = view (ow_jobs w) k) \<and>
     (\<forall>c \<in> set cs. \<exists>j b. view (ow_jobs w') (oj_id c) = Some j \<and> publish_settles b c j) \<and>
     ow_queue w' = ow_queue w @ map oj_id (filter (ends_in w' JS_PUBLISHED) cs) \<and>
     length (ow_attempts w') = length (ow_attempts w) + length cs \<and>
     res = \<lparr>pr_claimed_count = pr_claimed_count counts,
       pr_published_count = pr_published_count counts + length (filter (ends_in w' JS_PUBLISHED) cs),
       pr_retried_count = pr_retried_count counts + length (filter (ends_in w' JS_RETRY_SCHEDULED) cs),
       pr_dead_lettered_count =
         pr_dead_lettered_count counts + length (filter (ends_in w' JS_DEAD_LETTER) cs)\<rparr>"

lemma filter_other_world:
  assumes "\<forall>k. k \<notin> oj_id ` S \<longrightarrow> view (ow_jobs w') k = view (ow_jobs w) k" and "oj_id c \<notin> oj_id ` S"
  shows "ends_in w' st c = ends_in w st c"
  using assms by (simp add: ends_in_def)

lemma publish_loop_ok:
  assumes "world_ok uuid4 (k + 2 * length cs) w" and "distinct (map oj_id cs)"
    and "\<And>c. c \<in> set cs \<Longrightarrow> view (ow_jobs w) (oj_id c) = Some c \<and> held_in PH_PUBLISHER now c"
  shows "\<exists>res w'. publish_loop uuid4 accepts now cs counts w = (Inr res, w') \<and>
    batch_effect uuid4 k w cs counts res w'"
  using assms
proof (induction cs arbitrary: w counts)
  case Nil
  then show ?case by (cases counts) (simp add: batch_effect_def)
next
  case (Cons c cs)
  let ?acc = "accepts (ow_queue w) (oj_id c)"
  obtain w1 where one: "publish_one uuid4 accepts now c w = (Inr (publish_outcome ?acc c), w1)"
    and eff: "publish_effect uuid4 (k + 2 * length cs) w ?acc c w1"
    using publish_one_ok [of uuid4 "k + 2 * length cs" w c now accepts] Cons.prems by auto
  obtain j where j: "view (ow_jobs w1) = (view (ow_jobs w))(oj_id c \<mapsto> j)" "publish_settles ?acc c j"
    using eff by (auto simp: publish_effect_def)
  have new: "oj_id c \<notin> oj_id ` set cs" using Cons.prems(2) by simp
  have rest: "view (ow_jobs w1) (oj_id d) = Some d \<and> held_in PH_PUBLISHER now d" if "d \<in> set cs" for d
  proof -
    have "oj_id d \<noteq> oj_id c" using imageI [OF that, of oj_id] new by auto
    then show ?thesis using Cons.prems(3) [of d] that j(1) by simp
  qed
  define counts1 where "counts1 =
    (if publish_outcome ?acc c = ''published''
     then counts\<lparr>pr_published_count := pr_published_count counts + 1\<rparr>
     else if publish_outcome ?acc c = ''retried''
     then counts\<lparr>pr_retried_count := pr_retried_count counts + 1\<rparr>
     else counts\<lparr>pr_dead_lettered_count := pr_dead_lettered_count counts + 1\<rparr>)"
  have "world_ok uuid4 (k + 2 * length cs) w1" "distinct (map oj_id cs)"
    using eff Cons.prems(2) by (simp_all add: publish_effect_def)
  from Cons.IH [OF this rest, of counts1] obtain res w' where
    IH: "publish_loop uuid4 accepts now cs counts1 w1 = (Inr res, w')"
    "batch_effect uuid4 k w1 cs counts1 res w'" by auto
  have here: "view (ow_jobs w') (oj_id c) = Some j"
    using IH(2) new j(1) by (simp add: batch_effect_def)
  have run: "publish_loop uuid4 accepts now (c # cs) counts w = (Inr res, w')"
    using one IH(1) by (simp add: bindS_apply counts1_def)
  have ends: "ends_in w' st c \<longleftrightarrow> oj_state j = st" for st using here by (simp add: ends_in_def)
  have "batch_effect uuid4 k w (c # cs) counts res w'"
    using IH(2) eff j here new
    unfolding batch_effect_def publish_effect_def counts1_def
    by (auto simp: ends publish_outcome_def publish_settles_def split: if_splits)
  with run show ?case by blast
qed

lemma claimed_held:
  assumes "claimed_from w now j c" and "aware now" and "oj_version j + 1 < max_version"
  shows "held_in PH_PUBLISHER now c"
  using assms
  by (auto simp: claimed_from_def held_in_def lease_live_def timedelta_defs)

lemma settled_sum:
  assumes "batch_effect uuid4 k w cs \<lparr>pr_claimed_count = n, pr_published_count = 0,
    pr_retried_count = 0, pr_dead_lettered_count = 0\<rparr> res w'"
  shows "pr_published_count res + pr_retried_count res + pr_dead_lettered_count res = length cs"
proof -
  have each: "\<forall>c \<in> set cs. \<exists>j b. view (ow_jobs w') (oj_id c) = Some j \<and> publish_settles b c j"
    using assms by (simp add: batch_effect_def)
  have "length (filter (ends_in w' JS_PUBLISHED) ds) + length (filter (ends_in w' JS_RETRY_SCHEDULED) ds) +
    length (filter (ends_in w' JS_DEAD_LETTER) ds) = length ds" if "set ds \<subseteq> set cs" for ds
    using that
  proof (induction ds)
    case (Cons d ds)
    then obtain j b where "view (ow_jobs w') (oj_id d) = Some j" "publish_settles b d j" using each by auto
    then show ?case using Cons by (auto simp: ends_in_def publish_settles_def split: if_splits)
  qed simp
  then show ?thesis using assms by (simp add: batch_effect_def)
qed

lemma claimed_batch_held:
  assumes "world_ok uuid4 (k + 3 * nat batch_size) w" and "aware now" and "matches_ident ident_dash_char 63 worker"
    and "1 \<le> batch_size" and vs: "list_all (\<lambda>row. row_version row + 1 < max_version) (ow_jobs w)"
  shows "\<exists>rows' claimed. claim_publisher_batch uuid4 (ow_drawn w) locked (ow_jobs w) worker now batch_size allowed =
      Inr (rows', claimed, ow_drawn w + length claimed) \<and>
    world_ok uuid4 (k + 2 * length claimed)
      (w\<lparr>ow_jobs := rows', ow_drawn := ow_drawn w + length claimed\<rparr>) \<and>
    distinct (map oj_id claimed) \<and> int (length claimed) \<le> batch_size \<and>
    (\<forall>c \<in> set claimed. view rows' (oj_id c) = Some c \<and> held_in PH_PUBLISHER now c \<and>
       (\<exists>j. view (ow_jobs w) (oj_id c) = Some j \<and> publishable locked now allowed j)) \<and>
    (\<forall>k. k \<notin> oj_id ` set claimed \<longrightarrow> view rows' k = view (ow_jobs w) k)"
proof -
  have t: "table_ok (ow_jobs w)" using assms(1) by (simp add: world_ok_def)
  have room: "room (ow_jobs w)"
    using vs unfolding room_def by (rule list.pred_mono_strong) simp
  obtain rows' claimed js where f:
    "claim_publisher_batch uuid4 (ow_drawn w) locked (ow_jobs w) worker now batch_size allowed =
      Inr (rows', claimed, ow_drawn w + length claimed)"
    "select_publishable locked (ow_jobs w) now (nat batch_size) allowed = map outbox_job_to_row js"
    "\<And>j. j \<in> set js \<Longrightarrow> view (ow_jobs w) (oj_id j) = Some j \<and> publishable locked now allowed j"
    "list_all2 (\<lambda>j c. oj_id c = oj_id j \<and> claimed_from worker now j c) js claimed"
    "distinct (map oj_id js)" "table_ok rows'"
    "view rows' = view (ow_jobs w) ++ map_of (map (\<lambda>c. (oj_id c, c)) (rev claimed))"
    by (rule claim_batch_facts [OF t assms(2-4) room, of uuid4 "ow_drawn w" locked allowed]) blast
  note after = view_after_replacing [OF f(4,5,7)]
  have ids: "map oj_id claimed = map oj_id js"
    using f(4) by (induction rule: list_all2_induct) simp_all
  have img: "oj_id ` set js = oj_id ` set claimed" using arg_cong [OF ids, of set] by simp
  have held: "view rows' (oj_id c) = Some c \<and> held_in PH_PUBLISHER now c \<and>
       (\<exists>j. view (ow_jobs w) (oj_id c) = Some j \<and> publishable locked now allowed j)"
    if c: "c \<in> set claimed" for c
  proof -
    obtain j where j: "j \<in> set js" "oj_id c = oj_id j" "claimed_from worker now j c"
      using list_all2_set2 [OF f(4) c] by blast
    have "outbox_job_to_row j \<in> set (ow_jobs w)" using f(3) [OF j(1)] view_Some_iff [OF t] by blast
    then have "oj_version j + 1 < max_version" using vs by (auto simp: list_all_iff)
    then show ?thesis
      using after(3) [OF c] claimed_held [OF j(3) assms(2)] f(3) [OF j(1)] j(2) by auto
  qed
  have len: "int (length claimed) \<le> batch_size"
    using arg_cong [OF f(2), of length] arg_cong [OF ids, of length] assms(4)
    by (simp add: select_publishable_def)
  then have "length claimed + (k + 2 * length claimed) \<le> k + 3 * nat batch_size" by linarith
  from world_ok_drawn [OF world_ok_less [OF assms(1) this]]
  have "world_ok uuid4 (k + 2 * length claimed)
      (w\<lparr>ow_jobs := rows', ow_drawn := ow_drawn w + length claimed\<rparr>)"
    using f(6) by (simp add: world_ok_def)
  then show ?thesis
    using len f(1,5) ids held after(1) img by (intro exI [of _ rows'] exI [of _ claimed]) simp
qed

section \<open>Properties of the services\<close>

text \<open>
  C26. A publisher's batch settles every job it claims: on a database whose versions leave room, the
  call returns (it never raises), counts every claimed job once as published, retried or
  dead-lettered, and leaves none of them claimed. The identities it sends to the queue are exactly
  those of the jobs it marks published, in the order of the claims; every claim leaves one attempt
  record; a job it did not claim is untouched.
\<close>

theorem publish_batch_correct:
  assumes "world_ok uuid4 (k + 3 * nat batch_size) w" and "aware now" and "matches_ident ident_dash_char 63 worker"
    and "1 \<le> batch_size" and "list_all (\<lambda>row. row_version row + 1 < max_version) (ow_jobs w)"
  shows "\<exists>claimed res w'. publish_batch uuid4 accepts locked worker now batch_size allowed w = (Inr res, w') \<and>
    world_ok uuid4 k w' \<and> pr_claimed_count res = length claimed \<and> int (length claimed) \<le> batch_size \<and>
    pr_published_count res + pr_retried_count res + pr_dead_lettered_count res = length claimed \<and>
    (\<forall>c \<in> set claimed. (\<exists>j. view (ow_jobs w) (oj_id c) = Some j \<and> publishable locked now allowed j) \<and>
       (\<exists>j b. view (ow_jobs w') (oj_id c) = Some j \<and> publish_settles b c j)) \<and>
    (\<forall>k. k \<notin> oj_id ` set claimed \<longrightarrow> view (ow_jobs w') k = view (ow_jobs w) k) \<and>
    ow_queue w' = ow_queue w @ map oj_id (filter (ends_in w' JS_PUBLISHED) claimed) \<and>
    length (ow_attempts w') = length (ow_attempts w) + length claimed"
proof -
  let ?counts = "\<lambda>n. \<lparr>pr_claimed_count = n, pr_published_count = 0, pr_retried_count = 0,
    pr_dead_lettered_count = 0\<rparr>"
  from claimed_batch_held [OF assms, of locked allowed] obtain rows' claimed where f:
    "claim_publisher_batch uuid4 (ow_drawn w) locked (ow_jobs w) worker now batch_size allowed =
      Inr (rows', claimed, ow_drawn w + length claimed)"
    "world_ok uuid4 (k + 2 * length claimed)
      (w\<lparr>ow_jobs := rows', ow_drawn := ow_drawn w + length claimed\<rparr>)"
    "distinct (map oj_id claimed)" "int (length claimed) \<le> batch_size"
    "\<forall>c \<in> set claimed. view rows' (oj_id c) = Some c \<and> held_in PH_PUBLISHER now c \<and>
       (\<exists>j. view (ow_jobs w) (oj_id c) = Some j \<and> publishable locked now allowed j)"
    "\<forall>k. k \<notin> oj_id ` set claimed \<longrightarrow> view rows' k = view (ow_jobs w) k" by blast
  let ?w = "w\<lparr>ow_jobs := rows', ow_drawn := ow_drawn w + length claimed\<rparr>"
  from publish_loop_ok [OF f(2,3), of now accepts "?counts (length claimed)"] f(5)
  obtain res w' where loop: "publish_loop uuid4 accepts now claimed (?counts (length claimed)) ?w = (Inr res, w')"
    and eff: "batch_effect uuid4 k ?w claimed (?counts (length claimed)) res w'" by auto
  have run: "publish_batch uuid4 accepts locked worker now batch_size allowed w = (Inr res, w')"
    using f(1) loop by (simp add: publish_batch_def bindS_def)
  show ?thesis
    using run eff f(4-6) settled_sum [OF eff]
    by (intro exI [of _ claimed] exI [of _ res] exI [of _ w']) (simp add: batch_effect_def)
qed

definition sample_world :: outbox_world where
  "sample_world = \<lparr>ow_jobs = sample_queue, ow_attempts = [], ow_queue = [], ow_drawn = 0, ow_reads = 0\<rparr>"

lemma sample_world_ok: "world_ok word_of_nat 30 sample_world"
proof -
  have "distinct (map word_of_nat [0 ..< 30] :: uuid list)" by code_simp
  then show ?thesis
    using sample_queue_ok by (simp add: world_ok_def sample_world_def list_all_iff del: upt_rec_numeral)
qed

theorem publish_batch_correct_witness:
  "\<exists>claimed res w'. publish_batch word_of_nat (\<lambda>_ _. True) (\<lambda>_. False) ''pub-1'' (Aware 0) 10 None sample_world =
      (Inr res, w') \<and> pr_claimed_count res = length claimed \<and>
    pr_published_count res + pr_retried_count res + pr_dead_lettered_count res = length claimed \<and>
    ow_queue w' = map oj_id (filter (ends_in w' JS_PUBLISHED) claimed)"
proof -
  have ok: "world_ok word_of_nat (0 + 3 * nat 10) sample_world" using sample_world_ok by simp
  have w: "matches_ident ident_dash_char 63 ''pub-1''" by (simp add: ident_defs)
  have v: "list_all (\<lambda>row. row_version row + 1 < max_version) (ow_jobs sample_world)"
    by (simp add: sample_world_def sample_queue_def sample_job_def max_version_def)
  have a: "aware (Aware 0)" "1 \<le> (10::int)" "ow_queue sample_world = []"
    by (simp_all add: sample_world_def)
  from publish_batch_correct [OF ok a(1) w a(2) v, of "\<lambda>_ _. True" "\<lambda>_. False" None] a(3)
  show ?thesis by fastforce
qed

section \<open>Processing\<close>

text \<open>
  The clock keeps pace with a lease: each of the next \<open>n\<close> readings, at which the lease is renewed,
  and the reading after them come before the lease expires.
\<close>

fun timely :: "(nat \<Rightarrow> datetime) \<Rightarrow> nat \<Rightarrow> nat \<Rightarrow> datetime \<Rightarrow> bool" where
  "timely clock r 0 e = (aware (clock r) \<and> clock r < e)"
| "timely clock r (Suc n) e =
     (aware (clock r) \<and> clock r < e \<and>
      timely clock (Suc r) n (dt_plus (clock r) (timedelta_seconds PROCESSOR_LEASE_SECONDS)))"

lemma renewed_job:
  assumes "job_ok job" and "renew_processor_claim job tok now v = Inr job'"
  shows "same_job job job' \<and> oj_state job' = oj_state job \<and> oj_claim_token job' = oj_claim_token job \<and>
    oj_version job' = oj_version job + 1 \<and> oj_attempt_count job' = oj_attempt_count job \<and>
    oj_claim_expires_at job' = Some (dt_plus now (timedelta_seconds 300))"
  using assms by (auto simp: renew_processor_claim_Inr_iff same_job_def)

definition renewal_effect ::
  "(nat \<Rightarrow> uuid) \<Rightarrow> nat \<Rightarrow> (nat \<Rightarrow> datetime) \<Rightarrow> nat \<Rightarrow> outbox_world \<Rightarrow> outbox_job \<Rightarrow> outbox_job \<Rightarrow>
   outbox_world \<Rightarrow> bool" where
  "renewal_effect uuid4 k clock n w job job' w' \<longleftrightarrow>
     world_ok uuid4 k w' \<and> view (ow_jobs w') = (view (ow_jobs w))(oj_id job \<mapsto> job') \<and>
     same_job job job' \<and> oj_attempt_count job' = oj_attempt_count job \<and>
     held_in PH_PROCESSOR (clock (ow_reads w + n)) job' \<and>
     ow_reads w' = ow_reads w + n \<and> ow_attempts w' = ow_attempts w \<and> ow_queue w' = ow_queue w"

lemma renew_loop_ok:
  assumes "world_ok uuid4 k w" and "view (ow_jobs w) (oj_id job) = Some job"
    and "oj_state job = JS_PROCESSING" and "oj_claim_token job = Some tok"
    and "oj_claim_expires_at job = Some e" and "oj_version job + int n < max_version"
    and "timely clock (ow_reads w) n e"
  shows "\<exists>job' w'. renew_loop clock n job w = ((job', None), w') \<and>
    renewal_effect uuid4 k clock n w job job' w'"
  using assms
proof (induction n arbitrary: job w e)
  case 0
  then show ?case by (auto simp: renewal_effect_def held_in_def lease_live_def)
next
  case (Suc n)
  let ?now = "clock (ow_reads w)" and ?w = "w\<lparr>ow_reads := Suc (ow_reads w)\<rparr>"
  have t: "table_ok (ow_jobs w)" using Suc.prems(1) by (rule world_ok_table)
  note old = view_facts [OF t Suc.prems(2)]
  have "lease_live job ?now" using Suc.prems(5,7) by (simp add: lease_live_def)
  then obtain job1 where d: "renew_processor_claim job tok ?now (oj_version job) = Inr job1"
    using old(4) Suc.prems(3,4) by (simp add: renew_processor_claim_Inr_iff)
  note j1 = renewed_job [OF old(4) d]
  have "world_ok uuid4 k ?w" "view (ow_jobs ?w) (oj_id job) = Some job" "oj_version job < max_version"
    using Suc.prems by simp_all
  from r_renew.on_world [OF this(1,2) d this(3)] obtain rows where r:
    "on_jobs (\<lambda>rows. repo_renew_processor_claim rows (oj_id job) tok ?now (oj_version job)) ?w =
      (Inr job1, ?w\<lparr>ow_jobs := rows\<rparr>)" "world_ok uuid4 k (?w\<lparr>ow_jobs := rows\<rparr>)"
    "view rows = (view (ow_jobs w))(oj_id job \<mapsto> job1)" by auto
  let ?w1 = "?w\<lparr>ow_jobs := rows\<rparr>"
  have id1: "oj_id job1 = oj_id job" using j1 by (simp add: same_job_def)
  have "\<exists>job' w'. renew_loop clock n job1 ?w1 = ((job', None), w') \<and>
    renewal_effect uuid4 k clock n ?w1 job1 job' w'"
    by (rule Suc.IH [OF r(2), where e = "dt_plus ?now (timedelta_seconds 300)"])
      (use j1 id1 r(3) Suc.prems in \<open>simp_all add: PROCESSOR_LEASE_SECONDS_def\<close>)
  then obtain job' w' where IH: "renew_loop clock n job1 ?w1 = ((job', None), w')"
    "renewal_effect uuid4 k clock n ?w1 job1 job' w'" by blast
  have "renew_loop clock (Suc n) job w = ((job', None), w')"
    using IH(1) r(1) Suc.prems(4) by (simp add: bindS_def read_clock_def claim_token_of_def)
  moreover have "renewal_effect uuid4 k clock (Suc n) w job job' w'"
    using IH(2) j1 id1 r(3) by (auto simp: renewal_effect_def intro: same_job_trans)
  ultimately show ?case by blast
qed

definition process_effect ::
  "(nat \<Rightarrow> uuid) \<Rightarrow> nat \<Rightarrow> outbox_world \<Rightarrow> outbox_job \<Rightarrow> outbox_job \<Rightarrow> outbox_world \<Rightarrow> bool" where
  "process_effect uuid4 k w job job' w' \<longleftrightarrow>
     world_ok uuid4 k w' \<and> view (ow_jobs w') = (view (ow_jobs w))(oj_id job \<mapsto> job') \<and>
     ow_queue w' = ow_queue w \<and> length (ow_attempts w') = Suc (length (ow_attempts w))"

lemma append_attempt_processor:
  assumes "world_ok uuid4 (k + 2) w" and "view (ow_jobs w) (oj_id job) = Some job"
    and "aware s" and "aware f" and "s \<le> f"
  shows "\<exists>w'. append_attempt uuid4 PH_PROCESSOR job s f outcome ec w = (Inr (), w') \<and>
    world_ok uuid4 k w' \<and> ow_jobs w' = ow_jobs w \<and> ow_queue w' = ow_queue w \<and>
    ow_reads w' = ow_reads w \<and> length (ow_attempts w') = Suc (length (ow_attempts w))"
proof -
  have "in_range job" using view_facts(3) [OF world_ok_table [OF assms(1)] assms(2)] .
  from append_attempt_ok [OF assms(1,2) in_range_attempts [OF this] assms(3-5)] show ?thesis by force
qed

lemma handle_failure_ok:
  assumes ok: "world_ok uuid4 (k + 2) w" and job: "view (ow_jobs w) (oj_id job) = Some job"
    and held: "held_in PH_PROCESSOR (clock (ow_reads w)) job"
    and s: "aware s" "s \<le> clock (ow_reads w)"
  shows "\<exists>w' job'. handle_failure uuid4 clock job s ec w =
      (Inr \<lparr>qr_job_id = oj_id job, qr_outcome = publish_outcome False job\<rparr>, w') \<and>
    process_effect uuid4 k w job job' w' \<and> failure_settles ec job job'"
proof -
  let ?f = "clock (ow_reads w)" and ?w = "w\<lparr>ow_reads := Suc (ow_reads w)\<rparr>"
  have f: "aware ?f" using held lease_live_aware by (auto simp: held_in_def)
  have okw: "world_ok uuid4 (k + 2) ?w" "view (ow_jobs ?w) (oj_id job) = Some job" using ok job by simp_all
  from append_attempt_processor [OF okw s(1) f s(2), of AO_FAILED "Some ec"] obtain w1 where
    a: "append_attempt uuid4 PH_PROCESSOR job s ?f AO_FAILED (Some ec) ?w = (Inr (), w1)"
    "world_ok uuid4 k w1" "ow_jobs w1 = ow_jobs w" "ow_queue w1 = ow_queue w"
    "length (ow_attempts w1) = Suc (length (ow_attempts w))" by auto
  from retry_or_dead_letter_ok [OF a(2) _ held, of OutboxProcessorError ec] job a(3)
  obtain rows job' where r: "retry_or_dead_letter PH_PROCESSOR OutboxProcessorError job ?f ec w1 =
      (Inr (publish_outcome False job), w1\<lparr>ow_jobs := rows\<rparr>)" "world_ok uuid4 k (w1\<lparr>ow_jobs := rows\<rparr>)"
    "view rows = (view (ow_jobs w))(oj_id job \<mapsto> job')" "failure_settles ec job job'" by auto
  show ?thesis
    using a r by (intro exI [of _ "w1\<lparr>ow_jobs := rows\<rparr>"] exI [of _ job'])
      (simp add: handle_failure_def bindS_def read_clock_def process_effect_def)
qed

lemma handle_permanent_failure_ok:
  assumes ok: "world_ok uuid4 (k + 2) w" and job: "view (ow_jobs w) (oj_id job) = Some job"
    and held: "held_in PH_PROCESSOR (clock (ow_reads w)) job"
    and s: "aware s" "s \<le> clock (ow_reads w)"
  shows "\<exists>w' job'. handle_permanent_failure uuid4 clock job s ec w =
      (Inr \<lparr>qr_job_id = oj_id job, qr_outcome = ''dead_lettered''\<rparr>, w') \<and>
    process_effect uuid4 k w job job' w' \<and> same_job job job' \<and> oj_claim_token job' = None \<and>
    oj_state job' = JS_DEAD_LETTER \<and> oj_last_error_code job' = Some ec"
proof -
  let ?f = "clock (ow_reads w)" and ?w = "w\<lparr>ow_reads := Suc (ow_reads w)\<rparr>"
  have f: "aware ?f" using held lease_live_aware by (auto simp: held_in_def)
  have jok: "job_ok job" using view_facts(4) [OF world_ok_table [OF ok] job] .
  have okw: "world_ok uuid4 (k + 2) ?w" "view (ow_jobs ?w) (oj_id job) = Some job" using ok job by simp_all
  from append_attempt_processor [OF okw s(1) f s(2), of AO_FAILED "Some ec"] obtain w1 where
    a: "append_attempt uuid4 PH_PROCESSOR job s ?f AO_FAILED (Some ec) ?w = (Inr (), w1)"
    "world_ok uuid4 k w1" "ow_jobs w1 = ow_jobs w" "ow_queue w1 = ow_queue w"
    "length (ow_attempts w1) = Suc (length (ow_attempts w))" by auto
  obtain tok where tok: "oj_claim_token job = Some tok" "claim_token_of job = tok"
    using held by (auto simp: held_in_def claim_token_of_def)
  have v: "oj_version job < max_version" using held by (simp add: held_in_def)
  obtain job' where d: "mark_dead_letter job tok ec ?f (oj_version job) = Inr job'"
    using jok tok held by (simp add: mark_dead_letter_Inr_iff held_in_def)
  have "view (ow_jobs w1) (oj_id job) = Some job" using job a(3) by simp
  from r_dead_letter.on_world [OF a(2) this d v] a(3) obtain rows where r:
    "on_jobs (\<lambda>rows. repo_mark_dead_letter rows (oj_id job) tok (error_code_value ec) ?f
       (oj_version job)) w1 = (Inr job', w1\<lparr>ow_jobs := rows\<rparr>)" "world_ok uuid4 k (w1\<lparr>ow_jobs := rows\<rparr>)"
    "view rows = (view (ow_jobs w))(oj_id job \<mapsto> job')" by auto
  show ?thesis
    using a r tok d jok
    by (intro exI [of _ "w1\<lparr>ow_jobs := rows\<rparr>"] exI [of _ job'])
      (auto simp: handle_permanent_failure_def bindS_def tryS_def read_clock_def process_effect_def
        mark_dead_letter_Inr_iff same_job_def)
qed

lemma finish_ok:
  assumes ok: "world_ok uuid4 (k + 2) w" and job: "view (ow_jobs w) (oj_id job) = Some job"
    and held: "held_in PH_PROCESSOR (clock (ow_reads w)) job"
    and s: "aware s" "s \<le> clock (ow_reads w)"
  shows "\<exists>w' job'. after_handler uuid4 clock job_id s None job None w =
      (Inr \<lparr>qr_job_id = job_id, qr_outcome = ''succeeded''\<rparr>, w') \<and>
    process_effect uuid4 k w job job' w' \<and> same_job job job' \<and> oj_state job' = JS_SUCCEEDED"
proof -
  let ?f = "clock (ow_reads w)" and ?w = "w\<lparr>ow_reads := Suc (ow_reads w)\<rparr>"
  have f: "aware ?f" using held lease_live_aware by (auto simp: held_in_def)
  have jok: "job_ok job" using view_facts(4) [OF world_ok_table [OF ok] job] .
  obtain tok where tok: "oj_claim_token job = Some tok" "claim_token_of job = tok"
    using held by (auto simp: held_in_def claim_token_of_def)
  have v: "oj_version job < max_version" using held by (simp add: held_in_def)
  obtain job' where d: "mark_succeeded job tok ?f (oj_version job) = Inr job'"
    using jok tok held by (simp add: mark_succeeded_Inr_iff held_in_def)
  have okw: "world_ok uuid4 (k + 2) ?w" "view (ow_jobs ?w) (oj_id job) = Some job" using ok job by simp_all
  from r_succeed.on_world [OF okw d v] obtain rows where r:
    "on_jobs (\<lambda>rows. repo_mark_succeeded rows (oj_id job) tok ?f (oj_version job)) ?w =
      (Inr job', ?w\<lparr>ow_jobs := rows\<rparr>)" "world_ok uuid4 (k + 2) (?w\<lparr>ow_jobs := rows\<rparr>)"
    "view rows = (view (ow_jobs w))(oj_id job \<mapsto> job')" by auto
  have j': "same_job job job'" "oj_state job' = JS_SUCCEEDED"
    using d jok by (auto simp: mark_succeeded_Inr_iff same_job_def)
  have "view (ow_jobs (?w\<lparr>ow_jobs := rows\<rparr>)) (oj_id job') = Some job'"
    using r(3) j'(1) by (simp add: same_job_def)
  from append_attempt_processor [OF r(2) this s(1) f s(2), of AO_SUCCEEDED None] obtain w1 where
    a: "append_attempt uuid4 PH_PROCESSOR job' s ?f AO_SUCCEEDED None (?w\<lparr>ow_jobs := rows\<rparr>) = (Inr (), w1)"
    "world_ok uuid4 k w1" "ow_jobs w1 = rows" "ow_queue w1 = ow_queue w"
    "length (ow_attempts w1) = Suc (length (ow_attempts w))" by auto
  show ?thesis
    using a r tok j'
    by (intro exI [of _ w1] exI [of _ job'])
      (simp add: after_handler_def finally_renewal_def bindS_def tryS_def read_clock_def process_effect_def)
qed

text \<open>How the outcome of the handler decides the job: success, dead letter or retry.\<close>

fun handler_settles ::
  "handler_exception option \<Rightarrow> outbox_job \<Rightarrow> outbox_job \<Rightarrow> string \<Rightarrow> bool" where
  "handler_settles None job job' out = (out = ''succeeded'' \<and> oj_state job' = JS_SUCCEEDED)"
| "handler_settles (Some (Typed_Error cls code True)) job job' out =
     (out = ''dead_lettered'' \<and> oj_state job' = JS_DEAD_LETTER \<and> oj_last_error_code job' = Some code)"
| "handler_settles (Some (Typed_Error cls code False)) job job' out =
     (out = publish_outcome False job \<and> failure_settles code job job')"
| "handler_settles (Some Other_Error) job job' out =
     (out = publish_outcome False job \<and> failure_settles EC_HANDLER_FAILED job job')"

lemma after_handler_ok:
  assumes ok: "world_ok uuid4 (k + 2) w" and job: "view (ow_jobs w) (oj_id job) = Some job"
    and held: "held_in PH_PROCESSOR (clock (ow_reads w)) job"
    and s: "aware s" "s \<le> clock (ow_reads w)"
  shows "\<exists>out w' job'. after_handler uuid4 clock (oj_id job) s raised job None w =
      (Inr \<lparr>qr_job_id = oj_id job, qr_outcome = out\<rparr>, w') \<and>
    process_effect uuid4 k w job job' w' \<and> same_job job job' \<and> handler_settles raised job job' out"
proof (cases raised)
  case None
  then show ?thesis using finish_ok [where clock = clock, OF assms, of "oj_id job"] by fastforce
next
  case (Some error)
  have same: "failure_settles ec job job' \<Longrightarrow> same_job job job'" for ec job'
    by (simp add: failure_settles_def)
  show ?thesis
  proof (cases error)
    case (Typed_Error cls code permanent)
    show ?thesis
    proof (cases permanent)
      case True
      then show ?thesis
        using Some Typed_Error handle_permanent_failure_ok [where clock = clock, OF assms, of code]
        by (auto simp: after_handler_def finally_renewal_def)
    next
      case False
      then show ?thesis
        using Some Typed_Error handle_failure_ok [where clock = clock, OF assms, of code] same
        by (fastforce simp: after_handler_def finally_renewal_def)
    qed
  next
    case Other_Error
    then show ?thesis
      using Some handle_failure_ok [where clock = clock, OF assms, of EC_HANDLER_FAILED] same
      by (fastforce simp: after_handler_def finally_renewal_def)
  qed
qed

lemma settles_same_counts:
  assumes "oj_attempt_count c = oj_attempt_count job" and "same_job job c"
    and "same_job c job'" and "handler_settles raised c job' out"
  shows "same_job job job' \<and> handler_settles raised job job' out"
proof -
  have "same_job job job'" using assms(2,3) by (rule same_job_trans)
  moreover have "oj_max_attempts c = oj_max_attempts job" using assms(2) by (simp add: same_job_def)
  ultimately show ?thesis
    using assms(1,4) by (cases "(raised, c, job', out)" rule: handler_settles.cases)
      (auto simp: publish_outcome_def failure_settles_def)
qed

text \<open>The job as \<open>claim_for_processing\<close> hands it to the handler.\<close>

definition processing_claim :: "uuid \<Rightarrow> string \<Rightarrow> datetime \<Rightarrow> outbox_job \<Rightarrow> outbox_job" where
  "processing_claim tok worker now job = job
     \<lparr>oj_state := JS_PROCESSING, oj_claim_token := Some tok, oj_claimed_by := Some worker,
      oj_claimed_at := Some now, oj_claim_expires_at := Some (dt_plus now (timedelta_seconds 300)),
      oj_processing_started_at := Some now, oj_version := oj_version job + 1\<rparr>"

lemma process_claim_step:
  assumes ok: "world_ok uuid4 (k + 1) w" and job: "view (ow_jobs w) job_id = Some job"
    and proc: "processable locked now supported job" and now: "aware now"
    and worker: "matches_ident ident_dash_char 63 worker" and v: "oj_version job < max_version"
  shows "\<exists>rows. repo_claim_for_processing uuid4 (ow_drawn w) locked (ow_jobs w) job_id worker now supported =
      Inr (rows, Some (processing_claim (uuid4 (ow_drawn w)) worker now job), Suc (ow_drawn w)) \<and>
    world_ok uuid4 k (w\<lparr>ow_jobs := rows, ow_drawn := Suc (ow_drawn w)\<rparr>) \<and>
    view rows = (view (ow_jobs w))(job_id \<mapsto> processing_claim (uuid4 (ow_drawn w)) worker now job)"
proof -
  let ?c = "processing_claim (uuid4 (ow_drawn w)) worker now job"
  have t: "table_ok (ow_jobs w)" using ok by (rule world_ok_table)
  note old = view_facts [OF t job]
  have claim: "claim_for_processing job (uuid4 (ow_drawn w)) worker now (oj_version job) = Inr ?c"
    using old(4) proc now worker
    by (simp add: claim_for_processing_Inr_iff processing_claim_def processable_def)
  have eff: "job_effect job ?c" using job_operation.effect [OF claim_for_processing_contract old(4,2) claim] .
  have cv: "oj_version ?c \<le> max_version" using v by (simp add: processing_claim_def)
  let ?rows = "store_row (ow_jobs w) (outbox_job_to_row ?c)"
  have "repo_claim_for_processing uuid4 (ow_drawn w) locked (ow_jobs w) job_id worker now supported =
      Inr (?rows, Some ?c, Suc (ow_drawn w))"
    using claim_processing_spec [OF t now worker, of job_id uuid4 "ow_drawn w" locked supported] job proc v
    by (simp add: processing_claim_def Let_def)
  moreover have "world_ok uuid4 k (w\<lparr>ow_jobs := ?rows, ow_drawn := Suc (ow_drawn w)\<rparr>)"
    using world_ok_drawn [of uuid4 1 k w] ok put_table_ok [OF t job eff cv]
    by (simp add: world_ok_def add.commute)
  ultimately show ?thesis using put_view [OF t job eff] by blast
qed

lemma processing_claim_simps [simp]:
  "oj_id (processing_claim tok worker now job) = oj_id job"
  "oj_state (processing_claim tok worker now job) = JS_PROCESSING"
  "oj_claim_token (processing_claim tok worker now job) = Some tok"
  "oj_claim_expires_at (processing_claim tok worker now job) = Some (dt_plus now (timedelta_seconds 300))"
  "oj_version (processing_claim tok worker now job) = oj_version job + 1"
  "oj_attempt_count (processing_claim tok worker now job) = oj_attempt_count job"
  "oj_job_kind (processing_claim tok worker now job) = oj_job_kind job"
  "same_job job (processing_claim tok worker now job)"
  by (simp_all add: processing_claim_def same_job_def)

text \<open>The handler's part of \<open>process_job\<close>, with the renewals that take place meanwhile.\<close>

lemma handler_part_ok:
  assumes ok: "world_ok uuid4 (k + 2) w" and c: "view (ow_jobs w) (oj_id c) = Some c"
    and st: "oj_state c = JS_PROCESSING" "oj_claim_token c = Some tok" "oj_claim_expires_at c = Some e"
    and v: "oj_version c + int n < max_version" and time: "timely clock (ow_reads w) n e"
    and s: "aware s" "s \<le> clock (ow_reads w + n)"
  shows "\<exists>out w' job'. (case renew_loop clock n c w of ((active, task_error), w') \<Rightarrow>
        after_handler uuid4 clock (oj_id c) s raised active task_error w') =
      (Inr \<lparr>qr_job_id = oj_id c, qr_outcome = out\<rparr>, w') \<and>
    process_effect uuid4 k w c job' w' \<and> same_job c job' \<and> handler_settles raised c job' out"
proof -
  from renew_loop_ok [OF ok c st v time] obtain c' w1 where
    loop: "renew_loop clock n c w = ((c', None), w1)"
    and eff: "renewal_effect uuid4 (k + 2) clock n w c c' w1" by blast
  have r: "world_ok uuid4 (k + 2) w1" "view (ow_jobs w1) = (view (ow_jobs w))(oj_id c \<mapsto> c')" "same_job c c'"
    "oj_attempt_count c' = oj_attempt_count c" "held_in PH_PROCESSOR (clock (ow_reads w1)) c'"
    "ow_reads w1 = ow_reads w + n" "ow_attempts w1 = ow_attempts w" "ow_queue w1 = ow_queue w"
    using eff by (simp_all add: renewal_effect_def)
  have id: "oj_id c' = oj_id c" using r(3) by (simp add: same_job_def)
  have here: "view (ow_jobs w1) (oj_id c') = Some c'" using r(2) id by simp
  have s': "s \<le> clock (ow_reads w1)" using s(2) r(6) by simp
  from after_handler_ok [where clock = clock, OF r(1) here r(5) s(1) s', of raised]
  obtain out w' job' where a: "after_handler uuid4 clock (oj_id c') s raised c' None w1 =
      (Inr \<lparr>qr_job_id = oj_id c', qr_outcome = out\<rparr>, w')"
    "process_effect uuid4 k w1 c' job' w'" "same_job c' job'" "handler_settles raised c' job' out" by blast
  have "same_job c job' \<and> handler_settles raised c job' out"
    using settles_same_counts [OF r(4,3) a(3,4)] .
  moreover have "process_effect uuid4 k w c job' w'"
    using a(2) r id by (simp add: process_effect_def)
  ultimately show ?thesis using loop a(1) id by auto
qed

text \<open>
  C27. Processing a job: when a published, available job of a supported kind with a handler is
  delivered, the worker's clock keeps pace with the lease and versions leave room, the call returns
  with the outcome the handler decides. Without an exception the job ends succeeded; a permanent
  typed failure ends it in the dead letters with the handler's code; any other failure schedules a
  retry with the failure's code, or dead-letters the job when its budget is used up. Exactly one
  attempt is recorded and no other job changes.
\<close>

theorem process_job_correct:
  assumes "world_ok uuid4 (k + 3) w" and "view (ow_jobs w) job_id = Some job"
    and "processable locked (clock (ow_reads w)) supported job"
    and "matches_ident ident_dash_char 63 worker" and "handlers (oj_job_kind job) = Some handler"
    and "run = handler (processing_claim (uuid4 (ow_drawn w)) worker (clock (ow_reads w)) job)"
    and "oj_version job + 1 + int (hr_ticks run) < max_version"
    and "timely clock (ow_reads w + 2) (hr_ticks run)
      (dt_plus (clock (ow_reads w)) (timedelta_seconds 300))"
    and "aware (clock (ow_reads w))" and "aware (clock (ow_reads w + 1))"
    and "clock (ow_reads w + 1) \<le> clock (ow_reads w + 2 + hr_ticks run)"
  shows "\<exists>out w' job'. process_job uuid4 clock locked worker supported handlers job_id w =
      (Inr \<lparr>qr_job_id = job_id, qr_outcome = out\<rparr>, w') \<and>
    world_ok uuid4 k w' \<and> view (ow_jobs w') = (view (ow_jobs w))(job_id \<mapsto> job') \<and>
    same_job job job' \<and> handler_settles (hr_raised run) job job' out \<and>
    ow_queue w' = ow_queue w \<and> length (ow_attempts w') = Suc (length (ow_attempts w))"
proof -
  let ?c = "processing_claim (uuid4 (ow_drawn w)) worker (clock (ow_reads w)) job"
  let ?w1 = "w\<lparr>ow_reads := Suc (ow_reads w)\<rparr>"
  have id: "oj_id job = job_id" using view_facts(5) [OF world_ok_table [OF assms(1)] assms(2)] .
  have ok1: "world_ok uuid4 ((k + 2) + 1) ?w1" "view (ow_jobs ?w1) job_id = Some job"
    using assms(1,2) by (simp_all add: numeral_eq_Suc)
  have v: "oj_version job < max_version" using assms(7) by simp
  from process_claim_step [OF ok1 assms(3,9,4) v] obtain rows where cl:
    "repo_claim_for_processing uuid4 (ow_drawn w) locked (ow_jobs w) job_id worker (clock (ow_reads w))
       supported = Inr (rows, Some ?c, Suc (ow_drawn w))"
    "world_ok uuid4 (k + 2) (?w1\<lparr>ow_jobs := rows, ow_drawn := Suc (ow_drawn w)\<rparr>)"
    "view rows = (view (ow_jobs w))(job_id \<mapsto> ?c)" by auto
  let ?w2 = "?w1\<lparr>ow_jobs := rows, ow_drawn := Suc (ow_drawn w), ow_reads := Suc (Suc (ow_reads w))\<rparr>"
  have ok2: "world_ok uuid4 (k + 2) ?w2"
    using cl(2) by (simp add: world_ok_def)
  have "\<exists>out w' job'. (case renew_loop clock (hr_ticks run) ?c ?w2 of ((active, task_error), w') \<Rightarrow>
        after_handler uuid4 clock (oj_id ?c) (clock (ow_reads w + 1)) (hr_raised run) active task_error w') =
      (Inr \<lparr>qr_job_id = oj_id ?c, qr_outcome = out\<rparr>, w') \<and>
    process_effect uuid4 k ?w2 ?c job' w' \<and> same_job ?c job' \<and> handler_settles (hr_raised run) ?c job' out"
    by (rule handler_part_ok [OF ok2]) (use cl(3) id assms(7-11) in simp_all)
  then obtain out w' job' where p: "(case renew_loop clock (hr_ticks run) ?c ?w2 of
        ((active, task_error), w') \<Rightarrow>
        after_handler uuid4 clock (oj_id ?c) (clock (ow_reads w + 1)) (hr_raised run) active task_error w') =
      (Inr \<lparr>qr_job_id = oj_id ?c, qr_outcome = out\<rparr>, w')"
    "process_effect uuid4 k ?w2 ?c job' w'" "same_job ?c job'"
    "handler_settles (hr_raised run) ?c job' out" by blast
  have "process_job uuid4 clock locked worker supported handlers job_id w =
      (Inr \<lparr>qr_job_id = job_id, qr_outcome = out\<rparr>, w')"
    using p(1) cl(1) assms(5,6) id by (simp add: process_job_def bindS_def read_clock_def)
  moreover have "same_job job job' \<and> handler_settles (hr_raised run) job job' out"
    by (rule settles_same_counts [OF _ _ p(3,4)]) simp_all
  ultimately show ?thesis using p(2) cl(3) id by (auto simp: process_effect_def)
qed

definition sample_published :: outbox_job where
  "sample_published = sample_claimed
     \<lparr>oj_state := JS_PUBLISHED, oj_published_at := Some (Aware 1), oj_claim_token := None,
      oj_claimed_by := None, oj_claimed_at := None, oj_claim_expires_at := None,
      oj_last_error_code := None, oj_version := 3\<rparr>"

definition sample_outbox :: outbox_world where
  "sample_outbox = \<lparr>ow_jobs = [outbox_job_to_row sample_published], ow_attempts = [], ow_queue = [1],
     ow_drawn = 0, ow_reads = 2\<rparr>"

lemma sample_publish: "job_apply (Mark_Published 5 (Aware 1) 2) sample_claimed = Inr sample_published"
  using sample_claimed_ok
  by (simp add: mark_published_Inr_iff)
    (simp add: sample_published_def sample_claimed_def lease_live_def)

lemma sample_published_inv: "job_ok sample_published \<and> lifecycle sample_published"
  using reachable_job_inv reachable_job.stepped [OF sample_claimed_reachable sample_publish] by blast

lemma sample_published_stored: "stored sample_published \<and> in_range sample_published"
  using sample_published_inv sample_claimed_stored
  by (simp add: stored_def) (simp add: sample_published_def sample_claimed_def sample_job_def in_range_def)

lemma sample_outbox_ok: "world_ok word_of_nat 3 sample_outbox"
proof -
  have "distinct (map word_of_nat [0 ..< 3] :: uuid list)" by code_simp
  moreover have "table_ok [outbox_job_to_row sample_published]"
    using sample_published_stored sample_published_inv by (auto simp: table_ok_iff)
  ultimately show ?thesis by (simp add: world_ok_def sample_outbox_def list_all_iff)
qed

lemma sample_outbox_view: "view (ow_jobs sample_outbox) 1 = Some sample_published"
  using view_Some_iff [OF world_ok_table [OF sample_outbox_ok]] sample_published_stored
  by (simp add: sample_outbox_def) (simp add: sample_published_def sample_claimed_def sample_job_def)

theorem process_job_correct_witness:
  "\<exists>out w' job'. process_job word_of_nat (\<lambda>n. Aware (int n)) (\<lambda>_. False) ''proc-1'' None build_noop_handlers
      1 sample_outbox = (Inr \<lparr>qr_job_id = 1, qr_outcome = out\<rparr>, w') \<and>
    out = ''succeeded'' \<and> oj_state job' = JS_SUCCEEDED \<and> view (ow_jobs w') 1 = Some job'"
proof -
  have ok: "world_ok word_of_nat (0 + 3) sample_outbox" using sample_outbox_ok by simp
  have p: "processable (\<lambda>_. False) (Aware (int (ow_reads sample_outbox))) None sample_published"
    by (simp add: processable_def sample_outbox_def sample_published_def sample_claimed_def sample_job_def)
  have w: "matches_ident ident_dash_char 63 ''proc-1''" by (simp add: ident_defs)
  have h: "build_noop_handlers (oj_job_kind sample_published) = Some noop_handle"
    by (simp add: build_noop_handlers_def)
  have run: "noop_handle c = \<lparr>hr_ticks = 0, hr_raised = None\<rparr>" for c
    by (simp add: noop_handle_def noop_supported_kinds_def)
  have v: "oj_version sample_published + 1 + int 0 < max_version" "ow_reads sample_outbox = 2"
    by (simp_all add: sample_published_def max_version_def sample_outbox_def)
  from process_job_correct [where clock = "\<lambda>n. Aware (int n)" and handlers = build_noop_handlers
      and ?uuid4.0 = word_of_nat and locked = "\<lambda>_. False" and handler = noop_handle, OF ok sample_outbox_view p w h refl]
  show ?thesis unfolding run using v by (auto simp: timedelta_defs)
qed

text \<open>
  A result that comes after the lease has run out is discarded: the processor reports
  \<open>stale_claim\<close>, leaves the job as it is for recovery, and records the attempt.
\<close>

theorem late_result_discarded:
  assumes ok: "world_ok uuid4 (k + 2) w" and job: "view (ow_jobs w) (oj_id job) = Some job"
    and st: "oj_state job = JS_PROCESSING" "lease_over job (clock (ow_reads w))"
    and s: "aware s" "s \<le> clock (ow_reads w)"
  shows "\<exists>w'. after_handler uuid4 clock (oj_id job) s None job None w =
      (Inr \<lparr>qr_job_id = oj_id job, qr_outcome = ''stale_claim''\<rparr>, w') \<and> world_ok uuid4 k w' \<and>
    ow_jobs w' = ow_jobs w \<and> length (ow_attempts w') = Suc (length (ow_attempts w))"
proof -
  let ?f = "clock (ow_reads w)" and ?w = "w\<lparr>ow_reads := Suc (ow_reads w)\<rparr>"
  have t: "table_ok (ow_jobs ?w)" using world_ok_table [OF ok] by simp
  have jok: "job_ok job" using view_facts(4) [OF world_ok_table [OF ok] job] .
  have f: "aware ?f" using st(2) by (simp add: lease_over_def)
  have okw: "world_ok uuid4 (k + 2) ?w" "view (ow_jobs ?w) (oj_id job) = Some job" using ok job by simp_all
  have refused: "mark_succeeded job (claim_token_of job) ?f (oj_version job) =
      Inl (OutboxClaimError ''claim lease has expired'') \<or>
    mark_succeeded job (claim_token_of job) ?f (oj_version job) =
      Inl (OutboxClaimError ''claim token does not match'')"
    using st jok by (auto simp: mark_succeeded_def assert_expected_version_def assert_claim_token_def
        assert_claim_not_expired_def compare_lt_def lease_over_def expiry_aware raise_if_def)
  have "\<exists>m. repo_mark_succeeded (ow_jobs ?w) (oj_id job) (claim_token_of job) ?f (oj_version job) =
      Inl (OutboxClaimMismatchError m)"
    using refused r_succeed.refuses [OF t okw(2), of "claim_token_of job" ?f "oj_version job"] by auto
  then obtain m where r: "on_jobs (\<lambda>rows. repo_mark_succeeded rows (oj_id job) (claim_token_of job) ?f
      (oj_version job)) ?w = (Inl (Repository (OutboxClaimMismatchError m)), ?w)"
    by (auto simp: on_jobs_def)
  from append_attempt_processor [OF okw s(1) f s(2), of AO_FAILED "Some EC_STALE_CLAIM"] obtain w1 where
    a: "append_attempt uuid4 PH_PROCESSOR job s ?f AO_FAILED (Some EC_STALE_CLAIM) ?w = (Inr (), w1)"
    "world_ok uuid4 k w1" "ow_jobs w1 = ow_jobs w" "length (ow_attempts w1) = Suc (length (ow_attempts w))"
    by auto
  show ?thesis
    using r a by (intro exI [of _ w1])
      (simp add: after_handler_def finally_renewal_def bindS_def tryS_def read_clock_def)
qed

text \<open>
  A failure that comes after the lease has run out, while retries are left, is not turned into
  an \<open>OutboxProcessorError\<close>: the domain's \<open>OutboxClaimError\<close> from the check before the retry leaves
  \<open>process_job\<close> uncaught (only \<open>OutboxTransitionError\<close> is handled there). The job is left as it is.
\<close>

theorem late_failure_escapes:
  assumes ok: "world_ok uuid4 (k + 2) w" and job: "view (ow_jobs w) (oj_id job) = Some job"
    and st: "oj_state job = JS_PROCESSING" "oj_claim_token job = Some tok" "lease_over job (clock (ow_reads w))"
    and budget: "oj_attempt_count job + 1 < oj_max_attempts job"
    and s: "aware s" "s \<le> clock (ow_reads w)"
  shows "\<exists>w'. handle_failure uuid4 clock job s ec w =
      (Inl (Domain (OutboxClaimError ''claim lease has expired'')), w') \<and> ow_jobs w' = ow_jobs w"
proof -
  let ?f = "clock (ow_reads w)" and ?w = "w\<lparr>ow_reads := Suc (ow_reads w)\<rparr>"
  have jok: "job_ok job" using view_facts(4) [OF world_ok_table [OF ok] job] .
  have f: "aware ?f" using st(3) by (simp add: lease_over_def)
  have okw: "world_ok uuid4 (k + 2) ?w" "view (ow_jobs ?w) (oj_id job) = Some job" using ok job by simp_all
  have refused: "schedule_retry job tok PH_PROCESSOR ec ?f (oj_version job) =
      Inl (OutboxClaimError ''claim lease has expired'')"
    using st jok by (auto simp: schedule_retry_def assert_expected_version_def assert_claim_token_def
        assert_claim_not_expired_def compare_lt_def lease_over_def expiry_aware raise_if_def)
  from append_attempt_processor [OF okw s(1) f s(2), of AO_FAILED "Some ec"] obtain w1 where
    a: "append_attempt uuid4 PH_PROCESSOR job s ?f AO_FAILED (Some ec) ?w = (Inr (), w1)"
    "ow_jobs w1 = ow_jobs w" by auto
  show ?thesis
    using a refused budget st(2)
    by (intro exI [of _ w1])
      (simp add: handle_failure_def retry_or_dead_letter_def bindS_def read_clock_def claim_token_of_def)
qed

definition sample_processing :: outbox_job where
  "sample_processing = processing_claim 8 ''proc-1'' (Aware 2) sample_published"

definition sample_late :: outbox_world where
  "sample_late = \<lparr>ow_jobs = [outbox_job_to_row sample_processing], ow_attempts = [], ow_queue = [1],
     ow_drawn = 0, ow_reads = 0\<rparr>"

lemma sample_processing_facts:
  "job_ok sample_processing" "lifecycle sample_processing" "stored sample_processing"
  "in_range sample_processing" "oj_id sample_processing = 1"
proof -
  have "matches_ident ident_dash_char 63 ''proc-1''" by (simp add: ident_defs)
  then have "claim_for_processing sample_published 8 ''proc-1'' (Aware 2) 3 = Inr sample_processing"
    using sample_published_inv
    by (simp add: claim_for_processing_Inr_iff)
      (simp add: sample_processing_def processing_claim_def sample_published_def sample_claimed_def sample_job_def)
  then have eff: "job_effect sample_published sample_processing"
    using job_operation.effect [OF claim_for_processing_contract] sample_published_inv by blast
  then show "job_ok sample_processing" "lifecycle sample_processing" by (simp_all add: job_effect_def)
  show "stored sample_processing"
    using same_job_stored sample_published_stored eff unfolding job_effect_def by blast
  have "oj_version sample_processing \<le> 2147483647"
    by (simp add: sample_processing_def sample_published_def)
  then show "in_range sample_processing"
    using same_job_in_range [OF _ eff] sample_published_stored by blast
  show "oj_id sample_processing = 1"
    by (simp add: sample_processing_def sample_published_def sample_claimed_def sample_job_def)
qed

lemma sample_late_ok: "world_ok word_of_nat (0 + 2) sample_late"
  "view (ow_jobs sample_late) (oj_id sample_processing) = Some sample_processing"
proof -
  have "distinct (map word_of_nat [0 ..< 2] :: uuid list)" by code_simp
  moreover have t: "table_ok [outbox_job_to_row sample_processing]"
    using sample_processing_facts by (auto simp: table_ok_iff)
  ultimately show "world_ok word_of_nat (0 + 2) sample_late"
    by (simp add: world_ok_def sample_late_def list_all_iff)
  show "view (ow_jobs sample_late) (oj_id sample_processing) = Some sample_processing"
    using view_Some_iff [OF t] sample_processing_facts by (simp add: sample_late_def)
qed

lemma sample_late_over:
  "oj_state sample_processing = JS_PROCESSING" "oj_claim_token sample_processing = Some 8"
  "lease_over sample_processing (Aware 400000000)"
  "oj_attempt_count sample_processing + 1 < oj_max_attempts sample_processing"
  by (simp_all add: sample_processing_def lease_over_def timedelta_defs)
    (simp add: processing_claim_def sample_published_def sample_claimed_def sample_job_def)

theorem late_result_discarded_witness:
  "\<exists>w'. after_handler word_of_nat (\<lambda>_. Aware 400000000) (oj_id sample_processing) (Aware 3) None
      sample_processing None sample_late =
      (Inr \<lparr>qr_job_id = oj_id sample_processing, qr_outcome = ''stale_claim''\<rparr>, w') \<and>
    ow_jobs w' = ow_jobs sample_late"
  using late_result_discarded [where clock = "\<lambda>_. Aware 400000000",
      OF sample_late_ok sample_late_over(1,3), of "Aware 3"] by fastforce

theorem late_failure_escapes_witness:
  "\<exists>w'. handle_failure word_of_nat (\<lambda>_. Aware 400000000) sample_processing (Aware 3) EC_HANDLER_FAILED
      sample_late = (Inl (Domain (OutboxClaimError ''claim lease has expired'')), w') \<and>
    ow_jobs w' = ow_jobs sample_late"
  using late_failure_escapes [where clock = "\<lambda>_. Aware 400000000",
      OF sample_late_ok sample_late_over, of "Aware 3"] by fastforce

end
