(* ===== verification/Outbox_Worker.thy ===== *)
theory Outbox_Worker
  imports Outbox_Services
begin

text \<open>
  The worker's loops around the outbox services (\<open>apps/worker/src/closeros_worker/__main__.py\<close>), as
  steps on the committed state. A step of the publisher is two: inside its transaction it has already
  sent identities to the stream, which other workers see at once, while its rows are locked and not
  yet committed; then it commits. The queue of the state holds the messages not yet acknowledged.
  A transaction that raises is rolled back, but what it sent to the stream stays sent.
\<close>

record worker_state =
  ws_world :: outbox_world
  ws_open :: "(outbox_job_row list \<times> outbox_job_attempt_row list) option"

text \<open>The rows a transaction changed, and their effect when it commits.\<close>

definition written_rows :: "outbox_job_row list \<Rightarrow> outbox_job_row list \<Rightarrow> outbox_job_row list" where
  "written_rows before after = filter (\<lambda>row. row \<notin> set before) after"

definition commit_rows :: "outbox_job_row list \<Rightarrow> outbox_job_row list \<Rightarrow> outbox_job_row list" where
  "commit_rows rows written = foldl store_row rows written"

definition locked_by_open :: "worker_state \<Rightarrow> uuid \<Rightarrow> bool" where
  "locked_by_open s job_id =
     (case ws_open s of None \<Rightarrow> False | Some (written, attempts) \<Rightarrow> job_id \<in> set (map row_id written))"

text \<open>A transaction run to its end: its tables are kept when it returns, dropped when it raises.\<close>

definition in_transaction :: "'a outbox_comp \<Rightarrow> outbox_world \<Rightarrow> (outbox_service_error + 'a) \<times> outbox_world" where
  "in_transaction m w =
     (case m w of
        (Inr x, w') \<Rightarrow> (Inr x, w')
      | (Inl e, w') \<Rightarrow> (Inl e, w'\<lparr>ow_jobs := ow_jobs w, ow_attempts := ow_attempts w\<rparr>))"

text \<open>\<open>_run_publisher\<close>, one iteration up to the commit: the tables are still those before.\<close>

definition publisher_send ::
  "(nat \<Rightarrow> uuid) \<Rightarrow> (uuid list \<Rightarrow> uuid \<Rightarrow> bool) \<Rightarrow> string \<Rightarrow> datetime \<Rightarrow> int \<Rightarrow> outbox_job_kind list option \<Rightarrow>
   worker_state \<Rightarrow> worker_state" where
  "publisher_send uuid4 accepts worker_id now batch_size kinds s =
     (case publish_batch uuid4 accepts (\<lambda>_. False) worker_id now batch_size kinds (ws_world s) of
        (r, w') \<Rightarrow>
          s\<lparr>ws_world := w'\<lparr>ow_jobs := ow_jobs (ws_world s), ow_attempts := ow_attempts (ws_world s)\<rparr>,
            ws_open := (if is_ok r
              then Some (written_rows (ow_jobs (ws_world s)) (ow_jobs w'),
                         drop (length (ow_attempts (ws_world s))) (ow_attempts w'))
              else None)\<rparr>)"

definition publisher_commit :: "worker_state \<Rightarrow> worker_state" where
  "publisher_commit s =
     (case ws_open s of
        None \<Rightarrow> s
      | Some (written, attempts) \<Rightarrow>
          s\<lparr>ws_world := (ws_world s)\<lparr>ow_jobs := commit_rows (ow_jobs (ws_world s)) written,
                                    ow_attempts := ow_attempts (ws_world s) @ attempts\<rparr>,
            ws_open := None\<rparr>)"

text \<open>
  \<open>_process_message\<close>: process the job of a message, commit, acknowledge. The message stays when the
  worker is stopping or the transaction raises.
\<close>

definition process_message ::
  "(nat \<Rightarrow> uuid) \<Rightarrow> (nat \<Rightarrow> datetime) \<Rightarrow> string \<Rightarrow> outbox_job_kind list option \<Rightarrow> handlers \<Rightarrow> bool \<Rightarrow>
   uuid \<Rightarrow> worker_state \<Rightarrow> worker_state" where
  "process_message uuid4 clock worker_id kinds handlers stopping job_id s =
     (if stopping then s
      else case in_transaction
             (process_job uuid4 clock (locked_by_open s) worker_id kinds handlers job_id) (ws_world s) of
             (Inr result, w') \<Rightarrow> s\<lparr>ws_world := w'\<lparr>ow_queue := remove1 job_id (ow_queue w')\<rparr>\<rparr>
           | (Inl e, w') \<Rightarrow> s\<lparr>ws_world := w'\<rparr>)"

text \<open>\<open>_run_reconcile_once\<close>: jobs are overdue five minutes after they became available.\<close>

definition reconcile_once :: "datetime \<Rightarrow> worker_state \<Rightarrow> worker_state" where
  "reconcile_once now s = s\<lparr>ws_world := snd (in_transaction
     (reconcile (locked_by_open s) now (dt_plus now (- timedelta_minutes 5)) 100) (ws_world s))\<rparr>"

text \<open>\<open>_run_dead_letter_retry\<close>, behind its switch.\<close>

definition retry_switch_on :: "string \<Rightarrow> bool" where
  "retry_switch_on raw \<longleftrightarrow> to_lower (strip raw) \<in> {''1'', ''true'', ''yes'', ''on''}"

definition dead_letter_retry :: "string \<Rightarrow> uuid \<Rightarrow> datetime \<Rightarrow> worker_state \<Rightarrow> worker_state" where
  "dead_letter_retry switch job_id now s =
     (if \<not> retry_switch_on switch then s
      else s\<lparr>ws_world := snd (in_transaction
        (on_jobs (\<lambda>rows. repo_requeue_dead_letter rows job_id now)) (ws_world s))\<rparr>)"

text \<open>Any step of any worker.\<close>

inductive worker_step :: "worker_state \<Rightarrow> worker_state \<Rightarrow> bool" where
  send: "ws_open s = None \<Longrightarrow>
    worker_step s (publisher_send uuid4 accepts worker_id now batch_size kinds s)"
| commit: "worker_step s (publisher_commit s)"
| process: "job_id \<in> set (ow_queue (ws_world s)) \<Longrightarrow>
    worker_step s (process_message uuid4 clock worker_id kinds handlers stopping job_id s)"
| reconcile: "worker_step s (reconcile_once now s)"
| requeue: "worker_step s (dead_letter_retry switch job_id now s)"

inductive_cases worker_stepE: "worker_step s s'"

section \<open>Operations leave the rows of other jobs alone\<close>

definition rows_with :: "uuid \<Rightarrow> outbox_job_row list \<Rightarrow> outbox_job_row list" where
  "rows_with k rows = filter (\<lambda>row. row_id row = k) rows"

lemma rows_with_store_row:
  assumes "row_id new \<noteq> k"
  shows "rows_with k (store_row rows new) = rows_with k rows"
  using assms by (induction rows) (auto simp: rows_with_def store_row_def)

lemma decoded_id: "outbox_job_to_domain row = Inr job \<Longrightarrow> oj_id job = row_id row \<and> job_ok job"
  by (auto simp: to_domain_Inr_iff stored_def)

lemma update_row_id [simp]: "row_id (update_outbox_job_row row job) = row_id row"
  by (simp add: update_outbox_job_row_def)

lemma finalize_frame:
  assumes "finalize rows job_id ev dop = Inr (rows', job')" and "job_id \<noteq> k"
  shows "rows_with k rows' = rows_with k rows"
proof -
  from assms(1) obtain row where "get_job_row_required rows job_id = Inr row"
    "rows' = store_row rows (update_outbox_job_row row job')"
    by (auto simp: finalize_def Let_def result_simps)
  moreover from this have "row_id row = job_id"
    by (auto simp: get_job_row_required_def dest: get_row_Some split: option.splits)
  ultimately show ?thesis using assms(2) rows_with_store_row by simp
qed

text \<open>A computation that neither changes the rows of \<open>k\<close> nor sends a message for it.\<close>

definition spared :: "uuid \<Rightarrow> outbox_world \<Rightarrow> outbox_world \<Rightarrow> bool" where
  "spared k w w' \<longleftrightarrow> rows_with k (ow_jobs w') = rows_with k (ow_jobs w) \<and>
     (k \<notin> set (ow_queue w) \<longrightarrow> k \<notin> set (ow_queue w'))"

definition spares :: "uuid \<Rightarrow> 'a outbox_comp \<Rightarrow> bool" where
  "spares k m \<longleftrightarrow> (\<forall>w. spared k w (snd (m w)))"

named_theorems spares_intros "computations that spare a job"

lemma spared_refl [simp]: "spared k w w"
  by (simp add: spared_def)

lemma spared_trans: "spared k a b \<Longrightarrow> spared k b c \<Longrightarrow> spared k a c"
  by (simp add: spared_def)

lemma sparesD: "spares k m \<Longrightarrow> m w = (r, w') \<Longrightarrow> spared k w w'"
  unfolding spares_def by (metis snd_conv)

lemma spares_apply: "spares k m \<Longrightarrow> spared k w (snd (m w))"
  by (simp add: spares_def)

lemma spares_return [spares_intros]: "spares k (returnS x)" "spares k (raiseS e)"
  by (simp_all add: spares_def)

lemma spares_try [spares_intros]:
  assumes "spares k m" and "\<And>e. spares k (h e)" and "\<And>x. spares k (f x)"
  shows "spares k (tryS m h f)"
  unfolding spares_def
proof
  fix w
  obtain r w' where m: "m w = (r, w')" by fastforce
  note first = sparesD [OF assms(1) m]
  show "spared k w (snd (tryS m h f w))"
    using spared_trans [OF first] assms(2,3) m
    by (cases r) (simp_all add: tryS_apply spares_def)
qed

lemma spares_bind [spares_intros]:
  assumes "spares k m" and "\<And>x. spares k (f x)"
  shows "spares k (bindS m f)"
proof -
  have "bindS m f = tryS m raiseS f" by (auto simp: bindS_def tryS_def fun_eq_iff split: prod.splits sum.splits)
  then show ?thesis using spares_try [OF assms(1) spares_return(2) assms(2)] by simp
qed

lemma spares_if [spares_intros]: "spares k m \<Longrightarrow> spares k n \<Longrightarrow> spares k (if c then m else n)"
  by simp

lemma spares_draw [spares_intros]: "spares k (draw_uuid uuid4)" "spares k (read_clock clock)"
  by (simp_all add: spares_def spared_def draw_uuid_def read_clock_def)

lemma spares_read [spares_intros]: "spares k (read_jobs f)"
  by (auto simp: spares_def spared_def read_jobs_def split: sum.splits)

lemma spares_on_jobs:
  assumes "\<And>rows rows' x. f rows = Inr (rows', x) \<Longrightarrow> rows_with k rows' = rows_with k rows"
  shows "spares k (on_jobs f)"
  using assms by (auto simp: spares_def spared_def on_jobs_def split: sum.splits prod.splits)

lemma spares_finalize [spares_intros]:
  assumes "job_id \<noteq> k"
  shows "spares k (on_jobs (\<lambda>rows. repo_mark_published rows job_id tok now v))"
    and "spares k (on_jobs (\<lambda>rows. repo_schedule_retry rows job_id tok ec now v ph))"
    and "spares k (on_jobs (\<lambda>rows. repo_mark_dead_letter rows job_id tok ec now v))"
    and "spares k (on_jobs (\<lambda>rows. repo_mark_succeeded rows job_id tok now v))"
    and "spares k (on_jobs (\<lambda>rows. repo_renew_processor_claim rows job_id tok now v))"
    and "spares k (on_jobs (\<lambda>rows. repo_requeue_dead_letter rows job_id now))"
  unfolding repo_mark_published_def repo_schedule_retry_def repo_mark_dead_letter_def
    repo_mark_succeeded_def repo_renew_processor_claim_def repo_requeue_dead_letter_def
  by (rule spares_on_jobs, erule finalize_frame, rule assms)+

lemma spares_append [spares_intros]: "spares k (append_attempt uuid4 phase job s f outcome ec)"
proof -
  have attempt: "spares k (\<lambda>w. case OutboxJobAttempt_post_init at of
        Inl e \<Rightarrow> (Inl (Domain e), w)
      | Inr attempt \<Rightarrow> (case append_attempt_row (ow_jobs w) (ow_attempts w) attempt of
             Inl e \<Rightarrow> (Inl (Repository e), w)
           | Inr rows \<Rightarrow> (Inr (), w\<lparr>ow_attempts := rows\<rparr>)))" for at
    by (auto simp: spares_def spared_def split: sum.splits)
  show ?thesis
    unfolding append_attempt_def
    by (intro spares_intros attempt) (cases "oj_claim_token job"; simp add: spares_intros)
qed

lemma spares_retry [spares_intros]:
  "oj_id job \<noteq> k \<Longrightarrow> spares k (retry_or_dead_letter phase err job now ec)"
  unfolding retry_or_dead_letter_def
  by (auto intro!: spares_intros split: sum.splits outbox_error.splits)

lemma spares_handle [spares_intros]:
  "oj_id job \<noteq> k \<Longrightarrow> spares k (handle_publish_failure uuid4 job s now ec)"
  "oj_id job \<noteq> k \<Longrightarrow> spares k (handle_failure uuid4 clock job s ec)"
  "oj_id job \<noteq> k \<Longrightarrow> spares k (handle_permanent_failure uuid4 clock job s ec)"
  unfolding handle_publish_failure_def handle_failure_def handle_permanent_failure_def
  by (auto intro!: spares_intros)

lemma spares_publish_one:
  assumes "oj_id job \<noteq> k"
  shows "spares k (publish_one uuid4 accepts now job)"
proof -
  let ?body = "tryS (on_jobs (\<lambda>rows. repo_mark_published rows (oj_id job) (claim_token_of job) now (oj_version job)))
    (\<lambda>e. if is_claim_mismatch e
          then bindS (append_attempt uuid4 PH_PUBLISHER job now now AO_FAILED (Some EC_STALE_CLAIM)) (\<lambda>_. returnS ''retried'')
          else if is_persistence_error e then handle_publish_failure uuid4 job now now EC_PUBLISH_FAILED
          else raiseS e)
    (\<lambda>updated. bindS (append_attempt uuid4 PH_PUBLISHER updated now now AO_SUCCEEDED None) (\<lambda>_. returnS ''published''))"
  have t: "spares k ?body" using assms by (auto intro!: spares_intros)
  have "spares k (handle_publish_failure uuid4 job now now EC_QUEUE_UNAVAILABLE)"
    using assms by (auto intro!: spares_intros)
  moreover have "spared k w (snd (?body (w\<lparr>ow_queue := ow_queue w @ [oj_id job]\<rparr>)))" for w
    using t assms spared_trans [of k w "w\<lparr>ow_queue := ow_queue w @ [oj_id job]\<rparr>"]
    by (auto simp: spares_def spared_def)
  ultimately show ?thesis by (simp add: spares_def publish_one_def)
qed

lemma spares_publish_loop:
  "k \<notin> oj_id ` set jobs \<Longrightarrow> spares k (publish_loop uuid4 accepts now jobs counts)"
  by (induction jobs arbitrary: counts) (auto intro!: spares_intros spares_publish_one)

lemma claim_rows_frame:
  "claim_rows uuid4 drawn worker now sel rows = Inr (rows', claimed, drawn') \<Longrightarrow> k \<notin> row_id ` set sel \<Longrightarrow>
   rows_with k rows' = rows_with k rows \<and> oj_id ` set claimed \<subseteq> row_id ` set sel"
proof (induction sel arbitrary: rows drawn rows' claimed)
  case Nil
  then show ?case by simp
next
  case (Cons row sel)
  from Cons.prems(1) obtain job c rest where
    d: "outbox_job_to_domain row = Inr job"
    "claim_for_publishing job (uuid4 drawn) worker now (oj_version job) = Inr c"
    "claim_rows uuid4 (Suc drawn) worker now sel (store_row rows (update_outbox_job_row row c)) =
      Inr (rows', rest, drawn')" "claimed = c # rest"
    by (auto simp: result_simps)
  have "oj_id c = row_id row"
    using decoded_id [OF d(1)] d(2) by (auto simp: claim_for_publishing_Inr_iff)
  moreover have "rows_with k (store_row rows (update_outbox_job_row row c)) = rows_with k rows"
    using Cons.prems(2) by (intro rows_with_store_row) auto
  ultimately show ?case using Cons.IH [OF d(3)] Cons.prems(2) d(4) by auto
qed

lemma recover_rows_frame:
  "recover_rows now sel rows = Inr (rows', recovered) \<Longrightarrow> k \<notin> row_id ` set sel \<Longrightarrow>
   rows_with k rows' = rows_with k rows"
proof (induction sel arbitrary: rows rows' recovered)
  case Nil
  then show ?case by simp
next
  case (Cons row sel)
  have "rows_with k (store_row rows (update_outbox_job_row row c)) = rows_with k rows" for c
    using Cons.prems(2) by (intro rows_with_store_row) auto
  note keep = this
  from Cons.prems(1) obtain job where d: "outbox_job_to_domain row = Inr job" by (auto simp: bindE_Inr_iff)
  show ?case
  proof (cases "if oj_state job = JS_PUBLISHING then recover_expired_publisher_claim job now
      else recover_expired_processor_claim job now")
    case (Inl e)
    then show ?thesis using Cons.prems Cons.IH d by (cases e) auto
  next
    case (Inr c)
    then obtain rest where
      "recover_rows now sel (store_row rows (update_outbox_job_row row c)) = Inr (rows', rest)"
      using Cons.prems d by (auto simp: bindE_Inr_iff)
    then show ?thesis using Cons.IH Cons.prems(2) keep by auto
  qed
qed

section \<open>Processing a message for another job\<close>

lemma renewed_id:
  assumes "bindS (read_clock clock) (\<lambda>now. on_jobs (\<lambda>rows. repo_renew_processor_claim rows job_id tok now v)) w =
    (r, w')" and "r = Inr job1"
  shows "oj_id job1 = job_id"
proof -
  from assms obtain rows rows' now where
    "repo_renew_processor_claim rows job_id tok now v = Inr (rows', job1)"
    by (auto simp: bindS_def read_clock_def on_jobs_def split: sum.splits)
  then obtain row job where "get_job_row_required rows job_id = Inr row" "outbox_job_to_domain row = Inr job"
    "renew_processor_claim job tok now v = Inr job1"
    by (auto simp: repo_renew_processor_claim_def finalize_def Let_def result_simps)
  then show ?thesis
    using decoded_id [of row job]
    by (auto simp: get_job_row_required_def renew_processor_claim_Inr_iff dest: get_row_Some
        split: option.splits)
qed

lemma renew_loop_frame:
  "renew_loop clock n job w = ((job', err), w') \<Longrightarrow> oj_id job \<noteq> k \<Longrightarrow> spared k w w' \<and> oj_id job' = oj_id job"
proof (induction n arbitrary: job w)
  case 0
  then show ?case by simp
next
  case (Suc n)
  let ?m = "bindS (read_clock clock) (\<lambda>now. on_jobs (\<lambda>rows. repo_renew_processor_claim rows (oj_id job)
      (claim_token_of job) now (oj_version job)))"
  have sp: "spares k ?m" using Suc.prems(2) by (auto intro!: spares_intros)
  obtain r w1 where m: "?m w = (r, w1)" by fastforce
  show ?case
  proof (cases r)
    case (Inl e)
    then show ?thesis using Suc.prems m sparesD [OF sp m] by (auto split: if_splits)
  next
    case (Inr job1)
    have "oj_id job1 = oj_id job" using m Inr by (rule renewed_id)
    then show ?thesis
      using Suc.prems Suc.IH [of job1 w1] m Inr spared_trans [OF sparesD [OF sp m]] by (auto split: if_splits)
  qed
qed

lemma claim_processing_frame:
  assumes "repo_claim_for_processing uuid4 drawn locked rows job_id worker now kinds = Inr (rows', c, drawn')"
    and "job_id \<noteq> k"
  shows "rows_with k rows' = rows_with k rows \<and> pred_option (\<lambda>job. oj_id job = job_id) c"
proof -
  let ?find = "find (\<lambda>row. row_id row = job_id \<and> row_state row = job_state_value JS_PUBLISHED \<and>
    row_available_at row \<le> now \<and> kind_allowed kinds row \<and> \<not> locked (row_id row)) rows"
  show ?thesis
  proof (cases ?find)
    case None
    then show ?thesis using assms(1) by (simp add: repo_claim_for_processing_def)
  next
    case (Some row)
    then have id: "row_id row = job_id" by (auto simp: find_Some_iff)
    obtain job job' where j: "outbox_job_to_domain row = Inr job"
      "claim_for_processing job (uuid4 drawn) worker now (oj_version job) = Inr job'"
      "rows' = store_row rows (update_outbox_job_row row job')" "c = Some job'"
      using assms(1) Some by (auto simp: repo_claim_for_processing_def Let_def result_simps)
    have "oj_id job' = job_id"
      using decoded_id [OF j(1)] j(2) id by (auto simp: claim_for_processing_Inr_iff)
    then show ?thesis using j id assms(2) rows_with_store_row by simp
  qed
qed

lemma spares_after_handler:
  assumes "oj_id active \<noteq> k"
  shows "spares k (after_handler uuid4 clock job_id s raised active task_error)"
proof -
  have fin: "spares k m \<Longrightarrow> spares k (finally_renewal task_error m)" for m :: "'a outbox_comp"
    by (cases task_error) (simp_all add: spares_def finally_renewal_def)
  show ?thesis
    unfolding after_handler_def using assms
    by (cases raised) (auto intro!: spares_intros fin split: option.splits)
qed

lemma spared_bind:
  assumes "\<And>r w'. m w = (r, w') \<Longrightarrow> spared k w w'"
    and "\<And>x w'. m w = (Inr x, w') \<Longrightarrow> spared k w' (snd (f x w'))"
  shows "spared k w (snd (bindS m f w))"
proof -
  obtain r w' where m: "m w = (r, w')" by fastforce
  show ?thesis
    using m assms(1) [OF m] spared_trans [OF assms(1) [OF m]] assms(2) [of _ w']
    by (cases r) (simp_all add: bindS_apply)
qed

lemma handler_part_frame:
  assumes "oj_id job \<noteq> k"
  shows "spared k w (snd (case renew_loop clock n job w of ((active, task_error), w') \<Rightarrow>
    after_handler uuid4 clock job_id s raised active task_error w'))"
proof -
  obtain active err w' where r: "renew_loop clock n job w = ((active, err), w')"
    by (metis surj_pair)
  note f = renew_loop_frame [OF r assms]
  have "spares k (after_handler uuid4 clock job_id s raised active err)"
    using f assms by (intro spares_after_handler) simp
  then show ?thesis using r f spared_trans by (auto simp: spares_def)
qed

lemma process_job_frame:
  assumes "job_id \<noteq> k"
  shows "spares k (process_job uuid4 clock locked worker kinds handlers job_id)"
  unfolding spares_def
proof
  fix w
  let ?claim = "\<lambda>at (w::outbox_world). case repo_claim_for_processing uuid4 (ow_drawn w) locked (ow_jobs w) job_id worker at kinds of
      Inl e \<Rightarrow> (Inl (Repository e), w)
    | Inr (rows, claimed, drawn) \<Rightarrow> (Inr claimed, w\<lparr>ow_jobs := rows, ow_drawn := drawn\<rparr>)"
  have claim: "spared k w w' \<and> (\<forall>c. r = Inr (Some c) \<longrightarrow> oj_id c = job_id)" if "?claim at w = (r, w')" for at w r w'
    using that claim_processing_frame [OF _ assms] by (fastforce simp: spared_def split: sum.splits)
  have clock: "read_clock clock w = (r, w') \<Longrightarrow> spared k w w'" for w r w'
    by (rule sparesD [OF spares_draw(2)])
  show "spared k w (snd (process_job uuid4 clock locked worker kinds handlers job_id w))"
    unfolding process_job_def
  proof (rule spared_bind [OF clock], assumption, rule spared_bind)
    fix claim_at w2 and w1 :: outbox_world and r
    assume "?claim claim_at w1 = (r, w2)"
    then show "spared k w1 w2" using claim by blast
  next
    fix claim_at w2 and w1 :: outbox_world and claimed
    assume c: "?claim claim_at w1 = (Inr claimed, w2)"
    show "spared k w2 (snd ((case claimed of
       None \<Rightarrow> returnS \<lparr>qr_job_id = job_id, qr_outcome = ''not_claimed''\<rparr>
     | Some job \<Rightarrow>
         bindS (read_clock clock) (\<lambda>started_at.
         case handlers (oj_job_kind job) of
           None \<Rightarrow> handle_failure uuid4 clock job started_at EC_HANDLER_NOT_IMPLEMENTED
         | Some handler \<Rightarrow>
             (\<lambda>w. case renew_loop clock (hr_ticks (handler job)) job w of
                ((active, task_error), w') \<Rightarrow>
                  after_handler uuid4 clock job_id started_at (hr_raised (handler job)) active
                    task_error w'))) w2))"
    proof (cases claimed)
      case (Some job)
      then have id: "oj_id job \<noteq> k" using claim [OF c] assms by simp
      have failure: "spared k w (snd (handle_failure uuid4 clock job s ec w))" for s ec w
        using spares_handle(2) [OF id] by (simp add: spares_def)
      show ?thesis
        unfolding Some option.case
        by (rule spared_bind, erule clock)
          (use failure handler_part_frame [OF id] in \<open>simp split: option.splits\<close>)
    qed simp
  qed
qed

section \<open>Stranded jobs\<close>

text \<open>
  A job is stranded when it is published, no message for it is left, and the publisher's open
  transaction does not write it.
\<close>

definition stranded :: "uuid \<Rightarrow> worker_state \<Rightarrow> bool" where
  "stranded k s \<longleftrightarrow>
     rows_with k (ow_jobs (ws_world s)) \<noteq> [] \<and>
     list_all (\<lambda>row. row_state row = ''published'') (rows_with k (ow_jobs (ws_world s))) \<and>
     k \<notin> set (ow_queue (ws_world s)) \<and>
     (case ws_open s of None \<Rightarrow> True | Some (written, attempts) \<Rightarrow> k \<notin> set (map row_id written))"

lemma stranded_state:
  "stranded k s \<Longrightarrow> row \<in> set (ow_jobs (ws_world s)) \<Longrightarrow> row_id row = k \<Longrightarrow> row_state row = ''published''"
  by (auto simp: stranded_def rows_with_def list_all_iff)

lemma stranded_spared:
  assumes "stranded k s" and "spared k (ws_world s) w'"
  shows "stranded k (s\<lparr>ws_world := w'\<rparr>)"
  using assms by (simp add: stranded_def spared_def)

lemma in_transaction_spared:
  assumes "spared k w (snd (m w))"
  shows "spared k w (snd (in_transaction m w))"
proof -
  obtain r w1 where "m w = (r, w1)" by fastforce
  then show ?thesis using assms by (cases r) (simp_all add: in_transaction_def spared_def)
qed

lemma published_value: "job_state_value st = ''published'' \<longleftrightarrow> st = JS_PUBLISHED"
  by (cases st) (simp_all add: job_state_value.simps)

text \<open>The publisher claims no published job, so it neither writes nor sends a stranded one.\<close>

lemma publish_batch_spared:
  assumes "stranded k s"
  shows "spared k (ws_world s)
    (snd (publish_batch uuid4 accepts locked worker now n kinds (ws_world s)))"
proof -
  let ?w = "ws_world s"
  let ?sel = "select_publishable locked (ow_jobs ?w) now (nat n) kinds"
  have out: "k \<notin> row_id ` set ?sel"
  proof
    assume "k \<in> row_id ` set ?sel"
    then obtain row where row: "row \<in> set ?sel" "row_id row = k" by auto
    then have "row \<in> set (ow_jobs ?w)" "row_state row \<noteq> ''published''"
      using in_select unfolding select_publishable_def by (fastforce simp: job_state_value.simps)+
    with stranded_state [OF assms] row(2) show False by blast
  qed
  show ?thesis
  proof (cases "claim_publisher_batch uuid4 (ow_drawn ?w) locked (ow_jobs ?w) worker now n kinds")
    case (Inl e)
    then show ?thesis by (simp add: publish_batch_def bindS_def)
  next
    case (Inr r)
    obtain rows' claimed drawn' where r: "r = (rows', claimed, drawn')" by (cases r)
    have "claim_rows uuid4 (ow_drawn ?w) worker now ?sel (ow_jobs ?w) = Inr (rows', claimed, drawn')"
      using Inr r by (auto simp: claim_publisher_batch_def result_simps)
    note f = claim_rows_frame [OF this out]
    have "spares k (publish_loop uuid4 accepts now claimed c)" for c
      using f out by (intro spares_publish_loop) blast
    moreover have "spared k ?w (?w\<lparr>ow_jobs := rows', ow_drawn := drawn'\<rparr>)" using f by (simp add: spared_def)
    ultimately show ?thesis
      using Inr r spared_trans by (auto simp: publish_batch_def bindS_def spares_def)
  qed
qed

lemma reconcile_spared:
  assumes "stranded k s"
  shows "spared k (ws_world s) (snd (in_transaction (reconcile locked now before limit) (ws_world s)))"
proof -
  let ?w = "ws_world s" and ?rec = "on_jobs (\<lambda>rows. recover_expired_claims locked rows now)"
  have out: "k \<notin> row_id ` set (select_expired locked (ow_jobs ?w) now)"
    using stranded_state [OF assms] by (auto simp: select_expired_def job_state_value.simps)
  have rec: "spared k ?w w'" if "?rec ?w = (r, w')" for r w'
    using that recover_rows_frame [OF _ out]
    by (auto simp: on_jobs_def recover_expired_claims_def result_simps spared_def split: sum.splits)
  have "spared k ?w (snd (reconcile locked now before limit ?w))"
    unfolding reconcile_def
    by (rule spared_bind, erule rec, rule spares_apply, intro spares_intros)
  then show ?thesis by (rule in_transaction_spared)
qed

lemma not_written:
  assumes "spared k w w'"
  shows "k \<notin> row_id ` set (written_rows (ow_jobs w) (ow_jobs w'))"
proof
  assume "k \<in> row_id ` set (written_rows (ow_jobs w) (ow_jobs w'))"
  then obtain row where "row \<in> set (rows_with k (ow_jobs w'))" "row \<notin> set (ow_jobs w)"
    by (auto simp: written_rows_def rows_with_def)
  with assms show False by (auto simp: spared_def rows_with_def)
qed

lemma commit_rows_frame: "k \<notin> row_id ` set written \<Longrightarrow> rows_with k (commit_rows rows written) = rows_with k rows"
  by (induction written arbitrary: rows) (auto simp: commit_rows_def rows_with_store_row)

lemma requeue_spared:
  assumes "stranded k s"
  shows "spared k (ws_world s) (snd (on_jobs (\<lambda>rows. repo_requeue_dead_letter rows job_id now) (ws_world s)))"
proof (cases "job_id = k")
  case False
  then show ?thesis by (intro spares_apply spares_intros)
next
  case True
  have "repo_requeue_dead_letter (ow_jobs (ws_world s)) k now \<noteq> Inr x" for x
  proof
    assume "repo_requeue_dead_letter (ow_jobs (ws_world s)) k now = Inr x"
    then obtain row job job' where r: "get_job_row_required (ow_jobs (ws_world s)) k = Inr row"
      "outbox_job_to_domain row = Inr job" "requeue_dead_letter job now = Inr job'"
      by (cases x) (auto simp: repo_requeue_dead_letter_def finalize_def Let_def result_simps)
    then have "row \<in> set (ow_jobs (ws_world s))" "row_id row = k"
      by (auto simp: get_job_row_required_def dest: get_row_Some split: option.splits)
    then have "row_state row = ''published''" using stranded_state [OF assms] by blast
    then have "oj_state job = JS_PUBLISHED" using r(2) by (auto simp: to_domain_Inr_iff published_value)
    with r(3) show False by (simp add: requeue_dead_letter_def)
  qed
  then show ?thesis using True by (simp add: on_jobs_def split: sum.splits)
qed

lemma process_message_stranded:
  assumes "stranded k s" and "job_id \<in> set (ow_queue (ws_world s))"
  shows "stranded k (process_message uuid4 clock worker kinds handlers stopping job_id s)"
proof -
  have "job_id \<noteq> k" using assms by (auto simp: stranded_def)
  then have sp: "spared k (ws_world s) (snd (in_transaction
      (process_job uuid4 clock (locked_by_open s) worker kinds handlers job_id) (ws_world s)))"
    by (intro in_transaction_spared spares_apply process_job_frame)
  obtain r w' where run: "in_transaction (process_job uuid4 clock (locked_by_open s) worker kinds handlers job_id)
      (ws_world s) = (r, w')" by fastforce
  have "stranded k (s\<lparr>ws_world := w'\<rparr>)" using stranded_spared [OF assms(1)] sp run by simp
  then show ?thesis
    using run assms(1)
    by (cases r) (auto simp: process_message_def stranded_def dest: notin_set_remove1)
qed

lemma publisher_send_stranded:
  assumes "stranded k s"
  shows "stranded k (publisher_send uuid4 accepts worker now n kinds s)"
proof -
  let ?p = "publish_batch uuid4 accepts (\<lambda>_. False) worker now n kinds (ws_world s)"
  obtain r w' where run: "?p = (r, w')" by fastforce
  have sp: "spared k (ws_world s) w'" using publish_batch_spared [OF assms] run by (metis snd_conv)
  show ?thesis
    using assms run not_written [OF sp] sp by (auto simp: publisher_send_def stranded_def spared_def)
qed

lemma worker_step_stranded:
  assumes "worker_step s s'" and "stranded k s"
  shows "stranded k s'"
  using assms
proof (cases rule: worker_step.cases)
  case commit
  then show ?thesis
    using assms(2) commit_rows_frame
    by (auto simp: publisher_commit_def stranded_def split: option.splits)
next
  case (reconcile now)
  then show ?thesis
    using assms(2) stranded_spared [OF assms(2) reconcile_spared [OF assms(2)]] by (simp add: reconcile_once_def)
next
  case (requeue switch job_id now)
  have "spared k (ws_world s) (snd (in_transaction
      (on_jobs (\<lambda>rows. repo_requeue_dead_letter rows job_id now)) (ws_world s)))"
    by (rule in_transaction_spared) (rule requeue_spared [OF assms(2)])
  then show ?thesis
    using requeue assms(2) stranded_spared [OF assms(2)] by (simp add: dead_letter_retry_def)
qed (use assms(2) publisher_send_stranded process_message_stranded in simp_all)

section \<open>Properties of the worker\<close>

text \<open>The run that strands a job: the message is taken before the publisher commits.\<close>

definition race_start :: worker_state where
  "race_start = \<lparr>ws_world = sample_world, ws_open = None\<rparr>"

definition race_sent :: worker_state where
  "race_sent = publisher_send word_of_nat (\<lambda>_ _. True) ''pub-1'' (Aware 0) 10 None race_start"

definition race_taken :: worker_state where
  "race_taken = process_message word_of_nat (\<lambda>n. Aware (int n)) ''proc-1'' None build_noop_handlers False 1 race_sent"

definition race_end :: worker_state where
  "race_end = publisher_commit race_taken"

lemma race_facts:
  "1 \<in> set (ow_queue (ws_world race_sent))" "stranded 1 race_end"
  by (code_simp, code_simp)

text \<open>
  C28. A published job can be stranded: starting from a committed pending job, a publisher sends the
  job's message inside its transaction; a processor takes the message before the publisher commits,
  finds nothing to claim, and acknowledges it; then the publisher commits. The job is now published
  with no message left for it.
\<close>

theorem published_job_can_be_stranded:
  "ws_open race_start = None \<and> view (ow_jobs (ws_world race_start)) 1 = Some sample_job \<and>
   worker_step\<^sup>*\<^sup>* race_start race_end \<and> stranded 1 race_end"
proof -
  have "worker_step race_start race_sent" unfolding race_sent_def
    by (rule worker_step.send) (simp add: race_start_def)
  moreover have "worker_step race_sent race_taken"
    unfolding race_taken_def using race_facts(1) by (rule worker_step.process)
  moreover have "worker_step race_taken race_end" unfolding race_end_def by (rule worker_step.commit)
  ultimately have "worker_step\<^sup>*\<^sup>* race_start race_end" by (meson converse_rtranclp_into_rtranclp rtranclp.rtrancl_refl)
  then show ?thesis using race_facts(2) sample_queue_ok by (simp add: race_start_def sample_world_def)
qed

text \<open>
  A stranded job stays stranded: whatever the publishers, processors, reconciliation and the
  operator's dead-letter retry do, it is never claimed, processed or sent again.
\<close>

theorem stranded_forever:
  assumes "stranded k s" and "worker_step\<^sup>*\<^sup>* s s'"
  shows "stranded k s'"
  using assms(2,1) by (induction rule: rtranclp_induct) (auto intro: worker_step_stranded)

theorem stranded_forever_witness:
  "stranded 1 (reconcile_once (Aware 400000000) race_end)"
  by (rule stranded_forever [OF race_facts(2)]) (intro r_into_rtranclp worker_step.reconcile)

end
