(* ===== verification/Canonical_Enums.thy ===== *)
theory Canonical_Enums
  imports Closeros_Prelude
begin

text \<open>
  The enumerations of \<open>domain/canonical_enums.py\<close> that the metrics and messaging components use. Each
  \<open>StrEnum\<close> is a datatype, the function giving its members' values and the list of its members, so
  that \<open>Enum(text)\<close> is \<open>enum_of value members text\<close>.
\<close>

datatype provider_kind =
    PK_WHATSAPP | PK_WHATSAPP_CLOUD | PK_INSTAGRAM | PK_TELEGRAM_BUSINESS | PK_SYNTHETIC

fun provider_kind_value :: "provider_kind \<Rightarrow> string" where
  "provider_kind_value PK_WHATSAPP = ''whatsapp''"
| "provider_kind_value PK_WHATSAPP_CLOUD = ''whatsapp_cloud''"
| "provider_kind_value PK_INSTAGRAM = ''instagram''"
| "provider_kind_value PK_TELEGRAM_BUSINESS = ''telegram_business''"
| "provider_kind_value PK_SYNTHETIC = ''synthetic''"

definition provider_kinds :: "provider_kind list" where
  "provider_kinds =
     [PK_WHATSAPP, PK_WHATSAPP_CLOUD, PK_INSTAGRAM, PK_TELEGRAM_BUSINESS, PK_SYNTHETIC]"

datatype channel_connection_status =
    CCS_DRAFT | CCS_AUTHORIZING | CCS_ACTIVE | CCS_DEGRADED | CCS_REAUTHORIZATION_REQUIRED | CCS_REVOKED
  | CCS_DISCONNECTED

fun channel_connection_status_value :: "channel_connection_status \<Rightarrow> string" where
  "channel_connection_status_value CCS_DRAFT = ''draft''"
| "channel_connection_status_value CCS_AUTHORIZING = ''authorizing''"
| "channel_connection_status_value CCS_ACTIVE = ''active''"
| "channel_connection_status_value CCS_DEGRADED = ''degraded''"
| "channel_connection_status_value CCS_REAUTHORIZATION_REQUIRED = ''reauthorization_required''"
| "channel_connection_status_value CCS_REVOKED = ''revoked''"
| "channel_connection_status_value CCS_DISCONNECTED = ''disconnected''"

definition channel_connection_statuses :: "channel_connection_status list" where
  "channel_connection_statuses =
     [CCS_DRAFT, CCS_AUTHORIZING, CCS_ACTIVE, CCS_DEGRADED, CCS_REAUTHORIZATION_REQUIRED, CCS_REVOKED,
      CCS_DISCONNECTED]"

datatype sales_case_status =
    SC_NEW | SC_AWAITING_BUSINESS | SC_AWAITING_CUSTOMER | SC_QUALIFIED |
  SC_APPOINTMENT_PROPOSED | SC_APPOINTMENT_BOOKED | SC_WON | SC_LOST | SC_CLOSED_UNKNOWN

fun sales_case_status_value :: "sales_case_status \<Rightarrow> string" where
  "sales_case_status_value SC_NEW = ''new''"
| "sales_case_status_value SC_AWAITING_BUSINESS = ''awaiting_business''"
| "sales_case_status_value SC_AWAITING_CUSTOMER = ''awaiting_customer''"
| "sales_case_status_value SC_QUALIFIED = ''qualified''"
| "sales_case_status_value SC_APPOINTMENT_PROPOSED = ''appointment_proposed''"
| "sales_case_status_value SC_APPOINTMENT_BOOKED = ''appointment_booked''"
| "sales_case_status_value SC_WON = ''won''"
| "sales_case_status_value SC_LOST = ''lost''"
| "sales_case_status_value SC_CLOSED_UNKNOWN = ''closed_unknown''"

definition sales_case_statuses :: "sales_case_status list" where
  "sales_case_statuses =
     [SC_NEW, SC_AWAITING_BUSINESS, SC_AWAITING_CUSTOMER, SC_QUALIFIED,
      SC_APPOINTMENT_PROPOSED, SC_APPOINTMENT_BOOKED, SC_WON, SC_LOST, SC_CLOSED_UNKNOWN]"

datatype participant_sender_type =
    ST_CUSTOMER | ST_BOT | ST_MANAGER | ST_SYSTEM | ST_UNKNOWN

fun sender_type_value :: "participant_sender_type \<Rightarrow> string" where
  "sender_type_value ST_CUSTOMER = ''customer''"
| "sender_type_value ST_BOT = ''bot''"
| "sender_type_value ST_MANAGER = ''manager''"
| "sender_type_value ST_SYSTEM = ''system''"
| "sender_type_value ST_UNKNOWN = ''unknown''"

definition sender_types :: "participant_sender_type list" where
  "sender_types =
     [ST_CUSTOMER, ST_BOT, ST_MANAGER, ST_SYSTEM, ST_UNKNOWN]"

datatype message_direction =
    MD_INBOUND | MD_OUTBOUND

fun message_direction_value :: "message_direction \<Rightarrow> string" where
  "message_direction_value MD_INBOUND = ''inbound''"
| "message_direction_value MD_OUTBOUND = ''outbound''"

definition message_directions :: "message_direction list" where
  "message_directions =
     [MD_INBOUND, MD_OUTBOUND]"

datatype delivery_status =
    DS_PENDING | DS_SENT | DS_DELIVERED | DS_READ | DS_FAILED | DS_UNKNOWN

fun delivery_status_value :: "delivery_status \<Rightarrow> string" where
  "delivery_status_value DS_PENDING = ''pending''"
| "delivery_status_value DS_SENT = ''sent''"
| "delivery_status_value DS_DELIVERED = ''delivered''"
| "delivery_status_value DS_READ = ''read''"
| "delivery_status_value DS_FAILED = ''failed''"
| "delivery_status_value DS_UNKNOWN = ''unknown''"

definition delivery_statuses :: "delivery_status list" where
  "delivery_statuses =
     [DS_PENDING, DS_SENT, DS_DELIVERED, DS_READ, DS_FAILED, DS_UNKNOWN]"

datatype crm_outcome_type =
    CO_WON | CO_LOST | CO_CANCELLED | CO_UNKNOWN

fun crm_outcome_type_value :: "crm_outcome_type \<Rightarrow> string" where
  "crm_outcome_type_value CO_WON = ''won''"
| "crm_outcome_type_value CO_LOST = ''lost''"
| "crm_outcome_type_value CO_CANCELLED = ''cancelled''"
| "crm_outcome_type_value CO_UNKNOWN = ''unknown''"

definition crm_outcome_types :: "crm_outcome_type list" where
  "crm_outcome_types =
     [CO_WON, CO_LOST, CO_CANCELLED, CO_UNKNOWN]"

text \<open>Every value of an enumeration reads back as its member.\<close>

lemma provider_kind_roundtrip [enum_simps]: "enum_of provider_kind_value provider_kinds (provider_kind_value m) = Some m"
  by (cases m) (simp_all add: enum_of_def provider_kinds_def)

lemma sales_case_status_roundtrip [enum_simps]: "enum_of sales_case_status_value sales_case_statuses (sales_case_status_value m) = Some m"
  by (cases m) (simp_all add: enum_of_def sales_case_statuses_def)

lemma sender_type_roundtrip [enum_simps]: "enum_of sender_type_value sender_types (sender_type_value m) = Some m"
  by (cases m) (simp_all add: enum_of_def sender_types_def)

lemma message_direction_roundtrip [enum_simps]: "enum_of message_direction_value message_directions (message_direction_value m) = Some m"
  by (cases m) (simp_all add: enum_of_def message_directions_def)

lemma delivery_status_roundtrip [enum_simps]: "enum_of delivery_status_value delivery_statuses (delivery_status_value m) = Some m"
  by (cases m) (simp_all add: enum_of_def delivery_statuses_def)

lemma crm_outcome_type_roundtrip [enum_simps]: "enum_of crm_outcome_type_value crm_outcome_types (crm_outcome_type_value m) = Some m"
  by (cases m) (simp_all add: enum_of_def crm_outcome_types_def)

end
