(* ===== verification/Metrics_Domain.thy ===== *)
theory Metrics_Domain
  imports Canonical_Enums "HOL-Library.Multiset"
begin

text \<open>
  The metrics value model of \<open>domain/metrics.py\<close>: windows, metric values and snapshots with their
  constructor checks, and the three aggregation formulas (basis points, median, ninetieth
  percentile). The lemmas characterise the formulas as order statistics that depend on the
  multiset of samples only.
\<close>

section \<open>Enumerations and constants\<close>

datatype metric_scope = SCOPE_TENANT | SCOPE_MANAGER

fun metric_scope_value :: "metric_scope \<Rightarrow> string" where
  "metric_scope_value SCOPE_TENANT = ''tenant''"
| "metric_scope_value SCOPE_MANAGER = ''manager''"

datatype metric_snapshot_status = MS_PENDING | MS_COMPLETED | MS_FAILED

fun metric_snapshot_status_value :: "metric_snapshot_status \<Rightarrow> string" where
  "metric_snapshot_status_value MS_PENDING = ''pending''"
| "metric_snapshot_status_value MS_COMPLETED = ''completed''"
| "metric_snapshot_status_value MS_FAILED = ''failed''"

datatype metric_key =
    MK_INBOUND_MESSAGE_COUNT | MK_OUTBOUND_MANAGER_MESSAGE_COUNT | MK_ACTIVE_THREAD_COUNT
  | MK_INBOUND_THREAD_COUNT | MK_RESPONDED_THREAD_COUNT | MK_UNRESPONDED_THREAD_COUNT
  | MK_RESPONSE_RATE_BASIS_POINTS | MK_FIRST_RESPONSE_SAMPLE_COUNT
  | MK_MEDIAN_FIRST_RESPONSE_SECONDS | MK_P90_FIRST_RESPONSE_SECONDS | MK_FAILED_DELIVERY_COUNT
  | MK_APPOINTMENT_BOOKED_CASE_COUNT | MK_WON_CASE_COUNT | MK_LOST_CASE_COUNT
  | MK_CONVERSION_RATE_BASIS_POINTS

fun metric_key_value :: "metric_key \<Rightarrow> string" where
  "metric_key_value MK_INBOUND_MESSAGE_COUNT = ''inbound_message_count''"
| "metric_key_value MK_OUTBOUND_MANAGER_MESSAGE_COUNT = ''outbound_manager_message_count''"
| "metric_key_value MK_ACTIVE_THREAD_COUNT = ''active_thread_count''"
| "metric_key_value MK_INBOUND_THREAD_COUNT = ''inbound_thread_count''"
| "metric_key_value MK_RESPONDED_THREAD_COUNT = ''responded_thread_count''"
| "metric_key_value MK_UNRESPONDED_THREAD_COUNT = ''unresponded_thread_count''"
| "metric_key_value MK_RESPONSE_RATE_BASIS_POINTS = ''response_rate_basis_points''"
| "metric_key_value MK_FIRST_RESPONSE_SAMPLE_COUNT = ''first_response_sample_count''"
| "metric_key_value MK_MEDIAN_FIRST_RESPONSE_SECONDS = ''median_first_response_seconds''"
| "metric_key_value MK_P90_FIRST_RESPONSE_SECONDS = ''p90_first_response_seconds''"
| "metric_key_value MK_FAILED_DELIVERY_COUNT = ''failed_delivery_count''"
| "metric_key_value MK_APPOINTMENT_BOOKED_CASE_COUNT = ''appointment_booked_case_count''"
| "metric_key_value MK_WON_CASE_COUNT = ''won_case_count''"
| "metric_key_value MK_LOST_CASE_COUNT = ''lost_case_count''"
| "metric_key_value MK_CONVERSION_RATE_BASIS_POINTS = ''conversion_rate_basis_points''"

definition METRIC_FORMULA_VERSION :: string where
  "METRIC_FORMULA_VERSION = ''lm-metrics-v2''"

definition MAX_BASIS_POINTS :: int where "MAX_BASIS_POINTS = 10000"
definition MAX_METRIC_VALUE :: int where "MAX_METRIC_VALUE = 1000000000"

definition BASIS_POINT_METRICS :: "metric_key list" where
  "BASIS_POINT_METRICS = [MK_RESPONSE_RATE_BASIS_POINTS, MK_CONVERSION_RATE_BASIS_POINTS]"

text \<open>\<open>Metrics_TypeError\<close> is Python's refusal to order a naive and an aware \<open>datetime\<close>.\<close>

datatype metrics_error = Metrics_ValueError string | Metrics_TypeError string

section \<open>Validators\<close>

definition validate_metric_datetime :: "datetime \<Rightarrow> string \<Rightarrow> metrics_error + datetime" where
  "validate_metric_datetime value field =
     (if aware value then Inr value
      else Inl (Metrics_ValueError (field @ '' must be timezone-aware'')))"

definition validate_non_negative_int :: "int \<Rightarrow> string \<Rightarrow> metrics_error + int" where
  "validate_non_negative_int value field =
     (if value < 0 then Inl (Metrics_ValueError (field @ '' must be non-negative''))
      else if value > MAX_METRIC_VALUE
      then Inl (Metrics_ValueError (field @ '' exceeds maximum metric value''))
      else Inr value)"

text \<open>\<open>^lm-metrics-v[0-9]+$\<close>\<close>

definition matches_formula_version :: "string \<Rightarrow> bool" where
  "matches_formula_version s \<longleftrightarrow>
     take 12 s = ''lm-metrics-v'' \<and> drop 12 s \<noteq> [] \<and> list_all is_digit09 (drop 12 s)"

definition validate_formula_version :: "string \<Rightarrow> metrics_error + string" where
  "validate_formula_version value =
     (let normalized = strip value in
      if \<not> matches_formula_version normalized
      then Inl (Metrics_ValueError ''formula_version has invalid format'')
      else Inr normalized)"

section \<open>Windows, values and snapshots\<close>

record metric_window =
  mw_start :: datetime
  mw_end :: datetime
  mw_window_code :: string

definition MetricWindow_post_init :: "metric_window \<Rightarrow> metrics_error + metric_window" where
  "MetricWindow_post_init w =
     bindE (validate_metric_datetime (mw_start w) ''start'') (\<lambda>start.
     bindE (validate_metric_datetime (mw_end w) ''end'') (\<lambda>end'.
     bindE (raise_if (end' \<le> start) (Metrics_ValueError ''window end must be after start'')) (\<lambda>_.
     let normalized_code = strip (mw_window_code w) in
     bindE (raise_if (\<not> matches_ident ident_dash_char 63 normalized_code)
              (Metrics_ValueError ''window_code has invalid format'')) (\<lambda>_.
     Inr (w\<lparr>mw_start := start, mw_end := end', mw_window_code := normalized_code\<rparr>)))))"

record metric_value =
  mv_key :: metric_key
  mv_value :: int
  mv_numerator :: "int option"
  mv_denominator :: "int option"

definition validate_optional_int :: "int option \<Rightarrow> string \<Rightarrow> metrics_error + int option" where
  "validate_optional_int x field =
     (case x of None \<Rightarrow> Inr None
      | Some n \<Rightarrow> bindE (validate_non_negative_int n field) (\<lambda>n'. Inr (Some n')))"

definition MetricValue_post_init :: "metric_value \<Rightarrow> metrics_error + metric_value" where
  "MetricValue_post_init v =
     bindE (validate_non_negative_int (mv_value v) ''value'') (\<lambda>val.
     bindE (raise_if (mv_key v \<in> set BASIS_POINT_METRICS \<and> val > MAX_BASIS_POINTS)
              (Metrics_ValueError ''basis points must be between 0 and 10000'')) (\<lambda>_.
     bindE (validate_optional_int (mv_numerator v) ''numerator'') (\<lambda>num.
     bindE (validate_optional_int (mv_denominator v) ''denominator'') (\<lambda>den.
     Inr (v\<lparr>mv_value := val, mv_numerator := num, mv_denominator := den\<rparr>)))))"

text \<open>\<open>MetricValue(key, value)\<close> and \<open>MetricValue(key, value, numerator=n, denominator=d)\<close>.\<close>

definition MetricValue :: "metric_key \<Rightarrow> int \<Rightarrow> metrics_error + metric_value" where
  "MetricValue key val =
     MetricValue_post_init
       \<lparr>mv_key = key, mv_value = val, mv_numerator = None, mv_denominator = None\<rparr>"

definition MetricValue_ratio :: "metric_key \<Rightarrow> int \<Rightarrow> int \<Rightarrow> int \<Rightarrow> metrics_error + metric_value" where
  "MetricValue_ratio key val num den =
     MetricValue_post_init
       \<lparr>mv_key = key, mv_value = val, mv_numerator = Some num, mv_denominator = Some den\<rparr>"

record metric_snapshot =
  sn_id :: uuid
  sn_tenant_id :: uuid
  sn_scope :: metric_scope
  sn_manager_user_id :: "uuid option"
  sn_window :: metric_window
  sn_formula_version :: string
  sn_source_watermark :: datetime
  sn_computed_at :: datetime
  sn_status :: metric_snapshot_status
  sn_values :: "metric_value list"

text \<open>The loop over \<open>values\<close> with its set of seen keys.\<close>

fun check_distinct_keys :: "metric_key set \<Rightarrow> metric_value list \<Rightarrow> metrics_error + unit" where
  "check_distinct_keys seen [] = Inr ()"
| "check_distinct_keys seen (v # vs) =
     (if mv_key v \<in> seen then Inl (Metrics_ValueError ''duplicate metric key in snapshot'')
      else check_distinct_keys (insert (mv_key v) seen) vs)"

definition MetricSnapshot_post_init :: "metric_snapshot \<Rightarrow> metrics_error + metric_snapshot" where
  "MetricSnapshot_post_init s =
     bindE (raise_if (sn_scope s = SCOPE_TENANT \<and> sn_manager_user_id s \<noteq> None)
              (Metrics_ValueError ''tenant scope requires manager_user_id to be null'')) (\<lambda>_.
     bindE (raise_if (sn_scope s = SCOPE_MANAGER \<and> sn_manager_user_id s = None)
              (Metrics_ValueError ''manager scope requires manager_user_id'')) (\<lambda>_.
     bindE (validate_formula_version (sn_formula_version s)) (\<lambda>version.
     bindE (validate_metric_datetime (sn_source_watermark s) ''source_watermark'') (\<lambda>watermark.
     bindE (validate_metric_datetime (sn_computed_at s) ''computed_at'') (\<lambda>computed.
     bindE (check_distinct_keys {} (sn_values s)) (\<lambda>_.
     Inr (s\<lparr>sn_formula_version := version, sn_source_watermark := watermark,
            sn_computed_at := computed\<rparr>)))))))"

section \<open>Formulas\<close>

definition floor_basis_points :: "int \<Rightarrow> int \<Rightarrow> int option" where
  "floor_basis_points num den = (if den \<le> 0 then None else Some ((num * 10000) div den))"

definition deterministic_median_seconds :: "int list \<Rightarrow> int option" where
  "deterministic_median_seconds values =
     (if values = [] then None
      else let sorted_values = sort values; count = length sorted_values in
        if count mod 2 = 1 then Some (sorted_values ! (count div 2))
        else let lower = sorted_values ! (count div 2 - 1); upper = sorted_values ! (count div 2)
             in Some ((lower + upper) div 2))"

definition deterministic_p90_seconds :: "int list \<Rightarrow> int option" where
  "deterministic_p90_seconds values =
     (if values = [] then None
      else let sorted_values = sort values; count = int (length sorted_values);
               rank = (90 * count + 99) div 100; index = max 0 (min (count - 1) (rank - 1))
           in Some (sorted_values ! nat index))"

section \<open>What the validators accept\<close>

lemma validate_metric_datetime_Inr [result_simps]:
  "validate_metric_datetime d f = Inr d' \<longleftrightarrow> aware d \<and> d' = d"
  by (auto simp: validate_metric_datetime_def)

lemma validate_non_negative_int_Inr [result_simps]:
  "validate_non_negative_int n f = Inr m \<longleftrightarrow> 0 \<le> n \<and> n \<le> MAX_METRIC_VALUE \<and> m = n"
  by (auto simp: validate_non_negative_int_def)

lemma validate_optional_int_Inr [result_simps]:
  "validate_optional_int x f = Inr y \<longleftrightarrow>
     pred_option (\<lambda>n. 0 \<le> n \<and> n \<le> MAX_METRIC_VALUE) x \<and> y = x"
  by (cases x) (auto simp: validate_optional_int_def result_simps)

text \<open>A metric value within the bounds its constructor enforces.\<close>

definition metric_in_bounds :: "metric_value \<Rightarrow> bool" where
  "metric_in_bounds v \<longleftrightarrow>
     0 \<le> mv_value v \<and> mv_value v \<le> MAX_METRIC_VALUE \<and>
     (mv_key v \<in> set BASIS_POINT_METRICS \<longrightarrow> mv_value v \<le> MAX_BASIS_POINTS) \<and>
     pred_option (\<lambda>n. 0 \<le> n \<and> n \<le> MAX_METRIC_VALUE) (mv_numerator v) \<and>
     pred_option (\<lambda>n. 0 \<le> n \<and> n \<le> MAX_METRIC_VALUE) (mv_denominator v)"

lemma MetricValue_post_init_Inr [result_simps]:
  "MetricValue_post_init v = Inr v' \<longleftrightarrow> metric_in_bounds v \<and> v' = v"
  by (auto simp: MetricValue_post_init_def metric_in_bounds_def result_simps)

lemma check_distinct_keys_Inr [result_simps]:
  "check_distinct_keys seen vs = Inr u \<longleftrightarrow>
     distinct (map mv_key vs) \<and> set (map mv_key vs) \<inter> seen = {}"
  by (induction seen vs rule: check_distinct_keys.induct) auto

lemma MetricSnapshot_post_init_Inr [result_simps]:
  "MetricSnapshot_post_init s = Inr s' \<longleftrightarrow>
     (sn_scope s = SCOPE_TENANT \<longleftrightarrow> sn_manager_user_id s = None) \<and>
     matches_formula_version (strip (sn_formula_version s)) \<and> aware (sn_source_watermark s) \<and>
     aware (sn_computed_at s) \<and> distinct (map mv_key (sn_values s)) \<and>
     s' = s\<lparr>sn_formula_version := strip (sn_formula_version s)\<rparr>"
  by (cases "sn_scope s")
    (auto simp: MetricSnapshot_post_init_def validate_formula_version_def Let_def result_simps)

lemma formula_version_valid [simp]:
  "strip METRIC_FORMULA_VERSION = METRIC_FORMULA_VERSION"
  "matches_formula_version METRIC_FORMULA_VERSION"
  by code_simp+

section \<open>The formulas as order statistics\<close>

lemma floor_basis_points_range:
  assumes "floor_basis_points num den = Some r" and "0 \<le> num" and "num \<le> den"
  shows "0 \<le> r \<and> r \<le> MAX_BASIS_POINTS"
proof -
  have den: "0 < den" and r: "r = num * 10000 div den"
    using assms by (auto simp: floor_basis_points_def split: if_splits)
  have "num * 10000 div den \<le> den * 10000 div den"
    using assms den by (intro zdiv_mono1) auto
  with den r assms show ?thesis by (simp add: MAX_BASIS_POINTS_def pos_imp_zdiv_nonneg_iff)
qed

lemma sorted_rank_le:
  assumes "sorted s" and "i < length s"
  shows "Suc i \<le> length (filter (\<lambda>x. x \<le> s ! i) s)"
proof -
  have "filter (\<lambda>x. x \<le> s ! i) (take (Suc i) s) = take (Suc i) s"
    using assms by (auto simp: filter_id_conv in_set_conv_nth less_Suc_eq_le intro!: sorted_nth_mono)
  moreover have "filter (\<lambda>x. x \<le> s ! i) s =
      filter (\<lambda>x. x \<le> s ! i) (take (Suc i) s) @ filter (\<lambda>x. x \<le> s ! i) (drop (Suc i) s)"
    by (metis append_take_drop_id filter_append)
  ultimately show ?thesis using assms by simp
qed

lemma sorted_rank_ge:
  assumes "sorted s" and "i < length s"
  shows "length s - i \<le> length (filter (\<lambda>x. s ! i \<le> x) s)"
proof -
  have "filter (\<lambda>x. s ! i \<le> x) (drop i s) = drop i s"
    using assms by (auto simp: filter_id_conv in_set_conv_nth intro!: sorted_nth_mono)
  moreover have "filter (\<lambda>x. s ! i \<le> x) s =
      filter (\<lambda>x. s ! i \<le> x) (take i s) @ filter (\<lambda>x. s ! i \<le> x) (drop i s)"
    by (metis append_take_drop_id filter_append)
  ultimately show ?thesis by simp
qed

lemma length_filter_less:
  "length (filter (\<lambda>x. x < v) s) = length s - length (filter (\<lambda>x. v \<le> x) s)" for v :: "'a::linorder"
  using sum_length_filter_compl [of "\<lambda>x. v \<le> x" s] by (simp add: not_le)

lemma sorted_rank_less:
  assumes "sorted s" and "i < length s"
  shows "length (filter (\<lambda>x. x < s ! i) s) \<le> i"
  using sorted_rank_ge [OF assms] by (simp add: length_filter_less)

lemma sorted_rank_greater:
  assumes "sorted s" and "i < length s"
  shows "length (filter (\<lambda>x. s ! i < x) s) \<le> length s - Suc i"
  using sorted_rank_le [OF assms] sum_length_filter_compl [of "\<lambda>x. x \<le> s ! i" s]
  by (simp add: not_le)

lemma length_filter_sort [simp]: "length (filter P (sort xs)) = length (filter P xs)"
  by (metis mset_filter mset_sort size_mset)

lemma mset_eq_Nil: "mset xs = mset ys \<Longrightarrow> xs = [] \<longleftrightarrow> ys = []"
  by (metis mset_zero_iff)

lemma sort_cong_mset: "mset xs = mset ys \<Longrightarrow> sort xs = sort ys"
  by (metis sorted_list_of_multiset_mset)

lemma median_mset_cong:
  "mset xs = mset ys \<Longrightarrow> deterministic_median_seconds xs = deterministic_median_seconds ys"
  unfolding deterministic_median_seconds_def
  using mset_eq_Nil [of xs ys] sort_cong_mset [of xs ys] by presburger

lemma p90_mset_cong:
  "mset xs = mset ys \<Longrightarrow> deterministic_p90_seconds xs = deterministic_p90_seconds ys"
  unfolding deterministic_p90_seconds_def
  using mset_eq_Nil [of xs ys] sort_cong_mset [of xs ys] by presburger

lemma p90_index:
  assumes "xs \<noteq> []"
  obtains i where "deterministic_p90_seconds xs = Some (sort xs ! i)" and "i < length xs"
    and "9 * length xs \<le> 10 * Suc i" and "10 * i < 9 * length xs"
proof
  define n where "n = int (length xs)"
  define i where "i = nat (max 0 (min (n - 1) ((90 * n + 99) div 100 - 1)))"
  have n: "1 \<le> n" using assms by (cases xs) (auto simp: n_def)
  show "deterministic_p90_seconds xs = Some (sort xs ! i)"
    using assms by (simp add: deterministic_p90_seconds_def i_def n_def Let_def)
  have i: "int i = (90 * n + 99) div 100 - 1" using n unfolding i_def by simp
  define r where "r = (90 * n + 99) div 100"
  have r: "90 * n \<le> 100 * r" "100 * r \<le> 90 * n + 99" unfolding r_def by linarith+
  have ir: "int i = r - 1" using i by (simp add: r_def)
  have "int i < n" using ir r n by linarith
  moreover have "9 * n \<le> 10 * (int i + 1)" unfolding ir using r by simp
  moreover have "10 * int i < 9 * n" unfolding ir using r by simp
  ultimately show "i < length xs" and "9 * length xs \<le> 10 * Suc i" and "10 * i < 9 * length xs"
    unfolding n_def by simp_all
qed

lemma median_between:
  assumes "xs \<noteq> []"
  obtains m where "deterministic_median_seconds xs = Some m"
    and "sort xs ! ((length xs - 1) div 2) \<le> m" and "m \<le> sort xs ! (length xs div 2)"
proof (cases "length xs mod 2 = 1")
  case True
  then have "(length xs - 1) div 2 = length xs div 2" by presburger
  with True assms that show ?thesis by (auto simp: deterministic_median_seconds_def Let_def)
next
  case False
  let ?l = "sort xs ! (length xs div 2 - 1)" and ?u = "sort xs ! (length xs div 2)"
  have len: "0 < length xs" using assms by simp
  with False have idx: "(length xs - 1) div 2 = length xs div 2 - 1" by presburger
  have "?l \<le> ?u" using len by (intro sorted_nth_mono) auto
  then have "?l \<le> (?l + ?u) div 2" and "(?l + ?u) div 2 \<le> ?u" by presburger+
  with that [of "(?l + ?u) div 2"] False assms idx show ?thesis
    by (simp add: deterministic_median_seconds_def Let_def)
qed

lemma length_filter_mono: "(\<And>x. P x \<Longrightarrow> Q x) \<Longrightarrow> length (filter P xs) \<le> length (filter Q xs)"
  by (induction xs) auto

text \<open>
  C29. On a non-empty sample the ninetieth percentile is one of the samples, at least nine tenths
  of the samples are at most it and fewer than nine tenths are below it (the nearest-rank
  definition); at most half of the samples lie below the median and at most half above it. Both
  depend on the multiset of samples only.
\<close>

theorem percentiles_are_order_statistics:
  assumes "xs \<noteq> []"
  shows "\<exists>p m. deterministic_p90_seconds xs = Some p \<and> deterministic_median_seconds xs = Some m \<and>
     p \<in> set xs \<and>
     9 * length xs \<le> 10 * length (filter (\<lambda>x. x \<le> p) xs) \<and>
     10 * length (filter (\<lambda>x. x < p) xs) < 9 * length xs \<and>
     2 * length (filter (\<lambda>x. x < m) xs) \<le> length xs \<and>
     2 * length (filter (\<lambda>x. m < x) xs) \<le> length xs \<and>
     (\<forall>ys. mset ys = mset xs \<longrightarrow>
        deterministic_p90_seconds ys = Some p \<and> deterministic_median_seconds ys = Some m)"
proof -
  let ?s = "sort xs"
  obtain i where p: "deterministic_p90_seconds xs = Some (?s ! i)" and i: "i < length xs"
    and rank: "9 * length xs \<le> 10 * Suc i" "10 * i < 9 * length xs"
    using p90_index [OF assms] .
  obtain m where m: "deterministic_median_seconds xs = Some m"
    and lo: "?s ! ((length xs - 1) div 2) \<le> m" and hi: "m \<le> ?s ! (length xs div 2)"
    using median_between [OF assms] .
  have len: "0 < length xs" using assms by simp
  have mid: "(length xs - 1) div 2 < length ?s" "length xs div 2 < length ?s"
    using len unfolding length_sort by presburger+
  have "?s ! i \<in> set xs" using i by (metis length_sort nth_mem set_sort)
  moreover have "9 * length xs \<le> 10 * length (filter (\<lambda>x. x \<le> ?s ! i) xs)"
    using sorted_rank_le [of ?s i] i rank by simp
  moreover have "10 * length (filter (\<lambda>x. x < ?s ! i) xs) < 9 * length xs"
    using sorted_rank_less [of ?s i] i rank by simp
  moreover have "2 * length (filter (\<lambda>x. x < m) xs) \<le> length xs"
    using sorted_rank_less [OF sorted_sort mid(2)]
      length_filter_mono [of "\<lambda>x. x < m" "\<lambda>x. x < ?s ! (length xs div 2)" xs] hi by fastforce
  moreover have "2 * length (filter (\<lambda>x. m < x) xs) \<le> length xs"
    using sorted_rank_greater [OF sorted_sort mid(1)]
      length_filter_mono [of "\<lambda>x. m < x" "\<lambda>x. ?s ! ((length xs - 1) div 2) < x" xs] lo by fastforce
  moreover have "deterministic_p90_seconds ys = Some (?s ! i)"
      "deterministic_median_seconds ys = Some m" if "mset ys = mset xs" for ys
    using p90_mset_cong [OF that] median_mset_cong [OF that] p m by simp_all
  ultimately show ?thesis using p m by blast
qed

theorem percentiles_are_order_statistics_witness:
  "\<exists>p m. deterministic_p90_seconds [30, 10, 20] = Some p \<and>
     deterministic_median_seconds [30, 10, 20] = Some m \<and> p \<in> set [30, 10, 20] \<and>
     2 * length (filter (\<lambda>x. m < x) [30, 10, 20]) \<le> length [30, 10, 20 :: int]"
  using percentiles_are_order_statistics [of "[30, 10, 20]"] by blast

end
