(* ===== verification/Metrics_Engine.thy ===== *)
theory Metrics_Engine
  imports Metrics_Domain "HOL-Library.AList"
begin

text \<open>
  The metrics engine: the source rows of \<open>application/metrics_source_data.py\<close>, the attribution of
  threads and sales cases to managers (\<open>application/manager_attribution.py\<close>) and the calculation
  of snapshots (\<open>application/metrics_engine.py\<close>). A Python \<open>dict\<close> is an association list in
  insertion order, a \<open>set\<close> a HOL set. Rows are not validated by their constructors, so a naive
  timestamp can reach a comparison; the model raises \<open>TypeError\<close> where Python does.
\<close>

section \<open>Source rows\<close>

record metrics_message_row =
  mm_id :: uuid
  mm_tenant_id :: uuid
  mm_conversation_thread_id :: uuid
  mm_sender_type :: participant_sender_type
  mm_direction :: message_direction
  mm_received_at :: datetime

record metrics_thread_row =
  mt_id :: uuid
  mt_tenant_id :: uuid
  mt_sales_case_id :: "uuid option"

record metrics_delivery_event_row =
  me_conversation_thread_id :: uuid
  me_message_id :: uuid
  me_status :: delivery_status
  me_occurred_at :: datetime

record metrics_sales_case_row =
  mc_id :: uuid
  mc_tenant_id :: uuid
  mc_status :: sales_case_status
  mc_updated_at :: datetime

record metrics_crm_outcome_row =
  mo_sales_case_id :: uuid
  mo_outcome_type :: crm_outcome_type
  mo_occurred_at :: datetime

record metrics_assignment_row =
  ma_id :: uuid
  ma_tenant_id :: uuid
  ma_manager_user_id :: uuid
  ma_conversation_thread_id :: "uuid option"
  ma_sales_case_id :: "uuid option"
  ma_assigned_at :: datetime

record metrics_source_data =
  sd_messages :: "metrics_message_row list"
  sd_threads :: "metrics_thread_row list"
  sd_delivery_events :: "metrics_delivery_event_row list"
  sd_sales_cases :: "metrics_sales_case_row list"
  sd_crm_outcomes :: "metrics_crm_outcome_row list"
  sd_assignments :: "metrics_assignment_row list"
  sd_watermark :: datetime

section \<open>Attribution to managers\<close>

definition mixed_comparison :: metrics_error where
  "mixed_comparison = Metrics_TypeError ''can't compare offset-naive and offset-aware datetimes''"

text \<open>\<open>a > b\<close> on timestamps.\<close>

definition later_than :: "datetime \<Rightarrow> datetime \<Rightarrow> metrics_error + bool" where
  "later_than a b = (if aware a \<noteq> aware b then Inl mixed_comparison else Inr (b < a))"

definition assignment_precedence ::
    "metrics_assignment_row \<Rightarrow> metrics_assignment_row \<Rightarrow> metrics_error + bool" where
  "assignment_precedence candidate current =
     (if ma_assigned_at candidate \<noteq> ma_assigned_at current
      then later_than (ma_assigned_at candidate) (ma_assigned_at current)
      else Inr (uuid_str (ma_id current) < uuid_str (ma_id candidate)))"

text \<open>
  One entry of a dictionary of winning assignments: the candidate enters when its key has no
  entry or it precedes the current one.
\<close>

type_synonym winners = "(uuid \<times> metrics_assignment_row) list"

definition consider_winner ::
    "winners \<Rightarrow> uuid option \<Rightarrow> metrics_assignment_row \<Rightarrow> metrics_error + winners" where
  "consider_winner d key assignment =
     (case key of None \<Rightarrow> Inr d
      | Some k \<Rightarrow>
          (case map_of d k of None \<Rightarrow> Inr (AList.update k assignment d)
           | Some current \<Rightarrow>
               bindE (assignment_precedence assignment current) (\<lambda>wins.
               Inr (if wins then AList.update k assignment d else d))))"

fun winning_assignments ::
    "datetime \<Rightarrow> metrics_assignment_row list \<Rightarrow> winners \<Rightarrow> winners \<Rightarrow>
     metrics_error + (winners \<times> winners)" where
  "winning_assignments window_end [] by_thread by_case = Inr (by_thread, by_case)"
| "winning_assignments window_end (a # assignments) by_thread by_case =
     bindE (later_than (ma_assigned_at a) window_end) (\<lambda>late.
     if late then winning_assignments window_end assignments by_thread by_case
     else
       bindE (consider_winner by_thread (ma_conversation_thread_id a) a) (\<lambda>by_thread'.
       bindE (consider_winner by_case (ma_sales_case_id a) a) (\<lambda>by_case'.
       winning_assignments window_end assignments by_thread' by_case')))"

definition threads_by_id :: "metrics_thread_row list \<Rightarrow> (uuid \<times> metrics_thread_row) list" where
  "threads_by_id threads = fold (\<lambda>t. AList.update (mt_id t) t) threads []"

fun attribute_loop ::
    "winners \<Rightarrow> winners \<Rightarrow> (uuid \<times> metrics_thread_row) list \<Rightarrow> (uuid \<times> uuid) list \<Rightarrow>
     (uuid \<times> uuid) list" where
  "attribute_loop by_thread by_case [] attributed = attributed"
| "attribute_loop by_thread by_case ((tid, t) # items) attributed =
     (case map_of by_thread tid of
        Some a \<Rightarrow> attribute_loop by_thread by_case items
                    (AList.update tid (ma_manager_user_id a) attributed)
      | None \<Rightarrow>
          (case mt_sales_case_id t of None \<Rightarrow> attribute_loop by_thread by_case items attributed
           | Some c \<Rightarrow>
               (case map_of by_case c of
                  None \<Rightarrow> attribute_loop by_thread by_case items attributed
                | Some a \<Rightarrow> attribute_loop by_thread by_case items
                              (AList.update tid (ma_manager_user_id a) attributed))))"

definition attribute_threads_to_managers ::
    "metrics_thread_row list \<Rightarrow> metrics_assignment_row list \<Rightarrow> datetime \<Rightarrow>
     metrics_error + (uuid \<times> uuid) list" where
  "attribute_threads_to_managers threads assignments window_end =
     bindE (winning_assignments window_end assignments [] []) (\<lambda>(by_thread, by_case).
     Inr (attribute_loop by_thread by_case (threads_by_id threads) []))"

definition thread_ids_for_manager :: "(uuid \<times> uuid) list \<Rightarrow> uuid \<Rightarrow> uuid set" where
  "thread_ids_for_manager attributed manager_user_id =
     set (map fst (filter (\<lambda>(tid, m). m = manager_user_id) attributed))"

fun winning_case_assignments ::
    "datetime \<Rightarrow> metrics_assignment_row list \<Rightarrow> winners \<Rightarrow> metrics_error + winners" where
  "winning_case_assignments window_end [] d = Inr d"
| "winning_case_assignments window_end (a # assignments) d =
     bindE (later_than (ma_assigned_at a) window_end) (\<lambda>late.
     if late then winning_case_assignments window_end assignments d
     else
       bindE (consider_winner d (ma_sales_case_id a) a) (\<lambda>d'.
       winning_case_assignments window_end assignments d'))"

record manager_metric_scope =
  ms_thread_ids :: "uuid set"
  ms_sales_case_ids :: "uuid set"

definition resolve_manager_metric_scope ::
    "metrics_source_data \<Rightarrow> uuid \<Rightarrow> datetime \<Rightarrow> metrics_error + manager_metric_scope" where
  "resolve_manager_metric_scope source_data manager_user_id window_end =
     bindE (attribute_threads_to_managers (sd_threads source_data) (sd_assignments source_data)
              window_end) (\<lambda>attributed.
     let thread_ids = thread_ids_for_manager attributed manager_user_id in
     bindE (winning_case_assignments window_end (sd_assignments source_data) []) (\<lambda>case_winners.
     let own_cases =
           set (map fst (filter (\<lambda>(c, a). ma_manager_user_id a = manager_user_id) case_winners));
         thread_cases =
           (\<Union>tid\<in>thread_ids. case map_of (threads_by_id (sd_threads source_data)) tid of
              None \<Rightarrow> {} | Some t \<Rightarrow> set_option (mt_sales_case_id t))
     in Inr \<lparr>ms_thread_ids = thread_ids, ms_sales_case_ids = own_cases \<union> thread_cases\<rparr>))"

section \<open>The engine\<close>

text \<open>
  \<open>int(delta.total_seconds())\<close>: truncation towards zero. \<open>total_seconds\<close> is a float; below
  \<open>2 ^ 33\<close> seconds its rounding error is under half a microsecond, so truncating it is exact.
\<close>

definition int_total_seconds :: "int \<Rightarrow> int" where
  "int_total_seconds d = (if 0 \<le> d then d div 1000000 else - ((- d) div 1000000))"

definition is_customer_inbound :: "metrics_message_row \<Rightarrow> bool" where
  "is_customer_inbound m \<longleftrightarrow> mm_direction m = MD_INBOUND \<and> mm_sender_type m = ST_CUSTOMER"

definition is_manager_outbound :: "metrics_message_row \<Rightarrow> bool" where
  "is_manager_outbound m \<longleftrightarrow> mm_direction m = MD_OUTBOUND \<and> mm_sender_type m = ST_MANAGER"

definition messages_by_thread ::
    "metrics_message_row list \<Rightarrow> (uuid \<times> metrics_message_row list) list" where
  "messages_by_thread messages =
     fold (\<lambda>m. AList.map_default (mm_conversation_thread_id m) [m] (\<lambda>ms. ms @ [m])) messages []"

text \<open>
  \<open>sorted(messages, key=(received_at, str(id)))\<close>. A sort of a list with naive and aware timestamps
  compares a mixed pair, since the comparisons it makes connect all elements.
\<close>

definition order_messages ::
    "metrics_message_row list \<Rightarrow> metrics_error + metrics_message_row list" where
  "order_messages ms =
     (if (\<exists>m\<in>set ms. aware (mm_received_at m)) \<and> (\<exists>m\<in>set ms. \<not> aware (mm_received_at m))
      then Inl mixed_comparison
      else Inr (sort_key (\<lambda>m. (mm_received_at m, uuid_str (mm_id m))) ms))"

fun response_loop ::
    "(uuid \<times> metrics_message_row list) list \<Rightarrow> uuid set \<Rightarrow> int list \<Rightarrow>
     metrics_error + (uuid set \<times> int list)" where
  "response_loop [] responded latencies = Inr (responded, latencies)"
| "response_loop ((tid, ms) # items) responded latencies =
     bindE (order_messages ms) (\<lambda>ordered.
     case find is_customer_inbound ordered of None \<Rightarrow> response_loop items responded latencies
     | Some inbound \<Rightarrow>
         (case find (\<lambda>m. mm_received_at m > mm_received_at inbound \<and> is_manager_outbound m) ordered
          of None \<Rightarrow> response_loop items responded latencies
          | Some response \<Rightarrow>
              let latency = int_total_seconds
                    (instant (mm_received_at response) - instant (mm_received_at inbound)) in
              if latency < 0 then response_loop items responded latencies
              else response_loop items (insert tid responded) (latencies @ [latency])))"

definition scope_ids ::
    "metrics_source_data \<Rightarrow> metric_scope \<Rightarrow> uuid option \<Rightarrow> datetime \<Rightarrow>
     metrics_error + (uuid set \<times> uuid set)" where
  "scope_ids source_data scope manager_user_id window_end =
     (if scope = SCOPE_TENANT then
        Inr (set (map mt_id (sd_threads source_data)),
             set (map mc_id (sd_sales_cases source_data)) \<union>
             set (List.map_filter mt_sales_case_id (sd_threads source_data)) \<union>
             set (map mo_sales_case_id (sd_crm_outcomes source_data)))
      else
        (case manager_user_id of None \<Rightarrow> Inr ({}, {})
         | Some m \<Rightarrow>
             bindE (resolve_manager_metric_scope source_data m window_end) (\<lambda>attributed.
             Inr (ms_thread_ids attributed, ms_sales_case_ids attributed))))"

text \<open>\<open>sum(1 for x in xs if p(x))\<close>\<close>

definition count_if :: "('a \<Rightarrow> bool) \<Rightarrow> 'a list \<Rightarrow> int" where
  "count_if p xs = int (length (filter p xs))"

fun sequenceE :: "('e + 'a) list \<Rightarrow> 'e + 'a list" where
  "sequenceE [] = Inr []"
| "sequenceE (m # ms) = bindE m (\<lambda>x. bindE (sequenceE ms) (\<lambda>xs. Inr (x # xs)))"

definition calculate_values ::
    "metrics_message_row list \<Rightarrow> uuid set \<Rightarrow> uuid set \<Rightarrow> metrics_source_data \<Rightarrow>
     metrics_error + metric_value list" where
  "calculate_values messages thread_ids sales_case_ids source_data =
     (let inbound_messages = filter is_customer_inbound messages;
          outbound_manager_messages = filter is_manager_outbound messages;
          inbound_threads = set (map mm_conversation_thread_id inbound_messages) in
      bindE (response_loop (messages_by_thread messages) {} []) (\<lambda>(responded_threads, latencies).
      let unresponded_threads = inbound_threads - responded_threads;
          response_rate = floor_basis_points (int (card responded_threads))
                            (int (card inbound_threads));
          median = deterministic_median_seconds latencies;
          p90 = deterministic_p90_seconds latencies;
          failed_delivery_count =
            count_if (\<lambda>e. me_conversation_thread_id e \<in> thread_ids \<and> me_status e = DS_FAILED)
              (sd_delivery_events source_data);
          appointment_booked_count =
            count_if (\<lambda>c. mc_id c \<in> sales_case_ids \<and> mc_status c = SC_APPOINTMENT_BOOKED)
              (sd_sales_cases source_data);
          won_count =
            count_if (\<lambda>o'. mo_sales_case_id o' \<in> sales_case_ids \<and> mo_outcome_type o' = CO_WON)
              (sd_crm_outcomes source_data);
          lost_count =
            count_if (\<lambda>o'. mo_sales_case_id o' \<in> sales_case_ids \<and> mo_outcome_type o' = CO_LOST)
              (sd_crm_outcomes source_data);
          conversion = floor_basis_points won_count (won_count + lost_count) in
      sequenceE
        ([MetricValue MK_INBOUND_MESSAGE_COUNT (int (length inbound_messages)),
          MetricValue MK_OUTBOUND_MANAGER_MESSAGE_COUNT (int (length outbound_manager_messages)),
          MetricValue MK_ACTIVE_THREAD_COUNT (int (card thread_ids)),
          MetricValue MK_INBOUND_THREAD_COUNT (int (card inbound_threads)),
          MetricValue MK_RESPONDED_THREAD_COUNT (int (card responded_threads)),
          MetricValue MK_UNRESPONDED_THREAD_COUNT (int (card unresponded_threads)),
          MetricValue MK_FIRST_RESPONSE_SAMPLE_COUNT (int (length latencies)),
          MetricValue MK_FAILED_DELIVERY_COUNT failed_delivery_count,
          MetricValue MK_APPOINTMENT_BOOKED_CASE_COUNT appointment_booked_count,
          MetricValue MK_WON_CASE_COUNT won_count,
          MetricValue MK_LOST_CASE_COUNT lost_count]
         @ (case response_rate of None \<Rightarrow> []
            | Some r \<Rightarrow> [MetricValue_ratio MK_RESPONSE_RATE_BASIS_POINTS r
                           (int (card responded_threads)) (int (card inbound_threads))])
         @ (case median of None \<Rightarrow> [] | Some m \<Rightarrow> [MetricValue MK_MEDIAN_FIRST_RESPONSE_SECONDS m])
         @ (case p90 of None \<Rightarrow> [] | Some p \<Rightarrow> [MetricValue MK_P90_FIRST_RESPONSE_SECONDS p])
         @ (case conversion of None \<Rightarrow> []
            | Some c \<Rightarrow> [MetricValue_ratio MK_CONVERSION_RATE_BASIS_POINTS c won_count
                           (won_count + lost_count)]))))"

definition calculate_snapshot ::
    "uuid \<Rightarrow> uuid \<Rightarrow> metric_scope \<Rightarrow> uuid option \<Rightarrow> metric_window \<Rightarrow> metrics_source_data \<Rightarrow>
     datetime \<Rightarrow> metrics_error + metric_snapshot" where
  "calculate_snapshot snapshot_id tenant_id scope manager_user_id window source_data computed_at =
     bindE (scope_ids source_data scope manager_user_id (mw_end window))
       (\<lambda>(thread_ids, sales_case_ids).
     let messages =
           filter (\<lambda>m. mm_conversation_thread_id m \<in> thread_ids) (sd_messages source_data) in
     bindE (calculate_values messages thread_ids sales_case_ids source_data) (\<lambda>vals.
     MetricSnapshot_post_init
       \<lparr>sn_id = snapshot_id, sn_tenant_id = tenant_id, sn_scope = scope,
        sn_manager_user_id = manager_user_id, sn_window = window,
        sn_formula_version = METRIC_FORMULA_VERSION,
        sn_source_watermark = sd_watermark source_data, sn_computed_at = computed_at,
        sn_status = MS_COMPLETED, sn_values = vals\<rparr>))"

end
