(* ===== verification/Metrics_Attribution.thy ===== *)
theory Metrics_Attribution
  imports Metrics_Engine
begin

text \<open>
  Correctness of the attribution of threads and sales cases to managers. The two loops of
  \<open>manager_attribution.py\<close> share one contract, the locale \<open>winner_loop\<close>: a loop that keeps, for
  each key, the latest eligible assignment. From it follow the documented rule for threads, the
  disjointness of the managers' scopes and their independence of the order of the rows.
\<close>

section \<open>The latest assignment\<close>

text \<open>The order of precedence: the time of the assignment, then the identifier.\<close>

definition precedence :: "metrics_assignment_row \<Rightarrow> datetime \<times> uuid" where
  "precedence a = (ma_assigned_at a, ma_id a)"

lemma assignment_precedence_aware:
  assumes "aware (ma_assigned_at a)" and "aware (ma_assigned_at b)"
  shows "assignment_precedence a b = Inr (precedence b < precedence a)"
  using assms by (auto simp: assignment_precedence_def later_than_def precedence_def uuid_str_less)

definition keep_latest ::
    "metrics_assignment_row \<Rightarrow> metrics_assignment_row option \<Rightarrow> metrics_assignment_row option" where
  "keep_latest a current =
     (case current of None \<Rightarrow> Some a | Some c \<Rightarrow> if precedence c < precedence a then Some a else Some c)"

text \<open>The assignments that count for a key at a cutoff.\<close>

definition eligible ::
    "(metrics_assignment_row \<Rightarrow> uuid option) \<Rightarrow> datetime \<Rightarrow> uuid \<Rightarrow> metrics_assignment_row \<Rightarrow> bool" where
  "eligible key window_end k a \<longleftrightarrow> ma_assigned_at a \<le> window_end \<and> key a = Some k"

definition latest ::
    "(metrics_assignment_row \<Rightarrow> uuid option) \<Rightarrow> datetime \<Rightarrow> metrics_assignment_row list \<Rightarrow> uuid \<Rightarrow>
     metrics_assignment_row option" where
  "latest key window_end assignments k =
     fold keep_latest (filter (eligible key window_end k) assignments) None"

text \<open>An assignment in effect: eligible, and no other eligible one takes precedence.\<close>

definition in_effect ::
    "(metrics_assignment_row \<Rightarrow> uuid option) \<Rightarrow> datetime \<Rightarrow> metrics_assignment_row set \<Rightarrow> uuid \<Rightarrow>
     metrics_assignment_row \<Rightarrow> bool" where
  "in_effect key window_end assignments k a \<longleftrightarrow>
     a \<in> assignments \<and> eligible key window_end k a \<and>
     (\<forall>b\<in>assignments. eligible key window_end k b \<longrightarrow> precedence b \<le> precedence a)"

lemma keep_latest_simps [simp]:
  "keep_latest a None = Some a"
  "keep_latest a (Some c) = Some (if precedence c < precedence a then a else c)"
  by (simp_all add: keep_latest_def)

lemma keep_latest_fold:
  "fold keep_latest xs (Some c) = Some a \<Longrightarrow>
     a \<in> insert c (set xs) \<and> (\<forall>b\<in>insert c (set xs). precedence b \<le> precedence a)"
proof (induction xs arbitrary: c)
  case Nil
  then show ?case by simp
next
  case (Cons x xs)
  let ?d = "if precedence c < precedence x then x else c"
  from Cons.prems have "fold keep_latest xs (Some ?d) = Some a"
    by simp
  from Cons.IH [OF this] show ?case by (auto split: if_splits)
qed

lemma keep_latest_fold_Some: "fold keep_latest xs (Some c) \<noteq> None"
  by (induction xs arbitrary: c) auto

lemma latest_NoneI: "latest key we as k = None \<longleftrightarrow> (\<forall>a\<in>set as. \<not> eligible key we k a)"
proof (cases "filter (eligible key we k) as")
  case Nil
  then show ?thesis by (simp add: latest_def filter_empty_conv)
next
  case (Cons x xs)
  then have "x \<in> set as" and "eligible key we k x"
    using filter_set [of "eligible key we k" as] by auto
  with Cons show ?thesis by (auto simp: latest_def keep_latest_fold_Some)
qed

lemma latest_SomeD:
  assumes "latest key we as k = Some a"
  shows "in_effect key we (set as) k a"
proof (cases "filter (eligible key we k) as")
  case Nil
  with assms show ?thesis by (simp add: latest_def)
next
  case (Cons x xs)
  with assms have "fold keep_latest xs (Some x) = Some a" by (simp add: latest_def)
  from keep_latest_fold [OF this]
  have "a \<in> set (filter (eligible key we k) as) \<and>
      (\<forall>b\<in>set (filter (eligible key we k) as). precedence b \<le> precedence a)"
    using Cons by simp
  then show ?thesis by (auto simp: in_effect_def)
qed

lemma in_effect_unique:
  assumes "in_effect key we (set as) k a" and "in_effect key we (set as) k b"
    and "distinct (map ma_id as)"
  shows "a = b"
proof -
  have "precedence a = precedence b" using assms by (auto simp: in_effect_def intro: antisym)
  then have "ma_id a = ma_id b" by (simp add: precedence_def)
  with assms show ?thesis by (auto simp: in_effect_def distinct_map inj_on_def)
qed

lemma latest_Some_iff:
  assumes "distinct (map ma_id as)"
  shows "latest key we as k = Some a \<longleftrightarrow> in_effect key we (set as) k a"
proof
  assume "in_effect key we (set as) k a"
  moreover then obtain b where "latest key we as k = Some b"
    using latest_NoneI [of key we as k] by (cases "latest key we as k") (auto simp: in_effect_def)
  ultimately show "latest key we as k = Some a"
    using in_effect_unique [OF _ _ assms] latest_SomeD by metis
qed (rule latest_SomeD)

section \<open>The loops\<close>

text \<open>A dictionary of winners: one entry per key, aware times.\<close>

definition winners_ok :: "winners \<Rightarrow> bool" where
  "winners_ok d \<longleftrightarrow> distinct (map fst d) \<and> (\<forall>(k, a)\<in>set d. aware (ma_assigned_at a))"

lemma winners_ok_Nil [simp]: "winners_ok []"
  by (simp add: winners_ok_def)

lemma winners_ok_update:
  assumes "winners_ok d" and "aware (ma_assigned_at a)"
  shows "winners_ok (AList.update k a d)"
proof -
  have "set (AList.update k a d) \<subseteq> insert (k, a) (set d)" by (induction d) auto
  with assms show ?thesis by (auto simp: winners_ok_def distinct_update)
qed

lemma consider_winner_ok:
  assumes "winners_ok d" and "aware (ma_assigned_at a)"
  obtains d' where "consider_winner d key a = Inr d'" and "winners_ok d'"
    and "map_of d' = (\<lambda>k. if key = Some k then keep_latest a (map_of d k) else map_of d k)"
proof (cases key)
  case None
  with assms that show ?thesis by (simp add: consider_winner_def)
next
  case (Some k)
  show ?thesis
  proof (cases "map_of d k")
    case None
    with Some assms that [of "AList.update k a d"] show ?thesis
      by (auto simp: consider_winner_def winners_ok_update update_conv' fun_eq_iff)
  next
    case cur: (Some c)
    then have "aware (ma_assigned_at c)"
      using assms by (auto simp: winners_ok_def dest: map_of_SomeD)
    with assms have "assignment_precedence a c = Inr (precedence c < precedence a)"
      by (rule_tac assignment_precedence_aware)
    with Some cur assms that [of "if precedence c < precedence a then AList.update k a d else d"]
    show ?thesis
      by (auto simp: consider_winner_def winners_ok_update update_conv' fun_eq_iff)
  qed
qed

lemma later_than_aware:
  "aware a \<Longrightarrow> aware b \<Longrightarrow> later_than a b = Inr (b < a)"
  by (simp add: later_than_def)

text \<open>
  The contract of a loop over assignments: from a dictionary of winners it returns one that has,
  for each key, the latest eligible assignment seen.
\<close>

locale winner_loop =
  fixes key :: "metrics_assignment_row \<Rightarrow> uuid option"
    and loop :: "datetime \<Rightarrow> metrics_assignment_row list \<Rightarrow> winners \<Rightarrow> metrics_error + winners"
  assumes loop_Nil: "loop window_end [] d = Inr d"
    and loop_late: "\<lbrakk>aware window_end; aware (ma_assigned_at a); window_end < ma_assigned_at a\<rbrakk> \<Longrightarrow>
      loop window_end (a # assignments) d = loop window_end assignments d"
    and loop_Cons: "\<lbrakk>aware window_end; aware (ma_assigned_at a); ma_assigned_at a \<le> window_end\<rbrakk> \<Longrightarrow>
      loop window_end (a # assignments) d =
        bindE (consider_winner d (key a) a) (loop window_end assignments)"
begin

lemma loop_fold:
  assumes "aware window_end" and "\<forall>a\<in>set assignments. aware (ma_assigned_at a)"
    and "winners_ok d"
  shows "\<exists>d'. loop window_end assignments d = Inr d' \<and> winners_ok d' \<and>
    map_of d' = (\<lambda>k. fold keep_latest (filter (eligible key window_end k) assignments) (map_of d k))"
  using assms
proof (induction assignments arbitrary: d)
  case Nil
  then show ?case by (simp add: loop_Nil)
next
  case (Cons a assignments)
  show ?case
  proof (cases "ma_assigned_at a \<le> window_end")
    case False
    then have "\<not> eligible key window_end k a" for k by (simp add: eligible_def)
    with Cons False show ?thesis by (simp add: loop_late not_le)
  next
    case True
    obtain d' where d': "consider_winner d (key a) a = Inr d'" "winners_ok d'"
      "map_of d' = (\<lambda>k. if key a = Some k then keep_latest a (map_of d k) else map_of d k)"
      using consider_winner_ok [of d a "key a"] Cons.prems by auto
    then show ?thesis
      using Cons.IH [of d'] Cons.prems True by (auto simp: loop_Cons eligible_def [of _ _ _ a] fun_eq_iff)
  qed
qed

lemma loop_latest:
  assumes "aware window_end" and "\<forall>a\<in>set assignments. aware (ma_assigned_at a)"
  obtains d where "loop window_end assignments [] = Inr d" and "distinct (map fst d)"
    and "\<And>k. map_of d k = latest key window_end assignments k"
  using loop_fold [OF assms, of "[]"] by (auto simp: latest_def winners_ok_def)

end

interpretation cases: winner_loop ma_sales_case_id winning_case_assignments
  by unfold_locales (simp_all add: later_than_aware not_le [symmetric])

text \<open>The joint loop of \<open>attribute_threads_to_managers\<close> is the product of two such loops.\<close>

fun winning_thread_assignments ::
    "datetime \<Rightarrow> metrics_assignment_row list \<Rightarrow> winners \<Rightarrow> metrics_error + winners" where
  "winning_thread_assignments window_end [] d = Inr d"
| "winning_thread_assignments window_end (a # assignments) d =
     bindE (later_than (ma_assigned_at a) window_end) (\<lambda>late.
     if late then winning_thread_assignments window_end assignments d
     else
       bindE (consider_winner d (ma_conversation_thread_id a) a) (\<lambda>d'.
       winning_thread_assignments window_end assignments d'))"

interpretation threads: winner_loop ma_conversation_thread_id winning_thread_assignments
  by unfold_locales (simp_all add: later_than_aware not_le [symmetric])

lemma winning_assignments_product:
  assumes "winning_thread_assignments window_end assignments bt = Inr bt'"
    and "winning_case_assignments window_end assignments bc = Inr bc'"
  shows "winning_assignments window_end assignments bt bc = Inr (bt', bc')"
  using assms
  by (induction assignments arbitrary: bt bc) (auto simp: result_simps split: if_splits)

lemma winning_assignments_latest:
  assumes "aware window_end" and "\<forall>a\<in>set assignments. aware (ma_assigned_at a)"
  obtains bt bc where "winning_assignments window_end assignments [] [] = Inr (bt, bc)"
    and "\<And>t. map_of bt t = latest ma_conversation_thread_id window_end assignments t"
    and "\<And>c. map_of bc c = latest ma_sales_case_id window_end assignments c"
  using threads.loop_latest [OF assms] cases.loop_latest [OF assms] winning_assignments_product
  by metis

section \<open>Threads and their managers\<close>

lemma update_fresh: "k \<notin> set (map fst d) \<Longrightarrow> AList.update k v d = d @ [(k, v)]"
  by (induction d) auto

lemma fold_update_fresh:
  "distinct (map mt_id ts @ map fst d) \<Longrightarrow>
     fold (\<lambda>t. AList.update (mt_id t) t) ts d = d @ map (\<lambda>t. (mt_id t, t)) ts"
  by (induction ts arbitrary: d) (auto simp: update_fresh)

lemma threads_by_id_distinct:
  "distinct (map mt_id threads) \<Longrightarrow> threads_by_id threads = map (\<lambda>t. (mt_id t, t)) threads"
  by (simp add: threads_by_id_def fold_update_fresh)

text \<open>The manager of one thread, given the winners.\<close>

definition thread_manager :: "winners \<Rightarrow> winners \<Rightarrow> metrics_thread_row \<Rightarrow> uuid \<Rightarrow> uuid option" where
  "thread_manager bt bc t tid =
     (case map_of bt tid of Some a \<Rightarrow> Some (ma_manager_user_id a)
      | None \<Rightarrow> map_option ma_manager_user_id (Option.bind (mt_sales_case_id t) (map_of bc)))"

lemma attribute_loop_step:
  "attribute_loop bt bc ((tid, t) # items) acc =
     attribute_loop bt bc items
       (case thread_manager bt bc t tid of None \<Rightarrow> acc | Some m \<Rightarrow> AList.update tid m acc)"
  by (auto simp: thread_manager_def split: option.splits)

lemma attribute_loop_lookup:
  assumes "distinct (map mt_id ts)"
  shows "map_of (attribute_loop bt bc (map (\<lambda>t. (mt_id t, t)) ts) acc) tid =
     (case find (\<lambda>t. mt_id t = tid \<and> thread_manager bt bc t tid \<noteq> None) ts of
        Some t \<Rightarrow> thread_manager bt bc t tid | None \<Rightarrow> map_of acc tid)"
  using assms
proof (induction ts arbitrary: acc)
  case Nil
  then show ?case by simp
next
  case (Cons t ts)
  have "find (\<lambda>u. mt_id u = mt_id t \<and> P u) ts = None" for P
    using Cons.prems by (auto simp: find_None_iff image_iff)
  with Cons show ?case
    by (auto simp: attribute_loop_step update_conv' simp del: attribute_loop.simps(2)
        split: option.splits)
qed

lemma attribute_loop_distinct:
  "distinct (map fst acc) \<Longrightarrow> distinct (map fst (attribute_loop bt bc items acc))"
proof (induction items arbitrary: acc)
  case (Cons p items)
  obtain tid t where "p = (tid, t)" by (cases p)
  with Cons show ?case
    by (auto simp: attribute_loop_step distinct_update simp del: attribute_loop.simps(2)
        split: option.splits)
qed simp

lemma find_keyed:
  assumes "distinct (map f xs)"
  shows "(case find (\<lambda>x. f x = k \<and> g x \<noteq> None) xs of Some x \<Rightarrow> g x | None \<Rightarrow> None) = Some m \<longleftrightarrow>
    (\<exists>x\<in>set xs. f x = k \<and> g x = Some m)"
  using assms by (induction xs) (auto simp: image_iff find_None_iff)

text \<open>The documented rule: who manages a thread at a cutoff.\<close>

definition manages ::
    "metrics_thread_row list \<Rightarrow> metrics_assignment_row list \<Rightarrow> datetime \<Rightarrow> uuid \<Rightarrow> uuid \<Rightarrow> bool" where
  "manages threads assignments window_end tid m \<longleftrightarrow>
     (\<exists>t\<in>set threads. mt_id t = tid \<and>
        ((\<exists>a. in_effect ma_conversation_thread_id window_end (set assignments) tid a \<and>
               ma_manager_user_id a = m) \<or>
         (\<forall>a\<in>set assignments. \<not> eligible ma_conversation_thread_id window_end tid a) \<and>
         (\<exists>c a. mt_sales_case_id t = Some c \<and>
               in_effect ma_sales_case_id window_end (set assignments) c a \<and>
               ma_manager_user_id a = m)))"

lemma manages_single:
  "manages threads as we tid m \<longleftrightarrow> (\<exists>t\<in>set threads. mt_id t = tid \<and> manages [t] as we (mt_id t) m)"
  unfolding manages_def by (intro bex_cong refl) auto

lemma manages_one:
  "manages [t] as we (mt_id t) m \<longleftrightarrow>
     (\<exists>a. in_effect ma_conversation_thread_id we (set as) (mt_id t) a \<and> ma_manager_user_id a = m) \<or>
     (\<forall>a\<in>set as. \<not> eligible ma_conversation_thread_id we (mt_id t) a) \<and>
     (\<exists>c a. mt_sales_case_id t = Some c \<and> in_effect ma_sales_case_id we (set as) c a \<and>
        ma_manager_user_id a = m)"
  by (simp add: manages_def)

lemma attribute_threads_manages:
  assumes "aware window_end" and "\<forall>a\<in>set assignments. aware (ma_assigned_at a)"
    and "distinct (map ma_id assignments)" and "distinct (map mt_id threads)"
  obtains attributed
  where "attribute_threads_to_managers threads assignments window_end = Inr attributed"
    and "distinct (map fst attributed)"
    and "\<And>tid m. map_of attributed tid = Some m \<longleftrightarrow> manages threads assignments window_end tid m"
proof -
  obtain bt bc where loop: "winning_assignments window_end assignments [] [] = Inr (bt, bc)"
    and bt: "\<And>t. map_of bt t = latest ma_conversation_thread_id window_end assignments t"
    and bc: "\<And>c. map_of bc c = latest ma_sales_case_id window_end assignments c"
    using winning_assignments_latest [OF assms(1,2)] by blast
  let ?r = "attribute_loop bt bc (threads_by_id threads) []"
  have tm: "thread_manager bt bc t (mt_id t) = Some m \<longleftrightarrow>
      manages [t] assignments window_end (mt_id t) m" for t m
    unfolding thread_manager_def manages_def bt bc
    by (auto simp: latest_NoneI latest_Some_iff [OF assms(3)] bind_eq_Some_conv
        dest: in_effect_unique [OF _ _ assms(3)] split: option.splits)
      (auto simp: in_effect_def)
  have "map_of ?r tid = Some m \<longleftrightarrow> (\<exists>t\<in>set threads. mt_id t = tid \<and> thread_manager bt bc t tid = Some m)"
    for tid m
    unfolding threads_by_id_distinct [OF assms(4)] attribute_loop_lookup [OF assms(4)]
      map_of.simps(1) by (rule find_keyed [OF assms(4)])
  then have "map_of ?r tid = Some m \<longleftrightarrow> manages threads assignments window_end tid m" for tid m
    unfolding manages_single [of threads] using tm by metis
  moreover have "distinct (map fst ?r)" by (simp add: attribute_loop_distinct)
  ultimately show ?thesis
    using that loop by (simp add: attribute_threads_to_managers_def)
qed

text \<open>The rows the loader hands over: aware times, primary keys.\<close>

definition attribution_rows_ok :: "metrics_source_data \<Rightarrow> bool" where
  "attribution_rows_ok sd \<longleftrightarrow>
     list_all (\<lambda>a. aware (ma_assigned_at a)) (sd_assignments sd) \<and>
     distinct (map ma_id (sd_assignments sd)) \<and> distinct (map mt_id (sd_threads sd))"

lemma map_of_threads_by_id:
  "distinct (map mt_id threads) \<Longrightarrow>
     map_of (threads_by_id threads) tid = Some t \<longleftrightarrow> t \<in> set threads \<and> mt_id t = tid"
  by (auto simp: threads_by_id_distinct comp_def)

lemma thread_ids_for_manager_iff:
  "distinct (map fst d) \<Longrightarrow> tid \<in> thread_ids_for_manager d m \<longleftrightarrow> map_of d tid = Some m"
  by (force simp: thread_ids_for_manager_def)

lemma winners_of_manager:
  assumes "distinct (map fst d)"
  shows "set (map fst (filter (\<lambda>(c, a). ma_manager_user_id a = m) d)) =
    {c. \<exists>a. map_of d c = Some a \<and> ma_manager_user_id a = m}"
  using assms by force

lemma resolve_manager_metric_scope_eq:
  assumes "aware window_end" and ok: "attribution_rows_ok sd"
  shows "resolve_manager_metric_scope sd m window_end = Inr
    \<lparr>ms_thread_ids = {tid. manages (sd_threads sd) (sd_assignments sd) window_end tid m},
     ms_sales_case_ids =
       {c. \<exists>a. in_effect ma_sales_case_id window_end (set (sd_assignments sd)) c a \<and>
              ma_manager_user_id a = m} \<union>
       {c. \<exists>t\<in>set (sd_threads sd). mt_sales_case_id t = Some c \<and>
              manages (sd_threads sd) (sd_assignments sd) window_end (mt_id t) m}\<rparr>"
proof -
  let ?T = "sd_threads sd" and ?A = "sd_assignments sd"
  have rows: "\<forall>a\<in>set ?A. aware (ma_assigned_at a)" "distinct (map ma_id ?A)" "distinct (map mt_id ?T)"
    using ok by (auto simp: attribution_rows_ok_def list_all_iff)
  obtain attributed where at: "attribute_threads_to_managers ?T ?A window_end = Inr attributed"
    and dist: "distinct (map fst attributed)"
    and man: "\<And>tid m. map_of attributed tid = Some m \<longleftrightarrow> manages ?T ?A window_end tid m"
    using attribute_threads_manages [OF assms(1) rows] by blast
  obtain d where d: "winning_case_assignments window_end ?A [] = Inr d" "distinct (map fst d)"
    and lat: "\<And>k. map_of d k = latest ma_sales_case_id window_end ?A k"
    using cases.loop_latest [OF assms(1) rows(1)] by blast
  have tids: "thread_ids_for_manager attributed m = {tid. manages ?T ?A window_end tid m}"
    using thread_ids_for_manager_iff [OF dist] man by blast
  have own: "set (map fst (filter (\<lambda>(c, a). ma_manager_user_id a = m) d)) =
      {c. \<exists>a. in_effect ma_sales_case_id window_end (set ?A) c a \<and> ma_manager_user_id a = m}"
    unfolding winners_of_manager [OF d(2)] lat latest_Some_iff [OF rows(2)] ..
  have via: "(\<Union>tid\<in>{tid. manages ?T ?A window_end tid m}.
        case map_of (threads_by_id ?T) tid of None \<Rightarrow> {} | Some t \<Rightarrow> set_option (mt_sales_case_id t)) =
      {c. \<exists>t\<in>set ?T. mt_sales_case_id t = Some c \<and> manages ?T ?A window_end (mt_id t) m}"
    using map_of_threads_by_id [OF rows(3)] by (fastforce split: option.splits)
  show ?thesis
    unfolding resolve_manager_metric_scope_def
    by (simp only: at d bindE_simps Let_def tids own via)
qed

section \<open>Properties\<close>

text \<open>Two threads of one sales case: one assigned directly, the other through the case.\<close>

definition example_assignment ::
    "uuid \<Rightarrow> uuid \<Rightarrow> uuid option \<Rightarrow> uuid option \<Rightarrow> int \<Rightarrow> metrics_assignment_row" where
  "example_assignment i m tid c at =
     \<lparr>ma_id = i, ma_tenant_id = 1, ma_manager_user_id = m, ma_conversation_thread_id = tid,
      ma_sales_case_id = c, ma_assigned_at = Aware at\<rparr>"

definition example_source :: metrics_source_data where
  "example_source =
     \<lparr>sd_messages = [],
      sd_threads = [\<lparr>mt_id = 10, mt_tenant_id = 1, mt_sales_case_id = Some 20\<rparr>,
                    \<lparr>mt_id = 11, mt_tenant_id = 1, mt_sales_case_id = Some 20\<rparr>],
      sd_delivery_events = [], sd_sales_cases = [], sd_crm_outcomes = [],
      sd_assignments = [example_assignment 3 7 (Some 10) None 50,
                        example_assignment 2 8 None (Some 20) 60,
                        example_assignment 4 7 None (Some 20) 40],
      sd_watermark = Aware 100\<rparr>"

lemma example_source_ok: "attribution_rows_ok example_source"
  by code_simp

text \<open>
  The documented rule for sales cases (\<open>docs/METRICS.md\<close> and the docstring of the module): a case
  belongs to the manager of its latest eligible assignment. The code adds the case of every thread
  attributed to the manager.
\<close>

definition documented_cases :: "metrics_source_data \<Rightarrow> datetime \<Rightarrow> uuid \<Rightarrow> uuid set" where
  "documented_cases sd window_end m =
     {c. \<exists>a. in_effect ma_sales_case_id window_end (set (sd_assignments sd)) c a \<and> ma_manager_user_id a = m}"

definition cases_of_threads :: "metrics_source_data \<Rightarrow> datetime \<Rightarrow> uuid \<Rightarrow> uuid set" where
  "cases_of_threads sd window_end m =
     {c. \<exists>t\<in>set (sd_threads sd). mt_sales_case_id t = Some c \<and>
           manages (sd_threads sd) (sd_assignments sd) window_end (mt_id t) m}"

lemma added_case_thread_assigned:
  assumes "distinct (map mt_id (sd_threads sd))"
    and "c \<in> cases_of_threads sd window_end m - documented_cases sd window_end m"
  shows "\<exists>t\<in>set (sd_threads sd). \<exists>a. mt_sales_case_id t = Some c \<and> ma_manager_user_id a = m \<and>
    in_effect ma_conversation_thread_id window_end (set (sd_assignments sd)) (mt_id t) a"
proof -
  obtain t where t: "t \<in> set (sd_threads sd)" "mt_sales_case_id t = Some c"
    and m: "manages (sd_threads sd) (sd_assignments sd) window_end (mt_id t) m"
    using assms(2) by (auto simp: cases_of_threads_def)
  have "u = t" if "u \<in> set (sd_threads sd)" "mt_id u = mt_id t" for u
    using that t(1) assms(1) by (auto simp: distinct_map inj_on_def)
  then have "manages [t] (sd_assignments sd) window_end (mt_id t) m"
    using m unfolding manages_single [of "sd_threads sd"] by metis
  then show ?thesis
    using t assms(2) unfolding manages_one by (auto simp: documented_cases_def)
qed

text \<open>
  C30. The scope of a manager and the documented rule. The threads of the scope are exactly those of
  the rule: the latest eligible thread-level assignment names the manager, or there is none and the
  latest eligible assignment of the thread's sales case does (an assignment is eligible up to the
  cutoff, the later one takes precedence, and the greater identifier breaks ties). The sales cases of
  the scope are those of the rule and, beyond it, the cases of the manager's threads; a case is added
  only through a thread that is assigned to the manager itself.
\<close>

theorem manager_scope_follows_rule:
  assumes "aware window_end" and "attribution_rows_ok sd"
  shows "\<exists>scope. resolve_manager_metric_scope sd m window_end = Inr scope \<and>
    ms_thread_ids scope = {tid. manages (sd_threads sd) (sd_assignments sd) window_end tid m} \<and>
    ms_sales_case_ids scope = documented_cases sd window_end m \<union> cases_of_threads sd window_end m \<and>
    (\<forall>c \<in> ms_sales_case_ids scope - documented_cases sd window_end m.
       \<exists>t\<in>set (sd_threads sd). \<exists>a. mt_sales_case_id t = Some c \<and> ma_manager_user_id a = m \<and>
         in_effect ma_conversation_thread_id window_end (set (sd_assignments sd)) (mt_id t) a)"
proof -
  have "distinct (map mt_id (sd_threads sd))" using assms(2) by (simp add: attribution_rows_ok_def)
  then show ?thesis
    using resolve_manager_metric_scope_eq [OF assms, of m] added_case_thread_assigned [of sd _ window_end m]
    unfolding documented_cases_def [symmetric] cases_of_threads_def [symmetric] by auto
qed

theorem manager_scope_follows_rule_witness:
  "\<exists>scope. resolve_manager_metric_scope example_source 7 (Aware 100) = Inr scope \<and>
    ms_thread_ids scope =
      {tid. manages (sd_threads example_source) (sd_assignments example_source) (Aware 100) tid 7} \<and>
    ms_sales_case_ids scope =
      documented_cases example_source (Aware 100) 7 \<union> cases_of_threads example_source (Aware 100) 7"
  using manager_scope_follows_rule [of "Aware 100" example_source 7] example_source_ok by auto

lemma manages_unique:
  assumes "distinct (map ma_id as)" and "distinct (map mt_id ts)"
    and "manages ts as we tid m" and "manages ts as we tid m'"
  shows "m = m'"
proof -
  obtain t t' where t: "t \<in> set ts" "mt_id t = tid" "manages [t] as we (mt_id t) m"
    and t': "t' \<in> set ts" "mt_id t' = tid" "manages [t'] as we (mt_id t') m'"
    using assms(3,4) unfolding manages_single [of ts] by blast
  have "t = t'" using t(1,2) t'(1,2) assms(2) by (auto simp: distinct_map inj_on_def)
  moreover have "\<exists>a\<in>set as. eligible key we k a" if "in_effect key we (set as) k a" for key k a
    using that by (auto simp: in_effect_def)
  ultimately show ?thesis
    using t(3) t'(3) in_effect_unique [OF _ _ assms(1)] unfolding manages_one
    by (metis option.inject)
qed

text \<open>
  No thread counts for two managers: the scopes of different managers share no thread, every
  thread in a scope is one of the tenant's, and a thread is in nobody's scope exactly when neither
  it nor its sales case has an eligible assignment.
\<close>

theorem manager_scopes_are_disjoint:
  assumes "aware window_end" and "attribution_rows_ok sd"
  shows "\<exists>scope_of. (\<forall>m. resolve_manager_metric_scope sd m window_end = Inr (scope_of m)) \<and>
    (\<forall>m m'. m \<noteq> m' \<longrightarrow> ms_thread_ids (scope_of m) \<inter> ms_thread_ids (scope_of m') = {}) \<and>
    (\<forall>m. ms_thread_ids (scope_of m) \<subseteq> set (map mt_id (sd_threads sd))) \<and>
    (\<forall>t\<in>set (sd_threads sd).
       (\<forall>m. mt_id t \<notin> ms_thread_ids (scope_of m)) \<longleftrightarrow>
       (\<forall>a\<in>set (sd_assignments sd).
          \<not> eligible ma_conversation_thread_id window_end (mt_id t) a \<and>
          (\<forall>c. mt_sales_case_id t = Some c \<longrightarrow> \<not> eligible ma_sales_case_id window_end c a)))"
proof -
  let ?T = "sd_threads sd" and ?A = "sd_assignments sd"
  have dist: "distinct (map ma_id ?A)" "distinct (map mt_id ?T)"
    using assms(2) by (auto simp: attribution_rows_ok_def)
  define scope_of where "scope_of m = projr (resolve_manager_metric_scope sd m window_end)" for m
  have res: "resolve_manager_metric_scope sd m window_end = Inr (scope_of m)" for m
    using resolve_manager_metric_scope_eq [OF assms, of m] by (simp add: scope_of_def)
  have ids: "ms_thread_ids (scope_of m) = {tid. manages ?T ?A window_end tid m}" for m
    using resolve_manager_metric_scope_eq [OF assms, of m] by (simp add: scope_of_def)
  have unassigned: "(\<forall>m. \<not> manages ?T ?A window_end (mt_id t) m) \<longleftrightarrow>
      (\<forall>a\<in>set ?A. \<not> eligible ma_conversation_thread_id window_end (mt_id t) a \<and>
        (\<forall>c. mt_sales_case_id t = Some c \<longrightarrow> \<not> eligible ma_sales_case_id window_end c a))"
    if t: "t \<in> set ?T" for t
  proof -
    have eff: "(\<exists>a. in_effect key window_end (set ?A) k a) \<longleftrightarrow> (\<exists>a\<in>set ?A. eligible key window_end k a)"
      for key k
      using latest_NoneI [of key window_end ?A k] latest_Some_iff [OF dist(1), of key window_end k]
      by (cases "latest key window_end ?A k") (auto simp: in_effect_def)
    have only: "u = t" if "u \<in> set ?T" "mt_id u = mt_id t" for u
      using that t dist(2) by (auto simp: distinct_map inj_on_def)
    have "manages ?T ?A window_end (mt_id t) m \<longleftrightarrow> manages [t] ?A window_end (mt_id t) m" for m
      unfolding manages_single [of ?T] using t only by metis
    then have "(\<forall>m. \<not> manages ?T ?A window_end (mt_id t) m) \<longleftrightarrow>
        \<not> (\<exists>a. in_effect ma_conversation_thread_id window_end (set ?A) (mt_id t) a) \<and>
        ((\<forall>a\<in>set ?A. \<not> eligible ma_conversation_thread_id window_end (mt_id t) a) \<longrightarrow>
         (\<forall>c. mt_sales_case_id t = Some c \<longrightarrow>
            \<not> (\<exists>a. in_effect ma_sales_case_id window_end (set ?A) c a)))"
      unfolding manages_one by blast
    then show ?thesis unfolding eff by blast
  qed
  have "ms_thread_ids (scope_of m) \<subseteq> set (map mt_id ?T)" for m
    unfolding ids by (auto simp: manages_def)
  moreover have "ms_thread_ids (scope_of m) \<inter> ms_thread_ids (scope_of m') = {}" if "m \<noteq> m'" for m m'
    unfolding ids using manages_unique [OF dist] that by blast
  ultimately show ?thesis
    using res unassigned by (intro exI [of _ scope_of]) (simp add: ids)
qed

theorem manager_scopes_are_disjoint_witness:
  "\<exists>scope_of. (\<forall>m. resolve_manager_metric_scope example_source m (Aware 100) = Inr (scope_of m)) \<and>
     ms_thread_ids (scope_of 7) \<inter> ms_thread_ids (scope_of 8) = {}"
proof -
  have "(7::uuid) \<noteq> 8" by simp
  with manager_scopes_are_disjoint [of "Aware 100" example_source] example_source_ok
  show ?thesis by (metis aware.simps(2))
qed

text \<open>
  Sales cases are not exclusive: the case of the example is held by manager 8, and is also in the
  scope of manager 7, who holds one of its threads.
\<close>

lemma sales_case_in_two_scopes:
  "resolve_manager_metric_scope example_source 7 (Aware 100) =
     Inr \<lparr>ms_thread_ids = {10}, ms_sales_case_ids = {20}\<rparr>"
  "resolve_manager_metric_scope example_source 8 (Aware 100) =
     Inr \<lparr>ms_thread_ids = {11}, ms_sales_case_ids = {20}\<rparr>"
  by code_simp+

end
