(* ===== verification/Metrics_Correctness.thy ===== *)
theory Metrics_Correctness
  imports Metrics_Attribution
begin

text \<open>
  Correctness of the metrics engine. The response statistics that the engine gets by grouping,
  sorting and scanning are equal to a specification over the sets of messages of each thread;
  from this follow the meaning of the response metrics, the identities between the values of a
  snapshot, the independence of a snapshot from the order of its source rows and the conditions
  under which a calculation succeeds.
\<close>

section \<open>First responses\<close>

text \<open>The latency of the first response in a thread, from the set of its messages.\<close>

definition first_response :: "metrics_message_row set \<Rightarrow> int option" where
  "first_response S =
     (if \<not> (\<exists>m\<in>S. is_customer_inbound m) then None
      else let asked = Min (mm_received_at ` {m\<in>S. is_customer_inbound m});
               answers = {m\<in>S. is_manager_outbound m \<and> asked < mm_received_at m} in
        if answers = {} then None
        else Some ((instant (Min (mm_received_at ` answers)) - instant asked) div 1000000))"

definition mixed_times :: "metrics_message_row set \<Rightarrow> bool" where
  "mixed_times S \<longleftrightarrow> (\<exists>m\<in>S. aware (mm_received_at m)) \<and> (\<exists>m\<in>S. \<not> aware (mm_received_at m))"

lemma find_sort_key:
  assumes "find P (sort_key f xs) = Some x"
  shows "x \<in> set xs \<and> P x \<and> (\<forall>y\<in>set xs. P y \<longrightarrow> f x \<le> f y)"
proof -
  let ?s = "sort_key f xs"
  obtain i where i: "i < length ?s" "P (?s ! i)" "x = ?s ! i" "\<forall>j<i. \<not> P (?s ! j)"
    using assms by (auto simp: find_Some_iff)
  have "f x \<le> f y" if "y \<in> set xs" "P y" for y
  proof -
    obtain j where j: "j < length ?s" "y = ?s ! j" using \<open>y \<in> set xs\<close> by (metis in_set_conv_nth set_sort)
    with i \<open>P y\<close> have "i \<le> j" by (metis not_le)
    then show ?thesis
      using sorted_nth_mono [OF sorted_sort_key [of f xs], of i j] i j by simp
  qed
  moreover have "x \<in> set xs" using i by (metis nth_mem set_sort)
  ultimately show ?thesis using i by blast
qed

lemma find_sort_key_None: "find P (sort_key f xs) = None \<longleftrightarrow> (\<forall>x\<in>set xs. \<not> P x)"
  by (auto simp: find_None_iff)

lemma find_earliest:
  assumes "find P (sort_key (\<lambda>m. (mm_received_at m, uuid_str (mm_id m))) ms) = Some x"
  shows "mm_received_at x = Min (mm_received_at ` {m\<in>set ms. P m})"
proof (rule Min_eqI [symmetric])
  note x = find_sort_key [OF assms]
  show "mm_received_at x \<le> t" if "t \<in> mm_received_at ` {m\<in>set ms. P m}" for t
    using that x by (auto simp: less_eq_prod_def)
  show "mm_received_at x \<in> mm_received_at ` {m\<in>set ms. P m}" using x by blast
qed simp

lemma response_loop_step:
  "response_loop ((tid, ms) # items) responded latencies =
     (if mixed_times (set ms) then Inl mixed_comparison
      else case first_response (set ms) of None \<Rightarrow> response_loop items responded latencies
        | Some l \<Rightarrow> response_loop items (insert tid responded) (latencies @ [l]))"
proof (cases "mixed_times (set ms)")
  case True
  then show ?thesis by (simp add: order_messages_def mixed_times_def)
next
  case False
  define s where "s = sort_key (\<lambda>m. (mm_received_at m, uuid_str (mm_id m))) ms"
  have ord: "order_messages ms = Inr s"
    using False by (auto simp: order_messages_def mixed_times_def s_def)
  show ?thesis
  proof (cases "find is_customer_inbound s")
    case None
    then have "first_response (set ms) = None"
      by (auto simp: s_def first_response_def find_sort_key_None)
    with None False ord show ?thesis by simp
  next
    case (Some i)
    let ?t0 = "mm_received_at i"
    let ?late = "\<lambda>m. is_manager_outbound m \<and> ?t0 < mm_received_at m"
    have t0: "?t0 = Min (mm_received_at ` {m\<in>set ms. is_customer_inbound m})"
      using Some find_earliest unfolding s_def by blast
    have ex: "\<exists>m\<in>set ms. is_customer_inbound m"
      using find_sort_key Some unfolding s_def by fast
    have swap: "(\<lambda>m. mm_received_at m > ?t0 \<and> is_manager_outbound m) = ?late" by auto
    show ?thesis
    proof (cases "find ?late s")
      case None
      then have "{m\<in>set ms. ?late m} = {}" by (auto simp: s_def find_sort_key_None)
      with ex t0 have "first_response (set ms) = None" by (simp add: first_response_def Let_def)
      with None Some False ord swap show ?thesis by simp
    next
      case r: (Some r)
      have r_min: "mm_received_at r = Min (mm_received_at ` {m\<in>set ms. ?late m})"
        using r find_earliest unfolding s_def by blast
      have r_in: "r \<in> set ms" "?late r" using r find_sort_key unfolding s_def by fast+
      then have "aware (mm_received_at r) = aware ?t0"
        using False find_sort_key Some unfolding s_def mixed_times_def by fast
      with r_in have "instant ?t0 < instant (mm_received_at r)"
        by (cases "mm_received_at r"; cases ?t0) auto
      moreover have "first_response (set ms) =
          Some ((instant (mm_received_at r) - instant ?t0) div 1000000)"
        using ex r_in t0 r_min by (auto simp: first_response_def Let_def)
      ultimately show ?thesis
        using r Some False ord swap
        by (simp add: int_total_seconds_def Let_def pos_imp_zdiv_neg_iff)
    qed
  qed
qed

lemma response_loop_eq:
  "response_loop items responded latencies =
     (if \<exists>(t, ms)\<in>set items. mixed_times (set ms) then Inl mixed_comparison
      else Inr (responded \<union> {t. \<exists>ms. (t, ms) \<in> set items \<and> first_response (set ms) \<noteq> None},
                latencies @ List.map_filter (\<lambda>(t, ms). first_response (set ms)) items))"
proof (induction items arbitrary: responded latencies)
  case Nil
  then show ?case by (simp add: map_filter_def)
next
  case (Cons p items)
  obtain t ms where "p = (t, ms)" by (cases p)
  with Cons.IH show ?case
    by (auto simp: response_loop_step map_filter_simps simp del: response_loop.simps(2)
        split: option.splits)
qed

section \<open>Grouping by thread\<close>

definition of_thread :: "metrics_message_row set \<Rightarrow> uuid \<Rightarrow> metrics_message_row set" where
  "of_thread S t = {m\<in>S. mm_conversation_thread_id m = t}"

lemma map_default_entries:
  assumes "distinct (map fst d)"
  shows "(t, l) \<in> set (AList.map_default k v f d) \<longleftrightarrow>
    (t \<noteq> k \<and> (t, l) \<in> set d) \<or>
    (t = k \<and> (\<exists>l0. (k, l0) \<in> set d \<and> l = f l0)) \<or> (t = k \<and> k \<notin> set (map fst d) \<and> l = v)"
  using assms by (induction d) (auto simp: image_iff)

lemma map_default_keys:
  "set (map fst (AList.map_default k v f d)) = insert k (set (map fst d))"
  "distinct (map fst d) \<Longrightarrow> distinct (map fst (AList.map_default k v f d))"
  by (induction d) (auto simp: image_iff)

lemma messages_by_thread_spec:
  "distinct (map fst (messages_by_thread ms)) \<and>
   set (map fst (messages_by_thread ms)) = mm_conversation_thread_id ` set ms \<and>
   (\<forall>(t, l)\<in>set (messages_by_thread ms). set l = of_thread (set ms) t)"
proof (induction ms rule: rev_induct)
  case Nil
  then show ?case by (simp add: messages_by_thread_def)
next
  case (snoc m ms)
  let ?k = "mm_conversation_thread_id m" and ?d = "messages_by_thread ms"
  have d: "messages_by_thread (ms @ [m]) = AList.map_default ?k [m] (\<lambda>l. l @ [m]) ?d"
    by (simp add: messages_by_thread_def)
  have "set l = of_thread (set (ms @ [m])) t" if mem: "(t, l) \<in> set (messages_by_thread (ms @ [m]))" for t l
  proof -
    consider "t \<noteq> ?k" "(t, l) \<in> set ?d" | l0 where "t = ?k" "(?k, l0) \<in> set ?d" "l = l0 @ [m]"
      | "t = ?k" "?k \<notin> mm_conversation_thread_id ` set ms" "l = [m]"
      using mem unfolding d map_default_entries [OF snoc.IH [THEN conjunct1]]
        snoc.IH [THEN conjunct2, THEN conjunct1] by blast
    then show ?thesis
      by cases (use snoc.IH in \<open>auto simp: of_thread_def image_iff\<close>)
  qed
  moreover have "distinct (map fst (messages_by_thread (ms @ [m])))"
    unfolding d using snoc.IH by (intro map_default_keys(2)) blast
  moreover have "set (map fst (messages_by_thread (ms @ [m]))) = mm_conversation_thread_id ` set (ms @ [m])"
    unfolding d map_default_keys(1) using snoc.IH by simp
  ultimately show ?case by blast
qed

text \<open>The responded threads and their latencies, from the set of messages.\<close>

definition responded :: "metrics_message_row set \<Rightarrow> uuid set" where
  "responded S = {t. first_response (of_thread S t) \<noteq> None}"

definition latency_samples :: "metrics_message_row set \<Rightarrow> int multiset" where
  "latency_samples S =
     image_mset (\<lambda>t. the (first_response (of_thread S t))) (mset_set (responded S))"

lemma responded_subset: "responded S \<subseteq> mm_conversation_thread_id ` {m\<in>S. is_customer_inbound m}"
  by (auto simp: responded_def first_response_def of_thread_def split: if_splits)

lemma finite_responded [simp]: "finite S \<Longrightarrow> finite (responded S)"
  by (rule finite_subset [OF responded_subset]) simp

lemma map_filter_mset:
  assumes "distinct (map fst items)"
    and "\<forall>(t, ms)\<in>set items. first_response (set ms) = g t"
  shows "mset (List.map_filter (\<lambda>(t, ms). first_response (set ms)) items) =
    image_mset (\<lambda>t. the (g t)) (mset_set {t\<in>set (map fst items). g t \<noteq> None})"
  using assms
proof (induction items)
  case Nil
  then show ?case by (simp add: map_filter_simps)
next
  case (Cons p items)
  obtain t ms where p: "p = (t, ms)" by (cases p)
  have "{u\<in>set (map fst (p # items)). g u \<noteq> None} =
      (if g t = None then {} else {t}) \<union> {u\<in>set (map fst items). g u \<noteq> None}"
    using p by auto
  with Cons p show ?case by (auto simp: map_filter_simps split: option.splits)
qed

lemma response_stats:
  assumes "\<forall>t. \<not> mixed_times (of_thread (set ms) t)"
  obtains L where "response_loop (messages_by_thread ms) {} [] = Inr (responded (set ms), L)"
    and "mset L = latency_samples (set ms)"
proof -
  let ?d = "messages_by_thread ms"
  note spec = messages_by_thread_spec [of ms]
  have g: "\<forall>(t, l)\<in>set ?d. first_response (set l) = first_response (of_thread (set ms) t)"
    using spec by auto
  have "t \<in> mm_conversation_thread_id ` set ms" if "first_response (of_thread (set ms) t) \<noteq> None" for t
    using that responded_subset [of "set ms"] by (auto simp: responded_def)
  with spec have R: "{t\<in>set (map fst ?d). first_response (of_thread (set ms) t) \<noteq> None} = responded (set ms)"
    unfolding responded_def by blast
  have "{t. \<exists>l. (t, l) \<in> set ?d \<and> first_response (set l) \<noteq> None} = responded (set ms)"
    unfolding R [symmetric] using g by force
  moreover have "\<not> (\<exists>(t, l)\<in>set ?d. mixed_times (set l))" using assms spec by auto
  moreover have "mset (List.map_filter (\<lambda>(t, l). first_response (set l)) ?d) = latency_samples (set ms)"
    unfolding latency_samples_def R [symmetric] using spec g by (intro map_filter_mset) blast+
  ultimately show ?thesis using that by (simp add: response_loop_eq)
qed

lemma response_stats_mixed:
  assumes "mixed_times (of_thread (set ms) t)"
  shows "response_loop (messages_by_thread ms) {} [] = Inl mixed_comparison"
proof -
  have "t \<in> set (map fst (messages_by_thread ms))"
    using assms messages_by_thread_spec [of ms] by (auto simp: mixed_times_def of_thread_def)
  then obtain l where "(t, l) \<in> set (messages_by_thread ms)" by auto
  moreover from this have "set l = of_thread (set ms) t" using messages_by_thread_spec [of ms] by blast
  ultimately have "\<exists>(t, l)\<in>set (messages_by_thread ms). mixed_times (set l)" using assms by (intro bexI [of _ "(t, l)"]) simp_all
  then show ?thesis unfolding response_loop_eq by (rule if_P)
qed

section \<open>The values of a snapshot\<close>

text \<open>The values the engine builds, before their constructors check them.\<close>

definition plain :: "metric_key \<Rightarrow> int \<Rightarrow> metric_value" where
  "plain k v = \<lparr>mv_key = k, mv_value = v, mv_numerator = None, mv_denominator = None\<rparr>"

definition ratio :: "metric_key \<Rightarrow> int \<Rightarrow> int \<Rightarrow> metric_value list" where
  "ratio k num den =
     (case floor_basis_points num den of None \<Rightarrow> []
      | Some r \<Rightarrow> [\<lparr>mv_key = k, mv_value = r, mv_numerator = Some num, mv_denominator = Some den\<rparr>])"

definition optional :: "metric_key \<Rightarrow> int option \<Rightarrow> metric_value list" where
  "optional k v = (case v of None \<Rightarrow> [] | Some x \<Rightarrow> [plain k x])"

definition inbound_threads :: "metrics_message_row set \<Rightarrow> uuid set" where
  "inbound_threads S = mm_conversation_thread_id ` {m\<in>S. is_customer_inbound m}"

definition outcome_count :: "crm_outcome_type \<Rightarrow> uuid set \<Rightarrow> metrics_source_data \<Rightarrow> int" where
  "outcome_count ty C sd =
     count_if (\<lambda>o'. mo_sales_case_id o' \<in> C \<and> mo_outcome_type o' = ty) (sd_crm_outcomes sd)"

definition raw_values ::
    "metrics_message_row list \<Rightarrow> uuid set \<Rightarrow> uuid set \<Rightarrow> metrics_source_data \<Rightarrow> uuid set \<Rightarrow> int list \<Rightarrow>
     metric_value list" where
  "raw_values ms T C sd R L =
     [plain MK_INBOUND_MESSAGE_COUNT (count_if is_customer_inbound ms),
      plain MK_OUTBOUND_MANAGER_MESSAGE_COUNT (count_if is_manager_outbound ms),
      plain MK_ACTIVE_THREAD_COUNT (int (card T)),
      plain MK_INBOUND_THREAD_COUNT (int (card (inbound_threads (set ms)))),
      plain MK_RESPONDED_THREAD_COUNT (int (card R)),
      plain MK_UNRESPONDED_THREAD_COUNT (int (card (inbound_threads (set ms) - R))),
      plain MK_FIRST_RESPONSE_SAMPLE_COUNT (int (length L)),
      plain MK_FAILED_DELIVERY_COUNT
        (count_if (\<lambda>e. me_conversation_thread_id e \<in> T \<and> me_status e = DS_FAILED)
          (sd_delivery_events sd)),
      plain MK_APPOINTMENT_BOOKED_CASE_COUNT
        (count_if (\<lambda>c. mc_id c \<in> C \<and> mc_status c = SC_APPOINTMENT_BOOKED) (sd_sales_cases sd)),
      plain MK_WON_CASE_COUNT (outcome_count CO_WON C sd),
      plain MK_LOST_CASE_COUNT (outcome_count CO_LOST C sd)]
     @ ratio MK_RESPONSE_RATE_BASIS_POINTS (int (card R)) (int (card (inbound_threads (set ms))))
     @ optional MK_MEDIAN_FIRST_RESPONSE_SECONDS (deterministic_median_seconds L)
     @ optional MK_P90_FIRST_RESPONSE_SECONDS (deterministic_p90_seconds L)
     @ ratio MK_CONVERSION_RATE_BASIS_POINTS (outcome_count CO_WON C sd)
         (outcome_count CO_WON C sd + outcome_count CO_LOST C sd)"

lemma sequenceE_Inr: "sequenceE ms = Inr xs \<longleftrightarrow> ms = map Inr xs"
  by (induction ms arbitrary: xs) (auto simp: result_simps)

lemma map_eq_map_Inr:
  "map f xs = map Inr ys \<longleftrightarrow> list_all2 (\<lambda>x y. f x = Inr y) xs ys"
  by (simp add: list_all2_map1 list_all2_map2 flip: list.rel_eq)

lemma checked_values:
  "sequenceE (map MetricValue_post_init raw) = Inr vs \<longleftrightarrow> list_all metric_in_bounds raw \<and> vs = raw"
  unfolding sequenceE_Inr map_eq_map_Inr
  by (induction raw arbitrary: vs) (auto simp: list_all2_Cons1 result_simps)

lemma inbound_thread_list:
  "set (map mm_conversation_thread_id (filter is_customer_inbound ms)) = inbound_threads (set ms)"
  by (auto simp: inbound_threads_def)

lemma calculate_values_raw:
  "calculate_values ms T C sd =
     bindE (response_loop (messages_by_thread ms) {} [])
       (\<lambda>(R, L). sequenceE (map MetricValue_post_init (raw_values ms T C sd R L)))"
  unfolding calculate_values_def Let_def inbound_thread_list raw_values_def ratio_def optional_def
    plain_def MetricValue_def MetricValue_ratio_def outcome_count_def count_if_def
  by (simp only: map_append list.map option.case_distrib [of "map MetricValue_post_init"])

lemma count_if_mset: "mset xs = mset ys \<Longrightarrow> count_if p xs = count_if p ys"
  unfolding count_if_def by (metis mset_filter size_mset)

lemma length_latency_samples: "finite S \<Longrightarrow> mset L = latency_samples S \<Longrightarrow> length L = card (responded S)"
  by (metis latency_samples_def size_image_mset size_mset size_mset_set)

text \<open>The samples as a list; the values do not depend on its order.\<close>

definition samples :: "metrics_message_row set \<Rightarrow> int list" where
  "samples S = sorted_list_of_multiset (latency_samples S)"

lemma raw_values_samples:
  assumes "mset L = latency_samples S"
  shows "raw_values ms T C sd R L = raw_values ms T C sd R (samples S)"
proof -
  have eq: "mset L = mset (samples S)" by (simp add: samples_def assms)
  show ?thesis
    unfolding raw_values_def mset_eq_length [OF eq] median_mset_cong [OF eq] p90_mset_cong [OF eq] ..
qed

lemma calculate_values_eq:
  "calculate_values ms T C sd =
     (if \<exists>t. mixed_times (of_thread (set ms) t) then Inl mixed_comparison
      else sequenceE (map MetricValue_post_init
             (raw_values ms T C sd (responded (set ms)) (samples (set ms)))))"
proof (cases "\<exists>t. mixed_times (of_thread (set ms) t)")
  case True
  then show ?thesis using response_stats_mixed by (auto simp: calculate_values_raw)
next
  case False
  then obtain L where "response_loop (messages_by_thread ms) {} [] = Inr (responded (set ms), L)"
    and "mset L = latency_samples (set ms)"
    using response_stats by blast
  with False show ?thesis using raw_values_samples [of L "set ms" ms T C sd "responded (set ms)"]
    by (simp add: calculate_values_raw)
qed

lemma calculate_values_Inr:
  "calculate_values ms T C sd = Inr vs \<longleftrightarrow>
     (\<forall>t. \<not> mixed_times (of_thread (set ms) t)) \<and>
     vs = raw_values ms T C sd (responded (set ms)) (samples (set ms)) \<and> list_all metric_in_bounds vs"
  unfolding calculate_values_eq by (auto simp: checked_values)

section \<open>Looking up a snapshot\<close>

definition metric :: "metric_snapshot \<Rightarrow> metric_key \<Rightarrow> int option" where
  "metric s k = map_of (map (\<lambda>v. (mv_key v, mv_value v)) (sn_values s)) k"

lemma metric_list_simps [simp]:
  "map (\<lambda>v. (mv_key v, mv_value v)) (ratio k num den) =
     (case floor_basis_points num den of None \<Rightarrow> [] | Some r \<Rightarrow> [(k, r)])"
  "map (\<lambda>v. (mv_key v, mv_value v)) (optional k x) =
     (case x of None \<Rightarrow> [] | Some v \<Rightarrow> [(k, v)])"
  "mv_key (plain k v) = k" "mv_value (plain k v) = v"
  by (auto simp: ratio_def optional_def plain_def split: option.splits)

lemma map_of_singleton_append:
  "map_of ((case x of None \<Rightarrow> [] | Some r \<Rightarrow> [(k, r)]) @ ys) k' =
     (if k' = k then (case x of None \<Rightarrow> map_of ys k | Some r \<Rightarrow> Some r) else map_of ys k')"
  "map_of (case x of None \<Rightarrow> [] | Some r \<Rightarrow> [(k, r)]) k' = (if k' = k then x else None)"
  by (auto split: option.splits)

lemma snapshot_values:
  assumes "calculate_snapshot i tid scope m w sd at = Inr s"
  obtains T C where "scope_ids sd scope m (mw_end w) = Inr (T, C)"
    and "sn_values s =
      raw_values (filter (\<lambda>x. mm_conversation_thread_id x \<in> T) (sd_messages sd)) T C sd
        (responded {x\<in>set (sd_messages sd). mm_conversation_thread_id x \<in> T})
        (samples {x\<in>set (sd_messages sd). mm_conversation_thread_id x \<in> T})"
    and "list_all metric_in_bounds (sn_values s)" and "distinct (map mv_key (sn_values s))"
  using assms
  by (auto simp: calculate_snapshot_def Let_def bindE_Inr_iff calculate_values_Inr
      MetricSnapshot_post_init_Inr)

lemma metric_raw:
  assumes "sn_values s = raw_values ms T C sd R L"
  shows "metric s MK_INBOUND_THREAD_COUNT = Some (int (card (inbound_threads (set ms))))"
    and "metric s MK_RESPONDED_THREAD_COUNT = Some (int (card R))"
    and "metric s MK_UNRESPONDED_THREAD_COUNT = Some (int (card (inbound_threads (set ms) - R)))"
    and "metric s MK_FIRST_RESPONSE_SAMPLE_COUNT = Some (int (length L))"
    and "metric s MK_WON_CASE_COUNT = Some (outcome_count CO_WON C sd)"
    and "metric s MK_LOST_CASE_COUNT = Some (outcome_count CO_LOST C sd)"
    and "metric s MK_ACTIVE_THREAD_COUNT = Some (int (card T))"
    and "metric s MK_RESPONSE_RATE_BASIS_POINTS =
           floor_basis_points (int (card R)) (int (card (inbound_threads (set ms))))"
    and "metric s MK_MEDIAN_FIRST_RESPONSE_SECONDS = deterministic_median_seconds L"
    and "metric s MK_P90_FIRST_RESPONSE_SECONDS = deterministic_p90_seconds L"
    and "metric s MK_CONVERSION_RATE_BASIS_POINTS =
           floor_basis_points (outcome_count CO_WON C sd)
             (outcome_count CO_WON C sd + outcome_count CO_LOST C sd)"
  unfolding metric_def assms raw_values_def map_append metric_list_simps list.map
  by (simp_all add: map_of_singleton_append option.case_eq_if del: map_of_append)

lemma responded_inbound: "responded S \<subseteq> inbound_threads S"
  using responded_subset by (simp add: inbound_threads_def)

lemma finite_inbound [simp]: "finite S \<Longrightarrow> finite (inbound_threads S)"
  by (simp add: inbound_threads_def)

lemma length_samples: "finite S \<Longrightarrow> length (samples S) = card (responded S)"
  by (rule length_latency_samples) (simp_all add: samples_def)

lemma formulas_defined:
  "deterministic_median_seconds L = None \<longleftrightarrow> L = []"
  "deterministic_p90_seconds L = None \<longleftrightarrow> L = []"
  by (simp_all add: deterministic_median_seconds_def deterministic_p90_seconds_def Let_def)

lemma first_response_SomeD:
  assumes "finite S" and "first_response S = Some l"
  shows "\<exists>q\<in>S. \<exists>r\<in>S. is_customer_inbound q \<and> is_manager_outbound r \<and>
    mm_received_at q < mm_received_at r \<and>
    l = (instant (mm_received_at r) - instant (mm_received_at q)) div 1000000"
proof -
  let ?Q = "mm_received_at ` {m\<in>S. is_customer_inbound m}"
  let ?R = "mm_received_at ` {m\<in>S. is_manager_outbound m \<and> Min ?Q < mm_received_at m}"
  have "?Q \<noteq> {}" and "?R \<noteq> {}"
    and l: "l = (instant (Min ?R) - instant (Min ?Q)) div 1000000"
    using assms(2) by (auto simp: first_response_def Let_def split: if_splits)
  then have "Min ?Q \<in> ?Q" and "Min ?R \<in> ?R" using assms(1) by (auto intro!: Min_in)
  then obtain q r where "q \<in> S" "is_customer_inbound q" "Min ?Q = mm_received_at q"
    and "r \<in> S" "is_manager_outbound r" "Min ?Q < mm_received_at r" "Min ?R = mm_received_at r"
    by blast
  with l show ?thesis by (intro bexI [of _ q] bexI [of _ r]) simp_all
qed

lemma first_response_None_iff:
  assumes "finite S"
  shows "first_response S \<noteq> None \<longleftrightarrow>
    (\<exists>q\<in>S. \<exists>r\<in>S. is_customer_inbound q \<and> is_manager_outbound r \<and> mm_received_at q < mm_received_at r)"
proof
  assume "first_response S \<noteq> None"
  then show "\<exists>q\<in>S. \<exists>r\<in>S. is_customer_inbound q \<and> is_manager_outbound r \<and> mm_received_at q < mm_received_at r"
    using first_response_SomeD [OF assms] by blast
next
  let ?Q = "mm_received_at ` {m\<in>S. is_customer_inbound m}"
  assume "\<exists>q\<in>S. \<exists>r\<in>S. is_customer_inbound q \<and> is_manager_outbound r \<and> mm_received_at q < mm_received_at r"
  then obtain q r where qr: "q \<in> S" "r \<in> S" "is_customer_inbound q" "is_manager_outbound r"
    "mm_received_at q < mm_received_at r"
    by blast
  then have "Min ?Q \<le> mm_received_at q" using assms by (intro Min_le) auto
  with qr have "Min ?Q < mm_received_at r" by simp
  with qr show "first_response S \<noteq> None" by (auto simp: first_response_def Let_def)
qed

section \<open>When a calculation succeeds\<close>

text \<open>
  The size limits under which no constructor refuses a value: at most \<open>MAX_METRIC_VALUE\<close> rows of
  each kind, and messages that lie at most that many seconds apart.
\<close>

definition within_limits :: "metrics_source_data \<Rightarrow> bool" where
  "within_limits sd \<longleftrightarrow>
     int (length (sd_messages sd)) \<le> MAX_METRIC_VALUE \<and> int (length (sd_threads sd)) \<le> MAX_METRIC_VALUE \<and>
     int (length (sd_delivery_events sd)) \<le> MAX_METRIC_VALUE \<and>
     int (length (sd_sales_cases sd)) \<le> MAX_METRIC_VALUE \<and>
     int (length (sd_crm_outcomes sd)) \<le> MAX_METRIC_VALUE \<and>
     list_all (\<lambda>m. aware (mm_received_at m)) (sd_messages sd) \<and>
     list_all (\<lambda>m. list_all (\<lambda>m'.
       instant (mm_received_at m') - instant (mm_received_at m) \<le> timedelta_seconds MAX_METRIC_VALUE)
       (sd_messages sd)) (sd_messages sd)"

lemma distinct_raw_keys: "distinct (map mv_key (raw_values ms T C sd R L))"
  by (simp add: raw_values_def ratio_def optional_def plain_def split: option.split)

lemma set_samples:
  "finite S \<Longrightarrow> set (samples S) = {l. \<exists>t. first_response (of_thread S t) = Some l}"
  by (force simp: samples_def latency_samples_def responded_def [symmetric] set_eq_iff
      dest!: finite_responded simp: responded_def)

lemma samples_bounded:
  assumes "within_limits sd" and "S \<subseteq> set (sd_messages sd)" and "l \<in> set (samples S)"
  shows "0 \<le> l \<and> l \<le> MAX_METRIC_VALUE"
proof -
  have fin: "finite S" using assms(2) finite_subset by blast
  then obtain t where "first_response (of_thread S t) = Some l"
    using assms(3) by (auto simp: set_samples)
  moreover have "finite (of_thread S t)" using fin by (simp add: of_thread_def)
  ultimately obtain q r where qr: "q \<in> S" "r \<in> S" "mm_received_at q < mm_received_at r"
    and l: "l = (instant (mm_received_at r) - instant (mm_received_at q)) div 1000000"
    using first_response_SomeD unfolding of_thread_def by blast
  have "aware (mm_received_at q)" "aware (mm_received_at r)"
    and span: "instant (mm_received_at r) - instant (mm_received_at q) \<le> timedelta_seconds MAX_METRIC_VALUE"
    using qr assms by (auto simp: within_limits_def list_all_iff)
  with qr have "0 \<le> instant (mm_received_at r) - instant (mm_received_at q)"
    by (auto elim!: aware_obtain)
  with l span show ?thesis by (simp add: timedelta_seconds_def pos_imp_zdiv_nonneg_iff)
qed

lemma median_in_range:
  assumes "deterministic_median_seconds xs = Some m" and "\<forall>x\<in>set xs. a \<le> x \<and> x \<le> b"
  shows "a \<le> m \<and> m \<le> b"
proof -
  have ne: "xs \<noteq> []" using assms(1) by (auto simp: deterministic_median_seconds_def)
  have "sort xs ! i \<in> set xs" if "i < length xs" for i using that by (metis length_sort nth_mem set_sort)
  moreover have "(length xs - 1) div 2 < length xs" "length xs div 2 < length xs" using ne by (cases xs; simp; linarith)+
  ultimately show ?thesis using median_between [OF ne] assms by (metis option.inject order.trans)
qed

lemma p90_in_set: "deterministic_p90_seconds xs = Some p \<Longrightarrow> p \<in> set xs"
  by (metis formulas_defined(2) length_sort nth_mem option.inject option.simps(3) p90_index set_sort)

lemma count_if_range: "0 \<le> count_if p xs" "count_if p xs \<le> int (length xs)"
  by (simp_all add: count_if_def)

lemma count_if_le: "int (length xs) \<le> b \<Longrightarrow> count_if p xs \<le> b"
  using count_if_range(2) [of p xs] by linarith

lemma count_if_disjoint:
  "(\<And>x. p x \<Longrightarrow> \<not> q x) \<Longrightarrow> count_if p xs + count_if q xs \<le> int (length xs)"
  by (induction xs) (auto simp: count_if_def)

lemma outcome_count_range:
  "0 \<le> outcome_count ty C sd"
  "outcome_count CO_WON C sd + outcome_count CO_LOST C sd \<le> int (length (sd_crm_outcomes sd))"
  unfolding outcome_count_def by (rule count_if_range) (rule count_if_disjoint, simp)

lemma in_bounds_plain:
  "metric_in_bounds (plain k v) \<longleftrightarrow> 0 \<le> v \<and> v \<le> MAX_METRIC_VALUE \<and>
     (k \<in> set BASIS_POINT_METRICS \<longrightarrow> v \<le> MAX_BASIS_POINTS)"
  by (simp add: metric_in_bounds_def plain_def)

lemma in_bounds_ratio:
  assumes "0 \<le> num" and "num \<le> den" and "den \<le> MAX_METRIC_VALUE"
  shows "list_all metric_in_bounds (ratio k num den)"
  using assms floor_basis_points_range [of num den]
  by (auto simp: ratio_def metric_in_bounds_def MAX_BASIS_POINTS_def MAX_METRIC_VALUE_def
      split: option.splits)

lemma in_bounds_optional:
  "list_all metric_in_bounds (optional k x) \<longleftrightarrow> (\<forall>v. x = Some v \<longrightarrow> metric_in_bounds (plain k v))"
  by (cases x) (simp_all add: optional_def)

lemma raw_values_in_bounds:
  assumes lim: "within_limits sd" and T: "T \<subseteq> set (map mt_id (sd_threads sd))"
    and ms: "ms = filter (\<lambda>x. mm_conversation_thread_id x \<in> T) (sd_messages sd)"
  shows "list_all metric_in_bounds (raw_values ms T C sd (responded (set ms)) (samples (set ms)))"
proof -
  let ?I = "inbound_threads (set ms)" and ?R = "responded (set ms)" and ?L = "samples (set ms)"
  have rows: "int (length ms) \<le> MAX_METRIC_VALUE"
    using lim length_filter_le [of "\<lambda>x. mm_conversation_thread_id x \<in> T" "sd_messages sd"]
    unfolding within_limits_def ms by linarith
  have "card T \<le> length (sd_threads sd)"
    using card_mono [OF _ T] card_length [of "map mt_id (sd_threads sd)"] by simp
  then have T_le: "int (card T) \<le> MAX_METRIC_VALUE" using lim unfolding within_limits_def by linarith
  have "card ?I \<le> length ms"
    using surj_card_le [of "set ms" ?I mm_conversation_thread_id] card_length [of ms]
    by (force simp: inbound_threads_def)
  then have I_le: "int (card ?I) \<le> MAX_METRIC_VALUE" using rows by linarith
  have R_le: "card ?R \<le> card ?I" and U_le: "card (?I - ?R) \<le> card ?I"
    by (simp_all add: card_mono responded_inbound)
  have S: "0 \<le> x \<and> x \<le> MAX_METRIC_VALUE" if "x \<in> set ?L" for x
    using samples_bounded [OF lim _ that] by (auto simp: ms)
  have med: "0 \<le> x \<and> x \<le> MAX_METRIC_VALUE" if "deterministic_median_seconds ?L = Some x" for x
    using median_in_range [OF that] S by blast
  have p90: "0 \<le> x \<and> x \<le> MAX_METRIC_VALUE" if "deterministic_p90_seconds ?L = Some x" for x
    using p90_in_set [OF that] S by blast
  have outs: "outcome_count CO_WON C sd + outcome_count CO_LOST C sd \<le> MAX_METRIC_VALUE"
    using outcome_count_range(2) [of C sd] lim unfolding within_limits_def by linarith
  have won: "0 \<le> outcome_count CO_WON C sd" and lost: "0 \<le> outcome_count CO_LOST C sd"
    by (rule outcome_count_range)+
  have ev: "int (length (sd_delivery_events sd)) \<le> MAX_METRIC_VALUE"
    and cs: "int (length (sd_sales_cases sd)) \<le> MAX_METRIC_VALUE"
    using lim by (simp_all add: within_limits_def)
  note le = count_if_le [OF rows] count_if_le [OF ev] count_if_le [OF cs]
  have "list_all metric_in_bounds (ratio MK_RESPONSE_RATE_BASIS_POINTS (int (card ?R)) (int (card ?I)))"
    using R_le I_le by (intro in_bounds_ratio) auto
  moreover have "list_all metric_in_bounds (ratio MK_CONVERSION_RATE_BASIS_POINTS (outcome_count CO_WON C sd)
      (outcome_count CO_WON C sd + outcome_count CO_LOST C sd))"
    using outs won lost by (intro in_bounds_ratio) auto
  ultimately show ?thesis
    unfolding raw_values_def list_all_append list.pred_inject in_bounds_plain in_bounds_optional
    using T_le I_le R_le U_le won lost outs
    by (auto simp: le count_if_range length_samples BASIS_POINT_METRICS_def dest: med p90)
qed

lemma scope_ids_threads:
  assumes "aware window_end" and "attribution_rows_ok sd"
  obtains T C where "scope_ids sd scope m window_end = Inr (T, C)"
    and "T \<subseteq> set (map mt_id (sd_threads sd))"
proof (cases "scope = SCOPE_TENANT \<or> m = None")
  case True
  then show ?thesis
    using that by (cases "scope = SCOPE_TENANT") (auto simp: scope_ids_def)
next
  case False
  then obtain m' where "m = Some m'" by auto
  moreover have "{tid. manages (sd_threads sd) (sd_assignments sd) window_end tid m'} \<subseteq>
      set (map mt_id (sd_threads sd))"
    by (auto simp: manages_def)
  ultimately show ?thesis
    using that False resolve_manager_metric_scope_eq [OF assms, of m'] by (simp add: scope_ids_def)
qed

lemma no_mixed_times:
  "\<forall>m\<in>S. aware (mm_received_at m) \<Longrightarrow> \<not> mixed_times (of_thread S t)"
  by (auto simp: mixed_times_def of_thread_def)

text \<open>The arguments of a calculation that its callers guarantee.\<close>

definition calculable ::
    "metric_scope \<Rightarrow> uuid option \<Rightarrow> metric_window \<Rightarrow> metrics_source_data \<Rightarrow> datetime \<Rightarrow> bool" where
  "calculable scope m w sd at \<longleftrightarrow>
     (scope = SCOPE_TENANT \<longleftrightarrow> m = None) \<and> aware (mw_end w) \<and> aware (sd_watermark sd) \<and> aware at \<and>
     attribution_rows_ok sd \<and> within_limits sd"

lemma calculate_snapshot_total:
  assumes "calculable scope m w sd at"
  shows "\<exists>s. calculate_snapshot i tid scope m w sd at = Inr s"
proof -
  have ok: "aware (mw_end w)" "attribution_rows_ok sd" "within_limits sd"
    using assms by (simp_all add: calculable_def)
  obtain T C where sc: "scope_ids sd scope m (mw_end w) = Inr (T, C)"
    and T: "T \<subseteq> set (map mt_id (sd_threads sd))"
    using scope_ids_threads [OF ok(1,2)] by blast
  define ms where "ms = filter (\<lambda>x. mm_conversation_thread_id x \<in> T) (sd_messages sd)"
  have "\<forall>x\<in>set ms. aware (mm_received_at x)"
    using ok(3) by (auto simp: ms_def within_limits_def list_all_iff)
  then have "calculate_values ms T C sd =
      Inr (raw_values ms T C sd (responded (set ms)) (samples (set ms)))"
    using raw_values_in_bounds [OF ok(3) T ms_def]
    by (simp add: calculate_values_Inr no_mixed_times)
  with sc assms show ?thesis
    by (auto simp: calculate_snapshot_def Let_def ms_def MetricSnapshot_post_init_Inr calculable_def
        distinct_raw_keys)
qed

text \<open>A tenant with one thread that was answered after two minutes and one that was not.\<close>

definition example_message ::
    "uuid \<Rightarrow> uuid \<Rightarrow> participant_sender_type \<Rightarrow> message_direction \<Rightarrow> int \<Rightarrow> metrics_message_row" where
  "example_message i t who dir at =
     \<lparr>mm_id = i, mm_tenant_id = 1, mm_conversation_thread_id = t, mm_sender_type = who,
      mm_direction = dir, mm_received_at = Aware (timedelta_seconds at)\<rparr>"

definition example_day :: metrics_source_data where
  "example_day = example_source\<lparr>sd_messages :=
     [example_message 31 10 ST_MANAGER MD_OUTBOUND 200, example_message 32 10 ST_CUSTOMER MD_INBOUND 80,
      example_message 33 11 ST_CUSTOMER MD_INBOUND 90, example_message 34 10 ST_MANAGER MD_OUTBOUND 230],
     sd_crm_outcomes := [\<lparr>mo_sales_case_id = 20, mo_outcome_type = CO_WON, mo_occurred_at = Aware 9\<rparr>]\<rparr>"

definition example_window :: metric_window where
  "example_window =
     \<lparr>mw_start = Aware 0, mw_end = Aware (timedelta_days 1), mw_window_code = ''daily_2026-07-12''\<rparr>"

lemma example_calculable:
  "calculable SCOPE_TENANT None example_window example_day (Aware 0)"
  "calculable SCOPE_MANAGER (Some 7) example_window example_day (Aware 0)"
  by code_simp+

text \<open>
  C31. The values of a calculated snapshot fit together: each key occurs once and each value is
  within its bounds; the threads with an inbound message are the responded and the unresponded
  ones; there is one latency sample per responded thread; the response and conversion rates are
  present exactly when their denominator is positive and are then the floored basis points; the
  median and the ninetieth percentile are present exactly when some thread was responded to.
\<close>

theorem snapshot_values_consistent:
  assumes "calculate_snapshot i tid scope m w sd at = Inr s"
  shows "distinct (map mv_key (sn_values s)) \<and> list_all metric_in_bounds (sn_values s) \<and>
    (\<exists>inbound answered open won lost.
       metric s MK_INBOUND_THREAD_COUNT = Some inbound \<and>
       metric s MK_RESPONDED_THREAD_COUNT = Some answered \<and>
       metric s MK_UNRESPONDED_THREAD_COUNT = Some open \<and> inbound = answered + open \<and>
       metric s MK_FIRST_RESPONSE_SAMPLE_COUNT = Some answered \<and>
       metric s MK_WON_CASE_COUNT = Some won \<and> metric s MK_LOST_CASE_COUNT = Some lost \<and>
       metric s MK_RESPONSE_RATE_BASIS_POINTS =
         (if inbound = 0 then None else Some (answered * 10000 div inbound)) \<and>
       metric s MK_CONVERSION_RATE_BASIS_POINTS =
         (if won + lost = 0 then None else Some (won * 10000 div (won + lost))) \<and>
       (metric s MK_MEDIAN_FIRST_RESPONSE_SECONDS = None \<longleftrightarrow> answered = 0) \<and>
       (metric s MK_P90_FIRST_RESPONSE_SECONDS = None \<longleftrightarrow> answered = 0))"
proof -
  obtain T C where vals: "sn_values s =
      raw_values (filter (\<lambda>x. mm_conversation_thread_id x \<in> T) (sd_messages sd)) T C sd
        (responded {x\<in>set (sd_messages sd). mm_conversation_thread_id x \<in> T})
        (samples {x\<in>set (sd_messages sd). mm_conversation_thread_id x \<in> T})"
    and ok: "list_all metric_in_bounds (sn_values s)" "distinct (map mv_key (sn_values s))"
    using snapshot_values [OF assms] by blast
  define S where "S = {x\<in>set (sd_messages sd). mm_conversation_thread_id x \<in> T}"
  define I where "I = inbound_threads S"
  define R where "R = responded S"
  have fin: "finite S" by (simp add: S_def)
  have "R \<subseteq> I" and "finite I" using responded_inbound fin by (simp_all add: I_def R_def)
  then have split: "int (card I) = int (card R) + int (card (I - R))"
    by (metis card_Diff_subset card_mono finite_subset le_add_diff_inverse of_nat_add)
  have nonneg: "0 \<le> outcome_count ty C sd" for ty by (rule outcome_count_range)
  have empty: "samples S = [] \<longleftrightarrow> int (card R) = 0"
    using length_samples [OF fin] unfolding R_def by (metis length_0_conv of_nat_eq_0_iff)
  note m = metric_raw [OF vals, unfolded set_filter, folded S_def, folded I_def R_def]
  have len: "int (length (samples S)) = int (card R)" by (simp add: length_samples [OF fin] R_def)
  have rate: "floor_basis_points a b = (if b = 0 then None else Some (a * 10000 div b))" if "0 \<le> b" for a b
    using that by (simp add: floor_basis_points_def)
  have won: "0 \<le> outcome_count CO_WON C sd + outcome_count CO_LOST C sd"
    using nonneg [of CO_WON] nonneg [of CO_LOST] by simp
  show ?thesis
    unfolding m formulas_defined len empty rate [OF won] rate [OF of_nat_0_le_iff]
    by (intro conjI ok exI [of _ "int (card I)"] exI [of _ "int (card R)"] exI [of _ "int (card (I - R))"]
        exI [of _ "outcome_count CO_WON C sd"] exI [of _ "outcome_count CO_LOST C sd"] refl split)
qed

theorem snapshot_values_consistent_witness:
  "\<exists>s. calculate_snapshot 50 1 SCOPE_TENANT None example_window example_day (Aware 0) = Inr s \<and>
     distinct (map mv_key (sn_values s)) \<and> list_all metric_in_bounds (sn_values s)"
proof -
  obtain s where
    "calculate_snapshot 50 1 SCOPE_TENANT None example_window example_day (Aware 0) = Inr s"
    using calculate_snapshot_total [OF example_calculable(1)] by blast
  with snapshot_values_consistent [OF this] show ?thesis by blast
qed

text \<open>
  C32. What the response metrics count: a thread of the scope is responded to when some manager
  message in it was received after some customer message; the latencies behind the median and the
  ninetieth percentile are, for each such thread, the whole seconds from its first customer
  message to the first manager message after it.
\<close>

theorem response_metrics_meaning:
  assumes "calculate_snapshot i tid scope m w sd at = Inr s"
  shows "\<exists>T C L. scope_ids sd scope m (mw_end w) = Inr (T, C) \<and>
    (let S = {x\<in>set (sd_messages sd). mm_conversation_thread_id x \<in> T};
         answered = {t. \<exists>q\<in>S. \<exists>r\<in>S. mm_conversation_thread_id q = t \<and> mm_conversation_thread_id r = t \<and>
           is_customer_inbound q \<and> is_manager_outbound r \<and> mm_received_at q < mm_received_at r} in
     metric s MK_ACTIVE_THREAD_COUNT = Some (int (card T)) \<and>
     metric s MK_RESPONDED_THREAD_COUNT = Some (int (card answered)) \<and>
     mset L = image_mset (\<lambda>t. the (first_response (of_thread S t))) (mset_set answered) \<and>
     metric s MK_MEDIAN_FIRST_RESPONSE_SECONDS = deterministic_median_seconds L \<and>
     metric s MK_P90_FIRST_RESPONSE_SECONDS = deterministic_p90_seconds L)"
proof -
  obtain T C where sc: "scope_ids sd scope m (mw_end w) = Inr (T, C)"
    and vals: "sn_values s =
      raw_values (filter (\<lambda>x. mm_conversation_thread_id x \<in> T) (sd_messages sd)) T C sd
        (responded {x\<in>set (sd_messages sd). mm_conversation_thread_id x \<in> T})
        (samples {x\<in>set (sd_messages sd). mm_conversation_thread_id x \<in> T})"
    using snapshot_values [OF assms] by blast
  let ?S = "{x\<in>set (sd_messages sd). mm_conversation_thread_id x \<in> T}"
  let ?A = "{t. \<exists>q\<in>?S. \<exists>r\<in>?S. mm_conversation_thread_id q = t \<and> mm_conversation_thread_id r = t \<and>
           is_customer_inbound q \<and> is_manager_outbound r \<and> mm_received_at q < mm_received_at r}"
  have fin: "finite (of_thread ?S t)" for t by (simp add: of_thread_def)
  have answered: "responded ?S = ?A"
    unfolding responded_def first_response_None_iff [OF fin] unfolding of_thread_def by blast
  have "mset (samples ?S) = image_mset (\<lambda>t. the (first_response (of_thread ?S t))) (mset_set ?A)"
    by (simp add: samples_def latency_samples_def answered)
  then show ?thesis
    unfolding Let_def using sc metric_raw(2,7,9,10) [OF vals, unfolded answered]
    by (intro exI [of _ T] exI [of _ C] exI [of _ "samples ?S"]) (intro conjI)
qed

theorem response_metrics_meaning_witness:
  "\<exists>s T C. calculate_snapshot 50 1 SCOPE_MANAGER (Some 7) example_window example_day (Aware 0) = Inr s \<and>
     scope_ids example_day SCOPE_MANAGER (Some 7) (mw_end example_window) = Inr (T, C) \<and>
     metric s MK_ACTIVE_THREAD_COUNT = Some (int (card T))"
proof -
  obtain s where s:
    "calculate_snapshot 50 1 SCOPE_MANAGER (Some 7) example_window example_day (Aware 0) = Inr s"
    using calculate_snapshot_total [OF example_calculable(2)] by blast
  from response_metrics_meaning [OF s] s show ?thesis unfolding Let_def by blast
qed

section \<open>The order of the rows\<close>

definition same_rows :: "metrics_source_data \<Rightarrow> metrics_source_data \<Rightarrow> bool" where
  "same_rows sd sd' \<longleftrightarrow>
     mset (sd_messages sd) = mset (sd_messages sd') \<and> mset (sd_threads sd) = mset (sd_threads sd') \<and>
     mset (sd_delivery_events sd) = mset (sd_delivery_events sd') \<and>
     mset (sd_sales_cases sd) = mset (sd_sales_cases sd') \<and>
     mset (sd_crm_outcomes sd) = mset (sd_crm_outcomes sd') \<and>
     mset (sd_assignments sd) = mset (sd_assignments sd') \<and> sd_watermark sd = sd_watermark sd'"

lemma same_rows_sets:
  assumes "same_rows sd sd'"
  shows "set (sd_threads sd) = set (sd_threads sd')" "set (sd_assignments sd) = set (sd_assignments sd')"
    "set (sd_sales_cases sd) = set (sd_sales_cases sd')" "set (sd_crm_outcomes sd) = set (sd_crm_outcomes sd')"
  using assms by (auto simp: same_rows_def dest: mset_eq_setD)

lemma same_rows_ok:
  assumes "same_rows sd sd'" and "attribution_rows_ok sd"
  shows "attribution_rows_ok sd'"
proof -
  have "mset (map ma_id (sd_assignments sd')) = mset (map ma_id (sd_assignments sd))"
    and "mset (map mt_id (sd_threads sd')) = mset (map mt_id (sd_threads sd))"
    using assms(1) by (simp_all add: same_rows_def)
  then show ?thesis
    using assms(2) same_rows_sets [OF assms(1)] mset_eq_imp_distinct_iff
    unfolding attribution_rows_ok_def list_all_iff by metis
qed

lemma manages_cong:
  "set ts = set ts' \<Longrightarrow> set as = set as' \<Longrightarrow> manages ts as we tid m \<longleftrightarrow> manages ts' as' we tid m"
  by (simp add: manages_def)

lemma set_map_filter: "set (List.map_filter f xs) = {y. \<exists>x\<in>set xs. f x = Some y}"
  by (induction xs) (auto simp: map_filter_simps split: option.splits)

lemma scope_ids_same_rows:
  assumes "same_rows sd sd'" and "aware we" and "attribution_rows_ok sd"
  shows "scope_ids sd scope m we = scope_ids sd' scope m we"
proof -
  note sets = same_rows_sets [OF assms(1)]
  have "resolve_manager_metric_scope sd m' we = resolve_manager_metric_scope sd' m' we" for m'
    unfolding resolve_manager_metric_scope_eq [OF assms(2,3)]
      resolve_manager_metric_scope_eq [OF assms(2) same_rows_ok [OF assms(1,3)]]
      sets manages_cong [OF sets(1,2)] ..
  then show ?thesis by (cases m) (simp_all add: scope_ids_def set_map_filter sets)
qed

lemma raw_values_same_rows:
  assumes "same_rows sd sd'" and "mset ms = mset ms'"
  shows "raw_values ms T C sd R L = raw_values ms' T C sd' R L"
proof -
  have "count_if p (sd_delivery_events sd) = count_if p (sd_delivery_events sd')"
    and "count_if q (sd_sales_cases sd) = count_if q (sd_sales_cases sd')"
    and "count_if r (sd_crm_outcomes sd) = count_if r (sd_crm_outcomes sd')" for p q r
    using assms(1) by (auto simp: same_rows_def intro!: count_if_mset)
  then show ?thesis
    unfolding raw_values_def outcome_count_def mset_eq_setD [OF assms(2)] count_if_mset [OF assms(2)]
    by presburger
qed

text \<open>
  C33. A snapshot does not depend on the order in which the queries return their rows: two source
  data sets with the same rows give the same result, error or snapshot, in either scope.
\<close>

theorem snapshot_row_order_irrelevant:
  assumes "same_rows sd sd'" and "aware (mw_end w)" and "attribution_rows_ok sd"
  shows "calculate_snapshot i tid scope m w sd at = calculate_snapshot i tid scope m w sd' at"
proof -
  have "calculate_values (filter p (sd_messages sd)) T C sd = calculate_values (filter p (sd_messages sd')) T C sd'"
    for p T C
  proof -
    have "mset (filter p (sd_messages sd)) = mset (filter p (sd_messages sd'))"
      using assms(1) by (simp add: same_rows_def)
    then show ?thesis
      unfolding calculate_values_eq using raw_values_same_rows [OF assms(1)] mset_eq_setD by metis
  qed
  moreover have "sd_watermark sd = sd_watermark sd'" using assms(1) by (simp add: same_rows_def)
  ultimately show ?thesis
    unfolding calculate_snapshot_def Let_def scope_ids_same_rows [OF assms] by presburger
qed

theorem snapshot_row_order_irrelevant_witness:
  "calculate_snapshot 50 1 SCOPE_MANAGER (Some 7) example_window example_day (Aware 0) =
   calculate_snapshot 50 1 SCOPE_MANAGER (Some 7) example_window
     (example_day\<lparr>sd_messages := rev (sd_messages example_day),
       sd_assignments := rev (sd_assignments example_day)\<rparr>) (Aware 0)"
  using snapshot_row_order_irrelevant
    [of example_day "example_day\<lparr>sd_messages := rev (sd_messages example_day),
       sd_assignments := rev (sd_assignments example_day)\<rparr>" example_window 50 1 SCOPE_MANAGER "Some 7" "Aware 0"]
    example_calculable(2)
  by (simp add: same_rows_def calculable_def)

text \<open>
  A calculation on arguments its callers guarantee (aware timestamps, unique identifiers, a
  manager exactly in the manager scope, at most \<open>10 ^ 9\<close> rows of each kind and \<open>10 ^ 9\<close> seconds
  between messages) raises no error, and its result is completed, carries the formula version and
  the source watermark, and repeats the identifiers it was asked for.
\<close>

theorem snapshot_calculation_succeeds:
  assumes "calculable scope m w sd at"
  shows "\<exists>s. calculate_snapshot i tid scope m w sd at = Inr s \<and> sn_id s = i \<and> sn_tenant_id s = tid \<and>
    sn_scope s = scope \<and> sn_manager_user_id s = m \<and> sn_window s = w \<and> sn_status s = MS_COMPLETED \<and>
    sn_formula_version s = METRIC_FORMULA_VERSION \<and> sn_source_watermark s = sd_watermark sd \<and>
    sn_computed_at s = at"
proof -
  obtain s where s: "calculate_snapshot i tid scope m w sd at = Inr s"
    using calculate_snapshot_total [OF assms] by blast
  then show ?thesis
    by (auto simp: calculate_snapshot_def Let_def bindE_Inr_iff MetricSnapshot_post_init_Inr)
qed

theorem snapshot_calculation_succeeds_witness:
  "\<exists>s. calculate_snapshot 50 1 SCOPE_MANAGER (Some 7) example_window example_day (Aware 0) = Inr s \<and>
     sn_status s = MS_COMPLETED"
  using snapshot_calculation_succeeds [OF example_calculable(2), of 50 1] by blast

end
