(* ===== verification/Messaging_Domain.thy ===== *)
theory Messaging_Domain
  imports Canonical_Enums "HOL-Library.AList" "HOL-Library.Multiset"
begin

text \<open>
  The messaging value model: bounded adapter metadata (\<open>domain/adapter_metadata.py\<close>), messages and
  their events (\<open>domain/message.py\<close>, \<open>domain/message_events.py\<close>), the projection of a message's
  current state (\<open>domain/message_projection.py\<close>), outbound messages with their transition table
  (\<open>domain/outbound_message.py\<close>) and the versioned messaging policy
  (\<open>domain/whatsapp_messaging_policy.py\<close>).
\<close>

datatype messaging_error =
    Msg_ValueError string
  | Msg_TypeError string
  | OutboundMessageTransitionError string
  | OutboundMessageInvariantError string
  | WhatsAppMessagingPolicyError string

section \<open>Adapter metadata\<close>

text \<open>
  A JSON scalar. Raw input values are \<open>Some\<close> scalar, or \<open>None\<close> for any other Python object. A
  \<open>dict\<close> is an association list with distinct keys, in insertion order.
\<close>

datatype adapter_scalar = AS_None | AS_Str string | AS_Int int | AS_Bool bool

definition MAX_ENTRIES :: nat where "MAX_ENTRIES = 32"
definition MAX_KEY_LENGTH :: nat where "MAX_KEY_LENGTH = 64"
definition MAX_STRING_VALUE_LENGTH :: nat where "MAX_STRING_VALUE_LENGTH = 512"
definition MAX_TOTAL_SERIALIZED_SIZE :: nat where "MAX_TOTAL_SERIALIZED_SIZE = 4096"

definition SENSITIVE_KEY_FRAGMENTS :: "string list" where
  "SENSITIVE_KEY_FRAGMENTS =
     [''body'', ''text'', ''message'', ''content'', ''token'', ''secret'', ''password'',
      ''authorization'', ''cookie'', ''email'', ''phone'', ''payload'']"

definition is_sensitive_key :: "string \<Rightarrow> bool" where
  "is_sensitive_key key =
     (let normalized_key = to_lower (strip key) in
      if normalized_key = [] then True
      else list_ex (\<lambda>frag. contains_fragment frag normalized_key) SENSITIVE_KEY_FRAGMENTS)"

text \<open>\<open>'{key}'\<close> in an error message.\<close>

definition quoted :: "string \<Rightarrow> string" where
  "quoted key = CHR 0x27 # key @ [CHR 0x27]"

definition validate_scalar_value ::
    "adapter_scalar option \<Rightarrow> string \<Rightarrow> messaging_error + adapter_scalar" where
  "validate_scalar_value value key =
     (case value of
        Some (AS_Str s) \<Rightarrow>
          if s = [] then Inl (Msg_ValueError (''adapter metadata value for '' @ quoted key @ '' must not be empty''))
          else if length s > MAX_STRING_VALUE_LENGTH
          then Inl (Msg_ValueError (''adapter metadata value for '' @ quoted key @ '' exceeds 512 characters''))
          else Inr (AS_Str s)
      | Some v \<Rightarrow> Inr v
      | None \<Rightarrow> Inl (Msg_ValueError (''adapter metadata value for '' @ quoted key @ '' must be a JSON scalar'')))"

text \<open>
  \<open>len(str(n))\<close>. Python refuses to print more than 4300 digits with a \<open>ValueError\<close>; such a number
  is over the size limit below and refused with a \<open>ValueError\<close> in the model too.
\<close>

fun digit_count :: "nat \<Rightarrow> nat" where
  "digit_count n = (if n < 10 then 1 else Suc (digit_count (n div 10)))"

definition int_str_length :: "int \<Rightarrow> nat" where
  "int_str_length n = (if n < 0 then 1 else 0) + digit_count (nat \<bar>n\<bar>)"

fun scalar_size :: "adapter_scalar \<Rightarrow> nat" where
  "scalar_size AS_None = 4"
| "scalar_size (AS_Bool b) = (if b then 4 else 5)"
| "scalar_size (AS_Int n) = int_str_length n"
| "scalar_size (AS_Str s) = length s + 2"

definition estimate_serialized_size :: "(string \<times> adapter_scalar) list \<Rightarrow> nat" where
  "estimate_serialized_size entries =
     2 + (length entries - 1) + (\<Sum>(k, v)\<leftarrow>entries. length k + 2 + scalar_size v)"

fun normalize_entries ::
    "(string \<times> adapter_scalar option) list \<Rightarrow> (string \<times> adapter_scalar) list \<Rightarrow>
     messaging_error + (string \<times> adapter_scalar) list" where
  "normalize_entries [] normalized = Inr normalized"
| "normalize_entries ((raw_key, raw_value) # items) normalized =
     (let key = strip raw_key in
      if key = [] then Inl (Msg_ValueError ''adapter metadata keys must not be empty'')
      else if length key > MAX_KEY_LENGTH
      then Inl (Msg_ValueError (''adapter metadata key '' @ quoted key @ '' exceeds 64 characters''))
      else if is_sensitive_key key
      then Inl (Msg_ValueError (''adapter metadata key '' @ quoted key @ '' is not allowed''))
      else if key \<in> set (map fst normalized)
      then Inl (Msg_ValueError (''adapter metadata key '' @ quoted key @ '' is duplicated''))
      else bindE (validate_scalar_value raw_value key) (\<lambda>v.
        normalize_entries items (AList.update key v normalized)))"

definition size_error :: messaging_error where
  "size_error = Msg_ValueError ''adapter metadata exceeds 4096 serialized bytes''"

definition count_error :: messaging_error where
  "count_error = Msg_ValueError ''adapter metadata must contain at most 32 entries''"

definition normalize_adapter_metadata ::
    "(string \<times> adapter_scalar option) list option \<Rightarrow>
     messaging_error + (string \<times> adapter_scalar) list" where
  "normalize_adapter_metadata values =
     (case values of None \<Rightarrow> Inr []
      | Some items \<Rightarrow>
          if length items > MAX_ENTRIES then Inl count_error
          else bindE (normalize_entries items []) (\<lambda>normalized.
            bindE (raise_if (estimate_serialized_size normalized > MAX_TOTAL_SERIALIZED_SIZE) size_error)
              (\<lambda>_. Inr normalized)))"

record adapter_metadata =
  am_entries :: "(string \<times> adapter_scalar) list"

fun check_entries ::
    "string set \<Rightarrow> (string \<times> adapter_scalar) list \<Rightarrow> messaging_error + unit" where
  "check_entries seen [] = Inr ()"
| "check_entries seen ((key, v) # entries) =
     (if key \<in> seen then Inl (Msg_ValueError (''adapter metadata key '' @ quoted key @ '' is duplicated''))
      else bindE (validate_scalar_value (Some v) key) (\<lambda>_. check_entries (insert key seen) entries))"

definition AdapterMetadata_post_init :: "adapter_metadata \<Rightarrow> messaging_error + adapter_metadata" where
  "AdapterMetadata_post_init m =
     bindE (check_entries {} (am_entries m)) (\<lambda>_.
     bindE (raise_if (length (am_entries m) > MAX_ENTRIES) count_error) (\<lambda>_.
     bindE (raise_if (estimate_serialized_size (am_entries m) > MAX_TOTAL_SERIALIZED_SIZE) size_error)
       (\<lambda>_. Inr m)))"

text \<open>\<open>tuple(sorted(normalized.items()))\<close>: the keys are distinct, so no two values are compared.\<close>

definition AdapterMetadata_from_mapping ::
    "(string \<times> adapter_scalar option) list option \<Rightarrow> messaging_error + adapter_metadata" where
  "AdapterMetadata_from_mapping values =
     bindE (normalize_adapter_metadata values) (\<lambda>normalized.
     AdapterMetadata_post_init \<lparr>am_entries = sort_key fst normalized\<rparr>)"

section \<open>Messages and their events\<close>

definition validate_external_id :: "string \<Rightarrow> string \<Rightarrow> messaging_error + string" where
  "validate_external_id value field =
     (let normalized_value = strip value in
      if normalized_value = [] then Inl (Msg_ValueError (field @ '' must not be empty''))
      else if length normalized_value > 256
      then Inl (Msg_ValueError (field @ '' must not exceed 256 characters''))
      else Inr normalized_value)"

definition validate_msg_datetime :: "datetime \<Rightarrow> string \<Rightarrow> messaging_error + datetime" where
  "validate_msg_datetime value field =
     (if aware value then Inr value
      else Inl (Msg_ValueError (field @ '' must be timezone-aware'')))"

record message =
  m_id :: uuid
  m_tenant_id :: uuid
  m_conversation_thread_id :: uuid
  m_external_message_id :: string
  m_sender_type :: participant_sender_type
  m_direction :: message_direction
  m_sent_at :: datetime
  m_received_at :: datetime
  m_content_id :: "uuid option"
  m_reply_to_message_id :: "uuid option"
  m_adapter_metadata :: adapter_metadata

definition Message_post_init :: "message \<Rightarrow> messaging_error + message" where
  "Message_post_init m =
     bindE (validate_external_id (m_external_message_id m) ''external_message_id'') (\<lambda>ext.
     bindE (validate_msg_datetime (m_sent_at m) ''sent_at'') (\<lambda>sent.
     bindE (validate_msg_datetime (m_received_at m) ''received_at'') (\<lambda>received.
     bindE (raise_if (received < sent)
              (Msg_ValueError ''received_at must not be earlier than sent_at'')) (\<lambda>_.
     Inr (m\<lparr>m_external_message_id := ext, m_sent_at := sent, m_received_at := received\<rparr>)))))"

record message_edit_event =
  ed_id :: uuid
  ed_tenant_id :: uuid
  ed_message_id :: uuid
  ed_external_event_id :: string
  ed_occurred_at :: datetime
  ed_content_id :: "uuid option"
  ed_adapter_metadata :: adapter_metadata

record message_deletion_event =
  del_id :: uuid
  del_tenant_id :: uuid
  del_message_id :: uuid
  del_external_event_id :: string
  del_occurred_at :: datetime
  del_adapter_metadata :: adapter_metadata

record message_delivery_status_event =
  dse_id :: uuid
  dse_tenant_id :: uuid
  dse_message_id :: uuid
  dse_external_event_id :: string
  dse_occurred_at :: datetime
  dse_delivery_status :: delivery_status
  dse_adapter_metadata :: adapter_metadata

definition MessageEditEvent_post_init ::
    "message_edit_event \<Rightarrow> messaging_error + message_edit_event" where
  "MessageEditEvent_post_init e =
     bindE (validate_external_id (ed_external_event_id e) ''external_event_id'') (\<lambda>ext.
     bindE (validate_msg_datetime (ed_occurred_at e) ''occurred_at'') (\<lambda>at.
     Inr (e\<lparr>ed_external_event_id := ext, ed_occurred_at := at\<rparr>)))"

definition MessageDeletionEvent_post_init ::
    "message_deletion_event \<Rightarrow> messaging_error + message_deletion_event" where
  "MessageDeletionEvent_post_init e =
     bindE (validate_external_id (del_external_event_id e) ''external_event_id'') (\<lambda>ext.
     bindE (validate_msg_datetime (del_occurred_at e) ''occurred_at'') (\<lambda>at.
     Inr (e\<lparr>del_external_event_id := ext, del_occurred_at := at\<rparr>)))"

definition MessageDeliveryStatusEvent_post_init ::
    "message_delivery_status_event \<Rightarrow> messaging_error + message_delivery_status_event" where
  "MessageDeliveryStatusEvent_post_init e =
     bindE (validate_external_id (dse_external_event_id e) ''external_event_id'') (\<lambda>ext.
     bindE (validate_msg_datetime (dse_occurred_at e) ''occurred_at'') (\<lambda>at.
     Inr (e\<lparr>dse_external_event_id := ext, dse_occurred_at := at\<rparr>)))"

section \<open>Projection of a message\<close>

text \<open>
  The events have passed their constructors, so their times are aware and comparable; a \<open>UUID\<close>
  orders as its 128-bit value.
\<close>

fun dedup_loop :: "('t \<Rightarrow> string) \<Rightarrow> string set \<Rightarrow> 't list \<Rightarrow> 't list" where
  "dedup_loop ext seen [] = []"
| "dedup_loop ext seen (e # es) =
     (if ext e \<in> seen then dedup_loop ext seen es
      else e # dedup_loop ext (insert (ext e) seen) es)"

definition deduplicate_events ::
    "('t \<Rightarrow> string) \<Rightarrow> ('t \<Rightarrow> datetime \<times> uuid) \<Rightarrow> 't list \<Rightarrow> 't list" where
  "deduplicate_events ext key events = dedup_loop ext {} (sort_key key events)"

fun check_scope :: "message \<Rightarrow> (uuid \<times> uuid) list \<Rightarrow> messaging_error + unit" where
  "check_scope msg [] = Inr ()"
| "check_scope msg ((tenant, mid) # refs) =
     (if tenant \<noteq> m_tenant_id msg
      then Inl (Msg_ValueError ''all events must belong to the same tenant as the message'')
      else if mid \<noteq> m_id msg
      then Inl (Msg_ValueError ''all events must belong to the projected message'')
      else check_scope msg refs)"

definition validate_message_scope ::
    "message \<Rightarrow> message_edit_event list \<Rightarrow> message_deletion_event list \<Rightarrow>
     message_delivery_status_event list \<Rightarrow> messaging_error + unit" where
  "validate_message_scope msg edits deletions deliveries =
     check_scope msg
       (map (\<lambda>e. (ed_tenant_id e, ed_message_id e)) edits @
        map (\<lambda>e. (del_tenant_id e, del_message_id e)) deletions @
        map (\<lambda>e. (dse_tenant_id e, dse_message_id e)) deliveries)"

record message_projection =
  mp_message_id :: uuid
  mp_tenant_id :: uuid
  mp_content_id :: "uuid option"
  mp_is_deleted :: bool
  mp_deleted_at :: "datetime option"
  mp_delivery_status :: "delivery_status option"
  mp_delivery_status_at :: "datetime option"

definition project_message ::
    "message \<Rightarrow> message_edit_event list \<Rightarrow> message_deletion_event list \<Rightarrow>
     message_delivery_status_event list \<Rightarrow> messaging_error + message_projection" where
  "project_message msg edits deletions deliveries =
     bindE (validate_message_scope msg edits deletions deliveries) (\<lambda>_.
     let content = foldl (\<lambda>c e. ed_content_id e) (m_content_id msg)
           (deduplicate_events ed_external_event_id (\<lambda>e. (ed_occurred_at e, ed_id e)) edits);
         dels = deduplicate_events del_external_event_id (\<lambda>e. (del_occurred_at e, del_id e)) deletions;
         deliv = deduplicate_events dse_external_event_id (\<lambda>e. (dse_occurred_at e, dse_id e)) deliveries
     in Inr \<lparr>mp_message_id = m_id msg, mp_tenant_id = m_tenant_id msg, mp_content_id = content,
             mp_is_deleted = (dels \<noteq> []),
             mp_deleted_at = (if dels \<noteq> [] then Some (del_occurred_at (last dels)) else None),
             mp_delivery_status =
               (if deliv \<noteq> [] then Some (dse_delivery_status (last deliv)) else None),
             mp_delivery_status_at =
               (if deliv \<noteq> [] then Some (dse_occurred_at (last deliv)) else None)\<rparr>)"

section \<open>Outbound messages\<close>

datatype outbound_message_kind = OMK_FREE_FORM_TEXT | OMK_APPROVED_TEMPLATE

fun outbound_kind_value :: "outbound_message_kind \<Rightarrow> string" where
  "outbound_kind_value OMK_FREE_FORM_TEXT = ''free_form_text''"
| "outbound_kind_value OMK_APPROVED_TEMPLATE = ''approved_template''"

datatype outbound_message_status =
    OMS_DRAFT | OMS_PENDING_APPROVAL | OMS_APPROVED | OMS_QUEUED | OMS_SENDING
  | OMS_PROVIDER_ACCEPTED | OMS_DELIVERY_UNKNOWN | OMS_DELIVERED | OMS_READ | OMS_FAILED
  | OMS_CANCELLED

fun outbound_status_value :: "outbound_message_status \<Rightarrow> string" where
  "outbound_status_value OMS_DRAFT = ''draft''"
| "outbound_status_value OMS_PENDING_APPROVAL = ''pending_approval''"
| "outbound_status_value OMS_APPROVED = ''approved''"
| "outbound_status_value OMS_QUEUED = ''queued''"
| "outbound_status_value OMS_SENDING = ''sending''"
| "outbound_status_value OMS_PROVIDER_ACCEPTED = ''provider_accepted''"
| "outbound_status_value OMS_DELIVERY_UNKNOWN = ''delivery_unknown''"
| "outbound_status_value OMS_DELIVERED = ''delivered''"
| "outbound_status_value OMS_READ = ''read''"
| "outbound_status_value OMS_FAILED = ''failed''"
| "outbound_status_value OMS_CANCELLED = ''cancelled''"

definition outbound_kinds :: "outbound_message_kind list" where
  "outbound_kinds = [OMK_FREE_FORM_TEXT, OMK_APPROVED_TEMPLATE]"

definition outbound_statuses :: "outbound_message_status list" where
  "outbound_statuses =
     [OMS_DRAFT, OMS_PENDING_APPROVAL, OMS_APPROVED, OMS_QUEUED, OMS_SENDING,
      OMS_PROVIDER_ACCEPTED, OMS_DELIVERY_UNKNOWN, OMS_DELIVERED, OMS_READ, OMS_FAILED,
      OMS_CANCELLED]"

definition TERMINAL_STATUSES :: "outbound_message_status list" where
  "TERMINAL_STATUSES =
     [OMS_PROVIDER_ACCEPTED, OMS_DELIVERY_UNKNOWN, OMS_DELIVERED, OMS_READ, OMS_FAILED,
      OMS_CANCELLED]"

definition NO_RESEND_STATUSES :: "outbound_message_status list" where
  "NO_RESEND_STATUSES = [OMS_PROVIDER_ACCEPTED, OMS_DELIVERY_UNKNOWN, OMS_DELIVERED, OMS_READ]"

fun OUTBOUND_TRANSITIONS :: "outbound_message_status \<Rightarrow> outbound_message_status list" where
  "OUTBOUND_TRANSITIONS OMS_DRAFT = [OMS_PENDING_APPROVAL, OMS_CANCELLED]"
| "OUTBOUND_TRANSITIONS OMS_PENDING_APPROVAL = [OMS_APPROVED, OMS_CANCELLED]"
| "OUTBOUND_TRANSITIONS OMS_APPROVED = [OMS_QUEUED, OMS_CANCELLED]"
| "OUTBOUND_TRANSITIONS OMS_QUEUED = [OMS_SENDING, OMS_CANCELLED]"
| "OUTBOUND_TRANSITIONS OMS_SENDING = [OMS_PROVIDER_ACCEPTED, OMS_DELIVERY_UNKNOWN, OMS_FAILED]"
| "OUTBOUND_TRANSITIONS OMS_PROVIDER_ACCEPTED = [OMS_DELIVERED, OMS_READ, OMS_FAILED]"
| "OUTBOUND_TRANSITIONS OMS_DELIVERY_UNKNOWN =
     [OMS_PROVIDER_ACCEPTED, OMS_DELIVERED, OMS_READ, OMS_FAILED]"
| "OUTBOUND_TRANSITIONS OMS_DELIVERED = [OMS_READ]"
| "OUTBOUND_TRANSITIONS OMS_READ = []"
| "OUTBOUND_TRANSITIONS OMS_FAILED = []"
| "OUTBOUND_TRANSITIONS OMS_CANCELLED = []"

definition validate_failure_code :: "string option \<Rightarrow> messaging_error + string option" where
  "validate_failure_code value =
     (case value of None \<Rightarrow> Inr None
      | Some v \<Rightarrow>
          let normalized = strip v in
          if \<not> matches_ident ident_char 63 normalized
          then Inl (Msg_ValueError ''failure_code format is invalid'') else Inr (Some normalized))"

definition validate_provider_message_id :: "string option \<Rightarrow> messaging_error + string option" where
  "validate_provider_message_id value =
     (case value of None \<Rightarrow> Inr None
      | Some v \<Rightarrow>
          let normalized = strip v in
          if normalized = [] then Inl (Msg_ValueError ''provider_message_id must not be empty'')
          else if length normalized > 128
          then Inl (Msg_ValueError ''provider_message_id exceeds maximum length'')
          else Inr (Some normalized))"

definition validate_outbound_message_transition ::
    "outbound_message_status \<Rightarrow> outbound_message_status \<Rightarrow> messaging_error + unit" where
  "validate_outbound_message_transition current target =
     (if current = target then Inr ()
      else raise_if (target \<notin> set (OUTBOUND_TRANSITIONS current))
        (OutboundMessageTransitionError ''outbound message transition is not allowed''))"

definition outbound_send_may_proceed :: "outbound_message_status \<Rightarrow> bool" where
  "outbound_send_may_proceed status \<longleftrightarrow> status = OMS_QUEUED"

definition outbound_is_terminal :: "outbound_message_status \<Rightarrow> bool" where
  "outbound_is_terminal status \<longleftrightarrow> status \<in> set TERMINAL_STATUSES"

definition outbound_resend_prohibited :: "outbound_message_status \<Rightarrow> bool" where
  "outbound_resend_prohibited status \<longleftrightarrow> status \<in> set NO_RESEND_STATUSES"

record outbound_message =
  om_id :: uuid
  om_tenant_id :: uuid
  om_conversation_thread_id :: uuid
  om_channel_connection_id :: uuid
  om_kind :: outbound_message_kind
  om_status :: outbound_message_status
  om_encrypted_content_id :: uuid
  om_provider_template_id :: "uuid option"
  om_created_by_user_id :: uuid
  om_approved_by_user_id :: "uuid option"
  om_failure_code :: "string option"
  om_created_at :: datetime
  om_approved_at :: "datetime option"
  om_queued_at :: "datetime option"
  om_sent_at :: "datetime option"
  om_completed_at :: "datetime option"
  om_updated_at :: datetime
  om_version :: int
  om_provider_message_id :: "string option"

definition APPROVED_STATUSES :: "outbound_message_status list" where
  "APPROVED_STATUSES =
     [OMS_APPROVED, OMS_QUEUED, OMS_SENDING, OMS_PROVIDER_ACCEPTED, OMS_DELIVERY_UNKNOWN,
      OMS_DELIVERED, OMS_READ]"

definition check_optional_time :: "string \<Rightarrow> datetime option \<Rightarrow> messaging_error + unit" where
  "check_optional_time field value =
     when_some value (\<lambda>d. bindE (validate_msg_datetime d field) (\<lambda>_. Inr ()))"

definition OutboundMessage_post_init :: "outbound_message \<Rightarrow> messaging_error + outbound_message" where
  "OutboundMessage_post_init om =
     bindE (raise_if (om_kind om = OMK_APPROVED_TEMPLATE \<and> om_provider_template_id om = None)
              (OutboundMessageInvariantError
                 ''approved template messages require provider_template_id'')) (\<lambda>_.
     bindE (raise_if (om_kind om \<noteq> OMK_APPROVED_TEMPLATE \<and> om_provider_template_id om \<noteq> None)
              (OutboundMessageInvariantError
                 ''free-form messages must not reference provider_template_id'')) (\<lambda>_.
     bindE (raise_if (om_status om \<in> set APPROVED_STATUSES \<and> om_approved_by_user_id om = None)
              (OutboundMessageInvariantError ''approved messages require approved_by_user_id'')) (\<lambda>_.
     bindE (validate_provider_message_id (om_provider_message_id om)) (\<lambda>pmid.
     bindE (validate_failure_code (om_failure_code om)) (\<lambda>failure.
     bindE (validate_msg_datetime (om_created_at om) ''created_at'') (\<lambda>_.
     bindE (validate_msg_datetime (om_updated_at om) ''updated_at'') (\<lambda>_.
     bindE (check_optional_time ''approved_at'' (om_approved_at om)) (\<lambda>_.
     bindE (check_optional_time ''queued_at'' (om_queued_at om)) (\<lambda>_.
     bindE (check_optional_time ''sent_at'' (om_sent_at om)) (\<lambda>_.
     bindE (check_optional_time ''completed_at'' (om_completed_at om)) (\<lambda>_.
     bindE (raise_if (om_version om < 1) (Msg_ValueError ''version must be a positive integer'')) (\<lambda>_.
     bindE (raise_if (om_status om = OMS_FAILED \<and> failure = None)
              (OutboundMessageInvariantError ''failed messages require failure_code'')) (\<lambda>_.
     Inr (om\<lparr>om_provider_message_id := pmid, om_failure_code := failure\<rparr>))))))))))))))"

section \<open>The messaging policy\<close>

definition WHATSAPP_MESSAGING_POLICY_VERSION :: string where
  "WHATSAPP_MESSAGING_POLICY_VERSION = ''whatsapp_messaging_policy_v1''"

definition CUSTOMER_SERVICE_WINDOW :: int where
  "CUSTOMER_SERVICE_WINDOW = timedelta_hours 24"

datatype messaging_policy_violation =
    MPV_TEMPLATE_REQUIRED | MPV_FREE_FORM_NOT_ALLOWED | MPV_TEMPLATE_NOT_ALLOWED | MPV_WINDOW_UNKNOWN

fun policy_violation_value :: "messaging_policy_violation \<Rightarrow> string" where
  "policy_violation_value MPV_TEMPLATE_REQUIRED = ''template_required''"
| "policy_violation_value MPV_FREE_FORM_NOT_ALLOWED = ''free_form_not_allowed''"
| "policy_violation_value MPV_TEMPLATE_NOT_ALLOWED = ''template_not_allowed''"
| "policy_violation_value MPV_WINDOW_UNKNOWN = ''window_unknown''"

record messaging_policy_decision =
  mpd_allowed :: bool
  mpd_violation :: "messaging_policy_violation option"

definition MessagingPolicyDecision_post_init ::
    "messaging_policy_decision \<Rightarrow> messaging_error + messaging_policy_decision" where
  "MessagingPolicyDecision_post_init d =
     bindE (raise_if (mpd_allowed d \<and> mpd_violation d \<noteq> None)
              (Msg_ValueError ''allowed decisions must not include a violation'')) (\<lambda>_.
     bindE (raise_if (\<not> mpd_allowed d \<and> mpd_violation d = None)
              (Msg_ValueError ''denied decisions require a violation'')) (\<lambda>_.
     Inr d))"

definition policy_allow :: "messaging_error + messaging_policy_decision" where
  "policy_allow =
     MessagingPolicyDecision_post_init \<lparr>mpd_allowed = True, mpd_violation = None\<rparr>"

definition policy_deny :: "messaging_policy_violation \<Rightarrow> messaging_error + messaging_policy_decision" where
  "policy_deny v =
     MessagingPolicyDecision_post_init \<lparr>mpd_allowed = False, mpd_violation = Some v\<rparr>"

record whatsapp_messaging_policy =
  wmp_version :: string
  wmp_customer_service_window :: int

definition WhatsAppMessagingPolicy_post_init ::
    "whatsapp_messaging_policy \<Rightarrow> messaging_error + whatsapp_messaging_policy" where
  "WhatsAppMessagingPolicy_post_init p =
     bindE (raise_if (wmp_version p \<noteq> WHATSAPP_MESSAGING_POLICY_VERSION)
              (Msg_ValueError ''unsupported messaging policy version'')) (\<lambda>_.
     bindE (raise_if (wmp_customer_service_window p \<le> 0)
              (Msg_ValueError ''customer_service_window must be positive'')) (\<lambda>_.
     Inr p))"

definition default_messaging_policy :: whatsapp_messaging_policy where
  "default_messaging_policy =
     \<lparr>wmp_version = WHATSAPP_MESSAGING_POLICY_VERSION,
      wmp_customer_service_window = CUSTOMER_SERVICE_WINDOW\<rparr>"

definition evaluate_send ::
    "whatsapp_messaging_policy \<Rightarrow> outbound_message_kind \<Rightarrow> datetime option \<Rightarrow> datetime \<Rightarrow>
     messaging_error + messaging_policy_decision" where
  "evaluate_send policy kind last_customer_inbound_at now =
     (if kind = OMK_APPROVED_TEMPLATE then policy_allow
      else case last_customer_inbound_at of
        None \<Rightarrow> policy_deny MPV_TEMPLATE_REQUIRED
      | Some last_at \<Rightarrow>
          if \<not> aware last_at
          then Inl (WhatsAppMessagingPolicyError ''last_customer_inbound_at must be timezone-aware'')
          else if \<not> aware now
          then Inl (Msg_TypeError ''can't compare offset-naive and offset-aware datetimes'')
          else if now \<le> dt_plus last_at (wmp_customer_service_window policy) then policy_allow
          else policy_deny MPV_TEMPLATE_REQUIRED)"

definition require_allowed ::
    "whatsapp_messaging_policy \<Rightarrow> outbound_message_kind \<Rightarrow> datetime option \<Rightarrow> datetime \<Rightarrow>
     messaging_error + unit" where
  "require_allowed policy kind last_customer_inbound_at now =
     bindE (evaluate_send policy kind last_customer_inbound_at now) (\<lambda>decision.
     raise_if (\<not> mpd_allowed decision)
       (WhatsAppMessagingPolicyError
          (''messaging policy violation: '' @
           (case mpd_violation decision of None \<Rightarrow> ''denied'' | Some v \<Rightarrow> policy_violation_value v))))"

end
