(* ===== verification/Messaging_Laws.thy ===== *)
theory Messaging_Laws
  imports Messaging_Domain
begin

text \<open>
  Laws of the messaging value model: normalised metadata is sorted, bounded and free of sensitive
  keys; the projection of a message depends only on which events there are, not on their order or
  on redelivered copies; statuses from which a message must not be sent again never lead back to
  one from which it is; the policy window.
\<close>

section \<open>Adapter metadata\<close>

definition scalar_ok :: "adapter_scalar \<Rightarrow> bool" where
  "scalar_ok v = (case v of AS_Str s \<Rightarrow> s \<noteq> [] \<and> length s \<le> MAX_STRING_VALUE_LENGTH | _ \<Rightarrow> True)"

lemma validate_scalar_value_Inr [result_simps]:
  "validate_scalar_value x key = Inr v \<longleftrightarrow> x = Some v \<and> scalar_ok v"
  by (auto simp: validate_scalar_value_def scalar_ok_def split: option.splits adapter_scalar.splits)

definition entry_ok :: "string \<times> adapter_scalar \<Rightarrow> bool" where
  "entry_ok e \<longleftrightarrow>
     strip (fst e) = fst e \<and> fst e \<noteq> [] \<and> length (fst e) \<le> MAX_KEY_LENGTH \<and>
     \<not> is_sensitive_key (fst e) \<and> scalar_ok (snd e)"

lemma update_fresh_key: "k \<notin> set (map fst d) \<Longrightarrow> AList.update k v d = d @ [(k, v)]"
  by (induction d) auto

definition clean_entry :: "string \<times> adapter_scalar option \<Rightarrow> string \<times> adapter_scalar" where
  "clean_entry e = (strip (fst e), the (snd e))"

lemma normalize_entries_Inr:
  assumes "normalize_entries items acc = Inr d" and "distinct (map fst acc)"
  shows "d = acc @ map clean_entry items \<and> distinct (map fst d) \<and>
    list_all entry_ok (map clean_entry items)"
  using assms
proof (induction items acc rule: normalize_entries.induct)
  case (1 acc)
  then show ?case by simp
next
  case (2 k x items acc)
  let ?k = "strip k"
  from 2 obtain v where step: "?k \<noteq> []" "length ?k \<le> MAX_KEY_LENGTH" "\<not> is_sensitive_key ?k"
    "?k \<notin> set (map fst acc)" "x = Some v" "scalar_ok v"
    and rest: "normalize_entries items (acc @ [(?k, v)]) = Inr d"
    by (auto simp: Let_def result_simps update_fresh_key split: if_splits)
  have clean: "clean_entry (k, x) = (?k, v)" and ok: "entry_ok (?k, v)"
    using step by (simp_all add: entry_ok_def clean_entry_def)
  have "distinct (map fst (acc @ [(?k, v)]))" using 2 step by simp
  with 2 step rest
  have IH: "d = (acc @ [(?k, v)]) @ map clean_entry items" "distinct (map fst d)"
      "list_all entry_ok (map clean_entry items)"
    by (simp_all add: Let_def update_fresh_key)
  show ?case using IH(2,3) ok by (intro conjI) (simp_all add: IH(1) clean)
qed

lemma size_mset_cong:
  assumes "mset xs = mset ys"
  shows "estimate_serialized_size xs = estimate_serialized_size ys"
proof -
  have "mset (map f xs) = mset (map f ys)" for f :: "_ \<Rightarrow> nat" using assms by simp
  then have "sum_list (map f xs) = sum_list (map f ys)" for f :: "_ \<Rightarrow> nat"
    by (metis sum_mset_sum_list)
  with mset_eq_length [OF assms] show ?thesis by (simp only: estimate_serialized_size_def)
qed

lemma check_entries_Inr:
  "check_entries seen es = Inr u \<longleftrightarrow>
     distinct (map fst es) \<and> set (map fst es) \<inter> seen = {} \<and> list_all (\<lambda>e. scalar_ok (snd e)) es"
  by (induction seen es rule: check_entries.induct) (auto simp: result_simps)

lemma AdapterMetadata_post_init_Inr:
  "AdapterMetadata_post_init m = Inr m' \<longleftrightarrow>
     m' = m \<and> distinct (map fst (am_entries m)) \<and> list_all (\<lambda>e. scalar_ok (snd e)) (am_entries m) \<and>
     length (am_entries m) \<le> MAX_ENTRIES \<and>
     estimate_serialized_size (am_entries m) \<le> MAX_TOTAL_SERIALIZED_SIZE"
  by (auto simp: AdapterMetadata_post_init_def result_simps check_entries_Inr)

lemma sorted_distinct_keys:
  assumes "distinct (map fst d)"
  shows "sorted_wrt (<) (map fst (sort_key fst d))"
  using assms sorted_sort_key [of fst d]
  by (simp add: strict_sorted_iff distinct_map inj_on_def)

lemma map_of_sort_key:
  assumes "distinct (map fst d)"
  shows "map_of (sort_key fst d) = map_of d"
  by (rule map_of_eqI) (use assms in \<open>auto simp: distinct_map inj_on_def\<close>)

text \<open>
  Metadata built from a mapping is safe to store: its keys are stripped, strictly sorted and
  free of the sensitive fragments, keys and string values are within their lengths, there are at
  most 32 entries of at most 4096 estimated bytes, and looking a key up gives the value that the
  mapping has for a raw key that strips to it. Conversely the constructor accepts whatever
  normalisation produces.
\<close>

theorem adapter_metadata_safe:
  assumes "normalize_adapter_metadata (Some items) = Inr d"
  shows "\<exists>m. AdapterMetadata_from_mapping (Some items) = Inr m \<and>
    sorted_wrt (<) (map fst (am_entries m)) \<and> list_all entry_ok (am_entries m) \<and>
    length (am_entries m) \<le> MAX_ENTRIES \<and>
    estimate_serialized_size (am_entries m) \<le> MAX_TOTAL_SERIALIZED_SIZE \<and>
    (\<forall>k v. (k, Some v) \<in> set items \<longrightarrow> map_of (am_entries m) (strip k) = Some v)"
proof -
  have len: "length items \<le> MAX_ENTRIES" and norm: "normalize_entries items [] = Inr d"
    and size: "estimate_serialized_size d \<le> MAX_TOTAL_SERIALIZED_SIZE"
    using assms by (auto simp: normalize_adapter_metadata_def result_simps split: if_splits)
  have "d = [] @ map clean_entry items \<and> distinct (map fst d) \<and> list_all entry_ok (map clean_entry items)"
    by (rule normalize_entries_Inr [OF norm]) simp
  then have d: "d = map clean_entry items" "distinct (map fst d)" "list_all entry_ok d"
    unfolding append_Nil by blast+
  let ?m = "\<lparr>am_entries = sort_key fst d\<rparr>"
  have perm: "mset (sort_key fst d) = mset d" by simp
  have dist: "distinct (map fst (sort_key fst d))"
    using d(2) by (metis mset_map perm mset_eq_imp_distinct_iff)
  have post: "AdapterMetadata_post_init ?m = Inr ?m"
    using d len size dist size_mset_cong [OF perm]
    by (simp add: AdapterMetadata_post_init_Inr list_all_iff entry_ok_def del: sort_key_simps)
  have "map_of (sort_key fst d) (strip k) = Some v" if "(k, Some v) \<in> set items" for k v
  proof -
    have "clean_entry (k, Some v) \<in> set d" unfolding d(1) using that by (metis image_eqI list.set_map)
    then show ?thesis by (simp add: map_of_sort_key [OF d(2)] map_of_eq_Some_iff [OF d(2)] clean_entry_def)
  qed
  with post assms d sorted_distinct_keys [OF d(2)] len size size_mset_cong [OF perm]
  show ?thesis
    by (intro exI [of _ ?m]) (auto simp: AdapterMetadata_from_mapping_def list_all_iff)
qed

theorem adapter_metadata_safe_witness:
  "\<exists>m. AdapterMetadata_from_mapping (Some [('' wa_id '', Some (AS_Int 77)), (''lang'', Some (AS_Str ''ru''))])
        = Inr m \<and> map_of (am_entries m) ''wa_id'' = Some (AS_Int 77)"
proof -
  let ?items = "[('' wa_id '', Some (AS_Int 77)), (''lang'', Some (AS_Str ''ru''))]"
  have "normalize_adapter_metadata (Some ?items) =
      Inr [(''wa_id'', AS_Int 77), (''lang'', AS_Str ''ru'')]"
    by code_simp
  moreover have "strip '' wa_id '' = ''wa_id''" by code_simp
  ultimately show ?thesis
    using adapter_metadata_safe [of ?items] by (metis list.set_intros(1))
qed

section \<open>Deduplicated events\<close>

text \<open>
  The three kinds of events share one contract: an external identifier, a time, and an identifier
  of their own that orders events of the same time.
\<close>

text \<open>
  An event that repeats one at hand: it has the external identifier of that event, an identifier of
  its own, and is later in the order of the events; or it has the time of that event too, then its
  own identifier may come first, provided that all events of this time are copies of it (\<open>val\<close> is
  what the projection reads of an event besides its time).
\<close>

definition repeats ::
    "('t \<Rightarrow> string) \<Rightarrow> ('t \<Rightarrow> datetime) \<Rightarrow> ('t \<Rightarrow> uuid) \<Rightarrow> ('t \<Rightarrow> 'v) \<Rightarrow> 't set \<Rightarrow> 't \<Rightarrow> bool" where
  "repeats ext at ident val S e' \<longleftrightarrow> ident e' \<notin> ident ` S \<and>
     (\<exists>e\<in>S. ext e = ext e' \<and> at e \<le> at e' \<and>
        ((at e, ident e) < (at e', ident e') \<or>
         (\<forall>x\<in>S. at x = at e' \<longrightarrow> ext x = ext e' \<and> val x = val e')))"

primrec repeated ::
    "('t \<Rightarrow> string) \<Rightarrow> ('t \<Rightarrow> datetime) \<Rightarrow> ('t \<Rightarrow> uuid) \<Rightarrow> ('t \<Rightarrow> 'v) \<Rightarrow> 't set \<Rightarrow> 't list \<Rightarrow> bool" where
  "repeated ext at ident val S [] = True"
| "repeated ext at ident val S (e # es) =
     (repeats ext at ident val S e \<and> repeated ext at ident val (insert e S) es)"

locale event_stream =
  fixes ext :: "'t \<Rightarrow> string" and at :: "'t \<Rightarrow> datetime" and ident :: "'t \<Rightarrow> uuid"
    and dedup :: "'t list \<Rightarrow> 't list" and val :: "'t \<Rightarrow> 'v"
  assumes dedup_def: "dedup events = deduplicate_events ext (\<lambda>e. (at e, ident e)) events"
begin

definition key :: "'t \<Rightarrow> datetime \<times> uuid" where
  "key e = (at e, ident e)"

text \<open>The events that count: of each external identifier the one with the least key.\<close>

definition kept :: "'t set \<Rightarrow> 't set" where
  "kept S = {e\<in>S. \<forall>e'\<in>S. ext e' = ext e \<longrightarrow> key e \<le> key e'}"

lemma dedup_loop_set:
  assumes "sorted (map key es)" and "distinct (map key es)"
  shows "set (dedup_loop ext seen es) = {e\<in>kept (set es). ext e \<notin> seen}"
  using assms
proof (induction es arbitrary: seen)
  case Nil
  then show ?case by (simp add: kept_def)
next
  case (Cons e es)
  have least: "key e < key e'" if "e' \<in> set es" for e'
    using Cons.prems that by (auto simp: image_iff less_le)
  have kept: "kept (set (e # es)) = insert e {e'\<in>kept (set es). ext e' \<noteq> ext e}"
    using least by (fastforce simp: kept_def dest: less_imp_le)
  show ?case
    using Cons unfolding kept by auto
qed

lemma dedup_loop_sorted: "sorted (map key es) \<Longrightarrow> sorted (map key (dedup_loop ext seen es))"
proof (induction es arbitrary: seen)
  case (Cons e es)
  have "set (dedup_loop ext s es) \<subseteq> set es" for s by (induction es arbitrary: s) auto
  with Cons show ?case by (auto simp: subset_iff)
qed simp

lemma dedup_loop_distinct: "distinct (map key es) \<Longrightarrow> distinct (map key (dedup_loop ext seen es))"
proof (induction es arbitrary: seen)
  case (Cons e es)
  have "set (dedup_loop ext s es) \<subseteq> set es" for s by (induction es arbitrary: s) auto
  with Cons show ?case by (auto simp: image_iff subset_iff)
qed simp

lemma key_inj: "inj_on ident S \<Longrightarrow> inj_on key S"
  by (auto simp: inj_on_def key_def)

text \<open>The deduplicated list is the kept events in the order of their keys.\<close>

lemma dedup_spec:
  assumes "distinct (map ident events)"
  shows "set (dedup events) = kept (set events)" and "sorted (map key (dedup events))"
    and "distinct (map key (dedup events))"
proof -
  let ?s = "sort_key key events"
  have keyeq: "(\<lambda>e. (at e, ident e)) = key" by (simp add: key_def fun_eq_iff)
  have "distinct events" and "inj_on ident (set events)" using assms by (simp_all add: distinct_map)
  then have "distinct (map key ?s)" by (simp add: distinct_map key_inj)
  moreover have "sorted (map key ?s)" by simp
  ultimately show "set (dedup events) = kept (set events)" and "sorted (map key (dedup events))"
    and "distinct (map key (dedup events))"
    unfolding dedup_def deduplicate_events_def keyeq
    by (simp_all add: dedup_loop_set dedup_loop_sorted dedup_loop_distinct)
qed

lemma dedup_cong:
  assumes "distinct (map ident es)" and "distinct (map ident es')" and "kept (set es) = kept (set es')"
  shows "dedup es = dedup es'"
proof -
  have "inj_on key (set (dedup es))"
    using dedup_spec(3) [OF assms(1)] by (simp add: distinct_map)
  moreover have "set (dedup es) = set (dedup es')" using dedup_spec(1) assms by simp
  ultimately show ?thesis
    using dedup_spec(2,3) assms by (metis map_sorted_distinct_set_unique Un_absorb)
qed

text \<open>A later repetition changes nothing; an earlier one takes the place of the event it repeats.\<close>

lemma kept_redelivered:
  assumes "e \<in> S" and "ext e' = ext e" and "key e < key e'"
  shows "kept (insert e' S) = kept S"
  using assms by (fastforce simp: kept_def)

definition read :: "'t \<Rightarrow> datetime \<times> 'v" where
  "read e = (at e, val e)"

lemma kept_least:
  assumes "finite S" and "e \<in> S"
  obtains f where "f \<in> kept S" and "ext f = ext e" and "key f \<le> key e"
proof -
  let ?A = "{x \<in> S. ext x = ext e}"
  have "finite (key ` ?A)" "key ` ?A \<noteq> {}" using assms by auto
  from Min_in [OF this] obtain f where f: "f \<in> ?A" "key f = Min (key ` ?A)" by auto
  have "key f \<le> key x" if "x \<in> ?A" for x unfolding f(2) using that \<open>finite (key ` ?A)\<close> by simp
  then show ?thesis using that [of f] f(1) assms(2) by (auto simp: kept_def)
qed

lemma kept_replaced:
  assumes "inj_on ident S" and "f \<in> kept S" and "ext f = ext e'"
    and first: "\<And>x. x \<in> S \<Longrightarrow> ext x = ext e' \<Longrightarrow> key e' < key x"
  shows "kept (insert e' S) = insert e' (kept S - {f})"
proof -
  have only: "x = f" if x: "x \<in> kept S" "ext x = ext e'" for x
  proof -
    have S: "x \<in> S" "f \<in> S" and "key x \<le> key f" "key f \<le> key x"
      using x assms(2,3) by (auto simp: kept_def)
    then have "key x = key f" by simp
    then show ?thesis using inj_onD [OF key_inj [OF assms(1)]] S by blast
  qed
  have "e' \<notin> S" using first [of e'] by blast
  show ?thesis
  proof
    show "kept (insert e' S) \<subseteq> insert e' (kept S - {f})"
    proof
      fix x
      assume x: "x \<in> kept (insert e' S)"
      show "x \<in> insert e' (kept S - {f})"
      proof (cases "x = e'")
        case False
        then have xS: "x \<in> S" and "ext x = ext e' \<longrightarrow> key x \<le> key e'" using x by (auto simp: kept_def)
        then have "ext x \<noteq> ext e'" using first [of x] by auto
        then show ?thesis using x xS assms(3) by (auto simp: kept_def)
      qed simp
    qed
    show "insert e' (kept S - {f}) \<subseteq> kept (insert e' S)"
    proof
      fix x
      assume x: "x \<in> insert e' (kept S - {f})"
      show "x \<in> kept (insert e' S)"
      proof (cases "x = e'")
        case True
        then show ?thesis using first by (auto simp: kept_def less_imp_le)
      next
        case False
        then have "x \<in> kept S" "ext x \<noteq> ext e'" using x only by auto
        then show ?thesis by (auto simp: kept_def)
      qed
    qed
  qed
qed

lemma dedup_unique:
  assumes "distinct (map ident es)" and "set L = kept (set es)" and "sorted (map key L)" and "distinct (map key L)"
  shows "dedup es = L"
proof -
  have "inj_on key (set (dedup es) \<union> set L)"
    using assms(2,4) dedup_spec(1) [OF assms(1)] by (simp add: distinct_map)
  then show ?thesis
    using map_sorted_distinct_set_unique [OF _ dedup_spec(2,3) [OF assms(1)] assms(3,4)]
      dedup_spec(1) [OF assms(1)] assms(2) by simp
qed

lemma dedup_repeats:
  assumes ids: "distinct (map ident es)" and rep: "repeats ext at ident val (set es) e'"
    and es': "set es' = insert e' (set es)" "distinct (map ident es')"
  shows "map read (dedup es') = map read (dedup es)"
proof (cases "\<exists>e\<in>set es. ext e' = ext e \<and> key e < key e'")
  case True
  then show ?thesis using kept_redelivered dedup_cong [OF ids es'(2)] es'(1) by metis
next
  case False
  obtain e where e: "e \<in> set es" "ext e = ext e'" "at e \<le> at e'"
    and copies: "\<And>x. x \<in> set es \<Longrightarrow> at x = at e' \<Longrightarrow> ext x = ext e' \<and> val x = val e'"
    using rep False unfolding repeats_def key_def by metis
  have fresh: "key x \<noteq> key e'" if "x \<in> set es" for x
    using rep that unfolding repeats_def key_def by (metis image_eqI prod.inject)
  have first: "key e' < key x" if "x \<in> set es" "ext x = ext e'" for x
    using False fresh [OF that(1)] that by (metis linorder_less_linear)
  obtain f where f: "f \<in> kept (set es)" "ext f = ext e'" "key f \<le> key e"
    using kept_least [OF finite_set e(1)] e(2) by metis
  have fS: "f \<in> set es" using f(1) by (simp add: kept_def)
  have "at e' \<le> at f" "at f \<le> at e" using first [OF fS f(2)] f(3) by (auto simp: key_def)
  then have at: "at f = at e'" using e(3) by simp
  have inj: "inj_on ident (set es)" using ids by (simp add: distinct_map)
  let ?L = "dedup es"
  note spec = dedup_spec [OF ids]
  have "f \<in> set ?L" using f(1) spec(1) by simp
  then obtain A B where L: "?L = A @ f # B" by (meson split_list)
  have earlier: "key a < key e'" if "a \<in> set A" for a
  proof -
    have a: "a \<in> kept (set es)" "key a < key f"
      using that spec L by (auto simp: sorted_append less_le image_iff)
    then have "a \<in> set es" by (simp add: kept_def)
    have "at a \<noteq> at e'"
    proof
      assume "at a = at e'"
      then have "ext a = ext e'" using copies \<open>a \<in> set es\<close> by blast
      then show False using f(1,2) a fS by (auto simp: kept_def)
    qed
    moreover have "at a \<le> at e'" using a(2) at by (auto simp: key_def)
    ultimately show ?thesis by (simp add: key_def less_le)
  qed
  have later: "key e' < key b" if "b \<in> set B" for b
    using that spec(2,3) L first [OF fS f(2)] by (auto simp: sorted_append)
  have "dedup es' = A @ e' # B"
  proof (rule dedup_unique [OF es'(2)])
    have "f \<notin> set A \<union> set B" using spec(3) unfolding L by auto
    then have "set (A @ e' # B) = insert e' (set ?L - {f})" unfolding L by auto
    then show "set (A @ e' # B) = kept (set es')"
      using kept_replaced [OF inj f(1,2) first] spec(1) by (simp add: es'(1))
    show "sorted (map key (A @ e' # B))"
      using spec(2) earlier later unfolding L by (auto simp: sorted_append less_imp_le)
    show "distinct (map key (A @ e' # B))"
      using spec(3) less_imp_neq [OF earlier] less_imp_neq [OF later] unfolding L by (auto simp: image_iff) metis+
  qed
  then show ?thesis using copies [OF fS at] at unfolding L by (simp add: read_def)
qed

lemma dedup_repeated:
  assumes "distinct (map ident es)" and "repeated ext at ident val (set es) again"
    and "mset es' = mset (again @ es)"
  shows "map read (dedup es') = map read (dedup es) \<and> distinct (map ident es')"
  using assms
proof (induction again arbitrary: es)
  case Nil
  have "set es' = set es" using mset_eq_setD [OF Nil(3)] by simp
  moreover have "mset (map ident es') = mset (map ident es)" using Nil(3) by simp
  then have "distinct (map ident es')" using Nil(1) mset_eq_imp_distinct_iff by blast
  ultimately show ?case using dedup_cong [OF Nil(1)] by (metis (no_types))
next
  case (Cons e again)
  have "distinct (map ident (e # es))" using Cons.prems by (auto simp: repeats_def)
  moreover have "repeated ext at ident val (set (e # es)) again" "mset es' = mset (again @ e # es)"
    using Cons.prems(2,3) by simp_all
  ultimately have "map read (dedup es') = map read (dedup (e # es)) \<and> distinct (map ident es')"
    by (rule Cons.IH)
  moreover have "map read (dedup (e # es)) = map read (dedup es)"
    using Cons.prems(1,2) \<open>distinct (map ident (e # es))\<close> by (intro dedup_repeats) simp_all
  ultimately show ?case by simp
qed

end

interpretation edits: event_stream ed_external_event_id ed_occurred_at ed_id
  "deduplicate_events ed_external_event_id (\<lambda>e. (ed_occurred_at e, ed_id e))" ed_content_id
  by unfold_locales (rule refl)

interpretation deletions: event_stream del_external_event_id del_occurred_at del_id
  "deduplicate_events del_external_event_id (\<lambda>e. (del_occurred_at e, del_id e))" "\<lambda>_. ()"
  by unfold_locales (rule refl)

interpretation deliveries: event_stream dse_external_event_id dse_occurred_at dse_id
  "deduplicate_events dse_external_event_id (\<lambda>e. (dse_occurred_at e, dse_id e))" dse_delivery_status
  by unfold_locales (rule refl)

lemma check_scope_Inr:
  "check_scope msg refs = Inr u \<longleftrightarrow> (\<forall>(t, i)\<in>set refs. t = m_tenant_id msg \<and> i = m_id msg)"
  by (induction msg refs rule: check_scope.induct) auto

lemma scope_ok_iff:
  "is_ok (validate_message_scope msg es ds vs) \<longleftrightarrow>
     (\<forall>e\<in>set es. ed_tenant_id e = m_tenant_id msg \<and> ed_message_id e = m_id msg) \<and>
     (\<forall>d\<in>set ds. del_tenant_id d = m_tenant_id msg \<and> del_message_id d = m_id msg) \<and>
     (\<forall>v\<in>set vs. dse_tenant_id v = m_tenant_id msg \<and> dse_message_id v = m_id msg)"
  by (simp add: is_ok_iff validate_message_scope_def check_scope_Inr ball_Un)

text \<open>What a projection reads of the events of a message.\<close>

definition events_ok :: "message_edit_event list \<Rightarrow> message_deletion_event list \<Rightarrow>
    message_delivery_status_event list \<Rightarrow> bool" where
  "events_ok es ds vs \<longleftrightarrow> distinct (map ed_id es) \<and> distinct (map del_id ds) \<and> distinct (map dse_id vs)"

lemma map_eq_last:
  "map f xs = map f ys \<Longrightarrow> (xs = [] \<longleftrightarrow> ys = []) \<and> (ys \<noteq> [] \<longrightarrow> f (last xs) = f (last ys))"
  by (cases ys rule: rev_cases; cases xs rule: rev_cases) auto

lemma projection_reads:
  assumes "map edits.read (deduplicate_events ed_external_event_id (\<lambda>e. (ed_occurred_at e, ed_id e)) es') =
      map edits.read (deduplicate_events ed_external_event_id (\<lambda>e. (ed_occurred_at e, ed_id e)) es)"
      (is "map edits.read ?es' = map edits.read ?es")
    and "map deletions.read (deduplicate_events del_external_event_id (\<lambda>e. (del_occurred_at e, del_id e)) ds') =
      map deletions.read (deduplicate_events del_external_event_id (\<lambda>e. (del_occurred_at e, del_id e)) ds)"
      (is "map deletions.read ?ds' = map deletions.read ?ds")
    and "map deliveries.read (deduplicate_events dse_external_event_id (\<lambda>e. (dse_occurred_at e, dse_id e)) vs') =
      map deliveries.read (deduplicate_events dse_external_event_id (\<lambda>e. (dse_occurred_at e, dse_id e)) vs)"
      (is "map deliveries.read ?vs' = map deliveries.read ?vs")
    and "is_ok (validate_message_scope msg es ds vs)" and "is_ok (validate_message_scope msg es' ds' vs')"
  shows "project_message msg es' ds' vs' = project_message msg es ds vs"
proof -
  have scope: "validate_message_scope msg es ds vs = Inr ()" "validate_message_scope msg es' ds' vs' = Inr ()"
    using assms(4,5) by (auto simp: is_ok_iff)
  have reads: "foldl (\<lambda>c e. ed_content_id e) c xs = foldl (\<lambda>c p. snd p) c (map edits.read xs)" for c xs
    by (simp add: foldl_map edits.read_def)
  have content: "foldl (\<lambda>c e. ed_content_id e) c ?es' = foldl (\<lambda>c e. ed_content_id e) c ?es" for c
    unfolding reads [of c ?es'] reads [of c ?es] assms(1) ..
  note dels = map_eq_last [OF assms(2)] and deliv = map_eq_last [OF assms(3)]
  then have "(?ds' = []) = (?ds = [])" "(?vs' = []) = (?vs = [])"
    and "?ds \<noteq> [] \<Longrightarrow> del_occurred_at (last ?ds') = del_occurred_at (last ?ds)"
    and "?vs \<noteq> [] \<Longrightarrow> dse_occurred_at (last ?vs') = dse_occurred_at (last ?vs) \<and>
      dse_delivery_status (last ?vs') = dse_delivery_status (last ?vs)"
    by (simp_all add: deletions.read_def deliveries.read_def)
  then show ?thesis
    unfolding project_message_def scope bindE_simps Let_def content
    by (cases "?ds = []"; cases "?vs = []") simp_all
qed

text \<open>
  C34. The projection of a message (content, deletion, delivery status and their times) does not
  depend on the order in which its events arrive, and repeated events change nothing: any number of
  edits, deletions and delivery statuses may arrive again under new identifiers of their own, later
  than the event they repeat, or at its time when every event of this time is a copy of it.
\<close>

theorem projection_order_and_replay:
  assumes "events_ok es ds vs" and "is_ok (validate_message_scope msg es' ds' vs')"
    and "mset es' = mset (es_again @ es)" and "mset ds' = mset (ds_again @ ds)" and "mset vs' = mset (vs_again @ vs)"
    and "repeated ed_external_event_id ed_occurred_at ed_id ed_content_id (set es) es_again"
    and "repeated del_external_event_id del_occurred_at del_id (\<lambda>_. ()) (set ds) ds_again"
    and "repeated dse_external_event_id dse_occurred_at dse_id dse_delivery_status (set vs) vs_again"
  shows "project_message msg es' ds' vs' = project_message msg es ds vs \<and>
    is_ok (project_message msg es ds vs)"
proof -
  have "set es \<subseteq> set es'" "set ds \<subseteq> set ds'" "set vs \<subseteq> set vs'"
    using mset_eq_setD [OF assms(3)] mset_eq_setD [OF assms(4)] mset_eq_setD [OF assms(5)] by auto
  then have scope: "is_ok (validate_message_scope msg es ds vs)"
    using assms(2) unfolding scope_ok_iff by blast
  have ids: "distinct (map ed_id es)" "distinct (map del_id ds)" "distinct (map dse_id vs)"
    using assms(1) by (simp_all add: events_ok_def)
  have "project_message msg es' ds' vs' = project_message msg es ds vs"
    by (rule projection_reads [OF _ _ _ scope assms(2)])
      (use edits.dedup_repeated [OF ids(1) assms(6,3)] deletions.dedup_repeated [OF ids(2) assms(7,4)]
        deliveries.dedup_repeated [OF ids(3) assms(8,5)] in blast)+
  moreover have "is_ok (project_message msg es ds vs)"
    using scope by (auto simp: project_message_def is_ok_iff Let_def)
  ultimately show ?thesis by blast
qed

definition example_status :: "uuid \<Rightarrow> string \<Rightarrow> int \<Rightarrow> delivery_status \<Rightarrow> message_delivery_status_event" where
  "example_status i e t st =
     \<lparr>dse_id = i, dse_tenant_id = 1, dse_message_id = 2, dse_external_event_id = e,
      dse_occurred_at = Aware t, dse_delivery_status = st, dse_adapter_metadata = \<lparr>am_entries = []\<rparr>\<rparr>"

definition example_msg :: message where
  "example_msg =
     \<lparr>m_id = 2, m_tenant_id = 1, m_conversation_thread_id = 3, m_external_message_id = ''wamid'',
      m_sender_type = ST_MANAGER, m_direction = MD_OUTBOUND, m_sent_at = Aware 0,
      m_received_at = Aware 0, m_content_id = Some 9, m_reply_to_message_id = None,
      m_adapter_metadata = \<lparr>am_entries = []\<rparr>\<rparr>"

theorem projection_order_and_replay_witness:
  "project_message example_msg [] []
     [example_status 7 ''s2'' 20 DS_DELIVERED, example_status 8 ''s1'' 30 DS_SENT,
      example_status 5 ''s1'' 10 DS_SENT, example_status 2 ''s2'' 20 DS_DELIVERED] =
   project_message example_msg [] []
     [example_status 5 ''s1'' 10 DS_SENT, example_status 7 ''s2'' 20 DS_DELIVERED]"
  (is "project_message _ _ _ ?vs' = project_message _ _ _ ?vs")
proof -
  let ?again = "[example_status 8 ''s1'' 30 DS_SENT, example_status 2 ''s2'' 20 DS_DELIVERED]"
  have ok: "events_ok [] [] ?vs" "is_ok (validate_message_scope example_msg [] [] ?vs')" by code_simp+
  have "repeated dse_external_event_id dse_occurred_at dse_id dse_delivery_status (set ?vs) ?again"
    by (simp add: repeats_def example_status_def)
  then show ?thesis
    by (intro projection_order_and_replay [OF ok, where es_again = "[]" and ds_again = "[]" and vs_again = ?again, THEN conjunct1])
      (auto simp: add_mset_commute)
qed

text \<open>
  Without the condition on a copy of the same time: the identifier of the copy decides which of two
  events of one instant comes last.
\<close>

lemma copy_may_reorder:
  "map_result (\<lambda>vs. map_sum id mp_delivery_status (project_message example_msg [] [] vs))
     [[example_status 5 ''s1'' 10 DS_SENT, example_status 7 ''s2'' 10 DS_DELIVERED],
      [example_status 5 ''s1'' 10 DS_SENT, example_status 7 ''s2'' 10 DS_DELIVERED,
       example_status 3 ''s2'' 10 DS_DELIVERED]] =
   Inr [Some DS_DELIVERED, Some DS_SENT]"
  by code_simp

end
