(* ===== verification/Audit_Domain.thy ===== *)
theory Audit_Domain
  imports Closeros_Prelude "HOL-Library.Multiset"
begin

text \<open>
  The audit trail (\<open>domain/audit.py\<close>): allowlisted metadata, actors, targets and events with their
  constructor checks, \<open>build_audit_event\<close>, and the builders for outbound messages of
  \<open>application/whatsapp_audit.py\<close>. A \<open>StrEnum\<close> member is its text; the lists give the members of
  the two large enumerations. The theorem shows what can reach the trail: allowlisted keys without
  sensitive fragments, in order, with short values free of white space.
\<close>

section \<open>Enumerations and constants\<close>

definition AUDIT_SENSITIVE_FRAGMENTS :: "string list" where
  "AUDIT_SENSITIVE_FRAGMENTS =
     [''password'', ''token'', ''secret'', ''email'', ''phone'', ''name'', ''cookie'',
      ''authorization'', ''body'', ''content'', ''message'', ''prompt'', ''document'']"

definition ALLOWED_METADATA_KEYS :: "string list" where
  "ALLOWED_METADATA_KEYS =
     [''outcome'', ''reason_code'', ''assurance_level'', ''session_stage'', ''mfa_method'',
      ''status'', ''error_class'', ''http_method'', ''http_status'', ''route_template'',
      ''source'', ''affected_count'', ''previous_status'', ''new_status'', ''content_kind'',
      ''key_version_code'', ''job_kind'', ''outcome_code'', ''provider_code'',
      ''operation_count'', ''source_type'', ''finding_count'', ''critical_finding_count'',
      ''category_code'', ''eligibility_code'', ''policy_version'', ''detector_version'',
      ''metric_scope'', ''formula_version'', ''window_code'', ''sanitization_status'',
      ''purpose_code'', ''rubric_version'', ''issue_count'', ''citation_count'',
      ''token_count'', ''latency_bucket'', ''budget_status'', ''knowledge_source_kind'',
      ''version_number'', ''task_count'', ''overdue_count'', ''score_formula_version'',
      ''crm_object_type'', ''sync_direction'', ''conflict_count'', ''sku_count'',
      ''import_status'', ''candidate_key'', ''edit_basis_points'', ''fact_type'']"

definition FRAGMENT_EXEMPT_METADATA_KEYS :: "string list" where
  "FRAGMENT_EXEMPT_METADATA_KEYS =
     [''content_kind'', ''token_count'']"

definition audit_actions :: "string list" where
  "audit_actions =
     [''user.registration.completed'', ''user.email_verification.requested'',
      ''user.email_verification.completed'', ''auth.login.succeeded'', ''auth.login.failed'',
      ''auth.mfa.completed'', ''auth.mfa.failed'', ''auth.session.revoked'',
      ''auth.session.revoked_all'', ''auth.password_reset.requested'',
      ''auth.password_reset.completed'', ''auth.password.changed'', ''tenant.access.granted'',
      ''tenant.access.denied'', ''tenant.status.changed'', ''membership.created'',
      ''membership.status.changed'', ''membership.roles.changed'', ''invitation.created'',
      ''invitation.revoked'', ''channel_connection.created'',
      ''channel_connection.status.changed'', ''manager_assignment.changed'',
      ''encrypted_content.stored'', ''encrypted_content.accessed'',
      ''encrypted_content.key_rewrapped'', ''outbox.job.dead_lettered'',
      ''outbox.reconciliation.completed'', ''webhook.accepted'',
      ''webhook.duplicate_accepted'', ''webhook.normalized'',
      ''webhook.normalization_failed'', ''csv_import.uploaded'', ''csv_import.started'',
      ''csv_import.completed'', ''csv_import.cancelled'', ''audit.log_viewed'',
      ''content.sanitization.completed'', ''content.sanitization.blocked'',
      ''metrics.recalculation.requested'', ''metrics.snapshot.completed'', ''metrics.viewed'',
      ''ai.policy.changed'', ''knowledge.document.uploaded'', ''knowledge.version.approved'',
      ''knowledge.version.indexed'', ''knowledge.version.revoked'',
      ''knowledge.retrieval.completed'', ''analysis.requested'', ''analysis.completed'',
      ''analysis.blocked'', ''analysis.failed'', ''analysis.findings.viewed'',
      ''ai.budget.exceeded'', ''follow_up_task.created'', ''follow_up_task.assigned'',
      ''follow_up_task.priority_changed'', ''follow_up_task.due_date_changed'',
      ''follow_up_task.started'', ''follow_up_task.completed'', ''follow_up_task.cancelled'',
      ''follow_up_task.reopened'', ''follow_up_task.viewed'', ''conversation.list.viewed'',
      ''conversation.detail.viewed'', ''dashboard.viewed'', ''scorecard.viewed'',
      ''whatsapp.connection.created'', ''whatsapp.connection.verified'',
      ''whatsapp.connection.disabled'', ''webhook.rejected'', ''media.quarantined'',
      ''provider.templates.sync.completed'', ''provider.templates.sync.failed'',
      ''outbound_message.draft.created'', ''outbound_message.approved'',
      ''outbound_message.queued'', ''outbound_message.provider_accepted'',
      ''outbound_message.delivery_unknown'', ''outbound_message.delivery_failed'',
      ''whatsapp.reconciliation.completed'', ''crm.connection.created'',
      ''crm.connection.updated'', ''crm.connection.verified'', ''crm.connection.disabled'',
      ''crm.field_mapping.changed'', ''crm.sync.completed'', ''crm.sync.failed'',
      ''crm.reconciliation.completed'', ''crm.conflict.resolved'',
      ''catalog.product.created'', ''catalog.product.updated'', ''catalog.product.published'',
      ''catalog.product.status_changed'', ''catalog.variant.created'', ''catalog.price.set'',
      ''catalog.inventory.set'', ''catalog.import.uploaded'', ''catalog.import.published'',
      ''catalog.fact.queried'', ''reply_suggestion.requested'',
      ''reply_suggestion.completed'', ''reply_suggestion.blocked'',
      ''reply_suggestion.selected'', ''reply_suggestion.rejected'',
      ''buyer_memory.confirmed'', ''buyer_memory.corrected'', ''buyer_memory.deleted'']"

definition audit_target_types :: "string list" where
  "audit_target_types =
     [''user'', ''credential'', ''session'', ''tenant'', ''membership'', ''invitation'',
      ''channel_connection'', ''manager_assignment'', ''encrypted_content'', ''outbox_job'',
      ''outbox_reconciliation'', ''webhook_event'', ''csv_import_batch'', ''audit_log'',
      ''authentication'', ''content_sanitization'', ''metric_snapshot'', ''tenant_ai_policy'',
      ''knowledge_document'', ''knowledge_document_version'', ''analysis_run'',
      ''follow_up_task'', ''conversation_thread'', ''dashboard'', ''scorecard'',
      ''whatsapp_cloud_connection'', ''outbound_message'', ''provider_template'',
      ''provider_media_reference'', ''crm_connection'', ''crm_field_mapping'',
      ''crm_sync_attempt'', ''crm_conflict'', ''catalog_product'', ''catalog_import_run'',
      ''reply_suggestion_run'', ''buyer_memory_fact'']"

datatype audit_actor_type = AT_ANONYMOUS | AT_USER | AT_SYSTEM | AT_SERVICE

datatype audit_scope = AUD_GLOBAL | AUD_TENANT

datatype audit_error = AuditMetadataError string | AuditInvariantError string

section \<open>Metadata\<close>

text \<open>A metadata scalar: \<open>str | int | bool\<close>.\<close>

datatype metadata_scalar = MV_Str string | MV_Int int | MV_Bool bool

definition validate_metadata_key :: "string \<Rightarrow> audit_error + string" where
  "validate_metadata_key key =
     (let normalized = to_lower (strip key) in
      if normalized \<noteq> key then Inl (AuditMetadataError ''metadata keys must already be normalized'')
      else if \<not> matches_ident ident_char 63 normalized
      then Inl (AuditMetadataError ''metadata key format is invalid'')
      else if normalized \<notin> set ALLOWED_METADATA_KEYS
      then Inl (AuditMetadataError ''metadata key is not allowlisted'')
      else if normalized \<notin> set FRAGMENT_EXEMPT_METADATA_KEYS \<and>
        list_ex (\<lambda>frag. contains_fragment frag normalized) AUDIT_SENSITIVE_FRAGMENTS
      then Inl (AuditMetadataError ''metadata key contains a sensitive fragment'')
      else Inr normalized)"

fun validate_metadata_value :: "metadata_scalar \<Rightarrow> audit_error + metadata_scalar" where
  "validate_metadata_value (MV_Bool b) = Inr (MV_Bool b)"
| "validate_metadata_value (MV_Int n) =
     (if 0 \<le> n \<and> n \<le> 1000000 then Inr (MV_Int n)
      else Inl (AuditMetadataError ''metadata integer is out of bounds''))"
| "validate_metadata_value (MV_Str value) =
     (let normalized = strip value in
      if normalized = [] then Inl (AuditMetadataError ''metadata string values must not be empty'')
      else if normalized \<noteq> value
      then Inl (AuditMetadataError ''metadata string values must already be normalized'')
      else if length normalized > 128
      then Inl (AuditMetadataError ''metadata string value is too long'')
      else if list_ex is_space normalized
      then Inl (AuditMetadataError ''metadata string values must not contain whitespace'')
      else Inr (MV_Str normalized))"

type_synonym metadata_items = "(string \<times> metadata_scalar) list"

fun check_items :: "string set \<Rightarrow> metadata_items \<Rightarrow> audit_error + string set" where
  "check_items seen [] = Inr seen"
| "check_items seen ((key, v) # items) =
     bindE (validate_metadata_key key) (\<lambda>validated_key.
     bindE (raise_if (validated_key \<in> seen) (AuditMetadataError ''metadata keys must be unique'')) (\<lambda>_.
     bindE (validate_metadata_value v) (\<lambda>_. check_items (insert validated_key seen) items)))"

definition AuditMetadata_post_init :: "metadata_items \<Rightarrow> audit_error + metadata_items" where
  "AuditMetadata_post_init items =
     bindE (check_items {} items) (\<lambda>seen.
     bindE (raise_if (map fst items \<noteq> sorted_list_of_set seen)
              (AuditMetadataError ''metadata items must be sorted by key'')) (\<lambda>_.
     Inr items))"

fun validate_items :: "metadata_items \<Rightarrow> audit_error + metadata_items" where
  "validate_items [] = Inr []"
| "validate_items ((key, v) # items) =
     bindE (validate_metadata_key key) (\<lambda>k.
     bindE (validate_metadata_value v) (\<lambda>x.
     bindE (validate_items items) (\<lambda>rest. Inr ((k, x) # rest))))"

text \<open>A \<open>dict\<close> argument is an association list with distinct keys.\<close>

definition AuditMetadata_from_mapping :: "metadata_items \<Rightarrow> audit_error + metadata_items" where
  "AuditMetadata_from_mapping values =
     bindE (validate_items (sort_key fst values)) AuditMetadata_post_init"

definition AuditMetadata_get :: "metadata_items \<Rightarrow> string \<Rightarrow> metadata_scalar option" where
  "AuditMetadata_get items key = map_option snd (find (\<lambda>item. fst item = key) items)"

section \<open>Events\<close>

record audit_actor =
  aa_actor_type :: audit_actor_type
  aa_actor_id :: "uuid option"

definition AuditActor_post_init :: "audit_actor \<Rightarrow> audit_error + audit_actor" where
  "AuditActor_post_init a =
     bindE (raise_if (aa_actor_type a = AT_ANONYMOUS \<and> aa_actor_id a \<noteq> None)
              (AuditInvariantError ''anonymous actors cannot have actor IDs'')) (\<lambda>_.
     bindE (raise_if (aa_actor_type a = AT_USER \<and> aa_actor_id a = None)
              (AuditInvariantError ''user actors require actor IDs'')) (\<lambda>_.
     bindE (raise_if (aa_actor_type a = AT_SYSTEM \<and> aa_actor_id a \<noteq> None)
              (AuditInvariantError ''system actors cannot have actor IDs'')) (\<lambda>_.
     bindE (raise_if (aa_actor_type a = AT_SERVICE \<and> aa_actor_id a = None)
              (AuditInvariantError ''service actors require actor IDs'')) (\<lambda>_.
     Inr a))))"

record audit_target =
  at_target_type :: string
  at_target_id :: "uuid option"

record audit_event =
  ae_id :: uuid
  ae_scope :: audit_scope
  ae_tenant_id :: "uuid option"
  ae_actor :: audit_actor
  ae_action :: string
  ae_target :: audit_target
  ae_occurred_at :: datetime
  ae_correlation_id :: uuid
  ae_metadata :: metadata_items

definition AuditEvent_post_init :: "audit_event \<Rightarrow> audit_error + audit_event" where
  "AuditEvent_post_init e =
     bindE (raise_if (ae_scope e = AUD_TENANT \<and> ae_tenant_id e = None)
              (AuditInvariantError ''tenant scope requires tenant_id'')) (\<lambda>_.
     bindE (raise_if (ae_scope e = AUD_GLOBAL \<and> ae_tenant_id e \<noteq> None)
              (AuditInvariantError ''global scope requires tenant_id to be absent'')) (\<lambda>_.
     bindE (raise_if (\<not> aware (ae_occurred_at e))
              (AuditInvariantError ''occurred_at must be timezone-aware'')) (\<lambda>_.
     Inr e)))"

text \<open>\<open>build_audit_event\<close> with its metadata given as a mapping (or absent).\<close>

definition build_audit_event ::
    "uuid \<Rightarrow> audit_scope \<Rightarrow> uuid option \<Rightarrow> audit_actor_type \<Rightarrow> uuid option \<Rightarrow> string \<Rightarrow> string \<Rightarrow>
     uuid option \<Rightarrow> datetime \<Rightarrow> uuid \<Rightarrow> metadata_items option \<Rightarrow> audit_error + audit_event" where
  "build_audit_event event_id scope tenant_id actor_type actor_id action target_type target_id
     occurred_at correlation_id metadata =
     bindE (case metadata of None \<Rightarrow> AuditMetadata_post_init [] | Some m \<Rightarrow> AuditMetadata_from_mapping m)
       (\<lambda>resolved_metadata.
     bindE (AuditActor_post_init \<lparr>aa_actor_type = actor_type, aa_actor_id = actor_id\<rparr>) (\<lambda>actor.
     AuditEvent_post_init
       \<lparr>ae_id = event_id, ae_scope = scope, ae_tenant_id = tenant_id, ae_actor = actor,
        ae_action = action,
        ae_target = \<lparr>at_target_type = target_type, at_target_id = target_id\<rparr>,
        ae_occurred_at = occurred_at, ae_correlation_id = correlation_id,
        ae_metadata = resolved_metadata\<rparr>))"

section \<open>Builders for outbound messages\<close>

text \<open>\<open>_tenant_metadata(**values)\<close>: \<open>outcome\<close> is \<open>success\<close> unless the values override it.\<close>

definition tenant_metadata :: "metadata_items \<Rightarrow> metadata_items" where
  "tenant_metadata values =
     (''outcome'', case map_of values ''outcome'' of None \<Rightarrow> MV_Str ''success'' | Some v \<Rightarrow> v) #
     filter (\<lambda>(k, v). k \<noteq> ''outcome'') values"

text \<open>The actor of an event and its correlation identifier.\<close>

record audit_origin =
  ao_actor_type :: audit_actor_type
  ao_actor_id :: "uuid option"
  ao_correlation_id :: uuid

definition outbound_event ::
    "string \<Rightarrow> metadata_items \<Rightarrow> uuid \<Rightarrow> uuid \<Rightarrow> datetime \<Rightarrow> audit_origin \<Rightarrow> uuid \<Rightarrow>
     audit_error + audit_event" where
  "outbound_event action values tenant_id outbound_message_id occurred_at origin event_id =
     build_audit_event event_id AUD_TENANT (Some tenant_id) (ao_actor_type origin)
       (ao_actor_id origin) action ''outbound_message'' (Some outbound_message_id) occurred_at
       (ao_correlation_id origin)
       (Some (tenant_metadata ((''provider_code'', MV_Str ''whatsapp_cloud'') # values)))"

definition outbound_draft_created_event ::
    "string \<Rightarrow> uuid \<Rightarrow> uuid \<Rightarrow> datetime \<Rightarrow> audit_origin \<Rightarrow> uuid \<Rightarrow> audit_error + audit_event" where
  "outbound_draft_created_event outbound_kind =
     outbound_event ''outbound_message.draft.created'' [(''outcome'', MV_Str outbound_kind)]"

definition outbound_message_approved_event ::
    "uuid \<Rightarrow> uuid \<Rightarrow> datetime \<Rightarrow> audit_origin \<Rightarrow> uuid \<Rightarrow> audit_error + audit_event" where
  "outbound_message_approved_event =
     outbound_event ''outbound_message.approved'' [(''status'', MV_Str ''approved'')]"

definition outbound_message_queued_event ::
    "uuid \<Rightarrow> uuid \<Rightarrow> datetime \<Rightarrow> audit_origin \<Rightarrow> uuid \<Rightarrow> audit_error + audit_event" where
  "outbound_message_queued_event =
     outbound_event ''outbound_message.queued'' [(''status'', MV_Str ''queued'')]"

definition outbound_provider_accepted_event ::
    "uuid \<Rightarrow> uuid \<Rightarrow> datetime \<Rightarrow> audit_origin \<Rightarrow> uuid \<Rightarrow> audit_error + audit_event" where
  "outbound_provider_accepted_event =
     outbound_event ''outbound_message.provider_accepted'' [(''status'', MV_Str ''provider_accepted'')]"

definition outbound_delivery_unknown_event ::
    "uuid \<Rightarrow> uuid \<Rightarrow> datetime \<Rightarrow> audit_origin \<Rightarrow> uuid \<Rightarrow> audit_error + audit_event" where
  "outbound_delivery_unknown_event =
     outbound_event ''outbound_message.delivery_unknown'' [(''status'', MV_Str ''delivery_unknown'')]"

definition outbound_delivery_failed_event ::
    "string \<Rightarrow> uuid \<Rightarrow> uuid \<Rightarrow> datetime \<Rightarrow> audit_origin \<Rightarrow> uuid \<Rightarrow> audit_error + audit_event" where
  "outbound_delivery_failed_event reason_code =
     outbound_event ''outbound_message.delivery_failed'' [(''reason_code'', MV_Str reason_code)]"

section \<open>What reaches the trail\<close>

definition metadata_key_ok :: "string \<Rightarrow> bool" where
  "metadata_key_ok k \<longleftrightarrow>
     k \<in> set ALLOWED_METADATA_KEYS \<and> matches_ident ident_char 63 k \<and>
     (k \<in> set FRAGMENT_EXEMPT_METADATA_KEYS \<or>
      list_all (\<lambda>frag. \<not> contains_fragment frag k) AUDIT_SENSITIVE_FRAGMENTS)"

definition metadata_value_ok :: "metadata_scalar \<Rightarrow> bool" where
  "metadata_value_ok v =
     (case v of MV_Bool b \<Rightarrow> True | MV_Int n \<Rightarrow> 0 \<le> n \<and> n \<le> 1000000
      | MV_Str s \<Rightarrow> s \<noteq> [] \<and> length s \<le> 128 \<and> list_all (\<lambda>c. \<not> is_space c) s)"

lemma ident_chars_normal:
  assumes "matches_ident ident_char n k"
  shows "to_lower (strip k) = k"
proof -
  have chars: "list_all ident_char k" and ne: "k \<noteq> []"
    using assms by (auto simp: matches_ident_def ident_char_def split: list.splits)
  have "\<not> is_space c" if "ident_char c" for c
    using that by (auto simp: ident_defs is_space_def Let_def)
  with chars ne have "strip k = k"
    by (intro strip_fixed) (simp add: list_all_iff)
  moreover have "to_lower_char c = c" if "ident_char c" for c
    using that by (auto simp: ident_defs to_lower_char_def Let_def)
  ultimately show ?thesis using chars by (simp add: to_lower_def list_all_iff map_idI)
qed

lemma validate_metadata_key_Inr [result_simps]:
  "validate_metadata_key k = Inr k' \<longleftrightarrow> metadata_key_ok k \<and> k' = k"
proof (cases "to_lower (strip k) = k")
  case True
  have "list_all (\<lambda>frag. \<not> contains_fragment frag k) fs \<longleftrightarrow> \<not> list_ex (\<lambda>frag. contains_fragment frag k) fs" for fs
    by (simp add: list_all_iff list_ex_iff)
  with True show ?thesis
    unfolding validate_metadata_key_def metadata_key_ok_def True Let_def by auto
next
  case False
  then have "\<not> matches_ident ident_char 63 k" using ident_chars_normal by blast
  with False show ?thesis by (simp add: validate_metadata_key_def metadata_key_ok_def Let_def)
qed

lemma no_space_strip: "list_all (\<lambda>c. \<not> is_space c) s \<Longrightarrow> strip s = s"
  by (rule strip_fixed) (auto simp: list_all_iff)

lemma validate_metadata_value_Inr [result_simps]:
  "validate_metadata_value v = Inr v' \<longleftrightarrow> metadata_value_ok v \<and> v' = v"
proof (cases v)
  case (MV_Str s)
  have neg: "list_all (\<lambda>c. \<not> is_space c) s \<longleftrightarrow> \<not> list_ex is_space s" by (simp add: list_all_iff list_ex_iff)
  show ?thesis
  proof (cases "strip s = s")
    case True
    then show ?thesis unfolding MV_Str validate_metadata_value.simps True Let_def
      by (auto simp: metadata_value_ok_def neg)
  next
    case False
    then have "\<not> list_all (\<lambda>c. \<not> is_space c) s" using no_space_strip by blast
    with False show ?thesis by (simp add: MV_Str metadata_value_ok_def Let_def)
  qed
qed (auto simp: metadata_value_ok_def)

definition metadata_item_ok :: "string \<times> metadata_scalar \<Rightarrow> bool" where
  "metadata_item_ok i \<longleftrightarrow> metadata_key_ok (fst i) \<and> metadata_value_ok (snd i)"

lemma validate_items_Inr [result_simps]:
  "validate_items xs = Inr ys \<longleftrightarrow> list_all metadata_item_ok xs \<and> ys = xs"
proof (induction xs arbitrary: ys)
  case (Cons p xs)
  obtain k v where "p = (k, v)" by (cases p)
  with Cons show ?case by (auto simp: bindE_Inr_iff result_simps metadata_item_ok_def)
qed auto

lemma check_items_Inr [result_simps]:
  "check_items seen xs = Inr s \<longleftrightarrow>
     list_all metadata_item_ok xs \<and> distinct (map fst xs) \<and> set (map fst xs) \<inter> seen = {} \<and>
     s = seen \<union> set (map fst xs)"
  by (induction seen xs rule: check_items.induct) (auto simp: result_simps metadata_item_ok_def)

lemma AuditMetadata_post_init_Inr [result_simps]:
  "AuditMetadata_post_init xs = Inr ys \<longleftrightarrow>
     list_all metadata_item_ok xs \<and> sorted_wrt (<) (map fst xs) \<and> ys = xs"
proof -
  have "map fst xs = sorted_list_of_set (set (map fst xs)) \<and> distinct (map fst xs) \<longleftrightarrow>
      sorted_wrt (<) (map fst xs)"
    by (metis List.finite_set sorted_list_of_set.idem_if_sorted_distinct strict_sorted_iff
        sorted_list_of_set.sorted_sorted_key_list_of_set sorted_list_of_set.distinct_sorted_key_list_of_set)
  then show ?thesis
    by (auto simp: AuditMetadata_post_init_def result_simps)
qed

lemma AuditMetadata_from_mapping_Inr:
  assumes "distinct (map fst values)"
  shows "AuditMetadata_from_mapping values = Inr items \<longleftrightarrow>
    list_all metadata_item_ok values \<and> items = sort_key fst values"
proof -
  have "distinct (map fst (sort_key fst values))" using assms by (simp add: distinct_map)
  then have "sorted_wrt (<) (map fst (sort_key fst values))" by (simp add: strict_sorted_iff)
  then show ?thesis
    by (auto simp: AuditMetadata_from_mapping_def result_simps list_all_iff)
qed

lemma find_map_of: "map_option snd (find (\<lambda>item. fst item = key) items) = map_of items key"
  by (induction items) auto

text \<open>An event of a tenant with good metadata can be built.\<close>

definition actor_ok :: "audit_actor_type \<Rightarrow> uuid option \<Rightarrow> bool" where
  "actor_ok actor_type actor_id \<longleftrightarrow> (actor_type \<in> {AT_USER, AT_SERVICE} \<longleftrightarrow> actor_id \<noteq> None)"

lemma build_tenant_event:
  assumes "distinct (map fst items)" and "list_all metadata_item_ok items" and "aware at"
    and "actor_ok actor_type actor_id"
  shows "build_audit_event event_id AUD_TENANT (Some tenant) actor_type actor_id action target_type
    target_id at corr (Some items) =
    Inr \<lparr>ae_id = event_id, ae_scope = AUD_TENANT, ae_tenant_id = Some tenant,
         ae_actor = \<lparr>aa_actor_type = actor_type, aa_actor_id = actor_id\<rparr>, ae_action = action,
         ae_target = \<lparr>at_target_type = target_type, at_target_id = target_id\<rparr>,
         ae_occurred_at = at, ae_correlation_id = corr, ae_metadata = sort_key fst items\<rparr>"
proof -
  have "AuditMetadata_from_mapping items = Inr (sort_key fst items)"
    using assms(2) by (simp add: AuditMetadata_from_mapping_Inr [OF assms(1)])
  moreover have "AuditActor_post_init \<lparr>aa_actor_type = actor_type, aa_actor_id = actor_id\<rparr> =
      Inr \<lparr>aa_actor_type = actor_type, aa_actor_id = actor_id\<rparr>"
    using assms(4) by (cases actor_type) (auto simp: actor_ok_def AuditActor_post_init_def)
  ultimately show ?thesis
    using assms(3) by (simp add: build_audit_event_def AuditEvent_post_init_def)
qed

lemma sort_key_map_of: "distinct (map fst items) \<Longrightarrow> map_of (sort_key fst items) = map_of items"
  by (rule map_of_eqI) (auto simp: distinct_map)

text \<open>
  Nothing but safe metadata reaches the audit trail: an event that can be built has its keys
  from the allowlist, strictly sorted, without the sensitive fragments (two exempt keys apart),
  its values bounded and free of white space; reading a key back gives the value of the mapping; a
  tenant identifier is present exactly in the tenant scope, and users and services are identified.
\<close>

theorem audit_event_safe:
  assumes "build_audit_event event_id scope tenant actor_type actor_id action target_type target_id at
    corr (Some values) = Inr e" and "distinct (map fst values)"
  shows "list_all metadata_item_ok (ae_metadata e) \<and> sorted_wrt (<) (map fst (ae_metadata e)) \<and>
    (\<forall>k. AuditMetadata_get (ae_metadata e) k = map_of values k) \<and>
    (ae_scope e = AUD_TENANT \<longleftrightarrow> ae_tenant_id e \<noteq> None) \<and> aware (ae_occurred_at e) \<and>
    (aa_actor_type (ae_actor e) \<in> {AT_USER, AT_SERVICE} \<longleftrightarrow> aa_actor_id (ae_actor e) \<noteq> None)"
proof -
  let ?m = "sort_key fst values"
  have ok: "list_all metadata_item_ok values" and e: "ae_metadata e = ?m" "ae_scope e = scope"
    "ae_tenant_id e = tenant" "ae_occurred_at e = at" "aware at" "scope = AUD_TENANT \<longleftrightarrow> tenant \<noteq> None"
    "ae_actor e = \<lparr>aa_actor_type = actor_type, aa_actor_id = actor_id\<rparr>"
    "actor_type \<in> {AT_USER, AT_SERVICE} \<longleftrightarrow> actor_id \<noteq> None"
    using assms
    by (cases actor_type; cases scope;
        auto simp: build_audit_event_def bindE_Inr_iff raise_if_Inr_iff AuditEvent_post_init_def
          AuditActor_post_init_def AuditMetadata_from_mapping_Inr)+
  have "distinct (map fst ?m)" using assms(2) by (simp add: distinct_map)
  then have "sorted_wrt (<) (map fst ?m)" by (simp add: strict_sorted_iff)
  moreover have "map_of ?m = map_of values"
    by (rule map_of_eqI) (use assms(2) in \<open>auto simp: distinct_map\<close>)
  moreover have "list_all metadata_item_ok ?m" using ok by (simp add: list_all_iff)
  ultimately show ?thesis
    using e by (simp add: AuditMetadata_get_def find_map_of)
qed

theorem audit_event_safe_witness:
  "\<exists>e. outbound_message_approved_event 1 2 (Aware 0)
      \<lparr>ao_actor_type = AT_USER, ao_actor_id = Some 3, ao_correlation_id = 4\<rparr> 5 = Inr e \<and>
     AuditMetadata_get (ae_metadata e) ''status'' = Some (MV_Str ''approved'') \<and>
     sorted_wrt (<) (map fst (ae_metadata e))"
proof -
  let ?o = "\<lparr>ao_actor_type = AT_USER, ao_actor_id = Some 3, ao_correlation_id = 4\<rparr>"
  let ?pairs = "tenant_metadata ((''provider_code'', MV_Str ''whatsapp_cloud'') # [(''status'', MV_Str ''approved'')])"
  have "is_ok (outbound_message_approved_event 1 2 (Aware 0) ?o 5)" by code_simp
  then obtain e where e: "outbound_message_approved_event 1 2 (Aware 0) ?o 5 = Inr e"
    unfolding is_ok_iff by blast
  have "distinct (map fst ?pairs)" and "map_of ?pairs ''status'' = Some (MV_Str ''approved'')"
    by (simp_all add: tenant_metadata_def)
  with audit_event_safe [OF e [unfolded outbound_message_approved_event_def outbound_event_def]] e
  show ?thesis by auto
qed

end
