(* ===== verification/Unit_Of_Work.thy ===== *)
theory Unit_Of_Work
  imports Closeros_Prelude
begin

text \<open>
  Sessions and units of work (\<open>infrastructure/integrated_unit_of_work.py\<close>,
  \<open>repository_helpers.py\<close>). The tables are a record \<open>'db\<close>. A unit of work runs on a copy of the
  tables; \<open>commit\<close> makes the copy the stored state; leaving the unit of work, with or without an
  exception, drops what was not committed (\<open>session.close()\<close> rolls back). Every call of the random
  source (\<open>uuid4\<close>, \<open>generate_bytes\<close>) has a serial number, which is part of the state.
\<close>

record 'db session =
  se_db :: 'db
  se_saved :: 'db
  se_draws :: nat

type_synonym ('db, 'e, 'a) session_comp = "('db session, 'e, 'a) comp"

definition query :: "('db \<Rightarrow> 'a) \<Rightarrow> ('db, 'e, 'a) session_comp" where
  "query f = (\<lambda>s. (Inr (f (se_db s)), s))"

definition modify_db :: "('db \<Rightarrow> 'e + 'db) \<Rightarrow> ('db, 'e, unit) session_comp" where
  "modify_db f = (\<lambda>s. case f (se_db s) of Inl e \<Rightarrow> (Inl e, s) | Inr db \<Rightarrow> (Inr (), s\<lparr>se_db := db\<rparr>))"

definition lift_result :: "'e + 'a \<Rightarrow> ('s, 'e, 'a) comp" where
  "lift_result r = (\<lambda>s. (r, s))"

definition ensure :: "bool \<Rightarrow> 'e \<Rightarrow> ('s, 'e, unit) comp" where
  "ensure c e = (if c then returnS () else raiseS e)"

text \<open>A computation whose exceptions are embedded in a larger type.\<close>

definition wrap_error :: "('e \<Rightarrow> 'f) \<Rightarrow> ('s, 'e, 'a) comp \<Rightarrow> ('s, 'f, 'a) comp" where
  "wrap_error f m = (\<lambda>s. case m s of (Inl e, s') \<Rightarrow> (Inl (f e), s') | (Inr x, s') \<Rightarrow> (Inr x, s'))"

definition mapE :: "('e \<Rightarrow> 'f) \<Rightarrow> 'e + 'a \<Rightarrow> 'f + 'a" where
  "mapE f r = (case r of Inl e \<Rightarrow> Inl (f e) | Inr x \<Rightarrow> Inr x)"

definition commit :: "('db, 'e, unit) session_comp" where
  "commit = (\<lambda>s. (Inr (), s\<lparr>se_saved := se_db s\<rparr>))"

definition draw :: "(nat \<Rightarrow> 'r) \<Rightarrow> ('db, 'e, 'r) session_comp" where
  "draw source = (\<lambda>s. (Inr (source (se_draws s)), s\<lparr>se_draws := Suc (se_draws s)\<rparr>))"

text \<open>The state outside units of work: the stored tables and the number of draws.\<close>

record 'db world =
  w_db :: 'db
  w_draws :: nat

definition open_session :: "('db, 'w) world_scheme \<Rightarrow> 'db session" where
  "open_session w = \<lparr>se_db = w_db w, se_saved = w_db w, se_draws = w_draws w\<rparr>"

definition close_session :: "'db session \<Rightarrow> ('db, 'w) world_scheme \<Rightarrow> ('db, 'w) world_scheme" where
  "close_session s w = w\<lparr>w_db := se_saved s, w_draws := se_draws s\<rparr>"

definition transaction ::
    "('db, 'e, 'a) session_comp \<Rightarrow> (('db, 'w) world_scheme, 'e, 'a) comp" where
  "transaction body w = (let (r, s) = body (open_session w) in (r, close_session s w))"

text \<open>\<open>tenant_scoped_get\<close>: the primary key first, then the tenant.\<close>

definition tenant_scoped_get ::
    "'e \<Rightarrow> ('r \<Rightarrow> uuid) \<Rightarrow> ('r \<Rightarrow> uuid) \<Rightarrow> ('db \<Rightarrow> 'r list) \<Rightarrow> uuid \<Rightarrow> uuid \<Rightarrow>
     ('db, 'e, 'r option) session_comp" where
  "tenant_scoped_get mismatch id_of tenant_of table tenant_id record_id =
     bindS (query (\<lambda>db. find (\<lambda>r. id_of r = record_id) (table db))) (\<lambda>row.
     case row of None \<Rightarrow> returnS None
     | Some r \<Rightarrow> bindS (ensure (tenant_of r = tenant_id) mismatch) (\<lambda>_. returnS (Some r)))"

section \<open>Running computations\<close>

named_theorems run_simps "rules that run a computation of a unit of work"

lemma query_apply [run_simps]: "query f s = (Inr (f (se_db s)), s)"
  by (simp add: query_def)

lemma lift_result_apply [run_simps]: "lift_result r s = (r, s)"
  by (simp add: lift_result_def)

lemma commit_apply [run_simps]: "commit s = (Inr (), s\<lparr>se_saved := se_db s\<rparr>)"
  by (simp add: commit_def)

lemma draw_apply [run_simps]:
  "draw source s = (Inr (source (se_draws s)), s\<lparr>se_draws := Suc (se_draws s)\<rparr>)"
  by (simp add: draw_def)

lemma modify_db_apply [run_simps]:
  "f (se_db s) = Inr db \<Longrightarrow> modify_db f s = (Inr (), s\<lparr>se_db := db\<rparr>)"
  "f (se_db s) = Inl e \<Longrightarrow> modify_db f s = (Inl e, s)"
  by (simp_all add: modify_db_def)

lemma ensure_apply [run_simps]: "ensure c e s = (if c then Inr () else Inl e, s)"
  by (simp add: ensure_def)

text \<open>Inversion: what a successful run did.\<close>

lemma bindS_InrE:
  assumes "bindS m f s = (Inr y, s')"
  obtains x t where "m s = (Inr x, t)" and "f x t = (Inr y, s')"
  using assms by (auto simp: bindS_def split: prod.splits sum.splits)

lemma lift_result_Inr [simp]: "lift_result r s = (Inr x, s') \<longleftrightarrow> r = Inr x \<and> s' = s"
  by (auto simp: lift_result_def)

lemma ensure_Inr [simp]: "ensure c e s = (Inr x, s') \<longleftrightarrow> c \<and> s' = s"
  by (auto simp: ensure_def)

lemma query_Inr [simp]: "query f s = (Inr x, s') \<longleftrightarrow> x = f (se_db s) \<and> s' = s"
  by (auto simp: query_def)

lemma draw_Inr [simp]:
  "draw source s = (Inr x, s') \<longleftrightarrow> x = source (se_draws s) \<and> s' = s\<lparr>se_draws := Suc (se_draws s)\<rparr>"
  by (auto simp: draw_def)

lemma modify_db_Inr [simp]:
  "modify_db f s = (Inr x, s') \<longleftrightarrow> (\<exists>db. f (se_db s) = Inr db \<and> s' = s\<lparr>se_db := db\<rparr>)"
  by (auto simp: modify_db_def split: sum.splits)

lemma commit_Inr [simp]: "commit s = (Inr x, s') \<longleftrightarrow> s' = s\<lparr>se_saved := se_db s\<rparr>"
  by (auto simp: commit_def)

lemma wrap_error_Inr [simp]: "wrap_error f m s = (Inr x, s') \<longleftrightarrow> m s = (Inr x, s')"
  by (auto simp: wrap_error_def split: prod.splits sum.splits)

lemma mapE_Inr [simp]: "mapE f r = Inr x \<longleftrightarrow> r = Inr x"
  by (cases r) (simp_all add: mapE_def)

lemma session_simps [simp]:
  "se_db (open_session w) = w_db w" "se_saved (open_session w) = w_db w"
  "w_db (close_session s w) = se_saved s"
  by (simp_all add: open_session_def close_session_def)

lemma tenant_scoped_get_Inr:
  "tenant_scoped_get e id_of tenant_of table t i s = (Inr r, s') \<longleftrightarrow>
     s' = s \<and> r = find (\<lambda>x. id_of x = i) (table (se_db s)) \<and> pred_option (\<lambda>x. tenant_of x = t) r"
  by (cases "find (\<lambda>x. id_of x = i) (table (se_db s))")
    (auto simp: tenant_scoped_get_def bindS_def query_def ensure_def)

text \<open>
  Only a commit changes what is stored: a part of a unit of work without one leaves the stored
  tables as they are, whatever it returns.
\<close>

definition uncommitting :: "('db, 'e, 'a) session_comp \<Rightarrow> bool" where
  "uncommitting m \<longleftrightarrow> (\<forall>s. se_saved (snd (m s)) = se_saved s)"

named_theorems uncommitting_intros "computations that do not commit"

lemma uncommitting_basic [uncommitting_intros]:
  "uncommitting (returnS x)" "uncommitting (raiseS e)" "uncommitting (query g)"
  "uncommitting (lift_result r)" "uncommitting (ensure c e')" "uncommitting (draw src)"
  "uncommitting (modify_db f)"
  by (auto simp: uncommitting_def run_simps modify_db_def ensure_def split: sum.splits)

lemma uncommittingI: "(\<And>s r s'. m s = (r, s') \<Longrightarrow> se_saved s' = se_saved s) \<Longrightarrow> uncommitting m"
  unfolding uncommitting_def by (metis prod.collapse)

lemma uncommittingD: "uncommitting m \<Longrightarrow> m s = (r, s') \<Longrightarrow> se_saved s' = se_saved s"
  by (metis snd_conv uncommitting_def)

lemma uncommitting_bind [uncommitting_intros]:
  assumes "uncommitting m" and "\<And>x. uncommitting (f x)"
  shows "uncommitting (bindS m f)"
  by (rule uncommittingI)
    (auto simp: bindS_def split: prod.splits sum.splits dest!: uncommittingD [OF assms(1)] uncommittingD [OF assms(2)])

lemma uncommitting_wrap [uncommitting_intros]:
  assumes "uncommitting m"
  shows "uncommitting (wrap_error f m)"
  by (rule uncommittingI)
    (auto simp: wrap_error_def split: prod.splits sum.splits dest!: uncommittingD [OF assms])

lemma uncommitting_try [uncommitting_intros]:
  assumes "uncommitting m" and "\<And>e. uncommitting (h e)" and "\<And>x. uncommitting (f x)"
  shows "uncommitting (tryS m h f)"
  by (rule uncommittingI)
    (auto simp: tryS_def split: prod.splits sum.splits
      dest!: uncommittingD [OF assms(1)] uncommittingD [OF assms(2)] uncommittingD [OF assms(3)])

lemma transaction_rolls_back:
  "uncommitting m \<Longrightarrow> transaction m w = (r, w') \<Longrightarrow> w_db w' = w_db w"
  by (auto simp: transaction_def split: prod.splits dest!: uncommittingD)

text \<open>A unit of work whose last effect is its commit: an exception leaves the stored tables alone.\<close>

definition commits_last :: "('db, 'e, 'a) session_comp \<Rightarrow> bool" where
  "commits_last m \<longleftrightarrow> (\<forall>s e s'. m s = (Inl e, s') \<longrightarrow> se_saved s' = se_saved s)"

named_theorems commits_last_intros "computations that do nothing after their commit"

lemma commits_last_uncommitting [commits_last_intros]: "uncommitting m \<Longrightarrow> commits_last m"
  unfolding commits_last_def using uncommittingD by blast

lemma commits_last_commit [commits_last_intros]:
  "commits_last commit" "commits_last (bindS commit (\<lambda>_. returnS x))"
  by (simp_all add: commits_last_def bindS_def commit_def)

lemma commits_last_bind [commits_last_intros]:
  assumes "uncommitting m" and "\<And>x. commits_last (f x)"
  shows "commits_last (bindS m f)"
  unfolding commits_last_def
proof (intro allI impI)
  fix s e s'
  assume "bindS m f s = (Inl e, s')"
  then consider t where "m s = (Inl e, t)" "s' = t" | x t where "m s = (Inr x, t)" "f x t = (Inl e, s')"
    by (auto simp: bindS_def split: prod.splits sum.splits)
  then show "se_saved s' = se_saved s"
    using uncommittingD [OF assms(1)] assms(2) unfolding commits_last_def by cases metis+
qed

lemma transaction_error_rolls_back:
  "commits_last m \<Longrightarrow> transaction m w = (Inl e, w') \<Longrightarrow> w_db w' = w_db w"
  by (auto simp: transaction_def commits_last_def split: prod.splits)

section \<open>Invariants of the tables\<close>

text \<open>
  \<open>yields I m R\<close>: in a session whose working and stored tables satisfy \<open>I\<close>, the computation keeps
  \<open>I\<close> on both, and its result, if it returns, satisfies \<open>R\<close>.
\<close>

definition session_inv :: "('db \<Rightarrow> bool) \<Rightarrow> 'db session \<Rightarrow> bool" where
  "session_inv I s \<longleftrightarrow> I (se_db s) \<and> I (se_saved s)"

definition yields :: "('db \<Rightarrow> bool) \<Rightarrow> ('db, 'e, 'a) session_comp \<Rightarrow> ('a \<Rightarrow> bool) \<Rightarrow> bool" where
  "yields I m R \<longleftrightarrow> (\<forall>s r s'. session_inv I s \<longrightarrow> m s = (r, s') \<longrightarrow>
     session_inv I s' \<and> (\<forall>x. r = Inr x \<longrightarrow> R x))"

abbreviation keeps :: "('db \<Rightarrow> bool) \<Rightarrow> ('db, 'e, 'a) session_comp \<Rightarrow> bool" where
  "keeps I m \<equiv> yields I m (\<lambda>_. True)"

named_theorems keeps_intros "computations that keep an invariant"

lemma yieldsI:
  "(\<And>s r s'. session_inv I s \<Longrightarrow> m s = (r, s') \<Longrightarrow> session_inv I s' \<and> (\<forall>x. r = Inr x \<longrightarrow> R x)) \<Longrightarrow> yields I m R"
  unfolding yields_def by blast

lemma yieldsD:
  "yields I m R \<Longrightarrow> session_inv I s \<Longrightarrow> m s = (r, s') \<Longrightarrow> session_inv I s'"
  "yields I m R \<Longrightarrow> session_inv I s \<Longrightarrow> m s = (Inr x, s') \<Longrightarrow> R x"
  unfolding yields_def by blast+

lemma keeps_basic [keeps_intros]:
  "keeps I (returnS x)" "keeps I (raiseS e)" "keeps I (query g)" "keeps I (lift_result r)"
  "keeps I (ensure c e')" "keeps I (draw src)" "keeps I commit"
  by (auto intro!: yieldsI simp: session_inv_def run_simps)

lemma keeps_modify:
  assumes "\<And>db db'. I db \<Longrightarrow> f db = Inr db' \<Longrightarrow> I db'"
  shows "keeps I (modify_db f)"
  by (rule yieldsI) (auto simp: modify_db_def session_inv_def split: sum.splits intro: assms)

lemma yields_bind:
  assumes "yields I m R" and "\<And>x. R x \<Longrightarrow> yields I (f x) Q"
  shows "yields I (bindS m f) Q"
proof (rule yieldsI)
  fix s r s'
  assume inv: "session_inv I s" and run: "bindS m f s = (r, s')"
  obtain q t where m: "m s = (q, t)" by fastforce
  have t: "session_inv I t" by (rule yieldsD(1) [OF assms(1) inv m])
  show "session_inv I s' \<and> (\<forall>x. r = Inr x \<longrightarrow> Q x)"
  proof (cases q)
    case (Inl e)
    then show ?thesis using run m t by (auto simp: bindS_def)
  next
    case (Inr x)
    then have "f x t = (r, s')" and "R x" using run m yieldsD(2) [OF assms(1) inv] by (auto simp: bindS_def)
    then show ?thesis using assms(2) t unfolding yields_def by blast
  qed
qed

lemma keeps_bind [keeps_intros]:
  assumes "keeps I m" and "\<And>x. keeps I (f x)"
  shows "keeps I (bindS m f)"
  by (rule yields_bind [OF assms(1)]) (rule assms(2))

lemma yields_weaken: "yields I m R \<Longrightarrow> (\<And>x. R x \<Longrightarrow> Q x) \<Longrightarrow> yields I m Q"
  unfolding yields_def by blast

lemma yields_lift: "(\<And>x. r = Inr x \<Longrightarrow> R x) \<Longrightarrow> yields I (lift_result r) R"
  by (rule yieldsI) (auto simp: lift_result_def)

lemma yields_ensure: "yields I (ensure c e) (\<lambda>_. c)"
  by (rule yieldsI) (auto simp: ensure_def split: if_splits)

lemma yields_query: "(\<And>db. I db \<Longrightarrow> R (f db)) \<Longrightarrow> yields I (query f) R"
  by (rule yieldsI) (auto simp: query_def session_inv_def)

lemma yields_return: "R x \<Longrightarrow> yields I (returnS x) R"
  by (rule yieldsI) auto

lemma yields_raise: "yields I (raiseS e) R"
  by (rule yieldsI) auto

lemma yields_try:
  assumes "yields I m R" and "\<And>e. yields I (h e) Q" and "\<And>x. R x \<Longrightarrow> yields I (f x) Q"
  shows "yields I (tryS m h f) Q"
proof (rule yieldsI)
  fix s r s'
  assume inv: "session_inv I s" and run: "tryS m h f s = (r, s')"
  obtain q t where m: "m s = (q, t)" by fastforce
  have t: "session_inv I t" by (rule yieldsD(1) [OF assms(1) inv m])
  show "session_inv I s' \<and> (\<forall>x. r = Inr x \<longrightarrow> Q x)"
  proof (cases q)
    case (Inl e)
    then have "h e t = (r, s')" using run m by (simp add: tryS_def)
    then show ?thesis using assms(2) t unfolding yields_def by blast
  next
    case (Inr x)
    then have "f x t = (r, s')" and "R x" using run m yieldsD(2) [OF assms(1) inv] by (auto simp: tryS_def)
    then show ?thesis using assms(3) t unfolding yields_def by blast
  qed
qed

lemma yields_wrap: "yields I m R \<Longrightarrow> yields I (wrap_error f m) R"
  unfolding yields_def wrap_error_def by (fastforce split: prod.splits sum.splits)

lemma yields_tenant_scoped_get:
  "yields I (tenant_scoped_get e id_of tenant_of table t i) (\<lambda>r. True)"
  unfolding tenant_scoped_get_def
  by (intro keeps_intros) (auto split: option.splits intro!: keeps_intros)

lemma transaction_keeps: "yields I m R \<Longrightarrow> I (w_db w) \<Longrightarrow> transaction m w = (r, w') \<Longrightarrow> I (w_db w')"
  by (auto simp: transaction_def session_inv_def split: prod.splits dest!: yieldsD(1))

section \<open>What a unit of work stored\<close>

text \<open>
  \<open>changes m s r s'\<close>: the computation ran and changed the stored tables. Its elimination rules
  follow a unit of work from its first statement to its commit: everything before the commit
  returned, and nothing raised.
\<close>

definition changes :: "('db, 'e, 'a) session_comp \<Rightarrow> 'db session \<Rightarrow> 'e + 'a \<Rightarrow> 'db session \<Rightarrow> bool" where
  "changes m s r s' \<longleftrightarrow> m s = (r, s') \<and> se_saved s' \<noteq> se_saved s"

named_theorems changes_elims "elimination rules for a computation that changed the stored tables"

lemma changes_uncommitting: "uncommitting m \<Longrightarrow> \<not> changes m s r s'"
  unfolding changes_def using uncommittingD by blast

lemma changes_trivial [changes_elims]:
  "changes (returnS x) s r s' \<Longrightarrow> P" "changes (raiseS e) s r s' \<Longrightarrow> P" "changes (lift_result q) s r s' \<Longrightarrow> P"
  by (simp_all add: changes_uncommitting uncommitting_basic)

lemma changes_bindE:
  assumes "changes (bindS m f) s r s'" and "uncommitting m"
  obtains x t where "m s = (Inr x, t)" and "changes (f x) t r s'"
proof -
  obtain q t where m: "m s = (q, t)" by fastforce
  have t: "se_saved t = se_saved s" by (rule uncommittingD [OF assms(2) m])
  show ?thesis
  proof (cases q)
    case (Inl e)
    then show ?thesis using assms(1) m t by (simp add: changes_def bindS_def)
  next
    case (Inr x)
    then show ?thesis using assms(1) m t that [of x t] by (simp add: changes_def bindS_def)
  qed
qed

lemma changes_lift [changes_elims]:
  assumes "changes (bindS (lift_result q) f) s r s'"
  obtains x where "q = Inr x" and "changes (f x) s r s'"
  by (rule changes_bindE [OF assms]) (auto intro: uncommitting_intros that)

lemma changes_ensure [changes_elims]:
  assumes "changes (bindS (ensure c e) f) s r s'"
  obtains "c" and "changes (f ()) s r s'"
  by (rule changes_bindE [OF assms]) (auto intro: uncommitting_intros that)

lemma changes_query [changes_elims]:
  assumes "changes (bindS (query g) f) s r s'"
  obtains "changes (f (g (se_db s))) s r s'"
  by (rule changes_bindE [OF assms]) (auto intro: uncommitting_intros that)

lemma changes_draw [changes_elims]:
  assumes "changes (bindS (draw src) f) s r s'"
  obtains x t where "se_db t = se_db s" and "changes (f x) t r s'"
  by (rule changes_bindE [OF assms])
    (auto intro: uncommitting_intros that [of "s\<lparr>se_draws := Suc (se_draws s)\<rparr>"])

lemma changes_commit [changes_elims]:
  assumes "changes (bindS commit f) s r s'" and "\<And>x. uncommitting (f x)"
  obtains "se_saved s' = se_db s"
proof -
  have run: "f () (s\<lparr>se_saved := se_db s\<rparr>) = (r, s')"
    using assms(1) by (simp add: changes_def bindS_def commit_def)
  have "se_saved s' = se_db s" using uncommittingD [OF assms(2) run] by simp
  then show ?thesis by (rule that)
qed

lemma changes_bare_commit [changes_elims]:
  assumes "changes commit s r s'"
  obtains "se_saved s' = se_db s"
  using assms that by (auto simp: changes_def commit_def)

lemma changes_option [changes_elims]:
  assumes "changes (case x of None \<Rightarrow> raiseS e | Some y \<Rightarrow> f y) s r s'"
  obtains y where "x = Some y" and "changes (f y) s r s'"
  using assms that by (cases x) (auto elim: changes_elims)

lemma changes_if [changes_elims]:
  assumes "changes (if c then returnS x else m) s r s'"
  obtains "\<not> c" and "changes m s r s'"
  using assms that by (cases c) (auto elim: changes_elims)

lemma changes_transaction:
  assumes "transaction m w = (r, w')"
  obtains (same) "w_db w' = w_db w" "w' = close_session (snd (m (open_session w))) w"
  | (stored) s' where "changes m (open_session w) r s'" and "w_db w' = se_saved s'"
proof -
  obtain s' where run: "m (open_session w) = (r, s')" and w': "w' = close_session s' w"
    using assms by (auto simp: transaction_def Let_def split: prod.splits)
  show ?thesis
  proof (cases "se_saved s' = w_db w")
    case True
    then show ?thesis using same run w' by simp
  next
    case False
    then show ?thesis using stored [of s'] run w' by (simp add: changes_def)
  qed
qed

end
