(* ===== verification/Content_Domain.thy ===== *)
theory Content_Domain
  imports Audit_Domain Unit_Of_Work
begin

text \<open>
  Encrypted content: the value types of \<open>domain/encrypted_content.py\<close>, the retention policy of
  \<open>domain/retention.py\<close> with the expiry of \<open>application/encryption_ports.py\<close>, and the envelope
  encryption of \<open>infrastructure/aes_gcm_encryption.py\<close> and \<open>static_key_provider.py\<close>.

  Bytes are 8-bit words. The AES-GCM primitive of the \<open>cryptography\<close> package is the parameter
  \<open>aead\<close>; \<open>None\<close> is its raising an exception. The random source is a function of the serial number
  of the call and the size asked for.
\<close>

type_synonym byte = "8 word"
type_synonym bytes = "byte list"

section \<open>Enumerations and limits\<close>

datatype encrypted_content_kind =
    CK_RAW_MESSAGE | CK_SANITIZED_MESSAGE | CK_PROVIDER_PAYLOAD | CK_OUTBOUND_MESSAGE
  | CK_CSV_IMPORT | CK_KNOWLEDGE_DOCUMENT | CK_KNOWLEDGE_CHUNK | CK_NOTIFICATION_PAYLOAD
  | CK_PROVIDER_MEDIA_BINARY | CK_MFA_TOTP_SECRET

fun content_kind_value :: "encrypted_content_kind \<Rightarrow> string" where
  "content_kind_value CK_RAW_MESSAGE = ''raw_message''"
| "content_kind_value CK_SANITIZED_MESSAGE = ''sanitized_message''"
| "content_kind_value CK_PROVIDER_PAYLOAD = ''provider_payload''"
| "content_kind_value CK_OUTBOUND_MESSAGE = ''outbound_message''"
| "content_kind_value CK_CSV_IMPORT = ''csv_import''"
| "content_kind_value CK_KNOWLEDGE_DOCUMENT = ''knowledge_document''"
| "content_kind_value CK_KNOWLEDGE_CHUNK = ''knowledge_chunk''"
| "content_kind_value CK_NOTIFICATION_PAYLOAD = ''notification_payload''"
| "content_kind_value CK_PROVIDER_MEDIA_BINARY = ''provider_media_binary''"
| "content_kind_value CK_MFA_TOTP_SECRET = ''mfa_totp_secret''"

definition content_kinds :: "encrypted_content_kind list" where
  "content_kinds =
     [CK_RAW_MESSAGE, CK_SANITIZED_MESSAGE, CK_PROVIDER_PAYLOAD, CK_OUTBOUND_MESSAGE, CK_CSV_IMPORT,
      CK_KNOWLEDGE_DOCUMENT, CK_KNOWLEDGE_CHUNK, CK_NOTIFICATION_PAYLOAD, CK_PROVIDER_MEDIA_BINARY,
      CK_MFA_TOTP_SECRET]"

datatype content_encoding = ENC_UTF8 | ENC_JSON | ENC_BINARY

fun encoding_value :: "content_encoding \<Rightarrow> string" where
  "encoding_value ENC_UTF8 = ''utf8''"
| "encoding_value ENC_JSON = ''json''"
| "encoding_value ENC_BINARY = ''binary''"

definition content_encodings :: "content_encoding list" where
  "content_encodings = [ENC_UTF8, ENC_JSON, ENC_BINARY]"

datatype content_access_purpose =
    CP_REDACTION | CP_WEBHOOK_NORMALIZATION | CP_OUTBOUND_SEND | CP_WHATSAPP_TEMPLATE_SYNC
  | CP_AI_ANALYSIS | CP_RETENTION_DELETION | CP_AUDIT_REVIEW | CP_KEY_REWRAP
  | CP_CSV_IMPORT_PROCESSING | CP_KNOWLEDGE_RETRIEVAL | CP_CONVERSATION_REVIEW
  | CP_NOTIFICATION_DELIVERY | CP_MEDIA_SCAN | CP_MFA_TOTP_VERIFY

fun purpose_value :: "content_access_purpose \<Rightarrow> string" where
  "purpose_value CP_REDACTION = ''redaction''"
| "purpose_value CP_WEBHOOK_NORMALIZATION = ''webhook_normalization''"
| "purpose_value CP_OUTBOUND_SEND = ''outbound_send''"
| "purpose_value CP_WHATSAPP_TEMPLATE_SYNC = ''whatsapp_template_sync''"
| "purpose_value CP_AI_ANALYSIS = ''ai_analysis''"
| "purpose_value CP_RETENTION_DELETION = ''retention_deletion''"
| "purpose_value CP_AUDIT_REVIEW = ''audit_review''"
| "purpose_value CP_KEY_REWRAP = ''key_rewrap''"
| "purpose_value CP_CSV_IMPORT_PROCESSING = ''csv_import_processing''"
| "purpose_value CP_KNOWLEDGE_RETRIEVAL = ''knowledge_retrieval''"
| "purpose_value CP_CONVERSATION_REVIEW = ''conversation_review''"
| "purpose_value CP_NOTIFICATION_DELIVERY = ''notification_delivery''"
| "purpose_value CP_MEDIA_SCAN = ''media_scan''"
| "purpose_value CP_MFA_TOTP_VERIFY = ''mfa_totp_verify''"

definition GCM_NONCE_SIZE_BYTES :: nat where "GCM_NONCE_SIZE_BYTES = 12"
definition DATA_ENCRYPTION_KEY_SIZE_BYTES :: nat where "DATA_ENCRYPTION_KEY_SIZE_BYTES = 32"
definition CONTENT_AAD_VERSION :: int where "CONTENT_AAD_VERSION = 1"
definition MAX_KEY_VERSION_LENGTH :: nat where "MAX_KEY_VERSION_LENGTH = 64"

fun max_plaintext_bytes_for_kind :: "encrypted_content_kind \<Rightarrow> nat" where
  "max_plaintext_bytes_for_kind CK_PROVIDER_PAYLOAD = 1024 * 1024"
| "max_plaintext_bytes_for_kind CK_CSV_IMPORT = 10 * 1024 * 1024"
| "max_plaintext_bytes_for_kind CK_KNOWLEDGE_DOCUMENT = 5 * 1024 * 1024"
| "max_plaintext_bytes_for_kind CK_KNOWLEDGE_CHUNK = 32 * 1024"
| "max_plaintext_bytes_for_kind CK_NOTIFICATION_PAYLOAD = 64 * 1024"
| "max_plaintext_bytes_for_kind CK_MFA_TOTP_SECRET = 64"
| "max_plaintext_bytes_for_kind CK_PROVIDER_MEDIA_BINARY = 100 * 1024 * 1024"
| "max_plaintext_bytes_for_kind _ = 256 * 1024"

section \<open>Errors\<close>

datatype content_error =
    Con_ValueError string
  | EncryptedContentError string
  | ContentUnavailableError string
  | ContentEncryptionUnavailableError string
  | ContentAccessDeniedError string
  | ContentTenantUnavailableError string
  | EncryptedContentPersistenceError string
  | DuplicateEncryptedContentError string
  | EncryptedContentReferenceError string
  | EncryptedContentRecordNotFoundError string
  | Con_TenantMismatchError string
  | Con_DriverError string
  | Con_AuditError audit_error
  | Con_AuditAppendRequiredError string

text \<open>The subclasses of \<open>ContentEncryptionError\<close>.\<close>

fun is_content_encryption_error :: "content_error \<Rightarrow> bool" where
  "is_content_encryption_error (ContentEncryptionUnavailableError m) = True"
| "is_content_encryption_error (ContentAccessDeniedError m) = True"
| "is_content_encryption_error (ContentTenantUnavailableError m) = True"
| "is_content_encryption_error _ = False"

section \<open>Validation\<close>

text \<open>\<open>str.isalnum\<close> on code points below 256: ASCII letters and digits and the Latin-1 ones.\<close>

definition is_alnum :: "char \<Rightarrow> bool" where
  "is_alnum c \<longleftrightarrow> (let n = (of_char c :: nat) in
     48 \<le> n \<and> n \<le> 57 \<or> 65 \<le> n \<and> n \<le> 90 \<or> 97 \<le> n \<and> n \<le> 122 \<or>
     n \<in> {170, 178, 179, 181, 185, 186, 188, 189, 190} \<or> 192 \<le> n \<and> n \<noteq> 215 \<and> n \<noteq> 247)"

definition validate_key_version :: "string \<Rightarrow> content_error + string" where
  "validate_key_version value =
     (let normalized = strip value;
          bare = filter (\<lambda>c. c \<noteq> CHR ''_'' \<and> c \<noteq> CHR ''-'') normalized in
      if normalized = [] then Inl (Con_ValueError ''key_version must not be empty'')
      else if length normalized > MAX_KEY_VERSION_LENGTH
      then Inl (Con_ValueError ''key_version must not exceed 64 characters'')
      else if bare = [] \<or> \<not> list_all is_alnum bare
      then Inl (Con_ValueError ''key_version must contain only letters, digits, underscores, and hyphens'')
      else if \<not> is_alnum (hd normalized)
      then Inl (Con_ValueError ''key_version must start with a letter or digit'')
      else Inr normalized)"

definition validate_exact_byte_length :: "bytes \<Rightarrow> string \<Rightarrow> nat \<Rightarrow> content_error + unit" where
  "validate_exact_byte_length value field_name expected =
     raise_if (length value \<noteq> expected) (Con_ValueError (field_name @ '' must contain exactly 12 bytes''))"

definition validate_non_empty_bytes :: "bytes \<Rightarrow> string \<Rightarrow> content_error + unit" where
  "validate_non_empty_bytes value field_name =
     raise_if (value = []) (Con_ValueError (field_name @ '' must not be empty''))"

definition validate_plaintext_for_kind ::
    "encrypted_content_kind \<Rightarrow> bytes \<Rightarrow> content_error + bytes" where
  "validate_plaintext_for_kind kind plaintext =
     (if plaintext = [] then Inl (EncryptedContentError ''plaintext must not be empty'')
      else if length plaintext > max_plaintext_bytes_for_kind kind
      then Inl (EncryptedContentError ''plaintext exceeds allowed size limit'')
      else Inr plaintext)"

section \<open>Values\<close>

record wrapped_data_key =
  wk_wrapped_data_key :: bytes
  wk_key_wrap_nonce :: bytes
  wk_key_version :: string

definition WrappedDataKey_post_init :: "wrapped_data_key \<Rightarrow> content_error + wrapped_data_key" where
  "WrappedDataKey_post_init w =
     bindE (validate_non_empty_bytes (wk_wrapped_data_key w) ''wrapped_data_key'') (\<lambda>_.
     bindE (validate_exact_byte_length (wk_key_wrap_nonce w) ''key_wrap_nonce'' GCM_NONCE_SIZE_BYTES) (\<lambda>_.
     bindE (validate_key_version (wk_key_version w)) (\<lambda>v.
     Inr (w\<lparr>wk_key_version := v\<rparr>))))"

text \<open>The algorithm has one member, \<open>aes_256_gcm\<close>, and is not a field.\<close>

record encrypted_content =
  ec_id :: uuid
  ec_tenant_id :: uuid
  ec_kind :: encrypted_content_kind
  ec_encoding :: content_encoding
  ec_ciphertext :: bytes
  ec_content_nonce :: bytes
  ec_wrapped_data_key :: bytes
  ec_key_wrap_nonce :: bytes
  ec_key_version :: string
  ec_aad_version :: int
  ec_plaintext_byte_length :: int
  ec_created_at :: datetime
  ec_expires_at :: datetime

definition EncryptedContent_post_init :: "encrypted_content \<Rightarrow> content_error + encrypted_content" where
  "EncryptedContent_post_init c =
     bindE (validate_non_empty_bytes (ec_ciphertext c) ''ciphertext'') (\<lambda>_.
     bindE (validate_exact_byte_length (ec_content_nonce c) ''content_nonce'' GCM_NONCE_SIZE_BYTES) (\<lambda>_.
     bindE (validate_non_empty_bytes (ec_wrapped_data_key c) ''wrapped_data_key'') (\<lambda>_.
     bindE (validate_exact_byte_length (ec_key_wrap_nonce c) ''key_wrap_nonce'' GCM_NONCE_SIZE_BYTES) (\<lambda>_.
     bindE (validate_key_version (ec_key_version c)) (\<lambda>v.
     bindE (raise_if (ec_aad_version c < 1)
              (Con_ValueError ''aad_version must be greater than or equal to one'')) (\<lambda>_.
     bindE (raise_if (ec_plaintext_byte_length c \<le> 0)
              (Con_ValueError ''plaintext_byte_length must be greater than zero'')) (\<lambda>_.
     bindE (raise_if (ec_plaintext_byte_length c > int (max_plaintext_bytes_for_kind (ec_kind c)))
              (Con_ValueError ''plaintext_byte_length exceeds allowed size limit'')) (\<lambda>_.
     bindE (require_aware (Con_ValueError ''created_at must be timezone-aware'') (ec_created_at c)) (\<lambda>_.
     bindE (require_aware (Con_ValueError ''expires_at must be timezone-aware'') (ec_expires_at c)) (\<lambda>_.
     bindE (raise_if (ec_expires_at c < ec_created_at c)
              (Con_ValueError ''expires_at must not be earlier than created_at'')) (\<lambda>_.
     Inr (c\<lparr>ec_key_version := v\<rparr>))))))))))))"

record decrypted_content =
  dc_kind :: encrypted_content_kind
  dc_encoding :: content_encoding
  dc_plaintext_byte_length :: int
  dc_plaintext :: bytes

definition DecryptedContent_post_init :: "decrypted_content \<Rightarrow> content_error + decrypted_content" where
  "DecryptedContent_post_init d =
     bindE (raise_if (dc_plaintext_byte_length d \<le> 0)
              (Con_ValueError ''plaintext_byte_length must be greater than zero'')) (\<lambda>_.
     bindE (raise_if (dc_plaintext d = []) (Con_ValueError ''_plaintext must not be empty'')) (\<lambda>_.
     bindE (raise_if (int (length (dc_plaintext d)) \<noteq> dc_plaintext_byte_length d)
              (Con_ValueError ''plaintext_byte_length must match plaintext size'')) (\<lambda>_.
     bindE (raise_if (length (dc_plaintext d) > max_plaintext_bytes_for_kind (dc_kind d))
              (Con_ValueError ''plaintext exceeds allowed size limit'')) (\<lambda>_.
     Inr d))))"

text \<open>
  The texts that \<open>as_utf8_text\<close> and \<open>as_json_text\<close> return are given by their UTF-8 bytes.
  \<open>valid_utf8\<close> is the well-formedness that \<open>bytes.decode("utf-8")\<close> requires: shortest forms, no
  surrogates, code points up to \<open>0x10FFFF\<close>.
\<close>

definition cont_byte :: "byte \<Rightarrow> bool" where
  "cont_byte b \<longleftrightarrow> 0x80 \<le> b \<and> b \<le> 0xBF"

fun valid_utf8 :: "bytes \<Rightarrow> bool" where
  "valid_utf8 [] = True"
| "valid_utf8 (a # bs) =
     (if a \<le> 0x7F then valid_utf8 bs
      else if 0xC2 \<le> a \<and> a \<le> 0xDF then
        (case bs of b # r \<Rightarrow> cont_byte b \<and> valid_utf8 r | _ \<Rightarrow> False)
      else if 0xE0 \<le> a \<and> a \<le> 0xEF then
        (case bs of b # c # r \<Rightarrow>
           cont_byte b \<and> cont_byte c \<and> (a = 0xE0 \<longrightarrow> 0xA0 \<le> b) \<and> (a = 0xED \<longrightarrow> b \<le> 0x9F) \<and> valid_utf8 r
         | _ \<Rightarrow> False)
      else if 0xF0 \<le> a \<and> a \<le> 0xF4 then
        (case bs of b # c # d # r \<Rightarrow>
           cont_byte b \<and> cont_byte c \<and> cont_byte d \<and> (a = 0xF0 \<longrightarrow> 0x90 \<le> b) \<and>
           (a = 0xF4 \<longrightarrow> b \<le> 0x8F) \<and> valid_utf8 r
         | _ \<Rightarrow> False)
      else False)"

definition as_utf8_text :: "decrypted_content \<Rightarrow> content_error + bytes" where
  "as_utf8_text d =
     (if dc_encoding d \<noteq> ENC_UTF8
      then Inl (EncryptedContentError ''encoding does not support utf8 text access'')
      else if \<not> valid_utf8 (dc_plaintext d)
      then Inl (EncryptedContentError ''plaintext is not valid utf8'')
      else Inr (dc_plaintext d))"

definition as_json_text :: "decrypted_content \<Rightarrow> content_error + bytes" where
  "as_json_text d =
     (if dc_encoding d \<noteq> ENC_JSON
      then Inl (EncryptedContentError ''encoding does not support json text access'')
      else if \<not> valid_utf8 (dc_plaintext d)
      then Inl (EncryptedContentError ''plaintext is not valid utf8 json'')
      else Inr (dc_plaintext d))"

section \<open>Retention\<close>

record retention_policy =
  rp_raw_message_days :: int
  rp_sanitized_message_days :: int
  rp_ai_output_days :: int
  rp_audit_log_days :: int
  rp_backup_days :: int
  rp_post_contract_deletion_days :: int

definition validate_retention_days :: "string \<Rightarrow> int \<Rightarrow> content_error + unit" where
  "validate_retention_days field_name value =
     raise_if (value < 0) (Con_ValueError (field_name @ '' must be greater than or equal to zero''))"

definition RetentionPolicy_post_init :: "retention_policy \<Rightarrow> content_error + retention_policy" where
  "RetentionPolicy_post_init p =
     bindE (validate_retention_days ''raw_message_days'' (rp_raw_message_days p)) (\<lambda>_.
     bindE (validate_retention_days ''sanitized_message_days'' (rp_sanitized_message_days p)) (\<lambda>_.
     bindE (validate_retention_days ''ai_output_days'' (rp_ai_output_days p)) (\<lambda>_.
     bindE (validate_retention_days ''audit_log_days'' (rp_audit_log_days p)) (\<lambda>_.
     bindE (validate_retention_days ''backup_days'' (rp_backup_days p)) (\<lambda>_.
     bindE (validate_retention_days ''post_contract_deletion_days'' (rp_post_contract_deletion_days p)) (\<lambda>_.
     Inr p))))))"

definition NOTIFICATION_PAYLOAD_RETENTION_DAYS :: int where "NOTIFICATION_PAYLOAD_RETENTION_DAYS = 7"

fun retention_days_for_kind :: "encrypted_content_kind \<Rightarrow> retention_policy \<Rightarrow> int" where
  "retention_days_for_kind CK_NOTIFICATION_PAYLOAD policy = NOTIFICATION_PAYLOAD_RETENTION_DAYS"
| "retention_days_for_kind CK_SANITIZED_MESSAGE policy = rp_sanitized_message_days policy"
| "retention_days_for_kind _ policy = rp_raw_message_days policy"

definition calculate_encrypted_content_expiry ::
    "encrypted_content_kind \<Rightarrow> datetime \<Rightarrow> retention_policy \<Rightarrow> content_error + datetime" where
  "calculate_encrypted_content_expiry kind created_at policy =
     bindE (require_aware (Con_ValueError ''created_at must be timezone-aware'') created_at) (\<lambda>_.
     Inr (dt_plus created_at (timedelta_days (retention_days_for_kind kind policy))))"

end
