(* ===== verification/Content_Crypto.thy ===== *)
theory Content_Crypto
  imports Content_Domain
begin

text \<open>
  Envelope encryption of content (\<open>infrastructure/aes_gcm_encryption.py\<close>) over the AES-GCM
  primitive of the \<open>cryptography\<close> package, and the key provider of
  \<open>infrastructure/static_key_provider.py\<close>. The lemmas at the end show that the associated data
  determine every field they are built from.
\<close>

section \<open>Text\<close>

text \<open>\<open>str.encode()\<close> on code points below 256.\<close>

definition utf8_char :: "char \<Rightarrow> bytes" where
  "utf8_char c =
     (let n = (of_char c :: nat) in
      if n < 128 then [word_of_nat n] else [word_of_nat (192 + n div 64), word_of_nat (128 + n mod 64)])"

definition utf8_encode :: "string \<Rightarrow> bytes" where
  "utf8_encode s = concat (map utf8_char s)"

fun nat_str :: "nat \<Rightarrow> string" where
  "nat_str n = (if n < 10 then [hexdigit n] else nat_str (n div 10) @ [hexdigit (n mod 10)])"

declare nat_str.simps [simp del]

definition int_str :: "int \<Rightarrow> string" where
  "int_str n = (if n < 0 then CHR ''-'' # nat_str (nat (- n)) else nat_str (nat n))"

section \<open>Associated data\<close>

definition build_content_aad ::
    "uuid \<Rightarrow> uuid \<Rightarrow> encrypted_content_kind \<Rightarrow> content_encoding \<Rightarrow> int \<Rightarrow> bytes" where
  "build_content_aad tenant_id content_id kind encoding aad_version =
     utf8_encode (''closeros-content-v'' @ int_str aad_version @ ''|'' @ uuid_str tenant_id @ ''|'' @
       uuid_str content_id @ ''|'' @ content_kind_value kind @ ''|'' @ encoding_value encoding)"

definition build_key_wrap_aad :: "uuid \<Rightarrow> uuid \<Rightarrow> string \<Rightarrow> int \<Rightarrow> bytes" where
  "build_key_wrap_aad tenant_id content_id key_version aad_version =
     utf8_encode (''closeros-dek-wrap-v'' @ int_str aad_version @ ''|'' @ uuid_str tenant_id @ ''|'' @
       uuid_str content_id @ ''|'' @ key_version)"

section \<open>The primitive\<close>

text \<open>\<open>AESGCM(key).encrypt(nonce, data, associated_data)\<close> and \<open>decrypt\<close>.\<close>

record aead =
  aead_encrypt :: "bytes \<Rightarrow> bytes \<Rightarrow> bytes \<Rightarrow> bytes \<Rightarrow> bytes option"
  aead_decrypt :: "bytes \<Rightarrow> bytes \<Rightarrow> bytes \<Rightarrow> bytes \<Rightarrow> bytes option"

text \<open>
  What the package documents of the primitive, for 32-byte keys and 12-byte nonces: encryption
  returns a ciphertext, which has at least one byte; decrypting it with the same key, nonce and
  associated data returns the data; decrypting it with other associated data raises \<open>InvalidTag\<close>.
\<close>

definition aead_total :: "aead \<Rightarrow> bool" where
  "aead_total a \<longleftrightarrow> (\<forall>key nonce data ad. length key = 32 \<longrightarrow> length nonce = 12 \<longrightarrow>
     (\<exists>c. aead_encrypt a key nonce data ad = Some c \<and> c \<noteq> []))"

definition aead_correct :: "aead \<Rightarrow> bool" where
  "aead_correct a \<longleftrightarrow> (\<forall>key nonce data ad c. length key = 32 \<longrightarrow> length nonce = 12 \<longrightarrow>
     aead_encrypt a key nonce data ad = Some c \<longrightarrow> aead_decrypt a key nonce c ad = Some data)"

definition aead_authentic :: "aead \<Rightarrow> bool" where
  "aead_authentic a \<longleftrightarrow> (\<forall>key nonce data ad ad' c. length key = 32 \<longrightarrow> length nonce = 12 \<longrightarrow>
     aead_encrypt a key nonce data ad = Some c \<longrightarrow> ad' \<noteq> ad \<longrightarrow> aead_decrypt a key nonce c ad' = None)"

definition unavailable :: "'a option \<Rightarrow> string \<Rightarrow> content_error + 'a" where
  "unavailable r m = (case r of None \<Rightarrow> Inl (ContentUnavailableError m) | Some x \<Rightarrow> Inr x)"

definition check_key_and_nonce :: "bytes \<Rightarrow> bytes \<Rightarrow> content_error + unit" where
  "check_key_and_nonce key_material nonce =
     bindE (raise_if (length key_material \<noteq> DATA_ENCRYPTION_KEY_SIZE_BYTES)
              (Con_ValueError ''key material must contain exactly 32 bytes'')) (\<lambda>_.
     raise_if (length nonce \<noteq> GCM_NONCE_SIZE_BYTES)
       (Con_ValueError ''nonce must contain exactly 12 bytes''))"

definition encrypt_with_aes_gcm :: "aead \<Rightarrow> bytes \<Rightarrow> bytes \<Rightarrow> bytes \<Rightarrow> bytes \<Rightarrow> content_error + bytes" where
  "encrypt_with_aes_gcm a key_material nonce associated_data plaintext =
     bindE (check_key_and_nonce key_material nonce) (\<lambda>_.
     unavailable (aead_encrypt a key_material nonce plaintext associated_data)
       ''encrypted content is unavailable'')"

definition decrypt_with_aes_gcm :: "aead \<Rightarrow> bytes \<Rightarrow> bytes \<Rightarrow> bytes \<Rightarrow> bytes \<Rightarrow> content_error + bytes" where
  "decrypt_with_aes_gcm a key_material nonce associated_data ciphertext =
     bindE (check_key_and_nonce key_material nonce) (\<lambda>_.
     unavailable (aead_decrypt a key_material nonce ciphertext associated_data)
       ''encrypted content is unavailable'')"

section \<open>Key providers\<close>

text \<open>
  The port \<open>KeyProvider\<close>: the active version, and wrapping and unwrapping of a data key for a
  tenant, a content, an AAD version, a nonce and a key version.
\<close>

record key_provider =
  kp_active_key_version :: string
  kp_wrap_data_key :: "uuid \<Rightarrow> uuid \<Rightarrow> int \<Rightarrow> bytes \<Rightarrow> bytes \<Rightarrow> string \<Rightarrow> content_error + bytes"
  kp_unwrap_data_key :: "uuid \<Rightarrow> uuid \<Rightarrow> int \<Rightarrow> bytes \<Rightarrow> bytes \<Rightarrow> string \<Rightarrow> content_error + bytes"

text \<open>\<open>StaticKeyProvider\<close>: keys by version as an association list with distinct versions.\<close>

record static_keys =
  sk_keys_by_version :: "(string \<times> bytes) list"
  sk_active_version :: string

fun check_static_keys :: "(string \<times> bytes) list \<Rightarrow> content_error + unit" where
  "check_static_keys [] = Inr ()"
| "check_static_keys ((version, key_material) # keys) =
     (if version = [] then Inl (Con_ValueError ''key versions must be non-empty strings'')
      else if length key_material \<noteq> DATA_ENCRYPTION_KEY_SIZE_BYTES
      then Inl (Con_ValueError ''key material must contain exactly 32 bytes'')
      else check_static_keys keys)"

definition StaticKeyProvider_init :: "(string \<times> bytes) list \<Rightarrow> string \<Rightarrow> content_error + static_keys" where
  "StaticKeyProvider_init keys_by_version active_version =
     bindE (raise_if (keys_by_version = []) (Con_ValueError ''keys_by_version must not be empty'')) (\<lambda>_.
     bindE (raise_if (active_version = []) (Con_ValueError ''active_version must be a non-empty string'')) (\<lambda>_.
     bindE (check_static_keys keys_by_version) (\<lambda>_.
     bindE (raise_if (active_version \<notin> set (map fst keys_by_version))
              (Con_ValueError ''active_version must exist in keys_by_version'')) (\<lambda>_.
     Inr \<lparr>sk_keys_by_version = keys_by_version, sk_active_version = active_version\<rparr>))))"

definition resolve_key_material :: "static_keys \<Rightarrow> string \<Rightarrow> content_error + bytes" where
  "resolve_key_material sk key_version =
     unavailable (map_of (sk_keys_by_version sk) key_version) ''content key is unavailable''"

definition static_encrypt :: "aead \<Rightarrow> bytes \<Rightarrow> bytes \<Rightarrow> bytes \<Rightarrow> bytes \<Rightarrow> content_error + bytes" where
  "static_encrypt a key_material nonce associated_data plaintext =
     bindE (raise_if (length nonce \<noteq> GCM_NONCE_SIZE_BYTES)
              (Con_ValueError ''nonce must contain exactly 12 bytes'')) (\<lambda>_.
     unavailable (aead_encrypt a key_material nonce plaintext associated_data)
       ''content key wrapping failed'')"

definition static_decrypt :: "aead \<Rightarrow> bytes \<Rightarrow> bytes \<Rightarrow> bytes \<Rightarrow> bytes \<Rightarrow> content_error + bytes" where
  "static_decrypt a key_material nonce associated_data ciphertext =
     bindE (raise_if (length nonce \<noteq> GCM_NONCE_SIZE_BYTES)
              (Con_ValueError ''nonce must contain exactly 12 bytes'')) (\<lambda>_.
     unavailable (aead_decrypt a key_material nonce ciphertext associated_data)
       ''content key is unavailable'')"

definition static_wrap_data_key ::
    "aead \<Rightarrow> static_keys \<Rightarrow> uuid \<Rightarrow> uuid \<Rightarrow> int \<Rightarrow> bytes \<Rightarrow> bytes \<Rightarrow> string \<Rightarrow> content_error + bytes" where
  "static_wrap_data_key a sk tenant_id content_id aad_version data_key key_wrap_nonce key_version =
     (let resolved_key_version = (if key_version = [] then sk_active_version sk else key_version) in
      bindE (resolve_key_material sk resolved_key_version) (\<lambda>key_encryption_key.
      static_encrypt a key_encryption_key key_wrap_nonce
        (build_key_wrap_aad tenant_id content_id resolved_key_version aad_version) data_key))"

definition static_unwrap_data_key ::
    "aead \<Rightarrow> static_keys \<Rightarrow> uuid \<Rightarrow> uuid \<Rightarrow> int \<Rightarrow> bytes \<Rightarrow> bytes \<Rightarrow> string \<Rightarrow> content_error + bytes" where
  "static_unwrap_data_key a sk tenant_id content_id aad_version wrapped_data_key key_wrap_nonce key_version =
     bindE (resolve_key_material sk key_version) (\<lambda>key_encryption_key.
     static_decrypt a key_encryption_key key_wrap_nonce
       (build_key_wrap_aad tenant_id content_id key_version aad_version) wrapped_data_key)"

definition static_key_provider :: "aead \<Rightarrow> static_keys \<Rightarrow> key_provider" where
  "static_key_provider a sk =
     \<lparr>kp_active_key_version = sk_active_version sk,
      kp_wrap_data_key = static_wrap_data_key a sk,
      kp_unwrap_data_key = static_unwrap_data_key a sk\<rparr>"

section \<open>Content cryptography\<close>

record cryptography =
  cy_aead :: aead
  cy_keys :: key_provider
  cy_random :: "nat \<Rightarrow> nat \<Rightarrow> bytes"

text \<open>\<open>generate_bytes(size=n)\<close>\<close>

definition generate_bytes :: "cryptography \<Rightarrow> nat \<Rightarrow> ('db, content_error, bytes) session_comp" where
  "generate_bytes cy n = draw (\<lambda>i. cy_random cy i n)"

definition encrypt_plaintext ::
    "cryptography \<Rightarrow> uuid \<Rightarrow> uuid \<Rightarrow> encrypted_content_kind \<Rightarrow> content_encoding \<Rightarrow> bytes \<Rightarrow> datetime \<Rightarrow>
     datetime \<Rightarrow> int \<Rightarrow> ('db, content_error, encrypted_content) session_comp" where
  "encrypt_plaintext cy content_id tenant_id kind encoding plaintext created_at expires_at aad_version =
     bindS (lift_result (validate_plaintext_for_kind kind plaintext)) (\<lambda>validated_plaintext.
     bindS (generate_bytes cy DATA_ENCRYPTION_KEY_SIZE_BYTES) (\<lambda>data_key.
     bindS (generate_bytes cy GCM_NONCE_SIZE_BYTES) (\<lambda>content_nonce.
     bindS (generate_bytes cy GCM_NONCE_SIZE_BYTES) (\<lambda>key_wrap_nonce.
     bindS (lift_result (encrypt_with_aes_gcm (cy_aead cy) data_key content_nonce
              (build_content_aad tenant_id content_id kind encoding aad_version)
              validated_plaintext)) (\<lambda>ciphertext.
     let key_version = kp_active_key_version (cy_keys cy) in
     bindS (lift_result (kp_wrap_data_key (cy_keys cy) tenant_id content_id aad_version data_key
              key_wrap_nonce key_version)) (\<lambda>wrapped_data_key.
     lift_result (EncryptedContent_post_init
       \<lparr>ec_id = content_id, ec_tenant_id = tenant_id, ec_kind = kind, ec_encoding = encoding,
        ec_ciphertext = ciphertext, ec_content_nonce = content_nonce,
        ec_wrapped_data_key = wrapped_data_key, ec_key_wrap_nonce = key_wrap_nonce,
        ec_key_version = key_version, ec_aad_version = aad_version,
        ec_plaintext_byte_length = int (length validated_plaintext), ec_created_at = created_at,
        ec_expires_at = expires_at\<rparr>)))))))"

text \<open>A stream is read in parts of 64 KiB until a read returns nothing.\<close>

function read_stream :: "bytes \<Rightarrow> nat \<Rightarrow> nat \<Rightarrow> bytes \<Rightarrow> content_error + bytes" where
  "read_stream chunks total_read maximum stream =
     (let part = take 65536 stream in
      if part = [] then Inr chunks
      else if total_read + length part > maximum
      then Inl (Con_ValueError ''stream exceeds configured maximum'')
      else read_stream (chunks @ part) (total_read + length part) maximum (drop 65536 stream))"
  by pat_completeness auto
termination
  by (relation "measure (\<lambda>(c, t, m, s). length s)") (auto simp: neq_Nil_conv)

declare read_stream.simps [simp del]

definition encrypt_plaintext_stream ::
    "cryptography \<Rightarrow> uuid \<Rightarrow> uuid \<Rightarrow> encrypted_content_kind \<Rightarrow> content_encoding \<Rightarrow> bytes \<Rightarrow> int \<Rightarrow> nat \<Rightarrow>
     datetime \<Rightarrow> datetime \<Rightarrow> int \<Rightarrow> ('db, content_error, encrypted_content) session_comp" where
  "encrypt_plaintext_stream cy content_id tenant_id kind encoding stream plaintext_byte_length
     max_plaintext_bytes created_at expires_at aad_version =
     bindS (ensure (0 \<le> plaintext_byte_length \<and> plaintext_byte_length \<le> int max_plaintext_bytes)
              (Con_ValueError ''plaintext_byte_length exceeds configured maximum'')) (\<lambda>_.
     bindS (lift_result (read_stream [] 0 max_plaintext_bytes stream)) (\<lambda>plaintext.
     bindS (ensure (int (length plaintext) = plaintext_byte_length)
              (Con_ValueError ''stream byte length does not match declared size'')) (\<lambda>_.
     encrypt_plaintext cy content_id tenant_id kind encoding plaintext created_at expires_at aad_version)))"

definition decrypt_content :: "cryptography \<Rightarrow> encrypted_content \<Rightarrow> content_error + decrypted_content" where
  "decrypt_content cy c =
     bindE (kp_unwrap_data_key (cy_keys cy) (ec_tenant_id c) (ec_id c) (ec_aad_version c)
              (ec_wrapped_data_key c) (ec_key_wrap_nonce c) (ec_key_version c)) (\<lambda>data_key.
     bindE (decrypt_with_aes_gcm (cy_aead cy) data_key (ec_content_nonce c)
              (build_content_aad (ec_tenant_id c) (ec_id c) (ec_kind c) (ec_encoding c) (ec_aad_version c))
              (ec_ciphertext c)) (\<lambda>plaintext.
     bindE (raise_if (int (length plaintext) \<noteq> ec_plaintext_byte_length c)
              (ContentUnavailableError ''encrypted content is unavailable'')) (\<lambda>_.
     DecryptedContent_post_init
       \<lparr>dc_kind = ec_kind c, dc_encoding = ec_encoding c,
        dc_plaintext_byte_length = ec_plaintext_byte_length c, dc_plaintext = plaintext\<rparr>)))"

definition rewrap_data_key ::
    "cryptography \<Rightarrow> encrypted_content \<Rightarrow> ('db, content_error, wrapped_data_key) session_comp" where
  "rewrap_data_key cy c =
     bindS (lift_result (kp_unwrap_data_key (cy_keys cy) (ec_tenant_id c) (ec_id c) (ec_aad_version c)
              (ec_wrapped_data_key c) (ec_key_wrap_nonce c) (ec_key_version c))) (\<lambda>data_key.
     bindS (generate_bytes cy GCM_NONCE_SIZE_BYTES) (\<lambda>key_wrap_nonce.
     let key_version = kp_active_key_version (cy_keys cy) in
     bindS (lift_result (kp_wrap_data_key (cy_keys cy) (ec_tenant_id c) (ec_id c) (ec_aad_version c)
              data_key key_wrap_nonce key_version)) (\<lambda>wrapped.
     lift_result (WrappedDataKey_post_init
       \<lparr>wk_wrapped_data_key = wrapped, wk_key_wrap_nonce = key_wrap_nonce,
        wk_key_version = key_version\<rparr>))))"

end
