(* ===== verification/Content_Service.thy ===== *)
theory Content_Service
  imports Content_Crypto
begin

text \<open>
  Persistence and service of encrypted content: the rows, constraints, mappers and repository of
  \<open>infrastructure/encrypted_content_orm.py\<close>, \<open>encrypted_content_mappers.py\<close> and
  \<open>encrypted_content_repositories.py\<close>, the audit events of \<open>application/content_audit.py\<close>, and
  \<open>ContentEncryptionService\<close> of \<open>application/content_encryption_service.py\<close>. The kind and size
  constraints are those of the last migration that sets them
  (\<open>c4e8a2b6d1f0_xy_production_operations.py\<close>).

  The service works on any record of tables that has the audit trail, the tenants and the contents.
\<close>

section \<open>Tables\<close>

record audit_db =
  ad_events :: "audit_event list"

datatype tenant_status = TS_ACTIVE | TS_SUSPENDED

record tenant =
  tn_id :: uuid
  tn_status :: tenant_status
  tn_retention_policy :: retention_policy

record encrypted_content_row =
  ecr_id :: uuid
  ecr_tenant_id :: uuid
  ecr_kind :: string
  ecr_encoding :: string
  ecr_ciphertext :: bytes
  ecr_content_nonce :: bytes
  ecr_wrapped_data_key :: bytes
  ecr_key_wrap_nonce :: bytes
  ecr_algorithm :: string
  ecr_key_version :: string
  ecr_aad_version :: int
  ecr_plaintext_byte_length :: int
  ecr_created_at :: datetime
  ecr_expires_at :: datetime

record content_db = audit_db +
  cd_tenants :: "tenant list"
  cd_contents :: "encrypted_content_row list"

text \<open>\<open>append_required_audit_event\<close> on an event built by a builder: the trail is append-only and its
  primary key is the event's identifier.\<close>

definition append_required_audit_event ::
    "(audit_error \<Rightarrow> 'e) \<Rightarrow> (string \<Rightarrow> 'e) \<Rightarrow> audit_error + audit_event \<Rightarrow>
     ('d audit_db_scheme, 'e, unit) session_comp" where
  "append_required_audit_event build_failed append_failed built =
     (case built of Inl e \<Rightarrow> raiseS (build_failed e)
      | Inr event \<Rightarrow>
          modify_db (\<lambda>db. if ae_id event \<in> set (map ae_id (ad_events db))
            then Inl (append_failed ''required audit append failed'')
            else Inr (db\<lparr>ad_events := ad_events db @ [event]\<rparr>)))"

section \<open>Mappers\<close>

definition encrypted_content_to_row :: "encrypted_content \<Rightarrow> encrypted_content_row" where
  "encrypted_content_to_row c =
     \<lparr>ecr_id = ec_id c, ecr_tenant_id = ec_tenant_id c, ecr_kind = content_kind_value (ec_kind c),
      ecr_encoding = encoding_value (ec_encoding c), ecr_ciphertext = ec_ciphertext c,
      ecr_content_nonce = ec_content_nonce c, ecr_wrapped_data_key = ec_wrapped_data_key c,
      ecr_key_wrap_nonce = ec_key_wrap_nonce c, ecr_algorithm = ''aes_256_gcm'',
      ecr_key_version = ec_key_version c, ecr_aad_version = ec_aad_version c,
      ecr_plaintext_byte_length = ec_plaintext_byte_length c, ecr_created_at = ec_created_at c,
      ecr_expires_at = ec_expires_at c\<rparr>"

definition encrypted_content_to_domain :: "encrypted_content_row \<Rightarrow> content_error + encrypted_content" where
  "encrypted_content_to_domain r =
     (case (enum_of content_kind_value content_kinds (ecr_kind r),
            enum_of encoding_value content_encodings (ecr_encoding r), ecr_algorithm r = ''aes_256_gcm'') of
        (Some k, Some e, True) \<Rightarrow>
          EncryptedContent_post_init
            \<lparr>ec_id = ecr_id r, ec_tenant_id = ecr_tenant_id r, ec_kind = k, ec_encoding = e,
             ec_ciphertext = ecr_ciphertext r, ec_content_nonce = ecr_content_nonce r,
             ec_wrapped_data_key = ecr_wrapped_data_key r, ec_key_wrap_nonce = ecr_key_wrap_nonce r,
             ec_key_version = ecr_key_version r, ec_aad_version = ecr_aad_version r,
             ec_plaintext_byte_length = ecr_plaintext_byte_length r,
             ec_created_at = ecr_created_at r, ec_expires_at = ecr_expires_at r\<rparr>
      | _ \<Rightarrow> Inl (Con_ValueError ''not a valid enumeration value''))"

definition apply_wrapped_data_key :: "encrypted_content_row \<Rightarrow> wrapped_data_key \<Rightarrow> encrypted_content_row" where
  "apply_wrapped_data_key row w =
     row\<lparr>ecr_wrapped_data_key := wk_wrapped_data_key w, ecr_key_wrap_nonce := wk_key_wrap_nonce w,
         ecr_key_version := wk_key_version w\<rparr>"

section \<open>Repository\<close>

definition content_columns_fit :: "encrypted_content_row \<Rightarrow> bool" where
  "content_columns_fit r \<longleftrightarrow>
     length (ecr_kind r) \<le> 32 \<and> length (ecr_encoding r) \<le> 16 \<and> length (ecr_algorithm r) \<le> 32 \<and>
     length (ecr_key_version r) \<le> MAX_KEY_VERSION_LENGTH \<and> fits_int4 (ecr_aad_version r) \<and>
     fits_int4 (ecr_plaintext_byte_length r) \<and> aware (ecr_created_at r) \<and> aware (ecr_expires_at r)"

definition ascii_alnum :: "char \<Rightarrow> bool" where
  "ascii_alnum c \<longleftrightarrow> is_digit09 c \<or> is_lower_az c \<or> is_lower_az (to_lower_char c) \<and> (of_char c :: nat) < 128"

text \<open>\<open>^[A-Za-z0-9][A-Za-z0-9_-]{0,63}$\<close>\<close>

definition key_version_format :: "string \<Rightarrow> bool" where
  "key_version_format s \<longleftrightarrow>
     s \<noteq> [] \<and> ascii_alnum (hd s) \<and> length s \<le> MAX_KEY_VERSION_LENGTH \<and>
     list_all (\<lambda>c. ascii_alnum c \<or> c = CHR ''_'' \<or> c = CHR ''-'') (tl s)"

definition content_kind_limit :: "string \<Rightarrow> int \<Rightarrow> bool" where
  "content_kind_limit kind n \<longleftrightarrow>
     kind = ''provider_payload'' \<and> n \<le> 1024 * 1024 \<or>
     kind = ''csv_import'' \<and> n \<le> 10 * 1024 * 1024 \<or>
     kind = ''knowledge_document'' \<and> n \<le> 5 * 1024 * 1024 \<or>
     kind = ''knowledge_chunk'' \<and> n \<le> 32 * 1024 \<or>
     kind = ''notification_payload'' \<and> n \<le> 64 * 1024 \<or>
     kind = ''mfa_totp_secret'' \<and> n \<le> 64 \<or>
     kind = ''provider_media_binary'' \<and> n \<le> 100 * 1024 * 1024 \<or>
     kind \<in> {''raw_message'', ''sanitized_message'', ''outbound_message''} \<and> n \<le> 256 * 1024"

definition content_row_checks :: "encrypted_content_row \<Rightarrow> bool" where
  "content_row_checks r \<longleftrightarrow>
     ecr_kind r \<in> set (map content_kind_value content_kinds) \<and>
     ecr_encoding r \<in> set (map encoding_value content_encodings) \<and>
     ecr_algorithm r = ''aes_256_gcm'' \<and> ecr_ciphertext r \<noteq> [] \<and>
     length (ecr_content_nonce r) = GCM_NONCE_SIZE_BYTES \<and> ecr_wrapped_data_key r \<noteq> [] \<and>
     length (ecr_key_wrap_nonce r) = GCM_NONCE_SIZE_BYTES \<and> 1 \<le> ecr_plaintext_byte_length r \<and>
     content_kind_limit (ecr_kind r) (ecr_plaintext_byte_length r) \<and>
     CONTENT_AAD_VERSION \<le> ecr_aad_version r \<and> key_version_format (ecr_key_version r) \<and>
     ecr_created_at r \<le> ecr_expires_at r"

definition content_message :: string where
  "content_message = ''encrypted content persistence integrity error''"

definition flush_contents :: "encrypted_content_row list \<Rightarrow> content_error + unit" where
  "flush_contents rows =
     (if \<not> list_all content_columns_fit rows then Inl (Con_DriverError ''value out of column range'')
      else if \<not> list_all content_row_checks rows then Inl (EncryptedContentPersistenceError content_message)
      else raise_if (\<not> distinct (map ecr_id rows)) (DuplicateEncryptedContentError content_message))"

definition write_contents ::
    "('d content_db_scheme \<Rightarrow> encrypted_content_row list) \<Rightarrow> ('d content_db_scheme, content_error, unit) session_comp" where
  "write_contents f =
     modify_db (\<lambda>db. bindE (flush_contents (f db)) (\<lambda>_. Inr (db\<lparr>cd_contents := f db\<rparr>)))"

definition content_add :: "encrypted_content \<Rightarrow> ('d content_db_scheme, content_error, unit) session_comp" where
  "content_add c = write_contents (\<lambda>db. cd_contents db @ [encrypted_content_to_row c])"

definition row_to_content ::
    "encrypted_content_row option \<Rightarrow> ('d content_db_scheme, content_error, encrypted_content option) session_comp" where
  "row_to_content row =
     (case row of None \<Rightarrow> returnS None
      | Some r \<Rightarrow> bindS (lift_result (encrypted_content_to_domain r)) (\<lambda>c. returnS (Some c)))"

definition content_get_by_id ::
    "uuid \<Rightarrow> uuid \<Rightarrow> ('d content_db_scheme, content_error, encrypted_content option) session_comp" where
  "content_get_by_id tenant_id content_id =
     bindS (tenant_scoped_get (Con_TenantMismatchError ''tenant scope mismatch'') ecr_id ecr_tenant_id
              cd_contents tenant_id content_id) row_to_content"

definition find_content :: "uuid \<Rightarrow> uuid \<Rightarrow> 'd content_db_scheme \<Rightarrow> encrypted_content_row option" where
  "find_content tenant_id content_id db =
     find (\<lambda>r. ecr_id r = content_id \<and> ecr_tenant_id r = tenant_id) (cd_contents db)"

definition content_get_for_update ::
    "uuid \<Rightarrow> uuid \<Rightarrow> ('d content_db_scheme, content_error, encrypted_content option) session_comp" where
  "content_get_for_update tenant_id content_id =
     bindS (query (find_content tenant_id content_id)) row_to_content"

definition replace_wrapped_key ::
    "uuid \<Rightarrow> uuid \<Rightarrow> wrapped_data_key \<Rightarrow> ('d content_db_scheme, content_error, unit) session_comp" where
  "replace_wrapped_key tenant_id content_id w =
     bindS (query (find_content tenant_id content_id)) (\<lambda>row.
     case row of None \<Rightarrow> raiseS (EncryptedContentRecordNotFoundError ''encrypted content not found'')
     | Some r \<Rightarrow> write_contents (\<lambda>db.
         map (\<lambda>x. if ecr_id x = ecr_id r then apply_wrapped_data_key x w else x) (cd_contents db)))"

definition to_contents :: "encrypted_content_row list \<Rightarrow> content_error + encrypted_content list" where
  "to_contents rows =
     foldr (\<lambda>r acc. bindE (encrypted_content_to_domain r) (\<lambda>c. bindE acc (\<lambda>cs. Inr (c # cs)))) rows (Inr [])"

definition list_by_tenant_and_kind ::
    "uuid \<Rightarrow> encrypted_content_kind \<Rightarrow> int \<Rightarrow> ('d content_db_scheme, content_error, encrypted_content list) session_comp" where
  "list_by_tenant_and_kind tenant_id kind limit =
     bindS (ensure (1 \<le> limit) (Con_ValueError ''limit must be positive'')) (\<lambda>_.
     bindS (query (\<lambda>db. take (nat limit)
       (sort_key (\<lambda>r. (- instant (ecr_created_at r), - int (unat (ecr_id r))))
         (filter (\<lambda>r. ecr_tenant_id r = tenant_id \<and> ecr_kind r = content_kind_value kind) (cd_contents db)))))
       (\<lambda>rows. lift_result (to_contents rows)))"

record retention_filter =
  rf_tenant_id :: "uuid option"
  rf_expires_before :: "datetime option"
  rf_limit :: int

definition due_rows :: "retention_filter \<Rightarrow> 'd content_db_scheme \<Rightarrow> encrypted_content_row list" where
  "due_rows f db = filter (\<lambda>r. pred_option (\<lambda>t. ecr_tenant_id r = t) (rf_tenant_id f) \<and>
     pred_option (\<lambda>e. ecr_expires_at r \<le> e) (rf_expires_before f)) (cd_contents db)"

definition count_due_for_retention ::
    "retention_filter \<Rightarrow> ('d content_db_scheme, content_error, nat) session_comp" where
  "count_due_for_retention f = query (\<lambda>db. length (due_rows f db))"

definition list_due_for_retention ::
    "retention_filter \<Rightarrow> ('d content_db_scheme, content_error, encrypted_content list) session_comp" where
  "list_due_for_retention f =
     bindS (ensure (1 \<le> rf_limit f) (Con_ValueError ''limit must be positive'')) (\<lambda>_.
     bindS (query (\<lambda>db. take (nat (rf_limit f))
       (sort_key (\<lambda>r. (ecr_expires_at r, ecr_id r)) (due_rows f db))))
       (\<lambda>rows. lift_result (to_contents rows)))"

text \<open>
  \<open>delete\<close>: a row that a message, an edit event or a sanitisation refers to is held by a foreign key;
  \<open>referenced\<close> says which contents are. The statement is executed outside \<open>_flush\<close>, so the driver's
  error is not translated.
\<close>

definition content_delete ::
    "(uuid \<Rightarrow> bool) \<Rightarrow> uuid \<Rightarrow> uuid \<Rightarrow> ('d content_db_scheme, content_error, unit) session_comp" where
  "content_delete referenced tenant_id content_id =
     bindS (query (find_content tenant_id content_id)) (\<lambda>row.
     bindS (ensure (row = None \<or> \<not> referenced content_id) (Con_DriverError ''integrity error'')) (\<lambda>_.
     write_contents (\<lambda>db.
       filter (\<lambda>r. \<not> (ecr_tenant_id r = tenant_id \<and> ecr_id r = content_id)) (cd_contents db))))"

section \<open>Audit events\<close>

definition content_event ::
    "string \<Rightarrow> metadata_items \<Rightarrow> uuid \<Rightarrow> uuid \<Rightarrow> datetime \<Rightarrow> audit_origin \<Rightarrow> uuid \<Rightarrow> audit_error + audit_event" where
  "content_event action metadata tenant_id content_id occurred_at origin event_id =
     build_audit_event event_id AUD_TENANT (Some tenant_id) (ao_actor_type origin)
       (ao_actor_id origin) action ''encrypted_content'' (Some content_id) occurred_at
       (ao_correlation_id origin) (Some (tenant_metadata metadata))"

definition content_encrypted_stored_event ::
    "encrypted_content_kind \<Rightarrow> string \<Rightarrow> uuid \<Rightarrow> uuid \<Rightarrow> datetime \<Rightarrow> audit_origin \<Rightarrow> uuid \<Rightarrow> audit_error + audit_event" where
  "content_encrypted_stored_event kind key_version =
     content_event ''encrypted_content.stored''
       [(''content_kind'', MV_Str (content_kind_value kind)), (''key_version_code'', MV_Str key_version)]"

definition content_encrypted_accessed_event ::
    "encrypted_content_kind \<Rightarrow> content_access_purpose \<Rightarrow> string \<Rightarrow> uuid \<Rightarrow> uuid \<Rightarrow> datetime \<Rightarrow> audit_origin \<Rightarrow> uuid \<Rightarrow>
     audit_error + audit_event" where
  "content_encrypted_accessed_event kind purpose key_version =
     content_event ''encrypted_content.accessed''
       [(''content_kind'', MV_Str (content_kind_value kind)), (''key_version_code'', MV_Str key_version),
        (''reason_code'', MV_Str (purpose_value purpose))]"

definition content_key_rewrapped_event ::
    "encrypted_content_kind \<Rightarrow> string \<Rightarrow> string \<Rightarrow> uuid \<Rightarrow> uuid \<Rightarrow> datetime \<Rightarrow> audit_origin \<Rightarrow> uuid \<Rightarrow>
     audit_error + audit_event" where
  "content_key_rewrapped_event kind previous_key_version key_version =
     content_event ''encrypted_content.key_rewrapped''
       [(''content_kind'', MV_Str (content_kind_value kind)), (''key_version_code'', MV_Str key_version),
        (''previous_status'', MV_Str previous_key_version), (''new_status'', MV_Str key_version)]"

section \<open>The service\<close>

fun PURPOSES_BY_KIND :: "encrypted_content_kind \<Rightarrow> content_access_purpose list" where
  "PURPOSES_BY_KIND CK_RAW_MESSAGE = [CP_REDACTION, CP_AUDIT_REVIEW, CP_RETENTION_DELETION]"
| "PURPOSES_BY_KIND CK_SANITIZED_MESSAGE =
     [CP_AI_ANALYSIS, CP_CONVERSATION_REVIEW, CP_AUDIT_REVIEW, CP_RETENTION_DELETION]"
| "PURPOSES_BY_KIND CK_PROVIDER_PAYLOAD =
     [CP_WEBHOOK_NORMALIZATION, CP_AUDIT_REVIEW, CP_RETENTION_DELETION]"
| "PURPOSES_BY_KIND CK_CSV_IMPORT = [CP_CSV_IMPORT_PROCESSING, CP_AUDIT_REVIEW, CP_RETENTION_DELETION]"
| "PURPOSES_BY_KIND CK_KNOWLEDGE_DOCUMENT =
     [CP_KNOWLEDGE_RETRIEVAL, CP_AUDIT_REVIEW, CP_RETENTION_DELETION]"
| "PURPOSES_BY_KIND CK_KNOWLEDGE_CHUNK =
     [CP_KNOWLEDGE_RETRIEVAL, CP_AI_ANALYSIS, CP_AUDIT_REVIEW, CP_RETENTION_DELETION]"
| "PURPOSES_BY_KIND CK_OUTBOUND_MESSAGE = [CP_OUTBOUND_SEND, CP_AUDIT_REVIEW, CP_RETENTION_DELETION]"
| "PURPOSES_BY_KIND CK_NOTIFICATION_PAYLOAD = [CP_NOTIFICATION_DELIVERY, CP_RETENTION_DELETION]"
| "PURPOSES_BY_KIND CK_PROVIDER_MEDIA_BINARY = [CP_MEDIA_SCAN, CP_RETENTION_DELETION]"
| "PURPOSES_BY_KIND CK_MFA_TOTP_SECRET = [CP_MFA_TOTP_VERIFY, CP_RETENTION_DELETION]"

definition assert_access_purpose ::
    "encrypted_content_kind \<Rightarrow> content_access_purpose \<Rightarrow> content_error + unit" where
  "assert_access_purpose kind purpose =
     raise_if (purpose \<notin> set (PURPOSES_BY_KIND kind))
       (ContentAccessDeniedError ''content access purpose is not permitted'')"

definition raise_unavailable :: "('s, content_error, 'a) comp" where
  "raise_unavailable = raiseS (ContentEncryptionUnavailableError ''encrypted content is unavailable'')"

definition load_active_tenant :: "uuid \<Rightarrow> ('d content_db_scheme, content_error, tenant) session_comp" where
  "load_active_tenant tenant_id =
     bindS (query (\<lambda>db. find (\<lambda>t. tn_id t = tenant_id) (cd_tenants db))) (\<lambda>found.
     case found of
       Some t \<Rightarrow> if tn_status t = TS_ACTIVE then returnS t
         else raiseS (ContentTenantUnavailableError ''tenant is unavailable for encrypted content'')
     | None \<Rightarrow> raiseS (ContentTenantUnavailableError ''tenant is unavailable for encrypted content''))"

text \<open>The \<open>try\<close> of the two storing operations.\<close>

definition persistence_guard ::
    "('s, content_error, 'a) comp \<Rightarrow> ('s, content_error, 'a) comp" where
  "persistence_guard m =
     tryS m (\<lambda>e. if is_content_encryption_error e then raiseS e
                 else raiseS (ContentEncryptionUnavailableError ''encrypted content persistence failed''))
       returnS"

definition encrypt_and_persist ::
    "cryptography \<Rightarrow> uuid \<Rightarrow> uuid \<Rightarrow> encrypted_content_kind \<Rightarrow> content_encoding \<Rightarrow> bytes \<Rightarrow> datetime \<Rightarrow>
     ('d content_db_scheme, content_error, encrypted_content) session_comp" where
  "encrypt_and_persist cy content_id tenant_id kind encoding plaintext created_at =
     bindS (ensure (aware created_at) (Con_ValueError ''created_at must be timezone-aware'')) (\<lambda>_.
     bindS (load_active_tenant tenant_id) (\<lambda>tenant.
     bindS (lift_result (validate_plaintext_for_kind kind plaintext)) (\<lambda>validated_plaintext.
     bindS (lift_result (calculate_encrypted_content_expiry kind created_at (tn_retention_policy tenant))) (\<lambda>expires_at.
     persistence_guard
       (bindS (encrypt_plaintext cy content_id tenant_id kind encoding validated_plaintext created_at
                 expires_at CONTENT_AAD_VERSION) (\<lambda>encrypted.
        bindS (content_add encrypted) (\<lambda>_. returnS encrypted)))))))"

definition encrypt_and_persist_stream ::
    "cryptography \<Rightarrow> uuid \<Rightarrow> uuid \<Rightarrow> encrypted_content_kind \<Rightarrow> content_encoding \<Rightarrow> bytes \<Rightarrow> int \<Rightarrow> nat \<Rightarrow> datetime \<Rightarrow>
     ('d content_db_scheme, content_error, encrypted_content) session_comp" where
  "encrypt_and_persist_stream cy content_id tenant_id kind encoding stream plaintext_byte_length
     max_plaintext_bytes created_at =
     bindS (ensure (aware created_at) (Con_ValueError ''created_at must be timezone-aware'')) (\<lambda>_.
     bindS (ensure (0 \<le> plaintext_byte_length)
              (Con_ValueError ''plaintext_byte_length must be non-negative'')) (\<lambda>_.
     bindS (load_active_tenant tenant_id) (\<lambda>tenant.
     bindS (lift_result (calculate_encrypted_content_expiry kind created_at (tn_retention_policy tenant))) (\<lambda>expires_at.
     persistence_guard
       (bindS (encrypt_plaintext_stream cy content_id tenant_id kind encoding stream
                 plaintext_byte_length max_plaintext_bytes created_at expires_at CONTENT_AAD_VERSION) (\<lambda>encrypted.
        bindS (content_add encrypted) (\<lambda>_. returnS encrypted)))))))"

definition content_audit ::
    "audit_error + audit_event \<Rightarrow> ('d content_db_scheme, content_error, unit) session_comp" where
  "content_audit = append_required_audit_event Con_AuditError Con_AuditAppendRequiredError"

text \<open>The body of the unit of work of \<open>load_and_decrypt\<close>.\<close>

definition decrypt_in_session ::
    "cryptography \<Rightarrow> uuid \<Rightarrow> uuid \<Rightarrow> content_access_purpose \<Rightarrow> datetime \<Rightarrow> audit_origin \<Rightarrow> uuid \<Rightarrow>
     ('d content_db_scheme, content_error, decrypted_content) session_comp" where
  "decrypt_in_session cy tenant_id content_id purpose occurred_at origin audit_event_id =
     bindS (content_get_by_id tenant_id content_id) (\<lambda>found.
     case found of None \<Rightarrow> raise_unavailable
     | Some encrypted \<Rightarrow>
     bindS (lift_result (assert_access_purpose (ec_kind encrypted) purpose)) (\<lambda>_.
     bindS (tryS (lift_result (decrypt_content cy encrypted))
              (\<lambda>e. case e of ContentUnavailableError m \<Rightarrow> raise_unavailable | _ \<Rightarrow> raiseS e) returnS) (\<lambda>decrypted.
     bindS (content_audit (content_encrypted_accessed_event (ec_kind encrypted) purpose
              (ec_key_version encrypted) tenant_id content_id occurred_at origin audit_event_id)) (\<lambda>_.
     bindS commit (\<lambda>_.
     returnS decrypted)))))"

definition load_and_decrypt ::
    "cryptography \<Rightarrow> uuid \<Rightarrow> uuid \<Rightarrow> content_access_purpose \<Rightarrow> datetime \<Rightarrow> audit_origin \<Rightarrow> uuid \<Rightarrow>
     (('d content_db_scheme, 'w) world_scheme, content_error, decrypted_content) comp" where
  "load_and_decrypt cy tenant_id content_id purpose occurred_at origin audit_event_id =
     bindS (ensure (aware occurred_at) (Con_ValueError ''occurred_at must be timezone-aware'')) (\<lambda>_.
     transaction (decrypt_in_session cy tenant_id content_id purpose occurred_at origin audit_event_id))"

definition rewrap_content_key ::
    "cryptography \<Rightarrow> uuid \<Rightarrow> uuid \<Rightarrow> datetime \<Rightarrow> audit_origin \<Rightarrow> uuid \<Rightarrow>
     ('d content_db_scheme, content_error, encrypted_content) session_comp" where
  "rewrap_content_key cy tenant_id content_id occurred_at origin audit_event_id =
     bindS (ensure (aware occurred_at) (Con_ValueError ''occurred_at must be timezone-aware'')) (\<lambda>_.
     bindS (content_get_for_update tenant_id content_id) (\<lambda>found.
     case found of None \<Rightarrow> raise_unavailable
     | Some encrypted \<Rightarrow>
     bindS (tryS (bindS (rewrap_data_key cy encrypted) (\<lambda>wrapped.
                  bindS (replace_wrapped_key tenant_id content_id wrapped) (\<lambda>_. returnS wrapped)))
              (\<lambda>e. raiseS (ContentEncryptionUnavailableError ''encrypted content rewrap failed'')) returnS) (\<lambda>wrapped.
     bindS (lift_result (EncryptedContent_post_init
              (encrypted\<lparr>ec_wrapped_data_key := wk_wrapped_data_key wrapped,
                         ec_key_wrap_nonce := wk_key_wrap_nonce wrapped,
                         ec_key_version := wk_key_version wrapped\<rparr>))) (\<lambda>updated.
     bindS (content_audit (content_key_rewrapped_event (ec_kind encrypted) (ec_key_version encrypted)
              (ec_key_version updated) tenant_id content_id occurred_at origin audit_event_id)) (\<lambda>_.
     returnS updated)))))"

end
