(* ===== verification/Whatsapp_Client.thy ===== *)
theory Whatsapp_Client
  imports Content_Service
begin

text \<open>
  The client of the WhatsApp Cloud API (\<open>infrastructure/whatsapp_cloud_api_client.py\<close>): what it makes
  of the outcome of a request. The HTTP transport is outside; a request ends in a timeout, another
  transport error, or a response with its status, the length of its body and what the client observes
  of the body.
\<close>

datatype client_error = WhatsAppCloudApiClientError string | WhatsAppCloudApiResponseError string

text \<open>
  A body is text that is not JSON, JSON that is not an object, or an object: the string at
  \<open>messages[0].id\<close> and the string at \<open>display_phone_number\<close>, where there is one.
\<close>

record wa_document =
  wd_message_id :: "string option"
  wd_display_phone_number :: "string option"

datatype wa_body = WB_Invalid | WB_NotObject | WB_Object wa_document

datatype http_outcome = HTTP_Timeout | HTTP_TransportError | HTTP_Response int nat wa_body

definition MAX_RESPONSE_BYTES :: nat where "MAX_RESPONSE_BYTES = 256 * 1024"

definition client_request :: "http_outcome \<Rightarrow> client_error + wa_document" where
  "client_request outcome =
     (case outcome of
        HTTP_Timeout \<Rightarrow> Inl (WhatsAppCloudApiClientError ''provider timeout'')
      | HTTP_TransportError \<Rightarrow> Inl (WhatsAppCloudApiClientError ''provider transport error'')
      | HTTP_Response status len body \<Rightarrow>
          if status \<ge> 500 then Inl (WhatsAppCloudApiClientError ''provider unavailable'')
          else if status \<ge> 400
          then Inl (WhatsAppCloudApiResponseError (''http_'' @ int_str status))
          else if len > MAX_RESPONSE_BYTES
          then Inl (WhatsAppCloudApiResponseError ''response_too_large'')
          else (case body of
                  WB_Invalid \<Rightarrow> Inl (WhatsAppCloudApiResponseError ''invalid_json'')
                | WB_NotObject \<Rightarrow> Inl (WhatsAppCloudApiResponseError ''invalid_json'')
                | WB_Object document \<Rightarrow> Inr document))"

definition extract_message_id :: "wa_document \<Rightarrow> client_error + string" where
  "extract_message_id document =
     (case wd_message_id document of None \<Rightarrow> Inl (WhatsAppCloudApiResponseError ''missing_message_id'')
      | Some s \<Rightarrow>
          if strip s = [] then Inl (WhatsAppCloudApiResponseError ''missing_message_id'')
          else Inr (strip s))"

text \<open>\<open>send_text\<close> and \<open>send_template\<close> on the outcome of their request.\<close>

definition client_send :: "http_outcome \<Rightarrow> client_error + string" where
  "client_send outcome = bindE (client_request outcome) extract_message_id"

definition verify_phone_config :: "http_outcome \<Rightarrow> client_error + string option" where
  "verify_phone_config outcome = bindE (client_request outcome) (\<lambda>d. Inr (wd_display_phone_number d))"

text \<open>\<open>str.isdigit\<close> on code points below 256: the decimal digits and the superscripts.\<close>

definition str_isdigit :: "string \<Rightarrow> bool" where
  "str_isdigit s \<longleftrightarrow> s \<noteq> [] \<and> list_all (\<lambda>c. is_digit09 c \<or> (of_char c :: nat) \<in> {178, 179, 185}) s"

text \<open>The constructor of the client; the string is the message of its \<open>ValueError\<close>.\<close>

definition build_client :: "string \<Rightarrow> string \<Rightarrow> string + unit" where
  "build_client phone_number_id access_token =
     bindE (raise_if (\<not> str_isdigit (strip phone_number_id)) ''phone_number_id must be numeric'') (\<lambda>_.
     raise_if (strip access_token = []) ''access_token must not be empty'')"

end
