(* ===== verification/Whatsapp_Connection.thy ===== *)
theory Whatsapp_Connection
  imports Whatsapp_Client Messaging_Domain
begin

text \<open>
  WhatsApp Cloud connections: the domain object (\<open>domain/whatsapp_cloud_connection.py\<close>), its rows,
  mappers and repository (\<open>infrastructure/whatsapp_orm.py\<close>, \<open>whatsapp_mappers.py\<close>,
  \<open>whatsapp_repositories.py\<close>), the channel connections they refer to (\<open>domain/channel_connection.py\<close>)
  and the service that creates, updates, verifies and disables them
  (\<open>application/whatsapp_connection_service.py\<close>).
\<close>

section \<open>Domain\<close>

datatype provider_capability =
    CAP_INBOUND_TEXT | CAP_INTERACTIVE_REPLY | CAP_REACTION | CAP_MESSAGE_STATUS | CAP_MEDIA_REFERENCE
  | CAP_OUTBOUND_FREE_FORM_TEXT | CAP_OUTBOUND_APPROVED_TEMPLATE

fun capability_value :: "provider_capability \<Rightarrow> string" where
  "capability_value CAP_INBOUND_TEXT = ''inbound_text''"
| "capability_value CAP_INTERACTIVE_REPLY = ''interactive_reply''"
| "capability_value CAP_REACTION = ''reaction''"
| "capability_value CAP_MESSAGE_STATUS = ''message_status''"
| "capability_value CAP_MEDIA_REFERENCE = ''media_reference''"
| "capability_value CAP_OUTBOUND_FREE_FORM_TEXT = ''outbound_free_form_text''"
| "capability_value CAP_OUTBOUND_APPROVED_TEMPLATE = ''outbound_approved_template''"

definition WHATSAPP_CLOUD_CAPABILITIES :: "provider_capability list" where
  "WHATSAPP_CLOUD_CAPABILITIES =
     [CAP_INBOUND_TEXT, CAP_INTERACTIVE_REPLY, CAP_REACTION, CAP_MESSAGE_STATUS, CAP_MEDIA_REFERENCE,
      CAP_OUTBOUND_FREE_FORM_TEXT, CAP_OUTBOUND_APPROVED_TEMPLATE]"

datatype whatsapp_connection_status =
    WCS_DRAFT | WCS_VERIFICATION_PENDING | WCS_ACTIVE | WCS_DEGRADED | WCS_DISABLED

fun connection_status_value :: "whatsapp_connection_status \<Rightarrow> string" where
  "connection_status_value WCS_DRAFT = ''draft''"
| "connection_status_value WCS_VERIFICATION_PENDING = ''verification_pending''"
| "connection_status_value WCS_ACTIVE = ''active''"
| "connection_status_value WCS_DEGRADED = ''degraded''"
| "connection_status_value WCS_DISABLED = ''disabled''"

definition connection_statuses :: "whatsapp_connection_status list" where
  "connection_statuses =
     [WCS_DRAFT, WCS_VERIFICATION_PENDING, WCS_ACTIVE, WCS_DEGRADED, WCS_DISABLED]"

datatype webhook_subscription_status = WSS_NOT_CONFIGURED | WSS_PENDING | WSS_SUBSCRIBED | WSS_FAILED

fun subscription_status_value :: "webhook_subscription_status \<Rightarrow> string" where
  "subscription_status_value WSS_NOT_CONFIGURED = ''not_configured''"
| "subscription_status_value WSS_PENDING = ''pending''"
| "subscription_status_value WSS_SUBSCRIBED = ''subscribed''"
| "subscription_status_value WSS_FAILED = ''failed''"

definition subscription_statuses :: "webhook_subscription_status list" where
  "subscription_statuses = [WSS_NOT_CONFIGURED, WSS_PENDING, WSS_SUBSCRIBED, WSS_FAILED]"

definition ACTIVE_STATUSES :: "whatsapp_connection_status list" where
  "ACTIVE_STATUSES = [WCS_ACTIVE, WCS_DEGRADED, WCS_VERIFICATION_PENDING]"

definition connection_allows_ingestion :: "whatsapp_connection_status \<Rightarrow> bool" where
  "connection_allows_ingestion status \<longleftrightarrow> status \<in> set ACTIVE_STATUSES"

definition connection_allows_outbound :: "whatsapp_connection_status \<Rightarrow> bool" where
  "connection_allows_outbound status \<longleftrightarrow> status = WCS_ACTIVE"

definition connection_requires_credentials :: "whatsapp_connection_status \<Rightarrow> bool" where
  "connection_requires_credentials status \<longleftrightarrow>
     status \<in> {WCS_ACTIVE, WCS_DEGRADED, WCS_VERIFICATION_PENDING}"

datatype connection_error =
    Wac_ValueError string
  | WhatsAppCloudConnectionError string
  | WhatsAppConnectionServiceError string
  | WhatsAppConnectionNotFoundError string
  | WhatsAppConnectionVersionConflictError string
  | DuplicateWhatsAppConnectionError string
  | WhatsAppPersistenceError string
  | Wac_DriverError string
  | Wac_TenantMismatchError string
  | Wac_CanonicalError string
  | Wac_MessagingError messaging_error
  | Wac_AuditError audit_error
  | Wac_AuditAppendRequiredError string
  | Wac_ClientError client_error
  | Wac_ExternalError string

text \<open>
  A connection; its provider is always \<open>whatsapp_cloud\<close> and not a field. The record
  \<open>WhatsAppCloudConnectionRecord\<close> has the same fields without the checks.
\<close>

record whatsapp_connection =
  wc_id :: uuid
  wc_tenant_id :: uuid
  wc_channel_connection_id :: uuid
  wc_app_id :: string
  wc_waba_id :: string
  wc_phone_number_id :: string
  wc_display_phone_number :: "string option"
  wc_graph_api_version :: string
  wc_access_token_ref :: "string option"
  wc_app_secret_ref :: "string option"
  wc_verify_token_ref :: "string option"
  wc_status :: whatsapp_connection_status
  wc_webhook_subscription_status :: webhook_subscription_status
  wc_capabilities :: "provider_capability set"
  wc_webhook_public_key :: string
  wc_created_at :: datetime
  wc_updated_at :: datetime
  wc_last_verified_at :: "datetime option"
  wc_version :: int

definition validate_provider_id :: "string \<Rightarrow> string \<Rightarrow> connection_error + string" where
  "validate_provider_id value field_name =
     (let normalized = strip value in
      if normalized = [] then Inl (Wac_ValueError (field_name @ '' must not be empty''))
      else if length normalized > 64 then Inl (Wac_ValueError (field_name @ '' exceeds maximum length''))
      else if \<not> str_isdigit normalized
      then Inl (Wac_ValueError (field_name @ '' must contain only digits''))
      else Inr normalized)"

definition is_upper_az :: "char \<Rightarrow> bool" where
  "is_upper_az c \<longleftrightarrow> 65 \<le> (of_char c :: nat) \<and> of_char c \<le> (90 :: nat)"

text \<open>\<open>^[A-Z][A-Z0-9_]{0,63}$\<close>, \<open>^[a-z0-9]{32,64}$\<close> and \<open>^v\d+\.\d+$\<close>\<close>

definition matches_reference :: "string \<Rightarrow> bool" where
  "matches_reference s \<longleftrightarrow> s \<noteq> [] \<and> length s \<le> 64 \<and> is_upper_az (hd s) \<and>
     list_all (\<lambda>c. is_upper_az c \<or> is_digit09 c \<or> c = CHR ''_'') s"

definition matches_public_key :: "string \<Rightarrow> bool" where
  "matches_public_key s \<longleftrightarrow> 32 \<le> length s \<and> length s \<le> 64 \<and> list_all (\<lambda>c. is_lower_az c \<or> is_digit09 c) s"

definition matches_graph_version :: "string \<Rightarrow> bool" where
  "matches_graph_version s \<longleftrightarrow>
     s \<noteq> [] \<and> hd s = CHR ''v'' \<and> takeWhile is_digit09 (tl s) \<noteq> [] \<and>
     (case dropWhile is_digit09 (tl s) of [] \<Rightarrow> False
      | c # r \<Rightarrow> c = CHR ''.'' \<and> r \<noteq> [] \<and> list_all is_digit09 r)"

definition validate_reference :: "string option \<Rightarrow> string \<Rightarrow> connection_error + string option" where
  "validate_reference value field_name =
     (case value of None \<Rightarrow> Inr None
      | Some v \<Rightarrow>
          let normalized = strip v in
          if normalized = [] then Inl (Wac_ValueError (field_name @ '' must not be empty''))
          else if \<not> matches_reference normalized
          then Inl (Wac_ValueError (field_name @ '' format is invalid''))
          else Inr (Some normalized))"

definition validate_webhook_public_key :: "string \<Rightarrow> connection_error + string" where
  "validate_webhook_public_key value =
     (if matches_public_key (strip value) then Inr (strip value)
      else Inl (Wac_ValueError ''webhook_public_key format is invalid''))"

definition validate_graph_api_version :: "string \<Rightarrow> connection_error + string" where
  "validate_graph_api_version value =
     (if \<not> matches_graph_version (strip value)
      then Inl (Wac_ValueError ''graph_api_version format is invalid'')
      else if length (strip value) > 16
      then Inl (Wac_ValueError ''graph_api_version exceeds maximum length'')
      else Inr (strip value))"

definition validate_display_phone :: "string option \<Rightarrow> connection_error + string option" where
  "validate_display_phone value =
     (case value of None \<Rightarrow> Inr None
      | Some v \<Rightarrow>
          if strip v = [] then Inl (Wac_ValueError ''display_phone_number must not be empty'')
          else if length (strip v) > 32
          then Inl (Wac_ValueError ''display_phone_number exceeds maximum length'')
          else Inr (Some (strip v)))"

definition validate_capabilities :: "provider_capability set \<Rightarrow> connection_error + provider_capability set" where
  "validate_capabilities value =
     (if value = {} then Inl (Wac_ValueError ''capabilities must not be empty'')
      else if \<not> value \<subseteq> set WHATSAPP_CLOUD_CAPABILITIES
      then Inl (Wac_ValueError ''capabilities contain unsupported values'')
      else Inr value)"

definition WhatsAppCloudConnection_post_init ::
    "whatsapp_connection \<Rightarrow> connection_error + whatsapp_connection" where
  "WhatsAppCloudConnection_post_init c =
     bindE (validate_provider_id (wc_app_id c) ''app_id'') (\<lambda>app_id.
     bindE (validate_provider_id (wc_waba_id c) ''waba_id'') (\<lambda>waba_id.
     bindE (validate_provider_id (wc_phone_number_id c) ''phone_number_id'') (\<lambda>phone_number_id.
     bindE (validate_display_phone (wc_display_phone_number c)) (\<lambda>display.
     bindE (validate_graph_api_version (wc_graph_api_version c)) (\<lambda>graph_api_version.
     bindE (validate_reference (wc_access_token_ref c) ''access_token_ref'') (\<lambda>access_token_ref.
     bindE (validate_reference (wc_app_secret_ref c) ''app_secret_ref'') (\<lambda>app_secret_ref.
     bindE (validate_reference (wc_verify_token_ref c) ''verify_token_ref'') (\<lambda>verify_token_ref.
     bindE (validate_capabilities (wc_capabilities c)) (\<lambda>capabilities.
     bindE (validate_webhook_public_key (wc_webhook_public_key c)) (\<lambda>webhook_public_key.
     bindE (require_aware (Wac_ValueError ''created_at must be timezone-aware'') (wc_created_at c)) (\<lambda>_.
     bindE (require_aware (Wac_ValueError ''updated_at must be timezone-aware'') (wc_updated_at c)) (\<lambda>_.
     bindE (when_some (wc_last_verified_at c)
              (require_aware (Wac_ValueError ''last_verified_at must be timezone-aware''))) (\<lambda>_.
     bindE (raise_if (wc_updated_at c < wc_created_at c)
              (Wac_ValueError ''updated_at must not be earlier than created_at'')) (\<lambda>_.
     bindE (raise_if (wc_version c < 1) (Wac_ValueError ''version must be a positive integer'')) (\<lambda>_.
     bindE (raise_if (connection_requires_credentials (wc_status c) \<and>
                (access_token_ref = None \<or> app_secret_ref = None \<or> verify_token_ref = None))
              (WhatsAppCloudConnectionError ''active connections require all credential references'')) (\<lambda>_.
     Inr (c\<lparr>wc_app_id := app_id, wc_waba_id := waba_id, wc_phone_number_id := phone_number_id,
            wc_display_phone_number := display, wc_graph_api_version := graph_api_version,
            wc_access_token_ref := access_token_ref, wc_app_secret_ref := app_secret_ref,
            wc_verify_token_ref := verify_token_ref, wc_capabilities := capabilities,
            wc_webhook_public_key := webhook_public_key\<rparr>)))))))))))))))))"

section \<open>Channel connections\<close>

record channel_connection =
  cc_id :: uuid
  cc_tenant_id :: uuid
  cc_provider :: provider_kind
  cc_external_connection_id :: string
  cc_status :: channel_connection_status
  cc_adapter_metadata :: adapter_metadata
  cc_created_at :: datetime
  cc_updated_at :: datetime

definition ChannelConnection_post_init :: "channel_connection \<Rightarrow> messaging_error + channel_connection" where
  "ChannelConnection_post_init c =
     bindE (validate_external_id (cc_external_connection_id c) ''external_connection_id'') (\<lambda>ext.
     bindE (validate_msg_datetime (cc_created_at c) ''created_at'') (\<lambda>_.
     bindE (validate_msg_datetime (cc_updated_at c) ''updated_at'') (\<lambda>_.
     bindE (raise_if (cc_updated_at c < cc_created_at c)
              (Msg_ValueError ''updated_at must not be earlier than created_at'')) (\<lambda>_.
     Inr (c\<lparr>cc_external_connection_id := ext\<rparr>)))))"

section \<open>Rows and repositories\<close>

record whatsapp_connection_row =
  wcr_id :: uuid
  wcr_tenant_id :: uuid
  wcr_channel_connection_id :: uuid
  wcr_app_id :: string
  wcr_waba_id :: string
  wcr_phone_number_id :: string
  wcr_display_phone_number :: "string option"
  wcr_graph_api_version :: string
  wcr_access_token_ref :: "string option"
  wcr_app_secret_ref :: "string option"
  wcr_verify_token_ref :: "string option"
  wcr_status :: string
  wcr_webhook_subscription_status :: string
  wcr_capabilities :: "string list"
  wcr_webhook_public_key :: string
  wcr_created_at :: datetime
  wcr_updated_at :: datetime
  wcr_last_verified_at :: "datetime option"
  wcr_version :: int

record connection_db = content_db +
  cn_channels :: "channel_connection list"
  cn_connections :: "whatsapp_connection_row list"

type_synonym ('d, 'a) connection_comp = "('d connection_db_scheme, connection_error, 'a) session_comp"

definition capabilities_to_json :: "provider_capability set \<Rightarrow> string list" where
  "capabilities_to_json capabilities = sorted_list_of_set (capability_value ` capabilities)"

definition capabilities_from_json :: "string list \<Rightarrow> connection_error + provider_capability set" where
  "capabilities_from_json values =
     (if list_all (\<lambda>v. enum_of capability_value WHATSAPP_CLOUD_CAPABILITIES v \<noteq> None) values
      then Inr (set (map (\<lambda>v. the (enum_of capability_value WHATSAPP_CLOUD_CAPABILITIES v)) values))
      else Inl (Wac_ValueError ''not a valid enumeration value''))"

definition whatsapp_record_to_row :: "whatsapp_connection \<Rightarrow> whatsapp_connection_row" where
  "whatsapp_record_to_row c =
     \<lparr>wcr_id = wc_id c, wcr_tenant_id = wc_tenant_id c,
      wcr_channel_connection_id = wc_channel_connection_id c, wcr_app_id = wc_app_id c,
      wcr_waba_id = wc_waba_id c, wcr_phone_number_id = wc_phone_number_id c,
      wcr_display_phone_number = wc_display_phone_number c,
      wcr_graph_api_version = wc_graph_api_version c, wcr_access_token_ref = wc_access_token_ref c,
      wcr_app_secret_ref = wc_app_secret_ref c, wcr_verify_token_ref = wc_verify_token_ref c,
      wcr_status = connection_status_value (wc_status c),
      wcr_webhook_subscription_status = subscription_status_value (wc_webhook_subscription_status c),
      wcr_capabilities = capabilities_to_json (wc_capabilities c),
      wcr_webhook_public_key = wc_webhook_public_key c, wcr_created_at = wc_created_at c,
      wcr_updated_at = wc_updated_at c, wcr_last_verified_at = wc_last_verified_at c,
      wcr_version = wc_version c\<rparr>"

definition whatsapp_row_to_record :: "whatsapp_connection_row \<Rightarrow> connection_error + whatsapp_connection" where
  "whatsapp_row_to_record r =
     (case (enum_of connection_status_value connection_statuses (wcr_status r),
            enum_of subscription_status_value subscription_statuses (wcr_webhook_subscription_status r)) of
        (Some st, Some sub) \<Rightarrow>
          bindE (capabilities_from_json (wcr_capabilities r)) (\<lambda>caps.
          Inr \<lparr>wc_id = wcr_id r, wc_tenant_id = wcr_tenant_id r,
               wc_channel_connection_id = wcr_channel_connection_id r, wc_app_id = wcr_app_id r,
               wc_waba_id = wcr_waba_id r, wc_phone_number_id = wcr_phone_number_id r,
               wc_display_phone_number = wcr_display_phone_number r,
               wc_graph_api_version = wcr_graph_api_version r,
               wc_access_token_ref = wcr_access_token_ref r, wc_app_secret_ref = wcr_app_secret_ref r,
               wc_verify_token_ref = wcr_verify_token_ref r, wc_status = st,
               wc_webhook_subscription_status = sub, wc_capabilities = caps,
               wc_webhook_public_key = wcr_webhook_public_key r, wc_created_at = wcr_created_at r,
               wc_updated_at = wcr_updated_at r, wc_last_verified_at = wcr_last_verified_at r,
               wc_version = wcr_version r\<rparr>)
      | _ \<Rightarrow> Inl (Wac_ValueError ''not a valid enumeration value''))"

definition connection_columns_fit :: "whatsapp_connection_row \<Rightarrow> bool" where
  "connection_columns_fit r \<longleftrightarrow>
     length (wcr_app_id r) \<le> 64 \<and> length (wcr_waba_id r) \<le> 64 \<and> length (wcr_phone_number_id r) \<le> 64 \<and>
     pred_option (\<lambda>s. length s \<le> 32) (wcr_display_phone_number r) \<and>
     length (wcr_graph_api_version r) \<le> 16 \<and> pred_option (\<lambda>s. length s \<le> 64) (wcr_access_token_ref r) \<and>
     pred_option (\<lambda>s. length s \<le> 64) (wcr_app_secret_ref r) \<and>
     pred_option (\<lambda>s. length s \<le> 64) (wcr_verify_token_ref r) \<and> length (wcr_status r) \<le> 32 \<and>
     length (wcr_webhook_subscription_status r) \<le> 32 \<and> length (wcr_webhook_public_key r) \<le> 64 \<and>
     aware (wcr_created_at r) \<and> aware (wcr_updated_at r) \<and> pred_option aware (wcr_last_verified_at r) \<and>
     fits_int4 (wcr_version r)"

definition connection_row_checks :: "whatsapp_connection_row \<Rightarrow> bool" where
  "connection_row_checks r \<longleftrightarrow>
     wcr_status r \<in> set (map connection_status_value connection_statuses) \<and>
     wcr_webhook_subscription_status r \<in> set (map subscription_status_value subscription_statuses) \<and>
     1 \<le> wcr_version r"

definition connection_message :: string where
  "connection_message = ''whatsapp connection persistence integrity error''"

definition flush_connections ::
    "channel_connection list \<Rightarrow> whatsapp_connection_row list \<Rightarrow> connection_error + unit" where
  "flush_connections channels rows =
     (if \<not> list_all connection_columns_fit rows then Inl (Wac_DriverError ''value out of column range'')
      else if \<not> list_all connection_row_checks rows \<or> \<not> distinct (map wcr_id rows)
      then Inl (WhatsAppPersistenceError connection_message)
      else if \<not> distinct (map (\<lambda>r. (wcr_tenant_id r, wcr_phone_number_id r)) rows) \<or>
        \<not> distinct (map wcr_webhook_public_key rows)
      then Inl (DuplicateWhatsAppConnectionError connection_message)
      else raise_if (\<not> list_all (\<lambda>r. list_ex (\<lambda>c. cc_id c = wcr_channel_connection_id r \<and>
                cc_tenant_id c = wcr_tenant_id r) channels) rows)
             (WhatsAppPersistenceError connection_message))"

definition write_connections ::
    "('d connection_db_scheme \<Rightarrow> whatsapp_connection_row list) \<Rightarrow> ('d, unit) connection_comp" where
  "write_connections f =
     modify_db (\<lambda>db. bindE (flush_connections (cn_channels db) (f db)) (\<lambda>_.
       Inr (db\<lparr>cn_connections := f db\<rparr>)))"

definition connection_add :: "whatsapp_connection \<Rightarrow> ('d, unit) connection_comp" where
  "connection_add record = write_connections (\<lambda>db. cn_connections db @ [whatsapp_record_to_row record])"

definition row_to_connection ::
    "whatsapp_connection_row option \<Rightarrow> ('d, whatsapp_connection option) connection_comp" where
  "row_to_connection row =
     (case row of None \<Rightarrow> returnS None
      | Some r \<Rightarrow> bindS (lift_result (whatsapp_row_to_record r)) (\<lambda>rec. returnS (Some rec)))"

definition connection_get_by_id :: "uuid \<Rightarrow> uuid \<Rightarrow> ('d, whatsapp_connection option) connection_comp" where
  "connection_get_by_id tenant_id connection_id =
     bindS (tenant_scoped_get (Wac_TenantMismatchError ''tenant scope mismatch'') wcr_id wcr_tenant_id
              cn_connections tenant_id connection_id) row_to_connection"

definition find_connection_row ::
    "uuid \<Rightarrow> uuid \<Rightarrow> 'd connection_db_scheme \<Rightarrow> whatsapp_connection_row option" where
  "find_connection_row tenant_id connection_id db =
     find (\<lambda>r. wcr_tenant_id r = tenant_id \<and> wcr_id r = connection_id) (cn_connections db)"

definition connection_get_by_id_for_update :: "uuid \<Rightarrow> uuid \<Rightarrow> ('d, whatsapp_connection option) connection_comp" where
  "connection_get_by_id_for_update tenant_id connection_id =
     bindS (query (find_connection_row tenant_id connection_id)) row_to_connection"

definition get_by_webhook_public_key :: "string \<Rightarrow> ('d, whatsapp_connection option) connection_comp" where
  "get_by_webhook_public_key key =
     bindS (query (\<lambda>db. find (\<lambda>r. wcr_webhook_public_key r = key) (cn_connections db))) row_to_connection"

definition connection_list_by_tenant :: "uuid \<Rightarrow> ('d, whatsapp_connection list) connection_comp" where
  "connection_list_by_tenant tenant_id =
     bindS (query (\<lambda>db. sort_key (\<lambda>r. - instant (wcr_created_at r))
       (filter (\<lambda>r. wcr_tenant_id r = tenant_id) (cn_connections db))))
       (\<lambda>rows. lift_result (map_result whatsapp_row_to_record rows))"

text \<open>The columns that \<open>update\<close> assigns.\<close>

definition assign_connection :: "whatsapp_connection_row \<Rightarrow> whatsapp_connection \<Rightarrow> whatsapp_connection_row" where
  "assign_connection row c =
     (whatsapp_record_to_row c)\<lparr>wcr_id := wcr_id row, wcr_tenant_id := wcr_tenant_id row,
       wcr_channel_connection_id := wcr_channel_connection_id row, wcr_created_at := wcr_created_at row\<rparr>"

definition connection_update :: "whatsapp_connection \<Rightarrow> int \<Rightarrow> ('d, whatsapp_connection) connection_comp" where
  "connection_update record expected_version =
     bindS (query (find_connection_row (wc_tenant_id record) (wc_id record))) (\<lambda>found.
     case found of
       None \<Rightarrow> raiseS (WhatsAppConnectionNotFoundError ''whatsapp connection not found'')
     | Some row \<Rightarrow>
         bindS (ensure (wcr_version row = expected_version)
                  (WhatsAppConnectionVersionConflictError ''whatsapp connection version conflict'')) (\<lambda>_.
         bindS (write_connections (\<lambda>db. map (\<lambda>r. if wcr_id r = wcr_id row
                  then assign_connection r record else r) (cn_connections db))) (\<lambda>_.
         lift_result (whatsapp_row_to_record (assign_connection row record)))))"

definition channel_get_by_id :: "uuid \<Rightarrow> uuid \<Rightarrow> ('d, channel_connection option) connection_comp" where
  "channel_get_by_id tenant_id connection_id =
     tenant_scoped_get (Wac_TenantMismatchError ''tenant scope mismatch'') cc_id cc_tenant_id cn_channels
       tenant_id connection_id"

definition channel_add :: "channel_connection \<Rightarrow> ('d, unit) connection_comp" where
  "channel_add c =
     modify_db (\<lambda>db. let rows = cn_channels db @ [c] in
       if \<not> distinct (map cc_id rows) \<or>
          \<not> distinct (map (\<lambda>x. (cc_tenant_id x, cc_provider x, cc_external_connection_id x)) rows)
       then Inl (Wac_CanonicalError ''canonical persistence integrity error'')
       else Inr (db\<lparr>cn_channels := rows\<rparr>))"

section \<open>Audit events\<close>

definition connection_event ::
    "string \<Rightarrow> metadata_items \<Rightarrow> uuid \<Rightarrow> uuid \<Rightarrow> datetime \<Rightarrow> audit_origin \<Rightarrow> uuid \<Rightarrow> audit_error + audit_event" where
  "connection_event action metadata tenant_id connection_id occurred_at origin event_id =
     build_audit_event event_id AUD_TENANT (Some tenant_id) (ao_actor_type origin)
       (ao_actor_id origin) action ''whatsapp_cloud_connection'' (Some connection_id) occurred_at
       (ao_correlation_id origin)
       (Some (tenant_metadata ((''provider_code'', MV_Str ''whatsapp_cloud'') # metadata)))"

definition whatsapp_connection_created_event ::
    "uuid \<Rightarrow> uuid \<Rightarrow> datetime \<Rightarrow> audit_origin \<Rightarrow> uuid \<Rightarrow> audit_error + audit_event" where
  "whatsapp_connection_created_event =
     connection_event ''whatsapp.connection.created'' [(''status'', MV_Str ''draft'')]"

definition whatsapp_connection_verified_event ::
    "string \<Rightarrow> uuid \<Rightarrow> uuid \<Rightarrow> datetime \<Rightarrow> audit_origin \<Rightarrow> uuid \<Rightarrow> audit_error + audit_event" where
  "whatsapp_connection_verified_event outcome =
     connection_event ''whatsapp.connection.verified'' [(''outcome'', MV_Str outcome)]"

definition whatsapp_connection_disabled_event ::
    "uuid \<Rightarrow> uuid \<Rightarrow> datetime \<Rightarrow> audit_origin \<Rightarrow> uuid \<Rightarrow> audit_error + audit_event" where
  "whatsapp_connection_disabled_event =
     connection_event ''whatsapp.connection.disabled'' [(''status'', MV_Str ''disabled'')]"

definition connection_audit :: "audit_error + audit_event \<Rightarrow> ('d, unit) connection_comp" where
  "connection_audit = append_required_audit_event Wac_AuditError Wac_AuditAppendRequiredError"

section \<open>The service\<close>

text \<open>
  The environment: the random source for UUIDs and for \<open>secrets.token_hex(32)\<close>, the credential
  resolver with the decoding of its secret, and the transport of the verification request.
\<close>

record connection_env =
  ce_uuid4 :: "nat \<Rightarrow> uuid"
  ce_token_hex :: "nat \<Rightarrow> string"
  ce_resolve_access_token :: "uuid \<Rightarrow> uuid \<Rightarrow> string \<Rightarrow> string + string option"
  ce_verify_transport :: "string \<Rightarrow> http_outcome"

text \<open>The arguments that describe a connection.\<close>

record connection_input =
  in_app_id :: string
  in_waba_id :: string
  in_phone_number_id :: string
  in_display_phone_number :: "string option"
  in_graph_api_version :: string
  in_access_token_ref :: "string option"
  in_app_secret_ref :: "string option"
  in_verify_token_ref :: "string option"

definition DEFAULT_CAPABILITIES :: "provider_capability list" where
  "DEFAULT_CAPABILITIES =
     [CAP_INBOUND_TEXT, CAP_INTERACTIVE_REPLY, CAP_REACTION, CAP_MESSAGE_STATUS, CAP_MEDIA_REFERENCE,
      CAP_OUTBOUND_FREE_FORM_TEXT, CAP_OUTBOUND_APPROVED_TEMPLATE]"

definition revalidate_connection :: "whatsapp_connection \<Rightarrow> connection_error + whatsapp_connection" where
  "revalidate_connection c = WhatsAppCloudConnection_post_init c"

text \<open>\<open>replace\<close> runs the constructor, and \<open>_revalidate_connection\<close> runs it again.\<close>

definition replace_connection :: "whatsapp_connection \<Rightarrow> connection_error + whatsapp_connection" where
  "replace_connection c = bindE (WhatsAppCloudConnection_post_init c) revalidate_connection"

definition version_conflict_unavailable :: "('d, 'a) connection_comp \<Rightarrow> ('d, 'a) connection_comp" where
  "version_conflict_unavailable m =
     tryS m (\<lambda>e. case e of
         WhatsAppConnectionVersionConflictError x \<Rightarrow> raiseS (WhatsAppConnectionServiceError ''operation unavailable'')
       | _ \<Rightarrow> raiseS e) returnS"

definition create_in_session ::
    "connection_env \<Rightarrow> datetime \<Rightarrow> uuid \<Rightarrow> uuid \<Rightarrow> connection_input \<Rightarrow> audit_origin \<Rightarrow> ('d, whatsapp_connection) connection_comp" where
  "create_in_session env now tenant_id channel_connection_id inp origin =
     bindS (draw (ce_uuid4 env)) (\<lambda>connection_id.
     bindS (lift_result (mapE Wac_MessagingError
              (bindE (AdapterMetadata_from_mapping (Some [(''provider'', Some (AS_Str ''whatsapp_cloud''))])) (\<lambda>md.
               ChannelConnection_post_init
                 \<lparr>cc_id = channel_connection_id, cc_tenant_id = tenant_id, cc_provider = PK_WHATSAPP_CLOUD,
                  cc_external_connection_id = in_phone_number_id inp, cc_status = CCS_DRAFT,
                  cc_adapter_metadata = md, cc_created_at = now, cc_updated_at = now\<rparr>)))) (\<lambda>channel_connection.
     bindS (draw (ce_token_hex env)) (\<lambda>webhook_public_key.
     bindS (lift_result (WhatsAppCloudConnection_post_init
              \<lparr>wc_id = connection_id, wc_tenant_id = tenant_id,
               wc_channel_connection_id = channel_connection_id, wc_app_id = in_app_id inp,
               wc_waba_id = in_waba_id inp, wc_phone_number_id = in_phone_number_id inp,
               wc_display_phone_number = in_display_phone_number inp,
               wc_graph_api_version = in_graph_api_version inp,
               wc_access_token_ref = in_access_token_ref inp, wc_app_secret_ref = in_app_secret_ref inp,
               wc_verify_token_ref = in_verify_token_ref inp, wc_status = WCS_DRAFT,
               wc_webhook_subscription_status = WSS_NOT_CONFIGURED,
               wc_capabilities = set DEFAULT_CAPABILITIES, wc_webhook_public_key = webhook_public_key,
               wc_created_at = now, wc_updated_at = now, wc_last_verified_at = None, wc_version = 1\<rparr>)) (\<lambda>connection.
     bindS (channel_get_by_id tenant_id channel_connection_id) (\<lambda>existing_channel.
     bindS (case existing_channel of None \<Rightarrow> channel_add channel_connection
            | Some c \<Rightarrow> ensure (cc_provider c = PK_WHATSAPP_CLOUD)
                (WhatsAppConnectionServiceError ''channel connection unavailable'')) (\<lambda>_.
     bindS (connection_add connection) (\<lambda>_.
     bindS (draw (ce_uuid4 env)) (\<lambda>event_id.
     bindS (connection_audit (whatsapp_connection_created_event tenant_id (wc_id connection) now origin event_id)) (\<lambda>_.
     bindS commit (\<lambda>_.
     returnS connection))))))))))"

definition create_connection ::
    "connection_env \<Rightarrow> datetime \<Rightarrow> uuid \<Rightarrow> uuid \<Rightarrow> connection_input \<Rightarrow> audit_origin \<Rightarrow>
     (('d connection_db_scheme, 'w) world_scheme, connection_error, whatsapp_connection) comp" where
  "create_connection env now tenant_id channel_connection_id inp origin =
     transaction (create_in_session env now tenant_id channel_connection_id inp origin)"

text \<open>The read of the other three operations, and the guarded update that ends them.\<close>

definition current_connection :: "uuid \<Rightarrow> uuid \<Rightarrow> ('d, whatsapp_connection) connection_comp" where
  "current_connection tenant_id connection_id =
     bindS (connection_get_by_id_for_update tenant_id connection_id) (\<lambda>current.
     case current of None \<Rightarrow> raiseS (WhatsAppConnectionNotFoundError ''whatsapp connection not found'')
     | Some rec \<Rightarrow> lift_result (WhatsAppCloudConnection_post_init rec))"

definition store_connection :: "whatsapp_connection \<Rightarrow> int \<Rightarrow> ('d, whatsapp_connection) connection_comp" where
  "store_connection candidate expected_version =
     bindS (lift_result (replace_connection candidate)) (\<lambda>updated.
     version_conflict_unavailable (connection_update updated expected_version))"

definition update_connection ::
    "datetime \<Rightarrow> uuid \<Rightarrow> uuid \<Rightarrow> connection_input \<Rightarrow> int \<Rightarrow>
     (('d connection_db_scheme, 'w) world_scheme, connection_error, whatsapp_connection) comp" where
  "update_connection now tenant_id connection_id inp expected_version =
     transaction (
     bindS (current_connection tenant_id connection_id) (\<lambda>domain.
     bindS (store_connection
              (domain\<lparr>wc_app_id := in_app_id inp, wc_waba_id := in_waba_id inp,
                      wc_phone_number_id := in_phone_number_id inp,
                      wc_display_phone_number := in_display_phone_number inp,
                      wc_graph_api_version := in_graph_api_version inp,
                      wc_access_token_ref := in_access_token_ref inp,
                      wc_app_secret_ref := in_app_secret_ref inp,
                      wc_verify_token_ref := in_verify_token_ref inp, wc_updated_at := now,
                      wc_version := wc_version domain + 1\<rparr>) expected_version) (\<lambda>persisted.
     bindS commit (\<lambda>_.
     lift_result (WhatsAppCloudConnection_post_init persisted)))))"

definition resolve_access_token ::
    "connection_env \<Rightarrow> whatsapp_connection \<Rightarrow> connection_error + string option" where
  "resolve_access_token env c =
     (if \<not> connection_requires_credentials (wc_status c) then Inr None
      else case wc_access_token_ref c of None \<Rightarrow> Inr None
        | Some reference \<Rightarrow>
            mapE Wac_ExternalError (ce_resolve_access_token env (wc_tenant_id c) (wc_id c) reference))"

definition verify_connection ::
    "connection_env \<Rightarrow> datetime \<Rightarrow> uuid \<Rightarrow> uuid \<Rightarrow> int \<Rightarrow> audit_origin \<Rightarrow>
     (('d connection_db_scheme, 'w) world_scheme, connection_error, whatsapp_connection) comp" where
  "verify_connection env now tenant_id connection_id expected_version origin =
     transaction (
     bindS (current_connection tenant_id connection_id) (\<lambda>domain.
     bindS (ensure (wc_status domain \<noteq> WCS_DISABLED) (WhatsAppConnectionServiceError ''connection disabled'')) (\<lambda>_.
     bindS (lift_result (resolve_access_token env domain)) (\<lambda>access_token.
     case access_token of None \<Rightarrow> raiseS (WhatsAppConnectionServiceError ''credentials unavailable'')
     | Some token \<Rightarrow>
     bindS (lift_result (mapE Wac_ValueError (build_client (wc_phone_number_id domain) token))) (\<lambda>_.
     case verify_phone_config (ce_verify_transport env (wc_phone_number_id domain)) of
       Inl (WhatsAppCloudApiClientError m) \<Rightarrow>
         bindS (draw (ce_uuid4 env)) (\<lambda>event_id.
         bindS (connection_audit (whatsapp_connection_verified_event ''failed'' tenant_id connection_id now origin event_id)) (\<lambda>_.
         bindS commit (\<lambda>_.
         raiseS (WhatsAppConnectionServiceError ''verification failed''))))
     | Inl e \<Rightarrow> raiseS (Wac_ClientError e)
     | Inr display \<Rightarrow>
         bindS (store_connection
                  (domain\<lparr>wc_status := WCS_ACTIVE, wc_webhook_subscription_status := WSS_SUBSCRIBED,
                          wc_display_phone_number :=
                            (if display = None \<or> display = Some [] then wc_display_phone_number domain else display),
                          wc_last_verified_at := Some now, wc_updated_at := now,
                          wc_version := wc_version domain + 1\<rparr>) expected_version) (\<lambda>persisted.
         bindS (draw (ce_uuid4 env)) (\<lambda>event_id.
         bindS (connection_audit (whatsapp_connection_verified_event ''verified'' tenant_id connection_id now origin event_id)) (\<lambda>_.
         bindS commit (\<lambda>_.
         lift_result (WhatsAppCloudConnection_post_init persisted))))))))))"

definition disable_connection ::
    "connection_env \<Rightarrow> datetime \<Rightarrow> uuid \<Rightarrow> uuid \<Rightarrow> int \<Rightarrow> audit_origin \<Rightarrow>
     (('d connection_db_scheme, 'w) world_scheme, connection_error, whatsapp_connection) comp" where
  "disable_connection env now tenant_id connection_id expected_version origin =
     transaction (
     bindS (current_connection tenant_id connection_id) (\<lambda>domain.
     bindS (store_connection
              (domain\<lparr>wc_status := WCS_DISABLED, wc_webhook_subscription_status := WSS_FAILED,
                      wc_updated_at := now, wc_version := wc_version domain + 1\<rparr>) expected_version) (\<lambda>persisted.
     bindS (draw (ce_uuid4 env)) (\<lambda>event_id.
     bindS (connection_audit (whatsapp_connection_disabled_event tenant_id connection_id now origin event_id)) (\<lambda>_.
     bindS commit (\<lambda>_.
     lift_result (WhatsAppCloudConnection_post_init persisted)))))))"

definition list_connections ::
    "uuid \<Rightarrow> (('d connection_db_scheme, 'w) world_scheme, connection_error, whatsapp_connection list) comp" where
  "list_connections tenant_id =
     bindS (transaction (connection_list_by_tenant tenant_id)) (\<lambda>records.
     lift_result (map_result WhatsAppCloudConnection_post_init records))"

definition get_connection ::
    "uuid \<Rightarrow> uuid \<Rightarrow> (('d connection_db_scheme, 'w) world_scheme, connection_error, whatsapp_connection option) comp" where
  "get_connection tenant_id connection_id =
     bindS (transaction (connection_get_by_id tenant_id connection_id)) (\<lambda>record.
     case record of None \<Rightarrow> returnS None
     | Some r \<Rightarrow> bindS (lift_result (WhatsAppCloudConnection_post_init r)) (\<lambda>c. returnS (Some c)))"

text \<open>
  The answer to the provider's subscription request (\<open>whatsapp_webhook_verification_service.py\<close>);
  every refusal is \<open>None\<close>. The resolver with its decoding is a parameter.
\<close>

definition verify_subscription ::
    "(uuid \<Rightarrow> uuid \<Rightarrow> string \<Rightarrow> string option) \<Rightarrow> string \<Rightarrow> string option \<Rightarrow> string option \<Rightarrow> string option \<Rightarrow>
     ('d, string option) connection_comp" where
  "verify_subscription resolve_verify_token webhook_public_key hub_mode hub_verify_token hub_challenge =
     (case (hub_verify_token, hub_challenge) of
        (Some token, Some challenge) \<Rightarrow>
          if hub_mode \<noteq> Some ''subscribe'' \<or> token = [] \<or> challenge = [] then returnS None
          else
            bindS (get_by_webhook_public_key webhook_public_key) (\<lambda>found.
            case found of None \<Rightarrow> returnS None
            | Some rec \<Rightarrow>
                if wc_status rec \<notin> {WCS_ACTIVE, WCS_VERIFICATION_PENDING} then returnS None
                else (case wc_verify_token_ref rec of None \<Rightarrow> returnS None
                  | Some reference \<Rightarrow>
                      returnS (if resolve_verify_token (wc_tenant_id rec) (wc_id rec) reference = Some token
                               then Some challenge else None)))
      | _ \<Rightarrow> returnS None)"

end
