(* ===== verification/Identity_Enums.thy ===== *)
theory Identity_Enums
  imports Closeros_Prelude
begin

text \<open>
  The enumerations of \<open>domain/identity.py\<close>: roles, and the statuses of users and memberships.
\<close>

datatype role = ROLE_OWNER | ROLE_SALES_HEAD | ROLE_MANAGER | ROLE_ANALYST | ROLE_COMPLIANCE_ADMIN

fun role_value :: "role \<Rightarrow> string" where
  "role_value ROLE_OWNER = ''owner''"
| "role_value ROLE_SALES_HEAD = ''sales_head''"
| "role_value ROLE_MANAGER = ''manager''"
| "role_value ROLE_ANALYST = ''analyst''"
| "role_value ROLE_COMPLIANCE_ADMIN = ''compliance_admin''"

definition all_roles :: "role list" where
  "all_roles = [ROLE_OWNER, ROLE_SALES_HEAD, ROLE_MANAGER, ROLE_ANALYST, ROLE_COMPLIANCE_ADMIN]"

datatype user_status = US_ACTIVE | US_DISABLED

fun user_status_value :: "user_status \<Rightarrow> string" where
  "user_status_value US_ACTIVE = ''active''"
| "user_status_value US_DISABLED = ''disabled''"

definition user_statuses :: "user_status list" where
  "user_statuses = [US_ACTIVE, US_DISABLED]"

datatype membership_status = MS_ACTIVE | MS_SUSPENDED | MS_REMOVED

fun membership_status_value :: "membership_status \<Rightarrow> string" where
  "membership_status_value MS_ACTIVE = ''active''"
| "membership_status_value MS_SUSPENDED = ''suspended''"
| "membership_status_value MS_REMOVED = ''removed''"

definition membership_statuses :: "membership_status list" where
  "membership_statuses = [MS_ACTIVE, MS_SUSPENDED, MS_REMOVED]"

lemma identity_enum_values [enum_simps]:
  "enum_of role_value all_roles (role_value r) = Some r"
  "enum_of user_status_value user_statuses (user_status_value u) = Some u"
  "enum_of membership_status_value membership_statuses (membership_status_value m) = Some m"
  by (cases r; cases u; cases m;
      simp add: enum_of_def all_roles_def user_statuses_def membership_statuses_def)+

end
