(* ===== verification/Outbound_Service.thy ===== *)
theory Outbound_Service
  imports Whatsapp_Connection Outbox_Repository Identity_Enums
begin

text \<open>
  Human-approved outbound messaging: the persistence of outbound messages
  (\<open>infrastructure/outbound_orm.py\<close>, \<open>outbound_mappers.py\<close>, \<open>outbound_repositories.py\<close>), the
  service that drafts, approves and cancels them (\<open>application/outbound_message_service.py\<close>) and the
  outbox handler that sends them (\<open>application/provider_message_send_handler.py\<close>).

  The handler is two transactions with the call of the provider between them, and is given in these
  three parts. What is outside the repository (the HTTP transport, the secret store, random UUIDs,
  the JSON parser) is in the fields of \<open>outbound_env\<close>.
\<close>

section \<open>Rows of other components\<close>

text \<open>The columns that outbound messaging reads.\<close>

record conversation_thread =
  ct_id :: uuid
  ct_tenant_id :: uuid
  ct_external_conversation_id :: string
  ct_adapter_metadata :: adapter_metadata

record manager_assignment_row =
  as_id :: uuid
  as_tenant_id :: uuid
  as_manager_user_id :: uuid
  as_conversation_thread_id :: "uuid option"

record provider_template =
  pt_id :: uuid
  pt_tenant_id :: uuid
  pt_name :: string
  pt_language_code :: string

section \<open>Rows of outbound messages\<close>

text \<open>
  \<open>OutboundMessageRecord\<close> has the fields of the domain object, without its checks: both are values
  of \<open>outbound_message\<close>. The row has the enumerations as text.
\<close>

record outbound_message_row =
  omr_id :: uuid
  omr_tenant_id :: uuid
  omr_conversation_thread_id :: uuid
  omr_channel_connection_id :: uuid
  omr_kind :: string
  omr_status :: string
  omr_encrypted_content_id :: uuid
  omr_provider_template_id :: "uuid option"
  omr_created_by_user_id :: uuid
  omr_approved_by_user_id :: "uuid option"
  omr_provider_message_id :: "string option"
  omr_failure_code :: "string option"
  omr_created_at :: datetime
  omr_approved_at :: "datetime option"
  omr_queued_at :: "datetime option"
  omr_sent_at :: "datetime option"
  omr_completed_at :: "datetime option"
  omr_updated_at :: datetime
  omr_version :: int

record delivery_attempt =
  da_id :: uuid
  da_tenant_id :: uuid
  da_outbound_message_id :: uuid
  da_attempt_number :: int
  da_started_at :: datetime
  da_finished_at :: datetime
  da_outcome :: string
  da_error_code :: "string option"

datatype outbound_exc =
    OutboundMessageServiceError string
  | OutboundMessageAccessDeniedError string
  | OutboundMessageNotFoundError string
  | OutboundMessageVersionConflictError string
  | OutboundPersistenceError string
  | OutboundDriverError string
  | ProviderMessageSendHandlerError outbox_error_code bool
  | AuditAppendRequiredError string
  | MessagingExc messaging_error
  | AuditExc audit_error
  | ContentExc content_error
  | ConnectionExc connection_error
  | Out_TenantMismatchError string
  | OutboxExc outbox_error
  | OutboxStoreExc outbox_repo_error
  | ExternalExc string

definition outbound_record_to_domain :: "outbound_message \<Rightarrow> outbound_exc + outbound_message" where
  "outbound_record_to_domain record =
     (case OutboundMessage_post_init record of Inl e \<Rightarrow> Inl (MessagingExc e) | Inr m \<Rightarrow> Inr m)"

definition outbound_domain_to_record :: "outbound_message \<Rightarrow> outbound_message" where
  "outbound_domain_to_record message = message"

definition outbound_record_to_row :: "outbound_message \<Rightarrow> outbound_message_row" where
  "outbound_record_to_row r =
     \<lparr>omr_id = om_id r, omr_tenant_id = om_tenant_id r,
      omr_conversation_thread_id = om_conversation_thread_id r,
      omr_channel_connection_id = om_channel_connection_id r,
      omr_kind = outbound_kind_value (om_kind r), omr_status = outbound_status_value (om_status r),
      omr_encrypted_content_id = om_encrypted_content_id r,
      omr_provider_template_id = om_provider_template_id r,
      omr_created_by_user_id = om_created_by_user_id r,
      omr_approved_by_user_id = om_approved_by_user_id r,
      omr_provider_message_id = om_provider_message_id r, omr_failure_code = om_failure_code r,
      omr_created_at = om_created_at r, omr_approved_at = om_approved_at r,
      omr_queued_at = om_queued_at r, omr_sent_at = om_sent_at r,
      omr_completed_at = om_completed_at r, omr_updated_at = om_updated_at r,
      omr_version = om_version r\<rparr>"

definition outbound_row_to_record :: "outbound_message_row \<Rightarrow> outbound_exc + outbound_message" where
  "outbound_row_to_record r =
     (case (enum_of outbound_kind_value outbound_kinds (omr_kind r),
            enum_of outbound_status_value outbound_statuses (omr_status r)) of
        (Some k, Some s) \<Rightarrow>
          Inr \<lparr>om_id = omr_id r, om_tenant_id = omr_tenant_id r,
               om_conversation_thread_id = omr_conversation_thread_id r,
               om_channel_connection_id = omr_channel_connection_id r, om_kind = k, om_status = s,
               om_encrypted_content_id = omr_encrypted_content_id r,
               om_provider_template_id = omr_provider_template_id r,
               om_created_by_user_id = omr_created_by_user_id r,
               om_approved_by_user_id = omr_approved_by_user_id r,
               om_failure_code = omr_failure_code r, om_created_at = omr_created_at r,
               om_approved_at = omr_approved_at r, om_queued_at = omr_queued_at r,
               om_sent_at = omr_sent_at r, om_completed_at = omr_completed_at r,
               om_updated_at = omr_updated_at r, om_version = omr_version r,
               om_provider_message_id = omr_provider_message_id r\<rparr>
      | _ \<Rightarrow> Inl (MessagingExc (Msg_ValueError ''not a valid enumeration value'')))"

section \<open>Tables and sessions\<close>

record outbound_db = connection_db +
  ob_messages :: "outbound_message_row list"
  ob_attempts :: "delivery_attempt list"
  ob_canonical :: "message list"
  ob_status_events :: "message_delivery_status_event list"
  ob_jobs :: "outbox_job_row list"
  ob_threads :: "conversation_thread list"
  ob_assignments :: "manager_assignment_row list"
  ob_templates :: "provider_template list"

type_synonym 'a outbound_comp = "(outbound_db, outbound_exc, 'a) session_comp"

definition messaging :: "messaging_error + 'a \<Rightarrow> outbound_exc + 'a" where
  "messaging r = mapE MessagingExc r"

text \<open>
  The state outside: the stored tables, the number of random draws, and every request that was
  handed to the HTTP transport, with the outbound message it was for. Texts of messages are given by
  their UTF-8 bytes.
\<close>

datatype wa_request =
    SendText string bytes
  | SendTemplate string string string "bytes list"

record outbound_world = "outbound_db world" +
  ow_sent :: "(uuid \<times> wa_request) list"

section \<open>Repositories\<close>

definition outbound_columns_fit :: "outbound_message_row \<Rightarrow> bool" where
  "outbound_columns_fit r \<longleftrightarrow>
     length (omr_kind r) \<le> 32 \<and> length (omr_status r) \<le> 32 \<and>
     pred_option (\<lambda>s. length s \<le> 128) (omr_provider_message_id r) \<and>
     pred_option (\<lambda>s. length s \<le> 64) (omr_failure_code r) \<and>
     aware (omr_created_at r) \<and> aware (omr_updated_at r) \<and> pred_option aware (omr_approved_at r) \<and>
     pred_option aware (omr_queued_at r) \<and> pred_option aware (omr_sent_at r) \<and>
     pred_option aware (omr_completed_at r) \<and> fits_int4 (omr_version r)"

definition outbound_row_checks :: "outbound_message_row \<Rightarrow> bool" where
  "outbound_row_checks r \<longleftrightarrow>
     omr_kind r \<in> set (map outbound_kind_value outbound_kinds) \<and>
     omr_status r \<in> set (map outbound_status_value outbound_statuses) \<and> 1 \<le> omr_version r"

definition flush_outbound :: "outbound_message_row list \<Rightarrow> outbound_exc + unit" where
  "flush_outbound rows =
     (if \<not> list_all outbound_columns_fit rows
      then Inl (OutboundDriverError ''value out of column range'')
      else raise_if (\<not> list_all outbound_row_checks rows \<or> \<not> distinct (map omr_id rows))
        (OutboundPersistenceError ''outbound message persistence integrity error''))"

definition scoped_get ::
    "('r \<Rightarrow> uuid) \<Rightarrow> ('r \<Rightarrow> uuid) \<Rightarrow> (outbound_db \<Rightarrow> 'r list) \<Rightarrow> uuid \<Rightarrow> uuid \<Rightarrow> 'r option outbound_comp" where
  "scoped_get = tenant_scoped_get (Out_TenantMismatchError ''tenant scope mismatch'')"

text \<open>The foreign keys of a message: its thread, channel, content and template are of its tenant.\<close>

definition content_stored :: "outbound_db \<Rightarrow> uuid \<Rightarrow> uuid \<Rightarrow> bool" where
  "content_stored db tenant_id content_id \<longleftrightarrow>
     list_ex (\<lambda>c. ecr_id c = content_id \<and> ecr_tenant_id c = tenant_id) (cd_contents db)"

definition thread_stored :: "outbound_db \<Rightarrow> uuid \<Rightarrow> uuid \<Rightarrow> bool" where
  "thread_stored db tenant_id thread_id \<longleftrightarrow>
     list_ex (\<lambda>c. ct_id c = thread_id \<and> ct_tenant_id c = tenant_id) (ob_threads db)"

definition outbound_references_stored :: "outbound_db \<Rightarrow> outbound_message_row \<Rightarrow> bool" where
  "outbound_references_stored db r \<longleftrightarrow>
     thread_stored db (omr_tenant_id r) (omr_conversation_thread_id r) \<and>
     list_ex (\<lambda>c. cc_id c = omr_channel_connection_id r \<and> cc_tenant_id c = omr_tenant_id r) (cn_channels db) \<and>
     content_stored db (omr_tenant_id r) (omr_encrypted_content_id r) \<and>
     pred_option (\<lambda>i. list_ex (\<lambda>c. pt_id c = i \<and> pt_tenant_id c = omr_tenant_id r) (ob_templates db))
       (omr_provider_template_id r)"

definition outbound_integrity_error :: outbound_exc where
  "outbound_integrity_error = OutboundPersistenceError ''outbound message persistence integrity error''"

definition outbound_add :: "outbound_message \<Rightarrow> unit outbound_comp" where
  "outbound_add record =
     modify_db (\<lambda>db. let rows = ob_messages db @ [outbound_record_to_row record] in
       bindE (flush_outbound rows) (\<lambda>_.
       bindE (raise_if (\<not> outbound_references_stored db (outbound_record_to_row record))
                outbound_integrity_error) (\<lambda>_.
       Inr (db\<lparr>ob_messages := rows\<rparr>))))"

definition find_outbound :: "outbound_message_row list \<Rightarrow> uuid \<Rightarrow> uuid \<Rightarrow> outbound_message_row option" where
  "find_outbound rows tenant_id message_id =
     find (\<lambda>r. omr_tenant_id r = tenant_id \<and> omr_id r = message_id) rows"

definition outbound_get_for_update :: "uuid \<Rightarrow> uuid \<Rightarrow> outbound_message option outbound_comp" where
  "outbound_get_for_update tenant_id message_id =
     bindS (query (\<lambda>db. find_outbound (ob_messages db) tenant_id message_id)) (\<lambda>row.
     case row of None \<Rightarrow> returnS None
     | Some r \<Rightarrow> bindS (lift_result (outbound_row_to_record r)) (\<lambda>rec. returnS (Some rec)))"

definition outbound_get_by_id :: "uuid \<Rightarrow> uuid \<Rightarrow> outbound_message option outbound_comp" where
  "outbound_get_by_id tenant_id message_id =
     bindS (scoped_get omr_id omr_tenant_id ob_messages tenant_id message_id) (\<lambda>row.
     case row of None \<Rightarrow> returnS None
     | Some r \<Rightarrow> bindS (lift_result (outbound_row_to_record r)) (\<lambda>rec. returnS (Some rec)))"

text \<open>The columns that \<open>update\<close> assigns: all but the identity of the message and its author.\<close>

definition assign_outbound :: "outbound_message_row \<Rightarrow> outbound_message \<Rightarrow> outbound_message_row" where
  "assign_outbound row r =
     row\<lparr>omr_kind := outbound_kind_value (om_kind r),
         omr_status := outbound_status_value (om_status r),
         omr_encrypted_content_id := om_encrypted_content_id r,
         omr_provider_template_id := om_provider_template_id r,
         omr_approved_by_user_id := om_approved_by_user_id r,
         omr_provider_message_id := om_provider_message_id r,
         omr_failure_code := om_failure_code r, omr_approved_at := om_approved_at r,
         omr_queued_at := om_queued_at r, omr_sent_at := om_sent_at r,
         omr_completed_at := om_completed_at r, omr_updated_at := om_updated_at r,
         omr_version := om_version r\<rparr>"

definition update_rows ::
    "outbound_message_row list \<Rightarrow> outbound_message \<Rightarrow> int \<Rightarrow>
     outbound_exc + (outbound_message_row list \<times> outbound_message_row)" where
  "update_rows rows record expected_version =
     (case find_outbound rows (om_tenant_id record) (om_id record) of
        None \<Rightarrow> Inl (OutboundMessageNotFoundError ''outbound message not found'')
      | Some row \<Rightarrow>
          if omr_version row \<noteq> expected_version
          then Inl (OutboundMessageVersionConflictError ''outbound message version conflict'')
          else let row' = assign_outbound row record;
                   rows' = map (\<lambda>r. if omr_id r = omr_id row then row' else r) rows in
            bindE (flush_outbound rows') (\<lambda>_. Inr (rows', row')))"

definition outbound_update :: "outbound_message \<Rightarrow> int \<Rightarrow> outbound_message outbound_comp" where
  "outbound_update record expected_version =
     bindS (query (\<lambda>db. update_rows (ob_messages db) record expected_version)) (\<lambda>res.
     bindS (lift_result res) (\<lambda>(rows', row').
     bindS (modify_db (\<lambda>db. Inr (db\<lparr>ob_messages := rows'\<rparr>))) (\<lambda>_.
     lift_result (outbound_row_to_record row'))))"

text \<open>\<open>get_by_provider_message_id\<close>: no constraint makes the provider's identifier unique.\<close>

definition get_by_provider_message_id ::
    "uuid \<Rightarrow> uuid \<Rightarrow> string \<Rightarrow> outbound_message option outbound_comp" where
  "get_by_provider_message_id tenant_id channel_connection_id provider_message_id =
     bindS (query (\<lambda>db. filter (\<lambda>r. omr_tenant_id r = tenant_id \<and>
              omr_channel_connection_id r = channel_connection_id \<and>
              omr_provider_message_id r = Some provider_message_id) (ob_messages db))) (\<lambda>rows.
     case rows of [] \<Rightarrow> returnS None
     | [r] \<Rightarrow> bindS (lift_result (outbound_row_to_record r)) (\<lambda>rec. returnS (Some rec))
     | _ \<Rightarrow> raiseS (ExternalExc ''multiple rows were found''))"

definition list_delivery_unknown :: "uuid \<Rightarrow> nat \<Rightarrow> outbound_message list outbound_comp" where
  "list_delivery_unknown tenant_id limit =
     bindS (query (\<lambda>db. take limit (sort_key omr_updated_at
              (filter (\<lambda>r. omr_tenant_id r = tenant_id \<and>
                 omr_status r = outbound_status_value OMS_DELIVERY_UNKNOWN) (ob_messages db))))) (\<lambda>rows.
     lift_result (map_result outbound_row_to_record rows))"

definition list_stale_sending :: "uuid \<Rightarrow> datetime \<Rightarrow> nat \<Rightarrow> outbound_message list outbound_comp" where
  "list_stale_sending tenant_id stale_before limit =
     bindS (query (\<lambda>db. take limit (sort_key omr_updated_at
              (filter (\<lambda>r. omr_tenant_id r = tenant_id \<and>
                 omr_status r = outbound_status_value OMS_SENDING \<and>
                 omr_updated_at r < stale_before) (ob_messages db))))) (\<lambda>rows.
     lift_result (map_result outbound_row_to_record rows))"

definition attempt_add :: "delivery_attempt \<Rightarrow> unit outbound_comp" where
  "attempt_add record =
     modify_db (\<lambda>db. let rows = ob_attempts db @ [record] in
       if \<not> fits_int4 (da_attempt_number record) \<or> \<not> aware (da_started_at record) \<or>
          \<not> aware (da_finished_at record) \<or> length (da_outcome record) > 32 \<or>
          \<not> pred_option (\<lambda>s. length s \<le> 64) (da_error_code record)
       then Inl (OutboundDriverError ''value out of column range'')
       else if \<not> distinct (map da_id rows) \<or>
          \<not> distinct (map (\<lambda>a. (da_tenant_id a, da_outbound_message_id a, da_attempt_number a)) rows) \<or>
          da_attempt_number record < 1 \<or>
          da_outcome record \<notin> {''succeeded'', ''failed'', ''delivery_unknown''} \<or>
          da_finished_at record < da_started_at record
       then Inl (OutboundPersistenceError ''outbound message persistence integrity error'')
       else Inr (db\<lparr>ob_attempts := rows\<rparr>))"

definition list_for_message :: "uuid \<Rightarrow> uuid \<Rightarrow> delivery_attempt list outbound_comp" where
  "list_for_message tenant_id outbound_message_id =
     query (\<lambda>db. sort_key da_attempt_number
       (filter (\<lambda>a. da_tenant_id a = tenant_id \<and> da_outbound_message_id a = outbound_message_id)
         (ob_attempts db)))"

text \<open>
  Canonical messages and delivery status events are append-only; their unique constraints are the
  primary keys, a message's external identifier within its thread and an event's external
  identifier within its tenant; their foreign keys are those the handler's rows have.
\<close>

definition message_append :: "message \<Rightarrow> unit outbound_comp" where
  "message_append m =
     modify_db (\<lambda>db. let rows = ob_canonical db @ [m] in
       if \<not> distinct (map m_id rows) \<or>
          \<not> distinct (map (\<lambda>x. (m_tenant_id x, m_conversation_thread_id x, m_external_message_id x)) rows) \<or>
          \<not> thread_stored db (m_tenant_id m) (m_conversation_thread_id m) \<or>
          \<not> pred_option (content_stored db (m_tenant_id m)) (m_content_id m) \<or>
          \<not> pred_option (\<lambda>i. list_ex (\<lambda>x. m_id x = i \<and> m_tenant_id x = m_tenant_id m) (ob_canonical db))
             (m_reply_to_message_id m)
       then Inl (ExternalExc ''canonical persistence integrity error'')
       else Inr (db\<lparr>ob_canonical := rows\<rparr>))"

definition status_event_append :: "message_delivery_status_event \<Rightarrow> unit outbound_comp" where
  "status_event_append e =
     modify_db (\<lambda>db. let rows = ob_status_events db @ [e] in
       if \<not> distinct (map dse_id rows) \<or>
          \<not> distinct (map (\<lambda>x. (dse_tenant_id x, dse_external_event_id x)) rows) \<or>
          \<not> list_ex (\<lambda>x. m_id x = dse_message_id e \<and> m_tenant_id x = dse_tenant_id e) (ob_canonical db)
       then Inl (ExternalExc ''canonical persistence integrity error'')
       else Inr (db\<lparr>ob_status_events := rows\<rparr>))"

definition append_audit :: "audit_error + audit_event \<Rightarrow> unit outbound_comp" where
  "append_audit = append_required_audit_event AuditExc AuditAppendRequiredError"

section \<open>What is outside\<close>

text \<open>
  What \<open>_parse_template_parameters\<close> observes of a JSON text: the \<open>str\<close> of the items of the list
  \<open>parameters\<close>, another document, or text that does not parse.
\<close>

datatype json_view = JV_Parameters "bytes list" | JV_Other | JV_Invalid

text \<open>
  The environment: random UUIDs, content cryptography, what the database session does after a
  failed flush that was suppressed, the credential resolver with the decoding of its secret, the
  JSON parser and the HTTP transport.
\<close>

record outbound_env =
  env_uuid4 :: "nat \<Rightarrow> uuid"
  env_cryptography :: cryptography
  env_after_failed_flush :: "outbound_exc option"
  env_resolve_token :: "uuid \<Rightarrow> uuid \<Rightarrow> string \<Rightarrow> outbound_exc + string option"
  env_json :: "bytes \<Rightarrow> json_view"
  env_transport :: "wa_request \<Rightarrow> http_outcome"

section \<open>The service\<close>

definition SEND_ROLES :: "role list" where
  "SEND_ROLES = [ROLE_OWNER, ROLE_SALES_HEAD, ROLE_MANAGER]"

definition PRIVILEGED_SEND_ROLES :: "role list" where
  "PRIVILEGED_SEND_ROLES = [ROLE_OWNER, ROLE_SALES_HEAD]"

definition intersects :: "role list \<Rightarrow> role list \<Rightarrow> bool" where
  "intersects xs ys = list_ex (\<lambda>r. r \<in> set ys) xs"

definition operation_denied :: outbound_exc where
  "operation_denied = OutboundMessageAccessDeniedError ''operation denied''"

definition operation_unavailable :: outbound_exc where
  "operation_unavailable = OutboundMessageServiceError ''operation unavailable''"

definition outbound_send_deduplication_key :: "uuid \<Rightarrow> string" where
  "outbound_send_deduplication_key message_id = ''provider_message_send_'' @ uuid_str message_id"

definition assert_manager_scope :: "uuid \<Rightarrow> uuid \<Rightarrow> uuid \<Rightarrow> unit outbound_comp" where
  "assert_manager_scope tenant_id thread_id manager_user_id =
     bindS (query (\<lambda>db. filter (\<lambda>a. as_tenant_id a = tenant_id \<and>
              as_conversation_thread_id a = Some thread_id) (ob_assignments db))) (\<lambda>rows.
     case rows of [] \<Rightarrow> raiseS operation_denied
     | [a] \<Rightarrow> ensure (as_manager_user_id a = manager_user_id) operation_denied
     | _ \<Rightarrow> raiseS (ExternalExc ''multiple rows were found''))"

definition scoped_manager :: "role list \<Rightarrow> bool" where
  "scoped_manager roles \<longleftrightarrow> ROLE_MANAGER \<in> set roles \<and> \<not> intersects roles PRIVILEGED_SEND_ROLES"

text \<open>The arguments that the operations of the service share.\<close>

record caller =
  ca_tenant_id :: uuid
  ca_user_id :: uuid
  ca_roles :: "role list"
  ca_origin :: audit_origin

definition create_draft ::
    "outbound_env \<Rightarrow> datetime \<Rightarrow> caller \<Rightarrow> uuid \<Rightarrow> uuid \<Rightarrow> outbound_message_kind \<Rightarrow> bytes \<Rightarrow>
     content_encoding \<Rightarrow> uuid option \<Rightarrow> (outbound_world, outbound_exc, outbound_message) comp" where
  "create_draft env now ca thread_id channel_id kind plaintext encoding template_id =
     (if \<not> intersects (ca_roles ca) SEND_ROLES then raiseS operation_denied
      else if ROLE_ANALYST \<in> set (ca_roles ca) \<and> \<not> intersects (ca_roles ca) PRIVILEGED_SEND_ROLES
      then raiseS operation_denied
      else transaction (
        bindS (draw (env_uuid4 env)) (\<lambda>message_id.
        bindS (draw (env_uuid4 env)) (\<lambda>content_id.
        bindS (if scoped_manager (ca_roles ca)
               then assert_manager_scope (ca_tenant_id ca) thread_id (ca_user_id ca) else returnS ()) (\<lambda>_.
        bindS (scoped_get ct_id ct_tenant_id ob_threads (ca_tenant_id ca) thread_id) (\<lambda>thread.
        bindS (ensure (thread \<noteq> None) (OutboundMessageServiceError ''conversation unavailable'')) (\<lambda>_.
        bindS (wrap_error ContentExc (encrypt_and_persist (env_cryptography env) content_id
                 (ca_tenant_id ca) CK_OUTBOUND_MESSAGE encoding plaintext now)) (\<lambda>_.
        bindS (lift_result (messaging (OutboundMessage_post_init
                 \<lparr>om_id = message_id, om_tenant_id = ca_tenant_id ca,
                  om_conversation_thread_id = thread_id, om_channel_connection_id = channel_id,
                  om_kind = kind, om_status = OMS_DRAFT, om_encrypted_content_id = content_id,
                  om_provider_template_id = template_id, om_created_by_user_id = ca_user_id ca,
                  om_approved_by_user_id = None, om_failure_code = None, om_created_at = now,
                  om_approved_at = None, om_queued_at = None, om_sent_at = None,
                  om_completed_at = None, om_updated_at = now, om_version = 1,
                  om_provider_message_id = None\<rparr>))) (\<lambda>message.
        bindS (outbound_add (outbound_domain_to_record message)) (\<lambda>_.
        bindS (draw (env_uuid4 env)) (\<lambda>event_id.
        bindS (append_audit (outbound_draft_created_event (outbound_kind_value kind)
                 (ca_tenant_id ca) message_id now (ca_origin ca) event_id)) (\<lambda>_.
        bindS commit (\<lambda>_.
        returnS message)))))))))))))"

text \<open>The path of transitions that \<open>approve_and_queue\<close> validates for a current status.\<close>

definition approval_path :: "outbound_message_status \<Rightarrow> messaging_error + unit" where
  "approval_path current =
     (if current = OMS_DRAFT then
        bindE (validate_outbound_message_transition current OMS_PENDING_APPROVAL) (\<lambda>_.
        bindE (validate_outbound_message_transition OMS_PENDING_APPROVAL OMS_APPROVED) (\<lambda>_.
        validate_outbound_message_transition OMS_APPROVED OMS_QUEUED))
      else if current = OMS_PENDING_APPROVAL then
        bindE (validate_outbound_message_transition current OMS_APPROVED) (\<lambda>_.
        validate_outbound_message_transition OMS_APPROVED OMS_QUEUED)
      else if current = OMS_APPROVED then validate_outbound_message_transition current OMS_QUEUED
      else Inl (OutboundMessageTransitionError ''operation unavailable''))"

definition transition_unavailable :: "messaging_error + unit \<Rightarrow> outbound_exc + unit" where
  "transition_unavailable r =
     (case r of Inr u \<Rightarrow> Inr u
      | Inl (OutboundMessageTransitionError m) \<Rightarrow> Inl operation_unavailable
      | Inl e \<Rightarrow> Inl (MessagingExc e))"

definition conflict_unavailable :: "'a outbound_comp \<Rightarrow> 'a outbound_comp" where
  "conflict_unavailable m =
     tryS m (\<lambda>e. case e of OutboundMessageVersionConflictError s \<Rightarrow> raiseS operation_unavailable
                   | _ \<Rightarrow> raiseS e) returnS"

definition enqueue_send_job :: "outbound_env \<Rightarrow> uuid \<Rightarrow> uuid \<Rightarrow> datetime \<Rightarrow> unit outbound_comp" where
  "enqueue_send_job env tenant_id message_id now =
     bindS (draw (env_uuid4 env)) (\<lambda>outbox_job_id.
     case bindE (OutboxJobReference_post_init
                   \<lparr>ref_resource_type = ''outbound_message'', ref_resource_id = message_id,
                    ref_schema_version = 1, ref_tenant_id = Some tenant_id, ref_secondary_id = None\<rparr>)
            (\<lambda>reference.
          build_outbox_job outbox_job_id (Some tenant_id) JK_PROVIDER_MESSAGE_SEND reference
            (outbound_send_deduplication_key message_id) now None DEFAULT_PRIORITY
            DEFAULT_MAX_ATTEMPTS) of
       Inl e \<Rightarrow> raiseS (OutboxExc e)
     | Inr job \<Rightarrow>
         bindS (query (\<lambda>db. enqueue (ob_jobs db) job)) (\<lambda>res.
         case res of
           Inr jobs \<Rightarrow> modify_db (\<lambda>db. Inr (db\<lparr>ob_jobs := jobs\<rparr>))
         | Inl (DuplicateOutboxJobError m) \<Rightarrow>
             (case env_after_failed_flush env of None \<Rightarrow> returnS () | Some e \<Rightarrow> raiseS e)
         | Inl e \<Rightarrow> raiseS (OutboxStoreExc e)))"

definition approve_and_queue ::
    "outbound_env \<Rightarrow> datetime \<Rightarrow> caller \<Rightarrow> uuid \<Rightarrow> int \<Rightarrow> (outbound_world, outbound_exc, outbound_message) comp" where
  "approve_and_queue env now ca message_id expected_version =
     (if \<not> intersects (ca_roles ca) SEND_ROLES then raiseS operation_denied
      else transaction (
        bindS (outbound_get_for_update (ca_tenant_id ca) message_id) (\<lambda>current.
        case current of None \<Rightarrow> raiseS (OutboundMessageNotFoundError ''outbound message not found'')
        | Some rec \<Rightarrow>
        bindS (lift_result (outbound_record_to_domain rec)) (\<lambda>domain.
        bindS (if scoped_manager (ca_roles ca)
               then assert_manager_scope (ca_tenant_id ca) (om_conversation_thread_id domain) (ca_user_id ca)
               else returnS ()) (\<lambda>_.
        if om_status domain = OMS_QUEUED then returnS domain
        else
          bindS (lift_result (transition_unavailable (approval_path (om_status domain)))) (\<lambda>_.
          bindS (lift_result (messaging (OutboundMessage_post_init
                   (domain\<lparr>om_status := OMS_QUEUED, om_approved_by_user_id := Some (ca_user_id ca),
                           om_approved_at := Some now, om_queued_at := Some now,
                           om_updated_at := now, om_version := om_version domain + 1\<rparr>)))) (\<lambda>updated.
          bindS (lift_result (messaging (OutboundMessage_post_init updated))) (\<lambda>_.
          bindS (conflict_unavailable
                   (outbound_update (outbound_domain_to_record updated) expected_version)) (\<lambda>persisted.
          bindS (enqueue_send_job env (ca_tenant_id ca) message_id now) (\<lambda>_.
          bindS (draw (env_uuid4 env)) (\<lambda>approved_event_id.
          bindS (append_audit (outbound_message_approved_event (ca_tenant_id ca) message_id now
                   (ca_origin ca) approved_event_id)) (\<lambda>_.
          bindS (draw (env_uuid4 env)) (\<lambda>queued_event_id.
          bindS (append_audit (outbound_message_queued_event (ca_tenant_id ca) message_id now
                   (ca_origin ca) queued_event_id)) (\<lambda>_.
          bindS commit (\<lambda>_.
          lift_result (outbound_record_to_domain persisted))))))))))))))))"

definition cancel ::
    "datetime \<Rightarrow> caller \<Rightarrow> uuid \<Rightarrow> int \<Rightarrow> (outbound_world, outbound_exc, outbound_message) comp" where
  "cancel now ca message_id expected_version =
     (if \<not> intersects (ca_roles ca) SEND_ROLES then raiseS operation_denied
      else transaction (
        bindS (outbound_get_for_update (ca_tenant_id ca) message_id) (\<lambda>current.
        case current of None \<Rightarrow> raiseS (OutboundMessageNotFoundError ''outbound message not found'')
        | Some rec \<Rightarrow>
        bindS (lift_result (outbound_record_to_domain rec)) (\<lambda>domain.
        bindS (ensure (\<not> outbound_resend_prohibited (om_status domain)) operation_unavailable) (\<lambda>_.
        bindS (lift_result (transition_unavailable
                 (validate_outbound_message_transition (om_status domain) OMS_CANCELLED))) (\<lambda>_.
        bindS (lift_result (messaging (OutboundMessage_post_init
                 (domain\<lparr>om_status := OMS_CANCELLED, om_completed_at := Some now,
                         om_updated_at := now, om_version := om_version domain + 1\<rparr>)))) (\<lambda>updated.
        bindS (lift_result (messaging (OutboundMessage_post_init updated))) (\<lambda>_.
        bindS (conflict_unavailable
                 (outbound_update (outbound_domain_to_record updated) expected_version)) (\<lambda>persisted.
        bindS commit (\<lambda>_.
        lift_result (outbound_record_to_domain persisted)))))))))))"

definition get_message ::
    "caller \<Rightarrow> uuid option \<Rightarrow> uuid \<Rightarrow> (outbound_world, outbound_exc, outbound_message option) comp" where
  "get_message ca viewer_user_id message_id =
     (if ROLE_ANALYST \<in> set (ca_roles ca) \<and> ROLE_COMPLIANCE_ADMIN \<notin> set (ca_roles ca) \<and>
         \<not> intersects (ca_roles ca) PRIVILEGED_SEND_ROLES
      then raiseS operation_denied
      else transaction (
        bindS (outbound_get_by_id (ca_tenant_id ca) message_id) (\<lambda>found.
        case found of None \<Rightarrow> returnS None
        | Some rec \<Rightarrow>
        bindS (lift_result (outbound_record_to_domain rec)) (\<lambda>domain.
        bindS (if scoped_manager (ca_roles ca) then
                 (case viewer_user_id of None \<Rightarrow> raiseS operation_denied
                  | Some viewer \<Rightarrow>
                      assert_manager_scope (ca_tenant_id ca) (om_conversation_thread_id domain) viewer)
               else returnS ()) (\<lambda>_.
        returnS (Some domain))))))"

section \<open>The send handler\<close>

definition handler_failed :: "outbox_error_code \<Rightarrow> outbound_exc" where
  "handler_failed code = ProviderMessageSendHandlerError code True"

text \<open>\<open>job.processing_started_at or job.created_at\<close>\<close>

definition job_occurred_at :: "outbox_job \<Rightarrow> datetime" where
  "job_occurred_at job =
     (case oj_processing_started_at job of None \<Rightarrow> oj_created_at job | Some d \<Rightarrow> d)"

definition last_customer_inbound_at :: "uuid \<Rightarrow> uuid \<Rightarrow> outbound_db \<Rightarrow> datetime option" where
  "last_customer_inbound_at tenant_id thread_id db =
     (case map m_received_at (filter (\<lambda>m. m_tenant_id m = tenant_id \<and>
             m_conversation_thread_id m = thread_id \<and> m_direction m = MD_INBOUND \<and>
             m_sender_type m = ST_CUSTOMER) (ob_canonical db)) of
        [] \<Rightarrow> None | ts \<Rightarrow> Some (Max (set ts)))"

text \<open>The first connection of the tenant, newest first, for a channel.\<close>

definition connection_for_channel :: "uuid \<Rightarrow> uuid \<Rightarrow> whatsapp_connection option outbound_comp" where
  "connection_for_channel tenant_id channel_id =
     bindS (wrap_error ConnectionExc (connection_list_by_tenant tenant_id)) (\<lambda>records.
     case find (\<lambda>c. wc_channel_connection_id c = channel_id) records of
       None \<Rightarrow> returnS None
     | Some rec \<Rightarrow>
         bindS (lift_result (mapE ConnectionExc (WhatsAppCloudConnection_post_init rec))) (\<lambda>c. returnS (Some c)))"

text \<open>A send in progress: the job, its message before the send, the connection and the thread.\<close>

record send_context =
  sx_job :: outbox_job
  sx_tenant_id :: uuid
  sx_message :: outbound_message
  sx_connection :: whatsapp_connection
  sx_thread :: conversation_thread

definition send_begin ::
    "whatsapp_messaging_policy \<Rightarrow> outbox_job \<Rightarrow> (outbound_world, outbound_exc, send_context option) comp" where
  "send_begin policy job =
     (case oj_tenant_id job of None \<Rightarrow> raiseS (handler_failed EC_MALFORMED_PROVIDER_EVENT)
      | Some tenant_id \<Rightarrow>
      let message_id = ref_resource_id (oj_reference job); occurred_at = job_occurred_at job in
      transaction (
        bindS (outbound_get_for_update tenant_id message_id) (\<lambda>found.
        case found of None \<Rightarrow> raiseS (handler_failed EC_RESOURCE_UNAVAILABLE)
        | Some rec \<Rightarrow>
        bindS (lift_result (outbound_record_to_domain rec)) (\<lambda>message.
        if outbound_resend_prohibited (om_status message) then returnS None
        else
          bindS (ensure (outbound_send_may_proceed (om_status message)) (handler_failed EC_HANDLER_FAILED)) (\<lambda>_.
          bindS (ensure (om_approved_by_user_id message \<noteq> None) (handler_failed EC_HANDLER_FAILED)) (\<lambda>_.
          bindS (connection_for_channel tenant_id (om_channel_connection_id message)) (\<lambda>connection.
          case connection of None \<Rightarrow> raiseS (handler_failed EC_RESOURCE_UNAVAILABLE)
          | Some conn \<Rightarrow>
          bindS (ensure (connection_allows_outbound (wc_status conn)) (handler_failed EC_RESOURCE_UNAVAILABLE)) (\<lambda>_.
          bindS (scoped_get ct_id ct_tenant_id ob_threads tenant_id
                   (om_conversation_thread_id message)) (\<lambda>thread.
          case thread of None \<Rightarrow> raiseS (handler_failed EC_RESOURCE_UNAVAILABLE)
          | Some th \<Rightarrow>
          bindS (query (last_customer_inbound_at tenant_id (om_conversation_thread_id message))) (\<lambda>last_inbound.
          bindS (ensure (is_ok (require_allowed policy (om_kind message) last_inbound occurred_at))
                   (handler_failed EC_UNSUPPORTED_OPERATION)) (\<lambda>_.
          bindS (lift_result (messaging (OutboundMessage_post_init
                   (message\<lparr>om_status := OMS_SENDING, om_sent_at := Some occurred_at,
                            om_updated_at := occurred_at, om_version := om_version message + 1\<rparr>)))) (\<lambda>sending.
          bindS (lift_result (messaging
                   (validate_outbound_message_transition (om_status message) (om_status sending)))) (\<lambda>_.
          bindS (outbound_update (outbound_domain_to_record sending) (om_version rec)) (\<lambda>_.
          bindS commit (\<lambda>_.
          returnS (Some \<lparr>sx_job = job, sx_tenant_id = tenant_id, sx_message = message,
                         sx_connection = conn, sx_thread = th\<rparr>))))))))))))))))"

definition parse_template_parameters :: "outbound_env \<Rightarrow> decrypted_content \<Rightarrow> outbound_exc + bytes list" where
  "parse_template_parameters env decrypted =
     (case dc_encoding decrypted of
        ENC_JSON \<Rightarrow>
          bindE (mapE ContentExc (as_json_text decrypted)) (\<lambda>text.
          case env_json env text of
            JV_Parameters ps \<Rightarrow> Inr ps | JV_Other \<Rightarrow> Inr []
          | JV_Invalid \<Rightarrow> Inl (ExternalExc ''JSONDecodeError''))
      | ENC_UTF8 \<Rightarrow> bindE (mapE ContentExc (as_utf8_text decrypted)) (\<lambda>text. Inr [text])
      | ENC_BINARY \<Rightarrow> Inr [])"

text \<open>The result of the provider call: a provider message id, or an error code.\<close>

datatype send_outcome = SendAccepted string | SendError string

definition client_outcome :: "client_error + string \<Rightarrow> send_outcome" where
  "client_outcome r =
     (case r of Inr message_id \<Rightarrow> SendAccepted message_id
      | Inl (WhatsAppCloudApiClientError m) \<Rightarrow> SendError ''delivery_unknown''
      | Inl (WhatsAppCloudApiResponseError code) \<Rightarrow> SendError code)"

definition post_message ::
    "outbound_env \<Rightarrow> uuid \<Rightarrow> wa_request \<Rightarrow> (outbound_world, outbound_exc, send_outcome) comp" where
  "post_message env message_id request =
     (\<lambda>w. (Inr (client_outcome (client_send (env_transport env request))),
           w\<lparr>ow_sent := ow_sent w @ [(message_id, request)]\<rparr>))"

text \<open>\<open>AuditContext(correlation_id=job.id)\<close> with the service as actor.\<close>

definition service_origin :: "uuid \<Rightarrow> outbox_job \<Rightarrow> audit_origin" where
  "service_origin service_actor_id job =
     \<lparr>ao_actor_type = AT_SERVICE, ao_actor_id = Some service_actor_id, ao_correlation_id = oj_id job\<rparr>"

text \<open>The unit of work around the decryption: it looks for the content and draws the event's UUID.\<close>

definition content_for_send :: "outbound_env \<Rightarrow> uuid \<Rightarrow> uuid \<Rightarrow> uuid option outbound_comp" where
  "content_for_send env tenant_id content_id =
     bindS (wrap_error ContentExc (content_get_by_id tenant_id content_id)) (\<lambda>encrypted.
     if encrypted = None then returnS None
     else bindS (draw (env_uuid4 env)) (\<lambda>audit_event_id. returnS (Some audit_event_id)))"

definition message_text :: "decrypted_content \<Rightarrow> outbound_exc + bytes" where
  "message_text decrypted =
     mapE ContentExc (if dc_encoding decrypted = ENC_UTF8 then as_utf8_text decrypted else as_json_text decrypted)"

definition send_content ::
    "outbound_env \<Rightarrow> send_context \<Rightarrow> decrypted_content \<Rightarrow> (outbound_world, outbound_exc, send_outcome) comp" where
  "send_content env sx decrypted =
     (let message = sx_message sx; recipient = ct_external_conversation_id (sx_thread sx) in
      if om_kind message = OMK_FREE_FORM_TEXT then
        bindS (lift_result (message_text decrypted)) (\<lambda>body.
        post_message env (om_id message) (SendText recipient body))
      else
        bindS (case om_provider_template_id message of None \<Rightarrow> returnS None
               | Some template_id \<Rightarrow>
                   transaction (scoped_get pt_id pt_tenant_id ob_templates (sx_tenant_id sx) template_id))
          (\<lambda>template_record.
        case template_record of None \<Rightarrow> returnS (SendError ''template_unavailable'')
        | Some template \<Rightarrow>
            bindS (lift_result (parse_template_parameters env decrypted)) (\<lambda>parameters.
            post_message env (om_id message)
              (SendTemplate recipient (pt_name template) (pt_language_code template) parameters))))"

definition call_provider ::
    "outbound_env \<Rightarrow> uuid \<Rightarrow> send_context \<Rightarrow> (outbound_world, outbound_exc, send_outcome) comp" where
  "call_provider env service_actor_id sx =
     (let message = sx_message sx in
      case wc_access_token_ref (sx_connection sx) of
        None \<Rightarrow> returnS (SendError ''credentials_missing'')
      | Some ref \<Rightarrow>
      bindS (lift_result (env_resolve_token env (sx_tenant_id sx) (wc_id (sx_connection sx)) ref)) (\<lambda>secret.
      case secret of None \<Rightarrow> returnS (SendError ''credentials_missing'')
      | Some token \<Rightarrow>
      bindS (transaction (content_for_send env (sx_tenant_id sx) (om_encrypted_content_id message))) (\<lambda>encrypted.
      case encrypted of None \<Rightarrow> returnS (SendError ''content_unavailable'')
      | Some audit_event_id \<Rightarrow>
      bindS (wrap_error ContentExc (load_and_decrypt (env_cryptography env) (sx_tenant_id sx)
               (om_encrypted_content_id message) CP_OUTBOUND_SEND (job_occurred_at (sx_job sx))
               (service_origin service_actor_id (sx_job sx)) audit_event_id)) (\<lambda>decrypted.
      bindS (lift_result (mapE ExternalExc (build_client (wc_phone_number_id (sx_connection sx)) token))) (\<lambda>_.
      send_content env sx decrypted)))))"

definition persist_attempt ::
    "outbound_env \<Rightarrow> uuid \<Rightarrow> uuid \<Rightarrow> int \<Rightarrow> datetime \<Rightarrow> string \<Rightarrow> string option \<Rightarrow> unit outbound_comp" where
  "persist_attempt env tenant_id message_id attempt_number at outcome error_code =
     bindS (draw (env_uuid4 env)) (\<lambda>i.
     attempt_add \<lparr>da_id = i, da_tenant_id = tenant_id, da_outbound_message_id = message_id,
       da_attempt_number = attempt_number, da_started_at = at, da_finished_at = at,
       da_outcome = outcome, da_error_code = error_code\<rparr>)"

text \<open>The part of the second transaction that the three outcomes share: attempt, update, audit.\<close>

definition settle_as ::
    "outbound_env \<Rightarrow> send_context \<Rightarrow> outbound_message \<Rightarrow> outbound_message \<Rightarrow> outbound_message \<Rightarrow> string \<Rightarrow>
     string option \<Rightarrow> (uuid \<Rightarrow> audit_error + audit_event) \<Rightarrow> unit outbound_comp" where
  "settle_as env sx current domain candidate outcome error_code event =
     bindS (lift_result (messaging (OutboundMessage_post_init candidate))) (\<lambda>updated.
     bindS (lift_result (messaging
              (validate_outbound_message_transition (om_status domain) (om_status updated)))) (\<lambda>_.
     bindS (persist_attempt env (sx_tenant_id sx) (om_id (sx_message sx)) (om_version current)
              (job_occurred_at (sx_job sx)) outcome error_code) (\<lambda>_.
     bindS (outbound_update (outbound_domain_to_record updated) (om_version current)) (\<lambda>_.
     bindS (draw (env_uuid4 env)) (\<lambda>event_id.
     bindS (append_audit (event event_id)) (\<lambda>_.
     commit))))))"

definition send_settle ::
    "outbound_env \<Rightarrow> uuid \<Rightarrow> send_context \<Rightarrow> send_outcome \<Rightarrow> (outbound_world, outbound_exc, unit) comp" where
  "send_settle env service_actor_id sx outcome =
     (let tenant_id = sx_tenant_id sx; message_id = om_id (sx_message sx);
          occurred_at = job_occurred_at (sx_job sx);
          origin = service_origin service_actor_id (sx_job sx) in
      transaction (
        bindS (outbound_get_for_update tenant_id message_id) (\<lambda>found.
        case found of
          None \<Rightarrow> raiseS (ProviderMessageSendHandlerError EC_RESOURCE_UNAVAILABLE False)
        | Some current \<Rightarrow>
        bindS (lift_result (outbound_record_to_domain current)) (\<lambda>domain.
        case outcome of
          SendError code \<Rightarrow>
            if code = ''delivery_unknown'' then
              bindS (settle_as env sx current domain
                       (domain\<lparr>om_status := OMS_DELIVERY_UNKNOWN, om_updated_at := occurred_at,
                               om_version := om_version domain + 1\<rparr>)
                       ''delivery_unknown'' (Some ''provider_timeout'')
                       (outbound_delivery_unknown_event tenant_id message_id occurred_at origin)) (\<lambda>_.
              raiseS (handler_failed EC_HANDLER_FAILED))
            else
              let failure = (if code = [] then ''provider_failed'' else code) in
              bindS (settle_as env sx current domain
                       (domain\<lparr>om_status := OMS_FAILED, om_failure_code := Some failure,
                               om_completed_at := Some occurred_at, om_updated_at := occurred_at,
                               om_version := om_version domain + 1\<rparr>)
                       ''failed'' (Some (strip failure))
                       (outbound_delivery_failed_event (strip failure) tenant_id message_id occurred_at origin)) (\<lambda>_.
              raiseS (handler_failed EC_HANDLER_FAILED))
        | SendAccepted provider_message_id \<Rightarrow>
            bindS (draw (env_uuid4 env)) (\<lambda>canonical_message_id.
            bindS (lift_result (messaging (Message_post_init
                     \<lparr>m_id = canonical_message_id, m_tenant_id = tenant_id,
                      m_conversation_thread_id = om_conversation_thread_id (sx_message sx),
                      m_external_message_id = provider_message_id, m_sender_type = ST_MANAGER,
                      m_direction = MD_OUTBOUND, m_sent_at = occurred_at,
                      m_received_at = occurred_at,
                      m_content_id = Some (om_encrypted_content_id (sx_message sx)),
                      m_reply_to_message_id = None,
                      m_adapter_metadata = ct_adapter_metadata (sx_thread sx)\<rparr>))) (\<lambda>canonical.
            bindS (message_append canonical) (\<lambda>_.
            bindS (draw (env_uuid4 env)) (\<lambda>status_event_id.
            bindS (lift_result (messaging (MessageDeliveryStatusEvent_post_init
                     \<lparr>dse_id = status_event_id, dse_tenant_id = tenant_id,
                      dse_message_id = canonical_message_id,
                      dse_external_event_id = provider_message_id, dse_occurred_at = occurred_at,
                      dse_delivery_status = DS_SENT,
                      dse_adapter_metadata = ct_adapter_metadata (sx_thread sx)\<rparr>))) (\<lambda>status_event.
            bindS (status_event_append status_event) (\<lambda>_.
            settle_as env sx current domain
              (domain\<lparr>om_status := OMS_PROVIDER_ACCEPTED,
                      om_provider_message_id := Some provider_message_id,
                      om_completed_at := Some occurred_at, om_updated_at := occurred_at,
                      om_version := om_version domain + 1\<rparr>)
              ''succeeded'' None
              (outbound_provider_accepted_event tenant_id message_id occurred_at origin)))))))))))"

text \<open>The handler: the three parts in sequence.\<close>

definition send_handle ::
    "outbound_env \<Rightarrow> whatsapp_messaging_policy \<Rightarrow> uuid \<Rightarrow> outbox_job \<Rightarrow> (outbound_world, outbound_exc, unit) comp" where
  "send_handle env policy service_actor_id job =
     bindS (send_begin policy job) (\<lambda>started.
     case started of None \<Rightarrow> returnS ()
     | Some sx \<Rightarrow>
         bindS (call_provider env service_actor_id sx) (\<lambda>outcome. send_settle env service_actor_id sx outcome))"

section \<open>Reconciliation\<close>

text \<open>\<open>application/whatsapp_reconciliation_service.py\<close>.\<close>

definition SENDING_STALE_AFTER :: int where "SENDING_STALE_AFTER = timedelta_minutes 10"

definition RECONCILIATION_BATCH_LIMIT :: nat where "RECONCILIATION_BATCH_LIMIT = 100"

record reconciliation_counts =
  wr_delivery_unknown_count :: nat
  wr_stale_sending_count :: nat
  wr_affected_count :: nat

definition whatsapp_reconciliation_completed_event ::
    "nat \<Rightarrow> uuid \<Rightarrow> datetime \<Rightarrow> audit_origin \<Rightarrow> uuid \<Rightarrow> audit_error + audit_event" where
  "whatsapp_reconciliation_completed_event affected_count tenant_id occurred_at origin event_id =
     build_audit_event event_id AUD_TENANT (Some tenant_id) (ao_actor_type origin)
       (ao_actor_id origin) ''whatsapp.reconciliation.completed'' ''whatsapp_cloud_connection'' None
       occurred_at (ao_correlation_id origin)
       (Some (tenant_metadata [(''provider_code'', MV_Str ''whatsapp_cloud''),
                               (''affected_count'', MV_Int (int affected_count))]))"

definition reconciliation_lists ::
    "uuid \<Rightarrow> datetime \<Rightarrow> (outbound_message list \<times> outbound_message list) outbound_comp" where
  "reconciliation_lists tenant_id now =
     bindS (list_delivery_unknown tenant_id RECONCILIATION_BATCH_LIMIT) (\<lambda>delivery_unknown.
     bindS (list_stale_sending tenant_id (dt_plus now (- SENDING_STALE_AFTER)) RECONCILIATION_BATCH_LIMIT)
       (\<lambda>stale_sending. returnS (delivery_unknown, stale_sending)))"

definition reconciliation_counts_of ::
    "outbound_message list \<times> outbound_message list \<Rightarrow> reconciliation_counts" where
  "reconciliation_counts_of found =
     \<lparr>wr_delivery_unknown_count = length (fst found), wr_stale_sending_count = length (snd found),
      wr_affected_count = length (fst found) + length (snd found)\<rparr>"

definition whatsapp_reconcile_once ::
    "outbound_env \<Rightarrow> uuid \<Rightarrow> datetime \<Rightarrow> uuid \<Rightarrow> uuid \<Rightarrow>
     (outbound_world, outbound_exc, reconciliation_counts) comp" where
  "whatsapp_reconcile_once env service_actor_id now tenant_id correlation_id =
     transaction (
       bindS (reconciliation_lists tenant_id now) (\<lambda>found.
       bindS (draw (env_uuid4 env)) (\<lambda>event_id.
       bindS (append_audit (whatsapp_reconciliation_completed_event
                (wr_affected_count (reconciliation_counts_of found)) tenant_id now
                \<lparr>ao_actor_type = AT_SERVICE, ao_actor_id = Some service_actor_id,
                 ao_correlation_id = correlation_id\<rparr> event_id)) (\<lambda>_.
       bindS commit (\<lambda>_.
       returnS (reconciliation_counts_of found))))))"

definition summarize_tenant ::
    "datetime \<Rightarrow> uuid \<Rightarrow> (outbound_world, outbound_exc, reconciliation_counts) comp" where
  "summarize_tenant now tenant_id =
     transaction (bindS (reconciliation_lists tenant_id now) (\<lambda>found.
       returnS (reconciliation_counts_of found)))"

end
