(* ===== verification/Content_Laws.thy ===== *)
theory Content_Laws
  imports Content_Service
begin

text \<open>
  Encrypted content: the associated data determine the identity they are built from; what was
  stored can be read back for a permitted purpose, with an audit event; a sealed content moved to
  another identity cannot be read; and a key rotation keeps the plaintext.
\<close>

section \<open>Associated data are injective\<close>

fun utf8_decode :: "bytes \<Rightarrow> string" where
  "utf8_decode [] = []"
| "utf8_decode (a # bs) =
     (if unat a < 128 then char_of (unat a) # utf8_decode bs
      else case bs of [] \<Rightarrow> [] | b # r \<Rightarrow> char_of ((unat a - 192) * 64 + (unat b - 128)) # utf8_decode r)"

lemma utf8_decode_char: "utf8_decode (utf8_char c @ bs) = c # utf8_decode bs"
proof -
  let ?n = "of_char c :: nat"
  have n: "?n < 256" by simp
  have small: "unat (word_of_nat k :: byte) = k" if "k < 256" for k
    using that by (simp add: unat_of_nat take_bit_nat_eq_self)
  have c: "char_of ?n = c" by simp
  show ?thesis
  proof (cases "?n < 128")
    case True
    then show ?thesis using small [OF n] c by (simp add: utf8_char_def)
  next
    case False
    have "?n div 64 < 64" using less_trans [OF n, of "64 * 64"] by (intro less_mult_imp_div_less) simp
    then have "unat (word_of_nat (192 + ?n div 64) :: byte) = 192 + ?n div 64"
      and "unat (word_of_nat (128 + ?n mod 64) :: byte) = 128 + ?n mod 64"
      using n small [of "192 + ?n div 64"] small [of "128 + ?n mod 64"] by auto
    then show ?thesis using False c by (simp add: utf8_char_def Let_def)
  qed
qed

lemma utf8_decode_encode: "utf8_decode (utf8_encode s) = s"
  by (induction s) (simp_all add: utf8_encode_def utf8_decode_char)

lemma utf8_encode_eq [simp]: "utf8_encode s = utf8_encode t \<longleftrightarrow> s = t"
  by (metis utf8_decode_encode)

lemma of_char_hexdigit: "n < 16 \<Longrightarrow> (of_char (hexdigit n) :: nat) = (if n < 10 then 48 + n else 87 + n)"
  by (simp add: hexdigit_def)

lemma hexdigit_no_bar: "n < 16 \<Longrightarrow> hexdigit n \<noteq> CHR ''|''" and hexdigit_no_minus: "n < 16 \<Longrightarrow> hexdigit n \<noteq> CHR ''-''"
  using of_char_hexdigit [of n] by (auto split: if_splits)

lemma nat_str_no_bar: "CHR ''|'' \<notin> set (nat_str n)"
  by (induction n rule: nat_str.induct) (subst nat_str.simps, auto simp: hexdigit_no_bar [THEN not_sym])

lemma nat_str_not_Nil [simp]: "nat_str n \<noteq> []"
  by (subst nat_str.simps) simp

lemma nat_str_inject [simp]: "nat_str m = nat_str n \<longleftrightarrow> m = n"
proof
  show "nat_str m = nat_str n \<Longrightarrow> m = n"
  proof (induction m arbitrary: n rule: nat_str.induct)
    case (1 m)
    have len: "length (nat_str k) = 1 \<longleftrightarrow> k < 10" for k by (subst nat_str.simps) simp
    have small: "m < 10 \<longleftrightarrow> n < 10" using len [of m] len [of n] 1(2) by simp
    have eq: "nat_str m = nat_str n" by (rule 1(2))
    show ?case
    proof (cases "m < 10")
      case True
      with small eq have "hexdigit m = hexdigit n"
        by (subst (asm) (1 2) nat_str.simps) simp
      with True small show ?thesis by (simp add: hexdigit_eq)
    next
      case False
      with small eq have "nat_str (m div 10) = nat_str (n div 10)" "hexdigit (m mod 10) = hexdigit (n mod 10)"
        by (subst (asm) (1 2) nat_str.simps, simp)+
      then have "m div 10 = n div 10" "m mod 10 = n mod 10" using 1(1) False by (simp_all add: hexdigit_eq)
      then show ?thesis by (metis div_mult_mod_eq)
    qed
  qed
qed simp

lemma hd_nat_str: "hd (nat_str n) \<noteq> CHR ''-''"
proof (induction n rule: nat_str.induct)
  case (1 n)
  then show ?case
    by (subst nat_str.simps) (simp add: hexdigit_no_minus hd_append)
qed

lemma int_str_inject [simp]: "int_str m = int_str n \<longleftrightarrow> m = n"
proof
  assume eq: "int_str m = int_str n"
  have "hd (int_str k) = CHR ''-'' \<longleftrightarrow> k < 0" for k by (simp add: int_str_def hd_nat_str)
  with eq have "m < 0 \<longleftrightarrow> n < 0" by metis
  with eq show "m = n" by (auto simp: int_str_def split: if_splits)
qed simp

lemma int_str_no_bar: "CHR ''|'' \<notin> set (int_str n)"
  by (auto simp: int_str_def nat_str_no_bar)

lemma split_at_bar:
  assumes "CHR ''|'' \<notin> set a" and "CHR ''|'' \<notin> set b"
  shows "a @ CHR ''|'' # r = b @ CHR ''|'' # s \<longleftrightarrow> a = b \<and> r = s"
proof
  assume eq: "a @ CHR ''|'' # r = b @ CHR ''|'' # s"
  have "takeWhile (\<lambda>c. c \<noteq> CHR ''|'') (x @ CHR ''|'' # y) = x" if "CHR ''|'' \<notin> set x" for x y
    using that by (induction x) auto
  then have "a = b" using assms eq by metis
  with eq show "a = b \<and> r = s" by simp
qed simp

lemma kind_no_bar: "CHR ''|'' \<notin> set (content_kind_value k)"
  by (cases k) simp_all

lemma kind_value_inject [simp]: "content_kind_value k = content_kind_value k' \<longleftrightarrow> k = k'"
  by (cases k; cases k') simp_all

lemma encoding_value_inject [simp]: "encoding_value e = encoding_value e' \<longleftrightarrow> e = e'"
  by (cases e; cases e') simp_all

lemma content_aad_inject:
  "build_content_aad t c k e v = build_content_aad t' c' k' e' v' \<longleftrightarrow>
     t = t' \<and> c = c' \<and> k = k' \<and> e = e' \<and> v = v'"
  by (auto simp: build_content_aad_def split_at_bar int_str_no_bar kind_no_bar)

lemma key_wrap_aad_inject:
  "build_key_wrap_aad t c ver v = build_key_wrap_aad t' c' ver' v' \<longleftrightarrow>
     t = t' \<and> c = c' \<and> ver = ver' \<and> v = v'"
  by (auto simp: build_key_wrap_aad_def split_at_bar int_str_no_bar)

section \<open>Sealing and opening\<close>

lemma unavailable_Inr [simp]: "unavailable r m = Inr x \<longleftrightarrow> r = Some x"
  by (cases r) (simp_all add: unavailable_def)

lemma validate_key_version_strip:
  "validate_key_version v = Inr u \<Longrightarrow> u = strip v \<and> u \<noteq> [] \<and> length u \<le> 64"
  by (simp add: validate_key_version_def Let_def MAX_KEY_VERSION_LENGTH_def split: if_splits)

lemma validate_key_version_again:
  "validate_key_version v = Inr u \<Longrightarrow> validate_key_version u = Inr u"
proof -
  assume v: "validate_key_version v = Inr u"
  have "validate_key_version (strip v) = validate_key_version v" by (simp add: validate_key_version_def)
  then show ?thesis using validate_key_version_strip [OF v] v by simp
qed

lemma content_post_init_Inr_iff:
  "EncryptedContent_post_init c = Inr d \<longleftrightarrow>
     ec_ciphertext c \<noteq> [] \<and> length (ec_content_nonce c) = 12 \<and> ec_wrapped_data_key c \<noteq> [] \<and>
     length (ec_key_wrap_nonce c) = 12 \<and> 1 \<le> ec_aad_version c \<and> 0 < ec_plaintext_byte_length c \<and>
     ec_plaintext_byte_length c \<le> int (max_plaintext_bytes_for_kind (ec_kind c)) \<and>
     aware (ec_created_at c) \<and> aware (ec_expires_at c) \<and> ec_created_at c \<le> ec_expires_at c \<and>
     (\<exists>v. validate_key_version (ec_key_version c) = Inr v \<and> d = c\<lparr>ec_key_version := v\<rparr>)"
  unfolding EncryptedContent_post_init_def validate_non_empty_bytes_def validate_exact_byte_length_def
    GCM_NONCE_SIZE_BYTES_def
  by (simp add: result_simps not_less not_le) blast

lemma content_post_init_again:
  assumes "EncryptedContent_post_init c = Inr d"
  shows "EncryptedContent_post_init d = Inr d"
proof -
  obtain v where v: "validate_key_version (ec_key_version c) = Inr v" and d: "d = c\<lparr>ec_key_version := v\<rparr>"
    using assms unfolding content_post_init_Inr_iff by blast
  then have "validate_key_version (ec_key_version d) = Inr v" "d\<lparr>ec_key_version := v\<rparr> = d"
    using validate_key_version_again by simp_all
  then show ?thesis using assms unfolding content_post_init_Inr_iff by (simp add: d)
qed

lemma content_post_init_version:
  assumes "EncryptedContent_post_init c = Inr d"
  shows "ec_key_version d = strip (ec_key_version c)" and "ec_key_version d \<noteq> []"
proof -
  obtain v where v: "validate_key_version (ec_key_version c) = Inr v" and d: "d = c\<lparr>ec_key_version := v\<rparr>"
    using assms unfolding content_post_init_Inr_iff by blast
  show "ec_key_version d = strip (ec_key_version c)" and "ec_key_version d \<noteq> []"
    using validate_key_version_strip [OF v] by (auto simp: d)
qed

text \<open>What a successful encryption did.\<close>

definition sealed ::
    "cryptography \<Rightarrow> bytes \<Rightarrow> bytes \<Rightarrow> encrypted_content \<Rightarrow> bool" where
  "sealed cy data_key plaintext c \<longleftrightarrow>
     length data_key = 32 \<and> length (ec_content_nonce c) = 12 \<and> length (ec_key_wrap_nonce c) = 12 \<and>
     aead_encrypt (cy_aead cy) data_key (ec_content_nonce c) plaintext
       (build_content_aad (ec_tenant_id c) (ec_id c) (ec_kind c) (ec_encoding c) (ec_aad_version c)) =
       Some (ec_ciphertext c) \<and>
     kp_wrap_data_key (cy_keys cy) (ec_tenant_id c) (ec_id c) (ec_aad_version c) data_key
       (ec_key_wrap_nonce c) (kp_active_key_version (cy_keys cy)) = Inr (ec_wrapped_data_key c) \<and>
     ec_key_version c = strip (kp_active_key_version (cy_keys cy)) \<and>
     ec_plaintext_byte_length c = int (length plaintext) \<and> plaintext \<noteq> [] \<and>
     length plaintext \<le> max_plaintext_bytes_for_kind (ec_kind c) \<and>
     EncryptedContent_post_init c = Inr c"

lemma encrypt_plaintext_sealed:
  assumes run: "encrypt_plaintext cy cid tid k e pt created expires v s = (Inr c, s')"
  shows "(\<exists>dk. sealed cy dk pt c) \<and> ec_id c = cid \<and> ec_tenant_id c = tid \<and> ec_kind c = k \<and>
    ec_encoding c = e \<and> ec_aad_version c = v \<and> ec_created_at c = created \<and> ec_expires_at c = expires \<and>
    se_db s' = se_db s \<and> se_saved s' = se_saved s"
proof -
  obtain dk n1 n2 ct wk c0 where
    pt: "validate_plaintext_for_kind k pt = Inr pt" and
    ct: "encrypt_with_aes_gcm (cy_aead cy) dk n1 (build_content_aad tid cid k e v) pt = Inr ct" and
    wk: "kp_wrap_data_key (cy_keys cy) tid cid v dk n2 (kp_active_key_version (cy_keys cy)) = Inr wk" and
    c0: "c0 = \<lparr>ec_id = cid, ec_tenant_id = tid, ec_kind = k, ec_encoding = e, ec_ciphertext = ct,
        ec_content_nonce = n1, ec_wrapped_data_key = wk, ec_key_wrap_nonce = n2,
        ec_key_version = kp_active_key_version (cy_keys cy), ec_aad_version = v,
        ec_plaintext_byte_length = int (length pt), ec_created_at = created, ec_expires_at = expires\<rparr>" and
    c: "EncryptedContent_post_init c0 = Inr c" and
    s': "se_db s' = se_db s" "se_saved s' = se_saved s"
    using run unfolding encrypt_plaintext_def generate_bytes_def
    by (auto elim!: bindS_InrE simp: Let_def validate_plaintext_for_kind_def split: if_splits)
  have "length dk = 32"
    and "aead_encrypt (cy_aead cy) dk n1 pt (build_content_aad tid cid k e v) = Some ct"
    using ct by (auto simp: encrypt_with_aes_gcm_def check_key_and_nonce_def result_simps
        DATA_ENCRYPTION_KEY_SIZE_BYTES_def)
  moreover obtain u where "validate_key_version (ec_key_version c0) = Inr u" "c = c0\<lparr>ec_key_version := u\<rparr>"
    using c unfolding content_post_init_Inr_iff by blast
  moreover from this have "u = strip (kp_active_key_version (cy_keys cy))"
    using validate_key_version_strip by (auto simp: c0)
  moreover have "length n1 = 12" "length n2 = 12" using c unfolding content_post_init_Inr_iff by (auto simp: c0)
  moreover have "pt \<noteq> []" "length pt \<le> max_plaintext_bytes_for_kind k"
    using pt by (auto simp: validate_plaintext_for_kind_def split: if_splits)
  ultimately have "sealed cy dk pt c"
    using wk content_post_init_again [OF c] by (simp add: sealed_def c0)
  then show ?thesis using \<open>c = c0\<lparr>ec_key_version := u\<rparr>\<close> s' by (auto simp: c0)
qed

text \<open>What a key provider promises of the keys it wraps.\<close>

definition key_provider_correct :: "key_provider \<Rightarrow> bool" where
  "key_provider_correct kp \<longleftrightarrow> (\<forall>t c v dk n ver w. length n = 12 \<longrightarrow> ver \<noteq> [] \<longrightarrow>
     kp_wrap_data_key kp t c v dk n ver = Inr w \<longrightarrow> kp_unwrap_data_key kp t c v w n ver = Inr dk)"

definition key_provider_bound :: "key_provider \<Rightarrow> bool" where
  "key_provider_bound kp \<longleftrightarrow> (\<forall>t c v dk n ver w t' c' v'. length n = 12 \<longrightarrow> ver \<noteq> [] \<longrightarrow>
     kp_wrap_data_key kp t c v dk n ver = Inr w \<longrightarrow> (t', c', v') \<noteq> (t, c, v) \<longrightarrow>
     kp_unwrap_data_key kp t' c' v' w n ver = Inl (ContentUnavailableError ''content key is unavailable''))"

lemma static_init_Inr:
  assumes "StaticKeyProvider_init keys active = Inr sk"
  shows "sk = \<lparr>sk_keys_by_version = keys, sk_active_version = active\<rparr> \<and> active \<noteq> [] \<and>
    active \<in> fst ` set keys \<and> (\<forall>(v, k) \<in> set keys. v \<noteq> [] \<and> length k = 32)"
proof -
  have "check_static_keys ks = Inr () \<longleftrightarrow> (\<forall>(v, k) \<in> set ks. v \<noteq> [] \<and> length k = 32)" for ks
    by (induction ks rule: check_static_keys.induct) (auto simp: DATA_ENCRYPTION_KEY_SIZE_BYTES_def)
  then show ?thesis using assms by (auto simp: StaticKeyProvider_init_def result_simps)
qed

lemma static_active_key:
  assumes "StaticKeyProvider_init keys active = Inr sk"
  shows "\<exists>k. map_of keys active = Some k \<and> length k = 32 \<and> active \<noteq> []"
proof -
  have "active \<noteq> []" and mem: "active \<in> fst ` set keys"
    and sizes: "\<forall>(v, k) \<in> set keys. v \<noteq> [] \<and> length k = 32"
    using static_init_Inr [OF assms] by blast+
  from mem obtain k where "map_of keys active = Some k" by (metis weak_map_of_SomeI imageE prod.collapse)
  then show ?thesis using sizes \<open>active \<noteq> []\<close> by (auto dest!: map_of_SomeD)
qed

lemma static_resolved:
  assumes "StaticKeyProvider_init keys active = Inr sk" and "resolve_key_material sk ver = Inr k"
  shows "length k = 32"
  using static_init_Inr [OF assms(1)] assms(2) by (auto simp: resolve_key_material_def dest!: map_of_SomeD)

lemma static_wrap_Inr:
  assumes "StaticKeyProvider_init keys active = Inr sk" and "ver \<noteq> []"
    and "static_wrap_data_key a sk t c v dk n ver = Inr w"
  obtains k where "resolve_key_material sk ver = Inr k" and "length k = 32"
    and "aead_encrypt a k n dk (build_key_wrap_aad t c ver v) = Some w"
  using assms static_resolved [OF assms(1)]
  by (auto simp: static_wrap_data_key_def static_encrypt_def Let_def result_simps)

lemma static_provider_correct:
  assumes "aead_correct a" and init: "StaticKeyProvider_init keys active = Inr sk"
  shows "key_provider_correct (static_key_provider a sk)"
  unfolding key_provider_correct_def
proof (intro allI impI)
  fix t c v dk n ver w
  assume n: "length n = 12" and ver: "ver \<noteq> []"
    and "kp_wrap_data_key (static_key_provider a sk) t c v dk n ver = Inr w"
  then have "static_wrap_data_key a sk t c v dk n ver = Inr w" by (simp add: static_key_provider_def)
  then obtain k where "resolve_key_material sk ver = Inr k" "length k = 32"
    "aead_encrypt a k n dk (build_key_wrap_aad t c ver v) = Some w"
    using static_wrap_Inr [OF init ver] by blast
  moreover from this have "aead_decrypt a k n w (build_key_wrap_aad t c ver v) = Some dk"
    using assms(1) n unfolding aead_correct_def by blast
  ultimately show "kp_unwrap_data_key (static_key_provider a sk) t c v w n ver = Inr dk"
    using n by (simp add: static_key_provider_def static_unwrap_data_key_def static_decrypt_def
        GCM_NONCE_SIZE_BYTES_def)
qed

lemma static_provider_bound:
  assumes "aead_authentic a" and init: "StaticKeyProvider_init keys active = Inr sk"
  shows "key_provider_bound (static_key_provider a sk)"
  unfolding key_provider_bound_def
proof (intro allI impI)
  fix t c v dk n ver w t' c' v'
  assume n: "length n = 12" and ver: "ver \<noteq> []" and other: "(t', c', v') \<noteq> (t, c, v)"
    and "kp_wrap_data_key (static_key_provider a sk) t c v dk n ver = Inr w"
  then have "static_wrap_data_key a sk t c v dk n ver = Inr w" by (simp add: static_key_provider_def)
  then obtain k where k: "resolve_key_material sk ver = Inr k" "length k = 32"
    "aead_encrypt a k n dk (build_key_wrap_aad t c ver v) = Some w"
    using static_wrap_Inr [OF init ver] by blast
  moreover have "build_key_wrap_aad t' c' ver v' \<noteq> build_key_wrap_aad t c ver v"
    using other by (simp add: key_wrap_aad_inject)
  ultimately have "aead_decrypt a k n w (build_key_wrap_aad t' c' ver v') = None"
    using assms(1) n unfolding aead_authentic_def by blast
  then show "kp_unwrap_data_key (static_key_provider a sk) t' c' v' w n ver =
      Inl (ContentUnavailableError ''content key is unavailable'')"
    using k n by (simp add: static_key_provider_def static_unwrap_data_key_def static_decrypt_def
        GCM_NONCE_SIZE_BYTES_def unavailable_def)
qed

lemma sealed_opens:
  assumes "aead_correct (cy_aead cy)" and "key_provider_correct (cy_keys cy)"
    and "strip (kp_active_key_version (cy_keys cy)) = kp_active_key_version (cy_keys cy)"
    and c: "sealed cy dk pt c"
  shows "decrypt_content cy c = Inr \<lparr>dc_kind = ec_kind c, dc_encoding = ec_encoding c,
    dc_plaintext_byte_length = int (length pt), dc_plaintext = pt\<rparr>"
proof -
  have "ec_key_version c \<noteq> []"
    using c content_post_init_version(2) unfolding sealed_def by blast
  moreover have version: "ec_key_version c = kp_active_key_version (cy_keys cy)"
    using c assms(3) unfolding sealed_def by metis
  moreover have "kp_wrap_data_key (cy_keys cy) (ec_tenant_id c) (ec_id c) (ec_aad_version c) dk
      (ec_key_wrap_nonce c) (ec_key_version c) = Inr (ec_wrapped_data_key c)"
    and "length (ec_key_wrap_nonce c) = 12"
    using c unfolding version by (simp_all add: sealed_def)
  ultimately have "kp_unwrap_data_key (cy_keys cy) (ec_tenant_id c) (ec_id c) (ec_aad_version c)
      (ec_wrapped_data_key c) (ec_key_wrap_nonce c) (ec_key_version c) = Inr dk"
    using assms(2) unfolding key_provider_correct_def by blast
  moreover have "aead_decrypt (cy_aead cy) dk (ec_content_nonce c) (ec_ciphertext c)
      (build_content_aad (ec_tenant_id c) (ec_id c) (ec_kind c) (ec_encoding c) (ec_aad_version c)) = Some pt"
    using assms(1) c unfolding aead_correct_def sealed_def by blast
  moreover have "length dk = 32" "length (ec_content_nonce c) = 12" "pt \<noteq> []"
    "ec_plaintext_byte_length c = int (length pt)" "\<not> max_plaintext_bytes_for_kind (ec_kind c) < length pt"
    using c by (simp_all add: sealed_def)
  ultimately show ?thesis
    by (simp add: decrypt_content_def decrypt_with_aes_gcm_def check_key_and_nonce_def
        DecryptedContent_post_init_def GCM_NONCE_SIZE_BYTES_def DATA_ENCRYPTION_KEY_SIZE_BYTES_def
        unavailable_def)
qed

section \<open>Rows and repository\<close>

lemma kind_of_value [simp]: "enum_of content_kind_value content_kinds (content_kind_value k) = Some k"
  by (cases k) (simp_all add: enum_of_def content_kinds_def)

lemma encoding_of_value [simp]: "enum_of encoding_value content_encodings (encoding_value e) = Some e"
  by (cases e) (simp_all add: enum_of_def content_encodings_def)

lemma content_row_roundtrip:
  "EncryptedContent_post_init c = Inr c \<Longrightarrow> encrypted_content_to_domain (encrypted_content_to_row c) = Inr c"
  by (cases c) (simp add: encrypted_content_to_domain_def encrypted_content_to_row_def)

lemma content_row_kind:
  assumes "encrypted_content_to_domain r = Inr c"
  shows "ecr_kind r = content_kind_value (ec_kind c)"
proof -
  obtain k e where "enum_of content_kind_value content_kinds (ecr_kind r) = Some k"
    "enum_of encoding_value content_encodings (ecr_encoding r) = Some e" "ecr_algorithm r = ''aes_256_gcm''"
    using assms by (auto simp: encrypted_content_to_domain_def split: option.splits bool.splits)
  then show ?thesis
    using assms enum_of_SomeD by (fastforce simp: encrypted_content_to_domain_def content_post_init_Inr_iff)
qed

lemma content_row_version:
  assumes "encrypted_content_to_domain r = Inr c"
  shows "ec_key_version c = strip (ecr_key_version r)"
  using assms content_post_init_version(1)
  by (fastforce simp: encrypted_content_to_domain_def split: option.splits bool.splits)

lemma decrypt_content_kind: "decrypt_content cy c = Inr d \<Longrightarrow> dc_kind d = ec_kind c"
  by (auto simp: decrypt_content_def DecryptedContent_post_init_def result_simps)

lemma write_contents_Inr:
  "write_contents f s = (Inr u, s') \<longleftrightarrow>
     flush_contents (f (se_db s)) = Inr () \<and> s' = s\<lparr>se_db := (se_db s)\<lparr>cd_contents := f (se_db s)\<rparr>\<rparr>"
  by (auto simp: write_contents_def result_simps)

lemma flush_contents_Inr:
  "flush_contents rows = Inr u \<longleftrightarrow>
     list_all content_columns_fit rows \<and> list_all content_row_checks rows \<and> distinct (map ecr_id rows)"
  by (simp add: flush_contents_def result_simps)

lemma find_distinct:
  "distinct (map f xs) \<Longrightarrow> x \<in> set xs \<Longrightarrow> find (\<lambda>y. f y = f x) xs = Some x"
  by (induction xs) auto

lemma persistence_guard_Inr [simp]: "persistence_guard m s = (Inr x, s') \<longleftrightarrow> m s = (Inr x, s')"
  by (auto simp: persistence_guard_def tryS_def split: prod.splits sum.splits)

lemma content_get_by_id_row:
  assumes "find (\<lambda>x. ecr_id x = i) (cd_contents (se_db s)) = Some r" and "ecr_tenant_id r = t"
    and "encrypted_content_to_domain r = Inr c"
  shows "content_get_by_id t i s = (Inr (Some c), s)"
  using assms
  by (simp add: content_get_by_id_def tenant_scoped_get_def bindS_def query_def ensure_def
      row_to_content_def lift_result_def)

lemma encrypt_and_persist_stores:
  assumes "encrypt_and_persist cy cid tid k e pt created s = (Inr c, s')"
  shows "(\<exists>dk. sealed cy dk pt c) \<and> ec_id c = cid \<and> ec_tenant_id c = tid \<and> ec_kind c = k \<and> ec_encoding c = e \<and>
    content_row_checks (encrypted_content_to_row c) \<and>
    find (\<lambda>x. ecr_id x = cid) (cd_contents (se_db s')) = Some (encrypted_content_to_row c) \<and>
    flush_contents (cd_contents (se_db s')) = Inr ()"
proof -
  obtain expires t where
    enc: "encrypt_plaintext cy cid tid k e pt created expires CONTENT_AAD_VERSION s = (Inr c, t)" and
    add: "content_add c t = (Inr (), s')"
    using assms unfolding encrypt_and_persist_def load_active_tenant_def
    by (auto elim!: bindS_InrE simp: validate_plaintext_for_kind_def split: if_splits option.splits)
  note sealed = encrypt_plaintext_sealed [OF enc]
  let ?row = "encrypted_content_to_row c"
  have rows: "cd_contents (se_db s') = cd_contents (se_db t) @ [?row]"
    and ok: "list_all content_row_checks (cd_contents (se_db t) @ [?row])"
    and d: "distinct (map ecr_id (cd_contents (se_db t) @ [?row]))"
    and fl: "flush_contents (cd_contents (se_db s')) = Inr ()"
    using add by (auto simp: content_add_def write_contents_Inr flush_contents_Inr)
  have "ecr_id ?row = cid" using sealed by (simp add: encrypted_content_to_row_def)
  moreover have "find (\<lambda>x. ecr_id x = ecr_id ?row) (cd_contents (se_db s')) = Some ?row"
    unfolding rows by (rule find_distinct [OF d]) simp
  ultimately show ?thesis using sealed ok fl by simp
qed

section \<open>Access\<close>

lemma kind_value_ok: "metadata_value_ok (MV_Str (content_kind_value k))"
  by (cases k) (simp_all add: metadata_value_ok_def is_space_def)

lemma purpose_value_ok: "metadata_value_ok (MV_Str (purpose_value p))"
  by (cases p) (simp_all add: metadata_value_ok_def is_space_def)

lemma key_version_value_ok:
  assumes "key_version_format v"
  shows "metadata_value_ok (MV_Str v)"
proof -
  have "\<not> is_space c" if "ascii_alnum c \<or> c = CHR ''_'' \<or> c = CHR ''-''" for c
    using that
    by (auto simp: ascii_alnum_def is_space_def is_digit09_def is_lower_az_def to_lower_char_def Let_def
        split: if_splits)
  with assms show ?thesis
    by (cases v) (auto simp: key_version_format_def metadata_value_ok_def list_all_iff MAX_KEY_VERSION_LENGTH_def)
qed

lemma accessed_keys_ok:
  "metadata_key_ok ''outcome''" "metadata_key_ok ''content_kind''" "metadata_key_ok ''key_version_code''"
  "metadata_key_ok ''reason_code''" "metadata_key_ok ''previous_status''" "metadata_key_ok ''new_status''"
  "metadata_value_ok (MV_Str ''success'')"
  by code_simp+

definition access_recorded ::
    "encrypted_content_kind \<Rightarrow> content_access_purpose \<Rightarrow> uuid \<Rightarrow> uuid \<Rightarrow> uuid \<Rightarrow> audit_event \<Rightarrow> bool" where
  "access_recorded k p tenant_id content_id event_id e \<longleftrightarrow>
     ae_id e = event_id \<and> ae_scope e = AUD_TENANT \<and> ae_tenant_id e = Some tenant_id \<and>
     ae_action e = ''encrypted_content.accessed'' \<and>
     ae_target e = \<lparr>at_target_type = ''encrypted_content'', at_target_id = Some content_id\<rparr> \<and>
     AuditMetadata_get (ae_metadata e) ''content_kind'' = Some (MV_Str (content_kind_value k)) \<and>
     AuditMetadata_get (ae_metadata e) ''reason_code'' = Some (MV_Str (purpose_value p))"

lemma accessed_event_recorded:
  assumes "content_encrypted_accessed_event k p v t c at origin i = Inr e"
  shows "access_recorded k p t c i e"
proof -
  let ?items = "tenant_metadata [(''content_kind'', MV_Str (content_kind_value k)),
    (''key_version_code'', MV_Str v), (''reason_code'', MV_Str (purpose_value p))]"
  have d: "distinct (map fst ?items)" by (simp add: tenant_metadata_def)
  have build: "build_audit_event i AUD_TENANT (Some t) (ao_actor_type origin) (ao_actor_id origin)
      ''encrypted_content.accessed'' ''encrypted_content'' (Some c) at (ao_correlation_id origin)
      (Some ?items) = Inr e"
    using assms by (simp add: content_encrypted_accessed_event_def content_event_def)
  then have "ae_metadata e = sort_key fst ?items" and "ae_id e = i" "ae_scope e = AUD_TENANT"
    "ae_tenant_id e = Some t" "ae_action e = ''encrypted_content.accessed''"
    "ae_target e = \<lparr>at_target_type = ''encrypted_content'', at_target_id = Some c\<rparr>"
    by (auto simp: build_audit_event_def bindE_Inr_iff AuditEvent_post_init_def result_simps
        AuditMetadata_from_mapping_Inr [OF d])
  moreover have "map_of (sort_key fst ?items) = map_of ?items" using sort_key_map_of [OF d] .
  ultimately show ?thesis
    by (simp add: access_recorded_def AuditMetadata_get_def find_map_of tenant_metadata_def)
qed

lemma accessed_event_built:
  assumes "key_version_format v" and "aware at" and "actor_ok (ao_actor_type origin) (ao_actor_id origin)"
  shows "\<exists>e. content_encrypted_accessed_event k p v t c at origin i = Inr e"
proof -
  let ?items = "tenant_metadata [(''content_kind'', MV_Str (content_kind_value k)),
    (''key_version_code'', MV_Str v), (''reason_code'', MV_Str (purpose_value p))]"
  have d: "distinct (map fst ?items)" by (simp add: tenant_metadata_def)
  have ok: "list_all metadata_item_ok ?items"
    using key_version_value_ok [OF assms(1)] kind_value_ok purpose_value_ok accessed_keys_ok
    by (simp add: tenant_metadata_def metadata_item_ok_def)
  show ?thesis
    unfolding content_encrypted_accessed_event_def content_event_def
      build_tenant_event [OF d ok assms(2,3)] by blast
qed

lemma uncommitting_tenant_scoped_get [uncommitting_intros]:
  "uncommitting (tenant_scoped_get e id_of tenant_of table t i)"
  unfolding tenant_scoped_get_def by (intro uncommitting_intros) (auto intro!: uncommitting_intros split: option.splits)

lemma uncommitting_row_to_content [uncommitting_intros]: "uncommitting (row_to_content row)"
  by (cases row) (auto simp: row_to_content_def intro!: uncommitting_intros)

lemma uncommitting_append_audit [uncommitting_intros]:
  "uncommitting (append_required_audit_event f g built)"
  by (cases built) (simp_all add: append_required_audit_event_def uncommitting_intros)

definition open_content :: "cryptography \<Rightarrow> encrypted_content \<Rightarrow> ('s, content_error, decrypted_content) comp" where
  "open_content cy encrypted =
     tryS (lift_result (decrypt_content cy encrypted))
       (\<lambda>e. case e of ContentUnavailableError m \<Rightarrow> raise_unavailable | _ \<Rightarrow> raiseS e) returnS"

lemma open_content_Inr: "open_content cy c s = (Inr d, s') \<longleftrightarrow> decrypt_content cy c = Inr d \<and> s' = s"
  by (auto simp: open_content_def tryS_def lift_result_def raise_unavailable_def
      split: sum.splits content_error.splits)

lemma uncommitting_open_content [uncommitting_intros]: "uncommitting (open_content cy c)"
  unfolding open_content_def raise_unavailable_def
  by (rule uncommitting_try) (auto intro!: uncommitting_basic split: content_error.splits)

lemma decrypt_in_session_steps:
  "decrypt_in_session cy t c p at origin i =
     bindS (content_get_by_id t c) (\<lambda>found. case found of None \<Rightarrow> raise_unavailable
     | Some encrypted \<Rightarrow>
         bindS (lift_result (assert_access_purpose (ec_kind encrypted) p)) (\<lambda>_.
         bindS (open_content cy encrypted) (\<lambda>decrypted.
         bindS (content_audit (content_encrypted_accessed_event (ec_kind encrypted) p
           (ec_key_version encrypted) t c at origin i)) (\<lambda>_.
         bindS commit (\<lambda>_. returnS decrypted)))))"
  unfolding decrypt_in_session_def open_content_def ..

lemma decrypt_in_session_commits_last: "commits_last (decrypt_in_session cy t c p at origin i)"
  unfolding decrypt_in_session_steps
proof (rule commits_last_bind)
  show "uncommitting (content_get_by_id t c)"
    unfolding content_get_by_id_def by (intro uncommitting_intros)
  fix found :: "encrypted_content option"
  show "commits_last (case found of None \<Rightarrow> raise_unavailable
     | Some encrypted \<Rightarrow>
         bindS (lift_result (assert_access_purpose (ec_kind encrypted) p)) (\<lambda>_.
         bindS (open_content cy encrypted) (\<lambda>decrypted.
         bindS (content_audit (content_encrypted_accessed_event (ec_kind encrypted) p
           (ec_key_version encrypted) t c at origin i)) (\<lambda>_.
         bindS commit (\<lambda>_. returnS decrypted)))))"
    unfolding content_audit_def raise_unavailable_def
    by (cases found)
      (simp_all add: commits_last_uncommitting commits_last_bind commits_last_commit uncommitting_intros)
qed

lemma content_audit_Inr:
  "content_audit built s = (Inr u, s') \<longleftrightarrow>
     (\<exists>e. built = Inr e \<and> ae_id e \<notin> ae_id ` set (ad_events (se_db s)) \<and>
        s' = s\<lparr>se_db := (se_db s)\<lparr>ad_events := ad_events (se_db s) @ [e]\<rparr>\<rparr>)"
  by (cases built) (auto simp: content_audit_def append_required_audit_event_def)

lemma content_get_by_id_Inr:
  "content_get_by_id t i s = (Inr (Some c), s') \<longleftrightarrow>
     s' = s \<and> (\<exists>r. find (\<lambda>x. ecr_id x = i) (cd_contents (se_db s)) = Some r \<and> ecr_tenant_id r = t \<and>
       encrypted_content_to_domain r = Inr c)"
  by (auto simp: content_get_by_id_def row_to_content_def tenant_scoped_get_Inr bindS_def
      tenant_scoped_get_def query_def ensure_def lift_result_def split: option.splits sum.splits if_splits)

lemma decrypt_in_session_Inr:
  "decrypt_in_session cy t c p at origin i s = (Inr d, s') \<longleftrightarrow>
     (\<exists>row enc event. find (\<lambda>x. ecr_id x = c) (cd_contents (se_db s)) = Some row \<and> ecr_tenant_id row = t \<and>
        encrypted_content_to_domain row = Inr enc \<and> p \<in> set (PURPOSES_BY_KIND (ec_kind enc)) \<and>
        decrypt_content cy enc = Inr d \<and>
        content_encrypted_accessed_event (ec_kind enc) p (ec_key_version enc) t c at origin i = Inr event \<and>
        ae_id event \<notin> ae_id ` set (ad_events (se_db s)) \<and>
        s' = s\<lparr>se_db := (se_db s)\<lparr>ad_events := ad_events (se_db s) @ [event]\<rparr>,
               se_saved := (se_db s)\<lparr>ad_events := ad_events (se_db s) @ [event]\<rparr>\<rparr>)"
    (is "?run \<longleftrightarrow> ?steps")
proof
  assume ?run
  then obtain enc s1 where get: "content_get_by_id t c s = (Inr (Some enc), s1)" and
    rest: "bindS (lift_result (assert_access_purpose (ec_kind enc) p)) (\<lambda>_.
         bindS (open_content cy enc) (\<lambda>decrypted.
         bindS (content_audit (content_encrypted_accessed_event (ec_kind enc) p
           (ec_key_version enc) t c at origin i)) (\<lambda>_.
         bindS commit (\<lambda>_. returnS decrypted)))) s1 = (Inr d, s')"
    unfolding decrypt_in_session_steps
    by (auto elim!: bindS_InrE simp: raise_unavailable_def split: option.splits)
  from rest have "assert_access_purpose (ec_kind enc) p = Inr ()" "decrypt_content cy enc = Inr d"
    and "\<exists>event. content_encrypted_accessed_event (ec_kind enc) p (ec_key_version enc) t c at origin i = Inr event \<and>
        ae_id event \<notin> ae_id ` set (ad_events (se_db s1)) \<and>
        s' = s1\<lparr>se_db := (se_db s1)\<lparr>ad_events := ad_events (se_db s1) @ [event]\<rparr>,
               se_saved := (se_db s1)\<lparr>ad_events := ad_events (se_db s1) @ [event]\<rparr>\<rparr>"
    by (auto elim!: bindS_InrE simp: open_content_Inr content_audit_Inr)
  with get show ?steps
    unfolding content_get_by_id_Inr assert_access_purpose_def raise_if_Inr_iff by blast
next
  assume ?steps
  then obtain row enc event where
    get: "content_get_by_id t c s = (Inr (Some enc), s)" and
    p: "assert_access_purpose (ec_kind enc) p = Inr ()" and d: "open_content cy enc s = (Inr d, s)" and
    audit: "content_audit (content_encrypted_accessed_event (ec_kind enc) p (ec_key_version enc) t c at origin i) s =
      (Inr (), s\<lparr>se_db := (se_db s)\<lparr>ad_events := ad_events (se_db s) @ [event]\<rparr>\<rparr>)" and
    s': "s' = s\<lparr>se_db := (se_db s)\<lparr>ad_events := ad_events (se_db s) @ [event]\<rparr>,
               se_saved := (se_db s)\<lparr>ad_events := ad_events (se_db s) @ [event]\<rparr>\<rparr>"
    unfolding content_get_by_id_Inr open_content_Inr content_audit_Inr assert_access_purpose_def raise_if_Inr_iff
    by blast
  show ?run
    unfolding decrypt_in_session_steps
    by (simp add: bindS_def get d audit p lift_result_def commit_def s')
qed

text \<open>
  The table of \<open>docs/ENCRYPTED_CONTENT.md\<close>, "Purposes by kind"; it lists three kinds. The code departs
  from it in two entries: it lets a sanitised message be read for the review of a conversation, and
  refuses a raw message to the analysis, which reads what the redaction leaves.
\<close>

fun documented_purposes :: "encrypted_content_kind \<Rightarrow> content_access_purpose list option" where
  "documented_purposes CK_RAW_MESSAGE =
     Some [CP_REDACTION, CP_AI_ANALYSIS, CP_AUDIT_REVIEW, CP_RETENTION_DELETION]"
| "documented_purposes CK_SANITIZED_MESSAGE = Some [CP_AI_ANALYSIS, CP_AUDIT_REVIEW, CP_RETENTION_DELETION]"
| "documented_purposes CK_PROVIDER_PAYLOAD =
     Some [CP_WEBHOOK_NORMALIZATION, CP_AUDIT_REVIEW, CP_RETENTION_DELETION]"
| "documented_purposes _ = None"

definition departs_from_documentation :: "encrypted_content_kind \<Rightarrow> content_access_purpose \<Rightarrow> bool" where
  "departs_from_documentation kind purpose \<longleftrightarrow>
     kind = CK_SANITIZED_MESSAGE \<and> purpose = CP_CONVERSATION_REVIEW \<or>
     kind = CK_RAW_MESSAGE \<and> purpose = CP_AI_ANALYSIS"

lemma purposes_documented:
  assumes "documented_purposes kind = Some ps"
  shows "purpose \<in> set (PURPOSES_BY_KIND kind) \<longleftrightarrow> (purpose \<in> set ps) \<noteq> departs_from_documentation kind purpose"
  using assms by (cases kind; cases purpose) (auto simp: departs_from_documentation_def)

text \<open>
  C10.
  Access to encrypted content. \<open>load_and_decrypt\<close> returns a plaintext only for a stored content of
  the given tenant and for a purpose that the code's table permits for its kind, and then the stored
  audit trail has grown by one event, which names the tenant, the content, its kind and the purpose,
  while nothing else changed. For the kinds that the documentation lists, the purpose is one it
  permits, other than the analysis of a raw message, or it is the review of a sanitised message, which
  the documentation does not permit. When it raises, the stored tables are as before.
\<close>

theorem content_access_controlled:
  fixes w :: "('d content_db_scheme, 'w) world_scheme"
  assumes run: "load_and_decrypt cy tenant content purpose at origin event_id w = (r, w')"
  shows "case r of
      Inl e \<Rightarrow> w_db w' = w_db w
    | Inr d \<Rightarrow> purpose \<in> set (PURPOSES_BY_KIND (dc_kind d)) \<and>
        (\<forall>ps. documented_purposes (dc_kind d) = Some ps \<longrightarrow>
           (purpose \<in> set ps) \<noteq> departs_from_documentation (dc_kind d) purpose) \<and>
        (\<exists>row \<in> set (cd_contents (w_db w)). ecr_id row = content \<and> ecr_tenant_id row = tenant \<and>
           ecr_kind row = content_kind_value (dc_kind d)) \<and>
        (\<exists>event. access_recorded (dc_kind d) purpose tenant content event_id event \<and>
           w_db w' = (w_db w)\<lparr>ad_events := ad_events (w_db w) @ [event]\<rparr>)"
proof (cases r)
  case (Inl e)
  then show ?thesis
    using run transaction_error_rolls_back [OF decrypt_in_session_commits_last, of cy tenant content purpose at origin event_id w]
    by (auto simp: load_and_decrypt_def bindS_def ensure_def split: if_splits)
next
  case (Inr d)
  have tr: "transaction (decrypt_in_session cy tenant content purpose at origin event_id) w = (Inr d, w')"
    using run by (auto simp: Inr load_and_decrypt_def bindS_def ensure_def split: if_splits)
  then obtain s' where "decrypt_in_session cy tenant content purpose at origin event_id (open_session w) = (Inr d, s')"
    and close: "w' = close_session s' w"
    by (auto simp: transaction_def split: prod.splits)
  then obtain row enc event where
    row: "find (\<lambda>x. ecr_id x = content) (cd_contents (w_db w)) = Some row" "ecr_tenant_id row = tenant" and
    enc: "encrypted_content_to_domain row = Inr enc" and
    purpose: "purpose \<in> set (PURPOSES_BY_KIND (ec_kind enc))" and
    d: "decrypt_content cy enc = Inr d" and
    event: "content_encrypted_accessed_event (ec_kind enc) purpose (ec_key_version enc) tenant content at origin event_id = Inr event" and
    w': "w_db w' = (w_db w)\<lparr>ad_events := ad_events (w_db w) @ [event]\<rparr>"
    unfolding decrypt_in_session_Inr by auto
  have kinds: "ec_kind enc = dc_kind d" "ecr_kind row = content_kind_value (ec_kind enc)"
    using decrypt_content_kind [OF d] content_row_kind [OF enc] by simp_all
  have "row \<in> set (cd_contents (w_db w))" "ecr_id row = content"
    using row(1) by (auto simp: find_Some_iff)
  moreover have "purpose \<in> set (PURPOSES_BY_KIND (dc_kind d))" "ecr_kind row = content_kind_value (dc_kind d)"
    "access_recorded (dc_kind d) purpose tenant content event_id event"
    using purpose accessed_event_recorded [OF event] unfolding kinds(2) kinds(1) by blast+
  moreover have "\<forall>ps. documented_purposes (dc_kind d) = Some ps \<longrightarrow>
      (purpose \<in> set ps) \<noteq> departs_from_documentation (dc_kind d) purpose"
    using purpose purposes_documented unfolding kinds(1) by blast
  ultimately show ?thesis using row(2) w' unfolding Inr sum.case by blast
qed

section \<open>Identity and rotation\<close>

text \<open>
  C11.
  A sealed content is bound to its identity. Take a content that \<open>encrypt_plaintext\<close> produced with a
  key provider of static keys, and any content with its ciphertext, wrapped key, nonces and key
  version. If that content names another tenant, another content, another kind, another encoding or
  another AAD version, \<open>decrypt_content\<close> raises \<open>ContentUnavailableError\<close>. This rests on the documented
  behaviour of AES-GCM, that decryption verifies the associated data.
\<close>

theorem content_bound_to_identity:
  fixes s :: "'db session"
  assumes "aead_correct (cy_aead cy)" and authentic: "aead_authentic (cy_aead cy)"
    and init: "StaticKeyProvider_init keys active = Inr sk"
    and cy: "cy_keys cy = static_key_provider (cy_aead cy) sk" and active: "strip active = active"
    and enc: "encrypt_plaintext cy content tenant kind encoding plaintext created expires v s = (Inr c, s')"
    and moved: "ec_ciphertext c' = ec_ciphertext c" "ec_content_nonce c' = ec_content_nonce c"
      "ec_wrapped_data_key c' = ec_wrapped_data_key c" "ec_key_wrap_nonce c' = ec_key_wrap_nonce c"
      "ec_key_version c' = ec_key_version c"
    and other: "(ec_tenant_id c', ec_id c', ec_kind c', ec_encoding c', ec_aad_version c') \<noteq>
      (tenant, content, kind, encoding, v)"
  shows "\<exists>m. decrypt_content cy c' = Inl (ContentUnavailableError m)"
proof -
  obtain dk where sealed: "sealed cy dk plaintext c" and ids: "ec_id c = content" "ec_tenant_id c = tenant"
    "ec_kind c = kind" "ec_encoding c = encoding" "ec_aad_version c = v"
    using encrypt_plaintext_sealed [OF enc] by blast
  have act: "kp_active_key_version (cy_keys cy) = active"
    using static_init_Inr [OF init] by (simp add: cy static_key_provider_def)
  then have version: "ec_key_version c = active" using sealed active by (simp add: sealed_def)
  have ne: "ec_key_version c \<noteq> []" using sealed content_post_init_version(2) unfolding sealed_def by blast
  have wrap: "kp_wrap_data_key (cy_keys cy) tenant content v dk (ec_key_wrap_nonce c) (ec_key_version c) =
      Inr (ec_wrapped_data_key c)" and lens: "length dk = 32" "length (ec_content_nonce c) = 12"
      "length (ec_key_wrap_nonce c) = 12"
    and ct: "aead_encrypt (cy_aead cy) dk (ec_content_nonce c) plaintext
      (build_content_aad tenant content kind encoding v) = Some (ec_ciphertext c)"
    using sealed unfolding sealed_def ids act version by simp_all
  let ?unwrap = "kp_unwrap_data_key (cy_keys cy) (ec_tenant_id c') (ec_id c') (ec_aad_version c')
    (ec_wrapped_data_key c) (ec_key_wrap_nonce c) (ec_key_version c)"
  show ?thesis
  proof (cases "(ec_tenant_id c', ec_id c', ec_aad_version c') = (tenant, content, v)")
    case False
    have "?unwrap = Inl (ContentUnavailableError ''content key is unavailable'')"
      using static_provider_bound [OF authentic init] wrap lens(3) ne False
      unfolding cy key_provider_bound_def by blast
    then show ?thesis by (simp add: decrypt_content_def moved)
  next
    case True
    then have "?unwrap = Inr dk"
      using static_provider_correct [OF assms(1) init] wrap lens(3) ne
      unfolding cy key_provider_correct_def by simp
    moreover have "build_content_aad (ec_tenant_id c') (ec_id c') (ec_kind c') (ec_encoding c') (ec_aad_version c') \<noteq>
        build_content_aad tenant content kind encoding v"
      using True other by (auto simp: content_aad_inject)
    then have "aead_decrypt (cy_aead cy) dk (ec_content_nonce c) (ec_ciphertext c)
        (build_content_aad (ec_tenant_id c') (ec_id c') (ec_kind c') (ec_encoding c') (ec_aad_version c')) = None"
      using authentic ct lens unfolding aead_authentic_def by blast
    ultimately show ?thesis
      by (simp add: decrypt_content_def moved decrypt_with_aes_gcm_def check_key_and_nonce_def lens
          GCM_NONCE_SIZE_BYTES_def DATA_ENCRYPTION_KEY_SIZE_BYTES_def unavailable_def)
  qed
qed

lemma rewrap_data_key_Inr:
  assumes "rewrap_data_key cy c s = (Inr w, s')"
  shows "\<exists>dk. kp_unwrap_data_key (cy_keys cy) (ec_tenant_id c) (ec_id c) (ec_aad_version c)
      (ec_wrapped_data_key c) (ec_key_wrap_nonce c) (ec_key_version c) = Inr dk \<and>
    kp_wrap_data_key (cy_keys cy) (ec_tenant_id c) (ec_id c) (ec_aad_version c) dk (wk_key_wrap_nonce w)
      (kp_active_key_version (cy_keys cy)) = Inr (wk_wrapped_data_key w) \<and>
    wk_key_version w = strip (kp_active_key_version (cy_keys cy)) \<and> length (wk_key_wrap_nonce w) = 12 \<and>
    se_db s' = se_db s"
proof -
  obtain dk n wk where
    "kp_unwrap_data_key (cy_keys cy) (ec_tenant_id c) (ec_id c) (ec_aad_version c)
      (ec_wrapped_data_key c) (ec_key_wrap_nonce c) (ec_key_version c) = Inr dk" and
    "kp_wrap_data_key (cy_keys cy) (ec_tenant_id c) (ec_id c) (ec_aad_version c) dk n
      (kp_active_key_version (cy_keys cy)) = Inr wk" and
    w: "WrappedDataKey_post_init \<lparr>wk_wrapped_data_key = wk, wk_key_wrap_nonce = n,
        wk_key_version = kp_active_key_version (cy_keys cy)\<rparr> = Inr w" and
    "se_db s' = se_db s"
    using assms unfolding rewrap_data_key_def generate_bytes_def by (auto elim!: bindS_InrE simp: Let_def)
  moreover have "wk_wrapped_data_key w = wk" "wk_key_wrap_nonce w = n" "length n = 12"
    "wk_key_version w = strip (kp_active_key_version (cy_keys cy))"
    using w validate_key_version_strip
    by (auto simp: WrappedDataKey_post_init_def result_simps validate_exact_byte_length_def GCM_NONCE_SIZE_BYTES_def)
  ultimately show ?thesis by blast
qed

text \<open>What opening a content needs: the data key under its key version, and the content under it.\<close>

lemma decrypt_content_Inr:
  "decrypt_content cy c = Inr d \<longleftrightarrow>
     (\<exists>dk. kp_unwrap_data_key (cy_keys cy) (ec_tenant_id c) (ec_id c) (ec_aad_version c)
        (ec_wrapped_data_key c) (ec_key_wrap_nonce c) (ec_key_version c) = Inr dk \<and>
      (\<exists>pt. decrypt_with_aes_gcm (cy_aead cy) dk (ec_content_nonce c)
        (build_content_aad (ec_tenant_id c) (ec_id c) (ec_kind c) (ec_encoding c) (ec_aad_version c))
        (ec_ciphertext c) = Inr pt \<and> int (length pt) = ec_plaintext_byte_length c \<and>
      DecryptedContent_post_init \<lparr>dc_kind = ec_kind c, dc_encoding = ec_encoding c,
        dc_plaintext_byte_length = ec_plaintext_byte_length c, dc_plaintext = pt\<rparr> = Inr d))"
  by (auto simp: decrypt_content_def result_simps)

lemma find_map_same: "(\<And>x. P (f x) = P x) \<Longrightarrow> find P (map f xs) = map_option f (find P xs)"
  by (induction xs) auto

lemma apply_row_domain:
  assumes "encrypted_content_to_domain r = Inr c"
  shows "encrypted_content_to_domain (apply_wrapped_data_key r w) =
    EncryptedContent_post_init (c\<lparr>ec_wrapped_data_key := wk_wrapped_data_key w,
      ec_key_wrap_nonce := wk_key_wrap_nonce w, ec_key_version := wk_key_version w\<rparr>)"
proof -
  obtain k e where "enum_of content_kind_value content_kinds (ecr_kind r) = Some k"
    "enum_of encoding_value content_encodings (ecr_encoding r) = Some e" "ecr_algorithm r = ''aes_256_gcm''"
    using assms by (auto simp: encrypted_content_to_domain_def split: option.splits bool.splits)
  then show ?thesis
    using assms by (auto simp: encrypted_content_to_domain_def content_post_init_Inr_iff apply_wrapped_data_key_def)
qed

lemma static_unwrap_retained:
  assumes "aead_correct a" and init: "StaticKeyProvider_init keys active = Inr sk"
    and init': "StaticKeyProvider_init keys' active = Inr sk'" and kept: "map_of keys' active = map_of keys active"
    and len: "length n = 12" and wrap: "static_wrap_data_key a sk t c v dk n active = Inr w"
  shows "kp_unwrap_data_key (static_key_provider a sk') t c v w n active = Inr dk"
proof -
  note sk = static_init_Inr [OF init] static_init_Inr [OF init']
  then obtain k where k: "resolve_key_material sk active = Inr k" "length k = 32"
    "aead_encrypt a k n dk (build_key_wrap_aad t c active v) = Some w"
    using static_wrap_Inr [OF init _ wrap] by blast
  then have "aead_decrypt a k n w (build_key_wrap_aad t c active v) = Some dk"
    using assms(1) len unfolding aead_correct_def by blast
  moreover have "resolve_key_material sk' active = Inr k" using k(1) sk kept by (simp add: resolve_key_material_def)
  ultimately show ?thesis
    using len by (simp add: static_key_provider_def static_unwrap_data_key_def static_decrypt_def
        GCM_NONCE_SIZE_BYTES_def unavailable_def)
qed

lemma rewrap_run_keeps_plaintext:
  fixes s :: "'d content_db_scheme session"
  assumes correct: "aead_correct (cy_aead cy)"
    and init: "StaticKeyProvider_init keys active = Inr sk"
    and cy: "cy_keys cy = static_key_provider (cy_aead cy) sk" and active: "strip active = active"
    and init': "StaticKeyProvider_init keys' active = Inr sk'" and kept: "map_of keys' active = map_of keys active"
    and run: "rewrap_content_key cy tenant content at origin event_id s = (Inr updated, s')"
    and row: "find_content tenant content (se_db s) = Some row" "encrypted_content_to_domain row = Inr c"
    and before: "decrypt_content cy c = Inr d"
  shows "ec_key_version updated = active \<and>
    decrypt_content (cy\<lparr>cy_keys := static_key_provider (cy_aead cy) sk'\<rparr>) updated = Inr d \<and>
    (\<exists>w. find_content tenant content (se_db s') = Some (apply_wrapped_data_key row w) \<and>
       encrypted_content_to_domain (apply_wrapped_data_key row w) = Inr updated)"
proof -
  obtain w s1 s2 where rewrap: "rewrap_data_key cy c s = (Inr w, s1)" and
    replace: "replace_wrapped_key tenant content w s1 = (Inr (), s2)" and
    updated: "EncryptedContent_post_init (c\<lparr>ec_wrapped_data_key := wk_wrapped_data_key w,
      ec_key_wrap_nonce := wk_key_wrap_nonce w, ec_key_version := wk_key_version w\<rparr>) = Inr updated" and
    s': "cd_contents (se_db s') = cd_contents (se_db s2)"
    using run row unfolding rewrap_content_key_def content_get_for_update_def
    by (auto elim!: bindS_InrE simp: row_to_content_def content_audit_Inr tryS_def raise_unavailable_def
        split: prod.splits sum.splits option.splits)
  obtain dk where dk: "kp_unwrap_data_key (cy_keys cy) (ec_tenant_id c) (ec_id c) (ec_aad_version c)
      (ec_wrapped_data_key c) (ec_key_wrap_nonce c) (ec_key_version c) = Inr dk" and
    wrap: "static_wrap_data_key (cy_aead cy) sk (ec_tenant_id c) (ec_id c) (ec_aad_version c) dk
      (wk_key_wrap_nonce w) active = Inr (wk_wrapped_data_key w)" and
    ver: "wk_key_version w = active" and len: "length (wk_key_wrap_nonce w) = 12" and s1: "se_db s1 = se_db s"
    using rewrap_data_key_Inr [OF rewrap] static_init_Inr [OF init] active by (auto simp: cy static_key_provider_def)
  obtain u where u: "validate_key_version active = Inr u" and
    upd: "updated = c\<lparr>ec_wrapped_data_key := wk_wrapped_data_key w,
      ec_key_wrap_nonce := wk_key_wrap_nonce w, ec_key_version := active\<rparr>"
    using updated validate_key_version_strip active unfolding content_post_init_Inr_iff by (fastforce simp: ver)
  have "kp_unwrap_data_key (static_key_provider (cy_aead cy) sk') (ec_tenant_id c) (ec_id c) (ec_aad_version c)
      (wk_wrapped_data_key w) (wk_key_wrap_nonce w) active = Inr dk"
    by (rule static_unwrap_retained [OF correct init init' kept len wrap])
  with before dk have "decrypt_content (cy\<lparr>cy_keys := static_key_provider (cy_aead cy) sk'\<rparr>) updated = Inr d"
    unfolding decrypt_content_Inr by (auto simp: upd)
  moreover have "cd_contents (se_db s2) =
      map (\<lambda>x. if ecr_id x = ecr_id row then apply_wrapped_data_key x w else x) (cd_contents (se_db s))"
    using replace row(1) by (auto elim!: bindS_InrE simp: replace_wrapped_key_def s1 write_contents_Inr)
  then have "find_content tenant content (se_db s') = Some (apply_wrapped_data_key row w)"
    using row(1) by (simp add: find_content_def s' find_map_same apply_wrapped_data_key_def)
  moreover have "encrypted_content_to_domain (apply_wrapped_data_key row w) = Inr updated"
    using updated apply_row_domain [OF row(2), of w] by simp
  moreover have "ec_key_version updated = active" by (simp add: upd)
  ultimately show ?thesis by blast
qed

section \<open>Storing and reading\<close>

lemma ascii_alnum_is_alnum: "ascii_alnum c \<Longrightarrow> is_alnum c \<and> c \<noteq> CHR ''_'' \<and> c \<noteq> CHR ''-''"
  by (auto simp: ascii_alnum_def is_alnum_def is_digit09_def is_lower_az_def to_lower_char_def Let_def
      split: if_splits)

lemma key_version_format_validates:
  assumes "key_version_format v"
  shows "strip v = v" and "validate_key_version v = Inr v"
proof -
  show strip: "strip v = v"
    using key_version_value_ok [OF assms] no_space_strip by (simp add: metadata_value_ok_def)
  have hd: "v \<noteq> []" "ascii_alnum (hd v)" and len: "length v \<le> 64"
    and all: "\<forall>c \<in> set v. ascii_alnum c \<or> c = CHR ''_'' \<or> c = CHR ''-''"
    using assms by (cases v; auto simp: key_version_format_def list_all_iff MAX_KEY_VERSION_LENGTH_def)+
  let ?bare = "filter (\<lambda>c. c \<noteq> CHR ''_'' \<and> c \<noteq> CHR ''-'') v"
  have "hd v \<in> set ?bare" using hd ascii_alnum_is_alnum by auto
  then have "?bare \<noteq> []" by (metis empty_iff list.set(1))
  moreover have "list_all is_alnum ?bare" using all ascii_alnum_is_alnum by (auto simp: list_all_iff)
  ultimately show "validate_key_version v = Inr v"
    using hd(1) len ascii_alnum_is_alnum [OF hd(2)]
    unfolding validate_key_version_def strip Let_def MAX_KEY_VERSION_LENGTH_def by simp
qed

text \<open>The database accepts the sizes that the domain accepts.\<close>

lemma kind_limit_agrees:
  "content_kind_limit (content_kind_value k) n \<longleftrightarrow> n \<le> int (max_plaintext_bytes_for_kind k)"
  by (cases k) (simp_all add: content_kind_limit_def)

lemma content_row_accepted:
  assumes "EncryptedContent_post_init c = Inr c" and "key_version_format (ec_key_version c)"
    and "ec_aad_version c = 1"
  shows "content_columns_fit (encrypted_content_to_row c)" and "content_row_checks (encrypted_content_to_row c)"
proof -
  have c: "ec_ciphertext c \<noteq> []" "length (ec_content_nonce c) = 12" "ec_wrapped_data_key c \<noteq> []"
     "length (ec_key_wrap_nonce c) = 12" "0 < ec_plaintext_byte_length c"
     "ec_plaintext_byte_length c \<le> int (max_plaintext_bytes_for_kind (ec_kind c))"
     "aware (ec_created_at c)" "aware (ec_expires_at c)" "ec_created_at c \<le> ec_expires_at c"
    using assms(1) unfolding content_post_init_Inr_iff by blast+
  have "max_plaintext_bytes_for_kind (ec_kind c) \<le> 104857600" by (cases "ec_kind c") simp_all
  then have "fits_int4 (ec_plaintext_byte_length c)" using c(5,6) by (simp add: fits_int4_def)
  moreover have "length (content_kind_value (ec_kind c)) \<le> 32" by (cases "ec_kind c") simp_all
  moreover have "length (encoding_value (ec_encoding c)) \<le> 16" by (cases "ec_encoding c") simp_all
  ultimately show "content_columns_fit (encrypted_content_to_row c)"
    using c(7,8) assms(2,3) unfolding content_columns_fit_def key_version_format_def
    by (simp add: encrypted_content_to_row_def fits_int4_def)
  have "ec_kind c \<in> set content_kinds" by (cases "ec_kind c") (simp_all add: content_kinds_def)
  moreover have "ec_encoding c \<in> set content_encodings" by (cases "ec_encoding c") (simp_all add: content_encodings_def)
  ultimately show "content_row_checks (encrypted_content_to_row c)"
    using c assms(2,3) unfolding content_row_checks_def
    by (simp add: encrypted_content_to_row_def kind_limit_agrees GCM_NONCE_SIZE_BYTES_def CONTENT_AAD_VERSION_def)
qed

text \<open>An environment in which contents can be stored.\<close>

definition storing_ok :: "cryptography \<Rightarrow> static_keys \<Rightarrow> bool" where
  "storing_ok cy sk \<longleftrightarrow>
     aead_total (cy_aead cy) \<and> aead_correct (cy_aead cy) \<and>
     StaticKeyProvider_init (sk_keys_by_version sk) (sk_active_version sk) = Inr sk \<and>
     key_version_format (sk_active_version sk) \<and>
     cy_keys cy = static_key_provider (cy_aead cy) sk \<and> (\<forall>i n. length (cy_random cy i n) = n)"

lemma encrypt_plaintext_succeeds:
  assumes ok: "storing_ok cy sk" and pt: "plaintext \<noteq> []" "length plaintext \<le> max_plaintext_bytes_for_kind kind"
    and times: "aware created" "aware expires" "created \<le> expires"
  shows "\<exists>c s'. encrypt_plaintext cy content tenant kind encoding plaintext created expires 1 s = (Inr c, s') \<and>
    EncryptedContent_post_init c = Inr c \<and> ec_key_version c = sk_active_version sk"
proof -
  let ?dk = "cy_random cy (se_draws s) 32" and ?n1 = "cy_random cy (Suc (se_draws s)) 12"
    and ?n2 = "cy_random cy (Suc (Suc (se_draws s))) 12" and ?v = "sk_active_version sk"
  have total: "aead_total (cy_aead cy)" and rand: "\<And>i n. length (cy_random cy i n) = n"
    and keys: "cy_keys cy = static_key_provider (cy_aead cy) sk" and fmt: "key_version_format ?v"
    and init: "StaticKeyProvider_init (sk_keys_by_version sk) ?v = Inr sk"
    using ok by (auto simp: storing_ok_def)
  obtain ct where ct: "aead_encrypt (cy_aead cy) ?dk ?n1 plaintext (build_content_aad tenant content kind encoding 1) = Some ct"
    "ct \<noteq> []" using total rand unfolding aead_total_def by blast
  obtain k where k: "map_of (sk_keys_by_version sk) ?v = Some k" and "length k = 32" and ne: "?v \<noteq> []"
    using static_active_key [OF init] by blast
  then obtain wk where wk: "aead_encrypt (cy_aead cy) k ?n2 ?dk (build_key_wrap_aad tenant content ?v 1) = Some wk"
    "wk \<noteq> []" using total rand unfolding aead_total_def by blast
  let ?c = "\<lparr>ec_id = content, ec_tenant_id = tenant, ec_kind = kind, ec_encoding = encoding, ec_ciphertext = ct,
    ec_content_nonce = ?n1, ec_wrapped_data_key = wk, ec_key_wrap_nonce = ?n2, ec_key_version = ?v,
    ec_aad_version = 1, ec_plaintext_byte_length = int (length plaintext), ec_created_at = created,
    ec_expires_at = expires\<rparr>"
  have c: "EncryptedContent_post_init ?c = Inr ?c"
    unfolding content_post_init_Inr_iff
    using ct(2) wk(2) rand pt times key_version_format_validates(2) [OF fmt] by simp
  have "encrypt_plaintext cy content tenant kind encoding plaintext created expires 1 s =
      (Inr ?c, s\<lparr>se_draws := Suc (Suc (Suc (se_draws s)))\<rparr>)"
    using pt ct(1) wk(1) k c ne rand
    by (simp add: encrypt_plaintext_def generate_bytes_def validate_plaintext_for_kind_def bindS_def
        lift_result_def draw_def encrypt_with_aes_gcm_def check_key_and_nonce_def unavailable_def
        GCM_NONCE_SIZE_BYTES_def DATA_ENCRYPTION_KEY_SIZE_BYTES_def keys static_key_provider_def
        static_wrap_data_key_def static_encrypt_def resolve_key_material_def Let_def)
  then show ?thesis using c by auto
qed

lemma encrypt_and_persist_succeeds:
  fixes s :: "'d content_db_scheme session"
  assumes ok: "storing_ok cy sk" and pt: "plaintext \<noteq> []" "length plaintext \<le> max_plaintext_bytes_for_kind kind"
    and created: "aware created"
    and tenant: "find (\<lambda>t. tn_id t = tenant) (cd_tenants (se_db s)) = Some tn" "tn_status tn = TS_ACTIVE"
      "RetentionPolicy_post_init (tn_retention_policy tn) = Inr policy"
    and table: "flush_contents (cd_contents (se_db s)) = Inr ()" "content \<notin> ecr_id ` set (cd_contents (se_db s))"
  shows "\<exists>c s'. encrypt_and_persist cy content tenant kind encoding plaintext created s = (Inr c, s')"
proof -
  let ?expires = "dt_plus created (timedelta_days (retention_days_for_kind kind (tn_retention_policy tn)))"
  have "0 \<le> retention_days_for_kind kind (tn_retention_policy tn)"
    using tenant(3) by (cases kind) (auto simp: RetentionPolicy_post_init_def validate_retention_days_def
        result_simps NOTIFICATION_PAYLOAD_RETENTION_DAYS_def)
  then have "created \<le> ?expires" using created by (cases created) (simp_all add: timedelta_defs)
  then obtain c s1 where enc: "encrypt_plaintext cy content tenant kind encoding plaintext created ?expires
      CONTENT_AAD_VERSION s = (Inr c, s1)" and c: "EncryptedContent_post_init c = Inr c"
      "ec_key_version c = sk_active_version sk"
    using encrypt_plaintext_succeeds [OF ok pt created, of ?expires content tenant encoding s] created
    by (auto simp: CONTENT_AAD_VERSION_def)
  note facts = encrypt_plaintext_sealed [OF enc]
  have "key_version_format (ec_key_version c)" "ec_aad_version c = 1"
    using ok c(2) facts by (auto simp: storing_ok_def CONTENT_AAD_VERSION_def)
  then have "content_columns_fit (encrypted_content_to_row c)" "content_row_checks (encrypted_content_to_row c)"
    using content_row_accepted [OF c(1)] by blast+
  moreover have "ecr_id (encrypted_content_to_row c) = content" using facts by (simp add: encrypted_content_to_row_def)
  ultimately have "flush_contents (cd_contents (se_db s1) @ [encrypted_content_to_row c]) = Inr ()"
    using table facts by (simp add: flush_contents_Inr)
  then obtain s2 where add: "content_add c s1 = (Inr (), s2)" by (simp add: content_add_def write_contents_Inr)
  have load: "load_active_tenant tenant s = (Inr tn, s)"
    using tenant(1,2) by (simp add: load_active_tenant_def bindS_def query_def)
  have "encrypt_and_persist cy content tenant kind encoding plaintext created s = (Inr c, s2)"
    using pt created
    by (simp add: encrypt_and_persist_def bindS_def ensure_def load lift_result_def
        validate_plaintext_for_kind_def calculate_encrypted_content_expiry_def require_aware_def
        persistence_guard_def tryS_def enc add)
  then show ?thesis by blast
qed

lemma stored_content_readable:
  fixes s :: "'d content_db_scheme session" and w :: "('d content_db_scheme, 'w) world_scheme"
  assumes ok: "storing_ok cy sk"
    and store: "encrypt_and_persist cy content tenant kind encoding plaintext created s = (Inr c, s')"
    and committed: "w_db w = se_db s'" and purpose: "purpose \<in> set (PURPOSES_BY_KIND kind)" and at: "aware at"
    and actor: "actor_ok (ao_actor_type origin) (ao_actor_id origin)"
    and fresh: "event_id \<notin> ae_id ` set (ad_events (w_db w))"
  shows "\<exists>d w'. load_and_decrypt cy tenant content purpose at origin event_id w = (Inr d, w') \<and>
    dc_plaintext d = plaintext \<and> dc_kind d = kind \<and> dc_encoding d = encoding"
proof -
  obtain dk where sealed: "sealed cy dk plaintext c" and ids: "ec_id c = content" "ec_tenant_id c = tenant"
    "ec_kind c = kind" "ec_encoding c = encoding" and
    checks: "content_row_checks (encrypted_content_to_row c)" and
    found: "find (\<lambda>x. ecr_id x = content) (cd_contents (w_db w)) = Some (encrypted_content_to_row c)"
    using encrypt_and_persist_stores [OF store] committed by auto
  let ?d = "\<lparr>dc_kind = kind, dc_encoding = encoding, dc_plaintext_byte_length = int (length plaintext),
    dc_plaintext = plaintext\<rparr>"
  have correct: "aead_correct (cy_aead cy)" and keys: "cy_keys cy = static_key_provider (cy_aead cy) sk"
    and fmt: "key_version_format (sk_active_version sk)"
    and init: "StaticKeyProvider_init (sk_keys_by_version sk) (sk_active_version sk) = Inr sk"
    using ok by (auto simp: storing_ok_def)
  have d: "decrypt_content cy c = Inr ?d"
    using sealed_opens [OF correct _ _ sealed] static_provider_correct [OF correct init]
      key_version_format_validates(1) [OF fmt] ids by (simp add: keys static_key_provider_def)
  have dom: "encrypted_content_to_domain (encrypted_content_to_row c) = Inr c"
    using sealed content_row_roundtrip by (simp add: sealed_def)
  have "key_version_format (ec_key_version c)"
    using checks by (simp add: content_row_checks_def encrypted_content_to_row_def)
  then obtain e where e: "content_encrypted_accessed_event (ec_kind c) purpose (ec_key_version c) tenant content
      at origin event_id = Inr e"
    using accessed_event_built [OF _ at actor] by blast
  have "ae_id e = event_id" using accessed_event_recorded [OF e] by (simp add: access_recorded_def)
  then have "\<exists>s''. decrypt_in_session cy tenant content purpose at origin event_id (open_session w) = (Inr ?d, s'')"
    unfolding decrypt_in_session_Inr using found dom d e purpose fresh ids
    by (auto simp: encrypted_content_to_row_def)
  then obtain s'' where "decrypt_in_session cy tenant content purpose at origin event_id (open_session w) = (Inr ?d, s'')" ..
  then have "load_and_decrypt cy tenant content purpose at origin event_id w = (Inr ?d, close_session s'' w)"
    using at by (simp add: load_and_decrypt_def bindS_def ensure_def transaction_def)
  then show ?thesis by auto
qed

text \<open>
  C36.
  Stored content can be read back. For an active tenant and a plaintext within the size limit of its
  kind, under an unused identifier, \<open>encrypt_and_persist\<close> succeeds (the database accepts the row), and
  after the commit \<open>load_and_decrypt\<close> for a purpose the kind permits returns the plaintext, with its
  kind and encoding, provided the access can be recorded (an admissible actor, an unused event
  identifier). The key provider has static keys whose active version has the format the database
  requires; the primitive and the random source behave as documented.
\<close>

theorem content_roundtrip:
  fixes s :: "'d content_db_scheme session"
  assumes "storing_ok cy sk"
    and "plaintext \<noteq> []" and "length plaintext \<le> max_plaintext_bytes_for_kind kind" and "aware created"
    and "find (\<lambda>t. tn_id t = tenant) (cd_tenants (se_db s)) = Some tn" and "tn_status tn = TS_ACTIVE"
    and "RetentionPolicy_post_init (tn_retention_policy tn) = Inr policy"
    and "flush_contents (cd_contents (se_db s)) = Inr ()" and "content \<notin> ecr_id ` set (cd_contents (se_db s))"
  shows "\<exists>c s'. encrypt_and_persist cy content tenant kind encoding plaintext created s = (Inr c, s') \<and>
    (\<forall>(w :: ('d content_db_scheme, 'w) world_scheme) purpose at origin event_id.
       w_db w = se_db s' \<longrightarrow> purpose \<in> set (PURPOSES_BY_KIND kind) \<longrightarrow> aware at \<longrightarrow>
       actor_ok (ao_actor_type origin) (ao_actor_id origin) \<longrightarrow> event_id \<notin> ae_id ` set (ad_events (w_db w)) \<longrightarrow>
       (\<exists>d w'. load_and_decrypt cy tenant content purpose at origin event_id w = (Inr d, w') \<and>
          dc_plaintext d = plaintext \<and> dc_kind d = kind \<and> dc_encoding d = encoding))"
proof -
  obtain c s' where store: "encrypt_and_persist cy content tenant kind encoding plaintext created s = (Inr c, s')"
    using encrypt_and_persist_succeeds [OF assms] by blast
  then show ?thesis using stored_content_readable [OF assms(1) store] by blast
qed

lemma rewrapped_event_built:
  assumes "key_version_format v" and "key_version_format v'" and "aware at"
    and "actor_ok (ao_actor_type origin) (ao_actor_id origin)"
  shows "\<exists>e. content_key_rewrapped_event k v v' t c at origin i = Inr e \<and> ae_id e = i"
proof -
  let ?items = "tenant_metadata [(''content_kind'', MV_Str (content_kind_value k)), (''key_version_code'', MV_Str v'),
    (''previous_status'', MV_Str v), (''new_status'', MV_Str v')]"
  have d: "distinct (map fst ?items)" by (simp add: tenant_metadata_def)
  have ok: "list_all metadata_item_ok ?items"
    using key_version_value_ok [OF assms(1)] key_version_value_ok [OF assms(2)] kind_value_ok accessed_keys_ok
    by (simp add: tenant_metadata_def metadata_item_ok_def)
  show ?thesis
    unfolding content_key_rewrapped_event_def content_event_def build_tenant_event [OF d ok assms(3,4)] by simp
qed

lemma rewrap_data_key_succeeds:
  assumes ok: "storing_ok cy sk" and before: "decrypt_content cy c = Inr d"
  shows "\<exists>w s'. rewrap_data_key cy c s = (Inr w, s') \<and> se_db s' = se_db s \<and> wk_wrapped_data_key w \<noteq> [] \<and>
    length (wk_key_wrap_nonce w) = 12 \<and> wk_key_version w = sk_active_version sk"
proof -
  let ?v = "sk_active_version sk" and ?n = "cy_random cy (se_draws s) 12"
  have total: "aead_total (cy_aead cy)" and rand: "\<And>i n. length (cy_random cy i n) = n"
    and keys: "cy_keys cy = static_key_provider (cy_aead cy) sk" and fmt: "key_version_format ?v"
    and init: "StaticKeyProvider_init (sk_keys_by_version sk) ?v = Inr sk"
    using ok by (auto simp: storing_ok_def)
  obtain dk where dk: "kp_unwrap_data_key (cy_keys cy) (ec_tenant_id c) (ec_id c) (ec_aad_version c)
      (ec_wrapped_data_key c) (ec_key_wrap_nonce c) (ec_key_version c) = Inr dk"
    using before unfolding decrypt_content_Inr by blast
  obtain k where k: "map_of (sk_keys_by_version sk) ?v = Some k" and "length k = 32" and ne: "?v \<noteq> []"
    using static_active_key [OF init] by blast
  then obtain wk where wk: "aead_encrypt (cy_aead cy) k ?n dk
      (build_key_wrap_aad (ec_tenant_id c) (ec_id c) ?v (ec_aad_version c)) = Some wk" "wk \<noteq> []"
    using total rand unfolding aead_total_def by blast
  have "rewrap_data_key cy c s = (Inr \<lparr>wk_wrapped_data_key = wk, wk_key_wrap_nonce = ?n, wk_key_version = ?v\<rparr>,
      s\<lparr>se_draws := Suc (se_draws s)\<rparr>)"
    using dk wk k ne rand key_version_format_validates(2) [OF fmt]
    by (simp add: rewrap_data_key_def generate_bytes_def bindS_def lift_result_def draw_def keys Let_def
        static_key_provider_def static_wrap_data_key_def static_encrypt_def resolve_key_material_def unavailable_def
        GCM_NONCE_SIZE_BYTES_def WrappedDataKey_post_init_def validate_non_empty_bytes_def validate_exact_byte_length_def)
  then show ?thesis using wk(2) rand by simp
qed

lemma replace_wrapped_key_succeeds:
  fixes s :: "'d content_db_scheme session"
  assumes row: "find_content tenant content (se_db s) = Some row"
    and table: "flush_contents (cd_contents (se_db s)) = Inr ()"
    and w: "wk_wrapped_data_key w \<noteq> []" "length (wk_key_wrap_nonce w) = 12" "key_version_format (wk_key_version w)"
  shows "\<exists>s'. replace_wrapped_key tenant content w s = (Inr (), s') \<and> ad_events (se_db s') = ad_events (se_db s)"
proof -
  let ?f = "\<lambda>x. if ecr_id x = ecr_id row then apply_wrapped_data_key x w else x"
  have fit: "content_columns_fit x \<Longrightarrow> content_columns_fit (?f x)" "content_row_checks x \<Longrightarrow> content_row_checks (?f x)" for x
    using w by (simp_all add: content_columns_fit_def content_row_checks_def apply_wrapped_data_key_def
        key_version_format_def GCM_NONCE_SIZE_BYTES_def)
  have ids: "map ecr_id (map ?f xs) = map ecr_id xs" for xs by (simp add: apply_wrapped_data_key_def)
  have "flush_contents (map ?f (cd_contents (se_db s))) = Inr ()"
    using table fit unfolding flush_contents_Inr ids list_all_iff set_map by blast
  then have "write_contents (\<lambda>db. map ?f (cd_contents db)) s =
      (Inr (), s\<lparr>se_db := (se_db s)\<lparr>cd_contents := map ?f (cd_contents (se_db s))\<rparr>\<rparr>)"
    unfolding write_contents_Inr by simp
  then show ?thesis using row by (simp add: replace_wrapped_key_def bindS_def query_def)
qed

lemma rewrap_succeeds:
  fixes s :: "'d content_db_scheme session"
  assumes ok: "storing_ok cy sk" and at: "aware at" and actor: "actor_ok (ao_actor_type origin) (ao_actor_id origin)"
    and fresh: "event_id \<notin> ae_id ` set (ad_events (se_db s))"
    and table: "flush_contents (cd_contents (se_db s)) = Inr ()"
    and row: "find_content tenant content (se_db s) = Some row" "encrypted_content_to_domain row = Inr c"
    and before: "decrypt_content cy c = Inr d"
  shows "\<exists>updated s'. rewrap_content_key cy tenant content at origin event_id s = (Inr updated, s')"
proof -
  have fmt: "key_version_format (sk_active_version sk)" using ok by (simp add: storing_ok_def)
  obtain w s1 where rewrap: "rewrap_data_key cy c s = (Inr w, s1)" and s1: "se_db s1 = se_db s" and
    w: "wk_wrapped_data_key w \<noteq> []" "length (wk_key_wrap_nonce w) = 12" "wk_key_version w = sk_active_version sk"
    using rewrap_data_key_succeeds [OF ok before] by blast
  obtain s2 where replace: "replace_wrapped_key tenant content w s1 = (Inr (), s2)" and
    s2: "ad_events (se_db s2) = ad_events (se_db s)"
    using replace_wrapped_key_succeeds [of tenant content s1 row w] row(1) table w fmt s1 by auto
  let ?c = "c\<lparr>ec_wrapped_data_key := wk_wrapped_data_key w, ec_key_wrap_nonce := wk_key_wrap_nonce w,
    ec_key_version := wk_key_version w\<rparr>"
  have c: "EncryptedContent_post_init c = Inr c"
    using row(2) content_post_init_again
    by (auto simp: encrypted_content_to_domain_def split: option.splits bool.splits)
  have upd: "EncryptedContent_post_init ?c = Inr ?c"
    using c w key_version_format_validates(2) [OF fmt] unfolding content_post_init_Inr_iff by auto
  have "row \<in> set (cd_contents (se_db s))" using row(1) by (auto simp: find_content_def find_Some_iff)
  then have prev: "key_version_format (ec_key_version c)"
    using table content_row_version [OF row(2)] key_version_format_validates(1)
    by (auto simp: flush_contents_Inr list_all_iff content_row_checks_def)
  obtain e where e: "content_key_rewrapped_event (ec_kind c) (ec_key_version c) (sk_active_version sk) tenant content
      at origin event_id = Inr e" "ae_id e = event_id"
    using rewrapped_event_built [OF prev fmt at actor] by blast
  obtain s3 where audit: "content_audit (Inr e) s2 = (Inr (), s3)"
    using fresh e(2) s2 by (auto simp: content_audit_Inr)
  have "rewrap_content_key cy tenant content at origin event_id s = (Inr ?c, s3)"
    using at row rewrap replace upd e(1) audit w(3)
    by (simp add: rewrap_content_key_def bindS_def ensure_def content_get_for_update_def query_def row_to_content_def
        lift_result_def tryS_def)
  then show ?thesis by blast
qed

text \<open>
  C35.
  Key rotation keeps contents readable. On a stored content that can be decrypted,
  \<open>rewrap_content_key\<close> succeeds (given an admissible actor and an unused event identifier); the
  returned content and its stored row name the active key version, the row is changed in its wrapped
  key, nonce and key version only, and the content decrypts to the same plaintext, also after every
  key but the active one has been removed from the provider.
\<close>

theorem rewrap_keeps_plaintext:
  fixes s :: "'d content_db_scheme session"
  assumes ok: "storing_ok cy sk" and retired: "storing_ok cy' sk'" "cy_aead cy' = cy_aead cy"
      "sk_active_version sk' = sk_active_version sk"
      "map_of (sk_keys_by_version sk') (sk_active_version sk) = map_of (sk_keys_by_version sk) (sk_active_version sk)"
    and "aware at" and "actor_ok (ao_actor_type origin) (ao_actor_id origin)"
    and "event_id \<notin> ae_id ` set (ad_events (se_db s))"
    and "flush_contents (cd_contents (se_db s)) = Inr ()"
    and row: "find_content tenant content (se_db s) = Some row" "encrypted_content_to_domain row = Inr c"
    and before: "decrypt_content cy c = Inr d"
  shows "\<exists>updated s' w. rewrap_content_key cy tenant content at origin event_id s = (Inr updated, s') \<and>
    ec_key_version updated = sk_active_version sk \<and> decrypt_content cy' updated = Inr d \<and>
    find_content tenant content (se_db s') = Some (apply_wrapped_data_key row w) \<and>
    encrypted_content_to_domain (apply_wrapped_data_key row w) = Inr updated"
proof -
  obtain updated s' where run: "rewrap_content_key cy tenant content at origin event_id s = (Inr updated, s')"
    using rewrap_succeeds [OF ok assms(6-9) row before] by blast
  have correct: "aead_correct (cy_aead cy)" and keys: "cy_keys cy = static_key_provider (cy_aead cy) sk"
    and init: "StaticKeyProvider_init (sk_keys_by_version sk) (sk_active_version sk) = Inr sk"
    and strip: "strip (sk_active_version sk) = sk_active_version sk"
    using ok key_version_format_validates(1) by (auto simp: storing_ok_def)
  have init': "StaticKeyProvider_init (sk_keys_by_version sk') (sk_active_version sk) = Inr sk'"
    and keys': "cy_keys cy' = static_key_provider (cy_aead cy) sk'"
    using retired by (auto simp: storing_ok_def)
  have "decrypt_content (cy\<lparr>cy_keys := static_key_provider (cy_aead cy) sk'\<rparr>) updated = decrypt_content cy' updated"
    by (simp add: decrypt_content_def keys' retired(2))
  then show ?thesis
    using run rewrap_run_keeps_plaintext [OF correct init keys strip init' retired(4) run row before] by auto
qed

section \<open>An example\<close>

text \<open>
  A transparent stand-in for the primitive, which satisfies the documented laws: the ciphertext is
  the associated data with its length in unary, followed by the data.
\<close>

definition example_aead :: aead where
  "example_aead =
     \<lparr>aead_encrypt = (\<lambda>key nonce data ad. Some (replicate (length ad) 1 @ [0] @ ad @ data)),
      aead_decrypt = (\<lambda>key nonce c ad.
        let n = length (takeWhile (\<lambda>b. b = 1) c); rest = drop (Suc n) c in
        if take n rest = ad then Some (drop n rest) else None)\<rparr>"

definition example_keys :: static_keys where
  "example_keys = \<lparr>sk_keys_by_version = [(''v1'', replicate 32 7), (''v2'', replicate 32 9)], sk_active_version = ''v1''\<rparr>"

definition example_cy :: cryptography where
  "example_cy = \<lparr>cy_aead = example_aead, cy_keys = static_key_provider example_aead example_keys,
     cy_random = (\<lambda>i n. replicate n (word_of_nat i))\<rparr>"

definition example_db :: content_db where
  "example_db = \<lparr>ad_events = [],
     cd_tenants = [\<lparr>tn_id = 2, tn_status = TS_ACTIVE, tn_retention_policy =
       \<lparr>rp_raw_message_days = 30, rp_sanitized_message_days = 90, rp_ai_output_days = 90, rp_audit_log_days = 365,
        rp_backup_days = 30, rp_post_contract_deletion_days = 30\<rparr>\<rparr>],
     cd_contents = []\<rparr>"

definition example_session :: "content_db session" where
  "example_session = \<lparr>se_db = example_db, se_saved = example_db, se_draws = 0\<rparr>"

definition example_origin :: audit_origin where
  "example_origin = \<lparr>ao_actor_type = AT_USER, ao_actor_id = Some 5, ao_correlation_id = 6\<rparr>"

lemma example_aead_laws:
  "aead_total example_aead" "aead_correct example_aead" "aead_authentic example_aead"
proof -
  have "takeWhile (\<lambda>b. b = 1) (replicate n 1 @ 0 # x) = replicate n (1 :: byte)" for n x
    by (induction n) simp_all
  then show "aead_total example_aead" "aead_correct example_aead" "aead_authentic example_aead"
    by (auto simp: aead_total_def aead_correct_def aead_authentic_def example_aead_def)
qed

lemma example_storing_ok: "storing_ok example_cy example_keys"
proof -
  have "StaticKeyProvider_init (sk_keys_by_version example_keys) (sk_active_version example_keys) = Inr example_keys"
    by (simp add: example_keys_def StaticKeyProvider_init_def DATA_ENCRYPTION_KEY_SIZE_BYTES_def)
  moreover have "key_version_format (sk_active_version example_keys)" by code_simp
  ultimately show ?thesis
    using example_aead_laws by (simp add: storing_ok_def example_cy_def)
qed

lemma example_tenant:
  "\<exists>tn policy. find (\<lambda>t. tn_id t = 2) (cd_tenants (se_db example_session)) = Some tn \<and> tn_status tn = TS_ACTIVE \<and>
     RetentionPolicy_post_init (tn_retention_policy tn) = Inr policy"
  by (simp add: example_session_def example_db_def RetentionPolicy_post_init_def validate_retention_days_def)

lemma example_table:
  "flush_contents (cd_contents (se_db example_session)) = Inr ()"
  "1 \<notin> ecr_id ` set (cd_contents (se_db example_session))"
  by (simp_all add: example_session_def example_db_def flush_contents_def)

lemma example_plaintext:
  "[104, 105] \<noteq> ([] :: bytes)" "length [104, 105 :: byte] \<le> max_plaintext_bytes_for_kind CK_RAW_MESSAGE"
  "aware (Aware 0)"
  by simp_all

lemma example_stored:
  "\<exists>c s'. encrypt_and_persist example_cy 1 2 CK_RAW_MESSAGE ENC_UTF8 [104, 105] (Aware 0) example_session = (Inr c, s')"
proof -
  obtain tn policy where "find (\<lambda>t. tn_id t = 2) (cd_tenants (se_db example_session)) = Some tn"
    "tn_status tn = TS_ACTIVE" "RetentionPolicy_post_init (tn_retention_policy tn) = Inr policy"
    using example_tenant by blast
  from encrypt_and_persist_succeeds [OF example_storing_ok example_plaintext this example_table]
  show ?thesis .
qed

lemma example_origin_ok: "actor_ok (ao_actor_type example_origin) (ao_actor_id example_origin)"
  by (simp add: actor_ok_def example_origin_def)

lemma encrypt_and_persist_events:
  "encrypt_and_persist cy i t k e pt at s = (Inr c, s') \<Longrightarrow> ad_events (se_db s') = ad_events (se_db s)"
  unfolding encrypt_and_persist_def load_active_tenant_def
  by (auto elim!: bindS_InrE simp: content_add_def write_contents_Inr dest!: encrypt_plaintext_sealed
      split: if_splits option.splits)

lemma example_read:
  "\<exists>c s' d w'. encrypt_and_persist example_cy 1 2 CK_RAW_MESSAGE ENC_UTF8 [104, 105] (Aware 0) example_session = (Inr c, s') \<and>
     load_and_decrypt example_cy 2 1 CP_REDACTION (Aware 1) example_origin 9 \<lparr>w_db = se_db s', w_draws = 0\<rparr> = (Inr d, w') \<and>
     dc_plaintext d = [104, 105] \<and> dc_kind d = CK_RAW_MESSAGE \<and> ad_events (se_db s') = []"
proof -
  obtain c s' where store: "encrypt_and_persist example_cy 1 2 CK_RAW_MESSAGE ENC_UTF8 [104, 105] (Aware 0) example_session = (Inr c, s')"
    using example_stored by blast
  let ?w = "\<lparr>w_db = se_db s', w_draws = 0\<rparr>"
  have ev: "ad_events (se_db s') = []"
    using encrypt_and_persist_events [OF store] by (simp add: example_session_def example_db_def)
  have "9 \<notin> ae_id ` set (ad_events (w_db ?w))" using ev by simp
  with stored_content_readable [OF example_storing_ok store, of ?w CP_REDACTION "Aware 1" example_origin 9] example_origin_ok
  obtain d w' where "load_and_decrypt example_cy 2 1 CP_REDACTION (Aware 1) example_origin 9 ?w = (Inr d, w')"
    "dc_plaintext d = [104, 105]" "dc_kind d = CK_RAW_MESSAGE" by auto
  with store ev show ?thesis by blast
qed

theorem content_access_controlled_witness:
  "\<exists>c s' d w' event.
     encrypt_and_persist example_cy 1 2 CK_RAW_MESSAGE ENC_UTF8 [104, 105] (Aware 0) example_session = (Inr c, s') \<and>
     load_and_decrypt example_cy 2 1 CP_REDACTION (Aware 1) example_origin 9 \<lparr>w_db = se_db s', w_draws = 0\<rparr> = (Inr d, w') \<and>
     dc_plaintext d = [104, 105] \<and> ad_events (w_db w') = [event] \<and>
     access_recorded CK_RAW_MESSAGE CP_REDACTION 2 1 9 event"
proof -
  obtain c s' d w' where
    store: "encrypt_and_persist example_cy 1 2 CK_RAW_MESSAGE ENC_UTF8 [104, 105] (Aware 0) example_session = (Inr c, s')" and
    run: "load_and_decrypt example_cy 2 1 CP_REDACTION (Aware 1) example_origin 9 \<lparr>w_db = se_db s', w_draws = 0\<rparr> = (Inr d, w')"
    and d: "dc_plaintext d = [104, 105]" "dc_kind d = CK_RAW_MESSAGE" and ev: "ad_events (se_db s') = []"
    using example_read by blast
  obtain event where "access_recorded (dc_kind d) CP_REDACTION 2 1 9 event"
    "w_db w' = (se_db s')\<lparr>ad_events := ad_events (se_db s') @ [event]\<rparr>"
    using content_access_controlled [OF run] by auto
  then show ?thesis using store run d ev by auto
qed

theorem content_bound_to_identity_witness:
  "\<exists>c s' m. encrypt_plaintext example_cy 1 2 CK_RAW_MESSAGE ENC_UTF8 [104, 105] (Aware 0) (Aware 1) 1 example_session = (Inr c, s') \<and>
     decrypt_content example_cy (c\<lparr>ec_tenant_id := 3\<rparr>) = Inl (ContentUnavailableError m)"
proof -
  have "aware (Aware 0)" "aware (Aware 1)" "Aware 0 \<le> Aware 1" by simp_all
  from encrypt_plaintext_succeeds [OF example_storing_ok example_plaintext(1,2) this]
  obtain c s' where enc: "encrypt_plaintext example_cy 1 2 CK_RAW_MESSAGE ENC_UTF8 [104, 105] (Aware 0) (Aware 1) 1 example_session = (Inr c, s')"
    by blast
  have laws: "aead_correct (cy_aead example_cy)" "aead_authentic (cy_aead example_cy)"
    and keys: "cy_keys example_cy = static_key_provider (cy_aead example_cy) example_keys"
    using example_aead_laws by (simp_all add: example_cy_def)
  have init: "StaticKeyProvider_init (sk_keys_by_version example_keys) (sk_active_version example_keys) = Inr example_keys"
    and strip: "strip (sk_active_version example_keys) = sk_active_version example_keys"
    using example_storing_ok key_version_format_validates(1) unfolding storing_ok_def by blast+
  from content_bound_to_identity [OF laws init keys strip enc, of "c\<lparr>ec_tenant_id := 3\<rparr>"]
  show ?thesis using enc by auto
qed

definition rotated_keys :: static_keys where
  "rotated_keys = \<lparr>sk_keys_by_version = [(''v1'', replicate 32 7), (''v2'', replicate 32 9)], sk_active_version = ''v2''\<rparr>"

definition retired_keys :: static_keys where
  "retired_keys = \<lparr>sk_keys_by_version = [(''v2'', replicate 32 9)], sk_active_version = ''v2''\<rparr>"

definition cy_with :: "static_keys \<Rightarrow> cryptography" where
  "cy_with sk = example_cy\<lparr>cy_keys := static_key_provider example_aead sk\<rparr>"

lemma rotation_storing_ok: "storing_ok (cy_with rotated_keys) rotated_keys" "storing_ok (cy_with retired_keys) retired_keys"
proof -
  have "key_version_format ''v2''" by code_simp
  then show "storing_ok (cy_with rotated_keys) rotated_keys" "storing_ok (cy_with retired_keys) retired_keys"
    using example_aead_laws
    by (simp_all add: storing_ok_def cy_with_def example_cy_def rotated_keys_def retired_keys_def
        StaticKeyProvider_init_def DATA_ENCRYPTION_KEY_SIZE_BYTES_def)
qed

lemma find_both:
  "find (\<lambda>x. f x = i) xs = Some r \<Longrightarrow> g r = t \<Longrightarrow> find (\<lambda>x. f x = i \<and> g x = t) xs = Some r"
  by (induction xs) (auto split: if_splits)

lemma rotated_decrypt: "decrypt_content (cy_with rotated_keys) c = decrypt_content example_cy c"
proof -
  have "resolve_key_material rotated_keys v = resolve_key_material example_keys v" for v
    by (simp add: resolve_key_material_def rotated_keys_def example_keys_def)
  then have "static_unwrap_data_key a rotated_keys = static_unwrap_data_key a example_keys" for a
    by (intro ext) (simp add: static_unwrap_data_key_def)
  then show ?thesis
    by (simp add: decrypt_content_def cy_with_def example_cy_def static_key_provider_def)
qed

theorem rewrap_keeps_plaintext_witness:
  "\<exists>c s' updated s'' d. encrypt_and_persist example_cy 1 2 CK_RAW_MESSAGE ENC_UTF8 [104, 105] (Aware 0) example_session = (Inr c, s') \<and>
     rewrap_content_key (cy_with rotated_keys) 2 1 (Aware 1) example_origin 9 s' = (Inr updated, s'') \<and>
     ec_key_version updated = ''v2'' \<and> decrypt_content (cy_with retired_keys) updated = Inr d \<and>
     dc_plaintext d = [104, 105]"
proof -
  obtain c s' where store: "encrypt_and_persist example_cy 1 2 CK_RAW_MESSAGE ENC_UTF8 [104, 105] (Aware 0) example_session = (Inr c, s')"
    using example_stored by blast
  note stored = encrypt_and_persist_stores [OF store]
  then obtain dk where sealed: "sealed example_cy dk [104, 105] c" and table: "flush_contents (cd_contents (se_db s')) = Inr ()"
    by blast
  have found: "find_content 2 1 (se_db s') = Some (encrypted_content_to_row c)"
    unfolding find_content_def by (rule find_both) (use stored in \<open>simp_all add: encrypted_content_to_row_def\<close>)
  have dom: "encrypted_content_to_domain (encrypted_content_to_row c) = Inr c"
    using sealed content_row_roundtrip by (simp add: sealed_def)
  have "key_version_format (sk_active_version example_keys)"
    and "StaticKeyProvider_init (sk_keys_by_version example_keys) (sk_active_version example_keys) = Inr example_keys"
    using example_storing_ok unfolding storing_ok_def by blast+
  then have "decrypt_content example_cy c = Inr \<lparr>dc_kind = ec_kind c, dc_encoding = ec_encoding c,
      dc_plaintext_byte_length = int (length [104, 105 :: byte]), dc_plaintext = [104, 105]\<rparr>"
    using sealed_opens [OF _ _ _ sealed] static_provider_correct [OF example_aead_laws(2)] example_aead_laws(2)
      key_version_format_validates(1) by (simp add: example_cy_def static_key_provider_def)
  then obtain d where d: "decrypt_content (cy_with rotated_keys) c = Inr d" "dc_plaintext d = [104, 105]"
    by (simp add: rotated_decrypt)
  have "9 \<notin> ae_id ` set (ad_events (se_db s'))"
    using encrypt_and_persist_events [OF store] by (simp add: example_session_def example_db_def)
  with rewrap_keeps_plaintext [OF rotation_storing_ok, of "Aware 1" example_origin 9 s' 2 1, OF _ _ _ _ example_origin_ok _ table found dom d(1)]
  show ?thesis using store d(2) by (auto simp: cy_with_def rotated_keys_def retired_keys_def)
qed

theorem content_roundtrip_witness:
  "\<exists>c s' d w'. encrypt_and_persist example_cy 1 2 CK_RAW_MESSAGE ENC_UTF8 [104, 105] (Aware 0) example_session = (Inr c, s') \<and>
     load_and_decrypt example_cy 2 1 CP_REDACTION (Aware 1) example_origin 9 \<lparr>w_db = se_db s', w_draws = 0\<rparr> = (Inr d, w') \<and>
     dc_plaintext d = [104, 105]"
proof -
  obtain tn policy where tn: "find (\<lambda>t. tn_id t = 2) (cd_tenants (se_db example_session)) = Some tn"
    "tn_status tn = TS_ACTIVE" "RetentionPolicy_post_init (tn_retention_policy tn) = Inr policy"
    using example_tenant by blast
  obtain c s' where store: "encrypt_and_persist example_cy 1 2 CK_RAW_MESSAGE ENC_UTF8 [104, 105] (Aware 0) example_session = (Inr c, s')"
    and read: "\<forall>(w :: content_db world) purpose at origin event_id.
       w_db w = se_db s' \<longrightarrow> purpose \<in> set (PURPOSES_BY_KIND CK_RAW_MESSAGE) \<longrightarrow> aware at \<longrightarrow>
       actor_ok (ao_actor_type origin) (ao_actor_id origin) \<longrightarrow> event_id \<notin> ae_id ` set (ad_events (w_db w)) \<longrightarrow>
       (\<exists>d w'. load_and_decrypt example_cy 2 1 purpose at origin event_id w = (Inr d, w') \<and>
          dc_plaintext d = [104, 105] \<and> dc_kind d = CK_RAW_MESSAGE \<and> dc_encoding d = ENC_UTF8)"
    using content_roundtrip [OF example_storing_ok example_plaintext tn example_table] by blast
  have "9 \<notin> ae_id ` set (ad_events (se_db s'))"
    using encrypt_and_persist_events [OF store] by (simp add: example_session_def example_db_def)
  with read [THEN spec, of "\<lparr>w_db = se_db s', w_draws = 0\<rparr>", THEN spec, of CP_REDACTION, THEN spec, of "Aware 1",
      THEN spec, of example_origin, THEN spec, of 9] example_origin_ok store
  show ?thesis by auto
qed

end
