(* ===== verification/Outbound_Effects.thy ===== *)
theory Outbound_Effects
  imports Outbound_Service Content_Laws
begin

text \<open>
  What each operation of outbound messaging does to the table of messages and to the audit trail:
  it leaves the messages alone, adds a draft, or moves one message to another status; the call of
  the provider hands at most one request to the transport.
\<close>

section \<open>Computations that leave messages and trail alone\<close>

definition trail :: "outbound_db \<Rightarrow> outbound_message_row list \<times> audit_event list" where
  "trail db = (ob_messages db, ad_events db)"

definition stable :: "(outbound_db, 'e, 'a) session_comp \<Rightarrow> bool" where
  "stable m \<longleftrightarrow> (\<forall>s. se_saved (snd (m s)) = se_saved s \<and> trail (se_db (snd (m s))) = trail (se_db s))"

named_theorems stable_intros "computations that leave messages and trail alone"

lemma stableD:
  "stable m \<Longrightarrow> m s = (r, s') \<Longrightarrow> se_saved s' = se_saved s \<and> trail (se_db s') = trail (se_db s)"
  by (metis snd_conv stable_def)

lemma stableI:
  "(\<And>s r s'. m s = (r, s') \<Longrightarrow> se_saved s' = se_saved s \<and> trail (se_db s') = trail (se_db s)) \<Longrightarrow> stable m"
  unfolding stable_def by (metis prod.collapse)

lemma stable_uncommitting: "stable m \<Longrightarrow> uncommitting m"
  by (simp add: stable_def uncommitting_def)

lemma stable_basic [stable_intros]:
  "stable (returnS x)" "stable (raiseS e)" "stable (query g)"
  "stable (lift_result r)" "stable (ensure c e')" "stable (draw src)"
  by (simp_all add: stable_def run_simps ensure_def)

lemma stable_modify [stable_intros]:
  assumes "\<And>db db'. f db = Inr db' \<Longrightarrow> trail db' = trail db"
  shows "stable (modify_db f)"
  by (rule stableI) (auto simp: modify_db_def split: sum.splits dest: assms)

lemma stable_bind [stable_intros]:
  assumes "stable m" and "\<And>x. stable (f x)"
  shows "stable (bindS m f)"
  by (rule stableI)
    (auto simp: bindS_def split: prod.splits sum.splits dest!: stableD [OF assms(1)] stableD [OF assms(2)])

lemma stable_try [stable_intros]:
  assumes "stable m" and "\<And>e. stable (h e)" and "\<And>x. stable (f x)"
  shows "stable (tryS m h f)"
  by (rule stableI)
    (auto simp: tryS_def split: prod.splits sum.splits
      dest!: stableD [OF assms(1)] stableD [OF assms(2)] stableD [OF assms(3)])

lemma stable_wrap [stable_intros]:
  assumes "stable m"
  shows "stable (wrap_error g m)"
  by (rule stableI) (auto simp: wrap_error_def split: prod.splits sum.splits dest!: stableD [OF assms])

lemma stable_option [stable_intros]:
  "\<lbrakk>x = None \<Longrightarrow> stable m; \<And>y. x = Some y \<Longrightarrow> stable (f y)\<rbrakk> \<Longrightarrow> stable (case x of None \<Rightarrow> m | Some y \<Rightarrow> f y)"
  by (cases x) simp_all

lemma stable_sum [stable_intros]:
  "\<lbrakk>\<And>e. stable (f e); \<And>y. stable (g y)\<rbrakk> \<Longrightarrow> stable (case x of Inl e \<Rightarrow> f e | Inr y \<Rightarrow> g y)"
  by (cases x) simp_all

lemma stable_if [stable_intros]: "stable m \<Longrightarrow> stable m' \<Longrightarrow> stable (if c then m else m')"
  by simp

lemma changes_stable:
  assumes "changes (bindS m f) s r s'" and "stable m"
  obtains x t where "m s = (Inr x, t)" and "trail (se_db t) = trail (se_db s)" and "changes (f x) t r s'"
  by (rule changes_bindE [OF assms(1) stable_uncommitting [OF assms(2)]])
    (use stableD [OF assms(2)] that in blast)

lemma stable_scoped_get [stable_intros]: "stable (scoped_get id_of tenant_of table t i)"
  unfolding scoped_get_def tenant_scoped_get_def by (intro stable_intros)

lemma stable_manager_scope [stable_intros]: "stable (assert_manager_scope t th u)"
  unfolding assert_manager_scope_def by (intro stable_intros) (auto intro!: stable_intros split: list.splits)

lemma stable_persist_attempt [stable_intros]: "stable (persist_attempt env t m n at out err)"
  unfolding persist_attempt_def attempt_add_def
  by (intro stable_intros) (auto simp: Let_def trail_def split: if_splits)

lemma stable_message_append [stable_intros]: "stable (message_append m)"
  unfolding message_append_def by (intro stable_intros) (auto simp: Let_def trail_def split: if_splits)

lemma stable_status_event_append [stable_intros]: "stable (status_event_append e)"
  unfolding status_event_append_def by (intro stable_intros) (auto simp: Let_def trail_def split: if_splits)

lemma stable_enqueue [stable_intros]: "stable (enqueue_send_job env t m now)"
  unfolding enqueue_send_job_def
  by (intro stable_intros) (auto simp: trail_def split: outbox_repo_error.splits intro!: stable_intros)

lemma stable_connection_for_channel [stable_intros]: "stable (connection_for_channel t c)"
  unfolding connection_for_channel_def connection_list_by_tenant_def by (intro stable_intros)

lemma stable_encrypt [stable_intros]: "stable (encrypt_and_persist cy c t k en p at)"
  unfolding encrypt_and_persist_def load_active_tenant_def persistence_guard_def raise_unavailable_def
    encrypt_plaintext_def generate_bytes_def content_add_def write_contents_def Let_def
  by (intro stable_intros) (auto simp: trail_def bindE_Inr_iff split: if_splits)

lemmas changes_stable_elims [changes_elims] =
  changes_stable [OF _ stable_scoped_get] changes_stable [OF _ stable_persist_attempt]
  changes_stable [OF _ stable_message_append] changes_stable [OF _ stable_status_event_append]
  changes_stable [OF _ stable_enqueue] changes_stable [OF _ stable_connection_for_channel]
  changes_stable [OF _ stable_wrap [OF stable_encrypt]]
  changes_stable [OF _ stable_if [OF stable_manager_scope stable_basic(1)]]

section \<open>Steps of a unit of work that store messages\<close>

definition status_of_row :: "outbound_message_row \<Rightarrow> outbound_message_status option" where
  "status_of_row r = enum_of outbound_status_value outbound_statuses (omr_status r)"

definition put_row :: "outbound_message_row list \<Rightarrow> outbound_message_row \<Rightarrow> outbound_message \<Rightarrow> outbound_message_row list" where
  "put_row rows row m = map (\<lambda>r. if omr_id r = omr_id row then assign_outbound row m else r) rows"

lemma row_to_record_Inr:
  assumes "outbound_row_to_record row = Inr rec"
  shows "om_id rec = omr_id row" and "om_tenant_id rec = omr_tenant_id row"
    and "status_of_row row = Some (om_status rec)" and "om_version rec = omr_version row"
  using assms by (auto simp: outbound_row_to_record_def status_of_row_def split: option.splits)

lemma record_to_domain_Inr:
  assumes "OutboundMessage_post_init c = Inr m"
  shows "om_id m = om_id c" and "om_tenant_id m = om_tenant_id c" and "om_status m = om_status c"
    and "om_version m = om_version c" and "om_kind m = om_kind c"
    and "om_conversation_thread_id m = om_conversation_thread_id c"
    and "om_channel_connection_id m = om_channel_connection_id c"
    and "om_approved_by_user_id m = om_approved_by_user_id c"
  using assms by (auto simp: OutboundMessage_post_init_def bindE_Inr_iff)

lemma domain_Inr: "outbound_record_to_domain c = Inr m \<longleftrightarrow> OutboundMessage_post_init c = Inr m"
  by (auto simp: outbound_record_to_domain_def split: sum.splits)

lemma find_outbound_Some:
  "find_outbound rows t i = Some row \<Longrightarrow> row \<in> set rows \<and> omr_id row = i \<and> omr_tenant_id row = t"
  unfolding find_outbound_def by (auto simp: find_Some_iff)

lemma uncommitting_get: "uncommitting (outbound_get_for_update t i)"
  unfolding outbound_get_for_update_def
  by (intro uncommitting_intros) (auto intro!: uncommitting_intros split: option.splits)

lemma uncommitting_update: "uncommitting (outbound_update m v)"
  unfolding outbound_update_def
  by (intro uncommitting_intros) (auto intro!: uncommitting_intros split: prod.splits)

lemma get_for_update_Inr:
  assumes "outbound_get_for_update t i s = (Inr (Some rec), s')"
  obtains row where "s' = s" and "find_outbound (ob_messages (se_db s)) t i = Some row"
    and "outbound_row_to_record row = Inr rec"
proof -
  from assms obtain row where "find_outbound (ob_messages (se_db s)) t i = Some row"
      "outbound_row_to_record row = Inr rec" "s' = s"
    unfolding outbound_get_for_update_def
    by (elim bindS_InrE) (auto split: option.splits elim!: bindS_InrE)
  then show ?thesis using that by blast
qed

lemma update_Inr:
  assumes "outbound_update m v s = (Inr p, s')"
  obtains row where "find_outbound (ob_messages (se_db s)) (om_tenant_id m) (om_id m) = Some row"
    and "omr_version row = v" and "outbound_row_to_record (assign_outbound row m) = Inr p"
    and "flush_outbound (put_row (ob_messages (se_db s)) row m) = Inr ()"
    and "s' = s\<lparr>se_db := (se_db s)\<lparr>ob_messages := put_row (ob_messages (se_db s)) row m\<rparr>\<rparr>"
proof -
  from assms obtain rows' row' where upd: "update_rows (ob_messages (se_db s)) m v = Inr (rows', row')"
    and s': "s' = s\<lparr>se_db := (se_db s)\<lparr>ob_messages := rows'\<rparr>\<rparr>" and p: "outbound_row_to_record row' = Inr p"
    unfolding outbound_update_def by (auto elim!: bindS_InrE)
  from upd obtain row where "find_outbound (ob_messages (se_db s)) (om_tenant_id m) (om_id m) = Some row"
      "omr_version row = v" "row' = assign_outbound row m" "rows' = put_row (ob_messages (se_db s)) row m"
      "flush_outbound rows' = Inr ()"
    by (auto simp: update_rows_def put_row_def Let_def bindE_Inr_iff split: option.splits if_splits)
  then show ?thesis using s' p by (intro that) simp_all
qed

lemma changes_get [changes_elims]:
  assumes "changes (bindS (outbound_get_for_update t i)
    (\<lambda>found. case found of None \<Rightarrow> raiseS e | Some rec \<Rightarrow> f rec)) s r s'"
  obtains row rec where "find_outbound (ob_messages (se_db s)) t i = Some row"
    and "outbound_row_to_record row = Inr rec" and "changes (f rec) s r s'"
proof (rule changes_bindE [OF assms uncommitting_get])
  fix x u
  assume get: "outbound_get_for_update t i s = (Inr x, u)"
    and ch: "changes (case x of None \<Rightarrow> raiseS e | Some rec \<Rightarrow> f rec) u r s'"
  from ch obtain rec where x: "x = Some rec" and "changes (f rec) u r s'" by (elim changes_elims)
  then show thesis using get_for_update_Inr [OF get [unfolded x]] that by metis
qed

lemma changes_update [changes_elims]:
  assumes "changes (bindS (outbound_update m v) f) s r s'"
  obtains row p u where "find_outbound (ob_messages (se_db s)) (om_tenant_id m) (om_id m) = Some row"
    and "omr_version row = v" and "flush_outbound (put_row (ob_messages (se_db s)) row m) = Inr ()"
    and "trail (se_db u) = (put_row (ob_messages (se_db s)) row m, ad_events (se_db s))"
    and "outbound_row_to_record (assign_outbound row m) = Inr p" and "changes (f p) u r s'"
proof (rule changes_bindE [OF assms uncommitting_update])
  fix p u
  assume upd: "outbound_update m v s = (Inr p, u)" and ch: "changes (f p) u r s'"
  obtain row where row: "find_outbound (ob_messages (se_db s)) (om_tenant_id m) (om_id m) = Some row"
      "omr_version row = v" "flush_outbound (put_row (ob_messages (se_db s)) row m) = Inr ()"
      "outbound_row_to_record (assign_outbound row m) = Inr p"
    and u: "u = s\<lparr>se_db := (se_db s)\<lparr>ob_messages := put_row (ob_messages (se_db s)) row m\<rparr>\<rparr>"
    using update_Inr [OF upd] by metis
  have "trail (se_db u) = (put_row (ob_messages (se_db s)) row m, ad_events (se_db s))"
    by (simp add: u trail_def)
  then show thesis using that row ch by blast
qed

lemma conflict_unavailable_Inr:
  "conflict_unavailable m s = (Inr p, s') \<longleftrightarrow> m s = (Inr p, s')"
  by (auto simp: conflict_unavailable_def tryS_def split: prod.splits sum.splits outbound_exc.splits)

lemma changes_conflict [changes_elims]:
  assumes "changes (bindS (conflict_unavailable (outbound_update m v)) f) s r s'"
  obtains "changes (bindS (outbound_update m v) f) s r s'"
proof -
  have "uncommitting (conflict_unavailable (outbound_update m v))"
    unfolding conflict_unavailable_def
    by (intro uncommitting_intros uncommitting_update) (auto intro!: uncommitting_intros split: outbound_exc.splits)
  from changes_bindE [OF assms this] that show thesis
    by (metis (no_types, lifting) bindS_apply(1) changes_def conflict_unavailable_Inr uncommittingD uncommitting_update)
qed

lemma changes_audit [changes_elims]:
  assumes "changes (bindS (append_audit built) f) s r s'"
  obtains ev u where "built = Inr ev" and "trail (se_db u) = (ob_messages (se_db s), ad_events (se_db s) @ [ev])"
    and "changes (f ()) u r s'"
proof -
  have "uncommitting (append_audit built)"
    unfolding append_audit_def append_required_audit_event_def
    by (cases built) (auto intro!: uncommitting_intros)
  then show thesis
  proof (rule changes_bindE [OF assms])
    fix x u
    assume "append_audit built s = (Inr x, u)" and "changes (f x) u r s'"
    then obtain ev where "built = Inr ev" and "u = s\<lparr>se_db := (se_db s)\<lparr>ad_events := ad_events (se_db s) @ [ev]\<rparr>\<rparr>"
        and "changes (f ()) u r s'"
      by (auto simp: append_audit_def append_required_audit_event_def split: sum.splits if_splits)
    then show thesis using that [of ev u] by (simp add: trail_def)
  qed
qed

section \<open>The effect of an operation on messages and trail\<close>

definition trail_extends :: "outbound_db \<Rightarrow> outbound_db \<Rightarrow> bool" where
  "trail_extends db db' \<longleftrightarrow> (\<exists>evs. ad_events db' = ad_events db @ evs)"

definition approval_recorded :: "outbound_db \<Rightarrow> uuid \<Rightarrow> bool" where
  "approval_recorded db m \<longleftrightarrow> (\<exists>ev \<in> set (ad_events db). ae_action ev = ''outbound_message.approved'' \<and>
     at_target_id (ae_target ev) = Some m)"

text \<open>No message changed.\<close>

definition kept :: "outbound_db \<Rightarrow> outbound_db \<Rightarrow> bool" where
  "kept db db' \<longleftrightarrow> ob_messages db' = ob_messages db \<and> trail_extends db db'"

text \<open>A new draft.\<close>

definition drafted :: "outbound_db \<Rightarrow> outbound_db \<Rightarrow> bool" where
  "drafted db db' \<longleftrightarrow> trail_extends db db' \<and>
     (\<exists>row. ob_messages db' = ob_messages db @ [row] \<and> status_of_row row = Some OMS_DRAFT \<and>
        distinct (map omr_id (ob_messages db')))"

text \<open>One message \<open>m\<close> went from a status of \<open>A\<close> to the status \<open>b\<close>.\<close>

definition moved ::
    "outbound_db \<Rightarrow> outbound_db \<Rightarrow> uuid \<Rightarrow> outbound_message_status set \<Rightarrow> outbound_message_status \<Rightarrow> bool" where
  "moved db db' m A b \<longleftrightarrow> trail_extends db db' \<and>
     (\<exists>row a msg. row \<in> set (ob_messages db) \<and> omr_id row = m \<and> status_of_row row = Some a \<and> a \<in> A \<and>
        om_status msg = b \<and> ob_messages db' = put_row (ob_messages db) row msg) \<and>
     (b = OMS_QUEUED \<longrightarrow> approval_recorded db' m)"

lemma outbound_status_of_value [simp]:
  "enum_of outbound_status_value outbound_statuses (outbound_status_value st) = Some st"
  by (cases st) (simp_all add: enum_of_def outbound_statuses_def)

lemma transition_unavailable_Inr: "transition_unavailable q = Inr u \<longleftrightarrow> q = Inr u"
  by (auto simp: transition_unavailable_def split: sum.splits messaging_error.splits)

lemma approval_path_Inr: "approval_path st = Inr () \<longleftrightarrow> st \<in> {OMS_DRAFT, OMS_PENDING_APPROVAL, OMS_APPROVED}"
  by (cases st) (simp_all add: approval_path_def validate_outbound_message_transition_def raise_if_def)

lemma transition_Inr:
  "validate_outbound_message_transition a b = Inr () \<longleftrightarrow> a = b \<or> b \<in> set (OUTBOUND_TRANSITIONS a)"
  by (auto simp: validate_outbound_message_transition_def raise_if_def)

lemma kept_refl [simp]: "kept db db"
  by (simp add: kept_def trail_extends_def)

lemma moved_by_candidate:
  assumes "find_outbound (ob_messages db) t m = Some row" and "outbound_row_to_record row = Inr rec"
    and "outbound_record_to_domain rec = Inr domain"
    and "messaging (OutboundMessage_post_init candidate) = Inr updated"
    and "find_outbound rows (om_tenant_id (outbound_domain_to_record updated))
      (om_id (outbound_domain_to_record updated)) = Some row2"
    and "ob_messages db' = put_row rows row2 (outbound_domain_to_record updated)"
    and "trail_extends db db'" and "rows = ob_messages db"
    and "om_id candidate = om_id domain" and "om_tenant_id candidate = om_tenant_id domain"
    and "om_status domain \<in> A" and "om_status candidate = b"
    and "b = OMS_QUEUED \<longrightarrow> approval_recorded db' m"
  shows "moved db db' m A b"
proof -
  have post: "OutboundMessage_post_init candidate = Inr updated" "OutboundMessage_post_init rec = Inr domain"
    using assms(3,4) by (simp_all add: messaging_def domain_Inr)
  have row: "row \<in> set (ob_messages db)" "omr_id row = m" "omr_tenant_id row = t"
    using find_outbound_Some [OF assms(1)] by simp_all
  have "om_tenant_id updated = t" "om_id updated = m" and upd: "om_status updated = b"
    using record_to_domain_Inr [OF post(1)] record_to_domain_Inr [OF post(2)] row_to_record_Inr [OF assms(2)]
      row assms(9,10,12) by simp_all
  then have same: "row2 = row" using assms(1,5,8) by (simp add: outbound_domain_to_record_def)
  have "status_of_row row = Some (om_status domain)"
    using row_to_record_Inr(3) [OF assms(2)] record_to_domain_Inr(3) [OF post(2)] by simp
  moreover have "ob_messages db' = put_row (ob_messages db) row updated"
    using assms(6,8) by (simp add: same outbound_domain_to_record_def)
  ultimately show ?thesis unfolding moved_def using row assms(7,11,13) upd by blast
qed

lemma approved_event:
  assumes "outbound_message_approved_event t m at origin i = Inr ev"
  shows "ae_action ev = ''outbound_message.approved'' \<and> at_target_id (ae_target ev) = Some m"
  using assms by (auto simp: outbound_message_approved_event_def outbound_event_def build_audit_event_def
      AuditEvent_post_init_def bindE_Inr_iff Let_def split: option.splits)

lemma approve_effect:
  assumes "approve_and_queue env now ca m v w = (r, w')"
  shows "kept (w_db w) (w_db w') \<or>
    moved (w_db w) (w_db w') m {OMS_DRAFT, OMS_PENDING_APPROVAL, OMS_APPROVED} OMS_QUEUED"
proof (cases "intersects (ca_roles ca) SEND_ROLES")
  case True
  note run = assms [unfolded approve_and_queue_def, simplified True if_True not_True_eq_False if_False]
  from run show ?thesis
  proof (cases rule: changes_transaction)
    case same
    then show ?thesis by simp
  next
    case (stored s')
    note w' = stored(2)
    from stored(1) show ?thesis
      apply (elim changes_elims)
       apply (simp_all add: uncommitting_intros)
      apply (rule disjI2, rule moved_by_candidate, assumption, assumption, assumption, assumption, assumption)
             apply (auto simp: trail_def trail_extends_def approval_recorded_def transition_unavailable_Inr
          approval_path_Inr w' dest!: approved_event)
      done
  qed
next
  case False
  then show ?thesis using assms by (auto simp: approve_and_queue_def)
qed

lemma cancel_effect:
  assumes "cancel now ca m v w = (r, w')"
  shows "kept (w_db w) (w_db w') \<or> moved (w_db w) (w_db w') m
    {OMS_DRAFT, OMS_PENDING_APPROVAL, OMS_APPROVED, OMS_QUEUED, OMS_CANCELLED} OMS_CANCELLED"
proof (cases "intersects (ca_roles ca) SEND_ROLES")
  case True
  have status: "st \<in> {OMS_DRAFT, OMS_PENDING_APPROVAL, OMS_APPROVED, OMS_QUEUED, OMS_CANCELLED}"
    if "validate_outbound_message_transition st OMS_CANCELLED = Inr ()" for st
    using that by (cases st) (simp_all add: transition_Inr)
  note run = assms [unfolded cancel_def, simplified True if_True not_True_eq_False if_False]
  from run show ?thesis
  proof (cases rule: changes_transaction)
    case same
    then show ?thesis by simp
  next
    case (stored s')
    note w' = stored(2)
    from stored(1) show ?thesis
      apply (elim changes_elims)
       apply (simp_all add: uncommitting_intros)
      apply (rule disjI2, rule moved_by_candidate, assumption, assumption, assumption, assumption, assumption)
             apply (auto simp: trail_def trail_extends_def transition_unavailable_Inr w' dest!: status)
      done
  qed
next
  case False
  then show ?thesis using assms by (auto simp: cancel_def)
qed

lemma flush_distinct: "flush_outbound rows = Inr () \<Longrightarrow> distinct (map omr_id rows)"
  by (auto simp: flush_outbound_def raise_if_def split: if_splits)

lemma changes_add [changes_elims]:
  assumes "changes (bindS (outbound_add m) f) s r s'"
  obtains u where "flush_outbound (ob_messages (se_db s) @ [outbound_record_to_row m]) = Inr ()"
    and "trail (se_db u) = (ob_messages (se_db s) @ [outbound_record_to_row m], ad_events (se_db s))"
    and "changes (f ()) u r s'"
proof -
  have "uncommitting (outbound_add m)" unfolding outbound_add_def by (intro uncommitting_intros)
  then show thesis
  proof (rule changes_bindE [OF assms])
    fix x u
    assume add: "outbound_add m s = (Inr x, u)" and ch: "changes (f x) u r s'"
    from add have "flush_outbound (ob_messages (se_db s) @ [outbound_record_to_row m]) = Inr ()"
      and "u = s\<lparr>se_db := (se_db s)\<lparr>ob_messages := ob_messages (se_db s) @ [outbound_record_to_row m]\<rparr>\<rparr>"
      by (auto simp: outbound_add_def Let_def bindE_Inr_iff)
    then show thesis using that [of u] ch by (simp add: trail_def)
  qed
qed

lemma create_effect:
  assumes "create_draft env now ca th ch k p en tpl w = (r, w')"
  shows "kept (w_db w) (w_db w') \<or> drafted (w_db w) (w_db w')"
proof (cases "\<not> intersects (ca_roles ca) SEND_ROLES \<or>
    ROLE_ANALYST \<in> set (ca_roles ca) \<and> \<not> intersects (ca_roles ca) PRIVILEGED_SEND_ROLES")
  case False
  have row: "status_of_row (outbound_record_to_row m) = Some (om_status m)" for m
    by (simp add: status_of_row_def outbound_record_to_row_def)
  have draft: "om_status m = OMS_DRAFT"
    if "messaging (OutboundMessage_post_init c) = Inr m" "om_status c = OMS_DRAFT" for c m
    using that record_to_domain_Inr(3) by (simp add: messaging_def)
  from False have "\<not> \<not> intersects (ca_roles ca) SEND_ROLES"
    "\<not> (ROLE_ANALYST \<in> set (ca_roles ca) \<and> \<not> intersects (ca_roles ca) PRIVILEGED_SEND_ROLES)" by auto
  note run = assms [unfolded create_draft_def if_not_P [OF this(1)] if_not_P [OF this(2)]]
  from run show ?thesis
  proof (cases rule: changes_transaction)
    case same
    then show ?thesis by simp
  next
    case (stored s')
    note w' = stored(2)
    from stored(1) show ?thesis
      apply (elim changes_elims)
       apply (simp_all add: uncommitting_intros)
      apply (rule disjI2)
      apply (auto simp: drafted_def trail_def trail_extends_def w' row outbound_domain_to_record_def
          dest: flush_distinct intro: draft)
      done
  qed
next
  case True
  then have "w' = w" using assms by (cases "intersects (ca_roles ca) SEND_ROLES") (simp_all add: create_draft_def)
  then show ?thesis by simp
qed

lemma begin_effect:
  assumes "send_begin policy job w = (r, w')"
  shows "kept (w_db w) (w_db w') \<or>
    moved (w_db w) (w_db w') (ref_resource_id (oj_reference job)) {OMS_QUEUED} OMS_SENDING"
proof (cases "oj_tenant_id job")
  case (Some tenant)
  note run = assms [unfolded send_begin_def Some option.case Let_def]
  from run show ?thesis
  proof (cases rule: changes_transaction)
    case same
    then show ?thesis by simp
  next
    case (stored s')
    note w' = stored(2)
    from stored(1) show ?thesis
      apply (elim changes_elims)
       apply (simp_all add: uncommitting_intros)
      apply (rule disjI2, rule moved_by_candidate, assumption, assumption, assumption, assumption, assumption)
             apply (auto simp: trail_def trail_extends_def outbound_send_may_proceed_def w')
      done
  qed
next
  case None
  then show ?thesis using assms by (auto simp: send_begin_def)
qed

lemma changes_then:
  assumes "changes (bindS m f) s r s'" and "\<And>x. uncommitting (f x)"
  obtains q t where "changes m s q t" and "se_saved s' = se_saved t"
proof -
  obtain q t where m: "m s = (q, t)" by fastforce
  have "se_saved s' = se_saved t"
    using assms(1) m uncommittingD [OF assms(2)]
    by (auto simp: changes_def bindS_def split: sum.splits)
  then show thesis using that m assms(1) by (simp add: changes_def)
qed

lemma settle_as_effect:
  assumes "changes (settle_as env sx current domain candidate outcome code event) s r s'"
    and "find_outbound (ob_messages db) t m = Some row" and "outbound_row_to_record row = Inr current"
    and "outbound_record_to_domain current = Inr domain" and "trail (se_db s) = trail db"
    and "om_id candidate = om_id domain" and "om_tenant_id candidate = om_tenant_id domain"
    and "om_status candidate = b" and "b \<noteq> OMS_QUEUED"
  shows "moved db (se_saved s') m {a. a = b \<or> b \<in> set (OUTBOUND_TRANSITIONS a)} b"
  using assms(1) unfolding settle_as_def
  apply (elim changes_elims)
  apply (rule moved_by_candidate [OF assms(2-4)], assumption, assumption)
  using assms(5-)
  by (auto simp: trail_def trail_extends_def messaging_def transition_Inr dest: record_to_domain_Inr(3))

text \<open>The statuses that a settled message gets.\<close>

definition SETTLED_STATUSES :: "outbound_message_status set" where
  "SETTLED_STATUSES = {OMS_PROVIDER_ACCEPTED, OMS_DELIVERY_UNKNOWN, OMS_FAILED}"

lemma settle_effect:
  assumes "send_settle env actor sx outcome w = (r, w')"
  shows "kept (w_db w) (w_db w') \<or> (\<exists>b \<in> SETTLED_STATUSES.
    moved (w_db w) (w_db w') (om_id (sx_message sx)) {a. a = b \<or> b \<in> set (OUTBOUND_TRANSITIONS a)} b)"
proof -
  note run = assms [unfolded send_settle_def Let_def]
  from run show ?thesis
  proof (cases rule: changes_transaction)
    case same
    then show ?thesis by simp
  next
    case (stored s')
    note w' = stored(2)
    from stored(1) show ?thesis
    proof (cases outcome)
      case (SendAccepted pmid)
      show ?thesis
        using stored(1) unfolding SendAccepted send_outcome.case
        apply (elim changes_elims)
        apply (rule disjI2, rule bexI [where x = OMS_PROVIDER_ACCEPTED])
         apply (unfold w', erule settle_as_effect, simp, assumption, assumption)
             apply (simp_all add: SETTLED_STATUSES_def)
        done
    next
      case (SendError code)
      show ?thesis
      proof (cases "code = ''delivery_unknown''")
        case True
        show ?thesis
          using stored(1) unfolding SendError send_outcome.case if_P [OF True]
          apply (elim changes_get changes_lift)
          apply (erule changes_then)
           apply (rule uncommitting_intros)
          apply (rule disjI2, rule bexI [where x = OMS_DELIVERY_UNKNOWN])
           apply (simp only: w', erule settle_as_effect, simp, assumption, assumption)
               apply (simp_all add: SETTLED_STATUSES_def)
          done
      next
        case False
        show ?thesis
          using stored(1) unfolding SendError send_outcome.case if_not_P [OF False]
          apply (elim changes_get changes_lift)
          apply (erule changes_then)
           apply (rule uncommitting_intros)
          apply (rule disjI2, rule bexI [where x = OMS_FAILED])
           apply (simp only: w', erule settle_as_effect, simp, assumption, assumption)
               apply (simp_all add: SETTLED_STATUSES_def)
          done
      qed
    qed
  qed
qed

section \<open>The provider call\<close>

lemma kept_trans: "kept a b \<Longrightarrow> kept b c \<Longrightarrow> kept a c"
  by (auto simp: kept_def trail_extends_def)

text \<open>A unit of work that stores no message, and one that also hands nothing to the transport.\<close>

definition quiet :: "(outbound_world, 'e, 'a) comp \<Rightarrow> bool" where
  "quiet m \<longleftrightarrow> (\<forall>w r w'. m w = (r, w') \<longrightarrow> kept (w_db w) (w_db w') \<and> ow_sent w' = ow_sent w)"

definition sends_once :: "uuid \<Rightarrow> (outbound_world, 'e, 'a) comp \<Rightarrow> bool" where
  "sends_once i m \<longleftrightarrow> (\<forall>w r w'. m w = (r, w') \<longrightarrow> kept (w_db w) (w_db w') \<and>
     (ow_sent w' = ow_sent w \<or> (\<exists>q. ow_sent w' = ow_sent w @ [(i, q)])))"

lemma quietD: "quiet m \<Longrightarrow> m w = (r, w') \<Longrightarrow> kept (w_db w) (w_db w') \<and> ow_sent w' = ow_sent w"
  unfolding quiet_def by blast

lemma sends_quiet: "quiet m \<Longrightarrow> sends_once i m"
  unfolding quiet_def sends_once_def by blast

lemma transaction_sent: "transaction m w = (r, w') \<Longrightarrow> ow_sent w' = ow_sent w"
  by (auto simp: transaction_def close_session_def split: prod.splits)

lemma quiet_basic: "quiet (returnS x)" "quiet (raiseS e)" "quiet (lift_result q)" "quiet (ensure c e')"
  by (auto simp: quiet_def lift_result_def ensure_def)

lemma sends_return: "sends_once i (returnS x)"
  by (rule sends_quiet) (rule quiet_basic)

lemma quiet_wrap: "quiet m \<Longrightarrow> quiet (wrap_error g m)"
  unfolding quiet_def wrap_error_def by (fastforce split: prod.splits sum.splits)

lemma quiet_transaction:
  assumes "\<And>db0. keeps (kept db0) m"
  shows "quiet (transaction m)"
  unfolding quiet_def using transaction_keeps [OF assms kept_refl] transaction_sent by blast

lemma bindS_runE:
  assumes "bindS m f w = (r, w')"
  obtains (stopped) e where "m w = (Inl e, w')" | (went_on) x w1 where "m w = (Inr x, w1)" and "f x w1 = (r, w')"
  using assms by (auto simp: bindS_def split: prod.splits sum.splits)

lemma sends_bind:
  assumes "quiet m" and "\<And>x. sends_once i (f x)"
  shows "sends_once i (bindS m f)"
  unfolding sends_once_def
proof (intro allI impI)
  fix w r w'
  assume "bindS m f w = (r, w')"
  then show "kept (w_db w) (w_db w') \<and> (ow_sent w' = ow_sent w \<or> (\<exists>q. ow_sent w' = ow_sent w @ [(i, q)]))"
  proof (cases rule: bindS_runE)
    case (stopped e)
    then show ?thesis using quietD [OF assms(1)] by blast
  next
    case (went_on x w1)
    note first = quietD [OF assms(1) went_on(1)]
    have "kept (w_db w1) (w_db w') \<and> (ow_sent w' = ow_sent w1 \<or> (\<exists>q. ow_sent w' = ow_sent w1 @ [(i, q)]))"
      using assms(2) [of x] went_on(2) unfolding sends_once_def by blast
    then show ?thesis using kept_trans [OF conjunct1 [OF first]] first by simp
  qed
qed

lemma quiet_bind:
  assumes "quiet m" and "\<And>x. quiet (f x)"
  shows "quiet (bindS m f)"
  unfolding quiet_def
proof (intro allI impI)
  fix w r w'
  assume "bindS m f w = (r, w')"
  then show "kept (w_db w) (w_db w') \<and> ow_sent w' = ow_sent w"
  proof (cases rule: bindS_runE)
    case (stopped e)
    then show ?thesis using quietD [OF assms(1)] by blast
  next
    case (went_on x w1)
    show ?thesis
      using quietD [OF assms(1) went_on(1)] quietD [OF assms(2) went_on(2)] by (auto elim: kept_trans)
  qed
qed

lemma keeps_content_audit: "keeps (kept db0) (content_audit built)"
  unfolding content_audit_def append_required_audit_event_def
  by (cases built) (auto intro!: keeps_intros keeps_modify simp: kept_def trail_extends_def split: if_splits)

lemma quiet_load: "quiet (load_and_decrypt cy t c p at origin i)"
proof -
  have "keeps (kept db0) (decrypt_in_session cy t c p at origin i)" for db0
    unfolding decrypt_in_session_def content_get_by_id_def row_to_content_def raise_unavailable_def
    by (intro keeps_intros keeps_content_audit)
      (auto intro!: keeps_intros keeps_content_audit yields_tenant_scoped_get yields_try yields_lift split: option.splits content_error.splits)
  then show ?thesis
    unfolding load_and_decrypt_def by (intro quiet_bind quiet_basic quiet_transaction)
qed

lemma quiet_content_for_send: "quiet (transaction (content_for_send env t c))"
proof (rule quiet_transaction)
  fix db0
  show "keeps (kept db0) (content_for_send env t c)"
    unfolding content_for_send_def content_get_by_id_def row_to_content_def
    by (intro keeps_bind yields_wrap yields_tenant_scoped_get)
      (auto intro!: keeps_intros split: option.splits)
qed

lemma sends_post: "sends_once i (post_message env i request)"
  by (auto simp: sends_once_def post_message_def)

lemma sends_content: "sends_once (om_id (sx_message sx)) (send_content env sx d)"
proof -
  have template: "quiet (case om_provider_template_id m of None \<Rightarrow> returnS None
      | Some i \<Rightarrow> transaction (scoped_get pt_id pt_tenant_id ob_templates t i))" for m t
    by (cases "om_provider_template_id m")
      (simp_all add: quiet_basic scoped_get_def quiet_transaction yields_tenant_scoped_get)
  show ?thesis
    unfolding send_content_def Let_def
    by (simp add: sends_bind quiet_basic sends_post template sends_quiet split: option.split)
qed

lemma provider_effect:
  assumes "call_provider env actor sx w = (r, w')"
  shows "kept (w_db w) (w_db w') \<and> (ow_sent w' = ow_sent w \<or>
    (\<exists>q. ow_sent w' = ow_sent w @ [(om_id (sx_message sx), q)]))"
proof -
  have "sends_once (om_id (sx_message sx)) (call_provider env actor sx)"
    unfolding call_provider_def Let_def
    by (auto intro!: sends_bind sends_content quiet_basic quiet_content_for_send quiet_wrap quiet_load
        sends_return split: option.split)
  then show ?thesis using assms unfolding sends_once_def by blast
qed

section \<open>A send that has begun\<close>

lemma transaction_InrE:
  assumes "transaction m w = (Inr x, w')"
  obtains s' where "m (open_session w) = (Inr x, s')" and "w_db w' = se_saved s'"
  using assms that by (auto simp: transaction_def Let_def split: prod.splits)

lemma option_raise_InrE:
  assumes "(case x of None \<Rightarrow> raiseS e | Some y \<Rightarrow> f y) s = (Inr r, s')"
  obtains y where "x = Some y" and "f y s = (Inr r, s')"
  using assms that by (cases x) auto

lemma if_return_InrE:
  assumes "(if c then returnS x else m) s = (Inr r, s')" and "x \<noteq> r"
  obtains "\<not> c" and "m s = (Inr r, s')"
  using assms that by (cases c) auto

lemma connection_for_channel_Inr:
  assumes "connection_for_channel t ch s = (Inr (Some c), s')"
  shows "s' = s \<and> wc_channel_connection_id c = ch"
proof -
  have post: "wc_channel_connection_id d = wc_channel_connection_id rec"
    if "WhatsAppCloudConnection_post_init rec = Inr d" for rec d
    using that by (auto simp: WhatsAppCloudConnection_post_init_def bindE_Inr_iff raise_if_Inr_iff)
  from assms show ?thesis
    unfolding connection_for_channel_def connection_list_by_tenant_def
    by (auto elim!: bindS_InrE split: option.splits dest!: post simp: find_Some_iff)
qed

lemma begin_started:
  assumes "send_begin policy job w = (Inr (Some sx), w')"
  obtains row rec updated where "oj_tenant_id job = Some (sx_tenant_id sx)" and "sx_job sx = job"
    and "find_outbound (ob_messages (w_db w)) (sx_tenant_id sx) (ref_resource_id (oj_reference job)) = Some row"
    and "outbound_row_to_record row = Inr rec" and "outbound_record_to_domain rec = Inr (sx_message sx)"
    and "om_status (sx_message sx) = OMS_QUEUED" and "om_approved_by_user_id (sx_message sx) \<noteq> None"
    and "wc_channel_connection_id (sx_connection sx) = om_channel_connection_id (sx_message sx)"
    and "connection_allows_outbound (wc_status (sx_connection sx))"
    and "find (\<lambda>th. ct_id th = om_conversation_thread_id (sx_message sx)) (ob_threads (w_db w)) = Some (sx_thread sx)"
    and "ct_tenant_id (sx_thread sx) = sx_tenant_id sx"
    and "require_allowed policy (om_kind (sx_message sx))
      (last_customer_inbound_at (sx_tenant_id sx) (om_conversation_thread_id (sx_message sx)) (w_db w))
      (job_occurred_at job) = Inr ()"
    and "moved (w_db w) (w_db w') (ref_resource_id (oj_reference job)) {OMS_QUEUED} OMS_SENDING"
    and "ow_sent w' = ow_sent w"
proof -
  obtain tenant where tenant: "oj_tenant_id job = Some tenant"
    using assms by (cases "oj_tenant_id job") (auto simp: send_begin_def)
  note run = assms [unfolded send_begin_def tenant option.case Let_def]
  note sent = transaction_sent [OF run]
  from run show thesis
    apply (elim transaction_InrE bindS_InrE option_raise_InrE)
    apply (erule if_return_InrE, simp)
    apply (elim bindS_InrE option_raise_InrE)
    apply (clarsimp simp: scoped_get_def tenant_scoped_get_Inr dest!: connection_for_channel_Inr)
    apply (erule get_for_update_Inr)
    apply (erule update_Inr)
    apply (simp add: is_ok_iff)
    apply (rule that)
                 apply (simp_all add: tenant sent outbound_send_may_proceed_def)
    apply (rule moved_by_candidate, assumption, assumption, assumption, assumption, assumption)
           apply (simp_all add: trail_extends_def)
    done
qed

end
