(* ===== verification/Outbound_Sample.thy ===== *)
theory Outbound_Sample
  imports Outbound_Service Content_Laws
begin

text \<open>
  An example for outbound messaging, which the witnesses of \<open>Outbound_Safety\<close> use: a queued and
  approved free-form message of a tenant whose connection is active, in a thread whose customer
  wrote ten seconds before; the provider accepts the request.
\<close>

definition sample_row :: outbound_message_row where
  "sample_row =
     \<lparr>omr_id = 1, omr_tenant_id = 2, omr_conversation_thread_id = 3, omr_channel_connection_id = 4,
      omr_kind = ''free_form_text'', omr_status = ''queued'', omr_encrypted_content_id = 5,
      omr_provider_template_id = None, omr_created_by_user_id = 6, omr_approved_by_user_id = Some 7,
      omr_provider_message_id = None, omr_failure_code = None, omr_created_at = Aware 0,
      omr_approved_at = Some (Aware 1), omr_queued_at = Some (Aware 1), omr_sent_at = None,
      omr_completed_at = None, omr_updated_at = Aware 1, omr_version = 2\<rparr>"

definition sample_connection :: whatsapp_connection_row where
  "sample_connection =
     \<lparr>wcr_id = 8, wcr_tenant_id = 2, wcr_channel_connection_id = 4, wcr_app_id = ''1'', wcr_waba_id = ''2'',
      wcr_phone_number_id = ''3'', wcr_display_phone_number = None, wcr_graph_api_version = ''v21.0'',
      wcr_access_token_ref = Some ''A'', wcr_app_secret_ref = Some ''S'', wcr_verify_token_ref = Some ''V'',
      wcr_status = ''active'', wcr_webhook_subscription_status = ''subscribed'',
      wcr_capabilities = [''inbound_text''], wcr_webhook_public_key = replicate 32 CHR ''a'',
      wcr_created_at = Aware 0, wcr_updated_at = Aware 0, wcr_last_verified_at = None, wcr_version = 1\<rparr>"

definition sample_encrypted :: encrypted_content where
  "sample_encrypted =
     \<lparr>ec_id = 5, ec_tenant_id = 2, ec_kind = CK_OUTBOUND_MESSAGE, ec_encoding = ENC_UTF8,
      ec_ciphertext = [104, 105], ec_content_nonce = replicate 12 0, ec_wrapped_data_key = replicate 32 0,
      ec_key_wrap_nonce = replicate 12 0, ec_key_version = ''v1'', ec_aad_version = 1,
      ec_plaintext_byte_length = 2, ec_created_at = Aware 0, ec_expires_at = Aware 1\<rparr>"

definition sample_inbound :: message where
  "sample_inbound =
     \<lparr>m_id = 10, m_tenant_id = 2, m_conversation_thread_id = 3, m_external_message_id = ''x'',
      m_sender_type = ST_CUSTOMER, m_direction = MD_INBOUND, m_sent_at = Aware 0, m_received_at = Aware 0,
      m_content_id = None, m_reply_to_message_id = None, m_adapter_metadata = \<lparr>am_entries = []\<rparr>\<rparr>"

definition sample_approval :: audit_event where
  "sample_approval =
     \<lparr>ae_id = 11, ae_scope = AUD_TENANT, ae_tenant_id = Some 2,
      ae_actor = \<lparr>aa_actor_type = AT_USER, aa_actor_id = Some 7\<rparr>, ae_action = ''outbound_message.approved'',
      ae_target = \<lparr>at_target_type = ''outbound_message'', at_target_id = Some 1\<rparr>, ae_occurred_at = Aware 1,
      ae_correlation_id = 12, ae_metadata = []\<rparr>"

definition sample_send_world :: outbound_world where
  "sample_send_world =
     \<lparr>w_db = \<lparr>ad_events = [sample_approval], cd_tenants = [], cd_contents = [encrypted_content_to_row sample_encrypted],
        cn_channels = [], cn_connections = [sample_connection], ob_messages = [sample_row],
        ob_attempts = [], ob_canonical = [sample_inbound], ob_status_events = [], ob_jobs = [],
        ob_threads = [\<lparr>ct_id = 3, ct_tenant_id = 2, ct_external_conversation_id = ''49'',
          ct_adapter_metadata = \<lparr>am_entries = []\<rparr>\<rparr>],
        ob_assignments = [], ob_templates = []\<rparr>,
      w_draws = 20, ow_sent = []\<rparr>"

definition sample_send_job :: outbox_job where
  "sample_send_job =
     \<lparr>oj_id = 13, oj_tenant_id = Some 2, oj_job_kind = JK_PROVIDER_MESSAGE_SEND,
      oj_reference = \<lparr>ref_resource_type = ''outbound_message'', ref_resource_id = 1, ref_schema_version = 1,
        ref_tenant_id = Some 2, ref_secondary_id = None\<rparr>,
      oj_deduplication_key = ''k'', oj_priority = 0, oj_state = JS_PROCESSING, oj_available_at = Aware 1,
      oj_created_at = Aware 10000000, oj_attempt_count = 1, oj_max_attempts = 5, oj_version = 3,
      oj_claim_token = None, oj_claimed_by = None, oj_claimed_at = None, oj_claim_expires_at = None,
      oj_published_at = None, oj_processing_started_at = None, oj_completed_at = None, oj_last_error_code = None\<rparr>"

definition sample_policy :: whatsapp_messaging_policy where
  "sample_policy = \<lparr>wmp_version = WHATSAPP_MESSAGING_POLICY_VERSION, wmp_customer_service_window = CUSTOMER_SERVICE_WINDOW\<rparr>"

definition sample_env :: outbound_env where
  "sample_env =
     \<lparr>env_uuid4 = word_of_nat,
      env_cryptography = \<lparr>cy_aead = \<lparr>aead_encrypt = (\<lambda>key nonce data ad. Some data),
          aead_decrypt = (\<lambda>key nonce data ad. Some data)\<rparr>,
        cy_keys = \<lparr>kp_active_key_version = ''v1'', kp_wrap_data_key = (\<lambda>t c a key nonce v. Inr key),
          kp_unwrap_data_key = (\<lambda>t c a key nonce v. Inr key)\<rparr>,
        cy_random = (\<lambda>i n. replicate n 0)\<rparr>,
      env_after_failed_flush = None, env_resolve_token = (\<lambda>t c ref. Inr (Some ''token'')),
      env_json = (\<lambda>text. JV_Invalid),
      env_transport = (\<lambda>request. HTTP_Response 200 2
        (WB_Object \<lparr>wd_message_id = Some ''wamid'', wd_display_phone_number = None\<rparr>))\<rparr>"

definition sample_begun :: outbound_world where
  "sample_begun = snd (send_begin sample_policy sample_send_job sample_send_world)"

fun begun_context :: "outbound_exc + send_context option \<Rightarrow> send_context option" where
  "begun_context (Inr x) = x" | "begun_context (Inl e) = None"

definition sample_context :: send_context where
  "sample_context = (case begun_context (fst (send_begin sample_policy sample_send_job sample_send_world)) of Some sx \<Rightarrow> sx
     | None \<Rightarrow> undefined)"

lemma sample_begin_some: "begun_context (fst (send_begin sample_policy sample_send_job sample_send_world)) \<noteq> None"
  by code_simp


abbreviation sample_cy :: cryptography where
  "sample_cy \<equiv> env_cryptography sample_env"

definition sample_decrypted :: decrypted_content where
  "sample_decrypted = \<lparr>dc_kind = CK_OUTBOUND_MESSAGE, dc_encoding = ENC_UTF8,
     dc_plaintext_byte_length = 2, dc_plaintext = [104, 105]\<rparr>"

lemma sample_key_version: "key_version_format ''v1''"
  by code_simp

lemma sample_content_row: "encrypted_content_to_domain (encrypted_content_to_row sample_encrypted) = Inr sample_encrypted"
  by (rule content_row_roundtrip)
    (simp add: sample_encrypted_def EncryptedContent_post_init_def key_version_format_validates [OF sample_key_version]
      validate_non_empty_bytes_def validate_exact_byte_length_def GCM_NONCE_SIZE_BYTES_def bindE_def raise_if_def
      require_aware_def)

lemma sample_opens: "decrypt_content sample_cy sample_encrypted = Inr sample_decrypted"
  by (simp add: decrypt_content_def sample_env_def sample_encrypted_def sample_decrypted_def decrypt_with_aes_gcm_def
      check_key_and_nonce_def unavailable_def raise_if_def DATA_ENCRYPTION_KEY_SIZE_BYTES_def GCM_NONCE_SIZE_BYTES_def
      DecryptedContent_post_init_def validate_plaintext_for_kind_def bindE_def)

definition sample_origin :: audit_origin where
  "sample_origin = service_origin 9 sample_send_job"

lemma sample_loads:
  fixes w :: outbound_world
  assumes "cd_contents (w_db w) = [encrypted_content_to_row sample_encrypted]" and "i \<notin> ae_id ` set (ad_events (w_db w))"
  shows "\<exists>w'. load_and_decrypt sample_cy 2 5 CP_OUTBOUND_SEND (Aware 10000000) sample_origin i w =
    (Inr sample_decrypted, w') \<and> ow_sent w' = ow_sent w"
proof -
  obtain ev where ev: "content_encrypted_accessed_event CK_OUTBOUND_MESSAGE CP_OUTBOUND_SEND ''v1'' 2 5 (Aware 10000000)
      sample_origin i = Inr ev"
    using accessed_event_built [OF sample_key_version, of "Aware 10000000" sample_origin CK_OUTBOUND_MESSAGE CP_OUTBOUND_SEND 2 5 i]
    by (auto simp: sample_origin_def service_origin_def actor_ok_def)
  have i: "ae_id ev = i" using accessed_event_recorded [OF ev] by (simp add: access_recorded_def)
  have row: "find (\<lambda>x. ecr_id x = 5) (cd_contents (w_db w)) = Some (encrypted_content_to_row sample_encrypted)"
    and tenant: "ecr_tenant_id (encrypted_content_to_row sample_encrypted) = 2"
    by (simp_all add: assms(1) encrypted_content_to_row_def sample_encrypted_def)
  have enc: "ec_kind sample_encrypted = CK_OUTBOUND_MESSAGE" "ec_key_version sample_encrypted = ''v1''"
    by (simp_all add: sample_encrypted_def)
  have "\<exists>s'. decrypt_in_session sample_cy 2 5 CP_OUTBOUND_SEND (Aware 10000000) sample_origin i (open_session w) =
      (Inr sample_decrypted, s')"
    unfolding decrypt_in_session_Inr using row tenant sample_content_row sample_opens ev i assms(2)
    by (auto simp: enc)
  then show ?thesis
    by (auto simp: load_and_decrypt_def bindS_def ensure_def transaction_def close_session_def)
qed

lemma sample_context_eq:
  "fst (send_begin sample_policy sample_send_job sample_send_world) = Inr (Some sample_context)"
  by code_simp

lemma sample_begun_tables:
  "cd_contents (w_db sample_begun) = [encrypted_content_to_row sample_encrypted]"
  "map ae_id (ad_events (w_db sample_begun)) = [11]" "w_draws sample_begun = 20" "ow_sent sample_begun = []"
  by code_simp+

lemma sample_context_fields:
  "wc_access_token_ref (sx_connection sample_context) = Some ''A''" "sx_tenant_id sample_context = 2"
  "om_encrypted_content_id (sx_message sample_context) = 5" "om_id (sx_message sample_context) = 1"
  "job_occurred_at sample_send_job = Aware 10000000" "sx_job sample_context = sample_send_job"
  "om_kind (sx_message sample_context) = OMK_FREE_FORM_TEXT" "wc_phone_number_id (sx_connection sample_context) = ''3''"
  by code_simp+

lemma sample_env_fields:
  "env_uuid4 sample_env = word_of_nat" "env_resolve_token sample_env t c ref = Inr (Some ''token'')"
  "env_transport sample_env request =
     HTTP_Response 200 2 (WB_Object \<lparr>wd_message_id = Some ''wamid'', wd_display_phone_number = None\<rparr>)"
  by (simp_all add: sample_env_def)

lemma sample_called:
  "\<exists>outcome w'. call_provider sample_env 9 sample_context sample_begun = (Inr outcome, w') \<and>
     map fst (ow_sent w') = [1]"
proof -
  have "content_get_by_id 2 5 s = (Inr (Some sample_encrypted), s)"
    if "cd_contents (se_db s) = [encrypted_content_to_row sample_encrypted]" for s :: "outbound_db session"
    using that sample_content_row unfolding content_get_by_id_Inr
    by (simp add: encrypted_content_to_row_def sample_encrypted_def)
  then have get: "content_get_by_id 2 5 (open_session sample_begun) =
      (Inr (Some sample_encrypted), open_session sample_begun)"
    by (simp add: sample_begun_tables)
  have draws: "se_draws (open_session sample_begun) = 20" by (simp add: open_session_def sample_begun_tables)
  obtain w1 where tx: "transaction (content_for_send sample_env 2 5) sample_begun = (Inr (Some 20), w1)"
      and w1: "w_db w1 = w_db sample_begun" "ow_sent w1 = []"
    by (simp add: transaction_def content_for_send_def bindS_def wrap_error_def get run_simps close_session_def
        sample_begun_tables draws sample_env_fields)
  have "20 \<notin> ae_id ` set (ad_events (w_db w1))"
    using sample_begun_tables(2) by (simp add: w1 flip: set_map)
  then obtain w2 where load: "load_and_decrypt sample_cy 2 5 CP_OUTBOUND_SEND (Aware 10000000) sample_origin 20 w1 =
      (Inr sample_decrypted, w2)" and w2: "ow_sent w2 = []"
    using sample_loads [of w1 20] w1 sample_begun_tables(1) by auto
  have client: "build_client ''3'' ''token'' = Inr ()" by code_simp
  have body_text: "message_text sample_decrypted = Inr [104, 105]" by code_simp
  show ?thesis
    using load
    by (simp add: call_provider_def Let_def sample_context_fields bindS_def lift_result_def tx wrap_error_def
        client body_text send_content_def post_message_def w2 sample_origin_def mapE_def
        sample_env_fields)
qed

end
