(* ===== verification/Outbound_Safety.thy ===== *)
theory Outbound_Safety
  imports Outbound_Effects Outbound_Sample
begin

text \<open>
  The life cycle of outbound messages: the abstract status machine that the operations implement, the
  system of concurrent operations and send handlers, and what holds in all its runs.
\<close>

section \<open>The life cycle of messages\<close>

text \<open>The abstract state: the status of every message. A new message is a draft; a message moves
  along the transitions of the status machine, several at once when it is approved.\<close>

definition ids_distinct :: "outbound_db \<Rightarrow> bool" where
  "ids_distinct db \<longleftrightarrow> distinct (map omr_id (ob_messages db))"

definition status_map :: "outbound_db \<Rightarrow> uuid \<Rightarrow> outbound_message_status option" where
  "status_map db m = Option.bind (find (\<lambda>r. omr_id r = m) (ob_messages db)) status_of_row"

definition allowed_move :: "outbound_message_status \<Rightarrow> outbound_message_status \<Rightarrow> bool" where
  "allowed_move a b \<longleftrightarrow> a = b \<or> b \<in> set (OUTBOUND_TRANSITIONS a) \<or>
     b = OMS_QUEUED \<and> a \<in> {OMS_DRAFT, OMS_PENDING_APPROVAL}"

text \<open>A step of the abstract machine.\<close>

definition machine_step ::
    "(uuid \<Rightarrow> bool) \<Rightarrow> (uuid \<Rightarrow> outbound_message_status option) \<Rightarrow> (uuid \<Rightarrow> outbound_message_status option) \<Rightarrow> bool" where
  "machine_step recorded st st' \<longleftrightarrow> st' = st \<or>
     (\<exists>m. st m = None \<and> st' = st(m \<mapsto> OMS_DRAFT)) \<or>
     (\<exists>m a b. st m = Some a \<and> allowed_move a b \<and> st' = st(m \<mapsto> b) \<and> (b = OMS_QUEUED \<longrightarrow> recorded m))"

lemma find_by_key: "distinct (map f xs) \<Longrightarrow> x \<in> set xs \<Longrightarrow> find (\<lambda>y. f y = f x) xs = Some x"
  by (induction xs) auto

lemma find_map_key:
  "(\<And>x. k (f x) = k x) \<Longrightarrow> find (\<lambda>y. k y = i) (map f xs) = map_option f (find (\<lambda>y. k y = i) xs)"
  by (induction xs) auto

lemma put_row_ids: "map omr_id (put_row rows row msg) = map omr_id rows"
  by (auto simp: put_row_def assign_outbound_def)

lemma status_map_kept: "kept db db' \<Longrightarrow> status_map db' = status_map db"
  by (auto simp: kept_def status_map_def)

lemma status_map_put:
  assumes "distinct (map omr_id rows)" and "row \<in> set rows"
  shows "Option.bind (find (\<lambda>r. omr_id r = i) (put_row rows row msg)) status_of_row =
    (if i = omr_id row then Some (om_status msg)
     else Option.bind (find (\<lambda>r. omr_id r = i) rows) status_of_row)"
proof -
  have "find (\<lambda>r. omr_id r = i) (put_row rows row msg) =
      map_option (\<lambda>r. if omr_id r = omr_id row then assign_outbound row msg else r) (find (\<lambda>r. omr_id r = i) rows)"
    unfolding put_row_def by (rule find_map_key) (simp add: assign_outbound_def)
  then have put: "Option.bind (find (\<lambda>r. omr_id r = i) (put_row rows row msg)) status_of_row =
      Option.bind (find (\<lambda>r. omr_id r = i) rows)
        (\<lambda>r. if omr_id r = omr_id row then status_of_row (assign_outbound row msg) else status_of_row r)"
    by (cases "find (\<lambda>r. omr_id r = i) rows") simp_all
  have new: "status_of_row (assign_outbound row msg) = Some (om_status msg)"
    by (simp add: status_of_row_def assign_outbound_def)
  show ?thesis
  proof (cases "i = omr_id row")
    case True
    then show ?thesis unfolding put using find_by_key [OF assms] new by simp
  next
    case False
    show ?thesis
    proof (cases "find (\<lambda>r. omr_id r = i) rows")
      case (Some r)
      then have "omr_id r = i" by (auto simp: find_Some_iff)
      then show ?thesis unfolding put Some using False by simp
    next
      case None
      then show ?thesis unfolding put None using False by simp
    qed
  qed
qed

lemma moved_status:
  assumes "moved db db' m A b" and "ids_distinct db"
  obtains a where "a \<in> A" and "status_map db m = Some a" and "status_map db' = (status_map db)(m \<mapsto> b)"
    and "ids_distinct db'"
proof -
  obtain row a msg where row: "row \<in> set (ob_messages db)" "omr_id row = m" "status_of_row row = Some a" "a \<in> A"
      "om_status msg = b" "ob_messages db' = put_row (ob_messages db) row msg"
    using assms(1) unfolding moved_def by blast
  note dist = assms(2) [unfolded ids_distinct_def]
  have "status_map db' = (status_map db)(m \<mapsto> b)"
    using status_map_put [OF dist row(1)] row by (auto simp: status_map_def)
  moreover have "status_map db m = Some a"
    using find_by_key [OF dist row(1)] row(2,3) by (simp add: status_map_def)
  moreover have "ids_distinct db'" using dist by (simp add: ids_distinct_def row(6) put_row_ids)
  ultimately show thesis using that row(4) by blast
qed

lemma drafted_status:
  assumes "drafted db db'"
  obtains m where "status_map db m = None" and "status_map db' = (status_map db)(m \<mapsto> OMS_DRAFT)"
    and "ids_distinct db'"
proof -
  obtain row where row: "ob_messages db' = ob_messages db @ [row]" "status_of_row row = Some OMS_DRAFT"
      "distinct (map omr_id (ob_messages db'))"
    using assms unfolding drafted_def by blast
  have app: "find P (xs @ [y]) = (case find P xs of None \<Rightarrow> if P y then Some y else None | Some x \<Rightarrow> Some x)"
    for P :: "outbound_message_row \<Rightarrow> bool" and xs y
    by (induction xs) auto
  have fresh: "find (\<lambda>r. omr_id r = omr_id row) (ob_messages db) = None"
  proof -
    have "omr_id row \<notin> omr_id ` set (ob_messages db)" using row(3) unfolding row(1) by simp
    then show ?thesis unfolding find_None_iff by (metis imageI)
  qed
  have "status_map db' = (status_map db)(omr_id row \<mapsto> OMS_DRAFT)"
    using row(1,2) fresh by (auto simp: status_map_def app split: option.splits)
  moreover have "status_map db (omr_id row) = None" using fresh by (simp add: status_map_def)
  ultimately show thesis using that row(3) by (simp add: ids_distinct_def)
qed

section \<open>The system\<close>

text \<open>
  The stored state with the sends in progress: those whose first transaction is committed
  (\<open>sy_started\<close>) and those whose provider call returned (\<open>sy_called\<close>).
\<close>

record send_system =
  sy_world :: outbound_world
  sy_started :: "send_context list"
  sy_called :: "(send_context \<times> send_outcome) list"

text \<open>
  A step: an operation of the service, one of the three parts of the send handler (a job may be
  handled any number of times, by several workers), the loss of a send in progress (a worker stops,
  or an exception that the handler does not settle), or a step of another component, which leaves
  outbound messages alone and only appends to the audit trail.
\<close>

inductive system_step :: "send_system \<Rightarrow> send_system \<Rightarrow> bool" where
  step_draft: "create_draft env now ca th ch k p en tpl w = (r, w') \<Longrightarrow>
    system_step \<lparr>sy_world = w, sy_started = st, sy_called = cl\<rparr> \<lparr>sy_world = w', sy_started = st, sy_called = cl\<rparr>"
| step_approve: "approve_and_queue env now ca m v w = (r, w') \<Longrightarrow>
    system_step \<lparr>sy_world = w, sy_started = st, sy_called = cl\<rparr> \<lparr>sy_world = w', sy_started = st, sy_called = cl\<rparr>"
| step_cancel: "cancel now ca m v w = (r, w') \<Longrightarrow>
    system_step \<lparr>sy_world = w, sy_started = st, sy_called = cl\<rparr> \<lparr>sy_world = w', sy_started = st, sy_called = cl\<rparr>"
| step_skip: "send_begin policy job w = (r, w') \<Longrightarrow> (\<forall>sx. r \<noteq> Inr (Some sx)) \<Longrightarrow>
    system_step \<lparr>sy_world = w, sy_started = st, sy_called = cl\<rparr> \<lparr>sy_world = w', sy_started = st, sy_called = cl\<rparr>"
| step_begin: "send_begin policy job w = (Inr (Some sx), w') \<Longrightarrow>
    system_step \<lparr>sy_world = w, sy_started = st, sy_called = cl\<rparr> \<lparr>sy_world = w', sy_started = sx # st, sy_called = cl\<rparr>"
| step_call: "call_provider env actor sx w = (r, w') \<Longrightarrow> sx \<in> set st \<Longrightarrow>
    system_step \<lparr>sy_world = w, sy_started = st, sy_called = cl\<rparr>
      \<lparr>sy_world = w', sy_started = remove1 sx st,
       sy_called = (case r of Inl e \<Rightarrow> cl | Inr outcome \<Rightarrow> (sx, outcome) # cl)\<rparr>"
| step_settle: "send_settle env actor sx outcome w = (r, w') \<Longrightarrow> (sx, outcome) \<in> set cl \<Longrightarrow>
    system_step \<lparr>sy_world = w, sy_started = st, sy_called = cl\<rparr>
      \<lparr>sy_world = w', sy_started = st, sy_called = remove1 (sx, outcome) cl\<rparr>"
| step_stop: "system_step \<lparr>sy_world = w, sy_started = st, sy_called = cl\<rparr>
      \<lparr>sy_world = w, sy_started = filter P st, sy_called = filter Q cl\<rparr>"
| step_reconcile: "whatsapp_reconcile_once env actor now t corr w = (q, w') \<Longrightarrow>
    system_step \<lparr>sy_world = w, sy_started = st, sy_called = cl\<rparr> \<lparr>sy_world = w', sy_started = st, sy_called = cl\<rparr>"
| step_other: "kept (w_db w) (w_db w') \<Longrightarrow> ow_sent w' = ow_sent w \<Longrightarrow>
    system_step \<lparr>sy_world = w, sy_started = st, sy_called = cl\<rparr> \<lparr>sy_world = w', sy_started = st, sy_called = cl\<rparr>"

inductive_cases system_stepE: "system_step s s'"

abbreviation system_run :: "send_system \<Rightarrow> send_system \<Rightarrow> bool" where
  "system_run \<equiv> system_step\<^sup>*\<^sup>*"

lemma service_sent:
  "create_draft env now ca th ch k p en tpl w = (r, w') \<Longrightarrow> ow_sent w' = ow_sent w"
  "approve_and_queue env now ca m v w = (r1, w') \<Longrightarrow> ow_sent w' = ow_sent w"
  "cancel now ca m v w = (r2, w') \<Longrightarrow> ow_sent w' = ow_sent w"
  "send_begin policy job w = (r3, w') \<Longrightarrow> ow_sent w' = ow_sent w"
  "send_settle env actor sx outcome w = (r4, w') \<Longrightarrow> ow_sent w' = ow_sent w"
  by (auto simp: create_draft_def approve_and_queue_def cancel_def send_begin_def send_settle_def Let_def
      dest: transaction_sent split: if_splits option.splits)

lemma reconcile_effect:
  assumes "whatsapp_reconcile_once env actor now t corr w = (r, w')"
  shows "kept (w_db w) (w_db w') \<and> ow_sent w' = ow_sent w"
proof -
  have "keeps (kept db0) (append_audit built)" for db0 built
    unfolding append_audit_def append_required_audit_event_def
    by (cases built) (auto intro!: keeps_intros keeps_modify simp: kept_def trail_extends_def split: if_splits)
  then have "quiet (whatsapp_reconcile_once env actor now t corr)"
    unfolding whatsapp_reconcile_once_def reconciliation_lists_def list_delivery_unknown_def list_stale_sending_def
    by (intro quiet_transaction keeps_bind keeps_basic)
  then show ?thesis using assms quietD by blast
qed

definition refines_step :: "outbound_db \<Rightarrow> outbound_db \<Rightarrow> bool" where
  "refines_step db db' \<longleftrightarrow> ids_distinct db' \<and> trail_extends db db' \<and>
     machine_step (approval_recorded db') (status_map db) (status_map db')"

lemma refines_kept: "kept db db' \<Longrightarrow> ids_distinct db \<Longrightarrow> refines_step db db'"
  using status_map_kept by (auto simp: refines_step_def kept_def ids_distinct_def machine_step_def)

lemma refines_drafted: "drafted db db' \<Longrightarrow> refines_step db db'"
  by (rule drafted_status, assumption) (auto simp: refines_step_def drafted_def machine_step_def)

lemma refines_moved:
  assumes "moved db db' m A b" and "ids_distinct db" and "\<forall>a \<in> A. allowed_move a b"
  shows "refines_step db db'"
proof -
  have "trail_extends db db'" "b = OMS_QUEUED \<longrightarrow> approval_recorded db' m"
    using assms(1) by (simp_all add: moved_def)
  then show ?thesis
    using moved_status [OF assms(1,2)] assms(3) unfolding refines_step_def machine_step_def by metis
qed

lemma effect_refines:
  assumes "kept db db' \<or> moved db db' m A b" and "ids_distinct db" and "\<forall>a \<in> A. allowed_move a b"
  shows "refines_step db db'"
  using assms refines_kept refines_moved by blast

lemma settle_refines:
  assumes "send_settle env actor sx outcome w = (r, w')" and "ids_distinct (w_db w)"
  shows "refines_step (w_db w) (w_db w')"
proof -
  have "\<forall>a \<in> {a. a = b \<or> b \<in> set (OUTBOUND_TRANSITIONS a)}. allowed_move a b" for b
    by (simp add: allowed_move_def)
  then show ?thesis using settle_effect [OF assms(1)] refines_kept refines_moved assms(2) by blast
qed

lemma step_refines:
  assumes "system_step s s'" and "ids_distinct (w_db (sy_world s))"
  shows "refines_step (w_db (sy_world s)) (w_db (sy_world s'))"
  using assms
proof (induction rule: system_step.induct)
  case (step_draft env now ca th ch k p en tpl w r w' st cl)
  show ?case using create_effect [OF step_draft(1)] step_draft(2) refines_kept refines_drafted by auto
next
  case (step_approve env now ca m v w r w' st cl)
  show ?case
    using effect_refines [OF approve_effect [OF step_approve(1)]] step_approve(2) by (simp add: allowed_move_def)
next
  case (step_cancel now ca m v w r w' st cl)
  show ?case
    using effect_refines [OF cancel_effect [OF step_cancel(1)]] step_cancel(2) by (simp add: allowed_move_def)
next
  case (step_skip policy job w r w' st cl)
  show ?case
    using effect_refines [OF begin_effect [OF step_skip(1)]] step_skip(3) by (simp add: allowed_move_def)
next
  case (step_begin policy job w sx w' st cl)
  show ?case
    using effect_refines [OF begin_effect [OF step_begin(1)]] step_begin(2) by (simp add: allowed_move_def)
next
  case (step_call env actor sx w r w' st cl)
  then show ?case using provider_effect [OF step_call(1)] refines_kept by simp
next
  case (step_settle env actor sx outcome w r w' cl st)
  then show ?case using settle_refines by simp
next
  case (step_stop w st cl P Q)
  then show ?case using refines_kept by simp
next
  case (step_reconcile env actor now t corr w q w' st cl)
  then show ?case using reconcile_effect [OF step_reconcile(1)] refines_kept by simp
next
  case (step_other w w' st cl)
  then show ?case using refines_kept by simp
qed

lemma begin_moves:
  assumes "send_begin policy job w = (Inr (Some sx), w')" and "ids_distinct (w_db w)"
  shows "ref_resource_id (oj_reference job) = om_id (sx_message sx)" and "ow_sent w' = ow_sent w"
    and "moved (w_db w) (w_db w') (om_id (sx_message sx)) {OMS_QUEUED} OMS_SENDING"
    and "status_map (w_db w) (om_id (sx_message sx)) = Some OMS_QUEUED"
    and "status_map (w_db w') (om_id (sx_message sx)) = Some OMS_SENDING"
proof -
  obtain row rec where row: "find_outbound (ob_messages (w_db w)) (sx_tenant_id sx) (ref_resource_id (oj_reference job)) = Some row"
      "outbound_row_to_record row = Inr rec" "outbound_record_to_domain rec = Inr (sx_message sx)"
    and moved: "moved (w_db w) (w_db w') (ref_resource_id (oj_reference job)) {OMS_QUEUED} OMS_SENDING"
    and sent: "ow_sent w' = ow_sent w"
    using begin_started [OF assms(1)] by metis
  show m: "ref_resource_id (oj_reference job) = om_id (sx_message sx)"
    using find_outbound_Some [OF row(1)] row_to_record_Inr(1) [OF row(2)] record_to_domain_Inr(1) row(3)
    by (simp add: domain_Inr)
  show "ow_sent w' = ow_sent w" by (rule sent)
  show "moved (w_db w) (w_db w') (om_id (sx_message sx)) {OMS_QUEUED} OMS_SENDING"
    using moved by (simp add: m)
  then show "status_map (w_db w) (om_id (sx_message sx)) = Some OMS_QUEUED"
    "status_map (w_db w') (om_id (sx_message sx)) = Some OMS_SENDING"
    by (rule moved_status [OF _ assms(2)], simp)+
qed

section \<open>What holds throughout a run\<close>

text \<open>The statuses from \<open>sending\<close> on: no operation leads back from them.\<close>

definition LAUNCHED_STATUSES :: "outbound_message_status set" where
  "LAUNCHED_STATUSES = {OMS_SENDING, OMS_PROVIDER_ACCEPTED, OMS_DELIVERY_UNKNOWN, OMS_DELIVERED, OMS_READ, OMS_FAILED}"

definition launched :: "outbound_db \<Rightarrow> uuid \<Rightarrow> bool" where
  "launched db m \<longleftrightarrow> (\<exists>a \<in> LAUNCHED_STATUSES. status_map db m = Some a)"

definition approvals_recorded :: "outbound_db \<Rightarrow> bool" where
  "approvals_recorded db \<longleftrightarrow>
     (\<forall>m. status_map db m = Some OMS_QUEUED \<or> launched db m \<longrightarrow> approval_recorded db m)"

definition handled_ids :: "send_system \<Rightarrow> uuid list" where
  "handled_ids s = map fst (ow_sent (sy_world s)) @ map (\<lambda>sx. om_id (sx_message sx)) (sy_started s)"

definition system_ok :: "send_system \<Rightarrow> bool" where
  "system_ok s \<longleftrightarrow> ids_distinct (w_db (sy_world s)) \<and> approvals_recorded (w_db (sy_world s)) \<and>
     distinct (handled_ids s) \<and> (\<forall>m \<in> set (handled_ids s). launched (w_db (sy_world s)) m)"

lemma allowed_from_launched: "allowed_move a b \<Longrightarrow> a \<in> LAUNCHED_STATUSES \<Longrightarrow> b \<in> LAUNCHED_STATUSES"
  by (cases a) (auto simp: allowed_move_def LAUNCHED_STATUSES_def)

lemma allowed_to_launched: "allowed_move a b \<Longrightarrow> b \<in> LAUNCHED_STATUSES \<Longrightarrow> a \<in> insert OMS_QUEUED LAUNCHED_STATUSES"
  by (cases a) (auto simp: allowed_move_def LAUNCHED_STATUSES_def)

lemma queued_not_launched: "status_map db m = Some OMS_QUEUED \<Longrightarrow> \<not> launched db m"
  by (simp add: launched_def LAUNCHED_STATUSES_def)

lemma refines_launched:
  assumes "refines_step db db'" and "launched db m"
  shows "launched db' m"
  using assms allowed_from_launched unfolding refines_step_def machine_step_def launched_def
  by (auto simp: fun_upd_def split: if_splits)

lemma refines_approvals:
  assumes "refines_step db db'" and "approvals_recorded db"
  shows "approvals_recorded db'"
  unfolding approvals_recorded_def
proof (intro allI impI)
  fix m
  assume new: "status_map db' m = Some OMS_QUEUED \<or> launched db' m"
  have ext: "approval_recorded db' i" if "approval_recorded db i" for i
    using assms(1) that by (auto simp: refines_step_def trail_extends_def approval_recorded_def)
  consider (same) "status_map db' m = status_map db m" | (draft) "status_map db' m = Some OMS_DRAFT"
    | (move) a b where "status_map db m = Some a" "allowed_move a b" "status_map db' m = Some b"
        "b = OMS_QUEUED \<longrightarrow> approval_recorded db' m"
    using assms(1) unfolding refines_step_def machine_step_def by (metis fun_upd_other fun_upd_same)
  then show "approval_recorded db' m"
  proof cases
    case same
    then have "status_map db m = Some OMS_QUEUED \<or> launched db m" using new by (simp add: launched_def)
    then show ?thesis using assms(2) ext unfolding approvals_recorded_def by blast
  next
    case draft
    then show ?thesis using new by (simp add: launched_def LAUNCHED_STATUSES_def)
  next
    case move
    show ?thesis
    proof (cases "b = OMS_QUEUED")
      case False
      then have "b \<in> LAUNCHED_STATUSES" using new move(3) by (simp add: launched_def)
      then have "a = OMS_QUEUED \<or> launched db m"
        using allowed_to_launched [OF move(2)] move(1) by (auto simp: launched_def)
      then show ?thesis using assms(2) ext move(1) unfolding approvals_recorded_def by blast
    qed (use move(4) in simp)
  qed
qed

lemma distinct_call:
  assumes "distinct (xs @ map f st)" and "sx \<in> set st"
  shows "distinct (xs @ map f (remove1 sx st))" and "distinct ((xs @ [f sx]) @ map f (remove1 sx st))"
proof -
  have st: "distinct st" "inj_on f (set st)" using assms(1) by (simp_all add: distinct_map)
  then show "distinct (xs @ map f (remove1 sx st))" "distinct ((xs @ [f sx]) @ map f (remove1 sx st))"
    using assms by (auto simp: distinct_map inj_on_def)
qed

text \<open>A step that hands nothing to the transport and starts no send keeps the system in order.\<close>

lemma system_ok_mono:
  assumes "system_ok s" and "refines_step (w_db (sy_world s)) (w_db (sy_world s'))"
    and "distinct (handled_ids s')" and "set (handled_ids s') \<subseteq> set (handled_ids s)"
  shows "system_ok s'"
  using assms refines_launched [OF assms(2)] refines_approvals [OF assms(2)]
  unfolding system_ok_def by (auto simp: refines_step_def)

lemma system_ok_same:
  assumes "system_ok s" and "refines_step (w_db (sy_world s)) (w_db (sy_world s'))"
    and "ow_sent (sy_world s') = ow_sent (sy_world s)" and "sy_started s' = sy_started s"
  shows "system_ok s'"
proof -
  have "handled_ids s' = handled_ids s" using assms(3,4) by (simp add: handled_ids_def)
  then show ?thesis using system_ok_mono [OF assms(1,2)] assms(1) by (simp add: system_ok_def)
qed

lemma distinct_map_filter: "distinct (xs @ map f ys) \<Longrightarrow> distinct (xs @ map f (filter P ys))"
  by (auto simp: distinct_map inj_on_def)

lemma system_step_ok:
  assumes "system_step s s'" and "system_ok s"
  shows "system_ok s'"
proof -
  have refines: "refines_step (w_db (sy_world s)) (w_db (sy_world s'))"
    using step_refines [OF assms(1)] assms(2) by (simp add: system_ok_def)
  note same = system_ok_same [OF assms(2) refines] and mono = system_ok_mono [OF assms(2) refines]
  show ?thesis
    using assms(1)
  proof (cases rule: system_step.cases)
    case (step_draft env now ca th ch k p en tpl w r w' st cl)
    then show ?thesis using same service_sent(1) by simp
  next
    case (step_approve env now ca m v w r w' st cl)
    then show ?thesis using same service_sent(2) by simp
  next
    case (step_cancel now ca m v w r w' st cl)
    then show ?thesis using same service_sent(3) by simp
  next
    case (step_skip policy job w r w' st cl)
    then show ?thesis using same service_sent(4) by simp
  next
    case (step_settle env actor sx outcome w r w' cl st)
    then show ?thesis using same service_sent(5) by simp
  next
    case (step_reconcile env actor now t corr w q w' st cl)
    then show ?thesis using same reconcile_effect by simp
  next
    case (step_other w w' st cl)
    then show ?thesis using same by simp
  next
    case (step_stop w st cl P Q)
    have "distinct (map fst (ow_sent w) @ map (\<lambda>sx. om_id (sx_message sx)) st)"
      using assms(2) step_stop(1) by (simp add: system_ok_def handled_ids_def)
    from distinct_map_filter [OF this, of P] have "distinct (handled_ids s')"
      by (simp add: handled_ids_def step_stop(2))
    then show ?thesis by (rule mono) (auto simp: handled_ids_def step_stop)
  next
    case (step_call env actor sx w r w' st cl)
    have "distinct (map fst (ow_sent w) @ map (\<lambda>sx. om_id (sx_message sx)) st)"
      using assms(2) step_call(1) by (simp add: system_ok_def handled_ids_def)
    note dist = distinct_call [OF this step_call(4)]
    have sub: "set (remove1 sx st) \<subseteq> set st" by (rule set_remove1_subset)
    from provider_effect [OF step_call(3)]
    consider "ow_sent w' = ow_sent w" | q where "ow_sent w' = ow_sent w @ [(om_id (sx_message sx), q)]" by blast
    then show ?thesis
      by cases (rule mono; use step_call dist sub in \<open>auto simp: handled_ids_def\<close>)+
  next
    case (step_begin policy job w sx w' st cl)
    let ?m = "om_id (sx_message sx)"
    have "ids_distinct (w_db w)" using assms(2) step_begin(1) by (simp add: system_ok_def)
    note begins = begin_moves [OF step_begin(3) this]
    note sent = begins(2) and old = begins(4) and new = begins(5)
    have fresh: "?m \<notin> set (handled_ids s)"
      using assms(2) queued_not_launched [OF old] step_begin(1) by (auto simp: system_ok_def)
    have now: "launched (w_db w') ?m" using new by (simp add: launched_def LAUNCHED_STATUSES_def)
    have ids: "set (handled_ids s') = insert ?m (set (handled_ids s))" "distinct (handled_ids s') \<longleftrightarrow>
        ?m \<notin> set (handled_ids s) \<and> distinct (handled_ids s)"
      using sent by (auto simp: handled_ids_def step_begin(1,2))
    have kept: "launched (w_db w') i" if "launched (w_db w) i" for i
      using refines_launched [OF refines, of i] that by (simp add: step_begin(1,2))
    have "approvals_recorded (w_db w')" "ids_distinct (w_db w')"
      using refines_approvals [OF refines] refines assms(2)
      by (simp_all add: step_begin(1,2) system_ok_def refines_step_def)
    with kept show ?thesis
      using assms(2) fresh now ids unfolding system_ok_def by (simp add: step_begin(1,2))
  qed
qed

lemma system_run_ok: "system_run s s' \<Longrightarrow> system_ok s \<Longrightarrow> system_ok s'"
  by (induction rule: rtranclp_induct) (auto intro: system_step_ok)

text \<open>A message whose send was lost: no step leads it out of \<open>sending\<close>.\<close>

definition lost_send :: "uuid \<Rightarrow> send_system \<Rightarrow> bool" where
  "lost_send m s \<longleftrightarrow> ids_distinct (w_db (sy_world s)) \<and> status_map (w_db (sy_world s)) m = Some OMS_SENDING \<and>
     (\<forall>sx \<in> set (sy_started s). om_id (sx_message sx) \<noteq> m) \<and>
     (\<forall>(sx, outcome) \<in> set (sy_called s). om_id (sx_message sx) \<noteq> m)"

lemma moved_spares:
  assumes "kept db db' \<or> moved db db' i A b" and "ids_distinct db" and "status_map db m = Some a"
    and "a \<notin> A \<or> i \<noteq> m"
  shows "ids_distinct db' \<and> status_map db' m = Some a"
  using assms(1)
proof
  assume "kept db db'"
  then show ?thesis using status_map_kept assms(2,3) by (auto simp: kept_def ids_distinct_def)
next
  assume "moved db db' i A b"
  then obtain a' where "a' \<in> A" "status_map db i = Some a'" "status_map db' = (status_map db)(i \<mapsto> b)" "ids_distinct db'"
    using moved_status assms(2) by blast
  then show ?thesis using assms(3,4) by auto
qed

text \<open>The parts of a step that the send of one message depends on.\<close>

definition spares_message :: "uuid \<Rightarrow> outbound_world \<Rightarrow> outbound_world \<Rightarrow> bool" where
  "spares_message m w w' \<longleftrightarrow> ids_distinct (w_db w') \<and> status_map (w_db w') m = Some OMS_SENDING \<and>
     filter (\<lambda>x. fst x = m) (ow_sent w') = filter (\<lambda>x. fst x = m) (ow_sent w)"

lemma spares_effect:
  assumes "kept (w_db w) (w_db w') \<or> moved (w_db w) (w_db w') i A b" and "ow_sent w' = ow_sent w"
    and "OMS_SENDING \<notin> A \<or> i \<noteq> m"
    and "ids_distinct (w_db w)" and "status_map (w_db w) m = Some OMS_SENDING"
  shows "spares_message m w w'"
  using moved_spares [OF assms(1,4,5,3)] assms(2) by (simp add: spares_message_def)

lemma lost_send_step:
  assumes "system_step s s'" and "lost_send m s"
  shows "lost_send m s' \<and> filter (\<lambda>x. fst x = m) (ow_sent (sy_world s')) = filter (\<lambda>x. fst x = m) (ow_sent (sy_world s))"
  using assms
proof (induction rule: system_step.induct)
  case (step_draft env now ca th ch k p en tpl w r w' st cl)
  from step_draft(2) have "ids_distinct (w_db w)" "status_map (w_db w) m = Some OMS_SENDING"
    by (simp_all add: lost_send_def)
  with create_effect [OF step_draft(1)] have "ids_distinct (w_db w') \<and> status_map (w_db w') m = Some OMS_SENDING"
  proof (elim disjE)
    assume "kept (w_db w) (w_db w')" "ids_distinct (w_db w)" "status_map (w_db w) m = Some OMS_SENDING"
    then show ?thesis using status_map_kept by (auto simp: kept_def ids_distinct_def)
  next
    assume "drafted (w_db w) (w_db w')" "status_map (w_db w) m = Some OMS_SENDING"
    then show ?thesis by - (rule drafted_status, assumption, auto)
  qed
  then show ?case using step_draft service_sent(1) by (simp add: lost_send_def)
next
  case (step_approve env now ca i v w r w' st cl)
  then have "spares_message m w w'"
    by (intro spares_effect [OF approve_effect [OF step_approve(1)]] service_sent(2))
      (simp_all add: lost_send_def)
  then show ?case using step_approve(2) by (simp add: lost_send_def spares_message_def)
next
  case (step_cancel now ca i v w r w' st cl)
  then have "spares_message m w w'"
    by (intro spares_effect [OF cancel_effect [OF step_cancel(1)]] service_sent(3))
      (simp_all add: lost_send_def)
  then show ?case using step_cancel(2) by (simp add: lost_send_def spares_message_def)
next
  case (step_skip policy job w r w' st cl)
  then have "spares_message m w w'"
    by (intro spares_effect [OF begin_effect [OF step_skip(1)]] service_sent(4))
      (simp_all add: lost_send_def)
  then show ?case using step_skip(3) by (simp add: lost_send_def spares_message_def)
next
  case (step_begin policy job w sx w' st cl)
  have pre: "ids_distinct (w_db w)" "status_map (w_db w) m = Some OMS_SENDING"
    using step_begin(2) by (simp_all add: lost_send_def)
  note begins = begin_moves [OF step_begin(1) pre(1)]
  have "om_id (sx_message sx) \<noteq> m" using begins(4) pre(2) by auto
  moreover have "spares_message m w w'"
    by (rule spares_effect [OF disjI2 [OF begins(3)] begins(2)]) (simp_all add: pre)
  ultimately show ?case using step_begin(2) by (simp add: lost_send_def spares_message_def)
next
  case (step_call env actor sx w r w' st cl)
  have other: "om_id (sx_message sx) \<noteq> m" using step_call(2,3) by (simp add: lost_send_def)
  have "ids_distinct (w_db w') \<and> status_map (w_db w') m = Some OMS_SENDING"
    using provider_effect [OF step_call(1)] step_call(3) status_map_kept
    by (auto simp: lost_send_def kept_def ids_distinct_def)
  moreover have "filter (\<lambda>x. fst x = m) (ow_sent w') = filter (\<lambda>x. fst x = m) (ow_sent w)"
    using provider_effect [OF step_call(1)] other by auto
  ultimately show ?case
    using step_call(3) other set_remove1_subset [of sx st] by (auto simp: lost_send_def split: sum.splits)
next
  case (step_settle env actor sx outcome w r w' cl st)
  have pre: "ids_distinct (w_db w)" "status_map (w_db w) m = Some OMS_SENDING" "om_id (sx_message sx) \<noteq> m"
    using step_settle(2,3) by (auto simp: lost_send_def)
  have "spares_message m w w'"
    using settle_effect [OF step_settle(1)] spares_effect [OF _ service_sent(5) [OF step_settle(1)] disjI2 [OF pre(3)] pre(1,2)]
    by blast
  then show ?case
    using step_settle(3) set_remove1_subset [of "(sx, outcome)" cl]
    by (auto simp: lost_send_def spares_message_def)
next
  case (step_stop w st cl P Q)
  then show ?case by (auto simp: lost_send_def)
next
  case (step_reconcile env actor now t corr w q w' st cl)
  have "spares_message m w w'"
    using reconcile_effect [OF step_reconcile(1)] step_reconcile(2)
    by (intro spares_effect [where i = m and A = "{}" and b = OMS_SENDING]) (simp_all add: lost_send_def)
  then show ?case using step_reconcile(2) by (simp add: lost_send_def spares_message_def)
next
  case (step_other w w' st cl)
  have "spares_message m w w'"
    using step_other by (intro spares_effect [where i = m and A = "{}" and b = OMS_SENDING]) (simp_all add: lost_send_def)
  then show ?case using step_other(3) by (simp add: lost_send_def spares_message_def)
qed

section \<open>The example\<close>

text \<open>The systems of the example: before the send, with the send begun, and with that send lost.\<close>

definition sample_queued :: send_system where
  "sample_queued = \<lparr>sy_world = sample_send_world, sy_started = [], sy_called = []\<rparr>"

definition sample_sending :: send_system where
  "sample_sending = \<lparr>sy_world = sample_begun, sy_started = [sample_context], sy_called = []\<rparr>"

definition sample_lost :: send_system where
  "sample_lost = \<lparr>sy_world = sample_begun, sy_started = [], sy_called = []\<rparr>"

lemma sample_begins: "send_begin sample_policy sample_send_job sample_send_world = (Inr (Some sample_context), sample_begun)"
  using sample_context_eq unfolding sample_begun_def by (metis prod.collapse)

lemma sample_queued_facts:
  "ids_distinct (w_db sample_send_world)" "status_map (w_db sample_send_world) = [1 \<mapsto> OMS_QUEUED]"
  "approval_recorded (w_db sample_send_world) 1"
proof -
  have row: "status_of_row sample_row = Some OMS_QUEUED" by code_simp
  show "ids_distinct (w_db sample_send_world)" by (simp add: ids_distinct_def sample_send_world_def)
  have "ob_messages (w_db sample_send_world) = [sample_row]" "omr_id sample_row = 1"
    by (simp_all add: sample_send_world_def sample_row_def)
  with row show "status_map (w_db sample_send_world) = [1 \<mapsto> OMS_QUEUED]"
    by (auto simp: status_map_def)
  show "approval_recorded (w_db sample_send_world) 1"
    by (simp add: approval_recorded_def sample_send_world_def sample_approval_def)
qed

lemma sample_approvals: "approvals_recorded (w_db sample_send_world)"
  using sample_queued_facts(3) by (auto simp: approvals_recorded_def launched_def sample_queued_facts(2) split: if_splits)

lemma sample_sending_step: "system_step sample_queued sample_sending"
  unfolding sample_queued_def sample_sending_def by (rule step_begin [OF sample_begins])

section \<open>Properties\<close>

text \<open>
  C5.
  Outbound messaging implements its status machine. Every step of the system (an operation of the
  service, a part of the send handler, the loss of a send, a step of another component) leaves the
  statuses of all messages as they are, adds one message as a draft, or changes the status of
  exactly one message, along \<open>_ALLOWED_TRANSITIONS\<close> (\<open>approve_and_queue\<close> takes the path to \<open>queued\<close> in
  one step, a repeated operation may keep the status). A message becomes queued only together with
  its approval in the audit trail; the trail is only appended to, and message identifiers stay
  unique.
\<close>

theorem outbound_refines_machine:
  assumes "system_step s s'" and "ids_distinct (w_db (sy_world s))"
  shows "ids_distinct (w_db (sy_world s')) \<and> trail_extends (w_db (sy_world s)) (w_db (sy_world s')) \<and>
    machine_step (approval_recorded (w_db (sy_world s')))
      (status_map (w_db (sy_world s))) (status_map (w_db (sy_world s')))"
  using step_refines [OF assms] by (simp add: refines_step_def)

theorem outbound_refines_machine_witness:
  "system_step sample_queued sample_sending \<and>
   machine_step (approval_recorded (w_db sample_begun)) [1 \<mapsto> OMS_QUEUED] (status_map (w_db sample_begun))"
  using outbound_refines_machine [OF sample_sending_step] sample_sending_step sample_queued_facts
  by (simp add: sample_queued_def sample_sending_def)

text \<open>
  C1.
  The provider is asked at most once for each message, and only for approved messages. Take any
  state in which no send is in progress, nothing was handed to the transport yet, identifiers are
  unique and every queued or sent message has its approval in the audit trail. In every run from
  there, with any interleaving of operations, repeated and concurrent handling of the same job, lost
  sends and steps of other components, no message is handed to the transport twice, and every
  message that was handed over has an approval event and never again a status from which it could
  be sent.
\<close>

theorem message_sent_at_most_once:
  assumes "system_run s s'" and "sy_started s = []" and "ow_sent (sy_world s) = []"
    and "ids_distinct (w_db (sy_world s))" and "approvals_recorded (w_db (sy_world s))"
  shows "distinct (map fst (ow_sent (sy_world s'))) \<and>
    (\<forall>m \<in> set (map fst (ow_sent (sy_world s'))).
       approval_recorded (w_db (sy_world s')) m \<and> launched (w_db (sy_world s')) m)"
proof -
  have "system_ok s" using assms(2-) by (simp add: system_ok_def handled_ids_def)
  then have ok: "system_ok s'" by (rule system_run_ok [OF assms(1)])
  then have "launched (w_db (sy_world s')) m" if "m \<in> set (map fst (ow_sent (sy_world s')))" for m
    using that unfolding system_ok_def handled_ids_def by auto
  with ok show ?thesis by (auto simp: system_ok_def handled_ids_def approvals_recorded_def)
qed

theorem message_sent_at_most_once_witness:
  "\<exists>s'. system_run sample_queued s' \<and> map fst (ow_sent (sy_world s')) = [1] \<and>
     approval_recorded (w_db (sy_world s')) 1 \<and> launched (w_db (sy_world s')) 1"
proof -
  obtain outcome w' where call: "call_provider sample_env 9 sample_context sample_begun = (Inr outcome, w')"
    and sent: "map fst (ow_sent w') = [1]"
    using sample_called by (elim exE conjE)
  let ?s = "\<lparr>sy_world = w', sy_started = [], sy_called = [(sample_context, outcome)]\<rparr>"
  have "system_step sample_sending ?s"
    using step_call [OF call, of "[sample_context]" "[]"] by (simp add: sample_sending_def)
  then have run: "system_run sample_queued ?s" using sample_sending_step by auto
  with message_sent_at_most_once [OF run] sample_queued_facts(1) sample_approvals sent show ?thesis
    by (intro exI [of _ ?s]) (simp add: sample_queued_def sample_send_world_def)
qed

text \<open>
  A lost send is never recovered. If a message is in status \<open>sending\<close> and no send of it is in progress
  (the worker stopped between the two transactions, or an exception left the handler after the
  first one), then in every later run it stays in status \<open>sending\<close> and no request for it is handed
  to the transport: handling its job again fails, it cannot be approved, cancelled or settled, and
  reconciliation only counts it.
\<close>

theorem lost_send_stays_in_sending:
  assumes "system_run s s'" and "lost_send m s"
  shows "status_map (w_db (sy_world s')) m = Some OMS_SENDING \<and>
    filter (\<lambda>x. fst x = m) (ow_sent (sy_world s')) = filter (\<lambda>x. fst x = m) (ow_sent (sy_world s))"
proof -
  have "lost_send m s' \<and>
      filter (\<lambda>x. fst x = m) (ow_sent (sy_world s')) = filter (\<lambda>x. fst x = m) (ow_sent (sy_world s))"
    using assms by (induction rule: rtranclp_induct) (use lost_send_step in \<open>auto\<close>)
  then show ?thesis by (simp add: lost_send_def)
qed

lemma sample_lost_send: "lost_send 1 sample_lost"
proof -
  have "status_map (w_db sample_begun) 1 = Some OMS_SENDING"
    using begin_moves(5) [OF sample_begins sample_queued_facts(1)] by (simp add: sample_context_fields)
  moreover have "ids_distinct (w_db sample_begun)"
    using step_refines [OF sample_sending_step] sample_queued_facts(1)
    by (simp add: refines_step_def sample_queued_def sample_sending_def)
  ultimately show ?thesis by (simp add: lost_send_def sample_lost_def)
qed

theorem lost_send_stays_in_sending_witness:
  "\<exists>s'. system_run sample_queued sample_lost \<and> system_step sample_lost s' \<and>
     status_map (w_db (sy_world s')) 1 = Some OMS_SENDING"
proof -
  obtain r w' where again: "send_begin sample_policy sample_send_job sample_begun = (r, w')" by fastforce
  have "fst (send_begin sample_policy sample_send_job sample_begun) = Inl (handler_failed EC_HANDLER_FAILED)"
    by code_simp
  then have "\<forall>sx. r \<noteq> Inr (Some sx)" using again by auto
  from step_skip [OF again this] have step: "system_step sample_lost \<lparr>sy_world = w', sy_started = [], sy_called = []\<rparr>"
    by (simp add: sample_lost_def)
  have "system_step sample_sending sample_lost"
    using step_stop [of sample_begun "[sample_context]" "[]" "\<lambda>_. False" "\<lambda>_. True"]
    by (simp add: sample_sending_def sample_lost_def)
  then have "system_run sample_queued sample_lost" using sample_sending_step by auto
  with lost_send_stays_in_sending [OF r_into_rtranclp [of system_step, OF step] sample_lost_send] step
  show ?thesis by blast
qed

text \<open>The messaging policy as a statement about the stored messages.\<close>

lemma require_allowed_Inr:
  "require_allowed policy k inbound now = Inr () \<longleftrightarrow> k = OMK_APPROVED_TEMPLATE \<or>
     (\<exists>t. inbound = Some t \<and> aware t \<and> aware now \<and> now \<le> dt_plus t (wmp_customer_service_window policy))"
  by (cases k; cases inbound)
    (auto simp: require_allowed_def evaluate_send_def policy_allow_def policy_deny_def
      MessagingPolicyDecision_post_init_def bindE_def raise_if_def)

lemma last_inbound_message:
  assumes "last_customer_inbound_at t th db = Some at"
  shows "\<exists>x \<in> set (ob_canonical db). m_tenant_id x = t \<and> m_conversation_thread_id x = th \<and>
    m_direction x = MD_INBOUND \<and> m_sender_type x = ST_CUSTOMER \<and> m_received_at x = at"
proof -
  let ?p = "\<lambda>m. m_tenant_id m = t \<and> m_conversation_thread_id m = th \<and> m_direction m = MD_INBOUND \<and>
    m_sender_type m = ST_CUSTOMER"
  let ?ts = "map m_received_at (filter ?p (ob_canonical db))"
  from assms obtain z zs where ts: "?ts = z # zs" and at: "at = Max (set (z # zs))"
    unfolding last_customer_inbound_at_def by (cases ?ts) (simp_all del: list.map)
  have "at \<in> set (z # zs)" unfolding at by (rule Max_in) simp_all
  then have "at \<in> set ?ts" unfolding ts .
  then show ?thesis by auto
qed

text \<open>
  C38.
  A send starts only when it is permitted: the message was queued and approved, its tenant has a
  connection for its channel whose status allows outbound messages, its thread belongs to the tenant,
  and a free-form message is sent only if some message of the customer in that thread was received
  within the customer service window before the send. The first transaction moves exactly that
  message to \<open>sending\<close> and hands nothing to the transport.
\<close>

theorem send_starts_only_when_permitted:
  assumes "send_begin policy job w = (Inr (Some sx), w')" and "ids_distinct (w_db w)"
  shows "om_id (sx_message sx) = ref_resource_id (oj_reference job) \<and>
    status_map (w_db w) (om_id (sx_message sx)) = Some OMS_QUEUED \<and>
    om_approved_by_user_id (sx_message sx) \<noteq> None \<and>
    wc_channel_connection_id (sx_connection sx) = om_channel_connection_id (sx_message sx) \<and>
    connection_allows_outbound (wc_status (sx_connection sx)) \<and>
    sx_thread sx \<in> set (ob_threads (w_db w)) \<and> ct_tenant_id (sx_thread sx) = sx_tenant_id sx \<and>
    (om_kind (sx_message sx) = OMK_FREE_FORM_TEXT \<longrightarrow>
       (\<exists>x \<in> set (ob_canonical (w_db w)). m_tenant_id x = sx_tenant_id sx \<and>
          m_conversation_thread_id x = om_conversation_thread_id (sx_message sx) \<and>
          m_direction x = MD_INBOUND \<and> m_sender_type x = ST_CUSTOMER \<and>
          job_occurred_at job \<le> dt_plus (m_received_at x) (wmp_customer_service_window policy))) \<and>
    status_map (w_db w') = (status_map (w_db w))(om_id (sx_message sx) \<mapsto> OMS_SENDING) \<and>
    ow_sent w' = ow_sent w"
proof -
  note begins = begin_moves [OF assms]
  have map': "status_map (w_db w') = (status_map (w_db w))(om_id (sx_message sx) \<mapsto> OMS_SENDING)"
    by (rule moved_status [OF begins(3) assms(2)])
  from assms(1) show ?thesis
  proof (rule begin_started)
    assume "find (\<lambda>th. ct_id th = om_conversation_thread_id (sx_message sx)) (ob_threads (w_db w)) = Some (sx_thread sx)"
      and policy: "require_allowed policy (om_kind (sx_message sx)) (last_customer_inbound_at (sx_tenant_id sx)
        (om_conversation_thread_id (sx_message sx)) (w_db w)) (job_occurred_at job) = Inr ()"
      and facts: "om_approved_by_user_id (sx_message sx) \<noteq> None"
        "wc_channel_connection_id (sx_connection sx) = om_channel_connection_id (sx_message sx)"
        "connection_allows_outbound (wc_status (sx_connection sx))" "ct_tenant_id (sx_thread sx) = sx_tenant_id sx"
    then have thread: "sx_thread sx \<in> set (ob_threads (w_db w))" by (auto simp: find_Some_iff)
    have "\<exists>x \<in> set (ob_canonical (w_db w)). m_tenant_id x = sx_tenant_id sx \<and>
        m_conversation_thread_id x = om_conversation_thread_id (sx_message sx) \<and>
        m_direction x = MD_INBOUND \<and> m_sender_type x = ST_CUSTOMER \<and>
        job_occurred_at job \<le> dt_plus (m_received_at x) (wmp_customer_service_window policy)"
      if "om_kind (sx_message sx) = OMK_FREE_FORM_TEXT"
      using policy last_inbound_message that unfolding require_allowed_Inr by fastforce
    with begins facts thread map' show ?thesis by simp
  qed
qed

theorem send_starts_only_when_permitted_witness:
  "send_begin sample_policy sample_send_job sample_send_world = (Inr (Some sample_context), sample_begun) \<and>
   (\<exists>x \<in> set (ob_canonical (w_db sample_send_world)). m_sender_type x = ST_CUSTOMER \<and>
      Aware 10000000 \<le> dt_plus (m_received_at x) (wmp_customer_service_window sample_policy)) \<and>
   status_map (w_db sample_begun) = [1 \<mapsto> OMS_SENDING]"
  using send_starts_only_when_permitted [OF sample_begins sample_queued_facts(1)] sample_begins
  by (auto simp: sample_context_fields sample_queued_facts(2))

end
