(* ===== verification/Whatsapp_Lifecycle.thy ===== *)
theory Whatsapp_Lifecycle
  imports Whatsapp_Connection Content_Laws
begin

text \<open>
  The life cycle of WhatsApp connections: round trips of rows, what a connection that requires
  credentials has, and which statuses the operations of the service can reach.
\<close>

section \<open>Rows\<close>

lemma status_of_value [simp]:
  "enum_of connection_status_value connection_statuses (connection_status_value st) = Some st"
  by (cases st) (simp_all add: enum_of_def connection_statuses_def)

lemma subscription_of_value [simp]:
  "enum_of subscription_status_value subscription_statuses (subscription_status_value st) = Some st"
  by (cases st) (simp_all add: enum_of_def subscription_statuses_def)

lemma capability_of_value [simp]:
  "enum_of capability_value WHATSAPP_CLOUD_CAPABILITIES (capability_value c) = Some c"
  by (cases c) (simp_all add: enum_of_def WHATSAPP_CLOUD_CAPABILITIES_def)

lemma capabilities_roundtrip: "capabilities_from_json (capabilities_to_json caps) = Inr caps"
proof -
  have "finite caps"
    by (rule finite_subset [of _ "set WHATSAPP_CLOUD_CAPABILITIES"])
      (auto simp: WHATSAPP_CLOUD_CAPABILITIES_def intro: provider_capability.exhaust)
  then have "set (sorted_list_of_set (capability_value ` caps)) = capability_value ` caps" by simp
  then show ?thesis
    by (auto simp: capabilities_from_json_def capabilities_to_json_def list_all_iff image_image)
qed

lemma whatsapp_row_roundtrip: "whatsapp_row_to_record (whatsapp_record_to_row c) = Inr c"
  by (cases c) (simp add: whatsapp_row_to_record_def whatsapp_record_to_row_def capabilities_roundtrip)

lemma row_status:
  assumes "whatsapp_row_to_record r = Inr c"
  shows "wcr_status r = connection_status_value (wc_status c)"
proof -
  obtain st sub caps where st: "enum_of connection_status_value connection_statuses (wcr_status r) = Some st"
    and "enum_of subscription_status_value subscription_statuses (wcr_webhook_subscription_status r) = Some sub"
    and "capabilities_from_json (wcr_capabilities r) = Inr caps"
    using assms by (auto simp: whatsapp_row_to_record_def bindE_Inr_iff split: option.splits)
  then have "wc_status c = st" using assms by (auto simp: whatsapp_row_to_record_def)
  then show ?thesis using enum_of_SomeD [OF st] by simp
qed

section \<open>The constructor\<close>

lemma connection_post_init_status:
  assumes "WhatsAppCloudConnection_post_init c = Inr d"
  shows "wc_status d = wc_status c" and "wc_id d = wc_id c" and "wc_tenant_id d = wc_tenant_id c"
    and "wc_version d = wc_version c"
    and "connection_requires_credentials (wc_status d) \<longrightarrow>
      wc_access_token_ref d \<noteq> None \<and> wc_app_secret_ref d \<noteq> None \<and> wc_verify_token_ref d \<noteq> None"
  using assms by (auto simp: WhatsAppCloudConnection_post_init_def bindE_Inr_iff raise_if_Inr_iff)

lemma replace_connection_status:
  assumes "replace_connection c = Inr d"
  shows "wc_status d = wc_status c"
  using assms connection_post_init_status(1)
  by (auto simp: replace_connection_def revalidate_connection_def bindE_Inr_iff)

section \<open>Reachable statuses\<close>

definition inactive_row :: "whatsapp_connection_row \<Rightarrow> bool" where
  "inactive_row r \<longleftrightarrow> wcr_status r \<in> {''draft'', ''disabled''}"

definition never_activated :: "'d connection_db_scheme \<Rightarrow> bool" where
  "never_activated db \<longleftrightarrow> list_all inactive_row (cn_connections db)"

definition inactive :: "whatsapp_connection \<Rightarrow> bool" where
  "inactive c \<longleftrightarrow> wc_status c \<in> {WCS_DRAFT, WCS_DISABLED}"

lemma list_all_find: "list_all P xs \<Longrightarrow> pred_option P (find Q xs)"
  by (induction xs) auto

lemma inactive_record_row: "inactive_row (whatsapp_record_to_row c) \<longleftrightarrow> inactive c"
  by (cases "wc_status c") (simp_all add: inactive_row_def inactive_def whatsapp_record_to_row_def)

lemma inactive_assigned_row: "inactive_row (assign_connection r c) \<longleftrightarrow> inactive c"
  unfolding inactive_record_row [symmetric] by (simp add: inactive_row_def assign_connection_def)

lemma inactive_row_record: "inactive_row r \<Longrightarrow> whatsapp_row_to_record r = Inr c \<Longrightarrow> inactive c"
  using row_status [of r c] by (cases "wc_status c") (auto simp: inactive_row_def inactive_def)

lemma write_connections_keeps:
  assumes "\<And>db. never_activated db \<Longrightarrow> list_all inactive_row (f db)"
  shows "keeps never_activated (write_connections f)"
  unfolding write_connections_def
  by (rule keeps_modify) (use assms in \<open>auto simp: bindE_Inr_iff never_activated_def\<close>)

lemma connection_audit_keeps [keeps_intros]: "keeps never_activated (connection_audit built)"
  unfolding connection_audit_def append_required_audit_event_def
  by (cases built) (auto intro!: keeps_intros keeps_modify simp: never_activated_def split: if_splits)

lemma current_connection_yields: "yields never_activated (current_connection t i) inactive"
proof -
  have found: "yields never_activated (query (find_connection_row t i)) (pred_option inactive_row)"
    by (rule yields_query) (simp add: never_activated_def find_connection_row_def list_all_find)
  have get: "yields never_activated (connection_get_by_id_for_update t i) (pred_option inactive)"
    unfolding connection_get_by_id_for_update_def
  proof (rule yields_bind [OF found])
    fix row assume "pred_option inactive_row row"
    then show "yields never_activated (row_to_connection row) (pred_option inactive)"
      by (cases row) (auto simp: row_to_connection_def intro!: yields_return
          intro: yields_bind [OF yields_lift [where R = inactive]] inactive_row_record)
  qed
  show ?thesis
    unfolding current_connection_def
  proof (rule yields_bind [OF get])
    fix current assume "pred_option inactive current"
    then show "yields never_activated (case current of
        None \<Rightarrow> raiseS (WhatsAppConnectionNotFoundError ''whatsapp connection not found'')
      | Some rec \<Rightarrow> lift_result (WhatsAppCloudConnection_post_init rec)) inactive"
      by (cases current) (auto intro!: yields_raise yields_lift simp: inactive_def connection_post_init_status(1))
  qed
qed

lemma store_connection_keeps:
  assumes "inactive c"
  shows "keeps never_activated (store_connection c v)"
proof -
  have update: "keeps never_activated (connection_update d v)" if d: "inactive d" for d
  proof -
    have "keeps never_activated (write_connections (\<lambda>db. map (\<lambda>r. if wcr_id r = i then assign_connection r d else r)
        (cn_connections db)))" for i
      by (rule write_connections_keeps) (use d in \<open>auto simp: never_activated_def list_all_iff inactive_assigned_row\<close>)
    then show ?thesis
      unfolding connection_update_def
      by (intro keeps_intros) (auto intro!: keeps_intros split: option.splits)
  qed
  show ?thesis
    unfolding store_connection_def
  proof (rule yields_bind [OF yields_lift])
    show "inactive d" if "replace_connection c = Inr d" for d
      using assms replace_connection_status [OF that] by (simp add: inactive_def)
    show "keeps never_activated (version_conflict_unavailable (connection_update d v))" if "inactive d" for d
      unfolding version_conflict_unavailable_def
      by (rule yields_try [OF update [OF that]]) (auto intro!: keeps_intros split: connection_error.splits)
  qed
qed

lemma create_keeps: "keeps never_activated (create_in_session env now t ch inp origin)"
proof -
  have add: "keeps never_activated (connection_add c)" if "inactive c" for c
    unfolding connection_add_def
    by (rule write_connections_keeps) (use that in \<open>simp add: never_activated_def inactive_record_row\<close>)
  have channel: "keeps never_activated (case ch of None \<Rightarrow> channel_add c | Some c' \<Rightarrow> ensure (p c') e)" for ch c p e
    unfolding channel_add_def
    by (cases ch) (auto intro!: keeps_modify keeps_intros simp: never_activated_def Let_def split: if_splits)
  show ?thesis
    unfolding create_in_session_def channel_get_by_id_def
    apply (rule keeps_bind [OF keeps_basic(6)], rule keeps_bind [OF keeps_basic(4)], rule keeps_bind [OF keeps_basic(6)])
    apply (rule yields_bind [OF yields_lift [where R = inactive]])
     apply (simp add: connection_post_init_status(1) inactive_def)
    apply (intro keeps_bind yields_tenant_scoped_get channel add connection_audit_keeps keeps_basic)
    apply assumption
    done
qed

lemma update_keeps:
  "never_activated (w_db w) \<Longrightarrow> update_connection now t i inp v w = (r, w') \<Longrightarrow> never_activated (w_db w')"
  unfolding update_connection_def
proof (erule transaction_keeps [where R = "\<lambda>_. True", rotated 1])
  show "keeps never_activated (bindS (current_connection t i) (\<lambda>domain.
     bindS (store_connection
              (domain\<lparr>wc_app_id := in_app_id inp, wc_waba_id := in_waba_id inp,
                      wc_phone_number_id := in_phone_number_id inp,
                      wc_display_phone_number := in_display_phone_number inp,
                      wc_graph_api_version := in_graph_api_version inp,
                      wc_access_token_ref := in_access_token_ref inp,
                      wc_app_secret_ref := in_app_secret_ref inp,
                      wc_verify_token_ref := in_verify_token_ref inp, wc_updated_at := now,
                      wc_version := wc_version domain + 1\<rparr>) v) (\<lambda>persisted.
     bindS commit (\<lambda>_. lift_result (WhatsAppCloudConnection_post_init persisted)))))"
    by (rule yields_bind [OF current_connection_yields])
      (intro keeps_intros store_connection_keeps, simp add: inactive_def)
qed

lemma disable_keeps:
  assumes "never_activated (w_db w)" and "disable_connection env now t i v origin w = (r, w')"
  shows "never_activated (w_db w')"
  using assms(2) unfolding disable_connection_def
  apply (rule transaction_keeps [where R = "\<lambda>_. True", rotated 2])
   apply (rule yields_bind [OF current_connection_yields])
   apply (intro keeps_intros store_connection_keeps, simp add: inactive_def)
  by (rule assms(1))

text \<open>An inactive connection resolves no token, so that its verification stops there.\<close>

lemma verify_keeps:
  assumes "never_activated (w_db w)" and "verify_connection env now t i v origin w = (r, w')"
  shows "never_activated (w_db w')"
  using assms(2) unfolding verify_connection_def
  apply (rule transaction_keeps [where R = "\<lambda>_. True", rotated 2])
   apply (rule yields_bind [OF current_connection_yields])
   apply (rule keeps_bind [OF keeps_basic(5)])
   apply (rule yields_bind [OF yields_lift [where R = "\<lambda>token. token = None"]])
    apply (auto simp: resolve_access_token_def connection_requires_credentials_def inactive_def)[1]
   apply (simp add: keeps_intros)
  by (rule assms(1))

text \<open>The runs of the service: any sequence of its four operations, whatever they return.\<close>

inductive connection_run :: "connection_db world \<Rightarrow> connection_db world \<Rightarrow> bool" where
  run_start: "connection_run w w"
| run_create: "connection_run w w1 \<Longrightarrow> create_connection env now t ch inp origin w1 = (r, w2) \<Longrightarrow> connection_run w w2"
| run_update: "connection_run w w1 \<Longrightarrow> update_connection now t i inp v w1 = (r, w2) \<Longrightarrow> connection_run w w2"
| run_verify: "connection_run w w1 \<Longrightarrow> verify_connection env now t i v origin w1 = (r, w2) \<Longrightarrow> connection_run w w2"
| run_disable: "connection_run w w1 \<Longrightarrow> disable_connection env now t i v origin w1 = (r, w2) \<Longrightarrow> connection_run w w2"

lemma connection_run_never_activated:
  "connection_run w w' \<Longrightarrow> never_activated (w_db w) \<Longrightarrow> never_activated (w_db w')"
proof (induction rule: connection_run.induct)
  case (run_create w w1 env now t ch inp origin r w2)
  then show ?case using transaction_keeps [OF create_keeps] unfolding create_connection_def by blast
qed (auto intro: update_keeps verify_keeps disable_keeps)

text \<open>
  C37.
  No connection ever becomes active. From tables without connections, every sequence of
  \<open>create_connection\<close>, \<open>update_connection\<close>, \<open>verify_connection\<close> and \<open>disable_connection\<close>, in every
  environment, leaves every stored connection in status \<open>draft\<close> or \<open>disabled\<close>, so that none of them
  allows outbound messages or ingestion: \<open>verify_connection\<close>, the only operation that sets the status
  \<open>active\<close>, asks for a token that \<open>_resolve_access_token\<close> does not resolve for a draft.
\<close>

theorem connections_never_active:
  assumes "connection_run w w'" and "cn_connections (w_db w) = []"
    and "row \<in> set (cn_connections (w_db w'))" and "whatsapp_row_to_record row = Inr c"
  shows "wc_status c \<in> {WCS_DRAFT, WCS_DISABLED} \<and> \<not> connection_allows_outbound (wc_status c) \<and>
    \<not> connection_allows_ingestion (wc_status c)"
proof -
  have "never_activated (w_db w')"
    by (rule connection_run_never_activated [OF assms(1)]) (simp add: never_activated_def assms(2))
  then have "inactive c"
    using assms(3) inactive_row_record [OF _ assms(4)] by (simp add: never_activated_def list_all_iff)
  then show ?thesis
    by (auto simp: inactive_def connection_allows_outbound_def connection_allows_ingestion_def ACTIVE_STATUSES_def)
qed

text \<open>An example: a connection with all credentials, created and then verified by the provider.\<close>

definition example_env :: connection_env where
  "example_env =
     \<lparr>ce_uuid4 = word_of_nat, ce_token_hex = (\<lambda>i. replicate 32 CHR ''a''),
      ce_resolve_access_token = (\<lambda>t i k. Inr (Some ''token'')),
      ce_verify_transport = (\<lambda>p. HTTP_Response 200 2
        (WB_Object \<lparr>wd_message_id = None, wd_display_phone_number = None\<rparr>))\<rparr>"

definition example_input :: connection_input where
  "example_input =
     \<lparr>in_app_id = ''1'', in_waba_id = ''2'', in_phone_number_id = ''3'', in_display_phone_number = None,
      in_graph_api_version = ''v21.0'', in_access_token_ref = Some ''ACCESS'',
      in_app_secret_ref = Some ''SECRET'', in_verify_token_ref = Some ''VERIFY''\<rparr>"

definition empty_world :: "connection_db world" where
  "empty_world = \<lparr>w_db = \<lparr>ad_events = [], cd_tenants = [], cd_contents = [], cn_channels = [], cn_connections = []\<rparr>,
     w_draws = 0\<rparr>"

definition created_world :: "connection_db world" where
  "created_world = snd (create_connection example_env (Aware 0) 7 8 example_input example_origin empty_world)"

lemma example_created:
  "cn_connections (w_db created_world) \<noteq> [] \<and> is_ok (whatsapp_row_to_record (hd (cn_connections (w_db created_world))))"
  by code_simp

theorem connections_never_active_witness:
  "connection_run empty_world created_world \<and>
   (\<exists>row \<in> set (cn_connections (w_db created_world)). \<exists>c. whatsapp_row_to_record row = Inr c \<and>
      \<not> connection_allows_outbound (wc_status c))"
proof -
  obtain r where "create_connection example_env (Aware 0) 7 8 example_input example_origin empty_world =
      (r, created_world)"
    unfolding created_world_def by (metis prod.collapse)
  then have run: "connection_run empty_world created_world" by (rule run_create [OF run_start])
  have empty: "cn_connections (w_db empty_world) = []" by (simp add: empty_world_def)
  obtain row c where "row \<in> set (cn_connections (w_db created_world))" "whatsapp_row_to_record row = Inr c"
    using example_created unfolding is_ok_iff by (metis list.set_sel(1))
  with connections_never_active [OF run empty this] run show ?thesis by blast
qed

end
