(* ===== verification/Auth_Domain.thy ===== *)
theory Auth_Domain
  imports Identity_Enums Audit_Domain Content_Domain
begin

text \<open>
  The value model of authentication: hashes, emails and tokens (\<open>domain/authentication.py\<close>,
  \<open>security/authentication_tokens.py\<close>), users, credentials, sessions and one-time tokens with their
  checks, the timeout policies and the guards of \<open>domain/authentication_policy.py\<close>.

  SHA-256 is a parameter; Base64 is written out, because the check of a raw token rests on it.
\<close>

section \<open>Enumerations and errors\<close>

datatype assurance_level = AAL_SINGLE_FACTOR | AAL_MULTI_FACTOR

fun assurance_value :: "assurance_level \<Rightarrow> string" where
  "assurance_value AAL_SINGLE_FACTOR = ''single_factor''"
| "assurance_value AAL_MULTI_FACTOR = ''multi_factor''"

definition assurance_levels :: "assurance_level list" where
  "assurance_levels = [AAL_SINGLE_FACTOR, AAL_MULTI_FACTOR]"

datatype mfa_method = MFA_WEBAUTHN | MFA_TOTP

fun mfa_method_value :: "mfa_method \<Rightarrow> string" where
  "mfa_method_value MFA_WEBAUTHN = ''webauthn''"
| "mfa_method_value MFA_TOTP = ''totp''"

datatype token_purpose = TP_EMAIL_VERIFICATION | TP_PASSWORD_RESET

fun token_purpose_value :: "token_purpose \<Rightarrow> string" where
  "token_purpose_value TP_EMAIL_VERIFICATION = ''email_verification''"
| "token_purpose_value TP_PASSWORD_RESET = ''password_reset''"

definition token_purposes :: "token_purpose list" where
  "token_purposes = [TP_EMAIL_VERIFICATION, TP_PASSWORD_RESET]"

datatype session_stage = ST_PENDING_MFA | ST_AUTHENTICATED

fun session_stage_value :: "session_stage \<Rightarrow> string" where
  "session_stage_value ST_PENDING_MFA = ''pending_mfa''"
| "session_stage_value ST_AUTHENTICATED = ''authenticated''"

definition session_stages :: "session_stage list" where
  "session_stages = [ST_PENDING_MFA, ST_AUTHENTICATED]"

lemma auth_enum_values [enum_simps]:
  "enum_of assurance_value assurance_levels (assurance_value a) = Some a"
  "enum_of token_purpose_value token_purposes (token_purpose_value p) = Some p"
  "enum_of session_stage_value session_stages (session_stage_value s) = Some s"
  by (cases a; cases p; cases s;
      simp add: enum_of_def assurance_levels_def token_purposes_def session_stages_def)+

datatype auth_error =
    Auth_ValueError string
  | MfaRequiredError string
  | EmailVerificationRequiredError string
  | AuthenticationTokenUnavailableError string
  | AuthenticationSessionUnavailableError string
  | AuthenticationSessionTransitionError string
  | AuthenticationFailedError
  | AuthenticationWorkflowUnavailableError
  | RegistrationUnavailableError
  | DuplicateCredentialEmailError
  | DuplicateUserCredentialError
  | DuplicateSessionTokenError
  | DuplicateOneTimeTokenError
  | AuthenticationReferenceError
  | AuthenticationRecordNotFoundError string
  | AuthenticationPersistenceError
  | Auth_DriverError string
  | Auth_AuditError audit_error
  | Auth_AuditAppendRequiredError string
  | Auth_ContentError content_error
  | Auth_PersistenceError string

section \<open>Hashes and emails\<close>

definition AuthenticationTokenHash_post_init :: "bytes \<Rightarrow> auth_error + bytes" where
  "AuthenticationTokenHash_post_init digest =
     (if length digest \<noteq> 32 then Inl (Auth_ValueError ''digest must contain exactly 32 bytes'')
      else Inr digest)"

definition PasswordHash_post_init :: "string \<Rightarrow> auth_error + string" where
  "PasswordHash_post_init encoded =
     bindE (raise_if (encoded = []) (Auth_ValueError ''encoded must not be empty'')) (\<lambda>_.
     bindE (raise_if (encoded \<noteq> strip encoded)
              (Auth_ValueError ''encoded must not contain surrounding whitespace'')) (\<lambda>_.
     bindE (raise_if (list_ex is_space encoded)
              (Auth_ValueError ''encoded must not contain whitespace'')) (\<lambda>_.
     bindE (raise_if (\<not> prefix ''$argon2id$'' encoded)
              (Auth_ValueError ''encoded must be an Argon2id PHC string'')) (\<lambda>_.
     Inr encoded))))"

text \<open>\<open>value.split("@", maxsplit=1)\<close> on a text with one separator.\<close>

definition at_split :: "string \<Rightarrow> string \<times> string" where
  "at_split s = (takeWhile (\<lambda>c. c \<noteq> CHR ''@'') s, drop 1 (dropWhile (\<lambda>c. c \<noteq> CHR ''@'') s))"

definition AuthenticationEmail_post_init :: "string \<Rightarrow> auth_error + string" where
  "AuthenticationEmail_post_init value =
     (let normalized = to_lower (strip value) in
      bindE (raise_if (normalized = []) (Auth_ValueError ''value must not be empty'')) (\<lambda>_.
      bindE (raise_if (list_ex is_space normalized)
               (Auth_ValueError ''value must not contain whitespace'')) (\<lambda>_.
      bindE (raise_if (length (filter (\<lambda>c. c = CHR ''@'') normalized) \<noteq> 1)
               (Auth_ValueError ''value must contain exactly one @'')) (\<lambda>_.
      let (local_part, domain_part) = at_split normalized in
      bindE (raise_if (local_part = []) (Auth_ValueError ''email local part must not be empty'')) (\<lambda>_.
      bindE (raise_if (domain_part = []) (Auth_ValueError ''email domain part must not be empty'')) (\<lambda>_.
      Inr normalized))))))"

section \<open>Raw tokens\<close>

definition TOKEN_ENTROPY_BYTES :: nat where
  "TOKEN_ENTROPY_BYTES = 32"

definition ENCODED_TOKEN_LENGTH :: nat where
  "ENCODED_TOKEN_LENGTH = 43"

text \<open>URL-safe Base64 without padding, as \<open>urlsafe_b64encode(...).rstrip(b"=")\<close> gives it.\<close>

definition b64_char :: "nat \<Rightarrow> char" where
  "b64_char n =
     (if n < 26 then char_of (65 + n) else if n < 52 then char_of (71 + n)
      else if n < 62 then char_of (n - 4) else if n = 62 then CHR ''-'' else CHR ''_'')"

definition b64_value :: "char \<Rightarrow> nat option" where
  "b64_value c =
     (let n = (of_char c :: nat) in
      if 65 \<le> n \<and> n \<le> 90 then Some (n - 65) else if 97 \<le> n \<and> n \<le> 122 then Some (n - 71)
      else if 48 \<le> n \<and> n \<le> 57 then Some (n + 4) else if n = 45 then Some 62
      else if n = 95 then Some 63 else None)"

definition in_urlsafe_alphabet :: "char \<Rightarrow> bool" where
  "in_urlsafe_alphabet c \<longleftrightarrow> b64_value c \<noteq> None"

fun urlsafe_b64encode :: "nat list \<Rightarrow> string" where
  "urlsafe_b64encode [] = []"
| "urlsafe_b64encode [a] = [b64_char (a div 4), b64_char (a mod 4 * 16)]"
| "urlsafe_b64encode [a, b] =
     [b64_char (a div 4), b64_char (a mod 4 * 16 + b div 16), b64_char (b mod 16 * 4)]"
| "urlsafe_b64encode (a # b # c # rest) =
     [b64_char (a div 4), b64_char (a mod 4 * 16 + b div 16), b64_char (b mod 16 * 4 + c div 64),
      b64_char (c mod 64)] @ urlsafe_b64encode rest"

text \<open>
  \<open>b64decode\<close> of a padded text, given by its digits: the bits after the last full byte are dropped,
  and a single digit left over is an error (\<open>None\<close>).
\<close>

fun b64decode_digits :: "nat list \<Rightarrow> nat list option" where
  "b64decode_digits [] = Some []"
| "b64decode_digits [p] = None"
| "b64decode_digits [p, q] = Some [p * 4 + q div 16]"
| "b64decode_digits [p, q, r] = Some [p * 4 + q div 16, q mod 16 * 16 + r div 4]"
| "b64decode_digits (p # q # r # s # rest) =
     map_option (\<lambda>bs. [p * 4 + q div 16, q mod 16 * 16 + r div 4, r mod 4 * 64 + s] @ bs)
       (b64decode_digits rest)"

definition not_canonical :: auth_error where
  "not_canonical = Auth_ValueError ''value must be a canonical URL-safe encoding of exactly 32 bytes''"

definition RawAuthenticationToken_post_init :: "string \<Rightarrow> auth_error + string" where
  "RawAuthenticationToken_post_init value =
     (if length value \<noteq> ENCODED_TOKEN_LENGTH then Inl not_canonical
      else if list_ex (\<lambda>c. \<not> in_urlsafe_alphabet c) value then Inl not_canonical
      else case b64decode_digits (map (the \<circ> b64_value) value) of
        None \<Rightarrow> Inl not_canonical
      | Some decoded \<Rightarrow>
          if length decoded \<noteq> TOKEN_ENTROPY_BYTES \<or> urlsafe_b64encode decoded \<noteq> value
          then Inl not_canonical else Inr value)"

text \<open>The token made of the bytes of the random source.\<close>

definition encode_raw_token :: "bytes \<Rightarrow> auth_error + string" where
  "encode_raw_token random_bytes =
     RawAuthenticationToken_post_init (urlsafe_b64encode (map unat random_bytes))"

definition hash_authentication_token :: "(bytes \<Rightarrow> bytes) \<Rightarrow> string \<Rightarrow> auth_error + bytes" where
  "hash_authentication_token sha256 token =
     AuthenticationTokenHash_post_init (sha256 (map of_char token))"

definition authentication_token_matches_hash ::
    "(bytes \<Rightarrow> bytes) \<Rightarrow> string \<Rightarrow> bytes \<Rightarrow> auth_error + bool" where
  "authentication_token_matches_hash sha256 token expected_hash =
     bindE (hash_authentication_token sha256 token) (\<lambda>candidate. Inr (candidate = expected_hash))"

section \<open>Users, credentials, memberships\<close>

record user =
  usr_id :: uuid
  usr_status :: user_status

record membership =
  mem_id :: uuid
  mem_tenant_id :: uuid
  mem_user_id :: uuid
  mem_roles :: "role list"
  mem_status :: membership_status

definition Membership_post_init :: "membership \<Rightarrow> auth_error + membership" where
  "Membership_post_init m =
     bindE (raise_if (mem_roles m = []) (Auth_ValueError ''roles must not be empty'')) (\<lambda>_. Inr m)"

record email_password_credential =
  cred_id :: uuid
  cred_user_id :: uuid
  cred_email :: string
  cred_password_hash :: string
  cred_created_at :: datetime
  cred_email_verified_at :: "datetime option"

definition EmailPasswordCredential_post_init ::
    "email_password_credential \<Rightarrow> auth_error + email_password_credential" where
  "EmailPasswordCredential_post_init c =
     bindE (require_aware (Auth_ValueError ''created_at must be timezone-aware'') (cred_created_at c)) (\<lambda>_.
     bindE (when_some (cred_email_verified_at c) (\<lambda>verified_at.
              bindE (require_aware (Auth_ValueError ''email_verified_at must be timezone-aware'') verified_at) (\<lambda>_.
              raise_if (verified_at < cred_created_at c)
                (Auth_ValueError ''email_verified_at must be greater than or equal to created_at'')))) (\<lambda>_.
     Inr c))"

section \<open>Sessions\<close>

record authentication_session =
  ses_id :: uuid
  ses_user_id :: uuid
  ses_token_hash :: bytes
  ses_stage :: session_stage
  ses_assurance_level :: assurance_level
  ses_mfa_completed :: bool
  ses_created_at :: datetime
  ses_last_seen_at :: datetime
  ses_expires_at :: datetime
  ses_revoked_at :: "datetime option"

definition AuthenticationSession_post_init ::
    "authentication_session \<Rightarrow> auth_error + authentication_session" where
  "AuthenticationSession_post_init s =
     bindE (raise_if (ses_stage s = ST_PENDING_MFA \<and>
                (ses_assurance_level s \<noteq> AAL_SINGLE_FACTOR \<or> ses_mfa_completed s))
              (Auth_ValueError ''pending MFA session must use single-factor assurance with incomplete MFA'')) (\<lambda>_.
     bindE (raise_if (ses_stage s = ST_AUTHENTICATED \<and> ses_assurance_level s = AAL_SINGLE_FACTOR \<and>
                ses_mfa_completed s)
              (Auth_ValueError ''authenticated session MFA state must match assurance level'')) (\<lambda>_.
     bindE (raise_if (ses_stage s = ST_AUTHENTICATED \<and> ses_assurance_level s = AAL_MULTI_FACTOR \<and>
                \<not> ses_mfa_completed s)
              (Auth_ValueError ''authenticated session MFA state must match assurance level'')) (\<lambda>_.
     bindE (require_aware (Auth_ValueError ''created_at must be timezone-aware'') (ses_created_at s)) (\<lambda>_.
     bindE (require_aware (Auth_ValueError ''last_seen_at must be timezone-aware'') (ses_last_seen_at s)) (\<lambda>_.
     bindE (require_aware (Auth_ValueError ''expires_at must be timezone-aware'') (ses_expires_at s)) (\<lambda>_.
     bindE (when_some (ses_revoked_at s)
              (require_aware (Auth_ValueError ''revoked_at must be timezone-aware''))) (\<lambda>_.
     bindE (raise_if (ses_last_seen_at s < ses_created_at s)
              (Auth_ValueError ''last_seen_at must be greater than or equal to created_at'')) (\<lambda>_.
     bindE (raise_if (ses_expires_at s \<le> ses_created_at s)
              (Auth_ValueError ''expires_at must be strictly greater than created_at'')) (\<lambda>_.
     bindE (raise_if (ses_expires_at s < ses_last_seen_at s)
              (Auth_ValueError ''last_seen_at must be less than or equal to expires_at'')) (\<lambda>_.
     bindE (when_some (ses_revoked_at s) (\<lambda>revoked_at. raise_if (revoked_at < ses_created_at s)
              (Auth_ValueError ''revoked_at must be greater than or equal to created_at''))) (\<lambda>_.
     Inr s)))))))))))"

section \<open>One-time tokens\<close>

record one_time_token =
  ott_id :: uuid
  ott_user_id :: uuid
  ott_purpose :: token_purpose
  ott_token_hash :: bytes
  ott_created_at :: datetime
  ott_expires_at :: datetime
  ott_consumed_at :: "datetime option"
  ott_revoked_at :: "datetime option"

definition AuthenticationOneTimeToken_post_init :: "one_time_token \<Rightarrow> auth_error + one_time_token" where
  "AuthenticationOneTimeToken_post_init t =
     bindE (require_aware (Auth_ValueError ''created_at must be timezone-aware'') (ott_created_at t)) (\<lambda>_.
     bindE (require_aware (Auth_ValueError ''expires_at must be timezone-aware'') (ott_expires_at t)) (\<lambda>_.
     bindE (when_some (ott_consumed_at t)
              (require_aware (Auth_ValueError ''consumed_at must be timezone-aware''))) (\<lambda>_.
     bindE (when_some (ott_revoked_at t)
              (require_aware (Auth_ValueError ''revoked_at must be timezone-aware''))) (\<lambda>_.
     bindE (raise_if (ott_expires_at t \<le> ott_created_at t)
              (Auth_ValueError ''expires_at must be strictly greater than created_at'')) (\<lambda>_.
     bindE (when_some (ott_consumed_at t) (\<lambda>consumed_at. raise_if (consumed_at < ott_created_at t)
              (Auth_ValueError ''consumed_at must be greater than or equal to created_at''))) (\<lambda>_.
     bindE (when_some (ott_consumed_at t) (\<lambda>consumed_at. raise_if (ott_expires_at t < consumed_at)
              (Auth_ValueError ''consumed_at must be less than or equal to expires_at''))) (\<lambda>_.
     bindE (when_some (ott_revoked_at t) (\<lambda>revoked_at. raise_if (revoked_at < ott_created_at t)
              (Auth_ValueError ''revoked_at must be greater than or equal to created_at''))) (\<lambda>_.
     Inr t))))))))"

section \<open>Timeout policies\<close>

record session_timeout_policy =
  stp_authenticated_idle :: int
  stp_authenticated_absolute :: int
  stp_pending_mfa :: int

definition validate_positive_timedelta :: "string \<Rightarrow> int \<Rightarrow> auth_error + unit" where
  "validate_positive_timedelta name d = raise_if (d \<le> 0) (Auth_ValueError (name @ '' must be greater than zero''))"

definition AuthenticationSessionTimeoutPolicy_post_init ::
    "session_timeout_policy \<Rightarrow> auth_error + session_timeout_policy" where
  "AuthenticationSessionTimeoutPolicy_post_init p =
     bindE (validate_positive_timedelta ''authenticated_idle_timeout'' (stp_authenticated_idle p)) (\<lambda>_.
     bindE (validate_positive_timedelta ''authenticated_absolute_timeout'' (stp_authenticated_absolute p)) (\<lambda>_.
     bindE (validate_positive_timedelta ''pending_mfa_timeout'' (stp_pending_mfa p)) (\<lambda>_.
     Inr p)))"

definition AUTHENTICATION_SESSION_TIMEOUT_POLICY :: session_timeout_policy where
  "AUTHENTICATION_SESSION_TIMEOUT_POLICY =
     \<lparr>stp_authenticated_idle = timedelta_minutes 30, stp_authenticated_absolute = timedelta_hours 12,
      stp_pending_mfa = timedelta_minutes 5\<rparr>"

definition session_absolute_expiry ::
    "session_timeout_policy \<Rightarrow> session_stage \<Rightarrow> datetime \<Rightarrow> auth_error + datetime" where
  "session_absolute_expiry policy stage created_at =
     bindE (require_aware (Auth_ValueError ''created_at must be timezone-aware'') created_at) (\<lambda>_.
     Inr (dt_plus created_at (if stage = ST_PENDING_MFA then stp_pending_mfa policy
                              else stp_authenticated_absolute policy)))"

definition session_idle_expiry ::
    "session_timeout_policy \<Rightarrow> session_stage \<Rightarrow> datetime \<Rightarrow> auth_error + datetime option" where
  "session_idle_expiry policy stage last_seen_at =
     bindE (require_aware (Auth_ValueError ''last_seen_at must be timezone-aware'') last_seen_at) (\<lambda>_.
     Inr (if stage = ST_PENDING_MFA then None
          else Some (dt_plus last_seen_at (stp_authenticated_idle policy))))"

record token_timeout_policy =
  ttp_email_verification :: int
  ttp_password_reset :: int

definition AuthenticationOneTimeTokenTimeoutPolicy_post_init ::
    "token_timeout_policy \<Rightarrow> auth_error + token_timeout_policy" where
  "AuthenticationOneTimeTokenTimeoutPolicy_post_init p =
     bindE (validate_positive_timedelta ''email_verification_timeout'' (ttp_email_verification p)) (\<lambda>_.
     bindE (validate_positive_timedelta ''password_reset_timeout'' (ttp_password_reset p)) (\<lambda>_.
     Inr p))"

definition AUTHENTICATION_ONE_TIME_TOKEN_TIMEOUT_POLICY :: token_timeout_policy where
  "AUTHENTICATION_ONE_TIME_TOKEN_TIMEOUT_POLICY =
     \<lparr>ttp_email_verification = timedelta_hours 24, ttp_password_reset = timedelta_minutes 30\<rparr>"

definition one_time_token_expiry ::
    "token_timeout_policy \<Rightarrow> token_purpose \<Rightarrow> datetime \<Rightarrow> auth_error + datetime" where
  "one_time_token_expiry policy purpose created_at =
     bindE (require_aware (Auth_ValueError ''created_at must be timezone-aware'') created_at) (\<lambda>_.
     Inr (dt_plus created_at (if purpose = TP_EMAIL_VERIFICATION then ttp_email_verification policy
                              else ttp_password_reset policy)))"

section \<open>Guards\<close>

definition PRIVILEGED_MFA_ROLES :: "role list" where
  "PRIVILEGED_MFA_ROLES = [ROLE_OWNER, ROLE_SALES_HEAD, ROLE_COMPLIANCE_ADMIN]"

definition requires_mfa_for_roles :: "role list \<Rightarrow> bool" where
  "requires_mfa_for_roles rs \<longleftrightarrow> list_ex (\<lambda>r. r \<in> set PRIVILEGED_MFA_ROLES) rs"

definition require_privileged_mfa :: "membership \<Rightarrow> authentication_session \<Rightarrow> auth_error + unit" where
  "require_privileged_mfa m s =
     bindE (raise_if (mem_user_id m \<noteq> ses_user_id s)
              (MfaRequiredError ''multi-factor authentication required'')) (\<lambda>_.
     if \<not> requires_mfa_for_roles (mem_roles m) then Inr ()
     else raise_if (ses_assurance_level s \<noteq> AAL_MULTI_FACTOR \<or> \<not> ses_mfa_completed s)
            (MfaRequiredError ''multi-factor authentication required''))"

definition require_verified_email :: "email_password_credential \<Rightarrow> auth_error + unit" where
  "require_verified_email c =
     raise_if (cred_email_verified_at c = None)
       (EmailVerificationRequiredError ''email verification required'')"

definition require_usable_authentication_token :: "one_time_token \<Rightarrow> datetime \<Rightarrow> auth_error + unit" where
  "require_usable_authentication_token t now =
     bindE (require_aware (Auth_ValueError ''now must be timezone-aware'') now) (\<lambda>_.
     raise_if (now < ott_created_at t \<or> ott_expires_at t \<le> now \<or> ott_consumed_at t \<noteq> None \<or>
               ott_revoked_at t \<noteq> None)
       (AuthenticationTokenUnavailableError ''authentication token unavailable''))"

definition require_usable_authentication_session ::
    "session_timeout_policy \<Rightarrow> authentication_session \<Rightarrow> datetime \<Rightarrow> auth_error + unit" where
  "require_usable_authentication_session policy s now =
     bindE (require_aware (Auth_ValueError ''now must be timezone-aware'') now) (\<lambda>_.
     bindE (session_absolute_expiry policy (ses_stage s) (ses_created_at s)) (\<lambda>absolute_expiry.
     bindE (session_idle_expiry policy (ses_stage s) (ses_last_seen_at s)) (\<lambda>idle_expiry.
     raise_if (now < ses_created_at s \<or> now < ses_last_seen_at s \<or> ses_expires_at s \<le> now \<or>
               absolute_expiry \<le> now \<or> (case idle_expiry of None \<Rightarrow> False | Some e \<Rightarrow> e \<le> now) \<or>
               ses_revoked_at s \<noteq> None)
       (AuthenticationSessionUnavailableError ''authentication session unavailable''))))"

end
