(* ===== verification/Auth_Store.thy ===== *)
theory Auth_Store
  imports Auth_Domain Content_Service
begin

text \<open>
  Persistence of authentication: the rows and constraints of \<open>infrastructure/authentication_orm.py\<close>,
  the mappers of \<open>authentication_mappers.py\<close>, the repositories of \<open>authentication_repositories.py\<close>, and
  the memberships (\<open>tenant_repositories.py\<close>) and enrolments (\<open>mfa_totp_repositories.py\<close>) which decide
  about the second factor. The tables extend those of encrypted contents, where the secrets of the
  second factor are.
\<close>

section \<open>Rows and tables\<close>

record user_row =
  usrr_id :: uuid
  usrr_status :: string

record credential_row =
  crr_id :: uuid
  crr_user_id :: uuid
  crr_email :: string
  crr_password_hash :: string
  crr_created_at :: datetime
  crr_email_verified_at :: "datetime option"

record session_row =
  sr_id :: uuid
  sr_user_id :: uuid
  sr_token_hash :: bytes
  sr_stage :: string
  sr_assurance_level :: string
  sr_mfa_completed :: bool
  sr_created_at :: datetime
  sr_last_seen_at :: datetime
  sr_expires_at :: datetime
  sr_revoked_at :: "datetime option"

record one_time_token_row =
  otr_id :: uuid
  otr_user_id :: uuid
  otr_purpose :: string
  otr_token_hash :: bytes
  otr_created_at :: datetime
  otr_expires_at :: datetime
  otr_consumed_at :: "datetime option"
  otr_revoked_at :: "datetime option"

record membership_row =
  mbr_id :: uuid
  mbr_tenant_id :: uuid
  mbr_user_id :: uuid
  mbr_status :: string

record membership_role_row =
  mrr_membership_id :: uuid
  mrr_role :: string

record totp_enrollment =
  te_user_id :: uuid
  te_secret_tenant_id :: uuid
  te_encrypted_secret_content_id :: uuid
  te_last_accepted_timestep :: "int option"
  te_created_at :: datetime
  te_updated_at :: datetime

record auth_db = content_db +
  au_users :: "user_row list"
  au_credentials :: "credential_row list"
  au_sessions :: "session_row list"
  au_tokens :: "one_time_token_row list"
  au_memberships :: "membership_row list"
  au_membership_roles :: "membership_role_row list"
  au_enrollments :: "totp_enrollment list"

type_synonym 'a auth_comp = "(auth_db, auth_error, 'a) session_comp"

section \<open>Mappers\<close>

definition auth_enum :: "('a \<Rightarrow> string) \<Rightarrow> 'a list \<Rightarrow> string \<Rightarrow> auth_error + 'a" where
  "auth_enum val members s =
     (case enum_of val members s of None \<Rightarrow> Inl (Auth_ValueError ''not a valid enumeration value'')
      | Some m \<Rightarrow> Inr m)"

definition user_to_row :: "user \<Rightarrow> user_row" where
  "user_to_row u = \<lparr>usrr_id = usr_id u, usrr_status = user_status_value (usr_status u)\<rparr>"

definition user_to_domain :: "user_row \<Rightarrow> auth_error + user" where
  "user_to_domain r =
     bindE (auth_enum user_status_value user_statuses (usrr_status r)) (\<lambda>status.
     Inr \<lparr>usr_id = usrr_id r, usr_status = status\<rparr>)"

definition credential_to_row :: "email_password_credential \<Rightarrow> credential_row" where
  "credential_to_row c =
     \<lparr>crr_id = cred_id c, crr_user_id = cred_user_id c, crr_email = cred_email c,
      crr_password_hash = cred_password_hash c, crr_created_at = cred_created_at c,
      crr_email_verified_at = cred_email_verified_at c\<rparr>"

definition credential_to_domain :: "credential_row \<Rightarrow> auth_error + email_password_credential" where
  "credential_to_domain r =
     bindE (AuthenticationEmail_post_init (crr_email r)) (\<lambda>email.
     bindE (PasswordHash_post_init (crr_password_hash r)) (\<lambda>password_hash.
     EmailPasswordCredential_post_init
       \<lparr>cred_id = crr_id r, cred_user_id = crr_user_id r, cred_email = email,
        cred_password_hash = password_hash, cred_created_at = crr_created_at r,
        cred_email_verified_at = crr_email_verified_at r\<rparr>))"

definition session_to_row :: "authentication_session \<Rightarrow> session_row" where
  "session_to_row s =
     \<lparr>sr_id = ses_id s, sr_user_id = ses_user_id s, sr_token_hash = ses_token_hash s,
      sr_stage = session_stage_value (ses_stage s),
      sr_assurance_level = assurance_value (ses_assurance_level s),
      sr_mfa_completed = ses_mfa_completed s, sr_created_at = ses_created_at s,
      sr_last_seen_at = ses_last_seen_at s, sr_expires_at = ses_expires_at s,
      sr_revoked_at = ses_revoked_at s\<rparr>"

definition session_to_domain :: "session_row \<Rightarrow> auth_error + authentication_session" where
  "session_to_domain r =
     bindE (AuthenticationTokenHash_post_init (sr_token_hash r)) (\<lambda>token_hash.
     bindE (auth_enum session_stage_value session_stages (sr_stage r)) (\<lambda>stage.
     bindE (auth_enum assurance_value assurance_levels (sr_assurance_level r)) (\<lambda>level.
     AuthenticationSession_post_init
       \<lparr>ses_id = sr_id r, ses_user_id = sr_user_id r, ses_token_hash = token_hash, ses_stage = stage,
        ses_assurance_level = level, ses_mfa_completed = sr_mfa_completed r,
        ses_created_at = sr_created_at r, ses_last_seen_at = sr_last_seen_at r,
        ses_expires_at = sr_expires_at r, ses_revoked_at = sr_revoked_at r\<rparr>)))"

definition one_time_token_to_row :: "one_time_token \<Rightarrow> one_time_token_row" where
  "one_time_token_to_row t =
     \<lparr>otr_id = ott_id t, otr_user_id = ott_user_id t, otr_purpose = token_purpose_value (ott_purpose t),
      otr_token_hash = ott_token_hash t, otr_created_at = ott_created_at t,
      otr_expires_at = ott_expires_at t, otr_consumed_at = ott_consumed_at t,
      otr_revoked_at = ott_revoked_at t\<rparr>"

definition one_time_token_to_domain :: "one_time_token_row \<Rightarrow> auth_error + one_time_token" where
  "one_time_token_to_domain r =
     bindE (auth_enum token_purpose_value token_purposes (otr_purpose r)) (\<lambda>purpose.
     bindE (AuthenticationTokenHash_post_init (otr_token_hash r)) (\<lambda>token_hash.
     AuthenticationOneTimeToken_post_init
       \<lparr>ott_id = otr_id r, ott_user_id = otr_user_id r, ott_purpose = purpose,
        ott_token_hash = token_hash, ott_created_at = otr_created_at r,
        ott_expires_at = otr_expires_at r, ott_consumed_at = otr_consumed_at r,
        ott_revoked_at = otr_revoked_at r\<rparr>))"

definition membership_to_domain :: "membership_row \<Rightarrow> role list \<Rightarrow> auth_error + membership" where
  "membership_to_domain r rs =
     bindE (auth_enum membership_status_value membership_statuses (mbr_status r)) (\<lambda>status.
     Membership_post_init
       \<lparr>mem_id = mbr_id r, mem_tenant_id = mbr_tenant_id r, mem_user_id = mbr_user_id r,
        mem_roles = rs, mem_status = status\<rparr>)"

section \<open>Constraints\<close>

text \<open>
  The check constraints of a new row come first, then its primary key and its unique columns in the
  order of the table, then its foreign key. A text with a NUL character is refused by the driver,
  in a row as in a condition.
\<close>

definition storable_text :: "string \<Rightarrow> bool" where
  "storable_text s \<longleftrightarrow> CHR 0x00 \<notin> set s"

definition driver_text :: "string \<Rightarrow> auth_error + unit" where
  "driver_text s = raise_if (\<not> storable_text s) (Auth_DriverError ''text contains a NUL character'')"

definition user_exists :: "auth_db \<Rightarrow> uuid \<Rightarrow> auth_error + unit" where
  "user_exists db user_id =
     raise_if (user_id \<notin> set (map usrr_id (au_users db))) AuthenticationReferenceError"

definition session_row_checks :: "session_row \<Rightarrow> bool" where
  "session_row_checks r \<longleftrightarrow>
     length (sr_token_hash r) = 32 \<and> sr_stage r \<in> set (map session_stage_value session_stages) \<and>
     sr_assurance_level r \<in> set (map assurance_value assurance_levels) \<and>
     ((sr_stage r = ''pending_mfa'' \<and> sr_assurance_level r = ''single_factor'' \<and> \<not> sr_mfa_completed r) \<or>
      (sr_stage r = ''authenticated'' \<and> sr_assurance_level r = ''single_factor'' \<and> \<not> sr_mfa_completed r) \<or>
      (sr_stage r = ''authenticated'' \<and> sr_assurance_level r = ''multi_factor'' \<and> sr_mfa_completed r))"

definition one_time_token_row_checks :: "one_time_token_row \<Rightarrow> bool" where
  "one_time_token_row_checks r \<longleftrightarrow>
     length (otr_token_hash r) = 32 \<and> otr_purpose r \<in> set (map token_purpose_value token_purposes)"

section \<open>Users\<close>

definition user_add :: "user \<Rightarrow> unit auth_comp" where
  "user_add u =
     modify_db (\<lambda>db.
       bindE (raise_if (usr_id u \<in> set (map usrr_id (au_users db))) AuthenticationPersistenceError) (\<lambda>_.
       Inr (db\<lparr>au_users := au_users db @ [user_to_row u]\<rparr>)))"

definition user_get_by_id :: "uuid \<Rightarrow> user option auth_comp" where
  "user_get_by_id user_id =
     bindS (query (\<lambda>db. find (\<lambda>r. usrr_id r = user_id) (au_users db))) (\<lambda>row.
     case row of None \<Rightarrow> returnS None
     | Some r \<Rightarrow> bindS (lift_result (user_to_domain r)) (\<lambda>u. returnS (Some u)))"

definition user_update_status :: "uuid \<Rightarrow> user_status \<Rightarrow> unit auth_comp" where
  "user_update_status user_id status =
     modify_db (\<lambda>db.
       bindE (raise_if (user_id \<notin> set (map usrr_id (au_users db)))
                (AuthenticationRecordNotFoundError ''user not found'')) (\<lambda>_.
       Inr (db\<lparr>au_users := map (\<lambda>r. if usrr_id r = user_id then r\<lparr>usrr_status := user_status_value status\<rparr> else r)
                 (au_users db)\<rparr>)))"

section \<open>Credentials\<close>

definition credential_add :: "email_password_credential \<Rightarrow> unit auth_comp" where
  "credential_add c =
     modify_db (\<lambda>db. let rows = au_credentials db in
       bindE (driver_text (cred_email c)) (\<lambda>_.
       bindE (driver_text (cred_password_hash c)) (\<lambda>_.
       bindE (raise_if (cred_id c \<in> set (map crr_id rows)) AuthenticationPersistenceError) (\<lambda>_.
       bindE (raise_if (cred_email c \<in> set (map crr_email rows)) DuplicateCredentialEmailError) (\<lambda>_.
       bindE (raise_if (cred_user_id c \<in> set (map crr_user_id rows)) DuplicateUserCredentialError) (\<lambda>_.
       bindE (user_exists db (cred_user_id c)) (\<lambda>_.
       Inr (db\<lparr>au_credentials := rows @ [credential_to_row c]\<rparr>))))))))"

definition optional_credential :: "credential_row option \<Rightarrow> email_password_credential option auth_comp" where
  "optional_credential row =
     (case row of None \<Rightarrow> returnS None
      | Some r \<Rightarrow> bindS (lift_result (credential_to_domain r)) (\<lambda>c. returnS (Some c)))"

definition credential_get_by_user_id :: "uuid \<Rightarrow> email_password_credential option auth_comp" where
  "credential_get_by_user_id user_id =
     bindS (query (\<lambda>db. find (\<lambda>r. crr_user_id r = user_id) (au_credentials db))) optional_credential"

text \<open>With or without a row lock: the workflows run one after the other here.\<close>

definition credential_get_by_email :: "string \<Rightarrow> email_password_credential option auth_comp" where
  "credential_get_by_email email =
     bindS (lift_result (driver_text email)) (\<lambda>_.
     bindS (query (\<lambda>db. find (\<lambda>r. crr_email r = email) (au_credentials db))) optional_credential)"

definition credential_get_by_id :: "uuid \<Rightarrow> email_password_credential option auth_comp" where
  "credential_get_by_id credential_id =
     bindS (query (\<lambda>db. find (\<lambda>r. crr_id r = credential_id) (au_credentials db))) optional_credential"

definition update_credential :: "uuid \<Rightarrow> (credential_row \<Rightarrow> credential_row) \<Rightarrow> unit auth_comp" where
  "update_credential credential_id f =
     modify_db (\<lambda>db.
       bindE (raise_if (credential_id \<notin> set (map crr_id (au_credentials db)))
                (AuthenticationRecordNotFoundError ''credential not found'')) (\<lambda>_.
       Inr (db\<lparr>au_credentials := map (\<lambda>r. if crr_id r = credential_id then f r else r) (au_credentials db)\<rparr>)))"

definition set_email_verified_at :: "uuid \<Rightarrow> datetime \<Rightarrow> unit auth_comp" where
  "set_email_verified_at credential_id verified_at =
     update_credential credential_id (crr_email_verified_at_update (\<lambda>_. Some verified_at))"

definition replace_password_hash :: "uuid \<Rightarrow> string \<Rightarrow> unit auth_comp" where
  "replace_password_hash credential_id password_hash =
     bindS (lift_result (driver_text password_hash)) (\<lambda>_.
     update_credential credential_id (crr_password_hash_update (\<lambda>_. password_hash)))"

section \<open>Sessions\<close>

definition session_add :: "authentication_session \<Rightarrow> unit auth_comp" where
  "session_add s =
     modify_db (\<lambda>db. let rows = au_sessions db; row = session_to_row s in
       bindE (raise_if (\<not> session_row_checks row) AuthenticationPersistenceError) (\<lambda>_.
       bindE (raise_if (ses_id s \<in> set (map sr_id rows)) AuthenticationPersistenceError) (\<lambda>_.
       bindE (raise_if (ses_token_hash s \<in> set (map sr_token_hash rows)) DuplicateSessionTokenError) (\<lambda>_.
       bindE (user_exists db (ses_user_id s)) (\<lambda>_.
       Inr (db\<lparr>au_sessions := rows @ [row]\<rparr>))))))"

definition session_get_by_token_hash :: "bytes \<Rightarrow> authentication_session option auth_comp" where
  "session_get_by_token_hash token_hash =
     bindS (query (\<lambda>db. find (\<lambda>r. sr_token_hash r = token_hash) (au_sessions db))) (\<lambda>row.
     case row of None \<Rightarrow> returnS None
     | Some r \<Rightarrow> bindS (lift_result (session_to_domain r)) (\<lambda>s. returnS (Some s)))"

definition session_get_by_id :: "uuid \<Rightarrow> authentication_session option auth_comp" where
  "session_get_by_id session_id =
     bindS (query (\<lambda>db. find (\<lambda>r. sr_id r = session_id) (au_sessions db))) (\<lambda>row.
     case row of None \<Rightarrow> returnS None
     | Some r \<Rightarrow> bindS (lift_result (session_to_domain r)) (\<lambda>s. returnS (Some s)))"

definition list_active_for_user :: "uuid \<Rightarrow> datetime \<Rightarrow> authentication_session list auth_comp" where
  "list_active_for_user user_id now =
     bindS (query (\<lambda>db. sort_key sr_created_at
       (filter (\<lambda>r. sr_user_id r = user_id \<and> sr_revoked_at r = None \<and> now < sr_expires_at r)
          (au_sessions db)))) (\<lambda>rows.
     lift_result (foldr (\<lambda>r acc. bindE (session_to_domain r) (\<lambda>s. bindE acc (\<lambda>ss. Inr (s # ss)))) rows (Inr [])))"

definition update_session :: "uuid \<Rightarrow> (session_row \<Rightarrow> session_row) \<Rightarrow> unit auth_comp" where
  "update_session session_id f =
     modify_db (\<lambda>db.
       bindE (raise_if (session_id \<notin> set (map sr_id (au_sessions db)))
                (AuthenticationRecordNotFoundError ''session not found'')) (\<lambda>_.
       Inr (db\<lparr>au_sessions := map (\<lambda>r. if sr_id r = session_id then f r else r) (au_sessions db)\<rparr>)))"

definition update_last_seen :: "uuid \<Rightarrow> datetime \<Rightarrow> unit auth_comp" where
  "update_last_seen session_id last_seen_at =
     update_session session_id (sr_last_seen_at_update (\<lambda>_. last_seen_at))"

definition revoke_row :: "datetime \<Rightarrow> session_row \<Rightarrow> session_row" where
  "revoke_row revoked_at r = (if sr_revoked_at r = None then r\<lparr>sr_revoked_at := Some revoked_at\<rparr> else r)"

definition session_revoke :: "uuid \<Rightarrow> datetime \<Rightarrow> unit auth_comp" where
  "session_revoke session_id revoked_at = update_session session_id (revoke_row revoked_at)"

text \<open>A bulk update: its result is the number of rows it changed.\<close>

definition revoke_all_for_user :: "uuid \<Rightarrow> datetime \<Rightarrow> nat auth_comp" where
  "revoke_all_for_user user_id revoked_at =
     bindS (query (\<lambda>db. length (filter (\<lambda>r. sr_user_id r = user_id \<and> sr_revoked_at r = None) (au_sessions db)))) (\<lambda>n.
     bindS (modify_db (\<lambda>db. Inr (db\<lparr>au_sessions :=
       map (\<lambda>r. if sr_user_id r = user_id then revoke_row revoked_at r else r) (au_sessions db)\<rparr>))) (\<lambda>_.
     returnS n))"

section \<open>One-time tokens\<close>

definition one_time_token_add :: "one_time_token \<Rightarrow> unit auth_comp" where
  "one_time_token_add t =
     modify_db (\<lambda>db. let rows = au_tokens db; row = one_time_token_to_row t in
       bindE (raise_if (\<not> one_time_token_row_checks row) AuthenticationPersistenceError) (\<lambda>_.
       bindE (raise_if (ott_id t \<in> set (map otr_id rows)) AuthenticationPersistenceError) (\<lambda>_.
       bindE (raise_if (ott_token_hash t \<in> set (map otr_token_hash rows)) DuplicateOneTimeTokenError) (\<lambda>_.
       bindE (user_exists db (ott_user_id t)) (\<lambda>_.
       Inr (db\<lparr>au_tokens := rows @ [row]\<rparr>))))))"

definition one_time_token_get_by_token_hash :: "bytes \<Rightarrow> one_time_token option auth_comp" where
  "one_time_token_get_by_token_hash token_hash =
     bindS (query (\<lambda>db. find (\<lambda>r. otr_token_hash r = token_hash) (au_tokens db))) (\<lambda>row.
     case row of None \<Rightarrow> returnS None
     | Some r \<Rightarrow> bindS (lift_result (one_time_token_to_domain r)) (\<lambda>t. returnS (Some t)))"

definition token_usable :: "datetime \<Rightarrow> one_time_token_row \<Rightarrow> bool" where
  "token_usable now r \<longleftrightarrow>
     otr_consumed_at r = None \<and> otr_revoked_at r = None \<and> otr_created_at r \<le> now \<and> now < otr_expires_at r"

definition update_one_time_token :: "uuid \<Rightarrow> (one_time_token_row \<Rightarrow> one_time_token_row) \<Rightarrow> unit auth_comp" where
  "update_one_time_token token_id f =
     modify_db (\<lambda>db.
       bindE (raise_if (token_id \<notin> set (map otr_id (au_tokens db)))
                (AuthenticationRecordNotFoundError ''one-time token not found'')) (\<lambda>_.
       Inr (db\<lparr>au_tokens := map (\<lambda>r. if otr_id r = token_id then f r else r) (au_tokens db)\<rparr>)))"

definition one_time_token_consume :: "uuid \<Rightarrow> datetime \<Rightarrow> unit auth_comp" where
  "one_time_token_consume token_id consumed_at =
     update_one_time_token token_id (otr_consumed_at_update (\<lambda>_. Some consumed_at))"

definition one_time_token_revoke :: "uuid \<Rightarrow> datetime \<Rightarrow> unit auth_comp" where
  "one_time_token_revoke token_id revoked_at =
     update_one_time_token token_id
       (\<lambda>r. if otr_revoked_at r = None then r\<lparr>otr_revoked_at := Some revoked_at\<rparr> else r)"

definition consume_if_usable :: "uuid \<Rightarrow> datetime \<Rightarrow> datetime \<Rightarrow> bool auth_comp" where
  "consume_if_usable token_id consumed_at now =
     bindS (query (\<lambda>db. list_ex (\<lambda>r. otr_id r = token_id \<and> token_usable now r) (au_tokens db))) (\<lambda>consumed.
     bindS (modify_db (\<lambda>db. Inr (db\<lparr>au_tokens :=
       map (\<lambda>r. if otr_id r = token_id \<and> token_usable now r then r\<lparr>otr_consumed_at := Some consumed_at\<rparr> else r)
         (au_tokens db)\<rparr>))) (\<lambda>_.
     returnS consumed))"

definition revoke_active_tokens :: "uuid \<Rightarrow> token_purpose \<Rightarrow> datetime \<Rightarrow> nat auth_comp" where
  "revoke_active_tokens user_id purpose revoked_at =
     (let active = (\<lambda>r. otr_user_id r = user_id \<and> otr_purpose r = token_purpose_value purpose \<and>
                       otr_revoked_at r = None \<and> otr_consumed_at r = None) in
      bindS (query (\<lambda>db. length (filter active (au_tokens db)))) (\<lambda>n.
      bindS (modify_db (\<lambda>db. Inr (db\<lparr>au_tokens :=
        map (\<lambda>r. if active r then r\<lparr>otr_revoked_at := Some revoked_at\<rparr> else r) (au_tokens db)\<rparr>))) (\<lambda>_.
      returnS n)))"

section \<open>Memberships and enrolments\<close>

fun role_set :: "string list \<Rightarrow> auth_error + role list" where
  "role_set [] = Inr []"
| "role_set (s # ss) = bindE (auth_enum role_value all_roles s) (\<lambda>r. bindE (role_set ss) (\<lambda>rs. Inr (r # rs)))"

definition load_membership_roles :: "auth_db \<Rightarrow> uuid \<Rightarrow> auth_error + role list" where
  "load_membership_roles db membership_id =
     role_set (map mrr_role (filter (\<lambda>r. mrr_membership_id r = membership_id) (au_membership_roles db)))"

fun memberships_to_domain :: "auth_db \<Rightarrow> membership_row list \<Rightarrow> auth_error + membership list" where
  "memberships_to_domain db [] = Inr []"
| "memberships_to_domain db (r # rows) =
     bindE (load_membership_roles db (mbr_id r)) (\<lambda>rs.
     bindE (membership_to_domain r rs) (\<lambda>m.
     bindE (memberships_to_domain db rows) (\<lambda>ms. Inr (m # ms))))"

definition membership_list_for_user :: "auth_db \<Rightarrow> uuid \<Rightarrow> auth_error + membership list" where
  "membership_list_for_user db user_id =
     memberships_to_domain db (sort_key (\<lambda>r. (mbr_tenant_id r, mbr_id r))
       (filter (\<lambda>r. mbr_user_id r = user_id) (au_memberships db)))"

text \<open>\<open>PrivilegedMembershipMfaRequirementPolicy.requires_mfa_for_user\<close> on the stored tables.\<close>

definition privileged_membership_requires_mfa :: "auth_db \<Rightarrow> uuid \<Rightarrow> auth_error + bool" where
  "privileged_membership_requires_mfa db user_id =
     bindE (membership_list_for_user db user_id) (\<lambda>memberships.
     Inr (list_ex (\<lambda>m. mem_status m = MS_ACTIVE \<and> requires_mfa_for_roles (mem_roles m)) memberships))"

definition enrollment_get_by_user_id :: "uuid \<Rightarrow> totp_enrollment option auth_comp" where
  "enrollment_get_by_user_id user_id = query (\<lambda>db. find (\<lambda>e. te_user_id e = user_id) (au_enrollments db))"

definition update_last_accepted_timestep :: "uuid \<Rightarrow> int \<Rightarrow> datetime \<Rightarrow> unit auth_comp" where
  "update_last_accepted_timestep user_id timestep updated_at =
     modify_db (\<lambda>db.
       bindE (raise_if (\<not> fits_int4 timestep) (Auth_DriverError ''value out of column range'')) (\<lambda>_.
       bindE (raise_if (user_id \<notin> set (map te_user_id (au_enrollments db)))
                (Auth_PersistenceError ''mfa enrollment not found'')) (\<lambda>_.
       Inr (db\<lparr>au_enrollments :=
         map (\<lambda>e. if te_user_id e = user_id
                  then e\<lparr>te_last_accepted_timestep := Some timestep, te_updated_at := updated_at\<rparr> else e)
           (au_enrollments db)\<rparr>))))"

text \<open>
  \<open>upsert\<close>: a conflict on the user replaces the secret and keeps the last accepted step. A violated
  foreign key is raised by the statement itself, outside the translation of \<open>_flush\<close>.
\<close>

definition enrollment_upsert :: "uuid \<Rightarrow> uuid \<Rightarrow> uuid \<Rightarrow> datetime \<Rightarrow> datetime \<Rightarrow> unit auth_comp" where
  "enrollment_upsert user_id secret_tenant_id content_id created_at updated_at =
     modify_db (\<lambda>db.
       bindE (raise_if (user_id \<notin> set (map usrr_id (au_users db)) \<or>
                (secret_tenant_id, content_id) \<notin> set (map (\<lambda>r. (ecr_tenant_id r, ecr_id r)) (cd_contents db)))
                (Auth_DriverError ''foreign key violation'')) (\<lambda>_.
       Inr (db\<lparr>au_enrollments :=
         (if user_id \<in> set (map te_user_id (au_enrollments db))
          then map (\<lambda>e. if te_user_id e = user_id
                 then e\<lparr>te_secret_tenant_id := secret_tenant_id, te_encrypted_secret_content_id := content_id,
                        te_updated_at := updated_at\<rparr> else e) (au_enrollments db)
          else au_enrollments db @
            [\<lparr>te_user_id = user_id, te_secret_tenant_id = secret_tenant_id,
              te_encrypted_secret_content_id = content_id, te_last_accepted_timestep = None,
              te_created_at = created_at, te_updated_at = updated_at\<rparr>])\<rparr>)))"

end
