(* ===== verification/Auth_Workflows.thy ===== *)
theory Auth_Workflows
  imports Auth_Store
begin

text \<open>
  The workflows of authentication (\<open>application/authentication_workflows.py\<close>) with the issuance of
  sessions and tokens (\<open>authentication_issuance.py\<close>), their audit events (\<open>authentication_audit.py\<close>)
  and the verifier of time-based codes (\<open>infrastructure/totp_mfa_verifier.py\<close>).

  A workflow is one unit of work. What it does before it opens the unit of work (checks, the hash of
  a new password) stands at the front of the unit here, where it has the same effect: an exception
  stores nothing. Modelled is the service without a notification issuer and publisher, where a
  delivery goes back to the caller. The composition root of the API gives it one of them: in
  production an issuer that stores the encrypted message, its delivery and an outbox job in the same
  unit of work, else a publisher that passes the delivery on; neither touches the tables of accounts.
  An instant is counted from the Unix epoch.
\<close>

section \<open>Environment\<close>

record auth_env =
  an_token_bytes :: "nat \<Rightarrow> bytes"
  an_uuid4 :: "nat \<Rightarrow> uuid"
  an_sha256 :: "bytes \<Rightarrow> bytes"
  an_argon2_hash :: "nat \<Rightarrow> string \<Rightarrow> string"
  an_argon2_verify :: "string \<Rightarrow> string \<Rightarrow> bool"
  an_argon2_needs_rehash :: "string \<Rightarrow> bool"
  an_session_touch_interval :: int
  an_timeout_policy :: session_timeout_policy

record audit_context =
  acx_correlation_id :: uuid
  acx_http_method :: "string option"
  acx_route_template :: "string option"

text \<open>
  A unit of work that another one waits for: it works on the stored tables, and the waiting unit,
  which has not changed anything yet, sees what it stored.
\<close>

definition nested :: "'a auth_comp \<Rightarrow> 'a auth_comp" where
  "nested m = (\<lambda>s. let (r, t) = m \<lparr>se_db = se_saved s, se_saved = se_saved s, se_draws = se_draws s\<rparr>
     in (r, \<lparr>se_db = se_saved t, se_saved = se_saved t, se_draws = se_draws t\<rparr>))"

definition query_stored :: "(auth_db \<Rightarrow> auth_error + 'a) \<Rightarrow> 'a auth_comp" where
  "query_stored f = (\<lambda>s. (f (se_saved s), s))"

definition require_aware_time :: "string \<Rightarrow> datetime \<Rightarrow> unit auth_comp" where
  "require_aware_time name at = ensure (aware at) (Auth_ValueError (name @ '' must be timezone-aware''))"

section \<open>Passwords\<close>

text \<open>\<open>Argon2idPasswordHasher\<close> over the primitives of the library; the salt comes from its random source.\<close>

definition hash_password :: "auth_env \<Rightarrow> string \<Rightarrow> string auth_comp" where
  "hash_password env plaintext =
     bindS (ensure (plaintext \<noteq> []) (Auth_ValueError ''plaintext must not be empty'')) (\<lambda>_.
     bindS (draw (an_argon2_hash env)) (\<lambda>encode.
     lift_result (PasswordHash_post_init (encode plaintext))))"

text \<open>\<open>(is_valid, requires_rehash)\<close>.\<close>

definition verify_password :: "auth_env \<Rightarrow> string \<Rightarrow> string \<Rightarrow> bool \<times> bool" where
  "verify_password env candidate stored =
     (if an_argon2_verify env stored candidate then (True, an_argon2_needs_rehash env stored)
      else (False, False))"

definition verify_password_or_fail ::
    "auth_env \<Rightarrow> string \<Rightarrow> email_password_credential \<Rightarrow> auth_error + bool" where
  "verify_password_or_fail env candidate stored =
     (case verify_password env candidate (cred_password_hash stored) of
        (is_valid, requires_rehash) \<Rightarrow>
          if \<not> is_valid then Inl AuthenticationFailedError else Inr requires_rehash)"

section \<open>Issuance\<close>

definition generate_raw_token_and_hash :: "auth_env \<Rightarrow> (string \<times> bytes) auth_comp" where
  "generate_raw_token_and_hash env =
     bindS (draw (an_token_bytes env)) (\<lambda>random_bytes.
     bindS (lift_result (encode_raw_token random_bytes)) (\<lambda>raw_token.
     bindS (lift_result (hash_authentication_token (an_sha256 env) raw_token)) (\<lambda>token_hash.
     returnS (raw_token, token_hash))))"

text \<open>An issued session or token with its raw token.\<close>

definition issue_pending_mfa_session ::
    "auth_env \<Rightarrow> uuid \<Rightarrow> uuid \<Rightarrow> datetime \<Rightarrow> (authentication_session \<times> string) auth_comp" where
  "issue_pending_mfa_session env session_id user_id issued_at =
     bindS (require_aware_time ''issued_at'' issued_at) (\<lambda>_.
     bindS (generate_raw_token_and_hash env) (\<lambda>(raw_token, token_hash).
     bindS (lift_result (session_absolute_expiry (an_timeout_policy env) ST_PENDING_MFA issued_at)) (\<lambda>expires_at.
     bindS (lift_result (AuthenticationSession_post_init
              \<lparr>ses_id = session_id, ses_user_id = user_id, ses_token_hash = token_hash,
               ses_stage = ST_PENDING_MFA, ses_assurance_level = AAL_SINGLE_FACTOR,
               ses_mfa_completed = False, ses_created_at = issued_at, ses_last_seen_at = issued_at,
               ses_expires_at = expires_at, ses_revoked_at = None\<rparr>)) (\<lambda>session.
     returnS (session, raw_token)))))"

definition issue_authenticated_session ::
    "auth_env \<Rightarrow> uuid \<Rightarrow> uuid \<Rightarrow> assurance_level \<Rightarrow> datetime \<Rightarrow> (authentication_session \<times> string) auth_comp" where
  "issue_authenticated_session env session_id user_id assurance_level issued_at =
     bindS (require_aware_time ''issued_at'' issued_at) (\<lambda>_.
     bindS (generate_raw_token_and_hash env) (\<lambda>(raw_token, token_hash).
     let mfa_completed = (assurance_level = AAL_MULTI_FACTOR) in
     bindS (lift_result (session_absolute_expiry (an_timeout_policy env) ST_AUTHENTICATED issued_at)) (\<lambda>expires_at.
     bindS (lift_result (AuthenticationSession_post_init
              \<lparr>ses_id = session_id, ses_user_id = user_id, ses_token_hash = token_hash,
               ses_stage = ST_AUTHENTICATED, ses_assurance_level = assurance_level,
               ses_mfa_completed = mfa_completed, ses_created_at = issued_at,
               ses_last_seen_at = issued_at, ses_expires_at = expires_at, ses_revoked_at = None\<rparr>)) (\<lambda>session.
     returnS (session, raw_token)))))"

definition issue_authentication_one_time_token ::
    "auth_env \<Rightarrow> uuid \<Rightarrow> uuid \<Rightarrow> token_purpose \<Rightarrow> datetime \<Rightarrow> (one_time_token \<times> string) auth_comp" where
  "issue_authentication_one_time_token env token_id user_id purpose issued_at =
     bindS (require_aware_time ''issued_at'' issued_at) (\<lambda>_.
     bindS (generate_raw_token_and_hash env) (\<lambda>(raw_token, token_hash).
     bindS (lift_result (one_time_token_expiry AUTHENTICATION_ONE_TIME_TOKEN_TIMEOUT_POLICY purpose issued_at)) (\<lambda>expires_at.
     bindS (lift_result (AuthenticationOneTimeToken_post_init
              \<lparr>ott_id = token_id, ott_user_id = user_id, ott_purpose = purpose,
               ott_token_hash = token_hash, ott_created_at = issued_at, ott_expires_at = expires_at,
               ott_consumed_at = None, ott_revoked_at = None\<rparr>)) (\<lambda>token.
     returnS (token, raw_token)))))"

text \<open>The revoked pending session and the issued one.\<close>

definition complete_pending_mfa_and_rotate_session ::
    "auth_env \<Rightarrow> authentication_session \<Rightarrow> uuid \<Rightarrow> datetime \<Rightarrow>
     (authentication_session \<times> authentication_session \<times> string) auth_comp" where
  "complete_pending_mfa_and_rotate_session env pending_session new_session_id completed_at =
     bindS (require_aware_time ''completed_at'' completed_at) (\<lambda>_.
     bindS (ensure (ses_stage pending_session = ST_PENDING_MFA)
              (AuthenticationSessionTransitionError ''authentication session transition unavailable'')) (\<lambda>_.
     bindS (ensure (new_session_id \<noteq> ses_id pending_session)
              (AuthenticationSessionTransitionError ''authentication session transition unavailable'')) (\<lambda>_.
     bindS (lift_result (require_usable_authentication_session (an_timeout_policy env) pending_session completed_at)) (\<lambda>_.
     bindS (lift_result (AuthenticationSession_post_init
              (pending_session\<lparr>ses_revoked_at := Some completed_at\<rparr>))) (\<lambda>revoked_session.
     bindS (issue_authenticated_session env new_session_id (ses_user_id pending_session) AAL_MULTI_FACTOR
              completed_at) (\<lambda>(issued, raw_token).
     returnS (revoked_session, issued, raw_token)))))))"

section \<open>Audit events\<close>

definition request_metadata :: "audit_context \<Rightarrow> metadata_items" where
  "request_metadata ctx =
     (''outcome'', MV_Str ''success'') #
     (case acx_http_method ctx of None \<Rightarrow> [] | Some m \<Rightarrow> [(''http_method'', MV_Str m)]) @
     (case acx_route_template ctx of None \<Rightarrow> [] | Some t \<Rightarrow> [(''route_template'', MV_Str t)])"

definition global_event ::
    "audit_actor_type \<Rightarrow> uuid option \<Rightarrow> string \<Rightarrow> string \<Rightarrow> uuid option \<Rightarrow> datetime \<Rightarrow> audit_context \<Rightarrow>
     metadata_items \<Rightarrow> uuid \<Rightarrow> audit_error + audit_event" where
  "global_event actor_type actor_id action target_type target_id occurred_at ctx metadata event_id =
     build_audit_event event_id AUD_GLOBAL None actor_type actor_id action target_type target_id
       occurred_at (acx_correlation_id ctx) (Some metadata)"

definition user_event ::
    "string \<Rightarrow> uuid \<Rightarrow> datetime \<Rightarrow> audit_context \<Rightarrow> uuid \<Rightarrow> audit_error + audit_event" where
  "user_event action user_id occurred_at ctx =
     global_event AT_USER (Some user_id) action ''user'' (Some user_id) occurred_at ctx (request_metadata ctx)"

definition registration_completed_event :: "uuid \<Rightarrow> datetime \<Rightarrow> audit_context \<Rightarrow> uuid \<Rightarrow> audit_error + audit_event" where
  "registration_completed_event = user_event ''user.registration.completed''"

definition email_verification_requested_event :: "uuid \<Rightarrow> datetime \<Rightarrow> audit_context \<Rightarrow> uuid \<Rightarrow> audit_error + audit_event" where
  "email_verification_requested_event = user_event ''user.email_verification.requested''"

definition email_verification_completed_event :: "uuid \<Rightarrow> datetime \<Rightarrow> audit_context \<Rightarrow> uuid \<Rightarrow> audit_error + audit_event" where
  "email_verification_completed_event = user_event ''user.email_verification.completed''"

definition password_reset_requested_event :: "uuid \<Rightarrow> datetime \<Rightarrow> audit_context \<Rightarrow> uuid \<Rightarrow> audit_error + audit_event" where
  "password_reset_requested_event = user_event ''auth.password_reset.requested''"

definition password_reset_completed_event :: "uuid \<Rightarrow> datetime \<Rightarrow> audit_context \<Rightarrow> uuid \<Rightarrow> audit_error + audit_event" where
  "password_reset_completed_event = user_event ''auth.password_reset.completed''"

definition login_succeeded_event ::
    "uuid \<Rightarrow> uuid \<Rightarrow> session_stage \<Rightarrow> assurance_level \<Rightarrow> datetime \<Rightarrow> audit_context \<Rightarrow> uuid \<Rightarrow> audit_error + audit_event" where
  "login_succeeded_event user_id session_id stage level occurred_at ctx =
     global_event AT_USER (Some user_id) ''auth.login.succeeded'' ''session'' (Some session_id) occurred_at ctx
       (request_metadata ctx @ [(''session_stage'', MV_Str (session_stage_value stage)),
                                (''assurance_level'', MV_Str (assurance_value level))])"

definition login_failed_event :: "datetime \<Rightarrow> audit_context \<Rightarrow> uuid \<Rightarrow> audit_error + audit_event" where
  "login_failed_event occurred_at ctx =
     global_event AT_ANONYMOUS None ''auth.login.failed'' ''authentication'' None occurred_at ctx
       [(''outcome'', MV_Str ''failure''), (''reason_code'', MV_Str ''invalid_credentials'')]"

definition mfa_completed_event ::
    "uuid \<Rightarrow> uuid \<Rightarrow> mfa_method \<Rightarrow> datetime \<Rightarrow> audit_context \<Rightarrow> uuid \<Rightarrow> audit_error + audit_event" where
  "mfa_completed_event user_id session_id method occurred_at ctx =
     global_event AT_USER (Some user_id) ''auth.mfa.completed'' ''session'' (Some session_id) occurred_at ctx
       (request_metadata ctx @ [(''mfa_method'', MV_Str (mfa_method_value method)),
                                (''assurance_level'', MV_Str ''multi_factor'')])"

definition mfa_failed_event ::
    "uuid \<Rightarrow> mfa_method \<Rightarrow> datetime \<Rightarrow> audit_context \<Rightarrow> uuid \<Rightarrow> audit_error + audit_event" where
  "mfa_failed_event user_id method occurred_at ctx =
     global_event AT_USER (Some user_id) ''auth.mfa.failed'' ''authentication'' None occurred_at ctx
       [(''outcome'', MV_Str ''failure''), (''reason_code'', MV_Str ''verification_failed''),
        (''mfa_method'', MV_Str (mfa_method_value method))]"

definition session_revoked_event :: "uuid \<Rightarrow> uuid \<Rightarrow> datetime \<Rightarrow> audit_context \<Rightarrow> uuid \<Rightarrow> audit_error + audit_event" where
  "session_revoked_event user_id session_id occurred_at ctx =
     global_event AT_USER (Some user_id) ''auth.session.revoked'' ''session'' (Some session_id) occurred_at ctx
       (request_metadata ctx)"

definition sessions_revoked_all_event :: "uuid \<Rightarrow> nat \<Rightarrow> datetime \<Rightarrow> audit_context \<Rightarrow> uuid \<Rightarrow> audit_error + audit_event" where
  "sessions_revoked_all_event user_id affected_count occurred_at ctx =
     global_event AT_USER (Some user_id) ''auth.session.revoked_all'' ''user'' (Some user_id) occurred_at ctx
       (request_metadata ctx @ [(''affected_count'', MV_Int (int affected_count))])"

definition password_changed_event :: "uuid \<Rightarrow> datetime \<Rightarrow> audit_context \<Rightarrow> uuid \<Rightarrow> audit_error + audit_event" where
  "password_changed_event user_id occurred_at ctx =
     global_event AT_USER (Some user_id) ''auth.password.changed'' ''user'' (Some user_id) occurred_at ctx
       (request_metadata ctx @ [(''session_stage'', MV_Str ''authenticated'')])"

definition auth_audit :: "auth_env \<Rightarrow> (uuid \<Rightarrow> audit_error + audit_event) \<Rightarrow> unit auth_comp" where
  "auth_audit env event =
     bindS (draw (an_uuid4 env)) (\<lambda>event_id.
     append_required_audit_event Auth_AuditError Auth_AuditAppendRequiredError (event event_id))"

text \<open>\<open>StandaloneAuditAppender.append\<close>: a unit of work of its own.\<close>

definition standalone_audit :: "auth_env \<Rightarrow> (uuid \<Rightarrow> audit_error + audit_event) \<Rightarrow> unit auth_comp" where
  "standalone_audit env event = nested (bindS (auth_audit env event) (\<lambda>_. commit))"

section \<open>Steps the workflows share\<close>

definition login_failed :: "auth_env \<Rightarrow> datetime \<Rightarrow> audit_context \<Rightarrow> 'a auth_comp" where
  "login_failed env occurred_at ctx =
     bindS (standalone_audit env (login_failed_event occurred_at ctx)) (\<lambda>_. raiseS AuthenticationFailedError)"

definition workflow_unavailable :: "('s, auth_error, 'a) comp" where
  "workflow_unavailable = raiseS AuthenticationWorkflowUnavailableError"

definition load_active_user :: "uuid \<Rightarrow> user option auth_comp" where
  "load_active_user user_id =
     bindS (user_get_by_id user_id) (\<lambda>user.
     case user of None \<Rightarrow> returnS None
     | Some u \<Rightarrow> returnS (if usr_status u \<noteq> US_ACTIVE then None else Some u))"

record notification_delivery =
  nd_recipient :: string
  nd_raw_token :: string

definition issue_delivery ::
    "auth_env \<Rightarrow> token_purpose \<Rightarrow> uuid \<Rightarrow> email_password_credential \<Rightarrow> uuid \<Rightarrow> datetime \<Rightarrow>
     notification_delivery auth_comp" where
  "issue_delivery env purpose user_id credential token_id issued_at =
     bindS (revoke_active_tokens user_id purpose issued_at) (\<lambda>_.
     bindS (issue_authentication_one_time_token env token_id user_id purpose issued_at) (\<lambda>(token, raw_token).
     bindS (one_time_token_add token) (\<lambda>_.
     returnS \<lparr>nd_recipient = cred_email credential, nd_raw_token = raw_token\<rparr>)))"

definition eligible_for_verification_delivery :: "user option \<Rightarrow> email_password_credential option \<Rightarrow> bool" where
  "eligible_for_verification_delivery user credential \<longleftrightarrow>
     (case user of Some u \<Rightarrow> usr_status u = US_ACTIVE | None \<Rightarrow> False) \<and>
     (case credential of Some c \<Rightarrow> cred_email_verified_at c = None | None \<Rightarrow> False)"

definition eligible_for_reset_delivery :: "user option \<Rightarrow> email_password_credential option \<Rightarrow> bool" where
  "eligible_for_reset_delivery user credential \<longleftrightarrow>
     (case user of Some u \<Rightarrow> usr_status u = US_ACTIVE | None \<Rightarrow> False) \<and>
     (case credential of Some c \<Rightarrow> cred_email_verified_at c \<noteq> None | None \<Rightarrow> False)"

definition token_unavailable_as_workflow :: "auth_error + 'a \<Rightarrow> auth_error + 'a" where
  "token_unavailable_as_workflow r =
     mapE (\<lambda>e. case e of AuthenticationTokenUnavailableError _ \<Rightarrow> AuthenticationWorkflowUnavailableError | _ \<Rightarrow> e) r"

definition session_unavailable_as_workflow :: "auth_error + 'a \<Rightarrow> auth_error + 'a" where
  "session_unavailable_as_workflow r =
     mapE (\<lambda>e. case e of AuthenticationSessionUnavailableError _ \<Rightarrow> AuthenticationWorkflowUnavailableError | _ \<Rightarrow> e) r"

definition consume_locked_one_time_token ::
    "one_time_token \<Rightarrow> datetime \<Rightarrow> token_purpose \<Rightarrow> unit auth_comp" where
  "consume_locked_one_time_token token consumed_at expected_purpose =
     (if ott_purpose token \<noteq> expected_purpose then workflow_unavailable
      else
        bindS (lift_result (token_unavailable_as_workflow
                 (require_usable_authentication_token token consumed_at))) (\<lambda>_.
        bindS (consume_if_usable (ott_id token) consumed_at consumed_at) (\<lambda>consumed.
        if \<not> consumed then workflow_unavailable else returnS ())))"

section \<open>Registration and email verification\<close>

definition register_user ::
    "auth_env \<Rightarrow> uuid \<Rightarrow> uuid \<Rightarrow> uuid \<Rightarrow> string \<Rightarrow> string \<Rightarrow> datetime \<Rightarrow> audit_context \<Rightarrow>
     (uuid \<times> notification_delivery option) auth_comp" where
  "register_user env user_id credential_id verification_token_id email plaintext_password registered_at ctx =
     bindS (require_aware_time ''registered_at'' registered_at) (\<lambda>_.
     bindS (lift_result (AuthenticationEmail_post_init email)) (\<lambda>normalized_email.
     bindS (hash_password env plaintext_password) (\<lambda>password_hash.
     bindS (lift_result (EmailPasswordCredential_post_init
              \<lparr>cred_id = credential_id, cred_user_id = user_id, cred_email = normalized_email,
               cred_password_hash = password_hash, cred_created_at = registered_at,
               cred_email_verified_at = None\<rparr>)) (\<lambda>credential.
     bindS (tryS (bindS (user_add \<lparr>usr_id = user_id, usr_status = US_ACTIVE\<rparr>) (\<lambda>_. credential_add credential))
              (\<lambda>e. if e = DuplicateCredentialEmailError \<or> e = DuplicateUserCredentialError
                   then raiseS RegistrationUnavailableError else raiseS e) returnS) (\<lambda>_.
     bindS (issue_delivery env TP_EMAIL_VERIFICATION user_id credential verification_token_id registered_at) (\<lambda>delivery.
     bindS (auth_audit env (registration_completed_event user_id registered_at ctx)) (\<lambda>_.
     bindS commit (\<lambda>_.
     returnS (user_id, Some delivery)))))))))"

text \<open>The body that the two requests for a token share.\<close>

definition request_token ::
    "auth_env \<Rightarrow> token_purpose \<Rightarrow> (user option \<Rightarrow> email_password_credential option \<Rightarrow> bool) \<Rightarrow>
     (uuid \<Rightarrow> datetime \<Rightarrow> audit_context \<Rightarrow> uuid \<Rightarrow> audit_error + audit_event) \<Rightarrow>
     string \<Rightarrow> uuid \<Rightarrow> datetime \<Rightarrow> audit_context \<Rightarrow> notification_delivery option auth_comp" where
  "request_token env purpose eligible event email token_id requested_at ctx =
     bindS (require_aware_time ''requested_at'' requested_at) (\<lambda>_.
     bindS (lift_result (AuthenticationEmail_post_init email)) (\<lambda>normalized_email.
     bindS (credential_get_by_email normalized_email) (\<lambda>credential.
     bindS (case credential of None \<Rightarrow> returnS None | Some c \<Rightarrow> load_active_user (cred_user_id c)) (\<lambda>user.
     bindS (case credential of
              Some c \<Rightarrow>
                if eligible user credential then
                  bindS (issue_delivery env purpose (cred_user_id c) c token_id requested_at) (\<lambda>delivery.
                  bindS (auth_audit env (event (cred_user_id c) requested_at ctx)) (\<lambda>_.
                  returnS (Some delivery)))
                else returnS None
            | None \<Rightarrow> returnS None) (\<lambda>delivery.
     bindS commit (\<lambda>_.
     returnS delivery))))))"

definition request_email_verification ::
    "auth_env \<Rightarrow> string \<Rightarrow> uuid \<Rightarrow> datetime \<Rightarrow> audit_context \<Rightarrow> notification_delivery option auth_comp" where
  "request_email_verification env =
     request_token env TP_EMAIL_VERIFICATION eligible_for_verification_delivery
       email_verification_requested_event"

definition request_password_reset ::
    "auth_env \<Rightarrow> string \<Rightarrow> uuid \<Rightarrow> datetime \<Rightarrow> audit_context \<Rightarrow> notification_delivery option auth_comp" where
  "request_password_reset env =
     request_token env TP_PASSWORD_RESET eligible_for_reset_delivery password_reset_requested_event"

definition confirm_email_verification ::
    "auth_env \<Rightarrow> string \<Rightarrow> datetime \<Rightarrow> audit_context \<Rightarrow> unit auth_comp" where
  "confirm_email_verification env raw_token confirmed_at ctx =
     bindS (require_aware_time ''confirmed_at'' confirmed_at) (\<lambda>_.
     bindS (lift_result (hash_authentication_token (an_sha256 env) raw_token)) (\<lambda>token_hash.
     bindS (one_time_token_get_by_token_hash token_hash) (\<lambda>found.
     case found of None \<Rightarrow> workflow_unavailable
     | Some token \<Rightarrow>
     bindS (consume_locked_one_time_token token confirmed_at TP_EMAIL_VERIFICATION) (\<lambda>_.
     bindS (credential_get_by_user_id (ott_user_id token)) (\<lambda>credential.
     case credential of None \<Rightarrow> workflow_unavailable
     | Some c \<Rightarrow>
     bindS (set_email_verified_at (cred_id c) confirmed_at) (\<lambda>_.
     bindS (revoke_active_tokens (ott_user_id token) TP_EMAIL_VERIFICATION confirmed_at) (\<lambda>_.
     bindS (auth_audit env (email_verification_completed_event (ott_user_id token) confirmed_at ctx)) (\<lambda>_.
     commit))))))))"

section \<open>Login and sessions\<close>

definition login_with_password ::
    "auth_env \<Rightarrow> string \<Rightarrow> string \<Rightarrow> uuid \<Rightarrow> datetime \<Rightarrow> audit_context \<Rightarrow> bool \<Rightarrow>
     (auth_db \<Rightarrow> uuid \<Rightarrow> auth_error + bool) option \<Rightarrow> (authentication_session \<times> string) auth_comp" where
  "login_with_password env email plaintext_password session_id authenticated_at ctx mfa_required mfa_requirement_policy =
     bindS (require_aware_time ''authenticated_at'' authenticated_at) (\<lambda>_.
     bindS (lift_result (AuthenticationEmail_post_init email)) (\<lambda>normalized_email.
     bindS (credential_get_by_email normalized_email) (\<lambda>found.
     case found of None \<Rightarrow> login_failed env authenticated_at ctx
     | Some credential \<Rightarrow>
     bindS (load_active_user (cred_user_id credential)) (\<lambda>active.
     case active of None \<Rightarrow> login_failed env authenticated_at ctx
     | Some user \<Rightarrow>
     bindS (case verify_password_or_fail env plaintext_password credential of
              Inl e \<Rightarrow> login_failed env authenticated_at ctx | Inr rehash \<Rightarrow> returnS rehash) (\<lambda>requires_rehash.
     if cred_email_verified_at credential = None then login_failed env authenticated_at ctx
     else
     bindS (if requires_rehash
            then bindS (hash_password env plaintext_password) (replace_password_hash (cred_id credential))
            else returnS ()) (\<lambda>_.
     bindS (case mfa_requirement_policy of None \<Rightarrow> returnS mfa_required
            | Some policy \<Rightarrow> query_stored (\<lambda>db. policy db (usr_id user))) (\<lambda>effective_mfa_required.
     bindS (if effective_mfa_required then issue_pending_mfa_session env session_id (usr_id user) authenticated_at
            else issue_authenticated_session env session_id (usr_id user) AAL_SINGLE_FACTOR authenticated_at)
       (\<lambda>(session, raw_token).
     bindS (session_add session) (\<lambda>_.
     bindS (auth_audit env (login_succeeded_event (usr_id user) session_id (ses_stage session)
              (ses_assurance_level session) authenticated_at ctx)) (\<lambda>_.
     bindS commit (\<lambda>_.
     returnS (session, raw_token))))))))))))"

text \<open>
  The verifier of the second factor works in its own units of work; it is an argument, as in the
  source. Its result is whether the response is right.
\<close>

datatype mfa_response = MR_Code string | MR_Other

type_synonym mfa_verifier = "uuid \<Rightarrow> mfa_method \<Rightarrow> mfa_response \<Rightarrow> bool auth_comp"

definition usable_session ::
    "auth_env \<Rightarrow> session_stage \<Rightarrow> bytes \<Rightarrow> datetime \<Rightarrow> authentication_session auth_comp" where
  "usable_session env stage token_hash now =
     bindS (session_get_by_token_hash token_hash) (\<lambda>found.
     case found of None \<Rightarrow> workflow_unavailable
     | Some session \<Rightarrow>
     if ses_stage session \<noteq> stage then workflow_unavailable
     else
     bindS (lift_result (session_unavailable_as_workflow
              (require_usable_authentication_session (an_timeout_policy env) session now))) (\<lambda>_.
     returnS session))"

definition complete_mfa_login ::
    "auth_env \<Rightarrow> mfa_verifier \<Rightarrow> string \<Rightarrow> uuid \<Rightarrow> mfa_method \<Rightarrow> mfa_response \<Rightarrow> datetime \<Rightarrow> audit_context \<Rightarrow>
     (authentication_session \<times> string) auth_comp" where
  "complete_mfa_login env verify_mfa pending_session_raw_token new_session_id mfa_method mfa_response completed_at ctx =
     bindS (require_aware_time ''completed_at'' completed_at) (\<lambda>_.
     bindS (lift_result (hash_authentication_token (an_sha256 env) pending_session_raw_token)) (\<lambda>token_hash.
     bindS (usable_session env ST_PENDING_MFA token_hash completed_at) (\<lambda>pending_session.
     bindS (nested (verify_mfa (ses_user_id pending_session) mfa_method mfa_response)) (\<lambda>verified.
     if \<not> verified then
       bindS (standalone_audit env (mfa_failed_event (ses_user_id pending_session) mfa_method completed_at ctx)) (\<lambda>_.
       workflow_unavailable)
     else
     bindS (tryS (complete_pending_mfa_and_rotate_session env pending_session new_session_id completed_at)
              (\<lambda>e. case e of AuthenticationSessionTransitionError _ \<Rightarrow> workflow_unavailable | _ \<Rightarrow> raiseS e)
              returnS) (\<lambda>(revoked_session, issued, raw_token).
     bindS (session_revoke (ses_id revoked_session) completed_at) (\<lambda>_.
     bindS (session_add issued) (\<lambda>_.
     bindS (auth_audit env (mfa_completed_event (ses_user_id pending_session) new_session_id mfa_method completed_at ctx)) (\<lambda>_.
     bindS commit (\<lambda>_.
     returnS (issued, raw_token))))))))))"

definition resolve_session ::
    "auth_env \<Rightarrow> string \<Rightarrow> datetime \<Rightarrow> bool \<Rightarrow> (authentication_session \<times> user) auth_comp" where
  "resolve_session env raw_token now touch_session =
     bindS (require_aware_time ''now'' now) (\<lambda>_.
     bindS (lift_result (hash_authentication_token (an_sha256 env) raw_token)) (\<lambda>token_hash.
     bindS (usable_session env ST_AUTHENTICATED token_hash now) (\<lambda>session.
     bindS (load_active_user (ses_user_id session)) (\<lambda>active.
     case active of None \<Rightarrow> workflow_unavailable
     | Some user \<Rightarrow>
     if touch_session \<and> an_session_touch_interval env \<le> instant now - instant (ses_last_seen_at session) then
       bindS (update_last_seen (ses_id session) now) (\<lambda>_.
       bindS (lift_result (AuthenticationSession_post_init (session\<lparr>ses_last_seen_at := now\<rparr>))) (\<lambda>touched.
       bindS commit (\<lambda>_.
       returnS (touched, user))))
     else returnS (session, user)))))"

definition logout :: "auth_env \<Rightarrow> string \<Rightarrow> datetime \<Rightarrow> audit_context \<Rightarrow> unit auth_comp" where
  "logout env raw_token revoked_at ctx =
     bindS (require_aware_time ''revoked_at'' revoked_at) (\<lambda>_.
     bindS (lift_result (hash_authentication_token (an_sha256 env) raw_token)) (\<lambda>token_hash.
     bindS (session_get_by_token_hash token_hash) (\<lambda>found.
     bindS (case found of
              Some session \<Rightarrow>
                if ses_revoked_at session = None then
                  bindS (session_revoke (ses_id session) revoked_at) (\<lambda>_.
                  auth_audit env (session_revoked_event (ses_user_id session) (ses_id session) revoked_at ctx))
                else returnS ()
            | None \<Rightarrow> returnS ()) (\<lambda>_.
     commit))))"

definition logout_all_sessions :: "auth_env \<Rightarrow> uuid \<Rightarrow> datetime \<Rightarrow> audit_context \<Rightarrow> nat auth_comp" where
  "logout_all_sessions env user_id revoked_at ctx =
     bindS (require_aware_time ''revoked_at'' revoked_at) (\<lambda>_.
     bindS (revoke_all_for_user user_id revoked_at) (\<lambda>revoked_count.
     bindS (auth_audit env (sessions_revoked_all_event user_id revoked_count revoked_at ctx)) (\<lambda>_.
     bindS commit (\<lambda>_.
     returnS revoked_count))))"

section \<open>Passwords after registration\<close>

definition confirm_password_reset ::
    "auth_env \<Rightarrow> string \<Rightarrow> string \<Rightarrow> datetime \<Rightarrow> audit_context \<Rightarrow> unit auth_comp" where
  "confirm_password_reset env raw_token new_plaintext_password confirmed_at ctx =
     bindS (require_aware_time ''confirmed_at'' confirmed_at) (\<lambda>_.
     bindS (lift_result (hash_authentication_token (an_sha256 env) raw_token)) (\<lambda>token_hash.
     bindS (hash_password env new_plaintext_password) (\<lambda>new_password_hash.
     bindS (one_time_token_get_by_token_hash token_hash) (\<lambda>found.
     case found of None \<Rightarrow> workflow_unavailable
     | Some token \<Rightarrow>
     bindS (consume_locked_one_time_token token confirmed_at TP_PASSWORD_RESET) (\<lambda>_.
     bindS (credential_get_by_user_id (ott_user_id token)) (\<lambda>credential.
     case credential of None \<Rightarrow> workflow_unavailable
     | Some c \<Rightarrow>
     bindS (replace_password_hash (cred_id c) new_password_hash) (\<lambda>_.
     bindS (revoke_active_tokens (ott_user_id token) TP_PASSWORD_RESET confirmed_at) (\<lambda>_.
     bindS (revoke_all_for_user (ott_user_id token) confirmed_at) (\<lambda>_.
     bindS (auth_audit env (password_reset_completed_event (ott_user_id token) confirmed_at ctx)) (\<lambda>_.
     commit))))))))))"

definition change_password ::
    "auth_env \<Rightarrow> string \<Rightarrow> string \<Rightarrow> string \<Rightarrow> uuid \<Rightarrow> datetime \<Rightarrow> audit_context \<Rightarrow>
     (authentication_session \<times> string) auth_comp" where
  "change_password env session_raw_token current_password new_password new_session_id changed_at ctx =
     bindS (require_aware_time ''changed_at'' changed_at) (\<lambda>_.
     bindS (lift_result (hash_authentication_token (an_sha256 env) session_raw_token)) (\<lambda>token_hash.
     bindS (usable_session env ST_AUTHENTICATED token_hash changed_at) (\<lambda>session.
     bindS (load_active_user (ses_user_id session)) (\<lambda>active.
     case active of None \<Rightarrow> workflow_unavailable
     | Some user \<Rightarrow>
     bindS (credential_get_by_user_id (usr_id user)) (\<lambda>found.
     case found of None \<Rightarrow> workflow_unavailable
     | Some credential \<Rightarrow>
     bindS (lift_result (verify_password_or_fail env current_password credential)) (\<lambda>_.
     bindS (hash_password env new_password) (\<lambda>new_password_hash.
     bindS (replace_password_hash (cred_id credential) new_password_hash) (\<lambda>_.
     bindS (revoke_all_for_user (usr_id user) changed_at) (\<lambda>_.
     bindS (issue_authenticated_session env new_session_id (usr_id user) (ses_assurance_level session) changed_at)
       (\<lambda>(issued, raw_token).
     bindS (session_add issued) (\<lambda>_.
     bindS (auth_audit env (password_changed_event (usr_id user) changed_at ctx)) (\<lambda>_.
     bindS commit (\<lambda>_.
     returnS (issued, raw_token))))))))))))))"

end
