(* ===== verification/Auth_Effects.thy ===== *)
theory Auth_Effects
  imports Auth_Workflows
begin

text \<open>
  What the workflows of authentication do to the tables. An invariant of the tables that survives the
  elementary changes (a row added, sessions or tokens revoked, a token consumed, a session seen, a
  credential verified or its password replaced, an event recorded) survives every workflow: this is
  the locale \<open>account_invariant\<close>, which the safety properties interpret for their own invariants.
\<close>

section \<open>What is issued\<close>

lemma email_normal:
  assumes "AuthenticationEmail_post_init v = Inr e"
  shows "AuthenticationEmail_post_init e = Inr e"
proof -
  have e: "e = to_lower (strip v)" and ns: "\<not> list_ex is_space e" and ne: "e \<noteq> []"
    using assms by (auto simp: AuthenticationEmail_post_init_def Let_def result_simps split: prod.splits)
  have "to_lower_char (to_lower_char c) = to_lower_char c" for c
  proof -
    have b: "(of_char c :: nat) < 256" by (simp add: of_char_of [symmetric] del: of_char_of) 
    then show ?thesis by (auto simp: to_lower_char_def Let_def)
  qed
  then have lower: "to_lower e = e" unfolding e by (simp add: to_lower_def)
  have strip: "strip e = e" using ns by (intro strip_fixed) (auto simp: list_ex_iff ne)
  show ?thesis using assms unfolding AuthenticationEmail_post_init_def strip lower e [symmetric]
    by (simp add: Let_def)
qed

definition fresh_credential :: "datetime \<Rightarrow> email_password_credential \<Rightarrow> bool" where
  "fresh_credential at c \<longleftrightarrow>
     cred_created_at c = at \<and> cred_email_verified_at c = None \<and>
     AuthenticationEmail_post_init (cred_email c) = Inr (cred_email c) \<and>
     PasswordHash_post_init (cred_password_hash c) = Inr (cred_password_hash c)"

definition fresh_session :: "auth_env \<Rightarrow> datetime \<Rightarrow> authentication_session \<Rightarrow> bool" where
  "fresh_session env at s \<longleftrightarrow>
     ses_created_at s = at \<and> ses_last_seen_at s = at \<and> ses_revoked_at s = None \<and>
     length (ses_token_hash s) = 32 \<and> AuthenticationSession_post_init s = Inr s \<and>
     session_absolute_expiry (an_timeout_policy env) (ses_stage s) at = Inr (ses_expires_at s)"

definition fresh_token :: "datetime \<Rightarrow> one_time_token \<Rightarrow> bool" where
  "fresh_token at t \<longleftrightarrow>
     ott_created_at t = at \<and> ott_consumed_at t = None \<and> ott_revoked_at t = None \<and>
     length (ott_token_hash t) = 32 \<and> AuthenticationOneTimeToken_post_init t = Inr t"

lemma PasswordHash_Inr: "PasswordHash_post_init p = Inr h \<Longrightarrow> h = p"
  by (auto simp: PasswordHash_post_init_def result_simps)

lemma AuthenticationSession_Inr: "AuthenticationSession_post_init s = Inr x \<Longrightarrow> x = s"
  by (auto simp: AuthenticationSession_post_init_def result_simps)

lemma AuthenticationOneTimeToken_Inr: "AuthenticationOneTimeToken_post_init t = Inr x \<Longrightarrow> x = t"
  by (auto simp: AuthenticationOneTimeToken_post_init_def result_simps)

lemma EmailPasswordCredential_Inr: "EmailPasswordCredential_post_init c = Inr x \<Longrightarrow> x = c"
  by (auto simp: EmailPasswordCredential_post_init_def result_simps)

lemma hash_length: "hash_authentication_token sha t = Inr h \<Longrightarrow> length h = 32 \<and> h = sha (map of_char t)"
  by (auto simp: hash_authentication_token_def AuthenticationTokenHash_post_init_def split: if_splits)

section \<open>Parts that change nothing\<close>

lemma yields_cases [keeps_intros]:
  "yields I m R \<Longrightarrow> (\<And>y. yields I (f y) R) \<Longrightarrow> yields I (case x of None \<Rightarrow> m | Some y \<Rightarrow> f y) R"
  "(c \<Longrightarrow> yields I m R) \<Longrightarrow> (\<not> c \<Longrightarrow> yields I n R) \<Longrightarrow> yields I (if c then m else n) R"
  by (cases x; simp) (cases c; simp)

lemma keeps_nested [keeps_intros]:
  assumes "yields I m R"
  shows "yields I (nested m) R"
proof (rule yieldsI)
  fix s r s'
  assume inv: "session_inv I s" and run: "nested m s = (r, s')"
  let ?s = "\<lparr>se_db = se_saved s, se_saved = se_saved s, se_draws = se_draws s\<rparr>"
  obtain q t where m: "m ?s = (q, t)" by fastforce
  have "session_inv I ?s" using inv by (simp add: session_inv_def)
  note kept = yieldsD(1) [OF assms this m]
  have "r = q" and "s' = \<lparr>se_db = se_saved t, se_saved = se_saved t, se_draws = se_draws t\<rparr>"
    using run m by (simp_all add: nested_def)
  then show "session_inv I s' \<and> (\<forall>x. r = Inr x \<longrightarrow> R x)"
    using kept yieldsD(2) [OF assms \<open>session_inv I ?s\<close>] m by (simp add: session_inv_def)
qed

lemma yields_query_stored:
  assumes "\<And>db x. f db = Inr x \<Longrightarrow> R x"
  shows "yields I (query_stored f) R"
  by (rule yieldsI) (auto simp: query_stored_def intro: assms)

lemma keeps_queries [keeps_intros]:
  "keeps I (require_aware_time n t)" "keeps I (user_get_by_id u)" "keeps I (optional_credential row)"
  "keeps I (credential_get_by_user_id u)" "keeps I (credential_get_by_email e)"
  "keeps I (session_get_by_token_hash h)" "keeps I (one_time_token_get_by_token_hash h)"
  "keeps I (query_stored g)" "keeps I (workflow_unavailable :: 'a auth_comp)"
  unfolding require_aware_time_def user_get_by_id_def optional_credential_def
    credential_get_by_user_id_def credential_get_by_email_def session_get_by_token_hash_def
    one_time_token_get_by_token_hash_def workflow_unavailable_def
  by (intro keeps_intros yields_query_stored TrueI)+

lemma yields_load_active_user: "yields I (load_active_user i) (\<lambda>u. \<forall>x. u = Some x \<longrightarrow> usr_id x = i)"
  unfolding load_active_user_def user_get_by_id_def
  apply (rule yields_bind [where R = "\<lambda>u. \<forall>x. u = Some x \<longrightarrow> usr_id x = i"])
   apply (rule yields_bind [where R = "\<lambda>r. \<forall>x. r = Some x \<longrightarrow> usrr_id x = i"])
    apply (rule yields_query)
    apply (auto simp: find_Some_iff) [1]
  subgoal for row
    by (cases row)
      (auto intro!: yields_return yields_bind [OF yields_lift [where R = "\<lambda>u. usr_id u = i"]]
        simp: user_to_domain_def result_simps)
  subgoal for user by (cases user) (auto intro!: yields_return)
  done

lemma yields_hash_password: "yields I (hash_password env p) (\<lambda>h. PasswordHash_post_init h = Inr h)"
  unfolding hash_password_def
  by (intro yields_bind [OF yields_ensure] yields_bind [OF keeps_basic(6)] yields_lift)
    (use PasswordHash_Inr in blast)

lemma yields_raw_token: "yields I (generate_raw_token_and_hash env) (\<lambda>(raw, h). length h = 32)"
  unfolding generate_raw_token_and_hash_def
  by (intro yields_bind [OF keeps_basic(6)] yields_bind [OF keeps_basic(4)]
      yields_bind [OF yields_lift [where R = "\<lambda>h. length h = 32"]] yields_return)
    (auto dest: hash_length)

lemma yields_issue_pending:
  "yields I (issue_pending_mfa_session env i u at)
     (\<lambda>(s, raw). fresh_session env at s \<and> ses_user_id s = u \<and> ses_stage s = ST_PENDING_MFA)"
  unfolding issue_pending_mfa_session_def
  apply (rule yields_bind [OF keeps_queries(1)])
  apply (rule yields_bind [OF yields_raw_token])
  apply clarsimp
  apply (rule yields_bind [OF yields_lift [where R = "\<lambda>e. session_absolute_expiry (an_timeout_policy env) ST_PENDING_MFA at = Inr e"]], assumption)
  apply (rule yields_bind [OF yields_lift [where R = "\<lambda>s. fresh_session env at s \<and> ses_user_id s = u \<and> ses_stage s = ST_PENDING_MFA"]])
   apply (frule AuthenticationSession_Inr, simp add: fresh_session_def)
  apply (rule yields_return, simp)
  done

lemma yields_issue_authenticated:
  "yields I (issue_authenticated_session env i u level at)
     (\<lambda>(s, raw). fresh_session env at s \<and> ses_user_id s = u \<and> ses_stage s = ST_AUTHENTICATED \<and>
        ses_assurance_level s = level)"
  unfolding issue_authenticated_session_def Let_def
  apply (rule yields_bind [OF keeps_queries(1)])
  apply (rule yields_bind [OF yields_raw_token])
  apply clarsimp
  apply (rule yields_bind [OF yields_lift [where R = "\<lambda>e. session_absolute_expiry (an_timeout_policy env) ST_AUTHENTICATED at = Inr e"]], assumption)
  apply (rule yields_bind [OF yields_lift [where R = "\<lambda>s. fresh_session env at s \<and> ses_user_id s = u \<and> ses_stage s = ST_AUTHENTICATED \<and> ses_assurance_level s = level"]])
   apply (frule AuthenticationSession_Inr, simp add: fresh_session_def)
  apply (rule yields_return, simp)
  done

lemma yields_issue_token:
  "yields I (issue_authentication_one_time_token env i u p at) (\<lambda>(t, raw). fresh_token at t)"
  unfolding issue_authentication_one_time_token_def
  apply (rule yields_bind [OF keeps_queries(1)])
  apply (rule yields_bind [OF yields_raw_token])
  apply clarsimp
  apply (rule yields_bind [OF keeps_basic(4)])
  apply (rule yields_bind [OF yields_lift [where R = "fresh_token at"]])
   apply (frule AuthenticationOneTimeToken_Inr, simp add: fresh_token_def)
  apply (rule yields_return, simp)
  done

section \<open>Inversion of reads\<close>

lemma optional_row_Inr:
  "(case row of None \<Rightarrow> returnS None | Some r \<Rightarrow> bindS (lift_result (f r)) (\<lambda>x. returnS (Some x))) s = (Inr found, s') \<longleftrightarrow>
     s' = s \<and> (case row of None \<Rightarrow> found = None | Some r \<Rightarrow> (\<exists>x. f r = Inr x \<and> found = Some x))"
  by (cases row) (auto simp: bindS_def lift_result_def split: sum.splits)

lemma get_row_Inr:
  "bindS (query g) (\<lambda>row. case row of None \<Rightarrow> returnS None | Some r \<Rightarrow> bindS (lift_result (f r)) (\<lambda>x. returnS (Some x))) s
     = (Inr found, s') \<longleftrightarrow>
     s' = s \<and> (case g (se_db s) of None \<Rightarrow> found = None | Some r \<Rightarrow> (\<exists>x. f r = Inr x \<and> found = Some x))"
  by (simp add: bindS_def query_def optional_row_Inr)

definition row_decodes :: "'r option \<Rightarrow> ('r \<Rightarrow> 'e + 'a) \<Rightarrow> 'a option \<Rightarrow> bool" where
  "row_decodes row f found \<longleftrightarrow> (case row of None \<Rightarrow> found = None | Some r \<Rightarrow> (\<exists>x. f r = Inr x \<and> found = Some x))"

lemma row_decodes_simps [simp]:
  "row_decodes None f found \<longleftrightarrow> found = None"
  "row_decodes (Some r) f found \<longleftrightarrow> (\<exists>x. f r = Inr x \<and> found = Some x)"
  "row_decodes row f None \<longleftrightarrow> row = None"
  "row_decodes row f (Some x) \<longleftrightarrow> (\<exists>r. row = Some r \<and> f r = Inr x)"
  by (auto simp: row_decodes_def split: option.splits)

lemma get_Inr [simp]:
  "session_get_by_token_hash h s = (Inr session, s') \<longleftrightarrow> s' = s \<and>
     row_decodes (find (\<lambda>r. sr_token_hash r = h) (au_sessions (se_db s))) session_to_domain session"
  "one_time_token_get_by_token_hash h s = (Inr token, s') \<longleftrightarrow> s' = s \<and>
     row_decodes (find (\<lambda>r. otr_token_hash r = h) (au_tokens (se_db s))) one_time_token_to_domain token"
  "user_get_by_id i s = (Inr user, s') \<longleftrightarrow> s' = s \<and>
     row_decodes (find (\<lambda>r. usrr_id r = i) (au_users (se_db s))) user_to_domain user"
  "credential_get_by_user_id i s = (Inr credential, s') \<longleftrightarrow> s' = s \<and>
     row_decodes (find (\<lambda>r. crr_user_id r = i) (au_credentials (se_db s))) credential_to_domain credential"
  unfolding session_get_by_token_hash_def one_time_token_get_by_token_hash_def user_get_by_id_def
    credential_get_by_user_id_def optional_credential_def row_decodes_def
  by (simp_all add: get_row_Inr)

lemma require_aware_time_Inr [simp]: "require_aware_time n t s = (Inr x, s') \<longleftrightarrow> aware t \<and> s' = s"
  by (simp add: require_aware_time_def)

lemma workflow_unavailable_Inr [simp]: "workflow_unavailable s = (Inr x, s') \<longleftrightarrow> False"
  by (simp add: workflow_unavailable_def)

lemma load_active_user_Inr [simp]:
  "load_active_user i s = (Inr (Some u), s') \<longleftrightarrow>
     s' = s \<and> (\<exists>r. find (\<lambda>r. usrr_id r = i) (au_users (se_db s)) = Some r \<and> user_to_domain r = Inr u \<and>
       usr_status u = US_ACTIVE)"
  by (auto simp: load_active_user_def elim!: bindS_InrE split: option.splits if_splits
      intro!: bindS_apply(1) [THEN trans])

lemma session_unavailable_Inr [simp]: "session_unavailable_as_workflow r = Inr x \<longleftrightarrow> r = Inr x"
  by (simp add: session_unavailable_as_workflow_def)

lemma token_unavailable_Inr [simp]: "token_unavailable_as_workflow r = Inr x \<longleftrightarrow> r = Inr x"
  by (simp add: token_unavailable_as_workflow_def)

definition session_found ::
    "auth_env \<Rightarrow> session_stage \<Rightarrow> bytes \<Rightarrow> datetime \<Rightarrow> auth_db \<Rightarrow> session_row \<Rightarrow> authentication_session \<Rightarrow> bool" where
  "session_found env stage h t db r x \<longleftrightarrow>
     find (\<lambda>r. sr_token_hash r = h) (au_sessions db) = Some r \<and> session_to_domain r = Inr x \<and>
     ses_stage x = stage \<and> require_usable_authentication_session (an_timeout_policy env) x t = Inr ()"

lemma usable_session_Inr [simp]:
  "usable_session env stage h t s = (Inr x, s') \<longleftrightarrow> s' = s \<and> (\<exists>r. session_found env stage h t (se_db s) r x)"
  unfolding usable_session_def session_found_def
proof
  assume "bindS (session_get_by_token_hash h) (\<lambda>found. case found of None \<Rightarrow> workflow_unavailable
    | Some session \<Rightarrow> if ses_stage session \<noteq> stage then workflow_unavailable
      else bindS (lift_result (session_unavailable_as_workflow
        (require_usable_authentication_session (an_timeout_policy env) session t))) (\<lambda>_. returnS session)) s = (Inr x, s')"
  then show "s' = s \<and> (\<exists>r. find (\<lambda>r. sr_token_hash r = h) (au_sessions (se_db s)) = Some r \<and>
      session_to_domain r = Inr x \<and> ses_stage x = stage \<and>
      require_usable_authentication_session (an_timeout_policy env) x t = Inr ())"
    by (elim bindS_InrE) (auto split: option.splits if_splits elim!: bindS_InrE)
next
  assume found: "s' = s \<and> (\<exists>r. find (\<lambda>r. sr_token_hash r = h) (au_sessions (se_db s)) = Some r \<and>
      session_to_domain r = Inr x \<and> ses_stage x = stage \<and>
      require_usable_authentication_session (an_timeout_policy env) x t = Inr ())"
  then have read: "session_get_by_token_hash h s = (Inr (Some x), s)" by auto
  from found show "bindS (session_get_by_token_hash h) (\<lambda>found. case found of None \<Rightarrow> workflow_unavailable
    | Some session \<Rightarrow> if ses_stage session \<noteq> stage then workflow_unavailable
      else bindS (lift_result (session_unavailable_as_workflow
        (require_usable_authentication_session (an_timeout_policy env) session t))) (\<lambda>_. returnS session)) s = (Inr x, s')"
    unfolding bindS_apply(1) [where m = "session_get_by_token_hash h", OF read]
    by (auto simp: bindS_apply run_simps session_unavailable_as_workflow_def mapE_def)
qed

lemma require_usable_session_Inr:
  "require_usable_authentication_session p s t = Inr () \<longleftrightarrow>
     aware t \<and> aware (ses_created_at s) \<and> aware (ses_last_seen_at s) \<and> ses_created_at s \<le> t \<and>
     ses_last_seen_at s \<le> t \<and> t < ses_expires_at s \<and> ses_revoked_at s = None \<and>
     t < dt_plus (ses_created_at s) (if ses_stage s = ST_PENDING_MFA then stp_pending_mfa p else stp_authenticated_absolute p) \<and>
     (ses_stage s \<noteq> ST_PENDING_MFA \<longrightarrow> t < dt_plus (ses_last_seen_at s) (stp_authenticated_idle p))"
  by (auto simp: require_usable_authentication_session_def session_absolute_expiry_def session_idle_expiry_def
      result_simps not_le not_less)

lemma session_to_domain_fields:
  assumes "session_to_domain r = Inr x"
  shows "ses_id x = sr_id r" "ses_user_id x = sr_user_id r" "ses_token_hash x = sr_token_hash r"
    "sr_stage r = session_stage_value (ses_stage x)"
    "sr_assurance_level r = assurance_value (ses_assurance_level x)" "ses_mfa_completed x = sr_mfa_completed r"
    "ses_created_at x = sr_created_at r" "ses_last_seen_at x = sr_last_seen_at r"
    "ses_expires_at x = sr_expires_at r" "ses_revoked_at x = sr_revoked_at r"
  using assms
  by (auto simp: session_to_domain_def result_simps auth_enum_def AuthenticationTokenHash_post_init_def
      split: option.splits if_splits dest!: AuthenticationSession_Inr enum_of_SomeD)

lemma uncommitting_auth [uncommitting_intros]:
  "uncommitting (require_aware_time n t)" "uncommitting (workflow_unavailable :: 'a auth_comp)"
  "uncommitting (session_get_by_token_hash h)" "uncommitting (one_time_token_get_by_token_hash h)"
  "uncommitting (user_get_by_id i)" "uncommitting (credential_get_by_user_id i)"
  "uncommitting (update_session i f)" "uncommitting (update_credential i g)"
  unfolding require_aware_time_def workflow_unavailable_def session_get_by_token_hash_def
    one_time_token_get_by_token_hash_def user_get_by_id_def credential_get_by_user_id_def
    optional_credential_def update_session_def update_credential_def
  by (auto intro!: uncommitting_intros split: option.splits)

lemma uncommitting_shared [uncommitting_intros]:
  "uncommitting (load_active_user i)" "uncommitting (usable_session env stage h t)"
  unfolding load_active_user_def usable_session_def
  by (auto intro!: uncommitting_intros split: option.splits)

lemma changes_if_return:
  assumes "changes (if c then m else returnS x) s r s'"
  obtains "c" and "changes m s r s'"
  using assms that by (cases c) (auto elim: changes_elims)

lemma changes_update_session:
  assumes "changes (bindS (update_session i f) k) s r s'"
  obtains "changes (k ()) (s\<lparr>se_db := (se_db s)\<lparr>au_sessions :=
    map (\<lambda>y. if sr_id y = i then f y else y) (au_sessions (se_db s))\<rparr>\<rparr>) r s'"
  by (rule changes_bindE [OF assms uncommitting_auth(7)])
    (auto simp: update_session_def result_simps intro: that)

lemma load_active_user_reads: "load_active_user i s = (Inr u, s') \<Longrightarrow> s' = s"
  by (auto simp: load_active_user_def elim!: bindS_InrE split: option.splits)

lemma resolve_effect:
  assumes "transaction (resolve_session env raw at touch) w = (res, w')"
  shows "w_db w' = w_db w \<or> (\<exists>h r x. session_found env ST_AUTHENTICATED h at (w_db w) r x \<and>
    w_db w' = (w_db w)\<lparr>au_sessions := map (\<lambda>y. if sr_id y = sr_id r then y\<lparr>sr_last_seen_at := at\<rparr> else y)
      (au_sessions (w_db w))\<rparr>)"
  using assms
proof (cases rule: changes_transaction)
  case (stored s')
  from stored(1) [unfolded resolve_session_def] obtain h where
    "changes (bindS (usable_session env ST_AUTHENTICATED h at) (\<lambda>x. bindS (load_active_user (ses_user_id x)) (\<lambda>active.
      case active of None \<Rightarrow> workflow_unavailable
      | Some user \<Rightarrow>
        if touch \<and> an_session_touch_interval env \<le> instant at - instant (ses_last_seen_at x) then
          bindS (update_last_seen (ses_id x) at) (\<lambda>_.
          bindS (lift_result (AuthenticationSession_post_init (x\<lparr>ses_last_seen_at := at\<rparr>))) (\<lambda>touched.
          bindS commit (\<lambda>_. returnS (touched, user))))
        else returnS (x, user)))) (open_session w) res s'"
    by (auto elim!: changes_bindE [OF _ uncommitting_auth(1)] changes_lift)
  then obtain x r active where found: "session_found env ST_AUTHENTICATED h at (w_db w) r x"
    and rest: "changes (case active of None \<Rightarrow> workflow_unavailable
      | Some user \<Rightarrow>
        if touch \<and> an_session_touch_interval env \<le> instant at - instant (ses_last_seen_at x) then
          bindS (update_last_seen (ses_id x) at) (\<lambda>_.
          bindS (lift_result (AuthenticationSession_post_init (x\<lparr>ses_last_seen_at := at\<rparr>))) (\<lambda>touched.
          bindS commit (\<lambda>_. returnS (touched, user))))
        else returnS (x, user)) (open_session w) res s'"
    by (elim changes_bindE [OF _ uncommitting_shared(2)])
      (auto elim!: changes_bindE [OF _ uncommitting_shared(1)] dest!: load_active_user_reads)
  from rest [unfolded update_last_seen_def workflow_unavailable_def] have
    "se_saved s' = (w_db w)\<lparr>au_sessions := map (\<lambda>y. if sr_id y = ses_id x
      then y\<lparr>sr_last_seen_at := at\<rparr> else y) (au_sessions (w_db w))\<rparr>"
    by (elim changes_elims changes_if_return changes_update_session) (auto intro: uncommitting_intros)
  moreover have "ses_id x = sr_id r"
    using found session_to_domain_fields(1) by (simp add: session_found_def)
  ultimately show ?thesis using found stored(2) by auto
qed simp

section \<open>Invariants of the tables\<close>

text \<open>
  The elementary changes that the workflows of time \<open>at\<close> make. \<open>may_enter\<close> holds of the users who
  may get an authenticated session.
\<close>

locale account_invariant =
  fixes I :: "auth_db \<Rightarrow> bool" and env :: auth_env and at :: datetime and may_enter :: "uuid \<Rightarrow> bool"
  assumes event_recorded: "I db \<Longrightarrow> I (db\<lparr>ad_events := es\<rparr>)"
    and user_added: "I db \<Longrightarrow> i \<notin> set (map usrr_id (au_users db)) \<Longrightarrow>
      I (db\<lparr>au_users := au_users db @ [user_to_row \<lparr>usr_id = i, usr_status = US_ACTIVE\<rparr>]\<rparr>)"
    and credential_added: "I db \<Longrightarrow> fresh_credential at c \<Longrightarrow> cred_id c \<notin> set (map crr_id (au_credentials db)) \<Longrightarrow>
      cred_email c \<notin> set (map crr_email (au_credentials db)) \<Longrightarrow>
      cred_user_id c \<notin> set (map crr_user_id (au_credentials db)) \<Longrightarrow>
      I (db\<lparr>au_credentials := au_credentials db @ [credential_to_row c]\<rparr>)"
    and session_added: "I db \<Longrightarrow> fresh_session env at s \<Longrightarrow>
      (ses_stage s = ST_AUTHENTICATED \<longrightarrow> may_enter (ses_user_id s)) \<Longrightarrow>
      ses_id s \<notin> set (map sr_id (au_sessions db)) \<Longrightarrow>
      ses_token_hash s \<notin> set (map sr_token_hash (au_sessions db)) \<Longrightarrow>
      I (db\<lparr>au_sessions := au_sessions db @ [session_to_row s]\<rparr>)"
    and token_added: "I db \<Longrightarrow> fresh_token at t \<Longrightarrow> ott_id t \<notin> set (map otr_id (au_tokens db)) \<Longrightarrow>
      ott_token_hash t \<notin> set (map otr_token_hash (au_tokens db)) \<Longrightarrow>
      I (db\<lparr>au_tokens := au_tokens db @ [one_time_token_to_row t]\<rparr>)"
    and sessions_revoked: "I db \<Longrightarrow>
      I (db\<lparr>au_sessions := map (\<lambda>r. if P r then revoke_row at r else r) (au_sessions db)\<rparr>)"
    and session_seen: "I db \<Longrightarrow> r \<in> set (au_sessions db) \<Longrightarrow> sr_created_at r \<le> at \<Longrightarrow> at < sr_expires_at r \<Longrightarrow>
      I (db\<lparr>au_sessions := map (\<lambda>x. if sr_id x = sr_id r then x\<lparr>sr_last_seen_at := at\<rparr> else x) (au_sessions db)\<rparr>)"
    and tokens_revoked: "I db \<Longrightarrow>
      I (db\<lparr>au_tokens := map (\<lambda>r. if Q r \<and> otr_revoked_at r = None \<and> otr_consumed_at r = None
        then r\<lparr>otr_revoked_at := Some at\<rparr> else r) (au_tokens db)\<rparr>)"
    and token_consumed: "I db \<Longrightarrow>
      I (db\<lparr>au_tokens := map (\<lambda>r. if otr_id r = i \<and> token_usable at r
        then r\<lparr>otr_consumed_at := Some at\<rparr> else r) (au_tokens db)\<rparr>)"
    and credential_verified: "I db \<Longrightarrow>
      I (db\<lparr>au_credentials := map (\<lambda>r. if crr_id r = i then r\<lparr>crr_email_verified_at := Some at\<rparr> else r)
        (au_credentials db)\<rparr>)"
    and password_replaced: "I db \<Longrightarrow> PasswordHash_post_init h = Inr h \<Longrightarrow>
      I (db\<lparr>au_credentials := map (\<lambda>r. if crr_id r = i then r\<lparr>crr_password_hash := h\<rparr> else r)
        (au_credentials db)\<rparr>)"
    and entered: "I db \<Longrightarrow> r \<in> set (au_sessions db) \<Longrightarrow> sr_stage r = ''authenticated'' \<Longrightarrow>
      may_enter (sr_user_id r)"
begin

lemma keeps_auth_audit: "keeps I (auth_audit env' event)"
  unfolding auth_audit_def append_required_audit_event_def
  by (intro keeps_intros, split sum.split) (auto intro!: keeps_intros keeps_modify event_recorded split: if_splits)

lemma keeps_standalone: "keeps I (standalone_audit env' event)"
  unfolding standalone_audit_def by (intro keeps_intros keeps_auth_audit)

lemma keeps_login_failed: "yields I (login_failed env' t ctx) R"
  unfolding login_failed_def by (rule yields_bind [OF keeps_standalone]) (rule yields_raise)

lemma keeps_user_add: "keeps I (user_add \<lparr>usr_id = i, usr_status = US_ACTIVE\<rparr>)"
  unfolding user_add_def by (rule keeps_modify) (auto simp: result_simps intro: user_added)

lemma keeps_credential_add: "fresh_credential at c \<Longrightarrow> keeps I (credential_add c)"
  unfolding credential_add_def Let_def
  by (rule keeps_modify) (auto simp: result_simps intro: credential_added)

lemma keeps_session_add:
  "fresh_session env at s \<Longrightarrow> (ses_stage s = ST_AUTHENTICATED \<longrightarrow> may_enter (ses_user_id s)) \<Longrightarrow>
   keeps I (session_add s)"
  unfolding session_add_def Let_def
  by (rule keeps_modify) (auto simp: result_simps intro: session_added)

lemma keeps_token_add: "fresh_token at t \<Longrightarrow> keeps I (one_time_token_add t)"
  unfolding one_time_token_add_def Let_def
  by (rule keeps_modify) (auto simp: result_simps intro: token_added)

lemma keeps_revoke: "keeps I (session_revoke i at)"
  unfolding session_revoke_def update_session_def
  by (rule keeps_modify) (auto simp: result_simps intro: sessions_revoked)

lemma keeps_revoke_all: "keeps I (revoke_all_for_user u at)"
  unfolding revoke_all_for_user_def
  by (intro keeps_intros keeps_modify) (auto intro: sessions_revoked)

lemma keeps_revoke_tokens: "keeps I (revoke_active_tokens u p at)"
  unfolding revoke_active_tokens_def Let_def
  apply (intro keeps_intros keeps_modify)
  using tokens_revoked [where Q = "\<lambda>r. otr_user_id r = u \<and> otr_purpose r = token_purpose_value p"]
  by (auto simp: conj_ac)

lemma keeps_consume: "keeps I (consume_if_usable i at at)"
  unfolding consume_if_usable_def
  by (intro keeps_intros keeps_modify) (auto intro: token_consumed)

lemma keeps_verified: "keeps I (set_email_verified_at i at)"
  unfolding set_email_verified_at_def update_credential_def
  by (rule keeps_modify) (auto simp: result_simps intro: credential_verified)

lemma keeps_password: "PasswordHash_post_init h = Inr h \<Longrightarrow> keeps I (replace_password_hash i h)"
  unfolding replace_password_hash_def update_credential_def
  by (intro keeps_intros keeps_modify) (auto simp: result_simps intro: password_replaced)

lemma keeps_issue_delivery: "keeps I (issue_delivery env p u c i at)"
  unfolding issue_delivery_def
  apply (rule keeps_bind [OF keeps_revoke_tokens])
  apply (rule yields_bind [OF yields_issue_token])
  apply clarsimp
  apply (intro keeps_intros keeps_token_add, assumption)
  done

lemma keeps_consume_token: "keeps I (consume_locked_one_time_token t at p)"
  unfolding consume_locked_one_time_token_def by (intro keeps_intros keeps_consume)

lemma yields_usable_session:
  "yields I (usable_session env' stage h t) (\<lambda>s. ses_stage s = stage \<and>
     (stage = ST_AUTHENTICATED \<longrightarrow> may_enter (ses_user_id s)))"
proof -
  have get: "yields I (session_get_by_token_hash h)
      (\<lambda>found. \<forall>s. found = Some s \<longrightarrow> ses_stage s = ST_AUTHENTICATED \<longrightarrow> may_enter (ses_user_id s))"
    unfolding session_get_by_token_hash_def
    apply (rule yields_bind [OF yields_query [where R = "\<lambda>row. \<forall>r. row = Some r \<longrightarrow>
        sr_stage r = ''authenticated'' \<longrightarrow> may_enter (sr_user_id r)"]])
    subgoal for db using entered by (auto simp: find_Some_iff)
    subgoal for row
      apply (cases row)
       apply (simp_all add: yields_return)
      apply (rule yields_bind [OF yields_lift [where R = "\<lambda>s. ses_stage s = ST_AUTHENTICATED \<longrightarrow> may_enter (ses_user_id s)"]])
       apply (auto simp: session_to_domain_def result_simps auth_enum_def split: option.splits
          dest!: AuthenticationSession_Inr enum_of_SomeD intro!: yields_return)
      done
    done
  show ?thesis
    unfolding usable_session_def workflow_unavailable_def
    apply (rule yields_bind [OF get])
    subgoal for found
      by (cases found)
        (auto intro!: yields_raise yields_bind [OF keeps_basic(4)] yields_return)
    done
qed

text \<open>The workflows of time \<open>at\<close>.\<close>

lemma keeps_register: "keeps I (register_user env u c i email password at ctx)"
  unfolding register_user_def
  apply (rule keeps_bind [OF keeps_queries(1)])
  apply (rule yields_bind [OF yields_lift [where R = "\<lambda>e. AuthenticationEmail_post_init e = Inr e"]])
   apply (rule email_normal, assumption)
  apply (rule yields_bind [OF yields_hash_password])
  apply (rule yields_bind [OF yields_lift [where R = "fresh_credential at"]])
   apply (frule EmailPasswordCredential_Inr, simp add: fresh_credential_def)
  apply (intro keeps_bind keeps_issue_delivery keeps_auth_audit keeps_basic yields_try [OF keeps_bind] keeps_user_add
      keeps_credential_add yields_cases)
  apply assumption
  done

lemma keeps_request: "keeps I (request_token env p eligible event email i at ctx)"
proof -
  have "keeps I (load_active_user u)" for u
    by (rule yields_weaken [OF yields_load_active_user]) simp
  then show ?thesis
    unfolding request_token_def
    by (intro keeps_bind keeps_queries keeps_basic yields_cases keeps_issue_delivery keeps_auth_audit)
qed

lemma keeps_confirm_email: "keeps I (confirm_email_verification env raw at ctx)"
  unfolding confirm_email_verification_def
  by (intro keeps_bind keeps_queries keeps_basic yields_cases keeps_consume_token keeps_verified
      keeps_revoke_tokens keeps_auth_audit)

lemma keeps_confirm_reset: "keeps I (confirm_password_reset env raw password at ctx)"
  unfolding confirm_password_reset_def
  apply (rule keeps_bind [OF keeps_queries(1)])
  apply (rule keeps_bind [OF keeps_basic(4)])
  apply (rule yields_bind [OF yields_hash_password])
  apply (intro keeps_bind keeps_queries keeps_basic yields_cases keeps_consume_token keeps_password
      keeps_revoke_tokens keeps_revoke_all keeps_auth_audit)
  apply assumption
  done

lemma keeps_logout: "keeps I (logout env raw at ctx)"
  unfolding logout_def
  by (intro keeps_bind keeps_queries keeps_basic yields_cases keeps_revoke keeps_auth_audit)

lemma keeps_logout_all: "keeps I (logout_all_sessions env u at ctx)"
  unfolding logout_all_sessions_def
  by (intro keeps_bind keeps_queries keeps_basic keeps_revoke_all keeps_auth_audit)

text \<open>A login without the second factor is for users who may enter.\<close>

lemma yields_login:
  assumes "case policy of None \<Rightarrow> mfa_required \<or> (\<forall>u. may_enter u)
    | Some p \<Rightarrow> \<forall>db u. p db u = Inr False \<longrightarrow> may_enter u"
  shows "yields I (login_with_password env email password i at ctx mfa_required policy)
    (\<lambda>(s, raw). ses_stage s = ST_AUTHENTICATED \<longrightarrow> may_enter (ses_user_id s))"
proof -
  let ?second = "\<lambda>user. (case policy of None \<Rightarrow> returnS mfa_required
    | Some p \<Rightarrow> query_stored (\<lambda>db. p db (usr_id user)))"
  have second: "yields I (?second user) (\<lambda>mfa. \<not> mfa \<longrightarrow> may_enter (usr_id user))" for user
    using assms by (cases policy) (auto intro!: yields_return yields_query_stored)
  have issue: "yields I (if mfa then issue_pending_mfa_session env i u at
      else issue_authenticated_session env i u AAL_SINGLE_FACTOR at)
      (\<lambda>(s, raw). fresh_session env at s \<and> (ses_stage s = ST_AUTHENTICATED \<longrightarrow> may_enter (ses_user_id s)))"
    if "\<not> mfa \<longrightarrow> may_enter u" for mfa u
    using that by (cases mfa)
      (auto intro!: yields_weaken [OF yields_issue_pending] yields_weaken [OF yields_issue_authenticated])
  have rehash: "keeps I (if requires_rehash then bindS (hash_password env password) (replace_password_hash c) else returnS ())"
    for requires_rehash c
    by (auto intro!: keeps_basic yields_bind [OF yields_hash_password] keeps_password)
  have verify: "keeps I (case verify_password_or_fail env password c of
      Inl e \<Rightarrow> login_failed env at ctx | Inr r \<Rightarrow> returnS r)" for c
    by (auto intro!: keeps_basic keeps_login_failed split: sum.split)
  have active: "keeps I (load_active_user u)" for u
    by (rule yields_weaken [OF yields_load_active_user]) simp
  show ?thesis
    unfolding login_with_password_def
    apply (intro yields_bind [OF keeps_queries(1)] yields_bind [OF keeps_basic(4)] yields_bind [OF keeps_queries(5)]
        yields_cases keeps_login_failed yields_bind [OF active] yields_bind [OF verify] yields_bind [OF rehash]
        yields_bind [OF second])
    apply (rule yields_bind [OF issue], assumption)
    apply (clarsimp simp only: prod.case split: prod.splits)
    apply (intro yields_bind [OF keeps_session_add] yields_bind [OF keeps_auth_audit] yields_bind [OF keeps_basic(7)]
        yields_return)
      apply (assumption | simp)+
    done
qed

lemma yields_complete_mfa:
  assumes "\<And>u m r. yields I (verify u m r) (\<lambda>ok. ok \<longrightarrow> may_enter u)"
  shows "yields I (complete_mfa_login env verify raw i m r at ctx)
    (\<lambda>(s, raw). ses_stage s = ST_AUTHENTICATED \<longrightarrow> may_enter (ses_user_id s))"
proof -
  have rotate: "yields I (complete_pending_mfa_and_rotate_session env p i at)
      (\<lambda>(old, s, raw). ses_id old = ses_id p \<and> fresh_session env at s \<and> ses_user_id s = ses_user_id p)" for p
    unfolding complete_pending_mfa_and_rotate_session_def
    apply (rule keeps_bind [OF keeps_queries(1)] yields_bind [OF keeps_queries(1)])
    apply (rule yields_bind [OF keeps_basic(5)])
    apply (rule yields_bind [OF keeps_basic(5)])
    apply (rule yields_bind [OF keeps_basic(4)])
    apply (rule yields_bind [OF yields_lift [where R = "\<lambda>old. ses_id old = ses_id p"]])
     apply (drule AuthenticationSession_Inr, simp)
    apply (rule yields_bind [OF yields_issue_authenticated])
    apply (clarsimp intro!: yields_return)
    done
  show ?thesis
    unfolding complete_mfa_login_def
    apply (rule yields_bind [OF keeps_queries(1)])
    apply (rule yields_bind [OF keeps_basic(4)])
    apply (rule yields_bind [OF yields_usable_session])
    apply (rule yields_bind [OF keeps_nested [OF assms]])
    apply (rule yields_cases)
     apply (rule yields_bind [OF keeps_standalone], simp add: workflow_unavailable_def yields_raise)
    subgoal for _ _ p ok
      apply (rule yields_bind [where R = "\<lambda>(old, s, raw). ses_id old = ses_id p \<and> fresh_session env at s \<and>
          ses_user_id s = ses_user_id p"])
       apply (rule yields_try [OF rotate])
        apply (auto intro!: yields_raise yields_return simp: workflow_unavailable_def split: auth_error.split) [2]
      apply (clarsimp simp only: prod.case split: prod.splits)
      apply (intro yields_bind [OF keeps_revoke] yields_bind [OF keeps_session_add] yields_bind [OF keeps_auth_audit]
          yields_bind [OF keeps_basic(7)] yields_return)
        apply (assumption | simp)+
      done
    done
qed

lemma yields_change_password:
  "yields I (change_password env raw current new i at ctx)
    (\<lambda>(s, raw). ses_stage s = ST_AUTHENTICATED \<longrightarrow> may_enter (ses_user_id s))"
  unfolding change_password_def
  apply (rule yields_bind [OF keeps_queries(1)])
  apply (rule yields_bind [OF keeps_basic(4)])
  apply (rule yields_bind [OF yields_usable_session])
  apply (rule yields_bind [OF yields_load_active_user])
  subgoal for _ _ session active
    apply (cases active)
     apply (simp add: workflow_unavailable_def yields_raise)
    apply simp
    apply (intro yields_bind [OF keeps_queries(4)] yields_cases yields_bind [OF keeps_basic(4)])
     apply (simp add: workflow_unavailable_def yields_raise)
    apply (rule yields_bind [OF yields_hash_password])
    apply (rule yields_bind [OF keeps_password], assumption)
    apply (rule yields_bind [OF keeps_revoke_all])
    apply (rule yields_bind [OF yields_issue_authenticated])
    apply (clarsimp simp only: prod.case split: prod.splits)
    apply (intro yields_bind [OF keeps_session_add] yields_bind [OF keeps_auth_audit] yields_bind [OF keeps_basic(7)]
        yields_return)
      apply (assumption | simp)+
    done
  done

lemma resolve_stored:
  assumes "I (w_db w)" and run: "transaction (resolve_session env raw at touch) w = (res, w')"
  shows "I (w_db w')"
  using resolve_effect [OF run]
proof (elim disjE exE conjE)
  fix h r x
  assume found: "session_found env ST_AUTHENTICATED h at (w_db w) r x"
    and w': "w_db w' = (w_db w)\<lparr>au_sessions := map (\<lambda>y. if sr_id y = sr_id r then y\<lparr>sr_last_seen_at := at\<rparr> else y)
      (au_sessions (w_db w))\<rparr>"
  then have r: "r \<in> set (au_sessions (w_db w))" and x: "session_to_domain r = Inr x"
    by (auto simp: session_found_def find_Some_iff)
  have "sr_created_at r \<le> at" and "at < sr_expires_at r"
    using found session_to_domain_fields [OF x] by (auto simp: session_found_def require_usable_session_Inr)
  then show ?thesis unfolding w' by (rule session_seen [OF assms(1) r])
qed (simp add: assms(1))

end

end
