(* ===== verification/Auth_Outcomes.thy ===== *)
theory Auth_Outcomes
  imports Auth_Effects
begin

text \<open>
  What a successful workflow found in the tables and what it left there: the inversion of the
  workflows that present a secret (a one-time token, a session token) down to the rows of the tables.
\<close>

section \<open>Steps that succeed\<close>

definition consume_row :: "uuid \<Rightarrow> datetime \<Rightarrow> one_time_token_row \<Rightarrow> one_time_token_row" where
  "consume_row i at r = (if otr_id r = i \<and> token_usable at r then r\<lparr>otr_consumed_at := Some at\<rparr> else r)"

definition retire_row :: "uuid \<Rightarrow> token_purpose \<Rightarrow> datetime \<Rightarrow> one_time_token_row \<Rightarrow> one_time_token_row" where
  "retire_row u p at r =
     (if otr_user_id r = u \<and> otr_purpose r = token_purpose_value p \<and> otr_revoked_at r = None \<and>
         otr_consumed_at r = None then r\<lparr>otr_revoked_at := Some at\<rparr> else r)"

definition end_row :: "uuid \<Rightarrow> datetime \<Rightarrow> session_row \<Rightarrow> session_row" where
  "end_row u at r = (if sr_user_id r = u then revoke_row at r else r)"

lemma auth_audit_InrD:
  assumes "auth_audit env event s = (Inr x, s')"
  obtains e where "s' = s\<lparr>se_draws := Suc (se_draws s), se_db := (se_db s)\<lparr>ad_events := ad_events (se_db s) @ [e]\<rparr>\<rparr>"
  using assms unfolding auth_audit_def append_required_audit_event_def
  by (auto elim!: bindS_InrE split: sum.splits if_splits intro: that)

lemma revoke_active_tokens_Inr [simp]:
  "revoke_active_tokens u p at s = (Inr n, s') \<longleftrightarrow>
     n = length (filter (\<lambda>r. otr_user_id r = u \<and> otr_purpose r = token_purpose_value p \<and>
       otr_revoked_at r = None \<and> otr_consumed_at r = None) (au_tokens (se_db s))) \<and>
     s' = s\<lparr>se_db := (se_db s)\<lparr>au_tokens := map (retire_row u p at) (au_tokens (se_db s))\<rparr>\<rparr>"
  by (auto simp: revoke_active_tokens_def bindS_apply run_simps retire_row_def [abs_def])

lemma revoke_all_Inr [simp]:
  "revoke_all_for_user u at s = (Inr n, s') \<longleftrightarrow>
     n = length (filter (\<lambda>r. sr_user_id r = u \<and> sr_revoked_at r = None) (au_sessions (se_db s))) \<and>
     s' = s\<lparr>se_db := (se_db s)\<lparr>au_sessions := map (end_row u at) (au_sessions (se_db s))\<rparr>\<rparr>"
  by (auto simp: revoke_all_for_user_def bindS_apply run_simps end_row_def [abs_def])

lemma update_credential_Inr [simp]:
  "update_credential i f s = (Inr x, s') \<longleftrightarrow> i \<in> set (map crr_id (au_credentials (se_db s))) \<and>
     s' = s\<lparr>se_db := (se_db s)\<lparr>au_credentials :=
       map (\<lambda>r. if crr_id r = i then f r else r) (au_credentials (se_db s))\<rparr>\<rparr>"
  by (auto simp: update_credential_def result_simps)

lemma consume_token_InrD:
  assumes "consume_locked_one_time_token t at p s = (Inr x, s')"
  shows "ott_purpose t = p" and "\<exists>r\<in>set (au_tokens (se_db s)). otr_id r = ott_id t \<and> token_usable at r"
    and "s' = s\<lparr>se_db := (se_db s)\<lparr>au_tokens := map (consume_row (ott_id t) at) (au_tokens (se_db s))\<rparr>\<rparr>"
  using assms unfolding consume_locked_one_time_token_def consume_if_usable_def
  by (auto elim!: bindS_InrE simp: list_ex_iff consume_row_def [abs_def] split: if_splits)

lemma one_time_token_to_domain_fields:
  assumes "one_time_token_to_domain r = Inr t"
  shows "ott_id t = otr_id r" "ott_user_id t = otr_user_id r" "ott_token_hash t = otr_token_hash r"
    "otr_purpose r = token_purpose_value (ott_purpose t)" "ott_created_at t = otr_created_at r"
    "ott_expires_at t = otr_expires_at r" "ott_consumed_at t = otr_consumed_at r" "ott_revoked_at t = otr_revoked_at r"
  using assms
  by (auto simp: one_time_token_to_domain_def result_simps auth_enum_def AuthenticationTokenHash_post_init_def
      split: option.splits if_splits dest!: AuthenticationOneTimeToken_Inr enum_of_SomeD)

lemma hash_password_InrD:
  assumes "hash_password env p s = (Inr h, s')"
  shows "PasswordHash_post_init h = Inr h" "s' = s\<lparr>se_draws := Suc (se_draws s)\<rparr>"
  using assms unfolding hash_password_def by (auto elim!: bindS_InrE) (metis PasswordHash_Inr)

lemma credential_to_domain_fields:
  assumes "credential_to_domain r = Inr c"
  shows "cred_id c = crr_id r" "cred_user_id c = crr_user_id r"
  using assms
  by (auto simp: credential_to_domain_def result_simps dest!: EmailPasswordCredential_Inr)

text \<open>Transactions with a commit as their last effect store their working tables.\<close>

lemma commit_transaction:
  assumes "transaction m w = (Inr x, w')"
  obtains s' where "m (open_session w) = (Inr x, s')" and "w_db w' = se_saved s'"
  using assms that by (auto simp: transaction_def split: prod.splits)

section \<open>One-time tokens\<close>

text \<open>The row of a one-time token that a confirmation consumed.\<close>

definition redeemed_row :: "token_purpose \<Rightarrow> bytes \<Rightarrow> datetime \<Rightarrow> auth_db \<Rightarrow> one_time_token_row \<Rightarrow> bool" where
  "redeemed_row p h at db r \<longleftrightarrow> r \<in> set (au_tokens db) \<and> otr_token_hash r = h \<and>
     otr_purpose r = token_purpose_value p \<and> token_usable at r"

lemma token_read:
  assumes find: "find (\<lambda>r. otr_token_hash r = h) rows = Some r" and dom: "one_time_token_to_domain r = Inr t"
    and used: "\<exists>x\<in>set rows. otr_id x = ott_id t \<and> token_usable at x" and ids: "distinct (map otr_id rows)"
  shows "r \<in> set rows" "otr_token_hash r = h" "token_usable at r"
proof -
  show r: "r \<in> set rows" and "otr_token_hash r = h" using find by (auto simp: find_Some_iff)
  from used obtain x where "x \<in> set rows" "otr_id x = otr_id r" "token_usable at x"
    using one_time_token_to_domain_fields(1) [OF dom] by auto
  then show "token_usable at r" using ids r by (metis distinct_map inj_onD)
qed

text \<open>A confirmed reset: the token, the password, the other reset tokens and the sessions of the user.\<close>

definition after_reset :: "one_time_token_row \<Rightarrow> uuid \<Rightarrow> string \<Rightarrow> datetime \<Rightarrow> auth_db \<Rightarrow> auth_db" where
  "after_reset r c h at db = db\<lparr>
     au_credentials := map (\<lambda>y. if crr_id y = c then y\<lparr>crr_password_hash := h\<rparr> else y) (au_credentials db),
     au_tokens := map (retire_row (otr_user_id r) TP_PASSWORD_RESET at)
       (map (consume_row (otr_id r) at) (au_tokens db)),
     au_sessions := map (end_row (otr_user_id r) at) (au_sessions db)\<rparr>"

lemma confirm_reset_run:
  assumes "confirm_password_reset env raw password at ctx s = (Inr x, s')"
    and ids: "distinct (map otr_id (au_tokens (se_db s)))"
  shows "\<exists>h r c cr events.
    redeemed_row TP_PASSWORD_RESET (an_sha256 env (map of_char raw)) at (se_db s) r \<and>
    PasswordHash_post_init h = Inr h \<and>
    find (\<lambda>c. crr_user_id c = otr_user_id r) (au_credentials (se_db s)) = Some cr \<and> crr_id cr = c \<and>
    se_saved s' = (after_reset r c h at (se_db s))\<lparr>ad_events := events\<rparr>"
  using assms(1) unfolding confirm_password_reset_def replace_password_hash_def
  apply (elim bindS_InrE)
  apply (simp split: option.splits)
  apply (elim bindS_InrE conjE exE)
  apply (simp split: option.splits)
  apply (elim bindS_InrE conjE exE)
  apply simp
  apply (elim auth_audit_InrD)
  apply (frule consume_token_InrD(1))
  apply (frule consume_token_InrD(2))
  apply (drule consume_token_InrD(3))
  apply (frule hash_password_InrD(1))
  apply (drule hash_password_InrD(2))
  apply (drule hash_length)
  apply simp
  subgoal for h _ _ token _ _ r c _ _ _ cr e
    by (rule exI [of _ h], rule exI [of _ r])
      (simp add: redeemed_row_def one_time_token_to_domain_fields [of r token]
        credential_to_domain_fields [of cr c] token_read [OF _ _ _ ids, of _ r token]
        after_reset_def map_map [symmetric] exI [of _ "ad_events (se_db s) @ [e]"] del: map_map)
  done

definition after_verification :: "one_time_token_row \<Rightarrow> uuid \<Rightarrow> datetime \<Rightarrow> auth_db \<Rightarrow> auth_db" where
  "after_verification r c at db = db\<lparr>
     au_credentials := map (\<lambda>y. if crr_id y = c then y\<lparr>crr_email_verified_at := Some at\<rparr> else y) (au_credentials db),
     au_tokens := map (retire_row (otr_user_id r) TP_EMAIL_VERIFICATION at)
       (map (consume_row (otr_id r) at) (au_tokens db))\<rparr>"

lemma confirm_email_run:
  assumes "confirm_email_verification env raw at ctx s = (Inr x, s')"
    and ids: "distinct (map otr_id (au_tokens (se_db s)))"
  shows "\<exists>r c events.
    redeemed_row TP_EMAIL_VERIFICATION (an_sha256 env (map of_char raw)) at (se_db s) r \<and>
    find (\<lambda>c. crr_user_id c = otr_user_id r) (au_credentials (se_db s)) = Some c \<and>
    se_saved s' = (after_verification r (crr_id c) at (se_db s))\<lparr>ad_events := events\<rparr>"
  using assms(1) unfolding confirm_email_verification_def set_email_verified_at_def
  apply (elim bindS_InrE)
  apply (simp split: option.splits)
  apply (elim bindS_InrE conjE exE)
  apply (simp split: option.splits)
  apply (elim bindS_InrE conjE exE)
  apply simp
  apply (elim auth_audit_InrD)
  apply (frule consume_token_InrD(1))
  apply (frule consume_token_InrD(2))
  apply (drule consume_token_InrD(3))
  apply (drule hash_length)
  apply simp
  subgoal for _ token _ _ r c _ _ cr e
    by (rule exI [of _ r])
      (simp add: redeemed_row_def one_time_token_to_domain_fields [of r token]
        credential_to_domain_fields [of cr c] token_read [OF _ _ _ ids, of _ r token]
        after_verification_def map_map [symmetric] exI [of _ "ad_events (se_db s) @ [e]"] del: map_map)
  done

section \<open>Session tokens\<close>

lemma session_presented:
  assumes "bindS (require_aware_time n at) (\<lambda>_. bindS (lift_result (hash_authentication_token (an_sha256 env) raw))
      (\<lambda>h. bindS (usable_session env stage h at) f)) s = (Inr x, s')"
  obtains r y where "session_found env stage (an_sha256 env (map of_char raw)) at (se_db s) r y"
    and "f y s = (Inr x, s')"
  using assms that by (auto elim!: bindS_InrE dest!: hash_length)

lemma resolve_session_found:
  assumes "resolve_session env raw at touch s = (Inr (x, u), s')"
  obtains r y ur where "session_found env ST_AUTHENTICATED (an_sha256 env (map of_char raw)) at (se_db s) r y"
    and "find (\<lambda>u. usrr_id u = sr_user_id r) (au_users (se_db s)) = Some ur" and "usrr_status ur = ''active''"
    and "usr_id u = sr_user_id r" and "length (an_sha256 env (map of_char raw)) = 32"
proof -
  have len: "length (an_sha256 env (map of_char raw)) = 32"
    using assms unfolding resolve_session_def by (auto elim!: bindS_InrE dest!: hash_length)
  from assms obtain r y where
    found: "session_found env ST_AUTHENTICATED (an_sha256 env (map of_char raw)) at (se_db s) r y"
    and rest: "bindS (load_active_user (ses_user_id y)) (\<lambda>active.
      case active of None \<Rightarrow> workflow_unavailable
      | Some user \<Rightarrow>
        if touch \<and> an_session_touch_interval env \<le> instant at - instant (ses_last_seen_at y) then
          bindS (update_last_seen (ses_id y) at) (\<lambda>_.
          bindS (lift_result (AuthenticationSession_post_init (y\<lparr>ses_last_seen_at := at\<rparr>))) (\<lambda>touched.
          bindS commit (\<lambda>_. returnS (touched, user))))
        else returnS (y, user)) s = (Inr (x, u), s')"
    unfolding resolve_session_def by (rule session_presented)
  have user: "ses_user_id y = sr_user_id r"
    using found session_to_domain_fields(2) by (simp add: session_found_def)
  from rest obtain v t where "load_active_user (ses_user_id y) s = (Inr (Some v), t)" and "v = u"
    by (elim bindS_InrE) (auto elim!: bindS_InrE split: option.splits if_splits)
  then obtain ur where "find (\<lambda>u. usrr_id u = sr_user_id r) (au_users (se_db s)) = Some ur"
    "user_to_domain ur = Inr u" "usr_status u = US_ACTIVE" using user by auto
  moreover from this have "usrr_status ur = ''active''" "usr_id u = sr_user_id r"
    by (auto simp: user_to_domain_def auth_enum_def find_Some_iff result_simps split: option.splits dest!: enum_of_SomeD)
  ultimately show thesis using that [OF found _ _ _ len] by blast
qed

definition live_session :: "auth_env \<Rightarrow> datetime \<Rightarrow> session_row \<Rightarrow> bool" where
  "live_session env at r \<longleftrightarrow>
     sr_stage r = ''authenticated'' \<and> sr_revoked_at r = None \<and> sr_created_at r \<le> at \<and> sr_last_seen_at r \<le> at \<and>
     at < sr_expires_at r \<and> at < dt_plus (sr_created_at r) (stp_authenticated_absolute (an_timeout_policy env)) \<and>
     at < dt_plus (sr_last_seen_at r) (stp_authenticated_idle (an_timeout_policy env))"

lemma session_decodes_aware:
  assumes "session_to_domain r = Inr y"
  shows "AuthenticationSession_post_init y = Inr y" "aware (sr_created_at r)" "aware (sr_last_seen_at r)"
  using assms session_to_domain_fields(7,8) [OF assms]
  by (auto simp: session_to_domain_def AuthenticationSession_post_init_def result_simps)

lemma session_found_iff:
  "session_found env ST_AUTHENTICATED h at db r y \<longleftrightarrow>
     aware at \<and> find (\<lambda>r. sr_token_hash r = h) (au_sessions db) = Some r \<and> session_to_domain r = Inr y \<and>
     live_session env at r"
proof (cases "session_to_domain r = Inr y")
  case True
  have "ses_stage y = ST_AUTHENTICATED \<longleftrightarrow> sr_stage r = ''authenticated''"
    using session_to_domain_fields(4) [OF True] by (cases "ses_stage y") auto
  then show ?thesis
    using session_decodes_aware [OF True] session_to_domain_fields [OF True]
    by (auto simp: session_found_def require_usable_session_Inr live_session_def)
qed (simp add: session_found_def)

lemma touched_session:
  assumes "AuthenticationSession_post_init y = Inr y" "ses_created_at y \<le> at" "at < ses_expires_at y" "aware at"
  shows "AuthenticationSession_post_init (y\<lparr>ses_last_seen_at := at\<rparr>) = Inr (y\<lparr>ses_last_seen_at := at\<rparr>)"
  using assms by (auto simp: AuthenticationSession_post_init_def result_simps)

lemma resolve_session_succeeds:
  assumes found: "session_found env ST_AUTHENTICATED (an_sha256 env (map of_char raw)) at (se_db s) r y"
    and len: "length (an_sha256 env (map of_char raw)) = 32"
    and user: "find (\<lambda>u. usrr_id u = sr_user_id r) (au_users (se_db s)) = Some ur" "usrr_status ur = ''active''"
  shows "\<exists>x s'. resolve_session env raw at touch s = (Inr x, s')"
proof -
  note y = found [unfolded session_found_iff]
  then have dom: "session_to_domain r = Inr y" and live: "live_session env at r" and aw: "aware at"
    and r: "r \<in> set (au_sessions (se_db s))" by (auto simp: find_Some_iff)
  have hash: "hash_authentication_token (an_sha256 env) raw = Inr (an_sha256 env (map of_char raw))"
    using len by (simp add: hash_authentication_token_def AuthenticationTokenHash_post_init_def)
  have usable: "usable_session env ST_AUTHENTICATED (an_sha256 env (map of_char raw)) at s = (Inr y, s)"
    using found by auto
  have active: "load_active_user (ses_user_id y) s = (Inr (Some \<lparr>usr_id = usrr_id ur, usr_status = US_ACTIVE\<rparr>), s)"
    using user session_to_domain_fields(2) [OF dom]
    by (simp add: user_to_domain_def auth_enum_def enum_of_def user_statuses_def)
  have touched: "AuthenticationSession_post_init (y\<lparr>ses_last_seen_at := at\<rparr>) = Inr (y\<lparr>ses_last_seen_at := at\<rparr>)"
    using touched_session session_decodes_aware(1) [OF dom] session_to_domain_fields [OF dom] live aw
    by (simp add: live_session_def)
  have seen: "update_last_seen (ses_id y) at s = (Inr (), s\<lparr>se_db := (se_db s)\<lparr>au_sessions :=
      map (\<lambda>x. if sr_id x = sr_id r then x\<lparr>sr_last_seen_at := at\<rparr> else x) (au_sessions (se_db s))\<rparr>\<rparr>)"
    using r session_to_domain_fields(1) [OF dom]
    by (auto simp: update_last_seen_def update_session_def modify_db_def)
  show ?thesis
    unfolding resolve_session_def require_aware_time_def
    by (simp add: bindS_def run_simps hash aw usable active seen touched)
qed
end
