(* ===== verification/Auth_Totp.thy ===== *)
theory Auth_Totp
  imports Auth_Workflows
begin

text \<open>
  The verifier of time-based one-time passwords (\<open>infrastructure/totp_mfa_verifier.py\<close>): the code of
  a time step, the comparison with the codes of the neighbouring steps, the encrypted secret of the
  enrolment, and the record of the last accepted step. HMAC-SHA-1 is a parameter.
\<close>

definition TOTP_TIMESTEP_SECONDS :: int where "TOTP_TIMESTEP_SECONDS = 30"

definition TOTP_DIGITS :: nat where "TOTP_DIGITS = 6"

definition TOTP_WINDOW_STEPS :: int where "TOTP_WINDOW_STEPS = 1"

record totp_env =
  tv_hmac_sha1 :: "bytes \<Rightarrow> bytes \<Rightarrow> bytes"
  tv_cryptography :: cryptography
  tv_uuid4 :: "nat \<Rightarrow> uuid"
  tv_service_actor_id :: uuid

text \<open>\<open>struct.pack(">Q", n)\<close>, which refuses what does not fit 64 bits.\<close>

definition pack_u64 :: "int \<Rightarrow> auth_error + bytes" where
  "pack_u64 n =
     (if n < 0 \<or> 2 ^ 64 \<le> n then Inl (Auth_DriverError ''argument out of range'')
      else Inr (map (\<lambda>k. word_of_int (n div 2 ^ (8 * k))) [7, 6, 5, 4, 3, 2, 1, 0]))"

text \<open>\<open>struct.unpack(">I", b)[0]\<close> of four bytes.\<close>

definition unpack_u32 :: "bytes \<Rightarrow> 32 word" where
  "unpack_u32 bs = foldl (\<lambda>acc b. acc * 256 + ucast b) 0 bs"

definition zfill :: "nat \<Rightarrow> string \<Rightarrow> string" where
  "zfill width s = replicate (width - length s) CHR ''0'' @ s"

definition truncated_digest :: "bytes \<Rightarrow> 32 word" where
  "truncated_digest digest =
     (let offset = unat (and (last digest) 0x0F) in
      and (unpack_u32 (take 4 (drop offset digest))) 0x7FFFFFFF)"

definition compute_totp :: "(bytes \<Rightarrow> bytes \<Rightarrow> bytes) \<Rightarrow> bytes \<Rightarrow> int \<Rightarrow> auth_error + string" where
  "compute_totp hmac_sha1 secret timestep =
     bindE (pack_u64 timestep) (\<lambda>counter.
     let code = unat (truncated_digest (hmac_sha1 secret counter)) mod 10 ^ TOTP_DIGITS in
     Inr (zfill TOTP_DIGITS (nat_str code)))"

text \<open>\<open>None\<close> where the source raises \<open>MfaVerificationRejectedError\<close>.\<close>

definition parse_totp_response :: "mfa_response \<Rightarrow> string option" where
  "parse_totp_response response =
     (case response of MR_Code raw_code \<Rightarrow> if strip raw_code \<noteq> [] then Some (strip raw_code) else None
      | MR_Other \<Rightarrow> None)"

text \<open>\<open>str.isdigit\<close> on code points below 256: the digits and three superscripts.\<close>

definition is_digit_char :: "char \<Rightarrow> bool" where
  "is_digit_char c \<longleftrightarrow> (let n = (of_char c :: nat) in (48 \<le> n \<and> n \<le> 57) \<or> n = 178 \<or> n = 179 \<or> n = 185)"

definition well_formed_code :: "string \<Rightarrow> bool" where
  "well_formed_code code \<longleftrightarrow> list_all is_digit_char code \<and> length code = TOTP_DIGITS"

text \<open>\<open>int(occurred_at.timestamp())\<close>: the seconds since the epoch, rounded towards zero.\<close>

definition whole_seconds :: "datetime \<Rightarrow> int" where
  "whole_seconds at = (if instant at < 0 then - (- instant at div 1000000) else instant at div 1000000)"

definition current_step :: "datetime \<Rightarrow> int" where
  "current_step at = whole_seconds at div TOTP_TIMESTEP_SECONDS"

definition candidate_steps :: "int \<Rightarrow> int list" where
  "candidate_steps step = map (\<lambda>offset. step + offset) [- TOTP_WINDOW_STEPS..TOTP_WINDOW_STEPS]"

fun match_step ::
    "(bytes \<Rightarrow> bytes \<Rightarrow> bytes) \<Rightarrow> bytes \<Rightarrow> string \<Rightarrow> int list \<Rightarrow> auth_error + int option" where
  "match_step hmac_sha1 secret code [] = Inr None"
| "match_step hmac_sha1 secret code (step # steps) =
     bindE (compute_totp hmac_sha1 secret step) (\<lambda>expected.
     if expected = code then Inr (Some step) else match_step hmac_sha1 secret code steps)"

definition replayed :: "int option \<Rightarrow> int \<Rightarrow> bool" where
  "replayed last_accepted step \<longleftrightarrow> (case last_accepted of None \<Rightarrow> False | Some l \<Rightarrow> step \<le> l)"

text \<open>
  \<open>load_and_decrypt\<close> of the content service, in the unit of work it opens itself. \<open>now\<close> is what the
  clock shows.
\<close>

definition load_secret :: "totp_env \<Rightarrow> totp_enrollment \<Rightarrow> datetime \<Rightarrow> bytes auth_comp" where
  "load_secret tenv enrollment now =
     bindS (draw (tv_uuid4 tenv)) (\<lambda>correlation_id.
     bindS (draw (tv_uuid4 tenv)) (\<lambda>audit_event_id.
     bindS (wrap_error Auth_ContentError (ensure (aware now) (Con_ValueError ''occurred_at must be timezone-aware''))) (\<lambda>_.
     bindS (nested (wrap_error Auth_ContentError
              (decrypt_in_session (tv_cryptography tenv) (te_secret_tenant_id enrollment)
                 (te_encrypted_secret_content_id enrollment) CP_MFA_TOTP_VERIFY now
                 \<lparr>ao_actor_type = AT_SERVICE, ao_actor_id = Some (tv_service_actor_id tenv),
                  ao_correlation_id = correlation_id\<rparr> audit_event_id))) (\<lambda>decrypted.
     returnS (dc_plaintext decrypted)))))"

definition verify_totp :: "totp_env \<Rightarrow> datetime \<Rightarrow> mfa_verifier" where
  "verify_totp tenv now user_id mfa_method response =
     (if mfa_method \<noteq> MFA_TOTP then returnS False
      else case parse_totp_response response of None \<Rightarrow> returnS False
      | Some submitted_code \<Rightarrow>
      if \<not> well_formed_code submitted_code then returnS False
      else
      bindS (enrollment_get_by_user_id user_id) (\<lambda>found.
      case found of None \<Rightarrow> returnS False
      | Some enrollment \<Rightarrow>
      bindS (load_secret tenv enrollment now) (\<lambda>secret.
      bindS (lift_result (match_step (tv_hmac_sha1 tenv) secret submitted_code
               (candidate_steps (current_step now)))) (\<lambda>matched_step.
      case matched_step of None \<Rightarrow> returnS False
      | Some step \<Rightarrow>
      if replayed (te_last_accepted_timestep enrollment) step then returnS False
      else
      bindS (update_last_accepted_timestep user_id step now) (\<lambda>_.
      bindS commit (\<lambda>_.
      returnS True))))))"

end
