(* ===== verification/Auth_Safety.thy ===== *)
theory Auth_Safety
  imports Auth_Outcomes Auth_Totp
begin

text \<open>
  The safety of authentication: the workflows as requests to a server, runs of requests, and what
  holds in every run, whatever the order of the requests and whoever sends them.
\<close>

section \<open>Requests\<close>

datatype auth_request =
    RQ_Register uuid uuid uuid string string datetime audit_context
  | RQ_RequestVerification string uuid datetime audit_context
  | RQ_ConfirmVerification string datetime audit_context
  | RQ_Login string string uuid datetime audit_context bool
  | RQ_CompleteMfa string uuid mfa_method mfa_response datetime audit_context
  | RQ_Resolve string datetime bool
  | RQ_Logout string datetime audit_context
  | RQ_LogoutAll uuid datetime audit_context
  | RQ_RequestReset string uuid datetime audit_context
  | RQ_ConfirmReset string string datetime audit_context
  | RQ_ChangePassword string string string uuid datetime audit_context

datatype auth_response =
    RS_Accepted
  | RS_Delivery "notification_delivery option"
  | RS_Session authentication_session string
  | RS_Resolved authentication_session user
  | RS_Count nat

fun request_time :: "auth_request \<Rightarrow> datetime" where
  "request_time (RQ_Register u c t email password at ctx) = at"
| "request_time (RQ_RequestVerification email t at ctx) = at"
| "request_time (RQ_ConfirmVerification raw at ctx) = at"
| "request_time (RQ_Login email password i at ctx mfa) = at"
| "request_time (RQ_CompleteMfa raw i m r at ctx) = at"
| "request_time (RQ_Resolve raw at touch) = at"
| "request_time (RQ_Logout raw at ctx) = at"
| "request_time (RQ_LogoutAll u at ctx) = at"
| "request_time (RQ_RequestReset email t at ctx) = at"
| "request_time (RQ_ConfirmReset raw password at ctx) = at"
| "request_time (RQ_ChangePassword raw current new i at ctx) = at"

type_synonym mfa_policy = "(auth_db \<Rightarrow> uuid \<Rightarrow> auth_error + bool) option"

definition map_answer :: "('a \<Rightarrow> 'b) \<Rightarrow> 'a auth_comp \<Rightarrow> 'b auth_comp" where
  "map_answer f m = bindS m (\<lambda>x. returnS (f x))"

fun serve :: "auth_env \<Rightarrow> mfa_policy \<Rightarrow> mfa_verifier \<Rightarrow> auth_request \<Rightarrow> auth_response auth_comp" where
  "serve env policy verify (RQ_Register u c t email password at ctx) =
     map_answer (RS_Delivery \<circ> snd) (register_user env u c t email password at ctx)"
| "serve env policy verify (RQ_RequestVerification email t at ctx) =
     map_answer RS_Delivery (request_email_verification env email t at ctx)"
| "serve env policy verify (RQ_ConfirmVerification raw at ctx) =
     map_answer (\<lambda>_. RS_Accepted) (confirm_email_verification env raw at ctx)"
| "serve env policy verify (RQ_Login email password i at ctx mfa) =
     map_answer (\<lambda>(s, raw). RS_Session s raw) (login_with_password env email password i at ctx mfa policy)"
| "serve env policy verify (RQ_CompleteMfa raw i m r at ctx) =
     map_answer (\<lambda>(s, raw). RS_Session s raw) (complete_mfa_login env verify raw i m r at ctx)"
| "serve env policy verify (RQ_Resolve raw at touch) =
     map_answer (\<lambda>(s, u). RS_Resolved s u) (resolve_session env raw at touch)"
| "serve env policy verify (RQ_Logout raw at ctx) =
     map_answer (\<lambda>_. RS_Accepted) (logout env raw at ctx)"
| "serve env policy verify (RQ_LogoutAll u at ctx) = map_answer RS_Count (logout_all_sessions env u at ctx)"
| "serve env policy verify (RQ_RequestReset email t at ctx) =
     map_answer RS_Delivery (request_password_reset env email t at ctx)"
| "serve env policy verify (RQ_ConfirmReset raw password at ctx) =
     map_answer (\<lambda>_. RS_Accepted) (confirm_password_reset env raw password at ctx)"
| "serve env policy verify (RQ_ChangePassword raw current new i at ctx) =
     map_answer (\<lambda>(s, raw). RS_Session s raw) (change_password env raw current new i at ctx)"

type_synonym auth_world = "auth_db world"

definition answer ::
    "auth_env \<Rightarrow> mfa_policy \<Rightarrow> mfa_verifier \<Rightarrow> auth_request \<Rightarrow> (auth_world, auth_error, auth_response) comp" where
  "answer env policy verify rq = transaction (serve env policy verify rq)"

text \<open>The requests of a run with their answers, and the world after it.\<close>

fun auth_run ::
    "auth_env \<Rightarrow> mfa_policy \<Rightarrow> mfa_verifier \<Rightarrow> auth_request list \<Rightarrow> auth_world \<Rightarrow>
     (auth_request \<times> (auth_error + auth_response)) list \<times> auth_world" where
  "auth_run env policy verify [] w = ([], w)"
| "auth_run env policy verify (rq # rqs) w =
     (let (r, w') = answer env policy verify rq w; (log, w'') = auth_run env policy verify rqs w'
      in ((rq, r) # log, w''))"

section \<open>Invariants of runs\<close>

text \<open>The second factor's verifier keeps its hands off the accounts.\<close>

definition leaves_accounts :: "mfa_verifier \<Rightarrow> bool" where
  "leaves_accounts verify \<longleftrightarrow> (\<forall>I u m r.
     (\<forall>db es ens. I db \<longrightarrow> I (db\<lparr>ad_events := es, au_enrollments := ens\<rparr>)) \<longrightarrow> keeps I (verify u m r))"

lemma map_answer_Inr [simp]:
  "map_answer f m s = (Inr y, s') \<longleftrightarrow> (\<exists>x. m s = (Inr x, s') \<and> y = f x)"
  by (auto simp: map_answer_def elim!: bindS_InrE intro!: bindS_apply(1) [THEN trans])

lemma yields_map_answer: "yields I m (\<lambda>x. R (f x)) \<Longrightarrow> yields I (map_answer f m) R"
  unfolding map_answer_def by (erule yields_bind) (rule yields_return)

lemma map_answer_transaction:
  "transaction (map_answer f m) w = (case transaction m w of (Inl e, w') \<Rightarrow> (Inl e, w') | (Inr x, w') \<Rightarrow> (Inr (f x), w'))"
  by (simp add: transaction_def map_answer_def bindS_def split: prod.splits sum.splits)

lemma keeps_map_answer: "keeps I m \<Longrightarrow> keeps I (map_answer f m)"
  by (rule yields_map_answer) simp

text \<open>The users that a response lets in.\<close>

fun admitted :: "(uuid \<Rightarrow> bool) \<Rightarrow> auth_response \<Rightarrow> bool" where
  "admitted may_enter (RS_Session s raw) \<longleftrightarrow> (ses_stage s = ST_AUTHENTICATED \<longrightarrow> may_enter (ses_user_id s))"
| "admitted may_enter (RS_Resolved s u) \<longleftrightarrow> may_enter (usr_id u)"
| "admitted may_enter _ \<longleftrightarrow> True"

lemma admitted_session:
  "(\<lambda>x. admitted may_enter (case x of (s, raw) \<Rightarrow> RS_Session s raw)) =
     (\<lambda>(s, raw). ses_stage s = ST_AUTHENTICATED \<longrightarrow> may_enter (ses_user_id s))"
  by auto

definition policy_admits :: "mfa_policy \<Rightarrow> (uuid \<Rightarrow> bool) \<Rightarrow> bool" where
  "policy_admits policy may_enter \<longleftrightarrow> (case policy of None \<Rightarrow> \<forall>u. may_enter u
     | Some p \<Rightarrow> \<forall>db u. p db u = Inr False \<longrightarrow> may_enter u)"

lemma policy_admits_all [simp]: "policy_admits policy (\<lambda>_. True)"
  by (simp add: policy_admits_def split: option.split)

context account_invariant
begin

lemma served:
  assumes "policy_admits policy may_enter" and "\<And>u m r. yields I (verify u m r) (\<lambda>ok. ok \<longrightarrow> may_enter u)"
    and "\<nexists>raw touch. rq = RQ_Resolve raw at touch" and "request_time rq = at"
  shows "yields I (serve env policy verify rq) (admitted may_enter)"
proof -
  have login: "case policy of None \<Rightarrow> mfa \<or> (\<forall>u. may_enter u)
      | Some p \<Rightarrow> \<forall>db u. p db u = Inr False \<longrightarrow> may_enter u" for mfa
    using assms(1) by (cases policy) (auto simp: policy_admits_def)
  show ?thesis
    using assms(3,4)
    by (cases rq)
      (simp_all add: yields_map_answer admitted_session keeps_register keeps_request keeps_confirm_email
        yields_login [OF login] yields_complete_mfa [OF assms(2)] keeps_logout keeps_logout_all keeps_confirm_reset
        yields_change_password request_email_verification_def request_password_reset_def)
qed

lemma answered:
  assumes "request_time rq = at" and "policy_admits policy may_enter"
    and "\<And>u m r. yields I (verify u m r) (\<lambda>ok. ok \<longrightarrow> may_enter u)"
    and "I (w_db w)" and run: "answer env policy verify rq w = (res, w')"
  shows "I (w_db w') \<and> (\<forall>x. res = Inr x \<longrightarrow> admitted may_enter x)"
proof (cases "\<exists>raw touch. rq = RQ_Resolve raw at touch")
  case True
  then obtain raw touch r where step: "transaction (resolve_session env raw at touch) w = (r, w')"
    and res: "res = (case r of Inl e \<Rightarrow> Inl e | Inr (s, u) \<Rightarrow> Inr (RS_Resolved s u))"
    using run by (auto simp: answer_def map_answer_transaction split: prod.splits sum.splits)
  have "admitted may_enter x" if "res = Inr x" for x
  proof -
    from res that obtain s u where r: "r = Inr (s, u)" and x: "x = RS_Resolved s u"
      by (auto split: sum.splits)
    from step [unfolded r] obtain s' where "resolve_session env raw at touch (open_session w) = (Inr (s, u), s')"
      by (rule commit_transaction)
    then obtain row y where
      found: "session_found env ST_AUTHENTICATED (an_sha256 env (map of_char raw)) at (w_db w) row y"
      and user: "usr_id u = sr_user_id row" by (rule resolve_session_found) simp
    then have "row \<in> set (au_sessions (w_db w))" "sr_stage row = ''authenticated''"
      by (auto simp: session_found_iff live_session_def find_Some_iff)
    then show ?thesis using entered [OF assms(4)] user x by simp
  qed
  then show ?thesis using resolve_stored [OF assms(4) step] by blast
next
  case False
  note served = served [OF assms(2,3) False assms(1)]
  from run obtain s' where step: "serve env policy verify rq (open_session w) = (res, s')"
    and w': "w_db w' = se_saved s'"
    by (auto simp: answer_def transaction_def split: prod.splits)
  have start: "session_inv I (open_session w)" using assms(4) by (simp add: session_inv_def)
  have "I (w_db w')" using yieldsD(1) [OF served start step] w' by (simp add: session_inv_def)
  moreover have "admitted may_enter x" if "res = Inr x" for x
    using step unfolding that by (rule yieldsD(2) [OF served start])
  ultimately show ?thesis by blast
qed

end

section \<open>Rows never come back to life\<close>

text \<open>Identities, token hashes and emails are unique, as the database demands.\<close>

definition accounts_ok :: "auth_db \<Rightarrow> bool" where
  "accounts_ok db \<longleftrightarrow>
     distinct (map usrr_id (au_users db)) \<and> distinct (map crr_id (au_credentials db)) \<and>
     distinct (map crr_email (au_credentials db)) \<and> distinct (map crr_user_id (au_credentials db)) \<and>
     distinct (map sr_id (au_sessions db)) \<and> distinct (map sr_token_hash (au_sessions db)) \<and>
     distinct (map otr_id (au_tokens db)) \<and> distinct (map otr_token_hash (au_tokens db))"

text \<open>
  What can become of a session and of a token: a session is seen and revoked, a token is consumed or
  revoked, and neither is undone.
\<close>

definition session_later :: "session_row \<Rightarrow> session_row \<Rightarrow> bool" where
  "session_later r r' \<longleftrightarrow>
     r'\<lparr>sr_last_seen_at := sr_last_seen_at r, sr_revoked_at := sr_revoked_at r\<rparr> = r \<and>
     (sr_revoked_at r \<noteq> None \<longrightarrow> sr_revoked_at r' = sr_revoked_at r)"

definition token_later :: "one_time_token_row \<Rightarrow> one_time_token_row \<Rightarrow> bool" where
  "token_later r r' \<longleftrightarrow>
     r'\<lparr>otr_consumed_at := otr_consumed_at r, otr_revoked_at := otr_revoked_at r\<rparr> = r \<and>
     (otr_consumed_at r \<noteq> None \<longrightarrow> otr_consumed_at r' = otr_consumed_at r) \<and>
     (otr_revoked_at r \<noteq> None \<longrightarrow> otr_revoked_at r' = otr_revoked_at r)"

definition all_later :: "('r \<Rightarrow> 'r \<Rightarrow> bool) \<Rightarrow> 'r list \<Rightarrow> 'r list \<Rightarrow> bool" where
  "all_later later rows rows' \<longleftrightarrow> (\<forall>r\<in>set rows. \<exists>r'\<in>set rows'. later r r')"

definition grown :: "auth_db \<Rightarrow> auth_db \<Rightarrow> bool" where
  "grown db0 db \<longleftrightarrow> accounts_ok db \<and> all_later session_later (au_sessions db0) (au_sessions db) \<and>
     all_later token_later (au_tokens db0) (au_tokens db)"

lemma later_refl [simp]: "session_later r r" "token_later t t"
  by (simp_all add: session_later_def token_later_def)

lemma session_later_trans: "session_later a b \<Longrightarrow> session_later b c \<Longrightarrow> session_later a c"
  unfolding session_later_def by (cases a; cases b; cases c) auto

lemma token_later_trans: "token_later a b \<Longrightarrow> token_later b c \<Longrightarrow> token_later a c"
  unfolding token_later_def by (cases a; cases b; cases c) auto

lemma all_later_append: "all_later later rows0 rows \<Longrightarrow> all_later later rows0 (rows @ new)"
  unfolding all_later_def by auto

lemma all_later_map:
  assumes "all_later later rows0 rows" and "\<And>a b c. later a b \<Longrightarrow> later b c \<Longrightarrow> later a c" and "\<And>r. later r (f r)"
  shows "all_later later rows0 (map f rows)"
  using assms unfolding all_later_def by (metis (no_types, lifting) image_eqI list.set_map)

lemma revoke_row_fields [simp]:
  "sr_id (revoke_row at r) = sr_id r" "sr_user_id (revoke_row at r) = sr_user_id r"
  "sr_token_hash (revoke_row at r) = sr_token_hash r" "sr_stage (revoke_row at r) = sr_stage r"
  "sr_assurance_level (revoke_row at r) = sr_assurance_level r" "sr_revoked_at (revoke_row at r) \<noteq> None"
  "sr_mfa_completed (revoke_row at r) = sr_mfa_completed r" "sr_created_at (revoke_row at r) = sr_created_at r"
  "sr_last_seen_at (revoke_row at r) = sr_last_seen_at r" "sr_expires_at (revoke_row at r) = sr_expires_at r"
  by (simp_all add: revoke_row_def)

lemma seen_keys [simp]:
  "sr_id (if c then r\<lparr>sr_last_seen_at := at\<rparr> else r) = sr_id r"
  "sr_token_hash (if c then r\<lparr>sr_last_seen_at := at\<rparr> else r) = sr_token_hash r"
  "crr_id (if b then k\<lparr>crr_email_verified_at := v\<rparr> else k) = crr_id k"
  "crr_email (if b then k\<lparr>crr_email_verified_at := v\<rparr> else k) = crr_email k"
  "crr_user_id (if b then k\<lparr>crr_email_verified_at := v\<rparr> else k) = crr_user_id k"
  "crr_id (if b then k\<lparr>crr_password_hash := p\<rparr> else k) = crr_id k"
  "crr_email (if b then k\<lparr>crr_password_hash := p\<rparr> else k) = crr_email k"
  "crr_user_id (if b then k\<lparr>crr_password_hash := p\<rparr> else k) = crr_user_id k"
  "otr_id (if d then t\<lparr>otr_revoked_at := v\<rparr> else t) = otr_id t"
  "otr_token_hash (if d then t\<lparr>otr_revoked_at := v\<rparr> else t) = otr_token_hash t"
  "otr_id (if d then t\<lparr>otr_consumed_at := v\<rparr> else t) = otr_id t"
  "otr_token_hash (if d then t\<lparr>otr_consumed_at := v\<rparr> else t) = otr_token_hash t"
  by simp_all

lemma revoke_later: "session_later r (if P r then revoke_row at r else r)"
  by (simp add: session_later_def revoke_row_def)

lemma seen_later: "session_later r (if P r then r\<lparr>sr_last_seen_at := at\<rparr> else r)"
  by (simp add: session_later_def)

lemma token_revoked_later:
  "token_later r (if Q r \<and> otr_revoked_at r = None \<and> otr_consumed_at r = None then r\<lparr>otr_revoked_at := Some at\<rparr> else r)"
  by (simp add: token_later_def)

lemma token_consumed_later:
  "token_later r (if P r \<and> token_usable at r then r\<lparr>otr_consumed_at := Some at\<rparr> else r)"
  by (simp add: token_later_def token_usable_def)

lemma later_maps:
  "all_later session_later rows0 rows \<Longrightarrow> (\<And>r. session_later r (f r)) \<Longrightarrow> all_later session_later rows0 (map f rows)"
  "all_later token_later ts0 ts \<Longrightarrow> (\<And>t. token_later t (g t)) \<Longrightarrow> all_later token_later ts0 (map g ts)"
  using all_later_map [of session_later rows0 rows f] session_later_trans apply blast
  using all_later_map [of token_later ts0 ts g] token_later_trans apply blast
  done

lemma map_if_keys: "(\<And>r. key (f r) = key r) \<Longrightarrow> map (\<lambda>r. key (if P r then f r else r)) rows = map key rows"
  by simp

interpretation growth: account_invariant "grown db0" env at "\<lambda>_. True" for db0 env at
proof
  fix db :: auth_db assume I: "grown db0 db"
  show "grown db0 (db\<lparr>ad_events := es\<rparr>)" for es using I by (simp add: grown_def accounts_ok_def)
  show "grown db0 (db\<lparr>au_users := au_users db @ [user_to_row \<lparr>usr_id = i, usr_status = US_ACTIVE\<rparr>]\<rparr>)"
    if "i \<notin> set (map usrr_id (au_users db))" for i
    using I that by (simp add: grown_def accounts_ok_def user_to_row_def)
  show "grown db0 (db\<lparr>au_credentials := au_credentials db @ [credential_to_row c]\<rparr>)"
    if "cred_id c \<notin> set (map crr_id (au_credentials db))" "cred_email c \<notin> set (map crr_email (au_credentials db))"
      "cred_user_id c \<notin> set (map crr_user_id (au_credentials db))" for c
    using I that by (simp add: grown_def accounts_ok_def credential_to_row_def)
  show "grown db0 (db\<lparr>au_sessions := au_sessions db @ [session_to_row s]\<rparr>)"
    if "ses_id s \<notin> set (map sr_id (au_sessions db))" "ses_token_hash s \<notin> set (map sr_token_hash (au_sessions db))" for s
    using I that by (simp add: grown_def accounts_ok_def session_to_row_def all_later_append)
  show "grown db0 (db\<lparr>au_tokens := au_tokens db @ [one_time_token_to_row t]\<rparr>)"
    if "ott_id t \<notin> set (map otr_id (au_tokens db))" "ott_token_hash t \<notin> set (map otr_token_hash (au_tokens db))" for t
    using I that by (simp add: grown_def accounts_ok_def one_time_token_to_row_def all_later_append)
  show "grown db0 (db\<lparr>au_sessions := map (\<lambda>r. if P r then revoke_row at r else r) (au_sessions db)\<rparr>)" for P
    using I by (auto simp: grown_def accounts_ok_def map_if_keys comp_def intro!: later_maps(1) revoke_later)
  show "grown db0 (db\<lparr>au_sessions := map (\<lambda>x. if sr_id x = sr_id r then x\<lparr>sr_last_seen_at := at\<rparr> else x) (au_sessions db)\<rparr>)" for r :: session_row
    using I by (auto simp: grown_def accounts_ok_def map_if_keys comp_def intro!: later_maps(1) seen_later)
  show "grown db0 (db\<lparr>au_tokens := map (\<lambda>r. if Q r \<and> otr_revoked_at r = None \<and> otr_consumed_at r = None
      then r\<lparr>otr_revoked_at := Some at\<rparr> else r) (au_tokens db)\<rparr>)" for Q
    using I by (auto simp: grown_def accounts_ok_def map_if_keys comp_def intro!: later_maps(2) token_revoked_later)
  show "grown db0 (db\<lparr>au_tokens := map (\<lambda>r. if otr_id r = i \<and> token_usable at r
      then r\<lparr>otr_consumed_at := Some at\<rparr> else r) (au_tokens db)\<rparr>)" for i
    using I by (auto simp: grown_def accounts_ok_def map_if_keys comp_def intro!: later_maps(2) token_consumed_later)
  show "grown db0 (db\<lparr>au_credentials := map (\<lambda>r. if crr_id r = i then r\<lparr>crr_email_verified_at := Some at\<rparr> else r)
      (au_credentials db)\<rparr>)" for i
    using I by (simp add: grown_def accounts_ok_def map_if_keys comp_def)
  show "grown db0 (db\<lparr>au_credentials := map (\<lambda>r. if crr_id r = i then r\<lparr>crr_password_hash := h\<rparr> else r)
      (au_credentials db)\<rparr>)" for i h
    using I by (simp add: grown_def accounts_ok_def map_if_keys comp_def)
qed simp_all

text \<open>What an invariant says about runs, and about each request of one.\<close>

lemma auth_run_keeps:
  assumes "\<And>at. account_invariant I env at may_enter" and "policy_admits policy may_enter"
    and "\<And>u m r. yields I (verify u m r) (\<lambda>ok. ok \<longrightarrow> may_enter u)"
    and "I (w_db w)" and "auth_run env policy verify rqs w = (log, w')"
  shows "I (w_db w')" and "(rq, res) \<in> set log \<Longrightarrow>
    \<exists>w1 w2. I (w_db w1) \<and> answer env policy verify rq w1 = (res, w2) \<and> rq \<in> set rqs \<and>
      (\<forall>x. res = Inr x \<longrightarrow> admitted may_enter x)"
proof -
  have "I (w_db w') \<and> (\<forall>(rq, res)\<in>set log. \<exists>w1 w2. I (w_db w1) \<and>
      answer env policy verify rq w1 = (res, w2) \<and> rq \<in> set rqs \<and>
      (\<forall>x. res = Inr x \<longrightarrow> admitted may_enter x))"
    using assms(4,5)
  proof (induction rqs arbitrary: w log)
    case (Cons rq rqs)
    obtain r w1 log1 where step: "answer env policy verify rq w = (r, w1)"
      and rest: "auth_run env policy verify rqs w1 = (log1, w')" and log: "log = (rq, r) # log1"
      using Cons.prems(2) by (auto split: prod.splits)
    note answered = account_invariant.answered [OF assms(1) refl assms(2,3) Cons.prems(1) step]
    then have "I (w_db w1)" by blast
    from Cons.IH [OF this rest] answered show ?case using Cons.prems(1) step log by (force simp del: split_paired_All)
  qed simp
  then show "I (w_db w')" and "(rq, res) \<in> set log \<Longrightarrow>
    \<exists>w1 w2. I (w_db w1) \<and> answer env policy verify rq w1 = (res, w2) \<and> rq \<in> set rqs \<and>
      (\<forall>x. res = Inr x \<longrightarrow> admitted may_enter x)" by auto
qed

lemma grown_verified: "leaves_accounts verify \<Longrightarrow> yields (grown db0) (verify u m r) (\<lambda>ok. ok \<longrightarrow> True)"
  unfolding leaves_accounts_def by (simp add: grown_def accounts_ok_def)

lemma all_later_refl [simp]: "all_later session_later rows rows" "all_later token_later ts ts"
  unfolding all_later_def by (meson later_refl)+

lemma grown_refl: "accounts_ok db \<Longrightarrow> grown db db"
  by (simp add: grown_def)

lemma answer_grown:
  assumes "accounts_ok (w_db w)" and "leaves_accounts verify" and "answer env policy verify rq w = (res, w')"
  shows "grown (w_db w) (w_db w')"
  using growth.answered [OF refl policy_admits_all grown_verified [OF assms(2)] grown_refl [OF assms(1)] assms(3)]
  by blast

section \<open>A one-time token works once\<close>

fun redeems :: "auth_request \<Rightarrow> string option" where
  "redeems (RQ_ConfirmVerification raw at ctx) = Some raw"
| "redeems (RQ_ConfirmReset raw password at ctx) = Some raw"
| "redeems _ = None"

definition redeemed :: "string \<Rightarrow> auth_request \<times> (auth_error + auth_response) \<Rightarrow> bool" where
  "redeemed raw entry \<longleftrightarrow> redeems (fst entry) = Some raw \<and> is_ok (snd entry)"

definition spent :: "bytes \<Rightarrow> auth_db \<Rightarrow> bool" where
  "spent h db \<longleftrightarrow> (\<exists>r\<in>set (au_tokens db). otr_token_hash r = h \<and> otr_consumed_at r \<noteq> None)"

lemma spent_grown: "spent h db \<Longrightarrow> grown db db' \<Longrightarrow> spent h db'"
  unfolding spent_def grown_def all_later_def token_later_def
  by (metis one_time_token_row.select_convs(4) one_time_token_row.surjective one_time_token_row.update_convs(7,8))

lemma redeemed_row_spends:
  assumes "redeemed_row p h at db r" and "distinct (map otr_token_hash (au_tokens db))"
  shows "\<not> spent h db"
    and "spent h (db\<lparr>au_tokens := map (retire_row u q at) (map (consume_row (otr_id r) at) (au_tokens db))\<rparr>)"
proof -
  have r: "r \<in> set (au_tokens db)" "otr_token_hash r = h" "token_usable at r"
    using assms(1) by (simp_all add: redeemed_row_def)
  show "\<not> spent h db"
    unfolding spent_def using r assms(2) by (metis distinct_map inj_onD token_usable_def)
  have "otr_token_hash (retire_row u q at (consume_row (otr_id r) at r)) = h \<and>
      otr_consumed_at (retire_row u q at (consume_row (otr_id r) at r)) \<noteq> None"
    using r by (simp add: consume_row_def retire_row_def)
  then show "spent h (db\<lparr>au_tokens := map (retire_row u q at) (map (consume_row (otr_id r) at) (au_tokens db))\<rparr>)"
    unfolding spent_def using r(1) by force
qed

lemma answer_redeems:
  assumes "answer env policy verify rq w = (Inr x, w')" and "redeems rq = Some raw" and ok: "accounts_ok (w_db w)"
  shows "\<not> spent (an_sha256 env (map of_char raw)) (w_db w) \<and> spent (an_sha256 env (map of_char raw)) (w_db w')"
proof -
  obtain s' where run: "serve env policy verify rq (open_session w) = (Inr x, s')" and w': "w_db w' = se_saved s'"
    using assms(1) unfolding answer_def by (rule commit_transaction)
  have ids: "distinct (map otr_id (au_tokens (se_db (open_session w))))"
    and hs: "distinct (map otr_token_hash (au_tokens (w_db w)))" using ok by (simp_all add: accounts_ok_def)
  have spends: "spent h (db\<lparr>au_tokens := ts\<rparr>) \<Longrightarrow> au_tokens db' = ts \<Longrightarrow> spent h db'" for h db ts and db' :: auth_db
    by (simp add: spent_def)
  consider at ctx where "rq = RQ_ConfirmVerification raw at ctx"
    | password at ctx where "rq = RQ_ConfirmReset raw password at ctx"
    using assms(2) by (cases rq) auto
  then show ?thesis
  proof cases
    case 1
    then obtain y where "confirm_email_verification env raw at ctx (open_session w) = (Inr y, s')" using run by auto
    from confirm_email_run [OF this ids] show ?thesis
      using redeemed_row_spends [OF _ hs] w' by (fastforce simp: after_verification_def spent_def)
  next
    case 2
    then obtain y where "confirm_password_reset env raw password at ctx (open_session w) = (Inr y, s')" using run by auto
    from confirm_reset_run [OF this ids] show ?thesis
      using redeemed_row_spends [OF _ hs] w' by (fastforce simp: after_reset_def spent_def)
  qed
qed

lemma run_redeems:
  assumes "leaves_accounts verify" and "accounts_ok (w_db w)"
    and "auth_run env policy verify rqs w = (log, w')"
  shows "length (filter (redeemed raw) log) \<le> (if spent (an_sha256 env (map of_char raw)) (w_db w) then 0 else 1)"
  using assms(2,3)
proof (induction rqs arbitrary: w log)
  case (Cons rq rqs)
  let ?h = "an_sha256 env (map of_char raw)"
  obtain r w1 log1 where step: "answer env policy verify rq w = (r, w1)"
    and rest: "auth_run env policy verify rqs w1 = (log1, w')" and log: "log = (rq, r) # log1"
    using Cons.prems(2) by (auto split: prod.splits)
  have grown: "grown (w_db w) (w_db w1)" by (rule answer_grown [OF Cons.prems(1) assms(1) step])
  then have ok: "accounts_ok (w_db w1)" by (simp add: grown_def)
  note later = Cons.IH [OF ok rest]
  show ?case
  proof (cases "redeemed raw (rq, r)")
    case True
    then obtain x where "r = Inr x" "redeems rq = Some raw" by (auto simp: redeemed_def is_ok_iff)
    with answer_redeems [of env policy verify rq w x w1 raw] step Cons.prems(1)
    have "\<not> spent ?h (w_db w)" "spent ?h (w_db w1)" by auto
    then show ?thesis using later True log by simp
  next
    case False
    then show ?thesis using later log spent_grown [OF _ grown] by (auto split: if_splits)
  qed
qed simp

section \<open>A reset of the password ends the sessions\<close>

text \<open>The requests that present the token of a session and need the session to be usable.\<close>

fun presents :: "auth_request \<Rightarrow> string option" where
  "presents (RQ_CompleteMfa raw i m r at ctx) = Some raw"
| "presents (RQ_Resolve raw at touch) = Some raw"
| "presents (RQ_ChangePassword raw current new i at ctx) = Some raw"
| "presents _ = None"

lemma answer_presents:
  assumes "answer env policy verify rq w = (Inr x, w')" and "presents rq = Some raw"
  obtains r stage y where "session_found env stage (an_sha256 env (map of_char raw)) (request_time rq) (w_db w) r y"
proof -
  obtain s' where run: "serve env policy verify rq (open_session w) = (Inr x, s')"
    using assms(1) unfolding answer_def by (rule commit_transaction)
  consider i m r at ctx where "rq = RQ_CompleteMfa raw i m r at ctx"
    | at touch where "rq = RQ_Resolve raw at touch"
    | current new i at ctx where "rq = RQ_ChangePassword raw current new i at ctx"
    using assms(2) by (cases rq) auto
  then show thesis
  proof cases
    case 1
    then obtain y where "complete_mfa_login env verify raw i m r at ctx (open_session w) = (Inr y, s')" using run by auto
    then show thesis unfolding complete_mfa_login_def by (rule session_presented) (rule that, simp add: 1)
  next
    case 2
    then obtain y where "resolve_session env raw at touch (open_session w) = (Inr y, s')" using run by auto
    then show thesis unfolding resolve_session_def by (rule session_presented) (rule that, simp add: 2)
  next
    case 3
    then obtain y where "change_password env raw current new i at ctx (open_session w) = (Inr y, s')" using run by auto
    then show thesis unfolding change_password_def by (rule session_presented) (rule that, simp add: 3)
  qed
qed

text \<open>A session is over when its row is revoked.\<close>

definition over :: "bytes \<Rightarrow> auth_db \<Rightarrow> bool" where
  "over h db \<longleftrightarrow> (\<exists>r\<in>set (au_sessions db). sr_token_hash r = h \<and> sr_revoked_at r \<noteq> None)"

lemma session_later_keys:
  "session_later r r' \<Longrightarrow> sr_token_hash r' = sr_token_hash r \<and> sr_user_id r' = sr_user_id r \<and>
     (sr_revoked_at r \<noteq> None \<longrightarrow> sr_revoked_at r' \<noteq> None)"
  unfolding session_later_def by (cases r; cases r') auto

lemma over_grown: "over h db \<Longrightarrow> grown db db' \<Longrightarrow> over h db'"
  unfolding over_def grown_def all_later_def using session_later_keys by metis

lemma over_refused:
  assumes "over (an_sha256 env (map of_char raw)) (w_db w)" and "accounts_ok (w_db w)"
    and "presents rq = Some raw"
  shows "\<not> is_ok (fst (answer env policy verify rq w))"
proof
  assume "is_ok (fst (answer env policy verify rq w))"
  then obtain x w' where "answer env policy verify rq w = (Inr x, w')" by (metis is_ok_iff prod.collapse)
  from answer_presents [OF this assms(3)] obtain r stage y
    where found: "session_found env stage (an_sha256 env (map of_char raw)) (request_time rq) (w_db w) r y" .
  then have r: "r \<in> set (au_sessions (w_db w))" "sr_token_hash r = an_sha256 env (map of_char raw)"
    by (auto simp: session_found_def find_Some_iff)
  have "sr_revoked_at r = None"
    using found session_to_domain_fields(10) [of r y] by (auto simp: session_found_def require_usable_session_Inr)
  moreover obtain r' where "r' \<in> set (au_sessions (w_db w))" "sr_token_hash r' = an_sha256 env (map of_char raw)"
    "sr_revoked_at r' \<noteq> None" using assms(1) by (auto simp: over_def)
  ultimately show False using r assms(2) unfolding accounts_ok_def by (metis distinct_map inj_onD)
qed

lemma reset_ends:
  assumes "answer env policy verify (RQ_ConfirmReset raw password at ctx) w = (Inr x, w')" and ok: "accounts_ok (w_db w)"
    and t: "t \<in> set (au_tokens (w_db w))" "otr_token_hash t = an_sha256 env (map of_char raw)"
    and r: "r \<in> set (au_sessions (w_db w))" "sr_user_id r = otr_user_id t"
  shows "over (sr_token_hash r) (w_db w')"
proof -
  obtain s' where "serve env policy verify (RQ_ConfirmReset raw password at ctx) (open_session w) = (Inr x, s')"
    and w': "w_db w' = se_saved s'"
    using assms(1) unfolding answer_def by (rule commit_transaction)
  then obtain y where "confirm_password_reset env raw password at ctx (open_session w) = (Inr y, s')" by auto
  moreover have "distinct (map otr_id (au_tokens (se_db (open_session w))))" using ok by (simp add: accounts_ok_def)
  ultimately obtain t' c h events where
    row: "redeemed_row TP_PASSWORD_RESET (an_sha256 env (map of_char raw)) at (w_db w) t'"
    and db: "w_db w' = (after_reset t' c h at (w_db w))\<lparr>ad_events := events\<rparr>"
    using confirm_reset_run [of env raw password at ctx "open_session w" y s'] w' by auto
  have "t' = t" using row t ok unfolding redeemed_row_def accounts_ok_def by (metis distinct_map inj_onD)
  then have "end_row (otr_user_id t) at r \<in> set (au_sessions (w_db w'))"
    using db r by (simp add: after_reset_def)
  then show ?thesis unfolding over_def
    by (rule bexI [rotated]) (simp add: end_row_def r(2))
qed

lemma run_over:
  assumes "leaves_accounts verify" and "accounts_ok (w_db w)" and "over (an_sha256 env (map of_char raw)) (w_db w)"
    and "auth_run env policy verify rqs w = (log, w')" and "(rq, res) \<in> set log" and "presents rq = Some raw"
  shows "\<not> is_ok res"
  using assms(2-5)
proof (induction rqs arbitrary: w log)
  case (Cons rq1 rqs)
  obtain r w1 log1 where step: "answer env policy verify rq1 w = (r, w1)"
    and rest: "auth_run env policy verify rqs w1 = (log1, w')" and log: "log = (rq1, r) # log1"
    using Cons.prems(3) by (auto split: prod.splits)
  have grown: "grown (w_db w) (w_db w1)" by (rule answer_grown [OF Cons.prems(1) assms(1) step])
  show ?case
  proof (cases "(rq, res) = (rq1, r)")
    case True
    then show ?thesis using over_refused [OF Cons.prems(2,1) assms(6), of policy verify] step by simp
  next
    case False
    then have "(rq, res) \<in> set log1" using Cons.prems(4) log by auto
    moreover have "accounts_ok (w_db w1)" using grown by (simp add: grown_def)
    ultimately show ?thesis using Cons.IH [OF _ over_grown [OF Cons.prems(2) grown] rest] by blast
  qed
qed simp

section \<open>The second factor\<close>

definition locked_out :: "uuid \<Rightarrow> auth_db \<Rightarrow> bool" where
  "locked_out u db \<longleftrightarrow> (\<forall>r\<in>set (au_sessions db). sr_stage r = ''authenticated'' \<longrightarrow> sr_user_id r \<noteq> u)"

interpretation lockout: account_invariant "locked_out u" env at "\<lambda>v. v \<noteq> u" for u env at
proof
  fix db :: auth_db assume I: "locked_out u db"
  show "locked_out u (db\<lparr>au_sessions := au_sessions db @ [session_to_row s]\<rparr>)"
    if "ses_stage s = ST_AUTHENTICATED \<longrightarrow> ses_user_id s \<noteq> u" for s
    using I that by (cases "ses_stage s") (auto simp: locked_out_def session_to_row_def)
  show "locked_out u (db\<lparr>au_sessions := map (\<lambda>r. if P r then revoke_row at r else r) (au_sessions db)\<rparr>)" for P
    using I by (auto simp: locked_out_def)
  show "locked_out u (db\<lparr>au_sessions := map (\<lambda>x. if sr_id x = sr_id r then x\<lparr>sr_last_seen_at := at\<rparr> else x) (au_sessions db)\<rparr>)"
    for r :: session_row
    using I by (auto simp: locked_out_def)
qed (auto simp: locked_out_def)

end
