(* ===== verification/Auth_Typing.thy ===== *)
theory Auth_Typing
  imports Auth_Safety
begin

text \<open>
  The typing of the stored accounts: every row is the image of a value that satisfies its checks, so
  that no read of a row fails in the mapper. Requests keep this when the clock does not go back.
\<close>

section \<open>Rows that decode\<close>

definition accounts_typed :: "datetime \<Rightarrow> auth_db \<Rightarrow> bool" where
  "accounts_typed now db \<longleftrightarrow>
     (\<forall>r\<in>set (au_users db). is_ok (user_to_domain r)) \<and>
     (\<forall>r\<in>set (au_credentials db). is_ok (credential_to_domain r) \<and> crr_created_at r \<le> now) \<and>
     (\<forall>r\<in>set (au_sessions db). is_ok (session_to_domain r) \<and> sr_created_at r \<le> now) \<and>
     (\<forall>r\<in>set (au_tokens db). is_ok (one_time_token_to_domain r) \<and> otr_created_at r \<le> now)"

lemma accounts_typed_later: "accounts_typed now db \<Longrightarrow> now \<le> now' \<Longrightarrow> accounts_typed now' db"
  unfolding accounts_typed_def by (meson order.trans)

lemma auth_enum_value [simp]:
  "auth_enum user_status_value user_statuses (user_status_value a) = Inr a"
  "auth_enum session_stage_value session_stages (session_stage_value b) = Inr b"
  "auth_enum assurance_value assurance_levels (assurance_value c) = Inr c"
  "auth_enum token_purpose_value token_purposes (token_purpose_value d) = Inr d"
     apply (cases a; simp add: auth_enum_def enum_of_def user_statuses_def)
    apply (cases b; simp add: auth_enum_def enum_of_def session_stages_def)
   apply (cases c; simp add: auth_enum_def enum_of_def assurance_levels_def)
  apply (cases d; simp add: auth_enum_def enum_of_def token_purposes_def)
  done

lemma rows_round_trip:
  "user_to_domain (user_to_row u) = Inr u"
  "AuthenticationEmail_post_init (cred_email c) = Inr (cred_email c) \<Longrightarrow>
   PasswordHash_post_init (cred_password_hash c) = Inr (cred_password_hash c) \<Longrightarrow>
   EmailPasswordCredential_post_init c = Inr c \<Longrightarrow> credential_to_domain (credential_to_row c) = Inr c"
  "length (ses_token_hash s) = 32 \<Longrightarrow> AuthenticationSession_post_init s = Inr s \<Longrightarrow>
   session_to_domain (session_to_row s) = Inr s"
  "length (ott_token_hash t) = 32 \<Longrightarrow> AuthenticationOneTimeToken_post_init t = Inr t \<Longrightarrow>
   one_time_token_to_domain (one_time_token_to_row t) = Inr t"
     apply (cases u; simp add: user_to_domain_def user_to_row_def)
    apply (cases c; simp add: credential_to_domain_def credential_to_row_def)
   apply (cases s; simp add: session_to_domain_def session_to_row_def AuthenticationTokenHash_post_init_def)
  apply (cases t; simp add: one_time_token_to_domain_def one_time_token_to_row_def AuthenticationTokenHash_post_init_def)
  done

lemma decodes_added:
  "fresh_credential at c \<Longrightarrow> aware at \<Longrightarrow> is_ok (credential_to_domain (credential_to_row c))"
  "fresh_session env at s \<Longrightarrow> is_ok (session_to_domain (session_to_row s))"
  "fresh_token at t \<Longrightarrow> is_ok (one_time_token_to_domain (one_time_token_to_row t))"
  by (simp_all add: rows_round_trip fresh_credential_def fresh_session_def fresh_token_def
      EmailPasswordCredential_post_init_def require_aware_def)

lemma added_created:
  "crr_created_at (credential_to_row c) = cred_created_at c" "sr_created_at (session_to_row s) = ses_created_at s"
  "otr_created_at (one_time_token_to_row t) = ott_created_at t"
  by (simp_all add: credential_to_row_def session_to_row_def one_time_token_to_row_def)

lemma decodes_session_update:
  assumes "is_ok (session_to_domain r)" and "sr_created_at r \<le> at" and "aware at"
  shows "is_ok (session_to_domain (revoke_row at r))"
    and "at < sr_expires_at r \<Longrightarrow> is_ok (session_to_domain (r\<lparr>sr_last_seen_at := at\<rparr>))"
proof -
  obtain y where dom: "session_to_domain r = Inr y" using assms(1) by (auto simp: is_ok_iff)
  have "session_to_domain (r\<lparr>sr_revoked_at := Some at\<rparr>) = Inr (y\<lparr>ses_revoked_at := Some at\<rparr>)"
    using dom assms(2,3) unfolding session_to_domain_def
    by (auto simp: result_simps AuthenticationSession_post_init_def)
  then show "is_ok (session_to_domain (revoke_row at r))" using assms(1) by (simp add: revoke_row_def)
  show "is_ok (session_to_domain (r\<lparr>sr_last_seen_at := at\<rparr>))" if "at < sr_expires_at r"
  proof -
    have "session_to_domain (r\<lparr>sr_last_seen_at := at\<rparr>) = Inr (y\<lparr>ses_last_seen_at := at\<rparr>)"
      using dom assms(2,3) that unfolding session_to_domain_def
      by (auto simp: result_simps AuthenticationSession_post_init_def)
    then show ?thesis by simp
  qed
qed

lemma decodes_token_update:
  assumes "is_ok (one_time_token_to_domain r)" and "otr_created_at r \<le> at" and "aware at"
  shows "is_ok (one_time_token_to_domain (r\<lparr>otr_revoked_at := Some at\<rparr>))"
    and "token_usable at r \<Longrightarrow> is_ok (one_time_token_to_domain (r\<lparr>otr_consumed_at := Some at\<rparr>))"
proof -
  obtain y where dom: "one_time_token_to_domain r = Inr y" using assms(1) by (auto simp: is_ok_iff)
  have "one_time_token_to_domain (r\<lparr>otr_revoked_at := Some at\<rparr>) = Inr (y\<lparr>ott_revoked_at := Some at\<rparr>)"
    using dom assms(2,3) unfolding one_time_token_to_domain_def
    by (auto simp: result_simps AuthenticationOneTimeToken_post_init_def)
  then show "is_ok (one_time_token_to_domain (r\<lparr>otr_revoked_at := Some at\<rparr>))" by simp
  show "is_ok (one_time_token_to_domain (r\<lparr>otr_consumed_at := Some at\<rparr>))" if "token_usable at r"
  proof -
    have "one_time_token_to_domain (r\<lparr>otr_consumed_at := Some at\<rparr>) = Inr (y\<lparr>ott_consumed_at := Some at\<rparr>)"
      using dom assms(2,3) that unfolding one_time_token_to_domain_def token_usable_def
      by (auto simp: result_simps AuthenticationOneTimeToken_post_init_def)
    then show ?thesis by simp
  qed
qed

lemma decodes_credential_update:
  assumes "is_ok (credential_to_domain r)" and "crr_created_at r \<le> at" and "aware at"
  shows "is_ok (credential_to_domain (r\<lparr>crr_email_verified_at := Some at\<rparr>))"
    and "PasswordHash_post_init h = Inr h \<Longrightarrow> is_ok (credential_to_domain (r\<lparr>crr_password_hash := h\<rparr>))"
proof -
  obtain y where dom: "credential_to_domain r = Inr y" using assms(1) by (auto simp: is_ok_iff)
  have "credential_to_domain (r\<lparr>crr_email_verified_at := Some at\<rparr>) = Inr (y\<lparr>cred_email_verified_at := Some at\<rparr>)"
    using dom assms(2,3) unfolding credential_to_domain_def
    by (auto simp: result_simps EmailPasswordCredential_post_init_def)
  then show "is_ok (credential_to_domain (r\<lparr>crr_email_verified_at := Some at\<rparr>))" by simp
  show "is_ok (credential_to_domain (r\<lparr>crr_password_hash := h\<rparr>))" if "PasswordHash_post_init h = Inr h"
  proof -
    have "credential_to_domain (r\<lparr>crr_password_hash := h\<rparr>) = Inr (y\<lparr>cred_password_hash := h\<rparr>)"
      using dom that unfolding credential_to_domain_def
      by (auto simp: result_simps EmailPasswordCredential_post_init_def)
    then show ?thesis by simp
  qed
qed

section \<open>The workflows keep rows decodable\<close>

definition accounts_sound :: "datetime \<Rightarrow> auth_db \<Rightarrow> bool" where
  "accounts_sound now db \<longleftrightarrow> aware now \<and> accounts_ok db \<and> accounts_typed now db"

lemma ids_unique: "distinct (map key rows) \<Longrightarrow> x \<in> set rows \<Longrightarrow> r \<in> set rows \<Longrightarrow> key x = key r \<Longrightarrow> x = r"
  by (metis distinct_map inj_onD)

interpretation typing: account_invariant "accounts_sound at" env at "\<lambda>_. True" for env at
proof
  fix db :: auth_db assume I: "accounts_sound at db"
  then have ok: "grown db db" and aw: "aware at" and ty: "accounts_typed at db"
    by (simp_all add: accounts_sound_def grown_refl)
  have sound: "accounts_sound at db'" if "grown db db'" "accounts_typed at db'" for db'
    using that aw by (simp add: accounts_sound_def grown_def)
  show "accounts_sound at (db\<lparr>ad_events := es\<rparr>)" for es
    by (rule sound [OF growth.event_recorded [OF ok]]) (use ty in \<open>simp add: accounts_typed_def\<close>)
  show "accounts_sound at (db\<lparr>au_users := au_users db @ [user_to_row \<lparr>usr_id = i, usr_status = US_ACTIVE\<rparr>]\<rparr>)"
    if "i \<notin> set (map usrr_id (au_users db))" for i
    by (rule sound [OF growth.user_added [OF ok that]]) (use ty in \<open>simp add: accounts_typed_def rows_round_trip\<close>)
  show "accounts_sound at (db\<lparr>au_credentials := au_credentials db @ [credential_to_row c]\<rparr>)"
    if "fresh_credential at c" "cred_id c \<notin> set (map crr_id (au_credentials db))"
      "cred_email c \<notin> set (map crr_email (au_credentials db))" "cred_user_id c \<notin> set (map crr_user_id (au_credentials db))" for c
    by (rule sound [OF growth.credential_added [OF ok that]])
      (use ty that(1) decodes_added(1) [OF that(1) aw] in \<open>auto simp: accounts_typed_def fresh_credential_def added_created\<close>)
  show "accounts_sound at (db\<lparr>au_sessions := au_sessions db @ [session_to_row s]\<rparr>)"
    if "fresh_session env at s" "ses_id s \<notin> set (map sr_id (au_sessions db))"
      "ses_token_hash s \<notin> set (map sr_token_hash (au_sessions db))" for s
    by (rule sound [OF growth.session_added [OF ok that(1) _ that(2,3)]])
      (use ty that(1) decodes_added(2) [OF that(1)] in \<open>auto simp: accounts_typed_def fresh_session_def added_created\<close>)
  show "accounts_sound at (db\<lparr>au_tokens := au_tokens db @ [one_time_token_to_row t]\<rparr>)"
    if "fresh_token at t" "ott_id t \<notin> set (map otr_id (au_tokens db))"
      "ott_token_hash t \<notin> set (map otr_token_hash (au_tokens db))" for t
    by (rule sound [OF growth.token_added [OF ok that]])
      (use ty that(1) decodes_added(3) [OF that(1)] in \<open>auto simp: accounts_typed_def fresh_token_def added_created\<close>)
  show "accounts_sound at (db\<lparr>au_sessions := map (\<lambda>r. if P r then revoke_row at r else r) (au_sessions db)\<rparr>)" for P
    by (rule sound [OF growth.sessions_revoked [OF ok]])
      (use ty aw in \<open>auto simp: accounts_typed_def decodes_session_update\<close>)
  show "accounts_sound at (db\<lparr>au_sessions := map (\<lambda>x. if sr_id x = sr_id r then x\<lparr>sr_last_seen_at := at\<rparr> else x) (au_sessions db)\<rparr>)"
    if "r \<in> set (au_sessions db)" "sr_created_at r \<le> at" "at < sr_expires_at r" for r
  proof (rule sound [OF growth.session_seen [OF ok that]])
    have "is_ok (session_to_domain (x\<lparr>sr_last_seen_at := at\<rparr>))" if x: "x \<in> set (au_sessions db)" "sr_id x = sr_id r" for x
    proof -
      have "x = r" using ids_unique [OF _ x(1) \<open>r \<in> _\<close> x(2)] ok by (simp add: grown_def accounts_ok_def)
      then show ?thesis using ty aw \<open>r \<in> _\<close> \<open>at < _\<close> by (auto simp: accounts_typed_def intro: decodes_session_update(2))
    qed
    then show "accounts_typed at (db\<lparr>au_sessions := map (\<lambda>x. if sr_id x = sr_id r then x\<lparr>sr_last_seen_at := at\<rparr> else x) (au_sessions db)\<rparr>)"
      using ty by (auto simp: accounts_typed_def)
  qed
  show "accounts_sound at (db\<lparr>au_tokens := map (\<lambda>r. if Q r \<and> otr_revoked_at r = None \<and> otr_consumed_at r = None
      then r\<lparr>otr_revoked_at := Some at\<rparr> else r) (au_tokens db)\<rparr>)" for Q
    by (rule sound [OF growth.tokens_revoked [OF ok]])
      (use ty aw in \<open>auto simp: accounts_typed_def decodes_token_update\<close>)
  show "accounts_sound at (db\<lparr>au_tokens := map (\<lambda>r. if otr_id r = i \<and> token_usable at r
      then r\<lparr>otr_consumed_at := Some at\<rparr> else r) (au_tokens db)\<rparr>)" for i
    by (rule sound [OF growth.token_consumed [OF ok]])
      (use ty aw in \<open>auto simp: accounts_typed_def decodes_token_update\<close>)
  show "accounts_sound at (db\<lparr>au_credentials := map (\<lambda>r. if crr_id r = i then r\<lparr>crr_email_verified_at := Some at\<rparr> else r)
      (au_credentials db)\<rparr>)" for i
    by (rule sound [OF growth.credential_verified [OF ok]])
      (use ty aw in \<open>auto simp: accounts_typed_def decodes_credential_update\<close>)
  show "accounts_sound at (db\<lparr>au_credentials := map (\<lambda>r. if crr_id r = i then r\<lparr>crr_password_hash := h\<rparr> else r)
      (au_credentials db)\<rparr>)" if "PasswordHash_post_init h = Inr h" for i h
    by (rule sound [OF growth.password_replaced [OF ok that]])
      (use ty aw that in \<open>auto simp: accounts_typed_def decodes_credential_update\<close>)
qed simp_all

lemma sound_verified:
  "leaves_accounts verify \<Longrightarrow> yields (accounts_sound at) (verify u m r) (\<lambda>ok. ok \<longrightarrow> True)"
  unfolding leaves_accounts_def by (simp add: accounts_sound_def accounts_ok_def accounts_typed_def)

lemma run_sound:
  assumes "leaves_accounts verify" and "\<forall>rq\<in>set rqs. aware (request_time rq)"
    and "sorted (now # map request_time rqs)" and "accounts_sound now (w_db w)"
    and "auth_run env policy verify rqs w = (log, w')"
  shows "accounts_sound (last (now # map request_time rqs)) (w_db w')"
  using assms(2-5)
proof (induction rqs arbitrary: w log now)
  case (Cons rq rqs)
  obtain r w1 log1 where step: "answer env policy verify rq w = (r, w1)"
    and rest: "auth_run env policy verify rqs w1 = (log1, w')"
    using Cons.prems(4) by (auto split: prod.splits)
  have "accounts_sound (request_time rq) (w_db w)"
    using Cons.prems(1-3) accounts_typed_later by (auto simp: accounts_sound_def)
  from typing.answered [OF refl policy_admits_all sound_verified [OF assms(1)] this step]
  have "accounts_sound (request_time rq) (w_db w1)" by blast
  with Cons.IH [OF _ _ this rest] show ?case using Cons.prems(1,2) by simp
qed simp

end
