(* ===== verification/Auth_Totp_Laws.thy ===== *)
theory Auth_Totp_Laws
  imports Auth_Safety Content_Laws
begin

text \<open>
  The verifier of time-based codes: what an accepted response proves, that it leaves the accounts
  alone, and that no time step is accepted twice.
\<close>

section \<open>What the verifier leaves alone\<close>

lemma keeps_decrypt:
  assumes "\<And>db es. I db \<Longrightarrow> I (db\<lparr>ad_events := es\<rparr>)"
  shows "keeps I (decrypt_in_session cy t c p at origin i :: (auth_db, content_error, decrypted_content) session_comp)"
  unfolding decrypt_in_session_def content_get_by_id_def content_audit_def append_required_audit_event_def raise_unavailable_def
  by (intro keeps_bind yields_tenant_scoped_get keeps_basic yields_cases yields_try [OF keeps_basic(4)])
    (auto intro!: keeps_bind keeps_basic keeps_modify assms split: option.split sum.split content_error.split if_splits
      simp: row_to_content_def)

lemma verify_totp_leaves_accounts: "leaves_accounts (verify_totp tenv now)"
  unfolding leaves_accounts_def
proof (intro allI impI)
  fix I :: "auth_db \<Rightarrow> bool" and u m r
  assume "\<forall>db es ens. I db \<longrightarrow> I (db\<lparr>ad_events := es, au_enrollments := ens\<rparr>)"
  then have I: "I db \<Longrightarrow> I (db\<lparr>ad_events := es, au_enrollments := ens\<rparr>)" for db es ens by blast
  have events: "I db \<Longrightarrow> I (db\<lparr>ad_events := es\<rparr>)" for db es using I [where db = db and es = es and ens = "au_enrollments db"] by simp
  have enrolments: "I db \<Longrightarrow> I (db\<lparr>au_enrollments := ens\<rparr>)" for db ens using I [where db = db and es = "ad_events db" and ens = ens] by simp
  have update: "keeps I (update_last_accepted_timestep u step now)" for step
    unfolding update_last_accepted_timestep_def
    by (rule keeps_modify) (auto simp: result_simps intro: enrolments)
  have load: "keeps I (load_secret tenv e now)" for e
    unfolding load_secret_def
    by (intro keeps_bind keeps_basic yields_wrap keeps_nested keeps_decrypt events)
  show "keeps I (verify_totp tenv now u m r)"
    unfolding verify_totp_def enrollment_get_by_user_id_def
    by (intro keeps_bind keeps_basic yields_cases load update)
qed

section \<open>What an accepted code proves\<close>

definition last_step :: "uuid \<Rightarrow> auth_db \<Rightarrow> int option" where
  "last_step u db = (case find (\<lambda>e. te_user_id e = u) (au_enrollments db) of
     None \<Rightarrow> None | Some e \<Rightarrow> te_last_accepted_timestep e)"

lemma match_step_Inr:
  "match_step hm secret code steps = Inr (Some k) \<Longrightarrow> k \<in> set steps \<and> compute_totp hm secret k = Inr code"
  by (induction steps) (auto simp: result_simps split: if_splits)

lemma nested_Inr:
  assumes "nested m s = (Inr x, s')"
  obtains t where "m \<lparr>se_db = se_saved s, se_saved = se_saved s, se_draws = se_draws s\<rparr> = (Inr x, t)"
    and "s' = \<lparr>se_db = se_saved t, se_saved = se_saved t, se_draws = se_draws t\<rparr>"
  using assms that by (auto simp: nested_def split: prod.splits)

lemma nested_any:
  assumes "nested m s = (r, s')"
  obtains t where "m \<lparr>se_db = se_saved s, se_saved = se_saved s, se_draws = se_draws s\<rparr> = (r, t)"
    and "s' = \<lparr>se_db = se_saved t, se_saved = se_saved t, se_draws = se_draws t\<rparr>"
  using assms that by (auto simp: nested_def split: prod.splits)

lemma load_secret_enrolments:
  assumes "load_secret tenv e now s = (r, s')" and "se_db s = se_saved s"
  shows "au_enrollments (se_db s') = au_enrollments (se_db s)" and "se_saved s' = se_db s'"
proof -
  have "keeps (\<lambda>db. au_enrollments db = au_enrollments (se_db s)) (load_secret tenv e now)"
    unfolding load_secret_def by (intro keeps_bind keeps_basic yields_wrap keeps_nested keeps_decrypt) simp
  from yieldsD(1) [OF this _ assms(1)] show "au_enrollments (se_db s') = au_enrollments (se_db s)"
    using assms(2) by (simp add: session_inv_def)
  show "se_saved s' = se_db s'"
    using assms unfolding load_secret_def
    by (auto simp: bindS_def draw_def wrap_error_def ensure_def nested_def split: prod.splits sum.splits if_splits)
qed

text \<open>A response that the verifier accepts.\<close>

definition accepts :: "totp_env \<Rightarrow> datetime \<Rightarrow> uuid \<Rightarrow> mfa_method \<Rightarrow> mfa_response \<Rightarrow> bytes \<Rightarrow> int \<Rightarrow> bool" where
  "accepts tenv now u meth response secret step \<longleftrightarrow>
     meth = MFA_TOTP \<and> (\<exists>code. parse_totp_response response = Some code \<and> length code = TOTP_DIGITS \<and>
       compute_totp (tv_hmac_sha1 tenv) secret step = Inr code) \<and> \<bar>step - current_step now\<bar> \<le> TOTP_WINDOW_STEPS"

lemma verify_totp_True:
  assumes "verify_totp tenv now u meth response s = (Inr True, s')" and "se_db s = se_saved s"
  obtains e secret step db where "find (\<lambda>e. te_user_id e = u) (au_enrollments (se_db s)) = Some e"
    and "accepts tenv now u meth response secret step" and "\<not> replayed (te_last_accepted_timestep e) step"
    and "\<exists>t. load_secret tenv e now s = (Inr secret, t)"
    and "au_enrollments (se_saved s') = map (\<lambda>e. if te_user_id e = u
      then e\<lparr>te_last_accepted_timestep := Some step, te_updated_at := now\<rparr> else e) (au_enrollments (se_db s))"
proof -
  from assms(1) obtain code where meth: "meth = MFA_TOTP" and code: "parse_totp_response response = Some code"
    and wf: "well_formed_code code"
    by (auto simp: verify_totp_def split: if_splits option.splits)
  from assms(1) obtain e secret t step where e: "find (\<lambda>e. te_user_id e = u) (au_enrollments (se_db s)) = Some e"
    and load: "load_secret tenv e now s = (Inr secret, t)"
    and match: "match_step (tv_hmac_sha1 tenv) secret code (candidate_steps (current_step now)) = Inr (Some step)"
    and fresh: "\<not> replayed (te_last_accepted_timestep e) step"
    and upd: "au_enrollments (se_saved s') = map (\<lambda>e. if te_user_id e = u
      then e\<lparr>te_last_accepted_timestep := Some step, te_updated_at := now\<rparr> else e) (au_enrollments (se_db t))"
    by (auto simp: verify_totp_def meth code wf enrollment_get_by_user_id_def update_last_accepted_timestep_def
        result_simps elim!: bindS_InrE split: option.splits if_splits)
  note enrol = load_secret_enrolments [OF load assms(2)]
  have "accepts tenv now u meth response secret step"
    using match_step_Inr [OF match] meth code wf
    by (auto simp: accepts_def candidate_steps_def TOTP_WINDOW_STEPS_def well_formed_code_def)
  then show thesis using that e fresh load upd enrol(1) by auto
qed

section \<open>Every time step at most once\<close>

type_synonym totp_attempt = "datetime \<times> uuid \<times> mfa_method \<times> mfa_response"

definition attempt_totp :: "totp_env \<Rightarrow> totp_attempt \<Rightarrow> (auth_world, auth_error, bool) comp" where
  "attempt_totp tenv = (\<lambda>(now, u, meth, response). transaction (verify_totp tenv now u meth response))"

text \<open>The attempts of a run: the user, the verdict and the step recorded after it.\<close>

fun totp_run :: "totp_env \<Rightarrow> totp_attempt list \<Rightarrow> auth_world \<Rightarrow>
    (uuid \<times> (auth_error + bool) \<times> int option) list \<times> auth_world" where
  "totp_run tenv [] w = ([], w)"
| "totp_run tenv (a # as) w =
     (let (r, w') = attempt_totp tenv a w; (log, w'') = totp_run tenv as w'
      in ((fst (snd a), r, last_step (fst (snd a)) (w_db w')) # log, w''))"

definition accepted_steps :: "uuid \<Rightarrow> (uuid \<times> (auth_error + bool) \<times> int option) list \<Rightarrow> int list" where
  "accepted_steps u log = List.map_filter (\<lambda>(v, r, step). if v = u \<and> r = Inr True then step else None) log"

lemma find_SomeD: "find P xs = Some x \<Longrightarrow> P x"
  by (induction xs) (auto split: if_splits)

lemma last_step_map:
  assumes "find (\<lambda>e. te_user_id e = v) ens = Some e" and "au_enrollments db = ens"
    and "au_enrollments db' = map (\<lambda>e. if te_user_id e = v then e\<lparr>te_last_accepted_timestep := Some k, te_updated_at := t\<rparr> else e) ens"
  shows "last_step u db' = (if u = v then Some k else last_step u db)"
proof -
  let ?f = "\<lambda>e. if te_user_id e = v then e\<lparr>te_last_accepted_timestep := Some k, te_updated_at := t\<rparr> else e"
  have "find (\<lambda>e. te_user_id e = u) (map ?f ens) = map_option ?f (find (\<lambda>e. te_user_id e = u) ens)"
    by (rule find_map_same) simp
  then show ?thesis
    using assms find_SomeD [of _ ens] by (cases "find (\<lambda>e. te_user_id e = u) ens") (auto simp: last_step_def)
qed

lemma verify_totp_rejects:
  assumes "verify_totp tenv now u meth response s = (r, s')" and "r \<noteq> Inr True" and same: "se_db s = se_saved s"
  shows "au_enrollments (se_saved s') = au_enrollments (se_saved s)"
proof (cases "find (\<lambda>e. te_user_id e = u) (au_enrollments (se_db s))")
  case None
  then show ?thesis using assms(1)
    by (auto simp: verify_totp_def enrollment_get_by_user_id_def bindS_def query_def split: option.splits if_splits)
next
  case (Some e)
  obtain q t where load: "load_secret tenv e now s = (q, t)" by fastforce
  note enrol = load_secret_enrolments [OF load same]
  show ?thesis using assms(1,2) Some load enrol same
    by (auto simp: verify_totp_def enrollment_get_by_user_id_def bindS_def query_def lift_result_def commit_def
        update_last_accepted_timestep_def modify_db_def raise_if_def bindE_def
        split: option.splits if_splits sum.splits)
qed

lemma attempt_step:
  assumes "attempt_totp tenv (now, v, meth, response) w = (r, w')"
  shows "r \<noteq> Inr True \<or> u \<noteq> v \<Longrightarrow> last_step u (w_db w') = last_step u (w_db w)"
    and "r = Inr True \<Longrightarrow> \<exists>k. last_step v (w_db w') = Some k \<and> (\<forall>l. last_step v (w_db w) = Some l \<longrightarrow> l < k)"
proof -
  obtain s' where run: "verify_totp tenv now v meth response (open_session w) = (r, s')" and w': "w_db w' = se_saved s'"
    using assms by (auto simp: attempt_totp_def transaction_def split: prod.splits)
  have rejected: "last_step u (w_db w') = last_step u (w_db w)" if "r \<noteq> Inr True" for u
    using verify_totp_rejects [OF run that] w' by (simp add: last_step_def)
  have accepted: "last_step u (w_db w') = (if u = v then Some k else last_step u (w_db w)) \<and>
      \<not> replayed (last_step v (w_db w)) k" if "r = Inr True"
      "find (\<lambda>e. te_user_id e = v) (au_enrollments (w_db w)) = Some e" "\<not> replayed (te_last_accepted_timestep e) k"
      "au_enrollments (w_db w') = map (\<lambda>e. if te_user_id e = v
        then e\<lparr>te_last_accepted_timestep := Some k, te_updated_at := now\<rparr> else e) (au_enrollments (w_db w))" for u e k
    using last_step_map [OF that(2) refl that(4)] that(2,3) by (simp add: last_step_def)
  have step: "\<exists>k. (\<forall>u. last_step u (w_db w') = (if u = v then Some k else last_step u (w_db w))) \<and>
      \<not> replayed (last_step v (w_db w)) k" if r: "r = Inr True"
    by (rule verify_totp_True [OF run [unfolded r]]) (use accepted [OF r] w' in auto)
  show "r \<noteq> Inr True \<or> u \<noteq> v \<Longrightarrow> last_step u (w_db w') = last_step u (w_db w)"
    using rejected step by (cases "r = Inr True") auto
  show "r = Inr True \<Longrightarrow> \<exists>k. last_step v (w_db w') = Some k \<and> (\<forall>l. last_step v (w_db w) = Some l \<longrightarrow> l < k)"
    using step by (auto simp: replayed_def)
qed

lemma totp_run_increases:
  assumes "totp_run tenv as w = (log, w')"
  shows "sorted_wrt (<) (accepted_steps u log) \<and>
    (\<forall>k\<in>set (accepted_steps u log). \<forall>l. last_step u (w_db w) = Some l \<longrightarrow> l < k)"
  using assms
proof (induction as arbitrary: w log)
  case (Cons a as)
  obtain now v meth response where a: "a = (now, v, meth, response)" by (cases a)
  obtain r w1 log1 where step: "attempt_totp tenv a w = (r, w1)" and rest: "totp_run tenv as w1 = (log1, w')"
    and log: "log = (v, r, last_step v (w_db w1)) # log1"
    using Cons.prems by (auto simp: a split: prod.splits)
  note later = Cons.IH [OF rest]
  show ?case
  proof (cases "v = u \<and> r = Inr True")
    case True
    with attempt_step(2) [OF step [unfolded a]] obtain k where "last_step u (w_db w1) = Some k"
      "\<forall>l. last_step u (w_db w) = Some l \<longrightarrow> l < k" by auto
    then show ?thesis using later True log by (force simp: accepted_steps_def map_filter_simps)
  next
    case False
    then have "last_step u (w_db w1) = last_step u (w_db w)" using attempt_step(1) [OF step [unfolded a], of u] by blast
    then show ?thesis using later False log by (auto simp: accepted_steps_def map_filter_simps)
  qed
qed (simp add: accepted_steps_def map_filter_simps)

end
