(* ===== verification/Auth_Tokens.thy ===== *)
theory Auth_Tokens
  imports Auth_Domain
begin

text \<open>
  The laws of raw tokens: decoding undoes the encoding, and the texts that the check of a raw token
  accepts are the encodings of 32 bytes.
\<close>

text \<open>The alphabet of Base64 as a table, to evaluate the encoding of a token.\<close>

definition b64_alphabet :: string where
  "b64_alphabet = ''ABCDEFGHIJKLMNOPQRSTUVWXYZabcdefghijklmnopqrstuvwxyz0123456789-_''"

lemma b64_table: "list_all (\<lambda>n. b64_char n = b64_alphabet ! n) [0..<64]"
  by code_simp

lemma b64_char_code [code]: "b64_char n = (if n < 64 then b64_alphabet ! n else CHR ''_'')"
  using b64_table by (auto simp: list_all_iff b64_char_def)

lemma b64_value_char [simp]:
  assumes "n < 64"
  shows "b64_value (b64_char n) = Some n"
proof -
  consider "n < 26" | "26 \<le> n" "n < 52" | "52 \<le> n" "n < 62" | "n = 62" | "n = 63" using assms by linarith
  then show ?thesis by cases (simp_all add: b64_char_def b64_value_def Let_def, linarith)
qed

lemma b64_value_less: "b64_value c = Some n \<Longrightarrow> n < 64"
  by (auto simp: b64_value_def Let_def split: if_splits)

lemma b64_digits:
  "a < 256 \<Longrightarrow> a div 4 < (64::nat)" "a mod 4 * 16 < (64::nat)" "b < 256 \<Longrightarrow> a mod 4 * 16 + b div 16 < (64::nat)"
  "b mod 16 * 4 < (64::nat)" "c < 256 \<Longrightarrow> b mod 16 * 4 + c div 64 < (64::nat)" "c mod 64 < (64::nat)"
proof -
  show "a mod 4 * 16 < (64::nat)" "b mod 16 * 4 < (64::nat)" "c mod 64 < (64::nat)" for a b c :: nat
    using mod_less_divisor [of 4 a] mod_less_divisor [of 16 b] by simp_all
  show "a < 256 \<Longrightarrow> a div 4 < (64::nat)" for a :: nat by simp
  show "b < 256 \<Longrightarrow> a mod 4 * 16 + b div 16 < (64::nat)" for a b :: nat
    using mod_less_divisor [of 4 a] by (simp add: less_mult_imp_div_less)
  show "c < 256 \<Longrightarrow> b mod 16 * 4 + c div 64 < (64::nat)" for b c :: nat
    using mod_less_divisor [of 16 b] by linarith
qed

lemma small: "n < 256 \<Longrightarrow> n div 16 < (16::nat)" "n < 256 \<Longrightarrow> n div 64 < (4::nat)"
  by linarith+

lemma decode_encode:
  "list_all (\<lambda>b. b < 256) bs \<Longrightarrow> b64decode_digits (map (the \<circ> b64_value) (urlsafe_b64encode bs)) = Some bs"
proof (induction bs rule: urlsafe_b64encode.induct)
  case (2 a)
  then have "a div 4 * 4 + a mod 4 * 16 div 16 = a" "a div 4 < 64" "a mod 4 * 16 < 64" by (auto simp: b64_digits)
  then show ?case by simp
next
  case (3 a b)
  then have d: "a div 4 < 64" "a mod 4 * 16 + b div 16 < 64" "b mod 16 * 4 < 64" by (auto simp: b64_digits)
  have "a div 4 * 4 + (a mod 4 * 16 + b div 16) div 16 = a"
    "(a mod 4 * 16 + b div 16) mod 16 * 16 + b mod 16 * 4 div 4 = b"
    using 3 small [of b] by simp_all
  then show ?case using d by simp
next
  case (4 a b c rest)
  then have d: "a div 4 < 64" "a mod 4 * 16 + b div 16 < 64" "b mod 16 * 4 + c div 64 < 64" "c mod 64 < 64"
    by (auto simp: b64_digits)
  have "a div 4 * 4 + (a mod 4 * 16 + b div 16) div 16 = a"
    "(a mod 4 * 16 + b div 16) mod 16 * 16 + (b mod 16 * 4 + c div 64) div 4 = b"
    "(b mod 16 * 4 + c div 64) mod 4 * 64 + c mod 64 = c"
    using 4 small [of b] small [of c] by simp_all
  then show ?case using 4 d by simp
qed simp

lemma encode_alphabet: "list_all (\<lambda>b. b < 256) bs \<Longrightarrow> list_all in_urlsafe_alphabet (urlsafe_b64encode bs)"
  by (induction bs rule: urlsafe_b64encode.induct) (auto simp: in_urlsafe_alphabet_def b64_digits)

lemma encode_length: "length (urlsafe_b64encode bs) = (length bs * 4 + 2) div 3"
  by (induction bs rule: urlsafe_b64encode.induct) auto

lemma decode_bytes:
  "list_all (\<lambda>d. d < 64) ds \<Longrightarrow> b64decode_digits ds = Some bs \<Longrightarrow> list_all (\<lambda>b. b < 256) bs"
proof (induction ds arbitrary: bs rule: b64decode_digits.induct)
  case (5 p q r s rest)
  then obtain cs where cs: "b64decode_digits rest = Some cs"
    and bs: "bs = [p * 4 + q div 16, q mod 16 * 16 + r div 4, r mod 4 * 64 + s] @ cs" by auto
  have "q div 16 < 4" "r div 4 < 16" "q mod 16 < 16" "r mod 4 < 4" using 5(2) by auto
  then have "p * 4 + q div 16 < 256" "q mod 16 * 16 + r div 4 < 256" "r mod 4 * 64 + s < 256" using 5(2) by auto
  then show ?case using 5(1,2) cs bs by simp
next
  case (3 p q)
  then have "q div 16 < 4" "p < 64" by auto
  then show ?case using 3 by auto
next
  case (4 p q r)
  then have "q div 16 < 4" "r div 4 < 16" "q mod 16 < 16" "p < 64" by auto
  then show ?case using 4 by auto
qed auto

lemma raw_token_iff:
  "RawAuthenticationToken_post_init t = Inr x \<longleftrightarrow>
     x = t \<and> (\<exists>bs :: bytes. length bs = 32 \<and> t = urlsafe_b64encode (map unat bs))"
proof
  assume checked: "RawAuthenticationToken_post_init t = Inr x"
  then obtain ds where x: "x = t" and ab: "list_all in_urlsafe_alphabet t"
    and ds: "b64decode_digits (map (the \<circ> b64_value) t) = Some ds" "length ds = 32" "urlsafe_b64encode ds = t"
    by (auto simp: RawAuthenticationToken_post_init_def TOKEN_ENTROPY_BYTES_def list_all_iff list_ex_iff
        split: if_splits option.splits)
  have "list_all (\<lambda>d. d < 64) (map (the \<circ> b64_value) t)"
    using ab b64_value_less by (fastforce simp: list_all_iff in_urlsafe_alphabet_def)
  from decode_bytes [OF this ds(1)] have "map unat (map (word_of_nat :: nat \<Rightarrow> 8 word) ds) = ds"
    by (auto simp: list_all_iff unat_of_nat take_bit_nat_eq_self_iff intro!: map_idI)
  then show "x = t \<and> (\<exists>bs :: bytes. length bs = 32 \<and> t = urlsafe_b64encode (map unat bs))"
    using x ds(2,3) by (intro conjI exI [of _ "map word_of_nat ds"]) auto
next
  assume "x = t \<and> (\<exists>bs :: bytes. length bs = 32 \<and> t = urlsafe_b64encode (map unat bs))"
  then obtain bs :: bytes where x: "x = t" and len: "length bs = 32" and t: "t = urlsafe_b64encode (map unat bs)" by blast
  have "unat b < 256" for b :: "8 word" using unsigned_less [of b] by simp
  then have small: "list_all (\<lambda>b. b < 256) (map unat bs)" by (simp add: list_all_iff)
  show "RawAuthenticationToken_post_init t = Inr x"
    using encode_alphabet [OF small] decode_encode [OF small] encode_length [of "map unat bs"] len x
    by (simp add: RawAuthenticationToken_post_init_def TOKEN_ENTROPY_BYTES_def ENCODED_TOKEN_LENGTH_def t
        list_all_iff list_ex_iff)
qed

lemma encode_inj:
  assumes "urlsafe_b64encode (map unat (as :: bytes)) = urlsafe_b64encode (map unat bs)"
  shows "as = bs"
proof -
  have small: "list_all (\<lambda>b. b < 256) (map unat (cs :: bytes))" for cs
  proof -
    have "unat b < 256" for b :: "8 word" using unsigned_less [of b] by simp
    then show ?thesis by (simp add: list_all_iff)
  qed
  have "Some (map unat as) = b64decode_digits (map (the \<circ> b64_value) (urlsafe_b64encode (map unat as)))"
    by (rule decode_encode [OF small, symmetric])
  also have "\<dots> = Some (map unat bs)"
    unfolding assms by (rule decode_encode [OF small])
  finally have "map unat as = map unat bs" by (simp only: option.inject)
  moreover have "inj (unat :: 8 word \<Rightarrow> nat)" by (rule injI) (simp add: unsigned_word_eqI)
  ultimately show ?thesis by (simp only: inj_map_eq_map)
qed

end
