(* ===== verification/Auth_Sample.thy ===== *)
theory Auth_Sample
  imports Auth_Safety Auth_Tokens
begin

text \<open>
  An example for the properties of authentication: two random tokens, a digest that cuts a text
  to 32 bytes, a user with a verified email, an authenticated session and a reset token.
\<close>

definition sample_digest :: "bytes \<Rightarrow> bytes" where
  "sample_digest bs = take 32 (bs @ replicate 32 0)"

definition sample_auth_env :: auth_env where
  "sample_auth_env =
     \<lparr>an_token_bytes = (\<lambda>n. word_of_nat n # replicate 31 0), an_uuid4 = (\<lambda>n. word_of_nat (1000 + n)),
      an_sha256 = sample_digest, an_argon2_hash = (\<lambda>n p. ''$argon2id$'' @ p),
      an_argon2_verify = (\<lambda>h p. h = ''$argon2id$'' @ p), an_argon2_needs_rehash = (\<lambda>_. False),
      an_session_touch_interval = 60000000, an_timeout_policy = AUTHENTICATION_SESSION_TIMEOUT_POLICY\<rparr>"

definition raw_reset :: string where "raw_reset = ''BQ'' @ replicate 41 CHR ''A''"
definition raw_session :: string where "raw_session = ''Bg'' @ replicate 41 CHR ''A''"

definition sample_hash :: "string \<Rightarrow> bytes" where
  "sample_hash raw = an_sha256 sample_auth_env (map of_char raw)"

definition sample_session_row :: session_row where
  "sample_session_row =
     \<lparr>sr_id = 21, sr_user_id = 1, sr_token_hash = sample_hash raw_session, sr_stage = ''authenticated'',
      sr_assurance_level = ''single_factor'', sr_mfa_completed = False, sr_created_at = Aware 0,
      sr_last_seen_at = Aware 0, sr_expires_at = Aware 43200000000, sr_revoked_at = None\<rparr>"

definition sample_reset_row :: one_time_token_row where
  "sample_reset_row =
     \<lparr>otr_id = 31, otr_user_id = 1, otr_purpose = ''password_reset'', otr_token_hash = sample_hash raw_reset,
      otr_created_at = Aware 0, otr_expires_at = Aware 1800000000, otr_consumed_at = None, otr_revoked_at = None\<rparr>"

definition sample_accounts :: auth_db where
  "sample_accounts =
     \<lparr>ad_events = [], cd_tenants = [], cd_contents = [],
      au_users = [\<lparr>usrr_id = 1, usrr_status = ''active''\<rparr>],
      au_credentials = [\<lparr>crr_id = 11, crr_user_id = 1, crr_email = ''a@b'', crr_password_hash = ''$argon2id$old'',
        crr_created_at = Aware 0, crr_email_verified_at = Some (Aware 0)\<rparr>],
      au_sessions = [sample_session_row], au_tokens = [sample_reset_row],
      au_memberships = [], au_membership_roles = [], au_enrollments = []\<rparr>"

definition sample_accounts_world :: auth_world where
  "sample_accounts_world = \<lparr>w_db = sample_accounts, w_draws = 7\<rparr>"

definition sample_ctx :: audit_context where
  "sample_ctx = \<lparr>acx_correlation_id = 99, acx_http_method = None, acx_route_template = None\<rparr>"

definition no_verifier :: mfa_verifier where
  "no_verifier u m r = returnS False"

lemma no_verifier_facts [simp]: "leaves_accounts no_verifier"
  unfolding leaves_accounts_def no_verifier_def by (intro allI impI keeps_basic)

end
