(* ===== verification/Auth_Guarantees.thy ===== *)
theory Auth_Guarantees
  imports Auth_Typing Auth_Totp_Laws Auth_Sample
begin

text \<open>
  The properties of authentication. A run is any sequence of requests; the environment (digest,
  password hash, random source), the policy and the verifier of the second factor are arbitrary.
\<close>

lemma sample_accounts_ok: "accounts_ok (w_db sample_accounts_world)"
  by code_simp

section \<open>One-time tokens\<close>

text \<open>
  C3. In every run at most one confirmation of a given one-time token succeeds: whatever requests
  come before, between and after, a verification or reset token is accepted once.
\<close>

theorem one_time_token_used_at_most_once:
  assumes "leaves_accounts verify" and "accounts_ok (w_db w)"
    and "auth_run env policy verify rqs w = (log, w')"
  shows "length (filter (redeemed raw) log) \<le> 1"
  using run_redeems [OF assms, of raw] by (simp split: if_splits)

definition sample_redemptions :: "auth_request list" where
  "sample_redemptions =
     [RQ_ConfirmReset raw_reset ''new'' (Aware 1) sample_ctx, RQ_ConfirmReset raw_reset ''new'' (Aware 2) sample_ctx]"

lemma one_time_token_used_at_most_once_witness:
  "length (filter (redeemed raw_reset) (fst (auth_run sample_auth_env None no_verifier sample_redemptions sample_accounts_world))) = 1"
proof -
  have "length (filter (redeemed raw_reset)
      (fst (auth_run sample_auth_env None no_verifier sample_redemptions sample_accounts_world))) \<le> 1"
    by (rule one_time_token_used_at_most_once [OF no_verifier_facts sample_accounts_ok surjective_pairing])
  moreover have "0 < length (filter (redeemed raw_reset)
      (fst (auth_run sample_auth_env None no_verifier sample_redemptions sample_accounts_world)))"
    by code_simp
  ultimately show ?thesis by linarith
qed

section \<open>Password resets\<close>

text \<open>
  C4. After a confirmed password reset, no session that the user had before is of any use: in every
  later run, whatever its requests, the token of such a session resolves nothing, completes no
  second factor and changes no password.
\<close>

theorem password_reset_ends_sessions:
  assumes "leaves_accounts verify" and "accounts_ok (w_db w)"
    and "answer env policy verify (RQ_ConfirmReset raw password at ctx) w = (Inr x, w1)"
    and "t \<in> set (au_tokens (w_db w))" "otr_token_hash t = an_sha256 env (map of_char raw)"
    and "r \<in> set (au_sessions (w_db w))" "sr_user_id r = otr_user_id t"
    and "auth_run env policy verify rqs w1 = (log, w2)" "(rq, res) \<in> set log"
    and "presents rq = Some session" "an_sha256 env (map of_char session) = sr_token_hash r"
  shows "\<not> is_ok res"
proof -
  have "accounts_ok (w_db w1)" using answer_grown [OF assms(2,1,3)] by (simp add: grown_def)
  moreover have "over (an_sha256 env (map of_char session)) (w_db w1)"
    unfolding assms(11) by (rule reset_ends [OF assms(3,2,4-7)])
  ultimately show ?thesis by (rule run_over [OF assms(1) _ _ assms(8-10)])
qed

lemma password_reset_ends_sessions_witness:
  "let (x, w1) = answer sample_auth_env None no_verifier (RQ_ConfirmReset raw_reset ''new'' (Aware 1) sample_ctx) sample_accounts_world in
   is_ok (fst (answer sample_auth_env None no_verifier (RQ_Resolve raw_session (Aware 1) False) sample_accounts_world)) \<and>
   is_ok x \<and> \<not> is_ok (fst (answer sample_auth_env None no_verifier (RQ_Resolve raw_session (Aware 2) False) w1))"
proof -
  let ?rq = "RQ_ConfirmReset raw_reset ''new'' (Aware 1) sample_ctx"
  let ?resolve = "RQ_Resolve raw_session (Aware 2) False"
  obtain x w1 where step: "answer sample_auth_env None no_verifier ?rq sample_accounts_world = (x, w1)" by fastforce
  have before: "is_ok (fst (answer sample_auth_env None no_verifier (RQ_Resolve raw_session (Aware 1) False) sample_accounts_world))"
    by code_simp
  have "is_ok (fst (answer sample_auth_env None no_verifier ?rq sample_accounts_world))" by code_simp
  with step obtain y where y: "x = Inr y" by (auto simp: is_ok_iff)
  obtain res w2 where run: "answer sample_auth_env None no_verifier ?resolve w1 = (res, w2)" by fastforce
  have log: "auth_run sample_auth_env None no_verifier [?resolve] w1 = ([(?resolve, res)], w2)" using run by simp
  have "\<not> is_ok res"
    by (rule password_reset_ends_sessions [OF no_verifier_facts sample_accounts_ok step [unfolded y], of sample_reset_row
          sample_session_row "[?resolve]" _ w2 ?resolve _ raw_session, OF _ _ _ _ log])
      (simp_all add: sample_accounts_world_def sample_accounts_def sample_reset_row_def sample_session_row_def sample_hash_def)
  then show ?thesis using step y before run by simp
qed

section \<open>Sessions\<close>

text \<open>
  C13. A raw token resolves exactly when the stored session with its hash decodes, is authenticated,
  not revoked, and within its absolute and idle expiry, and its user is active.
\<close>

theorem resolve_session_iff:
  "is_ok (fst (transaction (resolve_session env raw at touch) w)) \<longleftrightarrow>
     aware at \<and> length (an_sha256 env (map of_char raw)) = 32 \<and>
     (\<exists>r u. find (\<lambda>r. sr_token_hash r = an_sha256 env (map of_char raw)) (au_sessions (w_db w)) = Some r \<and>
        is_ok (session_to_domain r) \<and> live_session env at r \<and>
        find (\<lambda>u. usrr_id u = sr_user_id r) (au_users (w_db w)) = Some u \<and> usrr_status u = ''active'')"
    (is "?ok \<longleftrightarrow> ?live")
proof
  assume ?ok
  then obtain x u w' where "transaction (resolve_session env raw at touch) w = (Inr (x, u), w')"
    by (metis is_ok_iff prod.collapse)
  then obtain s' where "resolve_session env raw at touch (open_session w) = (Inr (x, u), s')"
    by (rule commit_transaction)
  then show ?live
    by (rule resolve_session_found) (auto simp: session_found_iff is_ok_iff)
next
  assume ?live
  then obtain r y u where "session_found env ST_AUTHENTICATED (an_sha256 env (map of_char raw)) at (se_db (open_session w)) r y"
    "length (an_sha256 env (map of_char raw)) = 32"
    "find (\<lambda>u. usrr_id u = sr_user_id r) (au_users (se_db (open_session w))) = Some u" "usrr_status u = ''active''"
    by (auto simp: session_found_iff is_ok_iff)
  from resolve_session_succeeds [OF this, of touch] show ?ok by (auto simp: transaction_def)
qed

section \<open>The second factor\<close>

text \<open>
  C2. A user for whom the policy always demands the second factor, and whom the verifier never
  confirms, is never let in: in every run that starts without an authenticated session of this user,
  no request resolves to the user and none returns an authenticated session of theirs.
\<close>

theorem second_factor_cannot_be_skipped:
  assumes "leaves_accounts verify" and "\<And>m r s. fst (verify u m r s) \<noteq> Inr True"
    and "\<And>db. policy db u \<noteq> Inr False"
    and "\<forall>r\<in>set (au_sessions (w_db w)). sr_user_id r = u \<longrightarrow> sr_stage r = ''pending_mfa''"
    and "auth_run env (Some policy) verify rqs w = (log, w')" "(rq, Inr res) \<in> set log"
  shows "admitted (\<lambda>v. v \<noteq> u) res"
proof -
  have start: "locked_out u (w_db w)" using assms(4) by (auto simp: locked_out_def)
  have admits: "policy_admits (Some policy) (\<lambda>v. v \<noteq> u)" using assms(3) by (auto simp: policy_admits_def)
  have verified: "yields (locked_out u) (verify v m r) (\<lambda>ok. ok \<longrightarrow> v \<noteq> u)" for v m r
  proof (rule yieldsI)
    fix s q s' assume inv: "session_inv (locked_out u) s" and run: "verify v m r s = (q, s')"
    have "keeps (locked_out u) (verify v m r)"
      using assms(1) unfolding leaves_accounts_def by (simp add: locked_out_def)
    note kept = yieldsD(1) [OF this inv run]
    have "v \<noteq> u" if "q = Inr True" using assms(2) [of m r s] run that by (cases "v = u") simp_all
    with kept show "session_inv (locked_out u) s' \<and> (\<forall>x. q = Inr x \<longrightarrow> x \<longrightarrow> v \<noteq> u)" by simp
  qed
  from auth_run_keeps(2) [OF lockout.account_invariant_axioms admits verified start assms(5,6)]
  show ?thesis by blast
qed

definition sample_login :: auth_request where
  "sample_login = RQ_Login ''a@b'' ''old'' 41 (Aware 1) sample_ctx False"

definition sample_login_world :: auth_world where
  "sample_login_world = \<lparr>w_db = sample_accounts\<lparr>au_sessions := []\<rparr>, w_draws = 7\<rparr>"

definition always_mfa :: "auth_db \<Rightarrow> uuid \<Rightarrow> auth_error + bool" where
  "always_mfa db u = Inr True"

lemma second_factor_cannot_be_skipped_witness:
  "\<exists>rq res. (rq, Inr res) \<in> set (fst (auth_run sample_auth_env (Some always_mfa) no_verifier [sample_login] sample_login_world)) \<and>
     admitted (\<lambda>v. v \<noteq> 1) res"
proof -
  obtain r w' where run: "answer sample_auth_env (Some always_mfa) no_verifier sample_login sample_login_world = (r, w')"
    by fastforce
  have "is_ok (fst (answer sample_auth_env (Some always_mfa) no_verifier sample_login sample_login_world))" by code_simp
  then obtain res where res: "r = Inr res" unfolding run fst_conv is_ok_iff ..
  have log: "auth_run sample_auth_env (Some always_mfa) no_verifier [sample_login] sample_login_world = ([(sample_login, Inr res)], w')"
    using run res by simp
  have "admitted (\<lambda>v. v \<noteq> 1) res"
    by (rule second_factor_cannot_be_skipped [OF no_verifier_facts _ _ _ log])
      (simp_all add: no_verifier_def always_mfa_def sample_login_world_def)
  then show ?thesis using log by auto
qed

section \<open>Types\<close>

text \<open>
  C12. The stored accounts stay typed while the clock does not go back: if every user, credential,
  session and one-time token row decodes into a value that passes its checks, this still holds after
  a run of requests whose times are aware and never earlier than those before, so no read of these
  tables fails in its mapper. The condition is needed: at an earlier time a logout stores a
  revocation before the creation of the session, and the row no longer decodes (\<open>backward_logout\<close>).
\<close>

theorem stored_accounts_stay_typed:
  assumes "leaves_accounts verify" and "accounts_ok (w_db w)" "accounts_typed now (w_db w)" "aware now"
    and "\<forall>rq\<in>set rqs. aware (request_time rq)" "sorted (now # map request_time rqs)"
    and "auth_run env policy verify rqs w = (log, w')"
  shows "accounts_typed (last (now # map request_time rqs)) (w_db w')"
proof -
  have "accounts_sound now (w_db w)" using assms(2-4) by (simp add: accounts_sound_def)
  from run_sound [OF assms(1,5,6) this assms(7)] show ?thesis by (simp add: accounts_sound_def)
qed

lemma stored_accounts_stay_typed_witness:
  "accounts_typed (Aware 2) (w_db (snd (auth_run sample_auth_env None no_verifier sample_redemptions sample_accounts_world)))"
proof -
  have typed: "accounts_typed (Aware 0) (w_db sample_accounts_world)" by code_simp
  have times: "sorted (Aware 0 # map request_time sample_redemptions)"
    "\<forall>rq\<in>set sample_redemptions. aware (request_time rq)" "last (Aware 0 # map request_time sample_redemptions) = Aware 2"
    by (simp_all add: sample_redemptions_def)
  show ?thesis
    using stored_accounts_stay_typed [OF no_verifier_facts sample_accounts_ok typed _ times(2,1) surjective_pairing] times(3)
    by simp
qed

text \<open>A logout of all sessions five microseconds before the session of the sample was created.\<close>

lemma backward_logout:
  "map (\<lambda>r. (sr_revoked_at r, is_ok (session_to_domain r))) (au_sessions (w_db (snd
     (auth_run sample_auth_env None no_verifier [RQ_LogoutAll 1 (Aware (-5)) sample_ctx] sample_accounts_world)))) =
   [(Some (Aware (-5)), False)]"
  by code_simp

section \<open>Codes of the second factor\<close>

text \<open>
  C14. No time step is accepted twice: over any sequence of attempts, by whatever users and at
  whatever times, the steps accepted for a user strictly increase, so an observed code is worthless
  once it was used.
\<close>

theorem totp_step_accepted_once: "sorted_wrt (<) (accepted_steps u (fst (totp_run tenv attempts w)))"
proof -
  obtain log w' where "totp_run tenv attempts w = (log, w')" by fastforce
  from totp_run_increases [OF this] this show ?thesis by simp
qed

section \<open>Raw tokens\<close>

text \<open>
  C39. The texts accepted as raw tokens are exactly the encodings of 32 bytes, each of a single
  sequence of bytes: every token that the random source yields is accepted when it comes back, and
  two texts never stand for the same token.
\<close>

theorem raw_token_encodes_32_bytes:
  "RawAuthenticationToken_post_init t = Inr x \<longleftrightarrow>
     x = t \<and> (\<exists>!bs :: bytes. length bs = 32 \<and> t = urlsafe_b64encode (map unat bs))"
  unfolding raw_token_iff using encode_inj by blast

end
