(* ===== verification/Retention_Domain.thy ===== *)
theory Retention_Domain
  imports Content_Service Outbox_Repository
begin

text \<open>
  Legal holds and retention purge runs: the domain objects of \<open>domain/legal_hold.py\<close> and
  \<open>domain/retention_execution.py\<close>, with the exceptions of \<open>application/retention_persistence.py\<close> and
  of the two services. A constructor returns the object with its fields as \<open>__post_init__\<close> leaves
  them, or the \<open>ValueError\<close> it raises; its \<open>TypeError\<close>s are excluded by the types.
\<close>

section \<open>Errors\<close>

datatype retention_exc =
    Ret_ValueError string
  | LegalHoldNotFoundError string
  | RetentionPurgeRunNotFoundError string
  | XyPersistenceError string
  | XyDriverError string
  | RetentionPurgeUnavailableError string
  | RetentionPurgeHandlerError outbox_error_code bool
  | RetContentExc content_error
  | RetOutboxExc outbox_error
  | RetOutboxStoreExc outbox_repo_error
  | RetExternalExc string

definition aware_or_error :: "string \<Rightarrow> datetime \<Rightarrow> retention_exc + unit" where
  "aware_or_error field_name t =
     require_aware (Ret_ValueError (field_name @ '' must be timezone-aware'')) t"

section \<open>Legal holds\<close>

datatype legal_hold_status = LH_ACTIVE | LH_RELEASED

fun legal_hold_status_value :: "legal_hold_status \<Rightarrow> string" where
  "legal_hold_status_value LH_ACTIVE = ''active''"
| "legal_hold_status_value LH_RELEASED = ''released''"

definition legal_hold_statuses :: "legal_hold_status list" where
  "legal_hold_statuses = [LH_ACTIVE, LH_RELEASED]"

definition REASON_DETAIL_MAX_LENGTH :: nat where "REASON_DETAIL_MAX_LENGTH = 2048"

definition validate_reason_code :: "string \<Rightarrow> retention_exc + string" where
  "validate_reason_code value =
     (let normalized = to_lower (strip value) in
      if \<not> matches_ident ident_char 127 normalized
      then Inl (Ret_ValueError ''reason_code format is invalid'') else Inr normalized)"

definition validate_reason_detail :: "string option \<Rightarrow> retention_exc + string option" where
  "validate_reason_detail value =
     (case value of None \<Rightarrow> Inr None
      | Some v \<Rightarrow>
          let normalized = strip v in
          if normalized = [] then Inr None
          else if length normalized > REASON_DETAIL_MAX_LENGTH
          then Inl (Ret_ValueError ''reason_detail exceeds maximum length'')
          else Inr (Some normalized))"

record legal_hold =
  lh_id :: uuid
  lh_tenant_id :: uuid
  lh_status :: legal_hold_status
  lh_reason_code :: string
  lh_reason_detail :: "string option"
  lh_created_by_user_id :: uuid
  lh_released_by_user_id :: "uuid option"
  lh_created_at :: datetime
  lh_released_at :: "datetime option"
  lh_updated_at :: datetime

definition LegalHold_post_init :: "legal_hold \<Rightarrow> retention_exc + legal_hold" where
  "LegalHold_post_init h =
     bindE (validate_reason_code (lh_reason_code h)) (\<lambda>reason_code.
     bindE (validate_reason_detail (lh_reason_detail h)) (\<lambda>reason_detail.
     bindE (aware_or_error ''created_at'' (lh_created_at h)) (\<lambda>_.
     bindE (when_some (lh_released_at h) (aware_or_error ''released_at'')) (\<lambda>_.
     bindE (aware_or_error ''updated_at'' (lh_updated_at h)) (\<lambda>_.
     bindE (raise_if (lh_status h = LH_ACTIVE \<and> lh_released_at h \<noteq> None)
              (Ret_ValueError ''active legal holds must not have released_at'')) (\<lambda>_.
     bindE (raise_if (lh_status h = LH_RELEASED \<and> lh_released_at h = None)
              (Ret_ValueError ''released legal holds require released_at'')) (\<lambda>_.
     Inr (h\<lparr>lh_reason_code := reason_code, lh_reason_detail := reason_detail\<rparr>))))))))"

section \<open>Purge runs\<close>

datatype purge_run_status =
    PRS_PENDING | PRS_RUNNING | PRS_COMPLETED | PRS_FAILED | PRS_CANCELLED | PRS_PAUSED

fun purge_run_status_value :: "purge_run_status \<Rightarrow> string" where
  "purge_run_status_value PRS_PENDING = ''pending''"
| "purge_run_status_value PRS_RUNNING = ''running''"
| "purge_run_status_value PRS_COMPLETED = ''completed''"
| "purge_run_status_value PRS_FAILED = ''failed''"
| "purge_run_status_value PRS_CANCELLED = ''cancelled''"
| "purge_run_status_value PRS_PAUSED = ''paused''"

definition purge_run_statuses :: "purge_run_status list" where
  "purge_run_statuses =
     [PRS_PENDING, PRS_RUNNING, PRS_COMPLETED, PRS_FAILED, PRS_CANCELLED, PRS_PAUSED]"

datatype purge_batch_status = PBS_PENDING | PBS_COMPLETED | PBS_FAILED | PBS_SKIPPED_LEGAL_HOLD

fun purge_batch_status_value :: "purge_batch_status \<Rightarrow> string" where
  "purge_batch_status_value PBS_PENDING = ''pending''"
| "purge_batch_status_value PBS_COMPLETED = ''completed''"
| "purge_batch_status_value PBS_FAILED = ''failed''"
| "purge_batch_status_value PBS_SKIPPED_LEGAL_HOLD = ''skipped_legal_hold''"

definition purge_batch_statuses :: "purge_batch_status list" where
  "purge_batch_statuses = [PBS_PENDING, PBS_COMPLETED, PBS_FAILED, PBS_SKIPPED_LEGAL_HOLD]"

definition validate_non_negative_int :: "string \<Rightarrow> int \<Rightarrow> retention_exc + unit" where
  "validate_non_negative_int field_name value =
     raise_if (value < 0) (Ret_ValueError (field_name @ '' must be a non-negative integer''))"

record purge_run =
  pr_id :: uuid
  pr_tenant_id :: uuid
  pr_status :: purge_run_status
  pr_dry_run :: bool
  pr_expires_before :: datetime
  pr_items_scanned :: int
  pr_items_deleted :: int
  pr_items_skipped_legal_hold :: int
  pr_started_at :: "datetime option"
  pr_completed_at :: "datetime option"
  pr_created_at :: datetime
  pr_updated_at :: datetime
  pr_last_error_code :: "string option"
  pr_claim_token :: "uuid option"
  pr_claim_expires_at :: "datetime option"
  pr_version :: int

definition RetentionPurgeRun_post_init :: "purge_run \<Rightarrow> retention_exc + purge_run" where
  "RetentionPurgeRun_post_init r =
     bindE (raise_if (pr_version r < 1) (Ret_ValueError ''version must be a positive integer'')) (\<lambda>_.
     bindE (when_some (pr_claim_expires_at r) (aware_or_error ''claim_expires_at'')) (\<lambda>_.
     bindE (aware_or_error ''expires_before'' (pr_expires_before r)) (\<lambda>_.
     bindE (validate_non_negative_int ''items_scanned'' (pr_items_scanned r)) (\<lambda>_.
     bindE (validate_non_negative_int ''items_deleted'' (pr_items_deleted r)) (\<lambda>_.
     bindE (validate_non_negative_int ''items_skipped_legal_hold'' (pr_items_skipped_legal_hold r)) (\<lambda>_.
     bindE (when_some (pr_started_at r) (aware_or_error ''started_at'')) (\<lambda>_.
     bindE (when_some (pr_completed_at r) (aware_or_error ''completed_at'')) (\<lambda>_.
     bindE (aware_or_error ''created_at'' (pr_created_at r)) (\<lambda>_.
     bindE (aware_or_error ''updated_at'' (pr_updated_at r)) (\<lambda>_. Inr r))))))))))"

record purge_batch =
  pb_id :: uuid
  pb_tenant_id :: uuid
  pb_purge_run_id :: uuid
  pb_deleted_content_id :: uuid
  pb_status :: purge_batch_status
  pb_created_at :: datetime
  pb_completed_at :: "datetime option"

definition RetentionPurgeBatch_post_init :: "purge_batch \<Rightarrow> retention_exc + purge_batch" where
  "RetentionPurgeBatch_post_init b =
     bindE (aware_or_error ''created_at'' (pb_created_at b)) (\<lambda>_.
     bindE (when_some (pb_completed_at b) (aware_or_error ''completed_at'')) (\<lambda>_. Inr b))"

section \<open>What the constructors keep\<close>

lemma legal_hold_status_of_value [simp]:
  "enum_of legal_hold_status_value legal_hold_statuses (legal_hold_status_value s) = Some s"
  by (cases s) (simp_all add: enum_of_def legal_hold_statuses_def)

lemma purge_run_status_of_value [simp]:
  "enum_of purge_run_status_value purge_run_statuses (purge_run_status_value s) = Some s"
  by (cases s) (simp_all add: enum_of_def purge_run_statuses_def)

lemma purge_batch_status_of_value [simp]:
  "enum_of purge_batch_status_value purge_batch_statuses (purge_batch_status_value s) = Some s"
  by (cases s) (simp_all add: enum_of_def purge_batch_statuses_def)

lemma RetentionPurgeRun_Inr: "RetentionPurgeRun_post_init r = Inr r' \<Longrightarrow> r' = r"
  by (auto simp: RetentionPurgeRun_post_init_def bindE_Inr_iff)

lemma RetentionPurgeBatch_Inr: "RetentionPurgeBatch_post_init b = Inr b' \<Longrightarrow> b' = b"
  by (auto simp: RetentionPurgeBatch_post_init_def bindE_Inr_iff)

lemma LegalHold_Inr:
  assumes "LegalHold_post_init h = Inr h'"
  shows "lh_id h' = lh_id h" and "lh_tenant_id h' = lh_tenant_id h" and "lh_status h' = lh_status h"
  using assms by (auto simp: LegalHold_post_init_def bindE_Inr_iff)

end
