(* ===== verification/Retention_Store.thy ===== *)
theory Retention_Store
  imports Retention_Domain
begin

text \<open>
  Persistence of legal holds and purge runs: the rows of \<open>infrastructure/xy_orm.py\<close>, the mappers of
  \<open>xy_mappers.py\<close> and the three repositories of \<open>xy_repositories.py\<close>.

  A statement that goes through \<open>_flush\<close> has its integrity errors translated; the \<open>UPDATE\<close>
  statements are executed directly, and what they raise is the driver's own error.
\<close>

section \<open>Rows and tables\<close>

record legal_hold_row =
  lhr_id :: uuid
  lhr_tenant_id :: uuid
  lhr_status :: string
  lhr_reason_code :: string
  lhr_reason_detail :: "string option"
  lhr_created_by_user_id :: uuid
  lhr_released_by_user_id :: "uuid option"
  lhr_created_at :: datetime
  lhr_released_at :: "datetime option"
  lhr_updated_at :: datetime

record purge_run_row =
  prr_id :: uuid
  prr_tenant_id :: uuid
  prr_status :: string
  prr_dry_run :: bool
  prr_expires_before :: datetime
  prr_items_scanned :: int
  prr_items_deleted :: int
  prr_items_skipped_legal_hold :: int
  prr_started_at :: "datetime option"
  prr_completed_at :: "datetime option"
  prr_last_error_code :: "string option"
  prr_claim_token :: "uuid option"
  prr_claim_expires_at :: "datetime option"
  prr_version :: int
  prr_created_at :: datetime
  prr_updated_at :: datetime

record purge_batch_row =
  pbr_id :: uuid
  pbr_tenant_id :: uuid
  pbr_purge_run_id :: uuid
  pbr_deleted_content_id :: uuid
  pbr_status :: string
  pbr_created_at :: datetime
  pbr_completed_at :: "datetime option"

record retention_db = content_db +
  rt_holds :: "legal_hold_row list"
  rt_runs :: "purge_run_row list"
  rt_batches :: "purge_batch_row list"
  rt_jobs :: "outbox_job_row list"

type_synonym 'a retention_comp = "(retention_db, retention_exc, 'a) session_comp"

definition tenant_stored :: "retention_db \<Rightarrow> uuid \<Rightarrow> bool" where
  "tenant_stored db tenant_id \<longleftrightarrow> list_ex (\<lambda>t. tn_id t = tenant_id) (cd_tenants db)"

definition hold_columns_fit :: "legal_hold_row \<Rightarrow> bool" where
  "hold_columns_fit r \<longleftrightarrow>
     length (lhr_status r) \<le> 32 \<and> length (lhr_reason_code r) \<le> 128 \<and> aware (lhr_created_at r) \<and>
     pred_option aware (lhr_released_at r) \<and> aware (lhr_updated_at r)"

definition hold_row_checks :: "legal_hold_row \<Rightarrow> bool" where
  "hold_row_checks r \<longleftrightarrow> lhr_status r \<in> set (map legal_hold_status_value legal_hold_statuses)"

definition run_columns_fit :: "purge_run_row \<Rightarrow> bool" where
  "run_columns_fit r \<longleftrightarrow>
     length (prr_status r) \<le> 32 \<and> aware (prr_expires_before r) \<and> fits_int4 (prr_items_scanned r) \<and>
     fits_int4 (prr_items_deleted r) \<and> fits_int4 (prr_items_skipped_legal_hold r) \<and>
     pred_option aware (prr_started_at r) \<and> pred_option aware (prr_completed_at r) \<and>
     pred_option (\<lambda>s. length s \<le> 64) (prr_last_error_code r) \<and>
     pred_option aware (prr_claim_expires_at r) \<and> fits_int4 (prr_version r) \<and>
     aware (prr_created_at r) \<and> aware (prr_updated_at r)"

definition run_row_checks :: "purge_run_row \<Rightarrow> bool" where
  "run_row_checks r \<longleftrightarrow>
     prr_status r \<in> set (map purge_run_status_value purge_run_statuses) \<and> 0 \<le> prr_items_scanned r \<and>
     0 \<le> prr_items_deleted r \<and> 0 \<le> prr_items_skipped_legal_hold r \<and> 1 \<le> prr_version r"

definition batch_columns_fit :: "purge_batch_row \<Rightarrow> bool" where
  "batch_columns_fit r \<longleftrightarrow>
     length (pbr_status r) \<le> 32 \<and> aware (pbr_created_at r) \<and> pred_option aware (pbr_completed_at r)"

definition batch_row_checks :: "purge_batch_row \<Rightarrow> bool" where
  "batch_row_checks r \<longleftrightarrow> pbr_status r \<in> set (map purge_batch_status_value purge_batch_statuses)"

section \<open>Mappers\<close>

definition legal_hold_to_row :: "legal_hold \<Rightarrow> legal_hold_row" where
  "legal_hold_to_row h =
     \<lparr>lhr_id = lh_id h, lhr_tenant_id = lh_tenant_id h,
      lhr_status = legal_hold_status_value (lh_status h), lhr_reason_code = lh_reason_code h,
      lhr_reason_detail = lh_reason_detail h, lhr_created_by_user_id = lh_created_by_user_id h,
      lhr_released_by_user_id = lh_released_by_user_id h, lhr_created_at = lh_created_at h,
      lhr_released_at = lh_released_at h, lhr_updated_at = lh_updated_at h\<rparr>"

definition legal_hold_row_to_domain :: "legal_hold_row \<Rightarrow> retention_exc + legal_hold" where
  "legal_hold_row_to_domain r =
     (case enum_of legal_hold_status_value legal_hold_statuses (lhr_status r) of
        None \<Rightarrow> Inl (Ret_ValueError ''not a valid LegalHoldStatus'')
      | Some s \<Rightarrow> LegalHold_post_init
          \<lparr>lh_id = lhr_id r, lh_tenant_id = lhr_tenant_id r, lh_status = s,
           lh_reason_code = lhr_reason_code r, lh_reason_detail = lhr_reason_detail r,
           lh_created_by_user_id = lhr_created_by_user_id r,
           lh_released_by_user_id = lhr_released_by_user_id r, lh_created_at = lhr_created_at r,
           lh_released_at = lhr_released_at r, lh_updated_at = lhr_updated_at r\<rparr>)"

definition retention_purge_run_to_row :: "purge_run \<Rightarrow> purge_run_row" where
  "retention_purge_run_to_row p =
     \<lparr>prr_id = pr_id p, prr_tenant_id = pr_tenant_id p,
      prr_status = purge_run_status_value (pr_status p), prr_dry_run = pr_dry_run p,
      prr_expires_before = pr_expires_before p, prr_items_scanned = pr_items_scanned p,
      prr_items_deleted = pr_items_deleted p,
      prr_items_skipped_legal_hold = pr_items_skipped_legal_hold p,
      prr_started_at = pr_started_at p, prr_completed_at = pr_completed_at p,
      prr_last_error_code = pr_last_error_code p, prr_claim_token = pr_claim_token p,
      prr_claim_expires_at = pr_claim_expires_at p, prr_version = pr_version p,
      prr_created_at = pr_created_at p, prr_updated_at = pr_updated_at p\<rparr>"

definition retention_purge_run_row_to_domain :: "purge_run_row \<Rightarrow> retention_exc + purge_run" where
  "retention_purge_run_row_to_domain r =
     (case enum_of purge_run_status_value purge_run_statuses (prr_status r) of
        None \<Rightarrow> Inl (Ret_ValueError ''not a valid RetentionPurgeRunStatus'')
      | Some s \<Rightarrow> RetentionPurgeRun_post_init
          \<lparr>pr_id = prr_id r, pr_tenant_id = prr_tenant_id r, pr_status = s, pr_dry_run = prr_dry_run r,
           pr_expires_before = prr_expires_before r, pr_items_scanned = prr_items_scanned r,
           pr_items_deleted = prr_items_deleted r,
           pr_items_skipped_legal_hold = prr_items_skipped_legal_hold r,
           pr_started_at = prr_started_at r, pr_completed_at = prr_completed_at r,
           pr_created_at = prr_created_at r, pr_updated_at = prr_updated_at r,
           pr_last_error_code = prr_last_error_code r, pr_claim_token = prr_claim_token r,
           pr_claim_expires_at = prr_claim_expires_at r, pr_version = prr_version r\<rparr>)"

definition retention_purge_batch_to_row :: "purge_batch \<Rightarrow> purge_batch_row" where
  "retention_purge_batch_to_row b =
     \<lparr>pbr_id = pb_id b, pbr_tenant_id = pb_tenant_id b, pbr_purge_run_id = pb_purge_run_id b,
      pbr_deleted_content_id = pb_deleted_content_id b,
      pbr_status = purge_batch_status_value (pb_status b), pbr_created_at = pb_created_at b,
      pbr_completed_at = pb_completed_at b\<rparr>"

definition retention_purge_batch_row_to_domain :: "purge_batch_row \<Rightarrow> retention_exc + purge_batch" where
  "retention_purge_batch_row_to_domain r =
     (case enum_of purge_batch_status_value purge_batch_statuses (pbr_status r) of
        None \<Rightarrow> Inl (Ret_ValueError ''not a valid RetentionPurgeBatchStatus'')
      | Some s \<Rightarrow> RetentionPurgeBatch_post_init
          \<lparr>pb_id = pbr_id r, pb_tenant_id = pbr_tenant_id r, pb_purge_run_id = pbr_purge_run_id r,
           pb_deleted_content_id = pbr_deleted_content_id r, pb_status = s,
           pb_created_at = pbr_created_at r, pb_completed_at = pbr_completed_at r\<rparr>)"

definition optional_domain :: "('r \<Rightarrow> retention_exc + 'a) \<Rightarrow> 'r option \<Rightarrow> 'a option retention_comp" where
  "optional_domain to_domain row =
     (case row of None \<Rightarrow> returnS None
      | Some r \<Rightarrow> bindS (lift_result (to_domain r)) (\<lambda>x. returnS (Some x)))"

section \<open>Legal holds\<close>

definition xy_integrity_error :: retention_exc where
  "xy_integrity_error = XyPersistenceError ''xy persistence integrity error''"

definition xy_column_error :: retention_exc where
  "xy_column_error = XyDriverError ''value out of column range''"

definition xy_statement_error :: retention_exc where
  "xy_statement_error = XyDriverError ''integrity error''"

definition legal_hold_add :: "legal_hold \<Rightarrow> unit retention_comp" where
  "legal_hold_add h =
     modify_db (\<lambda>db. let row = legal_hold_to_row h in
       bindE (raise_if (\<not> hold_columns_fit row) xy_column_error) (\<lambda>_.
       bindE (raise_if (\<not> hold_row_checks row \<or> lhr_id row \<in> lhr_id ` set (rt_holds db) \<or>
                \<not> tenant_stored db (lhr_tenant_id row)) xy_integrity_error) (\<lambda>_.
       Inr (db\<lparr>rt_holds := rt_holds db @ [row]\<rparr>))))"

text \<open>The newest active hold; rows of the same time are in the order of the table.\<close>

definition active_holds :: "uuid \<Rightarrow> retention_db \<Rightarrow> legal_hold_row list" where
  "active_holds tenant_id db =
     filter (\<lambda>r. lhr_tenant_id r = tenant_id \<and> lhr_status r = legal_hold_status_value LH_ACTIVE) (rt_holds db)"

definition get_active_for_tenant :: "uuid \<Rightarrow> legal_hold option retention_comp" where
  "get_active_for_tenant tenant_id =
     bindS (query (\<lambda>db. case sort_key (\<lambda>r. - instant (lhr_created_at r)) (active_holds tenant_id db) of
                          [] \<Rightarrow> None | r # _ \<Rightarrow> Some r))
       (optional_domain legal_hold_row_to_domain)"

definition legal_hold_get_by_id :: "uuid \<Rightarrow> uuid \<Rightarrow> legal_hold option retention_comp" where
  "legal_hold_get_by_id tenant_id legal_hold_id =
     bindS (query (\<lambda>db. find (\<lambda>r. lhr_tenant_id r = tenant_id \<and> lhr_id r = legal_hold_id) (rt_holds db)))
       (optional_domain legal_hold_row_to_domain)"

text \<open>The columns that \<open>update\<close> assigns.\<close>

definition assign_hold :: "legal_hold_row \<Rightarrow> legal_hold \<Rightarrow> legal_hold_row" where
  "assign_hold row h =
     row\<lparr>lhr_status := legal_hold_status_value (lh_status h), lhr_reason_code := lh_reason_code h,
         lhr_reason_detail := lh_reason_detail h, lhr_released_by_user_id := lh_released_by_user_id h,
         lhr_released_at := lh_released_at h, lhr_updated_at := lh_updated_at h\<rparr>"

definition legal_hold_update :: "legal_hold \<Rightarrow> unit retention_comp" where
  "legal_hold_update h =
     modify_db (\<lambda>db.
       case find (\<lambda>r. lhr_tenant_id r = lh_tenant_id h \<and> lhr_id r = lh_id h) (rt_holds db) of
         None \<Rightarrow> Inl (LegalHoldNotFoundError ''legal hold not found'')
       | Some row \<Rightarrow>
           bindE (raise_if (\<not> hold_columns_fit (assign_hold row h)) xy_column_error) (\<lambda>_.
           bindE (raise_if (\<not> hold_row_checks (assign_hold row h)) xy_statement_error) (\<lambda>_.
           Inr (db\<lparr>rt_holds := map (\<lambda>r. if lhr_tenant_id r = lh_tenant_id h \<and> lhr_id r = lh_id h
                                 then assign_hold r h else r) (rt_holds db)\<rparr>))))"

definition repo_tenant_has_active_hold :: "uuid \<Rightarrow> bool retention_comp" where
  "repo_tenant_has_active_hold tenant_id =
     bindS (get_active_for_tenant tenant_id) (\<lambda>h. returnS (h \<noteq> None))"

section \<open>Purge runs\<close>

definition purge_run_add :: "purge_run \<Rightarrow> unit retention_comp" where
  "purge_run_add p =
     modify_db (\<lambda>db. let row = retention_purge_run_to_row p in
       bindE (raise_if (\<not> run_columns_fit row) xy_column_error) (\<lambda>_.
       bindE (raise_if (\<not> run_row_checks row \<or> prr_id row \<in> prr_id ` set (rt_runs db) \<or>
                \<not> tenant_stored db (prr_tenant_id row)) xy_integrity_error) (\<lambda>_.
       Inr (db\<lparr>rt_runs := rt_runs db @ [row]\<rparr>))))"

definition find_run :: "uuid \<Rightarrow> uuid \<Rightarrow> retention_db \<Rightarrow> purge_run_row option" where
  "find_run tenant_id purge_run_id db =
     find (\<lambda>r. prr_tenant_id r = tenant_id \<and> prr_id r = purge_run_id) (rt_runs db)"

definition purge_run_get_by_id :: "uuid \<Rightarrow> uuid \<Rightarrow> purge_run option retention_comp" where
  "purge_run_get_by_id tenant_id purge_run_id =
     bindS (query (find_run tenant_id purge_run_id)) (optional_domain retention_purge_run_row_to_domain)"

text \<open>An \<open>UPDATE\<close> of the run with the given row's key.\<close>

definition put_run :: "purge_run_row \<Rightarrow> unit retention_comp" where
  "put_run row =
     modify_db (\<lambda>db.
       bindE (raise_if (\<not> run_columns_fit row) xy_column_error) (\<lambda>_.
       bindE (raise_if (\<not> run_row_checks row) xy_statement_error) (\<lambda>_.
       Inr (db\<lparr>rt_runs := map (\<lambda>r. if prr_id r = prr_id row then row else r) (rt_runs db)\<rparr>))))"

definition assign_run :: "purge_run_row \<Rightarrow> purge_run \<Rightarrow> purge_run_row" where
  "assign_run row p =
     row\<lparr>prr_status := purge_run_status_value (pr_status p), prr_items_scanned := pr_items_scanned p,
         prr_items_deleted := pr_items_deleted p,
         prr_items_skipped_legal_hold := pr_items_skipped_legal_hold p,
         prr_started_at := pr_started_at p, prr_completed_at := pr_completed_at p,
         prr_last_error_code := pr_last_error_code p, prr_claim_token := pr_claim_token p,
         prr_claim_expires_at := pr_claim_expires_at p, prr_version := pr_version p,
         prr_updated_at := pr_updated_at p\<rparr>"

definition purge_run_update :: "purge_run \<Rightarrow> unit retention_comp" where
  "purge_run_update p =
     bindS (query (find_run (pr_tenant_id p) (pr_id p))) (\<lambda>found.
     case found of None \<Rightarrow> raiseS (RetentionPurgeRunNotFoundError ''retention purge run not found'')
     | Some row \<Rightarrow> put_run (assign_run row p))"

definition claimable :: "uuid \<Rightarrow> datetime \<Rightarrow> int option \<Rightarrow> purge_run_row \<Rightarrow> bool" where
  "claimable claim_token now expected_version r \<longleftrightarrow>
     prr_status r \<in> {purge_run_status_value PRS_PENDING, purge_run_status_value PRS_RUNNING} \<and>
     (prr_claim_token r = None \<or> prr_claim_expires_at r = None \<or>
      pred_option (\<lambda>e. e \<le> now) (prr_claim_expires_at r) \<or> prr_claim_token r = Some claim_token) \<and>
     pred_option (\<lambda>v. prr_version r = v) expected_version"

definition claim_row :: "uuid \<Rightarrow> datetime \<Rightarrow> datetime \<Rightarrow> purge_run_row \<Rightarrow> purge_run_row" where
  "claim_row claim_token claim_expires_at now r =
     r\<lparr>prr_claim_token := Some claim_token, prr_claim_expires_at := Some claim_expires_at,
       prr_status := purge_run_status_value PRS_RUNNING,
       prr_started_at := (case prr_started_at r of None \<Rightarrow> Some now | Some s \<Rightarrow> Some s),
       prr_version := prr_version r + 1, prr_updated_at := now\<rparr>"

definition put_and_return :: "purge_run_row \<Rightarrow> purge_run option retention_comp" where
  "put_and_return row =
     bindS (put_run row) (\<lambda>_. optional_domain retention_purge_run_row_to_domain (Some row))"

definition try_claim ::
    "uuid \<Rightarrow> uuid \<Rightarrow> uuid \<Rightarrow> datetime \<Rightarrow> datetime \<Rightarrow> int option \<Rightarrow> purge_run option retention_comp" where
  "try_claim tenant_id purge_run_id claim_token claim_expires_at now expected_version =
     bindS (query (find_run tenant_id purge_run_id)) (\<lambda>found.
     case found of None \<Rightarrow> returnS None
     | Some r \<Rightarrow>
         if claimable claim_token now expected_version r
         then put_and_return (claim_row claim_token claim_expires_at now r) else returnS None)"

definition renew_claim ::
    "uuid \<Rightarrow> uuid \<Rightarrow> uuid \<Rightarrow> datetime \<Rightarrow> datetime \<Rightarrow> int \<Rightarrow> purge_run option retention_comp" where
  "renew_claim tenant_id purge_run_id claim_token claim_expires_at now expected_version =
     bindS (query (find_run tenant_id purge_run_id)) (\<lambda>found.
     case found of None \<Rightarrow> returnS None
     | Some r \<Rightarrow>
         if prr_claim_token r = Some claim_token \<and>
            (\<exists>e \<in> set_option (prr_claim_expires_at r). now < e) \<and> prr_version r = expected_version
         then put_and_return (r\<lparr>prr_claim_expires_at := Some claim_expires_at,
                                prr_version := prr_version r + 1, prr_updated_at := now\<rparr>)
         else returnS None)"

definition list_runs_for_tenant :: "uuid \<Rightarrow> nat \<Rightarrow> purge_run list retention_comp" where
  "list_runs_for_tenant tenant_id limit =
     bindS (query (\<lambda>db. take limit (sort_key (\<lambda>r. - instant (prr_created_at r))
              (filter (\<lambda>r. prr_tenant_id r = tenant_id) (rt_runs db)))))
       (\<lambda>rows. lift_result (map_result retention_purge_run_row_to_domain rows))"

section \<open>Batches: one record for each deleted content\<close>

definition run_stored :: "retention_db \<Rightarrow> uuid \<Rightarrow> uuid \<Rightarrow> bool" where
  "run_stored db tenant_id purge_run_id \<longleftrightarrow> find_run tenant_id purge_run_id db \<noteq> None"

definition purge_batch_add :: "purge_batch \<Rightarrow> unit retention_comp" where
  "purge_batch_add b =
     modify_db (\<lambda>db. let row = retention_purge_batch_to_row b in
       bindE (raise_if (\<not> batch_columns_fit row) xy_column_error) (\<lambda>_.
       bindE (raise_if (\<not> batch_row_checks row \<or> pbr_id row \<in> pbr_id ` set (rt_batches db) \<or>
                \<not> run_stored db (pbr_tenant_id row) (pbr_purge_run_id row)) xy_integrity_error) (\<lambda>_.
       Inr (db\<lparr>rt_batches := rt_batches db @ [row]\<rparr>))))"

definition list_for_run :: "uuid \<Rightarrow> uuid \<Rightarrow> purge_batch list retention_comp" where
  "list_for_run tenant_id purge_run_id =
     bindS (query (\<lambda>db. filter (\<lambda>r. pbr_tenant_id r = tenant_id \<and> pbr_purge_run_id r = purge_run_id)
              (rt_batches db)))
       (\<lambda>rows. lift_result (map_result retention_purge_batch_row_to_domain rows))"

text \<open>\<open>update_status\<close> does not look at the number of rows it changed.\<close>

definition batch_update_status ::
    "uuid \<Rightarrow> uuid \<Rightarrow> purge_batch_status \<Rightarrow> datetime option \<Rightarrow> unit retention_comp" where
  "batch_update_status tenant_id batch_id status completed_at =
     modify_db (\<lambda>db.
       bindE (raise_if (\<not> pred_option aware completed_at \<and>
                list_ex (\<lambda>r. pbr_tenant_id r = tenant_id \<and> pbr_id r = batch_id) (rt_batches db))
                xy_column_error) (\<lambda>_.
       Inr (db\<lparr>rt_batches := map (\<lambda>r. if pbr_tenant_id r = tenant_id \<and> pbr_id r = batch_id
                 then r\<lparr>pbr_status := purge_batch_status_value status, pbr_completed_at := completed_at\<rparr>
                 else r) (rt_batches db)\<rparr>)))"

end
