(* ===== verification/Retention_Service.thy ===== *)
theory Retention_Service
  imports Retention_Store
begin

text \<open>
  \<open>LegalHoldService\<close> (\<open>application/legal_hold_service.py\<close>), \<open>RetentionPurgeService\<close>
  (\<open>retention_purge_service.py\<close>) and \<open>RetentionPurgeHandler\<close>, the outbox handler of
  \<open>retention.delete\<close> jobs (\<open>retention_purge_handler.py\<close>), with the pass of the worker over these jobs.

  A purge is many units of work, and other sessions commit between them. What they do is a
  parameter: before a unit of work begins, and while it waits for the tenant's advisory lock, the
  stored tables are changed by \<open>re_others\<close>, a function of the serial number of the moment. Once the
  lock is granted the rest of the unit of work runs alone: the repository takes the same lock
  wherever it writes a hold. \<open>rw_seen\<close> lists the tables as they were at these moments; no
  definition reads it.
\<close>

section \<open>The environment\<close>

record retention_env =
  re_uuid4 :: "nat \<Rightarrow> uuid"
  re_clock :: "nat \<Rightarrow> datetime"
  re_others :: "nat \<Rightarrow> retention_db \<Rightarrow> retention_db"
  re_referenced :: "uuid \<Rightarrow> bool"
  re_after_failed_flush :: "retention_exc option"
  re_batch_size :: int

record retention_world = "retention_db world" +
  rw_seen :: "retention_db list"

type_synonym 'a purge_comp = "(retention_world, retention_exc, 'a) comp"

definition draw_outside :: "(nat \<Rightarrow> 'r) \<Rightarrow> 'r purge_comp" where
  "draw_outside source = (\<lambda>w. (Inr (source (w_draws w)), w\<lparr>w_draws := Suc (w_draws w)\<rparr>))"

definition interfere :: "retention_env \<Rightarrow> unit purge_comp" where
  "interfere env = (\<lambda>w. let db = re_others env (w_draws w) (w_db w) in
     (Inr (), w\<lparr>w_db := db, w_draws := Suc (w_draws w), rw_seen := rw_seen w @ [db]\<rparr>))"

definition unit_of_work :: "retention_env \<Rightarrow> 'a retention_comp \<Rightarrow> 'a purge_comp" where
  "unit_of_work env body = bindS (interfere env) (\<lambda>_. transaction body)"

text \<open>
  \<open>pg_advisory_xact_lock\<close> on the tenant: a unit of work that begins with it, or has only read
  before it, sees the tables of the moment the lock is granted.
\<close>

definition under_tenant_retention_lock :: "retention_env \<Rightarrow> uuid \<Rightarrow> 'a retention_comp \<Rightarrow> 'a purge_comp" where
  "under_tenant_retention_lock env tenant_id body = unit_of_work env body"

definition content_call :: "(retention_db, content_error, 'a) session_comp \<Rightarrow> 'a retention_comp" where
  "content_call m = wrap_error RetContentExc m"

section \<open>Legal holds\<close>

definition create_hold ::
    "retention_env \<Rightarrow> uuid \<Rightarrow> string \<Rightarrow> string option \<Rightarrow> uuid \<Rightarrow> datetime \<Rightarrow> legal_hold purge_comp" where
  "create_hold env tenant_id reason_code reason_detail created_by_user_id created_at =
     bindS (unit_of_work env (get_active_for_tenant tenant_id)) (\<lambda>existing.
     case existing of Some h \<Rightarrow> returnS h
     | None \<Rightarrow>
         bindS (draw_outside (re_uuid4 env)) (\<lambda>hold_id.
         bindS (lift_result (LegalHold_post_init
                  \<lparr>lh_id = hold_id, lh_tenant_id = tenant_id, lh_status = LH_ACTIVE,
                   lh_reason_code = reason_code, lh_reason_detail = reason_detail,
                   lh_created_by_user_id = created_by_user_id, lh_released_by_user_id = None,
                   lh_created_at = created_at, lh_released_at = None, lh_updated_at = created_at\<rparr>))
           (\<lambda>legal_hold.
         bindS (under_tenant_retention_lock env tenant_id
                  (bindS (legal_hold_add legal_hold) (\<lambda>_. commit))) (\<lambda>_.
         returnS legal_hold))))"

definition release_hold ::
    "retention_env \<Rightarrow> uuid \<Rightarrow> uuid \<Rightarrow> uuid \<Rightarrow> datetime \<Rightarrow> legal_hold purge_comp" where
  "release_hold env tenant_id legal_hold_id released_by_user_id released_at =
     bindS (unit_of_work env (legal_hold_get_by_id tenant_id legal_hold_id)) (\<lambda>found.
     case found of None \<Rightarrow> raiseS (LegalHoldNotFoundError ''legal hold not found'')
     | Some existing \<Rightarrow>
         if lh_status existing = LH_RELEASED then returnS existing
         else
           bindS (lift_result (LegalHold_post_init
                    (existing\<lparr>lh_status := LH_RELEASED,
                       lh_released_by_user_id := Some released_by_user_id,
                       lh_released_at := Some released_at, lh_updated_at := released_at\<rparr>)))
             (\<lambda>updated.
           bindS (under_tenant_retention_lock env tenant_id
                    (bindS (legal_hold_update updated) (\<lambda>_. commit))) (\<lambda>_.
           returnS updated)))"

definition tenant_has_active_hold :: "retention_env \<Rightarrow> uuid \<Rightarrow> bool purge_comp" where
  "tenant_has_active_hold env tenant_id = unit_of_work env (repo_tenant_has_active_hold tenant_id)"

section \<open>Scheduling\<close>

definition due_filter :: "uuid \<Rightarrow> datetime \<Rightarrow> int \<Rightarrow> retention_filter" where
  "due_filter tenant_id expires_before limit =
     \<lparr>rf_tenant_id = Some tenant_id, rf_expires_before = Some expires_before, rf_limit = limit\<rparr>"

text \<open>The default of \<open>EncryptedContentRetentionFilter.limit\<close>.\<close>

definition DEFAULT_RETENTION_LIMIT :: int where "DEFAULT_RETENTION_LIMIT = 100"

definition completed_dry_run :: "uuid \<Rightarrow> uuid \<Rightarrow> datetime \<Rightarrow> int \<Rightarrow> datetime \<Rightarrow> retention_exc + purge_run" where
  "completed_dry_run run_id tenant_id expires_before items_scanned requested_at =
     RetentionPurgeRun_post_init
       \<lparr>pr_id = run_id, pr_tenant_id = tenant_id, pr_status = PRS_COMPLETED, pr_dry_run = True,
        pr_expires_before = expires_before, pr_items_scanned = items_scanned, pr_items_deleted = 0,
        pr_items_skipped_legal_hold = 0, pr_started_at = Some requested_at,
        pr_completed_at = Some requested_at, pr_created_at = requested_at,
        pr_updated_at = requested_at, pr_last_error_code = None, pr_claim_token = None,
        pr_claim_expires_at = None, pr_version = 1\<rparr>"

definition dry_run :: "retention_env \<Rightarrow> uuid \<Rightarrow> datetime \<Rightarrow> datetime \<Rightarrow> purge_run purge_comp" where
  "dry_run env tenant_id expires_before requested_at =
     bindS (tenant_has_active_hold env tenant_id) (\<lambda>held.
     bindS (if held then returnS 0
            else unit_of_work env (content_call (count_due_for_retention
                   (due_filter tenant_id expires_before DEFAULT_RETENTION_LIMIT)))) (\<lambda>due_count.
     bindS (draw_outside (re_uuid4 env)) (\<lambda>run_id.
     lift_result (completed_dry_run run_id tenant_id expires_before (int due_count) requested_at))))"

definition retention_job ::
    "uuid \<Rightarrow> uuid \<Rightarrow> uuid \<Rightarrow> string \<Rightarrow> datetime \<Rightarrow> outbox_error + outbox_job" where
  "retention_job job_id tenant_id purge_run_id deduplication_key created_at =
     bindE (OutboxJobReference_post_init
              \<lparr>ref_resource_type = ''retention_purge_run'', ref_resource_id = purge_run_id,
               ref_schema_version = 1, ref_tenant_id = Some tenant_id, ref_secondary_id = None\<rparr>)
       (\<lambda>reference. build_outbox_job job_id (Some tenant_id) JK_RETENTION_DELETE reference
          deduplication_key created_at None DEFAULT_PRIORITY DEFAULT_MAX_ATTEMPTS)"

text \<open>\<open>enqueue\<close> under \<open>suppress(DuplicateOutboxJobError)\<close>.\<close>

definition enqueue_suppressed :: "retention_env \<Rightarrow> outbox_job \<Rightarrow> unit retention_comp" where
  "enqueue_suppressed env job =
     bindS (query (\<lambda>db. enqueue (rt_jobs db) job)) (\<lambda>res.
     case res of
       Inr jobs \<Rightarrow> modify_db (\<lambda>db. Inr (db\<lparr>rt_jobs := jobs\<rparr>))
     | Inl (DuplicateOutboxJobError m) \<Rightarrow>
         (case re_after_failed_flush env of None \<Rightarrow> returnS () | Some e \<Rightarrow> raiseS e)
     | Inl e \<Rightarrow> raiseS (RetOutboxStoreExc e))"

definition enqueue_retention_job ::
    "retention_env \<Rightarrow> uuid \<Rightarrow> uuid \<Rightarrow> uuid \<Rightarrow> string \<Rightarrow> datetime \<Rightarrow> unit retention_comp" where
  "enqueue_retention_job env job_id tenant_id purge_run_id deduplication_key created_at =
     (case retention_job job_id tenant_id purge_run_id deduplication_key created_at of
        Inl e \<Rightarrow> raiseS (RetOutboxExc e)
      | Inr job \<Rightarrow> enqueue_suppressed env job)"

definition purge_key :: "uuid \<Rightarrow> string" where
  "purge_key purge_run_id = ''retention_purge_'' @ uuid_str purge_run_id"

definition schedule_purge :: "retention_env \<Rightarrow> uuid \<Rightarrow> datetime \<Rightarrow> datetime \<Rightarrow> uuid purge_comp" where
  "schedule_purge env tenant_id expires_before requested_at =
     bindS (tenant_has_active_hold env tenant_id) (\<lambda>held.
     if held then raiseS (RetentionPurgeUnavailableError ''tenant is under legal hold'')
     else
       bindS (draw_outside (re_uuid4 env)) (\<lambda>purge_run_id.
       bindS (draw_outside (re_uuid4 env)) (\<lambda>job_id.
       bindS (lift_result (RetentionPurgeRun_post_init
                \<lparr>pr_id = purge_run_id, pr_tenant_id = tenant_id, pr_status = PRS_PENDING,
                 pr_dry_run = False, pr_expires_before = expires_before, pr_items_scanned = 0,
                 pr_items_deleted = 0, pr_items_skipped_legal_hold = 0, pr_started_at = None,
                 pr_completed_at = None, pr_created_at = requested_at, pr_updated_at = requested_at,
                 pr_last_error_code = None, pr_claim_token = None, pr_claim_expires_at = None,
                 pr_version = 1\<rparr>)) (\<lambda>purge_run.
       bindS (unit_of_work env
                (bindS (purge_run_add purge_run) (\<lambda>_.
                 bindS (enqueue_retention_job env job_id tenant_id purge_run_id
                          (purge_key purge_run_id) requested_at) (\<lambda>_.
                 commit)))) (\<lambda>_.
       returnS purge_run_id)))))"

definition get_purge_run :: "retention_env \<Rightarrow> uuid \<Rightarrow> uuid \<Rightarrow> purge_run option purge_comp" where
  "get_purge_run env tenant_id purge_run_id =
     unit_of_work env (purge_run_get_by_id tenant_id purge_run_id)"

section \<open>The handler\<close>

definition CLAIM_LEASE :: int where "CLAIM_LEASE = timedelta_minutes 5"
definition RENEW_AFTER_DELETIONS :: nat where "RENEW_AFTER_DELETIONS = 10"

definition stale_claim :: retention_exc where
  "stale_claim = RetentionPurgeHandlerError EC_STALE_CLAIM False"

definition finished_statuses :: "purge_run_status set" where
  "finished_statuses = {PRS_COMPLETED, PRS_CANCELLED, PRS_PAUSED}"

text \<open>The unit of work of \<open>_claim_run\<close> and that of \<open>_mark_run_paused\<close>.\<close>

definition claim_in_session :: "uuid \<Rightarrow> uuid \<Rightarrow> uuid \<Rightarrow> datetime \<Rightarrow> purge_run option retention_comp" where
  "claim_in_session tenant_id purge_run_id claim_token now =
     bindS (purge_run_get_by_id tenant_id purge_run_id) (\<lambda>found.
     case found of None \<Rightarrow> raiseS (RetentionPurgeHandlerError EC_RESOURCE_UNAVAILABLE True)
     | Some existing \<Rightarrow>
         if pr_status existing \<in> finished_statuses then returnS (Some existing)
         else
           bindS (try_claim tenant_id purge_run_id claim_token (dt_plus now CLAIM_LEASE) now
                    (Some (pr_version existing))) (\<lambda>claimed.
           bindS commit (\<lambda>_. returnS claimed)))"

definition claim_run :: "retention_env \<Rightarrow> uuid \<Rightarrow> uuid \<Rightarrow> uuid \<Rightarrow> purge_run option purge_comp" where
  "claim_run env tenant_id purge_run_id claim_token =
     bindS (draw_outside (re_clock env)) (\<lambda>now.
     unit_of_work env (claim_in_session tenant_id purge_run_id claim_token now))"

definition paused_run :: "purge_run \<Rightarrow> bool \<Rightarrow> int option \<Rightarrow> int option \<Rightarrow> datetime \<Rightarrow> retention_exc + purge_run" where
  "paused_run purge_run skipped items_scanned items_deleted now =
     RetentionPurgeRun_post_init
       (purge_run\<lparr>pr_status := PRS_PAUSED,
          pr_items_skipped_legal_hold := pr_items_skipped_legal_hold purge_run + (if skipped then 1 else 0),
          pr_items_scanned := (case items_scanned of Some n \<Rightarrow> n | None \<Rightarrow> pr_items_scanned purge_run),
          pr_items_deleted := (case items_deleted of Some n \<Rightarrow> n | None \<Rightarrow> pr_items_deleted purge_run),
          pr_claim_token := None, pr_claim_expires_at := None, pr_updated_at := now,
          pr_last_error_code := Some ''legal_hold_active''\<rparr>)"

definition pause_in_session ::
    "uuid \<Rightarrow> uuid \<Rightarrow> bool \<Rightarrow> int option \<Rightarrow> int option \<Rightarrow> datetime \<Rightarrow> unit retention_comp" where
  "pause_in_session tenant_id purge_run_id skipped items_scanned items_deleted now =
     bindS (purge_run_get_by_id tenant_id purge_run_id) (\<lambda>found.
     case found of None \<Rightarrow> returnS ()
     | Some purge_run \<Rightarrow>
         bindS (lift_result (paused_run purge_run skipped items_scanned items_deleted now)) (\<lambda>paused.
         bindS (purge_run_update paused) (\<lambda>_. commit)))"

definition mark_run_paused ::
    "retention_env \<Rightarrow> uuid \<Rightarrow> uuid \<Rightarrow> bool \<Rightarrow> int option \<Rightarrow> int option \<Rightarrow> unit purge_comp" where
  "mark_run_paused env tenant_id purge_run_id skipped items_scanned items_deleted =
     bindS (draw_outside (re_clock env)) (\<lambda>now.
     unit_of_work env
       (pause_in_session tenant_id purge_run_id skipped items_scanned items_deleted now))"

definition maybe_renew_claim ::
    "retention_env \<Rightarrow> purge_run \<Rightarrow> uuid \<Rightarrow> nat \<Rightarrow> (purge_run \<times> nat) purge_comp" where
  "maybe_renew_claim env claimed claim_token deletions_since_renewal =
     bindS (draw_outside (re_clock env)) (\<lambda>now.
     case pr_claim_expires_at claimed of None \<Rightarrow> returnS (claimed, deletions_since_renewal)
     | Some expires \<Rightarrow>
         if \<not> (3 * (instant expires - instant now) \<le> CLAIM_LEASE \<or>
               RENEW_AFTER_DELETIONS \<le> deletions_since_renewal)
         then returnS (claimed, deletions_since_renewal)
         else
           bindS (unit_of_work env
                    (bindS (renew_claim (pr_tenant_id claimed) (pr_id claimed) claim_token
                              (dt_plus now CLAIM_LEASE) now (pr_version claimed)) (\<lambda>renewed.
                     bindS commit (\<lambda>_. returnS renewed)))) (\<lambda>renewed.
           case renewed of None \<Rightarrow> raiseS stale_claim | Some r \<Rightarrow> returnS (r, 0)))"

text \<open>The unit of work that deletes one content; its result says whether a hold was found instead.\<close>

definition delete_and_record ::
    "retention_env \<Rightarrow> uuid \<Rightarrow> uuid \<Rightarrow> uuid \<Rightarrow> datetime \<Rightarrow> bool retention_comp" where
  "delete_and_record env tenant_id purge_run_id content_id now =
     bindS (repo_tenant_has_active_hold tenant_id) (\<lambda>held.
     if held then returnS True
     else
       bindS (draw (re_uuid4 env)) (\<lambda>batch_id.
       bindS (lift_result (RetentionPurgeBatch_post_init
                \<lparr>pb_id = batch_id, pb_tenant_id = tenant_id, pb_purge_run_id = purge_run_id,
                 pb_deleted_content_id = content_id, pb_status = PBS_PENDING,
                 pb_created_at = now, pb_completed_at = None\<rparr>)) (\<lambda>batch.
       bindS (purge_batch_add batch) (\<lambda>_.
       bindS (content_call (content_delete (re_referenced env) tenant_id content_id)) (\<lambda>_.
       bindS (batch_update_status tenant_id (pb_id batch) PBS_COMPLETED (Some now)) (\<lambda>_.
       bindS commit (\<lambda>_. returnS False)))))))"

definition delete_content_under_lock ::
    "retention_env \<Rightarrow> uuid \<Rightarrow> uuid \<Rightarrow> encrypted_content \<Rightarrow> int \<Rightarrow> int \<Rightarrow> bool purge_comp" where
  "delete_content_under_lock env tenant_id purge_run_id content items_scanned items_deleted =
     bindS (draw_outside (re_clock env)) (\<lambda>now.
     bindS (under_tenant_retention_lock env tenant_id
              (delete_and_record env tenant_id purge_run_id (ec_id content) now)) (\<lambda>held.
     if held
     then bindS (mark_run_paused env tenant_id purge_run_id True (Some items_scanned) (Some items_deleted))
            (\<lambda>_. returnS True)
     else returnS False))"

text \<open>The loop over the due contents; \<open>None\<close> when a hold ended it.\<close>

fun delete_due ::
    "retention_env \<Rightarrow> uuid \<Rightarrow> uuid \<Rightarrow> encrypted_content list \<Rightarrow> purge_run \<Rightarrow> int \<Rightarrow> nat \<Rightarrow>
     (purge_run \<times> int) option purge_comp" where
  "delete_due env tenant_id claim_token [] claimed batch_deleted deletions_since_renewal =
     returnS (Some (claimed, batch_deleted))"
| "delete_due env tenant_id claim_token (content # rest) claimed batch_deleted deletions_since_renewal =
     bindS (maybe_renew_claim env claimed claim_token deletions_since_renewal) (\<lambda>(claimed, since).
     bindS (delete_content_under_lock env tenant_id (pr_id claimed) content
              (pr_items_scanned claimed + batch_deleted) (pr_items_deleted claimed + batch_deleted)) (\<lambda>paused.
     if paused then returnS None
     else delete_due env tenant_id claim_token rest claimed (batch_deleted + 1) (since + 1)))"

definition list_due :: "retention_env \<Rightarrow> uuid \<Rightarrow> datetime \<Rightarrow> int \<Rightarrow> encrypted_content list retention_comp" where
  "list_due env tenant_id expires_before limit =
     content_call (list_due_for_retention (due_filter tenant_id expires_before limit))"

definition continuation_key :: "uuid \<Rightarrow> int \<Rightarrow> string" where
  "continuation_key purge_run_id items_deleted =
     purge_key purge_run_id @ ''_cont_'' @ int_str items_deleted"

text \<open>The last unit of work: the run goes on with another job, or is completed.\<close>

definition finish_batch :: "retention_env \<Rightarrow> uuid \<Rightarrow> purge_run \<Rightarrow> datetime \<Rightarrow> unit retention_comp" where
  "finish_batch env tenant_id updated_run now =
     bindS (list_due env tenant_id (pr_expires_before updated_run) 1) (\<lambda>remaining.
     bindS
       (if remaining \<noteq> []
        then
          bindS (purge_run_update updated_run) (\<lambda>_.
          bindS (draw (re_uuid4 env)) (\<lambda>continuation_job_id.
          enqueue_retention_job env continuation_job_id tenant_id (pr_id updated_run)
            (continuation_key (pr_id updated_run) (pr_items_deleted updated_run)) now))
        else
          bindS (lift_result (RetentionPurgeRun_post_init
                   (updated_run\<lparr>pr_status := PRS_COMPLETED, pr_completed_at := Some now,
                      pr_claim_token := None, pr_claim_expires_at := None\<rparr>))) (\<lambda>completed.
          purge_run_update completed)) (\<lambda>_.
     commit))"

definition batch_result :: "purge_run \<Rightarrow> uuid \<Rightarrow> int \<Rightarrow> int \<Rightarrow> datetime \<Rightarrow> retention_exc + purge_run" where
  "batch_result claimed claim_token scanned batch_deleted now =
     RetentionPurgeRun_post_init
       (claimed\<lparr>pr_items_scanned := pr_items_scanned claimed + scanned,
          pr_items_deleted := pr_items_deleted claimed + batch_deleted, pr_updated_at := now,
          pr_claim_token := Some claim_token, pr_claim_expires_at := Some (dt_plus now CLAIM_LEASE)\<rparr>)"

definition purge_batch_of ::
    "retention_env \<Rightarrow> uuid \<Rightarrow> uuid \<Rightarrow> purge_run \<Rightarrow> unit purge_comp" where
  "purge_batch_of env tenant_id claim_token claimed =
     bindS (unit_of_work env (list_due env tenant_id (pr_expires_before claimed) (re_batch_size env))) (\<lambda>due.
     bindS (delete_due env tenant_id claim_token due claimed 0 0) (\<lambda>outcome.
     case outcome of None \<Rightarrow> returnS ()
     | Some (claimed, batch_deleted) \<Rightarrow>
         bindS (draw_outside (re_clock env)) (\<lambda>now.
         bindS (lift_result (batch_result claimed claim_token (int (length due)) batch_deleted now)) (\<lambda>updated_run.
         unit_of_work env (finish_batch env tenant_id updated_run now)))))"

definition purge_run_of ::
    "retention_env \<Rightarrow> uuid \<Rightarrow> uuid \<Rightarrow> uuid \<Rightarrow> unit purge_comp" where
  "purge_run_of env tenant_id purge_run_id claim_token =
     bindS (tenant_has_active_hold env tenant_id) (\<lambda>held.
     if held then mark_run_paused env tenant_id purge_run_id True None None
     else
       bindS (claim_run env tenant_id purge_run_id claim_token) (\<lambda>claimed.
       case claimed of None \<Rightarrow> raiseS stale_claim
       | Some claimed \<Rightarrow>
           if pr_status claimed \<in> finished_statuses then returnS ()
           else
             bindS (tenant_has_active_hold env tenant_id) (\<lambda>held.
             if held then mark_run_paused env tenant_id (pr_id claimed) True None None
             else purge_batch_of env tenant_id claim_token claimed)))"

definition handle_retention_job :: "retention_env \<Rightarrow> outbox_job \<Rightarrow> unit purge_comp" where
  "handle_retention_job env job =
     (case oj_tenant_id job of
        None \<Rightarrow> raiseS (RetentionPurgeHandlerError EC_MALFORMED_PROVIDER_EVENT True)
      | Some tenant_id \<Rightarrow>
          if ref_resource_type (oj_reference job) \<noteq> ''retention_purge_run''
          then raiseS (RetentionPurgeHandlerError EC_UNSUPPORTED_OPERATION True)
          else
            bindS (case oj_claim_token job of Some t \<Rightarrow> returnS t | None \<Rightarrow> draw_outside (re_uuid4 env))
              (purge_run_of env tenant_id (ref_resource_id (oj_reference job))))"

end
