(* ===== verification/Retention_Laws.thy ===== *)
theory Retention_Laws
  imports Retention_Service
begin

text \<open>
  What a purge does to the stored tables while other sessions commit between its units of work.

  An invariant \<open>J\<close> of the tables and a reflexive and transitive relation \<open>R\<close> between earlier and
  later tables are kept by other sessions and by every unit of work. Then, in a run of the handler,
  the tables of every moment are related to those at the end. The locales \<open>purge_parts\<close> and
  \<open>purge_steps\<close> ask for this once per kind of statement and give it for the parts of the handler and
  for the handler as a whole.
\<close>

section \<open>Statements that change runs and jobs\<close>

lemma find_run_Some:
  assumes "find_run t i db = Some row"
  shows "row \<in> set (rt_runs db)" and "prr_tenant_id row = t" and "prr_id row = i"
  using assms by (auto simp: find_run_def find_Some_iff)

lemma run_to_domain_Inr:
  assumes "retention_purge_run_row_to_domain row = Inr p"
  shows "pr_id p = prr_id row" and "pr_tenant_id p = prr_tenant_id row"
    and "pr_expires_before p = prr_expires_before row"
  using assms by (auto simp: retention_purge_run_row_to_domain_def split: option.splits dest!: RetentionPurgeRun_Inr)

lemma keeps_optional_domain [keeps_intros]: "keeps I (optional_domain f row)"
  by (auto simp: optional_domain_def split: option.splits intro!: keeps_intros)

lemma keeps_content_call [keeps_intros]: "yields I m R \<Longrightarrow> yields I (content_call m) R"
  unfolding content_call_def by (rule yields_wrap)

lemma keeps_get_active [keeps_intros]: "keeps I (get_active_for_tenant t)"
  unfolding get_active_for_tenant_def by (intro keeps_intros)

lemma keeps_has_hold [keeps_intros]: "keeps I (repo_tenant_has_active_hold t)"
  unfolding repo_tenant_has_active_hold_def by (intro keeps_intros)

lemma keeps_row_to_contents [keeps_intros]: "keeps I (list_due env t x n)"
  unfolding list_due_def list_due_for_retention_def by (intro keeps_intros)

lemma keeps_enqueue:
  assumes "\<And>db js. I db \<Longrightarrow> I (db\<lparr>rt_jobs := js\<rparr>)"
  shows "keeps I (enqueue_retention_job env j t i key now)"
proof -
  have store: "keeps I (modify_db (\<lambda>db. Inr (db\<lparr>rt_jobs := js\<rparr>)) :: unit retention_comp)" for js
    by (rule keeps_modify) (auto intro: assms)
  show ?thesis
    unfolding enqueue_retention_job_def enqueue_suppressed_def
    by (auto split: sum.splits outbox_repo_error.splits option.splits intro!: keeps_intros store)
qed

section \<open>The due contents\<close>

lemma content_domain_identifier:
  "encrypted_content_to_domain row = Inr c \<Longrightarrow> ec_id c = ecr_id row"
  by (auto simp: encrypted_content_to_domain_def EncryptedContent_post_init_def bindE_Inr_iff split: option.splits bool.splits)

lemma to_contents_identifiers: "to_contents rows = Inr cs \<Longrightarrow> map ec_id cs = map ecr_id rows"
  by (induction rows arbitrary: cs) (auto simp: to_contents_def bindE_Inr_iff content_domain_identifier)

lemma list_due_Inr:
  assumes "list_due env t x n s = (Inr cs, s')"
  shows "s' = s" and "1 \<le> n"
    and "map ec_id cs = map ecr_id (take (nat n)
           (sort_key (\<lambda>r. (ecr_expires_at r, ecr_id r)) (due_rows (due_filter t x n) (se_db s))))"
  using assms to_contents_identifiers
  by (auto simp: list_due_def content_call_def list_due_for_retention_def due_filter_def elim!: bindS_InrE)

lemma list_due_elements:
  assumes "list_due env t x n s = (Inr cs, s')" and "c \<in> set cs"
  obtains row where "row \<in> set (cd_contents (se_db s))" and "ecr_tenant_id row = t"
    and "ecr_expires_at row \<le> x" and "ec_id c = ecr_id row"
proof -
  let ?rows = "sort_key (\<lambda>r. (ecr_expires_at r, ecr_id r)) (due_rows (due_filter t x n) (se_db s))"
  have "ec_id c \<in> set (map ec_id cs)" using assms(2) by simp
  then obtain row where "row \<in> set (take (nat n) ?rows)" and "ec_id c = ecr_id row"
    unfolding list_due_Inr(3) [OF assms(1)] by auto
  then show ?thesis
    using that in_set_takeD [of row "nat n" ?rows] by (auto simp: due_rows_def due_filter_def)
qed

section \<open>The deletion of one content\<close>

definition deleted_and_recorded :: "uuid \<Rightarrow> uuid \<Rightarrow> purge_batch_row \<Rightarrow> retention_db \<Rightarrow> retention_db" where
  "deleted_and_recorded t c batch db =
     db\<lparr>cd_contents := filter (\<lambda>r. \<not> (ecr_tenant_id r = t \<and> ecr_id r = c)) (cd_contents db),
        rt_batches := rt_batches db @ [batch]\<rparr>"

definition completed_batch :: "uuid \<Rightarrow> uuid \<Rightarrow> uuid \<Rightarrow> purge_batch_row \<Rightarrow> bool" where
  "completed_batch t i c batch \<longleftrightarrow>
     pbr_tenant_id batch = t \<and> pbr_purge_run_id batch = i \<and> pbr_deleted_content_id batch = c \<and>
     pbr_status batch = purge_batch_status_value PBS_COMPLETED"

lemma uncommitting_retention [uncommitting_intros]:
  "uncommitting (optional_domain f row)" "uncommitting (repo_tenant_has_active_hold t)"
  "uncommitting (purge_batch_add b)" "uncommitting (batch_update_status t i st x)"
  "uncommitting (content_call (content_delete ref t c))"
  unfolding optional_domain_def repo_tenant_has_active_hold_def get_active_for_tenant_def
    purge_batch_add_def batch_update_status_def content_call_def content_delete_def write_contents_def
  by (auto split: option.splits intro!: uncommitting_intros)

lemma sort_key_Nil_iff [simp]: "sort_key f xs = [] \<longleftrightarrow> xs = []"
  by (metis length_0_conv length_sort)

lemma has_hold_Inr:
  "repo_tenant_has_active_hold t s = (Inr held, s') \<Longrightarrow> s' = s \<and> (held \<longleftrightarrow> active_holds t (se_db s) \<noteq> [])"
  by (auto simp: repo_tenant_has_active_hold_def get_active_for_tenant_def optional_domain_def
      elim!: bindS_InrE split: option.splits list.splits)

lemma batch_add_Inr:
  assumes "purge_batch_add b s = (Inr x, s')"
  shows "se_db s' = (se_db s)\<lparr>rt_batches := rt_batches (se_db s) @ [retention_purge_batch_to_row b]\<rparr>"
    and "pb_id b \<notin> pbr_id ` set (rt_batches (se_db s))" and "se_saved s' = se_saved s"
  using assms by (auto simp: purge_batch_add_def Let_def bindE_Inr_iff retention_purge_batch_to_row_def)

lemma content_delete_Inr:
  assumes "content_call (content_delete ref t c) s = (Inr x, s')"
  shows "se_db s' = (se_db s)\<lparr>cd_contents :=
      filter (\<lambda>r. \<not> (ecr_tenant_id r = t \<and> ecr_id r = c)) (cd_contents (se_db s))\<rparr>"
  using assms by (auto simp: content_call_def content_delete_def write_contents_def bindE_Inr_iff elim!: bindS_InrE)

lemma map_fresh_batch:
  "b \<notin> pbr_id ` set rows \<Longrightarrow> map (\<lambda>r. if pbr_tenant_id r = t \<and> pbr_id r = b then f r else r) rows = rows"
  by (rule map_idI) auto

text \<open>What it stores, if it stores anything.\<close>

lemma delete_effect:
  assumes run: "delete_and_record env t i c now s = (r, s')"
  obtains (same) "se_saved s' = se_saved s"
  | (deleted) batch where "active_holds t (se_db s) = []"
      and "se_saved s' = deleted_and_recorded t c batch (se_db s)" and "completed_batch t i c batch"
      and "pbr_id batch \<notin> pbr_id ` set (rt_batches (se_db s))"
proof (cases "se_saved s' = se_saved s")
  case True
  then show ?thesis by (rule same)
next
  case False
  with run have "changes (delete_and_record env t i c now) s r s'" by (simp add: changes_def)
  then show ?thesis
    unfolding delete_and_record_def
  proof (rule changes_bindE)
    show "uncommitting (repo_tenant_has_active_hold t)" by (intro uncommitting_intros)
    fix held s1
    assume "repo_tenant_has_active_hold t s = (Inr held, s1)"
    then have s1: "s1 = s" "held \<longleftrightarrow> active_holds t (se_db s) \<noteq> []" using has_hold_Inr by blast+
    define body where "body = (\<lambda>batch. bindS (purge_batch_add batch) (\<lambda>_.
       bindS (content_call (content_delete (re_referenced env) t c)) (\<lambda>_.
       bindS (batch_update_status t (pb_id batch) PBS_COMPLETED (Some now)) (\<lambda>_.
       bindS commit (\<lambda>_. returnS False)))))"
    assume "changes (if held then returnS True
       else bindS (draw (re_uuid4 env)) (\<lambda>batch_id.
       bindS (lift_result (RetentionPurgeBatch_post_init
                \<lparr>pb_id = batch_id, pb_tenant_id = t, pb_purge_run_id = i,
                 pb_deleted_content_id = c, pb_status = PBS_PENDING,
                 pb_created_at = now, pb_completed_at = None\<rparr>)) (\<lambda>batch.
       bindS (purge_batch_add batch) (\<lambda>_.
       bindS (content_call (content_delete (re_referenced env) t c)) (\<lambda>_.
       bindS (batch_update_status t (pb_id batch) PBS_COMPLETED (Some now)) (\<lambda>_.
       bindS commit (\<lambda>_. returnS False))))))) s1 r s'"
    then obtain b s2 where free: "\<not> held" and s2: "se_db s2 = se_db s"
      and rest: "changes (body \<lparr>pb_id = b, pb_tenant_id = t, pb_purge_run_id = i,
         pb_deleted_content_id = c, pb_status = PBS_PENDING, pb_created_at = now, pb_completed_at = None\<rparr>) s2 r s'"
      unfolding body_def by (auto elim!: changes_elims dest!: RetentionPurgeBatch_Inr simp: s1(1))
    define batch where "batch = \<lparr>pb_id = b, pb_tenant_id = t, pb_purge_run_id = i,
      pb_deleted_content_id = c, pb_status = PBS_PENDING, pb_created_at = now, pb_completed_at = None\<rparr>"
    define row where "row = (retention_purge_batch_to_row batch)
      \<lparr>pbr_status := purge_batch_status_value PBS_COMPLETED, pbr_completed_at := Some now\<rparr>"
    from rest obtain u1 s3 u2 s4 u3 s5 where add: "purge_batch_add batch s2 = (Inr u1, s3)"
      and del: "content_call (content_delete (re_referenced env) t c) s3 = (Inr u2, s4)"
      and upd: "batch_update_status t b PBS_COMPLETED (Some now) s4 = (Inr u3, s5)"
      and stored: "se_saved s' = se_db s5"
      unfolding body_def batch_def [symmetric]
      by (elim changes_bindE changes_commit) (auto intro!: uncommitting_intros simp: batch_def)
    have fresh: "b \<notin> pbr_id ` set (rt_batches (se_db s))" using batch_add_Inr(2) [OF add] by (simp add: s2 batch_def)
    have "se_saved s' = deleted_and_recorded t c row (se_db s)"
      using upd by (auto simp: stored batch_update_status_def bindE_Inr_iff deleted_and_recorded_def
          content_delete_Inr [OF del] batch_add_Inr(1) [OF add] s2 map_fresh_batch [OF fresh] row_def
          retention_purge_batch_to_row_def batch_def)
    then show ?thesis
      using deleted [of row] free s1(2) fresh
      by (simp add: completed_batch_def row_def retention_purge_batch_to_row_def batch_def)
  qed
qed

section \<open>Relations kept by a run\<close>

definition related_to_end ::
    "(retention_db \<Rightarrow> retention_db \<Rightarrow> bool) \<Rightarrow> retention_world \<Rightarrow> retention_world \<Rightarrow> bool" where
  "related_to_end R w w' \<longleftrightarrow>
     (\<exists>seen. rw_seen w' = rw_seen w @ seen \<and> (\<forall>d \<in> set (w_db w # seen). R d (w_db w')))"

locale retention_steps =
  fixes J :: "retention_db \<Rightarrow> bool"
    and R :: "retention_db \<Rightarrow> retention_db \<Rightarrow> bool"
    and env :: retention_env
  assumes refl: "R d d"
    and trans: "R a b \<Longrightarrow> R b c \<Longrightarrow> R a c"
    and others: "J d \<Longrightarrow> J (re_others env n d) \<and> R d (re_others env n d)"
begin

definition within :: "'a purge_comp \<Rightarrow> ('a \<Rightarrow> bool) \<Rightarrow> bool" where
  "within m Q \<longleftrightarrow> (\<forall>w r w'. J (w_db w) \<longrightarrow> m w = (r, w') \<longrightarrow>
     J (w_db w') \<and> related_to_end R w w' \<and> (\<forall>x. r = Inr x \<longrightarrow> Q x))"

definition during :: "retention_db \<Rightarrow> retention_db \<Rightarrow> bool" where
  "during d e \<longleftrightarrow> J e \<and> R d e"

lemma withinI:
  "(\<And>w r w'. J (w_db w) \<Longrightarrow> m w = (r, w') \<Longrightarrow>
     J (w_db w') \<and> related_to_end R w w' \<and> (\<forall>x. r = Inr x \<longrightarrow> Q x)) \<Longrightarrow> within m Q"
  unfolding within_def by blast

lemma withinD:
  assumes "within m Q" and "J (w_db w)" and "m w = (r, w')"
  shows "J (w_db w')" and "related_to_end R w w'" and "r = Inr x \<Longrightarrow> Q x"
  using assms unfolding within_def by blast+

lemma related_refl: "w_db w' = w_db w \<Longrightarrow> rw_seen w' = rw_seen w \<Longrightarrow> related_to_end R w w'"
  unfolding related_to_end_def using refl by (intro exI [of _ "[]"]) simp

lemma related_trans:
  assumes "related_to_end R u v" and "related_to_end R v w"
  shows "related_to_end R u w"
proof -
  obtain a b where "rw_seen v = rw_seen u @ a" "\<forall>d \<in> set (w_db u # a). R d (w_db v)"
    and "rw_seen w = rw_seen v @ b" "\<forall>d \<in> set (w_db v # b). R d (w_db w)"
    using assms unfolding related_to_end_def by blast
  then show ?thesis
    unfolding related_to_end_def by (intro exI [of _ "a @ b"]) (auto intro: trans)
qed

lemma within_basic:
  "Q x \<Longrightarrow> within (returnS x) Q" "within (raiseS e) Q" "within (draw_outside src) (\<lambda>_. True)"
  "(\<And>x. r = Inr x \<Longrightarrow> Q x) \<Longrightarrow> within (lift_result r) Q"
  by (auto intro!: withinI related_refl simp: draw_outside_def lift_result_def)

lemma within_weaken: "within m Q \<Longrightarrow> (\<And>x. Q x \<Longrightarrow> P x) \<Longrightarrow> within m P"
  unfolding within_def by blast

lemma within_bind:
  assumes m: "within m Q" and f: "\<And>x. Q x \<Longrightarrow> within (f x) P"
  shows "within (bindS m f) P"
proof (rule withinI)
  fix w r w'
  assume w: "J (w_db w)" and run: "bindS m f w = (r, w')"
  obtain q v where q: "m w = (q, v)" by fastforce
  note first = withinD [OF m w q]
  show "J (w_db w') \<and> related_to_end R w w' \<and> (\<forall>x. r = Inr x \<longrightarrow> P x)"
  proof (cases q)
    case (Inl e)
    then show ?thesis using first run q by (auto simp: bindS_def)
  next
    case (Inr x)
    then have rest: "f x v = (r, w')" using run q by (simp add: bindS_def)
    note second = withinD [OF f [OF first(3) [OF Inr]] first(1) rest]
    show ?thesis using second(1,3) related_trans [OF first(2) second(2)] by blast
  qed
qed

lemma within_if: "(c \<Longrightarrow> within m Q) \<Longrightarrow> (\<not> c \<Longrightarrow> within k Q) \<Longrightarrow> within (if c then m else k) Q"
  by simp

lemma within_option:
  "(x = None \<Longrightarrow> within m Q) \<Longrightarrow> (\<And>y. x = Some y \<Longrightarrow> within (f y) Q) \<Longrightarrow>
   within (case x of None \<Rightarrow> m | Some y \<Rightarrow> f y) Q"
  by (cases x) simp_all

lemma within_unit_stored:
  assumes "\<And>d s r s'. J d \<Longrightarrow> session_inv (during d) s \<Longrightarrow> body s = (r, s') \<Longrightarrow>
    during d (se_saved s') \<and> (\<forall>x. r = Inr x \<longrightarrow> Q x)"
  shows "within (unit_of_work env body) Q"
proof (rule withinI)
  fix w r w'
  assume w: "J (w_db w)" and run: "unit_of_work env body w = (r, w')"
  define d where "d = re_others env (w_draws w) (w_db w)"
  define v where "v = w\<lparr>w_db := d, w_draws := Suc (w_draws w), rw_seen := rw_seen w @ [d]\<rparr>"
  have d: "J d" "R (w_db w) d" using others [OF w] by (simp_all add: d_def)
  obtain s where s: "body (open_session v) = (r, s)" and w': "w' = close_session s v"
    using run by (auto simp: unit_of_work_def bindS_def interfere_def transaction_def Let_def d_def v_def
        split: prod.splits)
  have "session_inv (during d) (open_session v)"
    using d(1) refl by (simp add: session_inv_def during_def v_def)
  note kept = assms [OF d(1) this s]
  then have stored: "J (w_db w')" "R d (w_db w')" by (simp_all add: w' during_def)
  have "related_to_end R w w'"
    unfolding related_to_end_def using stored(2) trans [OF d(2) stored(2)]
    by (intro exI [of _ "[d]"]) (simp add: w' v_def close_session_def)
  then show "J (w_db w') \<and> related_to_end R w w' \<and> (\<forall>x. r = Inr x \<longrightarrow> Q x)"
    using stored(1) kept by blast
qed

lemma within_unit:
  assumes "\<And>d. J d \<Longrightarrow> yields (during d) body Q"
  shows "within (unit_of_work env body) Q"
proof (rule within_unit_stored)
  fix d s r s'
  assume d: "J d" and s: "session_inv (during d) s" and run: "body s = (r, s')"
  note kept = yieldsD [OF assms [OF d] s]
  show "during d (se_saved s') \<and> (\<forall>x. r = Inr x \<longrightarrow> Q x)"
    using kept(1) [OF run] kept(2) run by (auto simp: session_inv_def)
qed

lemma within_lock:
  "(\<And>d. J d \<Longrightarrow> yields (during d) body Q) \<Longrightarrow> within (under_tenant_retention_lock env t body) Q"
  unfolding under_tenant_retention_lock_def by (rule within_unit)

lemma within_has_hold: "within (tenant_has_active_hold env t) (\<lambda>_. True)"
  unfolding tenant_has_active_hold_def by (rule within_unit) (rule keeps_has_hold)

end

section \<open>The handler\<close>

definition same_run :: "purge_run_row \<Rightarrow> purge_run_row \<Rightarrow> bool" where
  "same_run row row' \<longleftrightarrow>
     prr_id row' = prr_id row \<and> prr_tenant_id row' = prr_tenant_id row \<and>
     prr_expires_before row' = prr_expires_before row"

definition replace_run :: "purge_run_row \<Rightarrow> retention_db \<Rightarrow> retention_db" where
  "replace_run row db =
     db\<lparr>rt_runs := map (\<lambda>r. if prr_id r = prr_id row then row else r) (rt_runs db)\<rparr>"

lemma same_run_changes:
  "same_run row (assign_run row p)" "same_run row (claim_row tok e now row)"
  "same_run row (row\<lparr>prr_claim_expires_at := x, prr_version := v, prr_updated_at := now\<rparr>)"
  by (simp_all add: same_run_def assign_run_def claim_row_def)

text \<open>
  \<open>Mine t i x\<close>: the run \<open>i\<close> of tenant \<open>t\<close> purges what expired before \<open>x\<close>; \<open>Due t i c\<close>: it may delete
  the content \<open>c\<close>.
\<close>

locale purge_parts = retention_steps J R env
  for J :: "retention_db \<Rightarrow> bool" and R :: "retention_db \<Rightarrow> retention_db \<Rightarrow> bool" and env :: retention_env +
  fixes Mine :: "uuid \<Rightarrow> uuid \<Rightarrow> datetime \<Rightarrow> bool"
    and Due :: "uuid \<Rightarrow> uuid \<Rightarrow> uuid \<Rightarrow> bool"
  assumes mine: "J e \<Longrightarrow> row \<in> set (rt_runs e) \<Longrightarrow>
      Mine (prr_tenant_id row) (prr_id row) (prr_expires_before row)"
    and runs: "during d e \<Longrightarrow> row \<in> set (rt_runs e) \<Longrightarrow> same_run row row' \<Longrightarrow> during d (replace_run row' e)"
    and due: "J e \<Longrightarrow> Mine t i x \<Longrightarrow> content \<in> set (cd_contents e) \<Longrightarrow> ecr_tenant_id content = t \<Longrightarrow>
      ecr_expires_at content \<le> x \<Longrightarrow> Due t i (ecr_id content)"
    and delete: "during d e \<Longrightarrow> Due t i c \<Longrightarrow> active_holds t e = [] \<Longrightarrow> completed_batch t i c batch \<Longrightarrow>
      pbr_id batch \<notin> pbr_id ` set (rt_batches e) \<Longrightarrow> during d (deleted_and_recorded t c batch e)"
begin

definition own :: "uuid \<Rightarrow> purge_run \<Rightarrow> bool" where
  "own t p \<longleftrightarrow> pr_tenant_id p = t \<and> Mine t (pr_id p) (pr_expires_before p)"

definition owned :: "uuid \<Rightarrow> uuid \<Rightarrow> purge_run option \<Rightarrow> bool" where
  "owned t i found \<longleftrightarrow> (\<forall>p. found = Some p \<longrightarrow> own t p \<and> pr_id p = i)"

lemma put_run_step:
  assumes "session_inv (during d) s" and "row \<in> set (rt_runs (se_db s))" and "same_run row row'"
    and "put_run row' s = (r, s')"
  shows "session_inv (during d) s'"
  using assms runs [of d "se_db s" row row'] unfolding session_inv_def put_run_def modify_db_def replace_run_def
  by (auto simp: bindE_Inr_iff split: sum.splits)

lemma own_row:
  assumes "during d e" and "row \<in> set (rt_runs e)" and "same_run row row'"
    and "retention_purge_run_row_to_domain row' = Inr p"
  shows "own (prr_tenant_id row) p" and "pr_id p = prr_id row"
  using assms mine run_to_domain_Inr [OF assms(4)] unfolding own_def during_def same_run_def by metis+

lemma yields_get_run: "yields (during d) (purge_run_get_by_id t i) (owned t i)"
proof (rule yieldsI)
  fix s r s'
  assume s: "session_inv (during d) s" and run: "purge_run_get_by_id t i s = (r, s')"
  have "s' = s"
    using run by (auto simp: purge_run_get_by_id_def bindS_def query_def optional_domain_def lift_result_def
        split: option.splits sum.splits)
  moreover have "owned t i x" if "r = Inr x" for x
    using run that s find_run_Some [of t i "se_db s"] own_row [of d "se_db s"]
    by (auto simp: purge_run_get_by_id_def bindS_def query_def optional_domain_def lift_result_def owned_def
        session_inv_def same_run_def split: option.splits sum.splits)
  ultimately show "session_inv (during d) s' \<and> (\<forall>x. r = Inr x \<longrightarrow> owned t i x)" using s by blast
qed

lemma yields_put_found:
  assumes "\<And>row. same_run row (f row)"
  shows "yields (during d)
    (bindS (query (find_run t i)) (\<lambda>found.
     case found of None \<Rightarrow> returnS None
     | Some row \<Rightarrow> if c row then put_and_return (f row) else returnS None)) (owned t i)"
    (is "yields _ ?m _")
proof (rule yieldsI)
  fix s r s'
  assume s: "session_inv (during d) s" and run: "?m s = (r, s')"
  show "session_inv (during d) s' \<and> (\<forall>x. r = Inr x \<longrightarrow> owned t i x)"
  proof (cases "\<exists>row. find_run t i (se_db s) = Some row \<and> c row")
    case False
    then show ?thesis using run s
      by (auto simp: bindS_def query_def owned_def split: option.splits if_splits)
  next
    case True
    then obtain row where row: "find_run t i (se_db s) = Some row" and c: "c row" by blast
    note found = find_run_Some [OF row]
    obtain q u where put: "put_run (f row) s = (q, u)" by fastforce
    note kept = put_run_step [OF s found(1) assms put]
    have "during d (se_db s)" using s by (simp add: session_inv_def)
    note own = own_row [OF this found(1) assms]
    show ?thesis
      using run kept own found
      by (auto simp: bindS_def query_def row c put put_and_return_def optional_domain_def lift_result_def
          owned_def split: sum.splits)
  qed
qed

lemma keeps_run_update: "keeps (during d) (purge_run_update p)"
proof (rule yieldsI)
  fix s r s'
  assume s: "session_inv (during d) s" and run: "purge_run_update p s = (r, s')"
  show "session_inv (during d) s' \<and> (\<forall>x. r = Inr x \<longrightarrow> True)"
  proof (cases "find_run (pr_tenant_id p) (pr_id p) (se_db s)")
    case None
    then show ?thesis using run s by (auto simp: purge_run_update_def bindS_def query_def)
  next
    case (Some row)
    then show ?thesis
      using run put_run_step [OF s find_run_Some(1) [OF Some] same_run_changes(1)]
      by (auto simp: purge_run_update_def bindS_def query_def)
  qed
qed

lemma within_pause: "within (mark_run_paused env t i b x y) (\<lambda>_. True)"
  unfolding mark_run_paused_def pause_in_session_def
  by (rule within_bind [OF within_basic(3)], rule within_unit,
      rule yields_bind [OF yields_get_run])
    (auto split: option.splits intro!: keeps_intros keeps_run_update)

lemma yields_claim: "yields (during d) (claim_in_session t i tok now) (owned t i)"
  unfolding claim_in_session_def
proof (rule yields_bind [OF yields_get_run])
  fix found
  assume found: "owned t i found"
  have claim: "yields (during d) (try_claim t i tok e now v) (owned t i)" for e v
    unfolding try_claim_def by (rule yields_put_found) (rule same_run_changes)
  have "yields (during d) (bindS (try_claim t i tok e now v) (\<lambda>c. bindS commit (\<lambda>_. returnS c))) (owned t i)"
    for e v
    by (rule yields_bind [OF claim], rule yields_bind [OF keeps_basic(7)], rule yields_return)
  then show "yields (during d) (case found of None \<Rightarrow> raiseS (RetentionPurgeHandlerError EC_RESOURCE_UNAVAILABLE True)
        | Some existing \<Rightarrow>
            if pr_status existing \<in> finished_statuses then returnS (Some existing)
            else
              bindS (try_claim t i tok (dt_plus now CLAIM_LEASE) now
                       (Some (pr_version existing))) (\<lambda>claimed.
              bindS commit (\<lambda>_. returnS claimed))) (owned t i)"
    using found by (auto split: option.splits intro!: yields_raise yields_return)
qed

lemma within_claim: "within (claim_run env t i tok) (owned t i)"
  unfolding claim_run_def by (rule within_bind [OF within_basic(3)], rule within_unit, rule yields_claim)

lemma within_renew:
  assumes "own t p"
  shows "within (maybe_renew_claim env p tok n) (\<lambda>(q, m). own t q \<and> pr_id q = pr_id p)"
proof -
  have renew: "yields (during d) (bindS (renew_claim t (pr_id p) tok e now v) (\<lambda>r. bindS commit (\<lambda>_. returnS r)))
      (owned t (pr_id p))" for d e now v
    unfolding renew_claim_def
    by (rule yields_bind [OF yields_put_found], rule same_run_changes)
      (rule yields_bind [OF keeps_basic(7)], rule yields_return)
  have renewed: "within (case c of None \<Rightarrow> raiseS stale_claim | Some r \<Rightarrow> returnS (r, 0))
      (\<lambda>(q, m). own t q \<and> pr_id q = pr_id p)" if "owned t (pr_id p) c" for c
    using that by (cases c) (auto simp: owned_def intro: within_basic)
  have tenant: "pr_tenant_id p = t" using assms by (simp add: own_def)
  have kept: "within (returnS (p, n)) (\<lambda>(q, m). own t q \<and> pr_id q = pr_id p)"
    by (rule within_basic) (simp add: assms)
  show ?thesis
    unfolding maybe_renew_claim_def tenant
    by (rule within_bind [OF within_basic(3)], split option.split, intro conjI allI impI)
      (rule kept, simp only: split: if_split,
       blast intro: kept within_bind [OF within_unit [OF renew]] renewed)
qed

lemma within_delete:
  assumes "Due t i (ec_id c)"
  shows "within (delete_content_under_lock env t i c x y) (\<lambda>_. True)"
proof -
  have body: "within (under_tenant_retention_lock env t (delete_and_record env t i (ec_id c) now)) (\<lambda>_. True)" for now
    unfolding under_tenant_retention_lock_def
  proof (rule within_unit_stored)
    fix d s r s'
    assume s: "session_inv (during d) s" and run: "delete_and_record env t i (ec_id c) now s = (r, s')"
    show "during d (se_saved s') \<and> (\<forall>x. r = Inr x \<longrightarrow> True)"
      by (cases rule: delete_effect [OF run]) (use s assms delete in \<open>auto simp: session_inv_def\<close>)
  qed
  have pause: "within (bindS (mark_run_paused env t i True a b) (\<lambda>_. returnS True)) (\<lambda>_. True)" for a b
    by (rule within_bind [OF within_pause]) (rule within_basic, simp)
  show ?thesis
    unfolding delete_content_under_lock_def
    by (rule within_bind [OF within_basic(3)], rule within_bind [OF body], simp only: split: if_split)
      (blast intro: pause within_basic(1))
qed

definition ends_own :: "uuid \<Rightarrow> uuid \<Rightarrow> (purge_run \<times> int) option \<Rightarrow> bool" where
  "ends_own t i out \<longleftrightarrow> pred_option (\<lambda>(p, n). own t p \<and> pr_id p = i) out"

lemma within_delete_due:
  assumes "own t p" and "pr_id p = i" and "\<And>c. c \<in> set cs \<Longrightarrow> Due t i (ec_id c)"
  shows "within (delete_due env t tok cs p k m) (ends_own t i)"
  using assms
proof (induction cs arbitrary: p k m)
  case Nil
  then show ?case unfolding delete_due.simps by (intro within_basic) (simp add: ends_own_def)
next
  case (Cons c cs)
  have due: "Due t i (ec_id c)" by (rule Cons.prems(3)) simp
  have rest: "within (delete_due env t tok cs q a b) (ends_own t i)" if "own t q" "pr_id q = i" for q a b
    by (rule Cons.IH [OF that]) (rule Cons.prems(3), simp)
  have stop: "within (returnS None) (ends_own t i)"
    by (rule within_basic) (simp add: ends_own_def)
  have one: "within
      (bindS (delete_content_under_lock env t (pr_id q) c x y)
        (\<lambda>paused. if paused then returnS None else delete_due env t tok cs q a b)) (ends_own t i)"
    if q: "own t q" "pr_id q = i" for q a b x y
    unfolding q(2) by (rule within_bind [OF within_delete [OF due]], rule within_if) (rule stop, rule rest [OF q])
  show ?case
    unfolding delete_due.simps
    by (rule within_bind [OF within_renew [OF Cons.prems(1)]], split prod.split, intro allI impI)
      (rule one, simp_all add: Cons.prems(2))
qed

lemma yields_list_due:
  assumes "Mine t i x"
  shows "yields (during d) (list_due env t x n) (\<lambda>cs. \<forall>c \<in> set cs. Due t i (ec_id c))"
proof (rule yieldsI)
  fix s r s'
  assume s: "session_inv (during d) s" and run: "list_due env t x n s = (r, s')"
  have "Due t i (ec_id c)" if "r = Inr cs" "c \<in> set cs" for c cs
    using list_due_elements [OF run [unfolded that(1)] that(2)] due assms s
    unfolding session_inv_def during_def by metis
  then show "session_inv (during d) s' \<and> (\<forall>cs. r = Inr cs \<longrightarrow> (\<forall>c \<in> set cs. Due t i (ec_id c)))"
    using yieldsD(1) [OF keeps_row_to_contents s run] by blast
qed

end

text \<open>With a relation that says nothing of the jobs, the last unit of work is one of these steps too.\<close>

locale purge_steps = purge_parts J R env Mine Due
  for J :: "retention_db \<Rightarrow> bool" and R :: "retention_db \<Rightarrow> retention_db \<Rightarrow> bool" and env :: retention_env
    and Mine :: "uuid \<Rightarrow> uuid \<Rightarrow> datetime \<Rightarrow> bool" and Due :: "uuid \<Rightarrow> uuid \<Rightarrow> uuid \<Rightarrow> bool" +
  assumes jobs: "during d e \<Longrightarrow> during d (e\<lparr>rt_jobs := js\<rparr>)"
begin

lemma keeps_finish: "keeps (during d) (finish_batch env t p now)"
  unfolding finish_batch_def
  by (intro keeps_intros) (auto intro!: keeps_intros keeps_run_update keeps_enqueue jobs)

lemma within_batch:
  assumes "own t p"
  shows "within (purge_batch_of env t tok p) (\<lambda>_. True)"
proof -
  have mine: "Mine t (pr_id p) (pr_expires_before p)" using assms by (simp add: own_def)
  have finish: "within (bindS (draw_outside (re_clock env)) (\<lambda>now.
      bindS (lift_result (g now)) (\<lambda>u. unit_of_work env (finish_batch env t u now)))) (\<lambda>_. True)" for g
    by (rule within_bind [OF within_basic(3)], rule within_bind [OF within_basic(4)], rule TrueI)
      (rule within_unit, rule keeps_finish)
  show ?thesis
    unfolding purge_batch_of_def
  proof (rule within_bind [OF within_unit [OF yields_list_due [OF mine]]])
    fix due :: "encrypted_content list"
    assume "\<forall>c \<in> set due. Due t (pr_id p) (ec_id c)"
    then have loop: "within (delete_due env t tok due p 0 0) (ends_own t (pr_id p))"
      by (intro within_delete_due [OF assms HOL.refl]) blast
    show "within (bindS (delete_due env t tok due p 0 0) (\<lambda>outcome.
         case outcome of None \<Rightarrow> returnS ()
         | Some (claimed, batch_deleted) \<Rightarrow>
             bindS (draw_outside (re_clock env)) (\<lambda>now.
             bindS (lift_result (batch_result claimed tok (int (length due)) batch_deleted now)) (\<lambda>updated_run.
             unit_of_work env (finish_batch env t updated_run now))))) (\<lambda>_. True)"
      by (rule within_bind [OF loop], rule within_option, rule within_basic, rule TrueI, split prod.split,
          intro allI impI, rule finish)
  qed
qed

lemma within_run: "within (purge_run_of env t i tok) (\<lambda>_. True)"
proof -
  have rest: "within (bindS (tenant_has_active_hold env t) (\<lambda>held.
      if held then mark_run_paused env t (pr_id p) True None None else purge_batch_of env t tok p)) (\<lambda>_. True)"
    if "own t p" for p
    by (rule within_bind [OF within_has_hold]) (simp add: within_pause within_batch [OF that])
  have claimed: "within (case c of None \<Rightarrow> raiseS stale_claim
      | Some p \<Rightarrow> if pr_status p \<in> finished_statuses then returnS ()
          else bindS (tenant_has_active_hold env t) (\<lambda>held.
            if held then mark_run_paused env t (pr_id p) True None None else purge_batch_of env t tok p)) (\<lambda>_. True)"
    if "owned t i c" for c
    using that by (cases c) (auto simp: owned_def intro: within_basic rest)
  show ?thesis
    unfolding purge_run_of_def
    by (rule within_bind [OF within_has_hold], rule within_if, rule within_pause)
      (rule within_bind [OF within_claim claimed])
qed

lemma within_handle: "within (handle_retention_job env job) (\<lambda>_. True)"
proof -
  have token: "within (case c of Some t \<Rightarrow> returnS t | None \<Rightarrow> draw_outside (re_uuid4 env)) (\<lambda>_. True)" for c
    by (rule within_option) (rule within_basic, rule within_basic, rule TrueI)
  show ?thesis
    unfolding handle_retention_job_def
    by (intro within_option within_if within_basic(2) within_bind [OF token within_run])
qed

end

end
