(* ===== verification/Retention_Sample.thy ===== *)
theory Retention_Sample
  imports Retention_Service
begin

text \<open>
  Concrete tables and environments of the retention component, on which the properties are applied:
  a tenant with two expired contents and one that is not, and a purge run that waits for its job.
\<close>

definition sample_expired :: "uuid \<Rightarrow> int \<Rightarrow> encrypted_content_row" where
  "sample_expired i expires =
     \<lparr>ecr_id = i, ecr_tenant_id = 1, ecr_kind = ''mfa_totp_secret'', ecr_encoding = ''utf8'',
      ecr_ciphertext = [1], ecr_content_nonce = replicate 12 0, ecr_wrapped_data_key = [2],
      ecr_key_wrap_nonce = replicate 12 0, ecr_algorithm = ''aes_256_gcm'', ecr_key_version = ''v1'',
      ecr_aad_version = 1, ecr_plaintext_byte_length = 5, ecr_created_at = Aware 0,
      ecr_expires_at = Aware expires\<rparr>"

definition sample_run_row :: purge_run_row where
  "sample_run_row =
     \<lparr>prr_id = 50, prr_tenant_id = 1, prr_status = ''pending'', prr_dry_run = False,
      prr_expires_before = Aware 100, prr_items_scanned = 0, prr_items_deleted = 0,
      prr_items_skipped_legal_hold = 0, prr_started_at = None, prr_completed_at = None,
      prr_last_error_code = None, prr_claim_token = None, prr_claim_expires_at = None,
      prr_version = 1, prr_created_at = Aware 200, prr_updated_at = Aware 200\<rparr>"

definition sample_hold_row :: legal_hold_row where
  "sample_hold_row =
     \<lparr>lhr_id = 70, lhr_tenant_id = 1, lhr_status = ''active'', lhr_reason_code = ''litigation'',
      lhr_reason_detail = None, lhr_created_by_user_id = 9, lhr_released_by_user_id = None,
      lhr_created_at = Aware 300, lhr_released_at = None, lhr_updated_at = Aware 300\<rparr>"

definition sample_retention_db :: retention_db where
  "sample_retention_db =
     \<lparr>ad_events = [],
      cd_tenants = [\<lparr>tn_id = 1, tn_status = TS_ACTIVE, tn_retention_policy =
        \<lparr>rp_raw_message_days = 30, rp_sanitized_message_days = 30, rp_ai_output_days = 30,
         rp_audit_log_days = 30, rp_backup_days = 30, rp_post_contract_deletion_days = 30\<rparr>\<rparr>],
      cd_contents = [sample_expired 10 90, sample_expired 11 95, sample_expired 12 900],
      rt_holds = [], rt_runs = [sample_run_row], rt_batches = [], rt_jobs = []\<rparr>"

definition sample_retention_world :: retention_world where
  "sample_retention_world = \<lparr>w_db = sample_retention_db, w_draws = 0, rw_seen = []\<rparr>"

definition sample_retention_env :: "(nat \<Rightarrow> retention_db \<Rightarrow> retention_db) \<Rightarrow> int \<Rightarrow> retention_env" where
  "sample_retention_env others batch_size =
     \<lparr>re_uuid4 = (\<lambda>n. of_nat (1000 + n)), re_clock = (\<lambda>n. Aware (1000 + int n)), re_others = others,
      re_referenced = (\<lambda>c. False), re_after_failed_flush = None, re_batch_size = batch_size\<rparr>"

definition sample_purge_job :: "uuid option \<Rightarrow> outbox_job" where
  "sample_purge_job token =
     \<lparr>oj_id = 60, oj_tenant_id = Some 1, oj_job_kind = JK_RETENTION_DELETE,
      oj_reference = \<lparr>ref_resource_type = ''retention_purge_run'', ref_resource_id = 50,
        ref_schema_version = 1, ref_tenant_id = Some 1, ref_secondary_id = None\<rparr>,
      oj_deduplication_key = ''retention_purge'', oj_priority = 100, oj_state = JS_PROCESSING,
      oj_available_at = Aware 200, oj_created_at = Aware 200, oj_attempt_count = 1,
      oj_max_attempts = 8, oj_version = 4, oj_claim_token = token, oj_claimed_by = Some ''worker'',
      oj_claimed_at = Some (Aware 900), oj_claim_expires_at = None, oj_published_at = None,
      oj_processing_started_at = None, oj_completed_at = None, oj_last_error_code = None\<rparr>"

text \<open>Another session places a hold at the given moment.\<close>

definition hold_placed_at :: "nat \<Rightarrow> nat \<Rightarrow> retention_db \<Rightarrow> retention_db" where
  "hold_placed_at moment n db =
     (if n = moment then db\<lparr>rt_holds := rt_holds db @ [sample_hold_row]\<rparr> else db)"

section \<open>Evaluation of identifiers\<close>

text \<open>\<open>str(uuid)\<close> computed on integers with a table of digits, for the evaluation of keys.\<close>

fun hex_int :: "nat \<Rightarrow> int \<Rightarrow> string" where
  "hex_int 0 i = []"
| "hex_int (Suc w) i = hex_int w (i div 16) @ [''0123456789abcdef'' ! nat (i mod 16)]"

lemma hexdigit_table: "d < 16 \<Longrightarrow> hexdigit d = ''0123456789abcdef'' ! d"
proof -
  have "\<forall>d \<in> {..<16}. hexdigit d = ''0123456789abcdef'' ! d" by code_simp
  then show "d < 16 \<Longrightarrow> hexdigit d = ''0123456789abcdef'' ! d" by simp
qed

lemma hex_fixed_int: "hex_fixed w n = hex_int w (int n)"
  by (induction w arbitrary: n) (simp_all add: hexdigit_table nat_mod_distrib of_nat_div flip: zmod_int)

lemma uuid_str_code [code]:
  "uuid_str u = (let n = uint u in
     hex_int 8 (n div 16 ^ 24) @ ''-'' @ hex_int 4 (n div 16 ^ 20) @ ''-'' @
     hex_int 4 (n div 16 ^ 16) @ ''-'' @ hex_int 4 (n div 16 ^ 12) @ ''-'' @ hex_int 12 n)"
  by (simp add: uuid_str_def Let_def hex_fixed_int zdiv_int flip: uint_nat)

text \<open>A worker that deletes one content at a time, at one moment.\<close>

definition sample_short_env :: retention_env where
  "sample_short_env = (sample_retention_env (\<lambda>n d. d) 1)\<lparr>re_clock := (\<lambda>n. Aware 1000)\<rparr>"

definition sample_first_batch :: "(retention_exc + unit) \<times> retention_world" where
  "sample_first_batch = handle_retention_job sample_short_env (sample_purge_job (Some 5)) sample_retention_world"

definition batch_summary ::
    "(retention_exc + unit) \<times> retention_world \<Rightarrow> bool \<times> (uuid \<times> uuid \<times> string \<times> int) list \<times> string list \<times> legal_hold_row list" where
  "batch_summary out =
     (fst out = Inr (),
      map (\<lambda>r. (prr_tenant_id r, prr_id r, prr_status r, prr_items_deleted r)) (rt_runs (w_db (snd out))),
      map row_deduplication_key (rt_jobs (w_db (snd out))), rt_holds (w_db (snd out)))"

lemma sample_batch_summary:
  "batch_summary sample_first_batch =
     (True, [(1, 50, ''running'', 1)], [''retention_purge_00000000-0000-0000-0000-000000000032_cont_1''], [])"
  by code_simp

end
