(* ===== verification/Retention_Safety.thy ===== *)
theory Retention_Safety
  imports Retention_Laws Retention_Sample
begin

text \<open>
  What a purge can and cannot delete, whatever other sessions do within a stated contract.
\<close>

section \<open>Contracts of other sessions\<close>

text \<open>
  The environment in which other sessions keep a contract: a step that would break it is left out.
  An environment that keeps the contract anyway is unchanged.
\<close>

definition obeys :: "(retention_db \<Rightarrow> bool) \<Rightarrow> (retention_db \<Rightarrow> retention_db \<Rightarrow> bool) \<Rightarrow> retention_env \<Rightarrow> bool" where
  "obeys J R env \<longleftrightarrow> (\<forall>n d. J d \<longrightarrow> J (re_others env n d) \<and> R d (re_others env n d))"

definition obeying :: "(retention_db \<Rightarrow> bool) \<Rightarrow> (retention_db \<Rightarrow> retention_db \<Rightarrow> bool) \<Rightarrow> retention_env \<Rightarrow> retention_env" where
  "obeying J R env = env\<lparr>re_others := (\<lambda>n d.
     if J d \<longrightarrow> J (re_others env n d) \<and> R d (re_others env n d) then re_others env n d else d)\<rparr>"

lemma obeying_same: "obeys J R env \<Longrightarrow> obeying J R env = env"
  unfolding obeys_def obeying_def by (cases env) (simp add: fun_eq_iff)

lemma obeying_others:
  "J d \<Longrightarrow> (\<And>d. R d d) \<Longrightarrow> J (re_others (obeying J R env) n d) \<and> R d (re_others (obeying J R env) n d)"
  by (simp add: obeying_def)

section \<open>Holds\<close>

definition under_hold :: "uuid \<Rightarrow> retention_db \<Rightarrow> bool" where
  "under_hold t db \<longleftrightarrow> active_holds t db \<noteq> []"

text \<open>A step that keeps the holds of a tenant, and what is held except for the rows of \<open>X\<close>.\<close>

definition spares :: "uuid \<Rightarrow> encrypted_content_row set \<Rightarrow> retention_db \<Rightarrow> retention_db \<Rightarrow> bool" where
  "spares t X d e \<longleftrightarrow> (under_hold t d \<longrightarrow> under_hold t e \<and>
     (\<forall>r \<in> set (cd_contents d). ecr_tenant_id r = t \<longrightarrow> r \<in> set (cd_contents e) \<or> r \<in> X))"

text \<open>
  A row that some other session, at one of its moments, removes or replaces under a hold. Two handlers
  do so: \<open>media_scan_handler.py\<close> deletes an infected file and \<open>notification_delivery_service.py\<close> a
  payload that was sent, and neither looks at the holds.
\<close>

definition taken_by_others :: "uuid \<Rightarrow> retention_env \<Rightarrow> encrypted_content_row \<Rightarrow> bool" where
  "taken_by_others t env r \<longleftrightarrow> (\<exists>n d. under_hold t d \<and>
     r \<in> set (cd_contents d) \<and> r \<notin> set (cd_contents (re_others env n d)))"

abbreviation any_tables :: "retention_db \<Rightarrow> bool" where "any_tables \<equiv> \<lambda>_. True"

lemma spares_refl: "spares t X d d"
  by (simp add: spares_def)

lemma spares_trans: "spares t X a b \<Longrightarrow> spares t X b c \<Longrightarrow> spares t X a c"
  by (auto simp: spares_def)

lemma spares_unrelated:
  "spares t X d (e\<lparr>rt_runs := rs\<rparr>) = spares t X d e" "spares t X d (e\<lparr>rt_jobs := js\<rparr>) = spares t X d e"
  by (simp_all add: spares_def under_hold_def active_holds_def)

interpretation held_steps: retention_steps any_tables "spares t X" "obeying any_tables (spares t X) env" for t X env
proof
  show "any_tables d \<Longrightarrow> any_tables (re_others (obeying any_tables (spares t X) env) n d) \<and>
      spares t X d (re_others (obeying any_tables (spares t X) env) n d)" for d n
    by (rule obeying_others) (simp_all add: spares_refl)
qed (rule spares_refl, rule spares_trans)

interpretation held: purge_steps any_tables "spares t X" "obeying any_tables (spares t X) env" "\<lambda>_ _ _. True" "\<lambda>_ _ _. True"
  for t X env
proof
  show "held_steps.during t X d (deleted_and_recorded u c batch e)"
    if "held_steps.during t X d e" and "active_holds u e = []" for u c batch d e
    using that
    by (auto simp: held_steps.during_def spares_def under_hold_def active_holds_def deleted_and_recorded_def)
qed (simp_all add: held_steps.during_def spares_unrelated replace_run_def)

section \<open>Runs of the operations\<close>

datatype retention_op =
    OpCreateHold uuid string "string option" uuid datetime
  | OpReleaseHold uuid uuid uuid datetime
  | OpDryRun uuid datetime datetime
  | OpSchedulePurge uuid datetime datetime
  | OpGetPurgeRun uuid uuid
  | OpHandleJob outbox_job

definition ignore :: "'a purge_comp \<Rightarrow> unit purge_comp" where
  "ignore m = bindS m (\<lambda>_. returnS ())"

fun run_op :: "retention_env \<Rightarrow> retention_op \<Rightarrow> unit purge_comp" where
  "run_op env (OpCreateHold t code detail u at) = ignore (create_hold env t code detail u at)"
| "run_op env (OpReleaseHold t i u at) = ignore (release_hold env t i u at)"
| "run_op env (OpDryRun t x at) = ignore (dry_run env t x at)"
| "run_op env (OpSchedulePurge t x at) = ignore (schedule_purge env t x at)"
| "run_op env (OpGetPurgeRun t i) = ignore (get_purge_run env t i)"
| "run_op env (OpHandleJob job) = handle_retention_job env job"

text \<open>One operation after another, each whether or not the one before raised.\<close>

fun perform :: "retention_env \<Rightarrow> retention_op list \<Rightarrow> retention_world \<Rightarrow> retention_world" where
  "perform env [] w = w"
| "perform env (op # ops) w = perform env ops (snd (run_op env op w))"

fun releases :: "uuid \<Rightarrow> retention_op \<Rightarrow> bool" where
  "releases t (OpReleaseHold u i by at) = (u = t)"
| "releases t op = False"

lemma spares_add_hold: "spares t X d e \<Longrightarrow> spares t X d (e\<lparr>rt_holds := rt_holds e @ hs\<rparr>)"
  by (auto simp: spares_def under_hold_def active_holds_def)

lemma spares_update_hold:
  assumes "spares t X d e" and "lh_tenant_id h \<noteq> t"
  shows "spares t X d (e\<lparr>rt_holds := map (\<lambda>r. if lhr_tenant_id r = lh_tenant_id h \<and> lhr_id r = lh_id h
    then assign_hold r h else r) (rt_holds e)\<rparr>)"
proof -
  have "map f xs = xs \<Longrightarrow> filter p (map f xs) = filter p xs" for p :: "legal_hold_row \<Rightarrow> bool" and f xs by simp
  have "filter (\<lambda>r. lhr_tenant_id r = t \<and> lhr_status r = s) (map (\<lambda>r. if lhr_tenant_id r = lh_tenant_id h \<and> lhr_id r = lh_id h
      then assign_hold r h else r) xs) = filter (\<lambda>r. lhr_tenant_id r = t \<and> lhr_status r = s) xs" for s xs
    using assms(2) by (induction xs) (auto simp: assign_hold_def)
  then show ?thesis using assms(1) by (simp add: spares_def under_hold_def active_holds_def)
qed

lemma keeps_hold_add: "keeps (held_steps.during t X d) (legal_hold_add h)"
  unfolding legal_hold_add_def
  by (rule keeps_modify) (auto simp: Let_def bindE_Inr_iff held_steps.during_def spares_add_hold)

lemma keeps_hold_update:
  assumes "lh_tenant_id h \<noteq> t"
  shows "keeps (held_steps.during t X d) (legal_hold_update h)"
  unfolding legal_hold_update_def
  by (rule keeps_modify)
    (auto simp: bindE_Inr_iff held_steps.during_def spares_update_hold [OF _ assms] split: option.splits)

lemma keeps_run_add: "keeps (held_steps.during t X d) (purge_run_add p)"
  unfolding purge_run_add_def
  by (rule keeps_modify) (auto simp: Let_def bindE_Inr_iff held_steps.during_def spares_unrelated)

lemma keeps_get_hold [keeps_intros]:
  "keeps I (legal_hold_get_by_id t i)" "keeps I (purge_run_get_by_id t i)"
  unfolding legal_hold_get_by_id_def purge_run_get_by_id_def by (intro keeps_intros)+

lemma hold_of_tenant: "yields I (legal_hold_get_by_id t i) (pred_option (\<lambda>h. lh_tenant_id h = t))"
  by (rule yieldsI)
    (auto simp: legal_hold_get_by_id_def optional_domain_def legal_hold_row_to_domain_def find_Some_iff
      bindS_def query_def lift_result_def dest!: LegalHold_Inr(2) split: option.splits sum.splits)

abbreviation sparing :: "uuid \<Rightarrow> encrypted_content_row set \<Rightarrow> retention_env \<Rightarrow> retention_env" where
  "sparing t X env \<equiv> obeying any_tables (spares t X) env"

lemma within_ignore: "held_steps.within t X m Q \<Longrightarrow> held_steps.within t X (ignore m) (\<lambda>_. True)"
  unfolding ignore_def by (rule held_steps.within_bind, assumption, rule held_steps.within_basic, rule TrueI)

lemma within_create: "held_steps.within t X (create_hold (sparing t X env) u code detail by at) (\<lambda>_. True)"
  unfolding create_hold_def
  by (rule held_steps.within_bind [OF held_steps.within_unit [OF keeps_get_active]],
      rule held_steps.within_option, rule held_steps.within_bind [OF held_steps.within_basic(3)],
      rule held_steps.within_bind [OF held_steps.within_basic(4)], rule TrueI,
      rule held_steps.within_bind [OF held_steps.within_lock],
      rule keeps_bind [OF keeps_hold_add keeps_basic(7)])
    (rule held_steps.within_basic, rule TrueI)+

lemma within_release:
  assumes "u \<noteq> t"
  shows "held_steps.within t X (release_hold (sparing t X env) u i by at) (\<lambda>_. True)"
proof -
  have store: "held_steps.within t X (bindS (lift_result (LegalHold_post_init
        (h\<lparr>lh_status := LH_RELEASED, lh_released_by_user_id := Some by, lh_released_at := Some at,
           lh_updated_at := at\<rparr>))) (\<lambda>updated.
      bindS (under_tenant_retention_lock (sparing t X env) u (bindS (legal_hold_update updated) (\<lambda>_. commit)))
        (\<lambda>_. returnS updated))) (\<lambda>_. True)" if "lh_tenant_id h = u" for h
  proof (rule held_steps.within_bind [where Q = "\<lambda>h. lh_tenant_id h = u"])
    show "held_steps.within t X (bindS (under_tenant_retention_lock (sparing t X env) u
        (bindS (legal_hold_update g) (\<lambda>_. commit))) (\<lambda>_. returnS g)) (\<lambda>_. True)" if "lh_tenant_id g = u" for g
      by (rule held_steps.within_bind [OF held_steps.within_lock],
          rule keeps_bind [OF keeps_hold_update keeps_basic(7)])
        (use that assms in \<open>auto intro: held_steps.within_basic(1)\<close>)
  qed (rule held_steps.within_basic(4), use that in \<open>auto dest!: LegalHold_Inr(2)\<close>)
  show ?thesis
    unfolding release_hold_def
    by (rule held_steps.within_bind [OF held_steps.within_unit [OF hold_of_tenant]],
        rule held_steps.within_option, rule held_steps.within_basic, rule held_steps.within_if,
        rule held_steps.within_basic, rule TrueI, rule store) simp
qed

lemma within_schedule: "held_steps.within t X (schedule_purge (sparing t X env) u x at) (\<lambda>_. True)"
proof -
  have enqueue: "keeps (held_steps.during t X d) (enqueue_retention_job (sparing t X env) j u i key at)" for d j i key
    by (rule keeps_enqueue) (simp add: held_steps.during_def spares_unrelated)
  have store: "held_steps.within t X (unit_of_work (sparing t X env) (bindS (purge_run_add p) (\<lambda>_.
      bindS (enqueue_retention_job (sparing t X env) j u i key at) (\<lambda>_. commit)))) (\<lambda>_. True)" for p j i key
    by (rule held_steps.within_unit) (intro keeps_bind keeps_run_add enqueue keeps_basic)
  show ?thesis
    unfolding schedule_purge_def
    by (rule held_steps.within_bind [OF held_steps.within_has_hold], rule held_steps.within_if,
        rule held_steps.within_basic, rule held_steps.within_bind [OF held_steps.within_basic(3)],
        rule held_steps.within_bind [OF held_steps.within_basic(3)],
        rule held_steps.within_bind [OF held_steps.within_basic(4)], rule TrueI,
        rule held_steps.within_bind [OF store])
      (rule held_steps.within_basic, rule TrueI)
qed

lemma within_dry_run: "held_steps.within t X (dry_run (sparing t X env) u x at) (\<lambda>_. True)"
proof -
  have count: "held_steps.within t X (if b then returnS 0
      else unit_of_work (sparing t X env) (content_call (count_due_for_retention f))) (\<lambda>_. True)" for b f
    by (rule held_steps.within_if, rule held_steps.within_basic, rule TrueI, rule held_steps.within_unit)
      (simp add: count_due_for_retention_def keeps_intros)
  show ?thesis
    unfolding dry_run_def
    by (rule held_steps.within_bind [OF held_steps.within_has_hold], rule held_steps.within_bind [OF count],
        rule held_steps.within_bind [OF held_steps.within_basic(3)], rule held_steps.within_basic(4)) (rule TrueI)
qed

lemma within_op:
  assumes "\<not> releases t op"
  shows "held_steps.within t X (run_op (sparing t X env) op) (\<lambda>_. True)"
proof (cases op)
  case (OpGetPurgeRun u i)
  have "held_steps.within t X (get_purge_run (sparing t X env) u i) (\<lambda>_. True)"
    unfolding get_purge_run_def by (rule held_steps.within_unit) (rule keeps_get_hold)
  then show ?thesis by (simp add: OpGetPurgeRun within_ignore)
qed (use assms in \<open>auto intro: within_ignore within_create within_release within_schedule within_dry_run
      held.within_handle\<close>)

lemma perform_related:
  assumes "\<forall>op \<in> set ops. \<not> releases t op"
  shows "related_to_end (spares t X) w (perform (sparing t X env) ops w)"
  using assms
proof (induction ops arbitrary: w)
  case Nil
  then show ?case by (simp add: held_steps.related_refl)
next
  case (Cons op ops)
  obtain r v where v: "run_op (sparing t X env) op w = (r, v)" by fastforce
  have "related_to_end (spares t X) w v"
    by (rule held_steps.withinD(2) [OF within_op _ v]) (use Cons.prems in auto)
  moreover have "related_to_end (spares t X) v (perform (sparing t X env) ops v)" using Cons by simp
  ultimately show ?case by (simp add: v held_steps.related_trans)
qed

lemma seen_suffix:
  "related_to_end R w w' \<Longrightarrow> d \<in> set (w_db w # drop (length (rw_seen w)) (rw_seen w')) \<Longrightarrow> R d (w_db w')"
  by (auto simp: related_to_end_def)

section \<open>A hold keeps what is held\<close>

text \<open>
  C6. A hold stops the retention code at every moment. Let other sessions do anything between the
  units of work of a run of the operations of holds, purges and purge jobs (and while these wait for
  the advisory lock) except release the last hold of the tenant. If at one of these moments the tenant
  is under hold, then at the end it still is, and every content it had at that moment is still stored,
  with the same row, unless one of those other sessions takes it: no operation and no purge job, even
  one that was in the middle of its batch, deletes it.
\<close>

theorem held_content_is_never_purged:
  assumes "\<forall>n d. under_hold t d \<longrightarrow> under_hold t (re_others env n d)"
    and "\<forall>op \<in> set ops. \<not> releases t op"
    and "d \<in> set (w_db w # drop (length (rw_seen w)) (rw_seen (perform env ops w)))"
    and "under_hold t d"
  shows "under_hold t (w_db (perform env ops w)) \<and>
    (\<forall>r \<in> set (cd_contents d). ecr_tenant_id r = t \<longrightarrow>
       r \<in> set (cd_contents (w_db (perform env ops w))) \<or> taken_by_others t env r)"
proof -
  let ?X = "{r. taken_by_others t env r}"
  have "spares t ?X d (re_others env n d)" for n d
    using assms(1) by (auto simp: spares_def taken_by_others_def)
  then have "sparing t ?X env = env" by (intro obeying_same) (simp add: obeys_def)
  then have "related_to_end (spares t ?X) w (perform env ops w)" using perform_related [OF assms(2)] by metis
  from seen_suffix [OF this assms(3)] show ?thesis using assms(4) by (auto simp: spares_def)
qed

lemma hold_placed_keeps:
  "under_hold t d \<longrightarrow> under_hold t (re_others (sample_retention_env (hold_placed_at k) b) n d)"
  "\<not> taken_by_others t (sample_retention_env (hold_placed_at k) b) r"
  by (auto simp: sample_retention_env_def hold_placed_at_def taken_by_others_def under_hold_def active_holds_def)

definition sample_held_world :: retention_world where
  "sample_held_world =
     perform (sample_retention_env (hold_placed_at 12) 10) [OpHandleJob (sample_purge_job None)]
       sample_retention_world"

definition moments :: "retention_world \<Rightarrow> (bool \<times> (uuid \<times> uuid) list) list" where
  "moments w = map (\<lambda>d. (under_hold 1 d, map (\<lambda>r. (ecr_tenant_id r, ecr_id r)) (cd_contents d))) (rw_seen w)"

lemma sample_moments:
  "moments sample_held_world =
     (let all = [(1, 10), (1, 11), (1, 12)]; left = [(1, 11), (1, 12)] in
      [(False, all), (False, all), (False, all), (False, all), (False, all), (True, left), (True, left)])"
  by code_simp

theorem held_content_is_never_purged_witness:
  "\<exists>d \<in> set (rw_seen sample_held_world). under_hold 1 d \<and> map ecr_id (cd_contents d) = [11, 12] \<and>
     set (cd_contents d) \<subseteq> set (cd_contents (w_db sample_held_world))"
proof -
  have "(True, [(1, 11), (1, 12)]) \<in> set (moments sample_held_world)"
    unfolding sample_moments by (simp add: Let_def)
  then obtain d where d: "d \<in> set (rw_seen sample_held_world)" "under_hold 1 d"
    and rows: "map (\<lambda>r. (ecr_tenant_id r, ecr_id r)) (cd_contents d) = [(1, 11), (1, 12)]"
    by (auto simp: moments_def)
  have "map fst (map (\<lambda>r. (ecr_tenant_id r, ecr_id r)) (cd_contents d)) = [1, 1]"
    and "map snd (map (\<lambda>r. (ecr_tenant_id r, ecr_id r)) (cd_contents d)) = [11, 12]"
    unfolding rows by simp_all
  then have held: "\<forall>r \<in> set (cd_contents d). ecr_tenant_id r = 1" and ids: "map ecr_id (cd_contents d) = [11, 12]"
    by (auto simp: comp_def Cons_eq_map_conv)
  have "\<forall>op \<in> set [OpHandleJob (sample_purge_job None)]. \<not> releases 1 op" by simp
  moreover have "d \<in> set (w_db sample_retention_world # drop (length (rw_seen sample_retention_world)) (rw_seen sample_held_world))"
    using d(1) by (simp add: sample_retention_world_def)
  ultimately have "\<forall>r \<in> set (cd_contents d). r \<in> set (cd_contents (w_db sample_held_world))"
    using held_content_is_never_purged [of 1 "sample_retention_env (hold_placed_at 12) 10"] hold_placed_keeps d(2) held
    unfolding sample_held_world_def by blast
  then show ?thesis by (intro bexI [OF _ d(1)]) (auto simp: d(2) ids)
qed

end
