(* ===== verification/Retention_Deletions.thy ===== *)
theory Retention_Deletions
  imports Retention_Safety
begin

text \<open>
  Which contents a purge job deletes, and what it records of them.
\<close>

section \<open>Only expired contents, each with its record\<close>

text \<open>
  A content keeps its expiry and a run its limit (no operation assigns these columns):
  \<open>expiry\<close> and \<open>cutoff\<close> are these values by identifier.
\<close>

definition dated :: "(uuid \<Rightarrow> datetime) \<Rightarrow> (uuid \<Rightarrow> datetime) \<Rightarrow> retention_db \<Rightarrow> bool" where
  "dated expiry cutoff db \<longleftrightarrow>
     (\<forall>r \<in> set (cd_contents db). ecr_expires_at r = expiry (ecr_id r)) \<and>
     (\<forall>row \<in> set (rt_runs db). prr_expires_before row = cutoff (prr_id row))"

text \<open>What is gone had expired for the run that a completed batch names.\<close>

definition accounted :: "(uuid \<Rightarrow> datetime) \<Rightarrow> encrypted_content_row \<Rightarrow> retention_db \<Rightarrow> bool" where
  "accounted cutoff r db \<longleftrightarrow>
     (\<exists>b \<in> set (rt_batches db). completed_batch (ecr_tenant_id r) (pbr_purge_run_id b) (ecr_id r) b \<and>
        ecr_expires_at r \<le> cutoff (pbr_purge_run_id b))"

definition recorded :: "(uuid \<Rightarrow> datetime) \<Rightarrow> retention_db \<Rightarrow> retention_db \<Rightarrow> bool" where
  "recorded cutoff d e \<longleftrightarrow> set (rt_batches d) \<subseteq> set (rt_batches e) \<and>
     (\<forall>r \<in> set (cd_contents d). r \<in> set (cd_contents e) \<or> accounted cutoff r e)"

lemma recorded_refl: "recorded cutoff d d"
  by (simp add: recorded_def)

lemma recorded_trans: "recorded cutoff a b \<Longrightarrow> recorded cutoff b c \<Longrightarrow> recorded cutoff a c"
  unfolding recorded_def accounted_def by blast

lemma replace_run_tables [simp]:
  "cd_contents (replace_run row e) = cd_contents e" "rt_batches (replace_run row e) = rt_batches e"
  "rt_jobs (replace_run row e) = rt_jobs e" "rt_holds (replace_run row e) = rt_holds e"
  by (simp_all add: replace_run_def)

lemma replace_run_limits:
  assumes "\<forall>row \<in> set (rt_runs e). prr_expires_before row = cutoff (prr_id row)"
    and "row \<in> set (rt_runs e)" and "same_run row row'"
  shows "\<forall>row \<in> set (rt_runs (replace_run row' e)). prr_expires_before row = cutoff (prr_id row)"
  using assms by (auto simp: replace_run_def same_run_def)

interpretation due_steps: retention_steps "dated expiry cutoff" "recorded cutoff"
    "obeying (dated expiry cutoff) (recorded cutoff) env" for expiry cutoff env
proof
  show "dated expiry cutoff (re_others (obeying (dated expiry cutoff) (recorded cutoff) env) n d) \<and>
      recorded cutoff d (re_others (obeying (dated expiry cutoff) (recorded cutoff) env) n d)"
    if "dated expiry cutoff d" for d n
    using that by (rule obeying_others) (rule recorded_refl)
qed (rule recorded_refl, rule recorded_trans)

lemma deletion_recorded:
  assumes "dated expiry cutoff e" and "expiry c \<le> cutoff i" and "completed_batch t i c batch"
  shows "recorded cutoff e (deleted_and_recorded t c batch e)"
  using assms by (auto simp: recorded_def accounted_def deleted_and_recorded_def completed_batch_def dated_def)

interpretation due: purge_steps "dated expiry cutoff" "recorded cutoff"
    "obeying (dated expiry cutoff) (recorded cutoff) env" "\<lambda>t i x. x = cutoff i" "\<lambda>t i c. expiry c \<le> cutoff i"
  for expiry cutoff env
proof
  show "due_steps.during expiry cutoff d (replace_run row' e)"
    if "due_steps.during expiry cutoff d e" and "row \<in> set (rt_runs e)" and "same_run row row'" for d e row row'
    using that replace_run_limits [OF _ that(2,3), of cutoff]
    by (auto simp: due_steps.during_def dated_def recorded_def accounted_def)
  show "due_steps.during expiry cutoff d (deleted_and_recorded t c batch e)"
    if "due_steps.during expiry cutoff d e" and "expiry c \<le> cutoff i" and "completed_batch t i c batch" for d e t i c batch
    using that deletion_recorded [of expiry cutoff e c i t batch] recorded_trans
    unfolding due_steps.during_def by (auto simp: dated_def deleted_and_recorded_def)
qed (auto simp: due_steps.during_def dated_def recorded_def accounted_def)

text \<open>
  C9. Whatever a purge job deletes had expired and is recorded: when other sessions change no expiry
  and no run's limit, remove no batch, and delete contents only as a purge does, then a content that
  is stored before the job is handled and not afterwards is named by a completed batch of its
  tenant, whose run asked for contents that expire as early as it did.
\<close>

theorem purge_deletes_only_what_is_due:
  assumes "\<forall>n d. dated expiry cutoff d \<longrightarrow>
      dated expiry cutoff (re_others env n d) \<and> recorded cutoff d (re_others env n d)"
    and "dated expiry cutoff (w_db w)"
    and "handle_retention_job env job w = (res, w')"
    and "r \<in> set (cd_contents (w_db w))" and "r \<notin> set (cd_contents (w_db w'))"
  shows "\<exists>b \<in> set (rt_batches (w_db w')).
    pbr_tenant_id b = ecr_tenant_id r \<and> pbr_deleted_content_id b = ecr_id r \<and>
    pbr_status b = purge_batch_status_value PBS_COMPLETED \<and> ecr_expires_at r \<le> cutoff (pbr_purge_run_id b)"
proof -
  have env: "obeying (dated expiry cutoff) (recorded cutoff) env = env"
    using assms(1) by (intro obeying_same) (simp add: obeys_def)
  have "due_steps.within expiry cutoff (handle_retention_job (obeying (dated expiry cutoff) (recorded cutoff) env) job)
      (\<lambda>_. True)" by (rule due.within_handle)
  from due_steps.withinD(2) [OF this assms(2)] have "related_to_end (recorded cutoff) w w'"
    using assms(3) unfolding env by blast
  then have "recorded cutoff (w_db w) (w_db w')" by (auto simp: related_to_end_def)
  then show ?thesis using assms(4,5) by (auto simp: recorded_def accounted_def completed_batch_def)
qed

text \<open>The sample purge with no other session: both expired contents are deleted.\<close>

definition sample_purged :: "(retention_exc + unit) \<times> retention_world" where
  "sample_purged =
     handle_retention_job (sample_retention_env (\<lambda>n d. d) 10) (sample_purge_job None) sample_retention_world"

definition purge_summary ::
    "(retention_exc + unit) \<times> retention_world \<Rightarrow> bool \<times> uuid list \<times> (string \<times> int) list \<times> uuid list" where
  "purge_summary out =
     (fst out = Inr (), map ecr_id (cd_contents (w_db (snd out))),
      map (\<lambda>r. (prr_status r, prr_items_deleted r)) (rt_runs (w_db (snd out))),
      map pbr_deleted_content_id (rt_batches (w_db (snd out))))"

lemma sample_purge_summary: "purge_summary sample_purged = (True, [12], [(''completed'', 2)], [10, 11])"
  by code_simp

definition sample_expiry :: "uuid \<Rightarrow> datetime" where
  "sample_expiry c = (if c = 10 then Aware 90 else if c = 11 then Aware 95 else Aware 900)"

lemma sample_dated: "dated sample_expiry (\<lambda>i. Aware 100) (w_db sample_retention_world)"
  by (simp add: dated_def sample_retention_world_def sample_retention_db_def sample_expired_def
      sample_expiry_def sample_run_row_def)

theorem purge_deletes_only_what_is_due_witness:
  "\<exists>b \<in> set (rt_batches (w_db (snd sample_purged))).
     pbr_tenant_id b = 1 \<and> pbr_deleted_content_id b = 10 \<and>
     pbr_status b = purge_batch_status_value PBS_COMPLETED \<and> Aware 90 \<le> Aware 100"
proof -
  have steady: "\<forall>n d. dated sample_expiry (\<lambda>i. Aware 100) d \<longrightarrow>
      dated sample_expiry (\<lambda>i. Aware 100) (re_others (sample_retention_env (\<lambda>n d. d) 10) n d) \<and>
      recorded (\<lambda>i. Aware 100) d (re_others (sample_retention_env (\<lambda>n d. d) 10) n d)"
    by (simp add: sample_retention_env_def recorded_refl)
  have gone: "sample_expired 10 90 \<notin> set (cd_contents (w_db (snd sample_purged)))"
  proof
    assume "sample_expired 10 90 \<in> set (cd_contents (w_db (snd sample_purged)))"
    then have "10 \<in> set (map ecr_id (cd_contents (w_db (snd sample_purged))))"
      by (force simp: sample_expired_def)
    moreover have "map ecr_id (cd_contents (w_db (snd sample_purged))) = [12]"
      using sample_purge_summary by (simp add: purge_summary_def)
    ultimately show False by (simp only: list.set) simp
  qed
  have "sample_expired 10 90 \<in> set (cd_contents (w_db sample_retention_world))"
    by (simp add: sample_retention_world_def sample_retention_db_def)
  from purge_deletes_only_what_is_due [OF steady sample_dated _ this gone, of _ "fst sample_purged"]
  show ?thesis unfolding sample_purged_def by (simp add: sample_expired_def)
qed

end
