(* ===== verification/Retention_Continuation.thy ===== *)
theory Retention_Continuation
  imports Retention_Deletions
begin

text \<open>
  How a handled purge job ends, and why a continuation that comes too early is refused.
\<close>

section \<open>How a handled job ends\<close>

text \<open>Each run has its limit, and the jobs satisfy their unique index.\<close>

definition limits :: "(uuid \<Rightarrow> datetime) \<Rightarrow> retention_db \<Rightarrow> bool" where
  "limits cutoff db \<longleftrightarrow>
     (\<forall>row \<in> set (rt_runs db). prr_expires_before row = cutoff (prr_id row)) \<and>
     distinct (map dedup_index (rt_jobs db))"

abbreviation any_step :: "retention_db \<Rightarrow> retention_db \<Rightarrow> bool" where "any_step \<equiv> \<lambda>_ _. True"

interpretation steady_steps: retention_steps "limits cutoff" any_step "obeying (limits cutoff) any_step env"
  for cutoff env
  by unfold_locales (simp_all add: obeying_def)

interpretation steady: purge_parts "limits cutoff" any_step "obeying (limits cutoff) any_step env"
    "\<lambda>t i x. x = cutoff i" "\<lambda>_ _ _. True" for cutoff env
proof
  show "steady_steps.during cutoff d (replace_run row' e)"
    if "steady_steps.during cutoff d e" and "row \<in> set (rt_runs e)" and "same_run row row'" for d e row row'
    using that replace_run_limits [OF _ that(2,3), of cutoff] by (auto simp: steady_steps.during_def limits_def)
qed (auto simp: steady_steps.during_def limits_def deleted_and_recorded_def)

definition run_status :: "uuid \<Rightarrow> uuid \<Rightarrow> retention_db \<Rightarrow> string option" where
  "run_status t i db = map_option prr_status (find_run t i db)"

text \<open>The run waits for a job that is stored, while contents are due.\<close>

definition continued :: "(uuid \<Rightarrow> datetime) \<Rightarrow> uuid \<Rightarrow> uuid \<Rightarrow> retention_db \<Rightarrow> bool" where
  "continued cutoff t i db \<longleftrightarrow>
     due_rows (due_filter t (cutoff i) 1) db \<noteq> [] \<and>
     (\<exists>row. find_run t i db = Some row \<and> prr_claim_token row \<noteq> None \<and>
        (\<exists>job \<in> set (rt_jobs db). row_tenant_id job = Some t \<and>
           row_deduplication_key job = continuation_key i (prr_items_deleted row)))"

definition finished :: "(uuid \<Rightarrow> datetime) \<Rightarrow> uuid \<Rightarrow> uuid \<Rightarrow> retention_db \<Rightarrow> bool" where
  "finished cutoff t i db \<longleftrightarrow>
     run_status t i db = Some (purge_run_status_value PRS_COMPLETED) \<and> due_rows (due_filter t (cutoff i) 1) db = []"

text \<open>The run, unless its row is gone, is paused because of a hold.\<close>

definition suspended :: "uuid \<Rightarrow> uuid \<Rightarrow> retention_db \<Rightarrow> bool" where
  "suspended t i db \<longleftrightarrow> (\<forall>row. find_run t i db = Some row \<longrightarrow>
     prr_status row = purge_run_status_value PRS_PAUSED \<and> prr_last_error_code row = Some ''legal_hold_active'')"

text \<open>From \<open>w\<close> to \<open>w'\<close> there was a moment at which a hold of the tenant was active.\<close>

definition hold_found :: "uuid \<Rightarrow> retention_world \<Rightarrow> retention_world \<Rightarrow> bool" where
  "hold_found t w w' \<longleftrightarrow> (\<exists>d \<in> set (drop (length (rw_seen w)) (rw_seen w')). under_hold t d)"

text \<open>The job found the run in one of the statuses in which nothing is left to do.\<close>

definition found_ended :: "uuid \<Rightarrow> uuid \<Rightarrow> retention_db \<Rightarrow> bool" where
  "found_ended t i db \<longleftrightarrow> (\<exists>s \<in> finished_statuses. run_status t i db = Some (purge_run_status_value s))"

lemma find_replace_run:
  assumes "find_run t i db = Some row" and "same_run row row'"
  shows "find_run t i (replace_run row' db) = Some row'"
proof -
  have keys: "prr_id row' = i" "prr_tenant_id row' = t"
    using find_run_Some [OF assms(1)] assms(2) by (simp_all add: same_run_def)
  have "find (\<lambda>r. prr_tenant_id r = t \<and> prr_id r = i) xs = Some row \<Longrightarrow>
      find (\<lambda>r. prr_tenant_id r = t \<and> prr_id r = i) (map (\<lambda>r. if prr_id r = i then row' else r) xs) = Some row'" for xs
    by (induction xs) (auto simp: keys split: if_splits)
  then show ?thesis using assms(1) unfolding find_run_def replace_run_def by (simp add: keys)
qed

lemma run_update_Inr:
  assumes "purge_run_update p s = (Inr x, s')"
  obtains row where "find_run (pr_tenant_id p) (pr_id p) (se_db s) = Some row"
    and "se_db s' = replace_run (assign_run row p) (se_db s)" and "se_saved s' = se_saved s"
    and "run_columns_fit (assign_run row p)" and "run_row_checks (assign_run row p)"
  using assms
  by (auto simp: purge_run_update_def bindS_def query_def put_run_def modify_db_def replace_run_def result_simps
      split: option.splits sum.splits)

lemma purge_run_get_Inr:
  assumes "purge_run_get_by_id t i s = (Inr found, s')"
  shows "s' = s" and "found = None \<longleftrightarrow> find_run t i (se_db s) = None"
    and "found = Some p \<Longrightarrow> \<exists>row. find_run t i (se_db s) = Some row \<and> retention_purge_run_row_to_domain row = Inr p"
  using assms
  by (auto simp: purge_run_get_by_id_def bindS_def query_def optional_domain_def lift_result_def
      split: option.splits sum.splits)

lemma row_status_to_domain:
  "retention_purge_run_row_to_domain row = Inr p \<Longrightarrow> prr_status row = purge_run_status_value (pr_status p)"
  by (auto simp: retention_purge_run_row_to_domain_def dest!: RetentionPurgeRun_Inr enum_of_SomeD split: option.splits)

lemma unit_Inr:
  assumes "unit_of_work env body w = (Inr x, w')"
  obtains d s where "d = re_others env (w_draws w) (w_db w)"
    and "body \<lparr>se_db = d, se_saved = d, se_draws = Suc (w_draws w)\<rparr> = (Inr x, s)"
    and "w_db w' = se_saved s" and "rw_seen w' = rw_seen w @ [d]"
  using assms
  by (auto simp: unit_of_work_def bindS_def interfere_def transaction_def open_session_def close_session_def Let_def
      split: prod.splits)

lemma draw_outside_Inr [simp]:
  "draw_outside src w = (Inr x, w') \<longleftrightarrow> x = src (w_draws w) \<and> w' = w\<lparr>w_draws := Suc (w_draws w)\<rparr>"
  by (auto simp: draw_outside_def)

lemma bind_draw_outside: "bindS (draw_outside src) f w = f (src (w_draws w)) (w\<lparr>w_draws := Suc (w_draws w)\<rparr>)"
  by (simp add: bindS_def draw_outside_def)

lemma pause_in_session_Inr:
  assumes "pause_in_session t i b x y now s = (Inr u, s')" and "se_saved s = se_db s"
  shows "suspended t i (se_saved s')"
proof -
  from assms(1) obtain found s1 where get: "purge_run_get_by_id t i s = (Inr found, s1)"
    and rest: "(case found of None \<Rightarrow> returnS ()
     | Some purge_run \<Rightarrow> bindS (lift_result (paused_run purge_run b x y now)) (\<lambda>paused.
         bindS (purge_run_update paused) (\<lambda>_. commit))) s1 = (Inr u, s')"
    unfolding pause_in_session_def by (rule bindS_InrE)
  show ?thesis
  proof (cases found)
    case None
    then show ?thesis
      using rest purge_run_get_Inr(1,2) [OF get] assms(2) by (simp add: suspended_def)
  next
    case (Some p)
    obtain row where row: "find_run t i (se_db s) = Some row" "retention_purge_run_row_to_domain row = Inr p"
      using purge_run_get_Inr(3) [OF get Some] by blast
    note keys = run_to_domain_Inr [OF row(2)] find_run_Some [OF row(1)]
    from rest Some obtain q s2 where paused: "paused_run p b x y now = Inr q"
      and upd: "purge_run_update q s1 = (Inr (), s2)" and s': "se_saved s' = se_db s2"
      by (auto elim!: bindS_InrE)
    have q: "pr_id q = i" "pr_tenant_id q = t" "pr_status q = PRS_PAUSED" "pr_last_error_code q = Some ''legal_hold_active''"
      using paused keys by (auto simp: paused_run_def dest!: RetentionPurgeRun_Inr)
    show ?thesis
    proof (rule run_update_Inr [OF upd])
      fix row'
      assume "find_run (pr_tenant_id q) (pr_id q) (se_db s1) = Some row'"
        and s2: "se_db s2 = replace_run (assign_run row' q) (se_db s1)"
      then have "find_run t i (se_db s1) = Some row'" by (simp add: q)
      from find_replace_run [OF this same_run_changes(1)] show ?thesis
        by (simp add: suspended_def s' s2) (simp add: assign_run_def q)
    qed
  qed
qed

lemma pause_suspends:
  assumes "mark_run_paused env t i b x y w = (Inr u, w')"
  shows "suspended t i (w_db w')"
proof -
  from assms obtain now v where "unit_of_work env (pause_in_session t i b x y now) v = (Inr u, w')"
    unfolding mark_run_paused_def by (rule bindS_InrE)
  then show ?thesis by (rule unit_Inr) (auto dest: pause_in_session_Inr)
qed

text \<open>A hold that a part of the handling found was found by the whole of it.\<close>

lemma hold_found_later:
  assumes "hold_found t v v'" and "related_to_end R w v" and "related_to_end S v' w'"
  shows "hold_found t w w'"
proof -
  obtain a b where v: "rw_seen v = rw_seen w @ a" and w': "rw_seen w' = rw_seen v' @ b"
    using assms(2,3) unfolding related_to_end_def by blast
  have "set (drop (length (rw_seen v)) (rw_seen v')) \<subseteq> set (drop (length (rw_seen w)) (rw_seen v'))"
    unfolding v by (rule set_drop_subset_set_drop) simp
  then show ?thesis using assms(1) unfolding hold_found_def w' by auto
qed

lemma related_same: "w_db v = w_db w \<Longrightarrow> rw_seen v = rw_seen w \<Longrightarrow> related_to_end any_step w v"
  by (simp add: related_to_end_def)

lemma has_hold_found:
  assumes "tenant_has_active_hold env t w = (Inr True, w')"
  shows "hold_found t w w'"
  using assms unfolding tenant_has_active_hold_def
  by (rule unit_Inr) (auto dest!: has_hold_Inr simp: hold_found_def under_hold_def)

lemma delete_found_hold:
  assumes "delete_and_record env t i c now s = (Inr True, s')"
  shows "active_holds t (se_db s) \<noteq> []"
proof -
  from assms obtain held s1 where hold: "repo_tenant_has_active_hold t s = (Inr held, s1)"
    and rest: "(if held then returnS True
     else
       bindS (draw (re_uuid4 env)) (\<lambda>batch_id.
       bindS (lift_result (RetentionPurgeBatch_post_init
                \<lparr>pb_id = batch_id, pb_tenant_id = t, pb_purge_run_id = i,
                 pb_deleted_content_id = c, pb_status = PBS_PENDING,
                 pb_created_at = now, pb_completed_at = None\<rparr>)) (\<lambda>batch.
       bindS (purge_batch_add batch) (\<lambda>_.
       bindS (content_call (content_delete (re_referenced env) t c)) (\<lambda>_.
       bindS (batch_update_status t (pb_id batch) PBS_COMPLETED (Some now)) (\<lambda>_.
       bindS commit (\<lambda>_. returnS False))))))) s1 = (Inr True, s')"
    unfolding delete_and_record_def by (rule bindS_InrE)
  have held using rest by (cases held) (auto elim!: bindS_InrE)
  then show ?thesis using has_hold_Inr [OF hold] by simp
qed

lemma build_job_Inr:
  assumes "build_outbox_job j t kind ref key at av pri att = Inr job"
  shows "oj_tenant_id job = t" and "oj_deduplication_key job = key" and "oj_job_kind job = kind" and "oj_id job = j"
  using assms by (auto simp: build_outbox_job_def Let_def OutboxJob_post_init_def bindE_Inr_iff)

lemma enqueue_job_Inr:
  assumes "enqueue_retention_job env j t i key now s = (Inr x, s')"
    and "distinct (map dedup_index (rt_jobs (se_db s)))"
  obtains js where "se_db s' = (se_db s)\<lparr>rt_jobs := js\<rparr>" and "se_saved s' = se_saved s"
    and "\<exists>job \<in> set js. row_tenant_id job = Some t \<and> row_deduplication_key job = key"
    and "\<exists>job. set js \<subseteq> insert job (set (rt_jobs (se_db s)))"
proof -
  from assms(1) obtain job where job: "retention_job j t i key now = Inr job"
    and rest: "enqueue_suppressed env job s = (Inr x, s')"
    unfolding enqueue_retention_job_def by (cases "retention_job j t i key now") auto
  have built: "oj_tenant_id job = Some t" "oj_deduplication_key job = key"
    using job by (auto simp: retention_job_def bindE_Inr_iff dest: build_job_Inr)
  let ?row = "outbox_job_to_row job"
  have row: "row_tenant_id ?row = Some t" "row_deduplication_key ?row = key"
    using built by (simp_all add: outbox_job_to_row_def)
  show ?thesis
  proof (cases "enqueue (rt_jobs (se_db s)) job")
    case (Inr js)
    then have "js = rt_jobs (se_db s) @ [?row]" by (auto simp: enqueue_def bindE_Inr_iff Let_def)
    then have js: "set js = insert ?row (set (rt_jobs (se_db s)))" by auto
    show ?thesis
    proof (rule that [of js])
      show "\<exists>job. set js \<subseteq> insert job (set (rt_jobs (se_db s)))" using js by blast
      show "\<exists>job \<in> set js. row_tenant_id job = Some t \<and> row_deduplication_key job = key" using js row by blast
    qed (use rest Inr in \<open>auto simp: enqueue_suppressed_def bindS_def query_def modify_db_def\<close>)
  next
    case (Inl e)
    then obtain m where e: "e = DuplicateOutboxJobError m" and s': "s' = s"
      using rest by (auto simp: enqueue_suppressed_def bindS_def query_def split: outbox_repo_error.splits option.splits)
    then have "\<not> distinct (map dedup_index (rt_jobs (se_db s) @ [?row]))"
      using Inl by (auto simp: enqueue_def flush_jobs_def bindE_def Let_def split: sum.splits if_splits)
    then obtain other where "other \<in> set (rt_jobs (se_db s))" "dedup_index other = dedup_index ?row"
      using assms(2) by auto
    then show ?thesis using that [of "rt_jobs (se_db s)"] row s' by (auto simp: dedup_index_def)
  qed
qed

lemma due_rows_runs [simp]: "due_rows f (replace_run row e) = due_rows f e" "due_rows f (e\<lparr>rt_jobs := js\<rparr>) = due_rows f e"
  by (simp_all add: due_rows_def)

lemma find_run_jobs [simp]: "find_run t i (e\<lparr>rt_jobs := js\<rparr>) = find_run t i e"
  by (simp add: find_run_def)

lemma due_rows_limit: "due_rows (due_filter t x n) db = due_rows (due_filter t x m) db"
  by (simp add: due_rows_def due_filter_def)

text \<open>The last unit of work, when it returns.\<close>

lemma finish_Inr:
  assumes "finish_batch env t u now s = (Inr x, s')" and "distinct (map dedup_index (rt_jobs (se_db s)))"
    and "pr_tenant_id u = t" and "pr_id u = i"
  obtains (completed) "run_status t i (se_saved s') = Some (purge_run_status_value PRS_COMPLETED)"
      and "due_rows (due_filter t (pr_expires_before u) 1) (se_saved s') = []"
      and "rt_jobs (se_saved s') = rt_jobs (se_db s)" and "cd_contents (se_saved s') = cd_contents (se_db s)"
  | (continues) row where "find_run t i (se_saved s') = Some (assign_run row u)"
      and "run_columns_fit (assign_run row u)" and "run_row_checks (assign_run row u)"
      and "due_rows (due_filter t (pr_expires_before u) 1) (se_saved s') \<noteq> []"
      and "\<exists>job \<in> set (rt_jobs (se_saved s')). row_tenant_id job = Some t \<and>
             row_deduplication_key job = continuation_key i (pr_items_deleted u)"
      and "\<exists>job. set (rt_jobs (se_saved s')) \<subseteq> insert job (set (rt_jobs (se_db s)))"
      and "cd_contents (se_saved s') = cd_contents (se_db s)" and "rt_holds (se_saved s') = rt_holds (se_db s)"
proof -
  let ?due = "due_rows (due_filter t (pr_expires_before u) 1) (se_db s)"
  from assms(1) obtain remaining s1 s2 where list: "list_due env t (pr_expires_before u) 1 s = (Inr remaining, s1)"
    and body: "(if remaining \<noteq> []
        then bindS (purge_run_update u) (\<lambda>_. bindS (draw (re_uuid4 env)) (\<lambda>continuation_job_id.
          enqueue_retention_job env continuation_job_id t (pr_id u)
            (continuation_key (pr_id u) (pr_items_deleted u)) now))
        else bindS (lift_result (RetentionPurgeRun_post_init
                   (u\<lparr>pr_status := PRS_COMPLETED, pr_completed_at := Some now,
                      pr_claim_token := None, pr_claim_expires_at := None\<rparr>))) (\<lambda>completed.
          purge_run_update completed)) s1 = (Inr (), s2)" and s': "se_saved s' = se_db s2"
    unfolding finish_batch_def by (auto elim!: bindS_InrE)
  note listed = list_due_Inr [OF list]
  have "length remaining = min 1 (length ?due)"
    using arg_cong [OF listed(3), of length] by simp
  then have empty: "remaining = [] \<longleftrightarrow> ?due = []" by (cases ?due) auto
  show ?thesis
  proof (cases "remaining = []")
    case True
    with body obtain q where q: "q = u\<lparr>pr_status := PRS_COMPLETED, pr_completed_at := Some now,
        pr_claim_token := None, pr_claim_expires_at := None\<rparr>" and upd: "purge_run_update q s1 = (Inr (), s2)"
      by (auto elim!: bindS_InrE dest!: RetentionPurgeRun_Inr)
    show ?thesis
    proof (rule run_update_Inr [OF upd])
      fix row
      assume "find_run (pr_tenant_id q) (pr_id q) (se_db s1) = Some row"
        and s2: "se_db s2 = replace_run (assign_run row q) (se_db s1)"
      then have "find_run t i (se_db s1) = Some row" by (simp add: q assms(3,4))
      from find_replace_run [OF this same_run_changes(1)] show ?thesis
        using True empty by (intro completed) (simp_all add: run_status_def s' s2 listed(1), simp add: assign_run_def q)
    qed
  next
    case False
    with body obtain s3 where upd: "purge_run_update u s1 = (Inr (), s3)"
      and rest: "bindS (draw (re_uuid4 env)) (\<lambda>continuation_job_id.
          enqueue_retention_job env continuation_job_id t (pr_id u)
            (continuation_key (pr_id u) (pr_items_deleted u)) now) s3 = (Inr (), s2)"
      by (auto elim: bindS_InrE)
    define j s4 where "j = re_uuid4 env (se_draws s3)" and "s4 = s3\<lparr>se_draws := Suc (se_draws s3)\<rparr>"
    then have s4: "se_db s4 = se_db s3"
      and enq: "enqueue_retention_job env j t i (continuation_key i (pr_items_deleted u)) now s4 = (Inr (), s2)"
      using rest by (auto elim!: bindS_InrE simp: assms(4))
    show ?thesis
    proof (rule run_update_Inr [OF upd])
      fix row
      assume "find_run (pr_tenant_id u) (pr_id u) (se_db s1) = Some row"
        and s3: "se_db s3 = replace_run (assign_run row u) (se_db s1)"
        and ok: "run_columns_fit (assign_run row u)" "run_row_checks (assign_run row u)"
      then have "find_run t i (se_db s1) = Some row" by (simp add: assms(3,4))
      then have "find_run t i (se_db s) = Some row" by (simp add: listed(1))
      note found = find_replace_run [OF this same_run_changes(1), of u]
      have "distinct (map dedup_index (rt_jobs (se_db s4)))" using assms(2) by (simp add: s4 s3 listed(1))
      from enq this obtain js where s2: "se_db s2 = (se_db s4)\<lparr>rt_jobs := js\<rparr>"
        and job: "\<exists>job \<in> set js. row_tenant_id job = Some t \<and>
             row_deduplication_key job = continuation_key i (pr_items_deleted u)"
        and js: "\<exists>job. set js \<subseteq> insert job (set (rt_jobs (se_db s4)))"
        by (rule enqueue_job_Inr)
      show ?thesis
        using False empty ok job js by (intro continues [of row]) (simp_all add: s' s2 s4 s3 listed(1) found)
    qed
  qed
qed

abbreviation limited :: "(uuid \<Rightarrow> datetime) \<Rightarrow> retention_env \<Rightarrow> retention_env" where
  "limited cutoff env \<equiv> obeying (limits cutoff) any_step env"

lemma delete_content_stops:
  assumes "delete_content_under_lock (limited cutoff env) t i c x y w = (Inr True, w')" and "limits cutoff (w_db w)"
  shows "suspended t i (w_db w') \<and> hold_found t w w'"
proof -
  let ?env = "limited cutoff env"
  define w1 where "w1 = w\<lparr>w_draws := Suc (w_draws w)\<rparr>"
  define now where "now = re_clock ?env (w_draws w)"
  from assms(1) have "bindS (under_tenant_retention_lock ?env t (delete_and_record ?env t i (ec_id c) now)) (\<lambda>held.
     if held
     then bindS (mark_run_paused ?env t i True (Some x) (Some y)) (\<lambda>_. returnS True)
     else returnS False) w1 = (Inr True, w')"
    unfolding delete_content_under_lock_def bind_draw_outside w1_def now_def .
  then obtain held v where unit: "unit_of_work ?env (delete_and_record ?env t i (ec_id c) now) w1 = (Inr held, v)"
    and rest: "(if held
     then bindS (mark_run_paused ?env t i True (Some x) (Some y)) (\<lambda>_. returnS True)
     else returnS False) v = (Inr True, w')"
    unfolding under_tenant_retention_lock_def by (rule bindS_InrE)
  have held: held using rest by (cases held) simp_all
  have found: "hold_found t w1 v"
    using unit unfolding hold_found_def under_hold_def
    by (rule unit_Inr) (use held in \<open>auto dest!: delete_found_hold\<close>)
  have v: "limits cutoff (w_db v)"
    using unit
  proof (rule unit_Inr)
    fix d s
    assume "d = re_others ?env (w_draws w1) (w_db w1)" and v: "w_db v = se_saved s"
      and run: "delete_and_record ?env t i (ec_id c) now \<lparr>se_db = d, se_saved = d, se_draws = Suc (w_draws w1)\<rparr> = (Inr held, s)"
    then have "limits cutoff d" using assms(2) by (simp add: obeying_def w1_def)
    then show ?thesis
      by (cases rule: delete_effect [OF run]) (simp_all add: v limits_def deleted_and_recorded_def)
  qed
  from rest held have "bindS (mark_run_paused ?env t i True (Some x) (Some y)) (\<lambda>_. returnS True) v = (Inr True, w')"
    by simp
  then obtain u w2 where pause: "mark_run_paused ?env t i True (Some x) (Some y) v = (Inr u, w2)" and w2: "w' = w2"
    by (rule bindS_InrE) simp
  show ?thesis
    using pause_suspends [OF pause] w2
      hold_found_later [OF found related_same steady_steps.withinD(2) [OF steady.within_pause v pause]]
    by (simp add: w1_def)
qed

lemma delete_due_stops:
  assumes "delete_due (limited cutoff env) t tok cs p k m w = (Inr None, w')"
    and "limits cutoff (w_db w)" and "steady.own cutoff t p" and "pr_id p = i"
  shows "suspended t i (w_db w') \<and> hold_found t w w'"
  using assms
proof (induction cs arbitrary: p k m w)
  case Nil
  then show ?case by simp
next
  case (Cons c cs)
  from Cons.prems(1) obtain q n v where renew: "maybe_renew_claim (limited cutoff env) p tok m w = (Inr (q, n), v)"
    and rest: "bindS (delete_content_under_lock (limited cutoff env) t (pr_id q) c
        (pr_items_scanned q + k) (pr_items_deleted q + k)) (\<lambda>paused. if paused then returnS None
          else delete_due (limited cutoff env) t tok cs q (k + 1) (n + 1)) v = (Inr None, w')"
    unfolding delete_due.simps by (rule bindS_InrE) (auto split: prod.splits)
  note renewed = steady_steps.withinD [OF steady.within_renew [OF Cons.prems(3)] Cons.prems(2) renew]
  have q: "steady.own cutoff t q" "pr_id q = i" using renewed(3) [OF HOL.refl] Cons.prems(4) by auto
  from rest obtain paused v' where del: "delete_content_under_lock (limited cutoff env) t i c
        (pr_items_scanned q + k) (pr_items_deleted q + k) v = (Inr paused, v')"
    and go: "(if paused then returnS None else delete_due (limited cutoff env) t tok cs q (k + 1) (n + 1)) v' = (Inr None, w')"
    unfolding q(2) by (rule bindS_InrE)
  show ?case
  proof (cases paused)
    case True
    then have "w' = v'" using go by simp
    then show ?thesis
      using delete_content_stops [OF del [unfolded eqTrueI [OF True]] renewed(1)]
        hold_found_later [OF _ renewed(2) related_same [OF HOL.refl HOL.refl]] by blast
  next
    case False
    note kept = steady_steps.withinD [OF steady.within_delete renewed(1) del]
    have v': "limits cutoff (w_db v')" by (rule kept(1)) simp
    have "related_to_end any_step w v'" by (rule steady_steps.related_trans [OF renewed(2) kept(2)]) simp
    moreover have "suspended t i (w_db w') \<and> hold_found t v' w'" using go False q v' by (intro Cons.IH) simp_all
    ultimately show ?thesis using hold_found_later [OF _ _ related_same [OF HOL.refl HOL.refl]] by blast
  qed
qed

lemma claim_found_ended:
  assumes "claim_in_session t i tok now s = (Inr (Some p), s')" and "pr_status p \<in> finished_statuses"
    and "se_saved s = se_db s"
  shows "found_ended t i (se_saved s') \<and> se_saved s' = se_saved s"
proof -
  from assms(1) obtain found s1 where got: "purge_run_get_by_id t i s = (Inr found, s1)"
    and rest: "(case found of None \<Rightarrow> raiseS (RetentionPurgeHandlerError EC_RESOURCE_UNAVAILABLE True)
     | Some existing \<Rightarrow>
         if pr_status existing \<in> finished_statuses then returnS (Some existing)
         else
           bindS (try_claim t i tok (dt_plus now CLAIM_LEASE) now (Some (pr_version existing))) (\<lambda>claimed.
           bindS commit (\<lambda>_. returnS claimed))) s1 = (Inr (Some p), s')"
    unfolding claim_in_session_def by (rule bindS_InrE)
  have s1: "s1 = s" by (rule purge_run_get_Inr(1) [OF got])
  note get = got [unfolded s1] and rest = rest [unfolded s1]
  from rest obtain e where e: "found = Some e" by (cases found) auto
  obtain row where row: "find_run t i (se_db s) = Some row" "retention_purge_run_row_to_domain row = Inr e"
    using purge_run_get_Inr(3) [OF get e] by blast
  show ?thesis
  proof (cases "pr_status e \<in> finished_statuses")
    case True
    then show ?thesis
      using rest e row row_status_to_domain [OF row(2)] assms(3) by (auto simp: found_ended_def run_status_def)
  next
    case False
    then obtain s2 where "try_claim t i tok (dt_plus now CLAIM_LEASE) now (Some (pr_version e)) s = (Inr (Some p), s2)"
      using rest e by (auto elim!: bindS_InrE)
    then have "\<exists>row. retention_purge_run_row_to_domain (claim_row tok (dt_plus now CLAIM_LEASE) now row) = Inr p"
      unfolding try_claim_def
      by (rule bindS_InrE) (force simp: put_and_return_def optional_domain_def bindS_def lift_result_def
        split: option.splits if_splits prod.splits sum.splits)
    then have "purge_run_status_value (pr_status p) = purge_run_status_value PRS_RUNNING"
      using row_status_to_domain by (fastforce simp: claim_row_def)
    then have "pr_status p = PRS_RUNNING" by (cases "pr_status p") simp_all
    then show ?thesis using assms(2) by (simp add: finished_statuses_def)
  qed
qed

lemma batch_result_Inr:
  assumes "batch_result p tok n k now = Inr u"
  shows "pr_id u = pr_id p" and "pr_tenant_id u = pr_tenant_id p" and "pr_expires_before u = pr_expires_before p"
    and "pr_claim_token u = Some tok" and "pr_claim_expires_at u = Some (dt_plus now CLAIM_LEASE)"
    and "pr_status u = pr_status p"
  using assms by (auto simp: batch_result_def dest!: RetentionPurgeRun_Inr)

text \<open>The row that the last unit of work leaves when the run goes on: leased to the job's claim.\<close>

definition leased :: "retention_env \<Rightarrow> uuid \<Rightarrow> uuid \<Rightarrow> uuid \<Rightarrow> retention_db \<Rightarrow> bool" where
  "leased env tok t i db \<longleftrightarrow>
     (\<exists>row n. find_run t i db = Some row \<and> run_columns_fit row \<and> run_row_checks row \<and>
        prr_claim_token row = Some tok \<and>
        prr_claim_expires_at row = Some (dt_plus (re_clock env n) CLAIM_LEASE))"

definition job_ended ::
    "retention_env \<Rightarrow> uuid \<Rightarrow> (uuid \<Rightarrow> datetime) \<Rightarrow> uuid \<Rightarrow> uuid \<Rightarrow> retention_world \<Rightarrow> retention_world \<Rightarrow> bool" where
  "job_ended env tok cutoff t i v w \<longleftrightarrow>
     suspended t i (w_db w) \<and> hold_found t v w \<or> finished cutoff t i (w_db w) \<or>
     continued cutoff t i (w_db w) \<and> leased env tok t i (w_db w) \<or>
     found_ended t i (w_db w) \<and> w_db w \<in> set (rw_seen w)"

lemma job_ended_later:
  "job_ended env tok cutoff t i v w' \<Longrightarrow> related_to_end R w v \<Longrightarrow> job_ended env tok cutoff t i w w'"
  using hold_found_later [OF _ _ related_same [OF HOL.refl HOL.refl]] unfolding job_ended_def by blast

lemma limited_fields [simp]: "re_clock (limited cutoff env) = re_clock env"
  by (simp add: obeying_def)

lemma batch_ends:
  assumes run: "purge_batch_of (limited cutoff env) t tok p w = (Inr (), w')"
    and w: "limits cutoff (w_db w)" and p: "steady.own cutoff t p" "pr_id p = i"
  shows "job_ended env tok cutoff t i w w'"
proof -
  from run obtain due w1 where list: "unit_of_work (limited cutoff env)
        (list_due (limited cutoff env) t (pr_expires_before p) (re_batch_size (limited cutoff env))) w = (Inr due, w1)"
    and rest: "bindS (delete_due (limited cutoff env) t tok due p 0 0) (\<lambda>outcome.
       case outcome of None \<Rightarrow> returnS ()
       | Some (claimed, batch_deleted) \<Rightarrow>
         bindS (draw_outside (re_clock (limited cutoff env))) (\<lambda>now.
         bindS (lift_result (batch_result claimed tok (int (length due)) batch_deleted now)) (\<lambda>updated_run.
         unit_of_work (limited cutoff env) (finish_batch (limited cutoff env) t updated_run now)))) w1 = (Inr (), w')"
    unfolding purge_batch_of_def by (rule bindS_InrE)
  have w1: "limits cutoff (w_db w1)" "related_to_end any_step w w1"
    by (rule steady_steps.withinD(1,2) [OF steady_steps.within_unit w list], rule keeps_row_to_contents)+
  from rest obtain out w2 where loop: "delete_due (limited cutoff env) t tok due p 0 0 w1 = (Inr out, w2)"
    and last: "(case out of None \<Rightarrow> returnS ()
       | Some (claimed, batch_deleted) \<Rightarrow>
         bindS (draw_outside (re_clock (limited cutoff env))) (\<lambda>now.
         bindS (lift_result (batch_result claimed tok (int (length due)) batch_deleted now)) (\<lambda>updated_run.
         unit_of_work (limited cutoff env) (finish_batch (limited cutoff env) t updated_run now)))) w2 = (Inr (), w')"
    by (rule bindS_InrE)
  note looped = steady_steps.withinD [OF steady.within_delete_due [OF p] w1(1) loop]
  show ?thesis
  proof (cases out)
    case None
    then show ?thesis
      using last delete_due_stops [OF loop [unfolded None] w1(1) p]
        hold_found_later [OF _ w1(2) related_same [OF HOL.refl HOL.refl]] by (auto simp: job_ended_def)
  next
    case (Some qn)
    then obtain q n where out: "out = Some (q, n)" by (cases qn) auto
    have q: "pr_id q = i" "pr_tenant_id q = t" "pr_expires_before q = cutoff i"
      using looped(3) [OF TrueI HOL.refl] p(2) by (auto simp: out steady.ends_own_def steady.own_def)
    define now w3 where "now = re_clock (limited cutoff env) (w_draws w2)" and "w3 = w2\<lparr>w_draws := Suc (w_draws w2)\<rparr>"
    then have w3: "w_db w3 = w_db w2"
      and "bindS (lift_result (batch_result q tok (int (length due)) n now)) (\<lambda>updated_run.
         unit_of_work (limited cutoff env) (finish_batch (limited cutoff env) t updated_run now)) w3 = (Inr (), w')"
      using last by (simp_all add: out bind_draw_outside)
    from this(2) obtain u where u: "batch_result q tok (int (length due)) n now = Inr u"
      and unit: "unit_of_work (limited cutoff env) (finish_batch (limited cutoff env) t u now) w3 = (Inr (), w')"
      by (rule bindS_InrE) simp
    note us = batch_result_Inr [OF u]
    have w2: "limits cutoff (w_db w2)" by (rule looped(1)) simp
    from unit show ?thesis
    proof (rule unit_Inr)
      fix d s
      assume d: "d = re_others (limited cutoff env) (w_draws w3) (w_db w3)"
        and fin: "finish_batch (limited cutoff env) t u now \<lparr>se_db = d, se_saved = d, se_draws = Suc (w_draws w3)\<rparr> = (Inr (), s)"
        and w': "w_db w' = se_saved s"
      have "limits cutoff d" using w2 unfolding d w3 by (simp add: obeying_def)
      then have "distinct (map dedup_index (rt_jobs d))" by (simp add: limits_def)
      then show ?thesis
        by (rule finish_Inr [OF fin, of i, simplified])
          (auto simp: us q job_ended_def finished_def continued_def leased_def w' now_def assign_run_def)
    qed
  qed
qed

lemma run_ends:
  assumes run: "purge_run_of (limited cutoff env) t i tok w = (Inr (), w')" and w: "limits cutoff (w_db w)"
  shows "job_ended env tok cutoff t i w w'"
proof -
  from run obtain held w1 where hold: "tenant_has_active_hold (limited cutoff env) t w = (Inr held, w1)"
    and rest: "(if held then mark_run_paused (limited cutoff env) t i True None None
     else
       bindS (claim_run (limited cutoff env) t i tok) (\<lambda>claimed.
       case claimed of None \<Rightarrow> raiseS stale_claim
       | Some claimed \<Rightarrow>
           if pr_status claimed \<in> finished_statuses then returnS ()
           else
             bindS (tenant_has_active_hold (limited cutoff env) t) (\<lambda>held.
             if held then mark_run_paused (limited cutoff env) t (pr_id claimed) True None None
             else purge_batch_of (limited cutoff env) t tok claimed))) w1 = (Inr (), w')"
    unfolding purge_run_of_def by (rule bindS_InrE)
  note w1 = steady_steps.withinD(1,2) [OF steady_steps.within_has_hold w hold]
  show ?thesis
  proof (cases held)
    case True
    then have pause: "mark_run_paused (limited cutoff env) t i True None None w1 = (Inr (), w')" using rest by simp
    show ?thesis
      using pause_suspends [OF pause] hold_found_later [OF has_hold_found [OF hold [unfolded eqTrueI [OF True]]]
          related_same [OF HOL.refl HOL.refl] steady_steps.withinD(2) [OF steady.within_pause w1(1) pause]]
      by (simp add: job_ended_def)
  next
    case False
    then obtain claimed w2 where claim: "claim_run (limited cutoff env) t i tok w1 = (Inr claimed, w2)"
      and go: "(case claimed of None \<Rightarrow> raiseS stale_claim
       | Some claimed \<Rightarrow>
           if pr_status claimed \<in> finished_statuses then returnS ()
           else
             bindS (tenant_has_active_hold (limited cutoff env) t) (\<lambda>held.
             if held then mark_run_paused (limited cutoff env) t (pr_id claimed) True None None
             else purge_batch_of (limited cutoff env) t tok claimed)) w2 = (Inr (), w')"
      using rest by (auto elim: bindS_InrE)
    note owned = steady_steps.withinD [OF steady.within_claim w1(1) claim]
    from go obtain p where p: "claimed = Some p" by (cases claimed) auto
    have own: "steady.own cutoff t p" "pr_id p = i"
      using owned(3) [OF HOL.refl] by (simp_all add: p steady.owned_def)
    show ?thesis
    proof (cases "pr_status p \<in> finished_statuses")
      case True
      then have w': "w' = w2" using go p by simp
      from claim obtain v now where "unit_of_work (limited cutoff env) (claim_in_session t i tok now) v = (Inr claimed, w2)"
        unfolding claim_run_def by (rule bindS_InrE)
      then show ?thesis
        by (rule unit_Inr) (use claim_found_ended [OF _ True] p w' in \<open>fastforce simp: job_ended_def\<close>)
    next
      case False
      then obtain held' w3 where hold': "tenant_has_active_hold (limited cutoff env) t w2 = (Inr held', w3)"
        and go': "(if held' then mark_run_paused (limited cutoff env) t (pr_id p) True None None
             else purge_batch_of (limited cutoff env) t tok p) w3 = (Inr (), w')"
        using go p by (auto elim: bindS_InrE)
      note w3 = steady_steps.withinD(1,2) [OF steady_steps.within_has_hold owned(1) hold']
      have w2: "related_to_end any_step w w2" by (rule steady_steps.related_trans [OF w1(2) owned(2)])
      show ?thesis
      proof (cases held')
        case True
        then have pause: "mark_run_paused (limited cutoff env) t i True None None w3 = (Inr (), w')"
          using go' own(2) by simp
        show ?thesis
          using pause_suspends [OF pause] hold_found_later [OF has_hold_found [OF hold' [unfolded eqTrueI [OF True]]]
              w2 steady_steps.withinD(2) [OF steady.within_pause w3(1) pause]]
          by (simp add: job_ended_def)
      next
        case False
        then have "job_ended env tok cutoff t i w3 w'" using go' batch_ends [OF _ w3(1) own] by simp
        then show ?thesis by (rule job_ended_later) (rule steady_steps.related_trans [OF w2 w3(2)])
      qed
    qed
  qed
qed

text \<open>
  C16. How a purge job ends. When the handler returns without an exception, then one of four things
  holds, whatever other sessions do as long as they change no run's limit and keep the jobs' unique
  index: an active hold of the tenant was found during the handling, and the run is paused with the
  error code of a hold or its row is missing; the run is completed and no content of the tenant is due
  for it; the run is claimed, contents are still due and a continuation job for it is stored; or the
  run had already ended when the job came and nothing was changed. So no due content is forgotten
  unless a hold stands against its deletion.
\<close>

theorem purge_job_never_forgets:
  assumes "\<forall>n d. limits cutoff d \<longrightarrow> limits cutoff (re_others env n d)"
    and "limits cutoff (w_db w)" and "handle_retention_job env job w = (Inr (), w')"
    and "oj_tenant_id job = Some t" and "ref_resource_id (oj_reference job) = i"
  shows "suspended t i (w_db w') \<and> hold_found t w w' \<or> finished cutoff t i (w_db w') \<or>
    continued cutoff t i (w_db w') \<or> found_ended t i (w_db w') \<and> w_db w' \<in> set (rw_seen w')"
proof -
  have env: "limited cutoff env = env" using assms(1) by (intro obeying_same) (simp add: obeys_def)
  have "ref_resource_type (oj_reference job) = ''retention_purge_run''"
    using assms(3,4) by (auto simp: handle_retention_job_def split: if_splits)
  with assms(3-5) obtain tok v where token: "(case oj_claim_token job of Some t \<Rightarrow> returnS t
        | None \<Rightarrow> draw_outside (re_uuid4 env)) w = (Inr tok, v)"
    and run: "purge_run_of env t i tok v = (Inr (), w')"
    unfolding handle_retention_job_def by (auto elim: bindS_InrE)
  have same: "w_db v = w_db w" "rw_seen v = rw_seen w"
    using token by (cases "oj_claim_token job"; auto simp: draw_outside_def)+
  then have "job_ended env tok cutoff t i v w'" using run_ends [of cutoff env t i tok v w'] run assms(2) by (simp add: env)
  then have "job_ended env tok cutoff t i w w'" by (rule job_ended_later) (rule related_same [OF same])
  then show ?thesis by (auto simp: job_ended_def)
qed

lemma sample_limits: "limits (\<lambda>i. Aware 100) (w_db sample_retention_world)"
  by (simp add: limits_def sample_retention_world_def sample_retention_db_def sample_run_row_def)

theorem purge_job_never_forgets_witness:
  "fst sample_purged = Inr () \<and>
   (suspended 1 50 (w_db (snd sample_purged)) \<and> hold_found 1 sample_retention_world (snd sample_purged) \<or> finished (\<lambda>i. Aware 100) 1 50 (w_db (snd sample_purged)) \<or>
    continued (\<lambda>i. Aware 100) 1 50 (w_db (snd sample_purged)) \<or>
    found_ended 1 50 (w_db (snd sample_purged)) \<and> w_db (snd sample_purged) \<in> set (rw_seen (snd sample_purged)))"
proof -
  have ran: "fst sample_purged = Inr ()" using sample_purge_summary by (simp add: purge_summary_def)
  then have run: "handle_retention_job (sample_retention_env (\<lambda>n d. d) 10) (sample_purge_job None) sample_retention_world
      = (Inr (), snd sample_purged)"
    unfolding sample_purged_def by (metis prod.collapse)
  have quiet: "\<forall>n d. limits (\<lambda>i. Aware 100) d \<longrightarrow>
      limits (\<lambda>i. Aware 100) (re_others (sample_retention_env (\<lambda>n d. d) 10) n d)"
    by (simp add: sample_retention_env_def)
  have job: "oj_tenant_id (sample_purge_job None) = Some 1" "ref_resource_id (oj_reference (sample_purge_job None)) = 50"
    by (simp_all add: sample_purge_job_def)
  show ?thesis using ran purge_job_never_forgets [OF quiet sample_limits run job] by blast
qed

section \<open>A continuation that comes too early\<close>

lemma aware_runs:
  "aware x \<Longrightarrow> aware_or_error f x = Inr ()"
  "pred_option aware y \<Longrightarrow> when_some y (aware_or_error f) = Inr ()"
  by (simp add: aware_or_error_def require_aware_def)
    (cases y; simp add: aware_or_error_def require_aware_def)

lemma run_row_decodes:
  assumes "run_columns_fit row" and "run_row_checks row"
  obtains p where "retention_purge_run_row_to_domain row = Inr p"
proof -
  obtain s where "enum_of purge_run_status_value purge_run_statuses (prr_status row) = Some s"
    using assms(2) purge_run_status_of_value by (auto simp: run_row_checks_def)
  then show ?thesis
    using assms that
    by (simp add: retention_purge_run_row_to_domain_def RetentionPurgeRun_post_init_def aware_runs
        validate_non_negative_int_def run_columns_fit_def run_row_checks_def)
qed

lemma no_hold_run:
  assumes "active_holds t (se_db s) = []"
  shows "repo_tenant_has_active_hold t s = (Inr False, s)"
  by (simp add: repo_tenant_has_active_hold_def get_active_for_tenant_def optional_domain_def bindS_def query_def assms)

lemma leased_claim_refused:
  assumes row: "find_run t i (se_db s) = Some row" and ok: "run_columns_fit row" "run_row_checks row"
    and running: "prr_status row = purge_run_status_value PRS_RUNNING"
    and lease: "prr_claim_token row = Some tok" "prr_claim_expires_at row = Some e" "now < e" "tok \<noteq> tok'"
    and s: "se_saved s = se_db s"
  shows "claim_in_session t i tok' now s = (Inr None, s)"
proof -
  obtain p where p: "retention_purge_run_row_to_domain row = Inr p" using run_row_decodes [OF ok] .
  have get: "purge_run_get_by_id t i s = (Inr (Some p), s)"
    by (simp add: purge_run_get_by_id_def bindS_def query_def row optional_domain_def lift_result_def p)
  have "purge_run_status_value (pr_status p) = purge_run_status_value PRS_RUNNING"
    using row_status_to_domain [OF p] running by simp
  then have status: "pr_status p \<notin> finished_statuses"
    by (cases "pr_status p") (simp_all add: finished_statuses_def)
  have "try_claim t i tok' f now v s = (Inr None, s)" for f v
    using lease(1,2,4) lease(3) [THEN less_le_not_le [THEN iffD1]] by (auto simp: try_claim_def bindS_def query_def row claimable_def)
  then show ?thesis
    using s by (simp add: claim_in_session_def get bindS_def status commit_def)
qed

text \<open>
  C17. The job that continues a purge is refused while the lease of its predecessor lasts. A batch
  that leaves contents due leaves the run claimed for another five minutes, with the token of the
  finished job; the continuation it enqueues can be taken at once but has a token of its own. So
  when all readings of the clock are within five minutes and nobody else changes the tables, the
  handler raises \<open>STALE_CLAIM\<close> for it (a retryable error) and changes nothing.
\<close>

theorem continuation_waits_for_the_lease:
  assumes quiet: "\<forall>n d. re_others env n d = d"
    and clock: "\<forall>m n. re_clock env m < dt_plus (re_clock env n) CLAIM_LEASE"
    and "limits cutoff (w_db w)" and "handle_retention_job env job w = (Inr (), w')"
    and "oj_tenant_id job = Some t" and "ref_resource_id (oj_reference job) = i"
    and "oj_claim_token job = Some tok"
    and running: "run_status t i (w_db w') = Some (purge_run_status_value PRS_RUNNING)"
    and free: "active_holds t (w_db w') = []"
    and "oj_tenant_id next_job = Some t" and "ref_resource_id (oj_reference next_job) = i"
    and "ref_resource_type (oj_reference next_job) = ''retention_purge_run''"
    and "oj_claim_token next_job = Some tok'" and other: "tok \<noteq> tok'"
  shows "fst (handle_retention_job env next_job w') = Inl (RetentionPurgeHandlerError EC_STALE_CLAIM False) \<and>
    w_db (snd (handle_retention_job env next_job w')) = w_db w'"
proof -
  have env: "limited cutoff env = env" using quiet by (intro obeying_same) (simp add: obeys_def)
  have "ref_resource_type (oj_reference job) = ''retention_purge_run''"
    using assms(4,5) by (auto simp: handle_retention_job_def split: if_splits)
  then have "purge_run_of env t i tok w = (Inr (), w')"
    using assms(4-7) by (simp add: handle_retention_job_def bindS_def)
  then have "job_ended env tok cutoff t i w w'" using run_ends [of cutoff env t i tok w w'] assms(3) by (simp add: env)
  then have "leased env tok t i (w_db w')"
    using running by (auto simp: job_ended_def suspended_def run_status_def finished_def found_ended_def finished_statuses_def)
  then obtain row n where row: "find_run t i (w_db w') = Some row" "run_columns_fit row" "run_row_checks row"
    "prr_claim_token row = Some tok" "prr_claim_expires_at row = Some (dt_plus (re_clock env n) CLAIM_LEASE)"
    unfolding leased_def by blast
  have status: "prr_status row = purge_run_status_value PRS_RUNNING" using running row(1) by (simp add: run_status_def)
  have hold: "tenant_has_active_hold env t w' = (Inr False, w'\<lparr>w_draws := Suc (w_draws w'), rw_seen := rw_seen w' @ [w_db w']\<rparr>)"
    by (simp add: tenant_has_active_hold_def unit_of_work_def interfere_def bindS_def Let_def quiet transaction_def
        open_session_def no_hold_run free close_session_def)
  have "fst (claim_run env t i tok' v) = Inr None \<and> w_db (snd (claim_run env t i tok' v)) = w_db w'"
    if "w_db v = w_db w'" for v
    using leased_claim_refused [OF _ row(2,3) status row(4,5) clock [rule_format] other]
    by (simp add: claim_run_def draw_outside_def unit_of_work_def interfere_def bindS_def Let_def quiet
        transaction_def open_session_def close_session_def that row(1))
  then have claim: "fst (claim_run env t i tok' (w'\<lparr>w_draws := Suc (w_draws w'), rw_seen := rw_seen w' @ [w_db w']\<rparr>)) = Inr None"
    "w_db (snd (claim_run env t i tok' (w'\<lparr>w_draws := Suc (w_draws w'), rw_seen := rw_seen w' @ [w_db w']\<rparr>))) = w_db w'"
    by simp_all
  show ?thesis
    using claim
    by (auto simp: handle_retention_job_def assms(10-13) bindS_def purge_run_of_def hold stale_claim_def split: prod.splits sum.splits)
qed

theorem continuation_waits_for_the_lease_witness:
  "fst (handle_retention_job sample_short_env (sample_purge_job (Some 6)) (snd sample_first_batch)) =
     Inl (RetentionPurgeHandlerError EC_STALE_CLAIM False)"
proof -
  have ran: "fst sample_first_batch = Inr ()"
    and runs: "map (\<lambda>r. (prr_tenant_id r, prr_id r, prr_status r, prr_items_deleted r))
      (rt_runs (w_db (snd sample_first_batch))) = [(1, 50, ''running'', 1)]"
    and holds: "rt_holds (w_db (snd sample_first_batch)) = []"
    using sample_batch_summary by (simp_all add: batch_summary_def)
  have run: "handle_retention_job sample_short_env (sample_purge_job (Some 5)) sample_retention_world
      = (Inr (), snd sample_first_batch)"
    using ran unfolding sample_first_batch_def by (metis prod.collapse)
  have quiet: "\<forall>n d. re_others sample_short_env n d = d"
    and clock: "\<forall>m n. re_clock sample_short_env m < dt_plus (re_clock sample_short_env n) CLAIM_LEASE"
    by (simp_all add: sample_short_env_def sample_retention_env_def CLAIM_LEASE_def timedelta_defs)
  have status: "run_status 1 50 (w_db (snd sample_first_batch)) = Some (purge_run_status_value PRS_RUNNING)"
    using runs by (auto simp: run_status_def find_run_def)
  have free: "active_holds 1 (w_db (snd sample_first_batch)) = []" by (simp add: active_holds_def holds)
  have tokens: "(5 :: uuid) \<noteq> 6" by code_simp
  show ?thesis
    by (rule conjunct1 [OF continuation_waits_for_the_lease [OF quiet clock sample_limits run _ _ _ status free _ _ _ _ tokens]])
      (simp_all add: sample_purge_job_def)
qed

end
