(* ===== verification/Retention_Termination.thy ===== *)
theory Retention_Termination
  imports Retention_Continuation
begin

text \<open>
  Purge jobs give rise to further purge jobs. A pass of the worker over them ends: a job that is added
  comes with a content that is gone.
\<close>

section \<open>A pass over the purge jobs\<close>

text \<open>
  One pass of the worker over the purge jobs: it hands each stored job that it has not yet handled to
  the handler, the continuations that the pass itself gives rise to included, and leaves a job that
  raises to the retries. It stands for the worker loop without its claims, retries and delays, which
  \<open>Outbox_Services\<close> models: each stored job is handed over once. \<open>None\<close> is a pass that does not end.
\<close>

definition purge_jobs :: "retention_db \<Rightarrow> outbox_job_row list" where
  "purge_jobs db = filter (\<lambda>r. row_job_kind r = job_kind_value JK_RETENTION_DELETE) (rt_jobs db)"

definition waiting :: "uuid list \<Rightarrow> retention_db \<Rightarrow> outbox_job_row list" where
  "waiting handled db = filter (\<lambda>r. row_id r \<notin> set handled) (purge_jobs db)"

partial_function (option) work_off ::
    "retention_env \<Rightarrow> uuid list \<Rightarrow> retention_world \<Rightarrow> (uuid list \<times> retention_world) option" where
  "work_off env handled w =
     (case waiting handled (w_db w) of
        [] \<Rightarrow> Some (handled, w)
      | row # _ \<Rightarrow>
          (case outbox_job_to_domain row of
             Inl e \<Rightarrow> work_off env (row_id row # handled) w
           | Inr job \<Rightarrow> work_off env (row_id row # handled) (snd (handle_retention_job env job w))))"

text \<open>Other sessions store no content and enqueue no purge job meanwhile.\<close>

definition shrinks :: "retention_db \<Rightarrow> retention_db \<Rightarrow> bool" where
  "shrinks d e \<longleftrightarrow> set (cd_contents e) \<subseteq> set (cd_contents d) \<and> set (purge_jobs e) \<subseteq> set (purge_jobs d)"

lemma shrinks_refl: "shrinks d d" by (simp add: shrinks_def)

lemma shrinks_trans: "shrinks a b \<Longrightarrow> shrinks b c \<Longrightarrow> shrinks a c" by (auto simp: shrinks_def)

lemma purge_jobs_tables [simp]:
  "purge_jobs (replace_run row e) = purge_jobs e"
  "purge_jobs (deleted_and_recorded t c b e) = purge_jobs e"
  by (simp_all add: purge_jobs_def deleted_and_recorded_def)

abbreviation shrinking :: "retention_env \<Rightarrow> retention_env" where
  "shrinking env \<equiv> obeying any_tables shrinks env"

interpretation less_steps: retention_steps any_tables shrinks "shrinking env" for env
proof
  show "any_tables d \<Longrightarrow> any_tables (re_others (shrinking env) n d) \<and> shrinks d (re_others (shrinking env) n d)" for d n
    by (rule obeying_others) (simp_all add: shrinks_refl)
qed (rule shrinks_refl, rule shrinks_trans)

interpretation less: purge_parts any_tables shrinks "shrinking env" "\<lambda>_ _ _. True" "\<lambda>_ _ _. True" for env
proof
  show "less_steps.during d (replace_run row' e)" if "less_steps.during d e" for d e row'
    using that by (simp add: less_steps.during_def shrinks_def)
  show "less_steps.during d (deleted_and_recorded t c batch e)" if "less_steps.during d e" for d t c batch e
    using that by (auto simp: less_steps.during_def shrinks_def) (auto simp: deleted_and_recorded_def)
qed simp_all

section \<open>What one job changes\<close>

lemma enqueue_jobs:
  assumes "enqueue_retention_job env j t i key now s = (r, s')"
  shows "cd_contents (se_db s') = cd_contents (se_db s) \<and>
    (\<exists>job. set (rt_jobs (se_db s')) \<subseteq> insert job (set (rt_jobs (se_db s))))"
proof (cases "retention_job j t i key now")
  case (Inl e)
  then show ?thesis using assms by (auto simp: enqueue_retention_job_def)
next
  case (Inr job)
  then have run: "enqueue_suppressed env job s = (r, s')" using assms by (simp add: enqueue_retention_job_def)
  show ?thesis
  proof (cases "enqueue (rt_jobs (se_db s)) job")
    case (Inr js)
    then have "js = rt_jobs (se_db s) @ [outbox_job_to_row job]" by (auto simp: enqueue_def bindE_Inr_iff Let_def)
    then have "s' = s\<lparr>se_db := (se_db s)\<lparr>rt_jobs := rt_jobs (se_db s) @ [outbox_job_to_row job]\<rparr>\<rparr>"
      using run Inr by (auto simp: enqueue_suppressed_def bindS_def query_def modify_db_def)
    then show ?thesis by (intro conjI exI [of _ "outbox_job_to_row job"]) auto
  next
    case (Inl e)
    then have "s' = s"
      using run by (auto simp: enqueue_suppressed_def bindS_def query_def split: outbox_repo_error.splits option.splits)
    then show ?thesis by auto
  qed
qed

lemma uncommitting_list: "uncommitting (list_due env t x n)"
  unfolding list_due_def content_call_def list_due_for_retention_def by (intro uncommitting_intros)

lemma uncommitting_stores:
  "uncommitting (purge_run_update p)" "uncommitting (enqueue_retention_job env j t i key now)"
  unfolding purge_run_update_def put_run_def enqueue_retention_job_def enqueue_suppressed_def
  by (auto split: option.splits sum.splits outbox_repo_error.splits intro!: uncommitting_intros)

lemma finish_effect:
  assumes run: "finish_batch env t u now s = (r, s')" and s: "se_saved s = se_db s"
  shows "cd_contents (se_saved s') = cd_contents (se_db s) \<and>
    (rt_jobs (se_saved s') = rt_jobs (se_db s) \<or>
     due_rows (due_filter t (pr_expires_before u) 1) (se_db s) \<noteq> [] \<and>
     (\<exists>job. set (rt_jobs (se_saved s')) \<subseteq> insert job (set (rt_jobs (se_db s)))))"
proof (cases "se_saved s' = se_saved s")
  case True
  then show ?thesis by (simp add: s)
next
  case False
  let ?due = "due_rows (due_filter t (pr_expires_before u) 1) (se_db s)"
  define body where "body = (\<lambda>remaining. (if remaining \<noteq> ([] :: encrypted_content list)
        then bindS (purge_run_update u) (\<lambda>_. bindS (draw (re_uuid4 env)) (\<lambda>continuation_job_id.
          enqueue_retention_job env continuation_job_id t (pr_id u)
            (continuation_key (pr_id u) (pr_items_deleted u)) now))
        else bindS (lift_result (RetentionPurgeRun_post_init
                   (u\<lparr>pr_status := PRS_COMPLETED, pr_completed_at := Some now,
                      pr_claim_token := None, pr_claim_expires_at := None\<rparr>))) (\<lambda>completed.
          purge_run_update completed)))"
  have "changes (finish_batch env t u now) s r s'" using run False by (simp add: changes_def)
  then have "changes (bindS (list_due env t (pr_expires_before u) 1) (\<lambda>remaining. bindS (body remaining) (\<lambda>_. commit))) s r s'"
    unfolding finish_batch_def body_def .
  then obtain remaining s1 where list: "list_due env t (pr_expires_before u) 1 s = (Inr remaining, s1)"
    and "changes (bindS (body remaining) (\<lambda>_. commit)) s1 r s'"
    by (rule changes_bindE) (intro uncommitting_list)
  from this(2) obtain x s2 where ran: "body remaining s1 = (Inr x, s2)" and s': "se_saved s' = se_db s2"
    by (rule changes_bindE) (auto simp: body_def intro!: uncommitting_intros uncommitting_stores elim: changes_bare_commit)
  note listed = list_due_Inr [OF list]
  show ?thesis
  proof (cases "remaining = []")
    case True
    with ran obtain q where "purge_run_update q s1 = (Inr (), s2)"
      unfolding body_def by (auto elim: bindS_InrE)
    then show ?thesis by (rule run_update_Inr) (simp add: s' listed(1))
  next
    case False
    then have due: "?due \<noteq> []" using listed(3) by auto
    from False ran obtain s3 where upd: "purge_run_update u s1 = (Inr (), s3)"
      and rest: "bindS (draw (re_uuid4 env)) (\<lambda>continuation_job_id.
          enqueue_retention_job env continuation_job_id t (pr_id u)
            (continuation_key (pr_id u) (pr_items_deleted u)) now) s3 = (Inr (), s2)"
      unfolding body_def by (auto elim: bindS_InrE)
    then obtain j s4 where s4: "s4 = s3\<lparr>se_draws := Suc (se_draws s3)\<rparr>"
      and enq: "enqueue_retention_job env j t (pr_id u) (continuation_key (pr_id u) (pr_items_deleted u)) now s4 = (Inr (), s2)"
      by (simp add: bindS_def draw_def)
    have s3: "cd_contents (se_db s3) = cd_contents (se_db s)" "rt_jobs (se_db s3) = rt_jobs (se_db s)"
      by (rule run_update_Inr [OF upd]; simp add: listed(1))+
    have "cd_contents (se_db s2) = cd_contents (se_db s4) \<and>
        (\<exists>job. set (rt_jobs (se_db s2)) \<subseteq> insert job (set (rt_jobs (se_db s4))))"
      by (rule enqueue_jobs [OF enq])
    then show ?thesis using due by (simp add: s' s4 s3)
  qed
qed

lemma deleted_when_returned:
  assumes "delete_and_record env t i c now s = (Inr False, s')"
  shows "\<forall>r \<in> set (cd_contents (se_saved s')). \<not> (ecr_tenant_id r = t \<and> ecr_id r = c)"
proof -
  from assms obtain held s1 where hold: "repo_tenant_has_active_hold t s = (Inr held, s1)"
    and run: "(if held then returnS True
     else
       bindS (draw (re_uuid4 env)) (\<lambda>batch_id.
       bindS (lift_result (RetentionPurgeBatch_post_init
                \<lparr>pb_id = batch_id, pb_tenant_id = t, pb_purge_run_id = i,
                 pb_deleted_content_id = c, pb_status = PBS_PENDING,
                 pb_created_at = now, pb_completed_at = None\<rparr>)) (\<lambda>batch.
       bindS (purge_batch_add batch) (\<lambda>_.
       bindS (content_call (content_delete (re_referenced env) t c)) (\<lambda>_.
       bindS (batch_update_status t (pb_id batch) PBS_COMPLETED (Some now)) (\<lambda>_.
       bindS commit (\<lambda>_. returnS False))))))) s1 = (Inr False, s')"
    unfolding delete_and_record_def by (rule bindS_InrE)
  have "\<not> held" using run by (cases held) simp_all
  then have "bindS (draw (re_uuid4 env)) (\<lambda>batch_id.
       bindS (lift_result (RetentionPurgeBatch_post_init
                \<lparr>pb_id = batch_id, pb_tenant_id = t, pb_purge_run_id = i,
                 pb_deleted_content_id = c, pb_status = PBS_PENDING,
                 pb_created_at = now, pb_completed_at = None\<rparr>)) (\<lambda>batch.
       bindS (purge_batch_add batch) (\<lambda>_.
       bindS (content_call (content_delete (re_referenced env) t c)) (\<lambda>_.
       bindS (batch_update_status t (pb_id batch) PBS_COMPLETED (Some now)) (\<lambda>_.
       bindS commit (\<lambda>_. returnS False)))))) s1 = (Inr False, s')" using run by simp
  then obtain batch s2 where "bindS (purge_batch_add batch) (\<lambda>_.
       bindS (content_call (content_delete (re_referenced env) t c)) (\<lambda>_.
       bindS (batch_update_status t (pb_id batch) PBS_COMPLETED (Some now)) (\<lambda>_.
       bindS commit (\<lambda>_. returnS False)))) s2 = (Inr False, s')"
    by (rule bindS_InrE) (erule bindS_InrE, blast)
  then obtain s3 where "bindS (content_call (content_delete (re_referenced env) t c)) (\<lambda>_.
       bindS (batch_update_status t (pb_id batch) PBS_COMPLETED (Some now)) (\<lambda>_.
       bindS commit (\<lambda>_. returnS False))) s3 = (Inr False, s')"
    by (rule bindS_InrE)
  then obtain x s4 where "content_call (content_delete (re_referenced env) t c) s3 = (Inr x, s4)"
    and "bindS (batch_update_status t (pb_id batch) PBS_COMPLETED (Some now)) (\<lambda>_.
       bindS commit (\<lambda>_. returnS False)) s4 = (Inr False, s')"
    by (rule bindS_InrE)
  moreover from this(2) obtain z s5 where "batch_update_status t (pb_id batch) PBS_COMPLETED (Some now) s4 = (Inr z, s5)"
    and "(bindS commit (\<lambda>_. returnS False) :: bool retention_comp) s5 = (Inr False, s')"
    by (rule bindS_InrE)
  moreover from this(2) have "se_saved s' = se_db s5" by (auto simp: bindS_def commit_def)
  ultimately show ?thesis
    by (auto simp: content_delete_Inr batch_update_status_def bindE_Inr_iff)
qed

definition fewer :: "retention_db \<Rightarrow> retention_db \<Rightarrow> bool" where
  "fewer d e \<longleftrightarrow> shrinks d e \<or>
     set (cd_contents e) \<subset> set (cd_contents d) \<and> (\<exists>job. set (purge_jobs e) \<subseteq> insert job (set (purge_jobs d)))"

lemma shrinks_fewer: "shrinks a b \<Longrightarrow> fewer b c \<Longrightarrow> fewer a c"
  unfolding shrinks_def fewer_def by blast

lemma related_start: "related_to_end R w w' \<Longrightarrow> R (w_db w) (w_db w')"
  by (auto simp: related_to_end_def)

lemma delete_content_removes:
  assumes "delete_content_under_lock (shrinking env) t i c x y w = (Inr False, w')"
  shows "\<forall>r \<in> set (cd_contents (w_db w')). \<not> (ecr_tenant_id r = t \<and> ecr_id r = ec_id c)"
proof -
  from assms obtain held v now u where unit: "under_tenant_retention_lock (shrinking env) t
        (delete_and_record (shrinking env) t i (ec_id c) now) u = (Inr held, v)"
    and rest: "(if held
     then bindS (mark_run_paused (shrinking env) t i True (Some x) (Some y)) (\<lambda>_. returnS True)
     else returnS False) v = (Inr False, w')"
    unfolding delete_content_under_lock_def by (elim bindS_InrE)
  have held: "\<not> held" and "w' = v" using rest by (auto elim!: bindS_InrE split: if_splits)
  then show ?thesis
    using unit unfolding under_tenant_retention_lock_def
    by (auto elim!: unit_Inr dest!: deleted_when_returned)
qed

lemma delete_due_removes:
  assumes "delete_due (shrinking env) t tok (c # cs) p k m w = (Inr (Some out), w')" and "pr_tenant_id p = t"
  shows "\<forall>r \<in> set (cd_contents (w_db w')). \<not> (ecr_tenant_id r = t \<and> ecr_id r = ec_id c)"
proof -
  from assms(1) obtain q n v where renew: "maybe_renew_claim (shrinking env) p tok m w = (Inr (q, n), v)"
    and rest: "bindS (delete_content_under_lock (shrinking env) t (pr_id q) c
        (pr_items_scanned q + k) (pr_items_deleted q + k)) (\<lambda>paused. if paused then returnS None
          else delete_due (shrinking env) t tok cs q (k + 1) (n + 1)) v = (Inr (Some out), w')"
    unfolding delete_due.simps by (rule bindS_InrE) (auto split: prod.splits)
  from rest obtain paused u where del: "delete_content_under_lock (shrinking env) t (pr_id q) c
        (pr_items_scanned q + k) (pr_items_deleted q + k) v = (Inr paused, u)"
    and go: "(if paused then returnS None else delete_due (shrinking env) t tok cs q (k + 1) (n + 1)) u = (Inr (Some out), w')"
    by (rule bindS_InrE)
  have paused: "\<not> paused" using go by (cases paused) simp_all
  have "less.own t p" using assms(2) by (simp add: less.own_def)
  from less_steps.withinD(3) [OF less.within_renew [OF this] TrueI renew HOL.refl]
  have own: "less.own t q" by simp
  have "less_steps.within (delete_due (shrinking env) t tok cs q (k + 1) (n + 1)) (less.ends_own t (pr_id q))"
    by (rule less.within_delete_due [OF own HOL.refl]) simp
  from less_steps.withinD(2) [OF this TrueI] go paused
  have "shrinks (w_db u) (w_db w')" by (auto dest: related_start)
  then show ?thesis using delete_content_removes del paused by (fastforce simp: shrinks_def)
qed

text \<open>The tables at the end of a unit of work, whatever it returned.\<close>

lemma unit_run:
  assumes "unit_of_work env body w = (r, w')"
  obtains d s where "d = re_others env (w_draws w) (w_db w)"
    and "body \<lparr>se_db = d, se_saved = d, se_draws = Suc (w_draws w)\<rparr> = (r, s)" and "w_db w' = se_saved s"
  using assms
  by (auto simp: unit_of_work_def bindS_def interfere_def transaction_def open_session_def close_session_def Let_def
      split: prod.splits)

lemma shrinking_others: "shrinks d (re_others (shrinking env) n d)"
  using obeying_others [of any_tables d shrinks env n] shrinks_refl by blast

lemma purge_jobs_insert:
  "set (rt_jobs e) \<subseteq> insert job (set (rt_jobs d)) \<Longrightarrow> set (purge_jobs e) \<subseteq> insert job (set (purge_jobs d))"
  by (auto simp: purge_jobs_def)

lemma list_due_none:
  assumes "list_due env t x n s = (Inr [], s')"
  shows "due_rows (due_filter t x m) (se_db s) = []"
proof -
  have "1 \<le> nat n" using list_due_Inr(2) [OF assms] by simp
  then show ?thesis using list_due_Inr(3) [OF assms] due_rows_limit [of t x m "se_db s" n] by (cases "nat n") simp_all
qed

lemma due_rows_shrink:
  assumes "due_rows (due_filter t x m) d = []" and "set (cd_contents e) \<subseteq> set (cd_contents d)"
  shows "due_rows (due_filter t x n) e = []"
  using assms by (auto simp: due_rows_def due_filter_def filter_empty_conv)

lemma batch_fewer:
  assumes run: "purge_batch_of (shrinking env) t tok p w = (r, w')" and p: "pr_tenant_id p = t"
  shows "fewer (w_db w) (w_db w')"
proof -
  have own: "less.own t p" using p by (simp add: less.own_def)
  obtain ds w1 where list: "unit_of_work (shrinking env)
      (list_due (shrinking env) t (pr_expires_before p) (re_batch_size (shrinking env))) w = (ds, w1)" by fastforce
  have "less_steps.within (unit_of_work (shrinking env)
      (list_due (shrinking env) t (pr_expires_before p) (re_batch_size (shrinking env)))) (\<lambda>_. True)"
    by (rule less_steps.within_unit) (rule keeps_row_to_contents)
  from less_steps.withinD(2) [OF this TrueI list] have first: "shrinks (w_db w) (w_db w1)" by (rule related_start)
  show ?thesis
  proof (cases ds)
    case (Inl e)
    then show ?thesis using run list first by (auto simp: purge_batch_of_def bindS_def fewer_def)
  next
    case (Inr due)
    obtain out w2 where loop: "delete_due (shrinking env) t tok due p 0 0 w1 = (out, w2)" by fastforce
    have "less_steps.within (delete_due (shrinking env) t tok due p 0 0) (less.ends_own t (pr_id p))"
      by (rule less.within_delete_due [OF own HOL.refl]) simp
    note looped = less_steps.withinD [OF this TrueI loop]
    have second: "shrinks (w_db w1) (w_db w2)" using looped(2) by (rule related_start)
    show ?thesis
    proof (cases "\<exists>q n. out = Inr (Some (q, n))")
      case False
      then have "w_db w' = w_db w2"
        using run list Inr loop by (auto simp: purge_batch_of_def bindS_def split: sum.splits option.splits)
      then show ?thesis using first second shrinks_trans unfolding fewer_def by metis
    next
      case True
      then obtain q n where out: "out = Inr (Some (q, n))" by blast
      define now w3 where "now = re_clock (shrinking env) (w_draws w2)" and "w3 = w2\<lparr>w_draws := Suc (w_draws w2)\<rparr>"
      then have w3: "w_db w3 = w_db w2"
        and last: "bindS (lift_result (batch_result q tok (int (length due)) n now)) (\<lambda>updated_run.
           unit_of_work (shrinking env) (finish_batch (shrinking env) t updated_run now)) w3 = (r, w')"
        using run by (simp_all add: purge_batch_of_def bindS_def list Inr loop out draw_outside_def)
      show ?thesis
      proof (cases "batch_result q tok (int (length due)) n now")
        case (Inl e)
        then have "w_db w' = w_db w2" using last w3 by (auto simp: bindS_def lift_result_def)
        then show ?thesis using first second shrinks_trans unfolding fewer_def by metis
      next
        case u: (Inr u)
        then have "unit_of_work (shrinking env) (finish_batch (shrinking env) t u now) w3 = (r, w')"
          using last by (simp add: bindS_def lift_result_def)
        then show ?thesis
        proof (rule unit_run)
          fix d s
          assume d: "d = re_others (shrinking env) (w_draws w3) (w_db w3)"
            and fin: "finish_batch (shrinking env) t u now \<lparr>se_db = d, se_saved = d, se_draws = Suc (w_draws w3)\<rparr> = (r, s)"
            and w': "w_db w' = se_saved s"
          have third: "shrinks (w_db w2) d" unfolding d w3 by (rule shrinking_others)
          have all: "shrinks (w_db w) d" using first second third shrinks_trans by blast
          note effect = finish_effect [OF fin, simplified]
          show ?thesis
          proof (cases "rt_jobs (w_db w') = rt_jobs d")
            case True
            then have "shrinks d (w_db w')" using effect by (simp add: shrinks_def w' purge_jobs_def)
            then show ?thesis using all shrinks_trans unfolding fewer_def by metis
          next
            case False
            then have contents: "cd_contents (w_db w') = cd_contents d"
              and left: "due_rows (due_filter t (pr_expires_before u) 1) d \<noteq> []"
              and more_jobs: "\<exists>job. set (rt_jobs (w_db w')) \<subseteq> insert job (set (rt_jobs d))"
              using effect by (auto simp: w')
            have jobs: "\<exists>job. set (purge_jobs (w_db w')) \<subseteq> insert job (set (purge_jobs (w_db w)))"
              using more_jobs purge_jobs_insert all unfolding shrinks_def by blast
            have "set (cd_contents d) \<subset> set (cd_contents (w_db w))"
            proof (cases due)
              case Nil
              then have "q = p" and "w2 = w1" using loop out by simp_all
              then have "pr_expires_before u = pr_expires_before p" using batch_result_Inr(3) [OF u] by simp
              moreover have "due_rows (due_filter t (pr_expires_before p) 1) (w_db w1) = []"
                using list unfolding Inr Nil
                by (rule unit_run) (frule list_due_none [where m = 1], drule list_due_Inr(1), simp)
              ultimately have "due_rows (due_filter t (pr_expires_before u) 1) d = []"
                using third due_rows_shrink unfolding shrinks_def \<open>w2 = w1\<close> by metis
              then show ?thesis using left by simp
            next
              case (Cons c cs)
              obtain row where row: "row \<in> set (cd_contents (w_db w))" "ecr_tenant_id row = t" "ec_id c = ecr_id row"
              proof -
                from list show ?thesis unfolding Inr
                proof (rule unit_run)
                  fix d1 s1
                  assume d1: "d1 = re_others (shrinking env) (w_draws w) (w_db w)"
                    and "list_due (shrinking env) t (pr_expires_before p) (re_batch_size (shrinking env))
                      \<lparr>se_db = d1, se_saved = d1, se_draws = Suc (w_draws w)\<rparr> = (Inr due, s1)"
                  from list_due_elements [OF this(2), of c] that show ?thesis
                    using shrinking_others [of "w_db w" env "w_draws w"] unfolding d1 shrinks_def
                    by (auto simp: Cons)
                qed
              qed
              have "row \<notin> set (cd_contents (w_db w2))"
                using delete_due_removes [OF loop [unfolded Cons out] p] row by auto
              then show ?thesis using row(1) all third by (auto simp: shrinks_def)
            qed
            then show ?thesis using jobs contents by (simp add: fewer_def)
          qed
        qed
      qed
    qed
  qed
qed

lemma within_fewer:
  assumes m: "less_steps.within m Q" and f: "\<And>x v r v'. Q x \<Longrightarrow> f x v = (r, v') \<Longrightarrow> fewer (w_db v) (w_db v')"
    and run: "bindS m f w = (r, w')"
  shows "fewer (w_db w) (w_db w')"
proof -
  obtain q v where q: "m w = (q, v)" by fastforce
  note first = less_steps.withinD [OF m TrueI q]
  have shrunk: "shrinks (w_db w) (w_db v)" using first(2) by (rule related_start)
  show ?thesis
  proof (cases q)
    case (Inl e)
    then show ?thesis using run q shrunk by (auto simp: bindS_def fewer_def)
  next
    case (Inr x)
    then have "f x v = (r, w')" using run q by (simp add: bindS_def)
    from f [OF first(3) [OF Inr] this] show ?thesis by (rule shrinks_fewer [OF shrunk])
  qed
qed

lemma within_run_fewer:
  assumes "less_steps.within m Q" and "m w = (r, w')"
  shows "fewer (w_db w) (w_db w')"
  using less_steps.withinD(2) [OF assms(1) TrueI assms(2)] related_start unfolding fewer_def by blast

lemma handle_fewer:
  assumes "handle_retention_job (shrinking env) job w = (r, w')"
  shows "fewer (w_db w) (w_db w')"
proof -
  have batch: "fewer (w_db v) (w_db v')"
    if "(if held then mark_run_paused (shrinking env) t (pr_id p) True None None
         else purge_batch_of (shrinking env) t tok p) v = (q, v')" and "less.own t p" for held t tok p v q v'
    using that within_run_fewer [OF less.within_pause] batch_fewer [of env t tok p v q v']
    by (cases held) (auto simp: less.own_def)
  have claimed: "fewer (w_db v) (w_db v')"
    if "(case c of None \<Rightarrow> raiseS stale_claim
       | Some claimed \<Rightarrow>
           if pr_status claimed \<in> finished_statuses then returnS ()
           else
             bindS (tenant_has_active_hold (shrinking env) t) (\<lambda>held.
             if held then mark_run_paused (shrinking env) t (pr_id claimed) True None None
             else purge_batch_of (shrinking env) t tok claimed)) v = (q, v')" and "less.owned t i c" for t tok c i v q v'
  proof (cases c)
    case None
    then show ?thesis using that(1) by (simp add: fewer_def shrinks_refl)
  next
    case (Some p)
    then have own: "less.own t p" using that(2) by (simp add: less.owned_def)
    show ?thesis
    proof (cases "pr_status p \<in> finished_statuses")
      case True
      then show ?thesis using that(1) Some by (simp add: fewer_def shrinks_refl)
    next
      case False
      then have go: "bindS (tenant_has_active_hold (shrinking env) t) (\<lambda>held.
             if held then mark_run_paused (shrinking env) t (pr_id p) True None None
             else purge_batch_of (shrinking env) t tok p) v = (q, v')" using that(1) Some by simp
      have step: "fewer (w_db a) (w_db b)"
        if "(if held then mark_run_paused (shrinking env) t (pr_id p) True None None
             else purge_batch_of (shrinking env) t tok p) a = (s, b)" for held a s b
        using batch [OF that own] .
      show ?thesis by (rule within_fewer [OF less_steps.within_has_hold _ go]) (rule step)
    qed
  qed
  have attempt: "fewer (w_db v) (w_db v')"
    if "(if held then mark_run_paused (shrinking env) t i True None None
         else bindS (claim_run (shrinking env) t i tok) (\<lambda>claimed.
           case claimed of None \<Rightarrow> raiseS stale_claim
           | Some claimed \<Rightarrow>
               if pr_status claimed \<in> finished_statuses then returnS ()
               else
                 bindS (tenant_has_active_hold (shrinking env) t) (\<lambda>held.
                 if held then mark_run_paused (shrinking env) t (pr_id claimed) True None None
                 else purge_batch_of (shrinking env) t tok claimed))) v = (q, v')" for held t i tok v q v'
    using that within_run_fewer [OF less.within_pause] within_fewer [OF less.within_claim claimed]
    by (cases held) auto
  have one: "fewer (w_db v) (w_db v')" if "purge_run_of (shrinking env) t i tok v = (q, v')" for t i tok v q v'
    by (rule within_fewer [OF less_steps.within_has_hold _ that [unfolded purge_run_of_def]]) (rule attempt)
  have token: "less_steps.within (case c of Some t \<Rightarrow> returnS t | None \<Rightarrow> draw_outside (re_uuid4 (shrinking env))) (\<lambda>_. True)" for c
    by (cases c) (simp_all add: less_steps.within_basic)
  show ?thesis
  proof (cases "oj_tenant_id job")
    case None
    then show ?thesis using assms by (simp add: handle_retention_job_def fewer_def shrinks_refl)
  next
    case (Some t)
    show ?thesis
    proof (cases "ref_resource_type (oj_reference job) = ''retention_purge_run''")
      case False
      then show ?thesis using assms Some by (simp add: handle_retention_job_def fewer_def shrinks_refl)
    next
      case True
      with assms Some have go: "bindS (case oj_claim_token job of Some t \<Rightarrow> returnS t | None \<Rightarrow> draw_outside (re_uuid4 (shrinking env)))
          (purge_run_of (shrinking env) t (ref_resource_id (oj_reference job))) w = (r, w')"
        by (simp add: handle_retention_job_def)
      show ?thesis by (rule within_fewer [OF token _ go]) (rule one)
    qed
  qed
qed

section \<open>The measure\<close>

definition remaining_work :: "uuid list \<Rightarrow> retention_db \<Rightarrow> nat" where
  "remaining_work handled db =
     card (set (cd_contents db)) + card (row_id ` set (purge_jobs db) - set handled)"

lemma remaining_work_decreases:
  assumes "fewer d e" and "i \<in> row_id ` set (purge_jobs d)" and "i \<notin> set handled"
  shows "remaining_work (i # handled) e < remaining_work handled d"
proof -
  let ?D = "row_id ` set (purge_jobs d) - set handled" and ?E = "row_id ` set (purge_jobs e) - set (i # handled)"
  have "i \<in> ?D" using assms(2,3) by simp
  then have smaller: "card (?D - {i}) < card ?D" by (intro psubset_card_mono) auto
  from assms(1) consider (less) "shrinks d e"
    | (moved) job where "set (cd_contents e) \<subset> set (cd_contents d)" "set (purge_jobs e) \<subseteq> insert job (set (purge_jobs d))"
    unfolding fewer_def by blast
  then show ?thesis
  proof cases
    case less
    then have "?E \<subseteq> ?D - {i}" and "set (cd_contents e) \<subseteq> set (cd_contents d)" by (auto simp: shrinks_def)
    then have "card ?E \<le> card (?D - {i})" and "card (set (cd_contents e)) \<le> card (set (cd_contents d))"
      by (auto intro: card_mono)
    then show ?thesis using smaller by (simp add: remaining_work_def)
  next
    case moved
    then have "?E \<subseteq> insert (row_id job) (?D - {i})" by auto
    then have "card ?E \<le> card (insert (row_id job) (?D - {i}))" by (intro card_mono) auto
    also have "\<dots> \<le> Suc (card (?D - {i}))" by (rule card_insert_le_m1 [of "Suc (card (?D - {i}))", simplified]) simp
    finally have "card ?E \<le> card ?D" using smaller by simp
    moreover have "card (set (cd_contents e)) < card (set (cd_contents d))"
      using moved(1) by (intro psubset_card_mono) auto
    ultimately show ?thesis by (simp add: remaining_work_def)
  qed
qed

text \<open>
  C15. The purge comes to an end. A pass of the worker over the purge jobs, which also takes the
  continuations that the pass itself creates, terminates for every batch size and every behaviour of
  holds, clocks and claims, as long as other sessions meanwhile store no content and enqueue no purge
  job: it returns, and then no purge job is left that it has not handled. Each continuation comes
  with at least one content deleted, so there are at most as many of them as contents.
\<close>

theorem purge_pass_terminates:
  assumes "\<forall>n d. shrinks d (re_others env n d)"
  shows "\<exists>handled' w'. work_off env handled w = Some (handled', w') \<and> waiting handled' (w_db w') = []"
proof -
  have env: "shrinking env = env" using assms by (intro obeying_same) (simp add: obeys_def)
  show ?thesis
  proof (induction "remaining_work handled (w_db w)" arbitrary: handled w rule: less_induct)
    case less
    show ?case
    proof (cases "waiting handled (w_db w)")
      case Nil
      then show ?thesis by (subst work_off.simps) simp
    next
      case (Cons row rows)
      then have "row \<in> set (waiting handled (w_db w))" by simp
      then have row: "row_id row \<in> row_id ` set (purge_jobs (w_db w))" "row_id row \<notin> set handled"
        by (auto simp: waiting_def)
      show ?thesis
      proof (cases "outbox_job_to_domain row")
        case (Inl e)
        have "remaining_work (row_id row # handled) (w_db w) < remaining_work handled (w_db w)"
          by (rule remaining_work_decreases [OF _ row]) (simp add: fewer_def shrinks_refl)
        from less [OF this] show ?thesis by (subst work_off.simps) (simp add: Cons Inl)
      next
        case (Inr job)
        obtain r v where v: "handle_retention_job env job w = (r, v)" by fastforce
        have "fewer (w_db w) (w_db v)" using handle_fewer [of env job w r v] v by (simp add: env)
        from less [OF remaining_work_decreases [OF this row]] show ?thesis
          by (subst work_off.simps) (simp add: Cons Inr v)
      qed
    qed
  qed
qed

theorem purge_pass_terminates_witness:
  "rt_jobs (w_db (snd sample_first_batch)) \<noteq> [] \<and>
   (\<exists>handled' w'. work_off sample_short_env [] (snd sample_first_batch) = Some (handled', w') \<and>
      waiting handled' (w_db w') = [])"
proof
  show "rt_jobs (w_db (snd sample_first_batch)) \<noteq> []"
    using sample_batch_summary by (auto simp: batch_summary_def)
  have "\<forall>n d. shrinks d (re_others sample_short_env n d)"
    by (simp add: sample_short_env_def sample_retention_env_def shrinks_refl)
  then show "\<exists>handled' w'. work_off sample_short_env [] (snd sample_first_batch) = Some (handled', w') \<and>
      waiting handled' (w_db w') = []" by (rule purge_pass_terminates)
qed

end
