(* ===== verification/Knowledge_Chunking.thy ===== *)
theory Knowledge_Chunking
  imports Closeros_Prelude
begin

text \<open>
  The chunking of knowledge documents (\<open>application/knowledge_chunking.py\<close>): a text is cut into
  slices of bounded length, preferably after lines or words, each slice overlapping the one before.
  The loop is a partial function; \<open>None\<close> is a call that does not return.
\<close>

section \<open>Text\<close>

text \<open>\<open>value.replace("\r\n", "\n").replace("\r", "\n").strip()\<close>\<close>

fun replace_crlf :: "string \<Rightarrow> string" where
  "replace_crlf (a # b # s) =
     (if a = CHR 0x0D \<and> b = CHR 0x0A then CHR 0x0A # replace_crlf s else a # replace_crlf (b # s))"
| "replace_crlf s = s"

definition chunk_normalize_text :: "string \<Rightarrow> string" where
  "chunk_normalize_text value =
     strip (map (\<lambda>c. if c = CHR 0x0D then CHR 0x0A else c) (replace_crlf value))"

text \<open>\<open>text[start:stop]\<close> and \<open>text.rfind(c, start, stop)\<close>, for \<open>0 \<le> start\<close> and \<open>0 \<le> stop\<close>.\<close>

definition text_slice :: "string \<Rightarrow> nat \<Rightarrow> nat \<Rightarrow> string" where
  "text_slice text start stop = take (stop - start) (drop start text)"

definition rfind :: "string \<Rightarrow> char \<Rightarrow> nat \<Rightarrow> nat \<Rightarrow> int" where
  "rfind text c start stop =
     (case find (\<lambda>i. text ! i = c) (rev [start..<min stop (length text)]) of
        None \<Rightarrow> -1 | Some i \<Rightarrow> int i)"

definition find_breakpoint :: "string \<Rightarrow> nat \<Rightarrow> nat \<Rightarrow> int" where
  "find_breakpoint text start hard_stop =
     (if length text \<le> hard_stop then int (length text)
      else
        let boundary = rfind text (CHR 0x0A) start (hard_stop + 1) in
        let boundary = (if boundary \<le> int start then rfind text (CHR '' '') start (hard_stop + 1)
                        else boundary) in
        if boundary \<le> int start then int hard_stop else boundary)"

section \<open>Chunks\<close>

record chunk_slice =
  cs_position :: nat
  cs_start_offset :: nat
  cs_end_offset :: nat
  cs_text :: string

definition CHUNK_MAX_CHARACTERS :: int where "CHUNK_MAX_CHARACTERS = 2000"
definition CHUNK_OVERLAP_CHARACTERS :: int where "CHUNK_OVERLAP_CHARACTERS = 200"

text \<open>The end of the slice that begins at \<open>start\<close>, and the beginning of the next one.\<close>

definition chunk_end :: "string \<Rightarrow> nat \<Rightarrow> nat \<Rightarrow> nat" where
  "chunk_end text max_characters start =
     (let hard_stop = min (length text) (start + max_characters);
          e = find_breakpoint text start hard_stop
      in if e \<le> int start then hard_stop else nat e)"

definition next_start :: "nat \<Rightarrow> nat \<Rightarrow> nat \<Rightarrow> nat" where
  "next_start overlap_characters start e =
     (let n = nat (max 0 (int e - int overlap_characters)) in if n \<le> start then e else n)"

definition add_chunk :: "string \<Rightarrow> nat \<Rightarrow> nat \<Rightarrow> chunk_slice list \<Rightarrow> chunk_slice list" where
  "add_chunk text start e chunks =
     (let chunk_text = strip (text_slice text start e) in
      if chunk_text \<noteq> []
      then chunks @ [\<lparr>cs_position = length chunks, cs_start_offset = start, cs_end_offset = e,
                      cs_text = chunk_text\<rparr>]
      else chunks)"

partial_function (option) chunk_loop ::
    "string \<Rightarrow> nat \<Rightarrow> nat \<Rightarrow> nat \<Rightarrow> chunk_slice list \<Rightarrow> chunk_slice list option" where
  "chunk_loop text max_characters overlap_characters start chunks =
     (if start < length text then
        let e = chunk_end text max_characters start;
            chunks = add_chunk text start e chunks
        in if length text \<le> e then Some chunks
           else chunk_loop text max_characters overlap_characters
                  (next_start overlap_characters start e) chunks
      else Some chunks)"

declare chunk_loop.simps [code]

definition chunk_text_with_overlap :: "string \<Rightarrow> int \<Rightarrow> int \<Rightarrow> (string + chunk_slice list) option" where
  "chunk_text_with_overlap text max_characters overlap_characters =
     (if max_characters < 1 then Some (Inl ''max_characters must be a positive integer'')
      else if overlap_characters < 0 then Some (Inl ''overlap_characters must be a non-negative integer'')
      else if max_characters \<le> overlap_characters
      then Some (Inl ''overlap_characters must be less than max_characters'')
      else if chunk_normalize_text text = [] then Some (Inr [])
      else map_option Inr (chunk_loop (chunk_normalize_text text) (nat max_characters)
             (nat overlap_characters) 0 []))"

text \<open>The call in \<open>knowledge_index_handler.py\<close>, with the default length and overlap.\<close>

definition document_chunks :: "string \<Rightarrow> (string + chunk_slice list) option" where
  "document_chunks text = chunk_text_with_overlap text CHUNK_MAX_CHARACTERS CHUNK_OVERLAP_CHARACTERS"

section \<open>The end of a slice\<close>

lemma rfind_bounds:
  "rfind text c start stop = -1 \<or>
   (int start \<le> rfind text c start stop \<and> rfind text c start stop < int (min stop (length text)))"
proof (cases "find (\<lambda>i. text ! i = c) (rev [start..<min stop (length text)])")
  case None
  then show ?thesis by (simp add: rfind_def)
next
  case (Some i)
  then have "i \<in> set (rev [start..<min stop (length text)])" unfolding find_Some_iff by (metis nth_mem)
  then show ?thesis using Some by (simp add: rfind_def)
qed

lemma find_breakpoint_bounds:
  assumes "start < hard_stop" and "hard_stop \<le> length text"
  shows "int start < find_breakpoint text start hard_stop \<and> find_breakpoint text start hard_stop \<le> int hard_stop"
  using assms rfind_bounds [of "text" "CHR 0x0A" start "hard_stop + 1"]
    rfind_bounds [of "text" "CHR '' ''" start "hard_stop + 1"]
  by (auto simp: find_breakpoint_def Let_def)

lemma chunk_end_bounds:
  assumes "start < length text" and "0 < m"
  shows "start < chunk_end text m start" "chunk_end text m start \<le> length text"
    "chunk_end text m start \<le> start + m"
  using assms find_breakpoint_bounds [of start "min (length text) (start + m)" "text"]
  by (auto simp: chunk_end_def Let_def)

lemma next_start_bounds:
  assumes "start < e"
  shows "start < next_start ov start e" "next_start ov start e \<le> e" "e \<le> next_start ov start e + ov"
  using assms by (auto simp: next_start_def Let_def)

section \<open>The loop\<close>

definition covered :: "string \<Rightarrow> nat \<Rightarrow> chunk_slice list \<Rightarrow> bool" where
  "covered text n chunks \<longleftrightarrow>
     (\<forall>i < n. i < length text \<longrightarrow> \<not> is_space (text ! i) \<longrightarrow>
        (\<exists>c \<in> set chunks. cs_start_offset c \<le> i \<and> i < cs_end_offset c))"

definition well_cut :: "string \<Rightarrow> nat \<Rightarrow> chunk_slice \<Rightarrow> bool" where
  "well_cut text m c \<longleftrightarrow>
     cs_start_offset c < cs_end_offset c \<and> cs_end_offset c \<le> length text \<and>
     cs_end_offset c \<le> cs_start_offset c + m \<and>
     cs_text c = strip (text_slice text (cs_start_offset c) (cs_end_offset c)) \<and> cs_text c \<noteq> []"

text \<open>One chunk after another: later ones begin later, and the chunk before reaches at most \<open>ov\<close> into them.\<close>

definition steps_forward :: "nat \<Rightarrow> chunk_slice \<Rightarrow> chunk_slice \<Rightarrow> bool" where
  "steps_forward ov c d \<longleftrightarrow>
     cs_start_offset c < cs_start_offset d \<and> cs_end_offset c \<le> cs_start_offset d + ov"

definition cut_up_to :: "string \<Rightarrow> nat \<Rightarrow> nat \<Rightarrow> nat \<Rightarrow> chunk_slice list \<Rightarrow> bool" where
  "cut_up_to text m ov n chunks \<longleftrightarrow>
     list_all (well_cut text m) chunks \<and> map cs_position chunks = [0..<length chunks] \<and>
     covered text n chunks \<and> sorted_wrt (steps_forward ov) chunks \<and>
     list_all (\<lambda>c. cs_start_offset c < n \<and> cs_end_offset c \<le> n + ov) chunks"

lemma strip_blank: "strip s = [] \<Longrightarrow> c \<in> set s \<Longrightarrow> is_space c"
proof -
  assume empty: "strip s = []" and c: "c \<in> set s"
  then have "lstrip (rev (lstrip s)) = []" by (simp add: strip_def)
  then have "\<forall>d \<in> set (lstrip s). is_space d" by (auto simp: lstrip_def dropWhile_eq_Nil_conv)
  then have "lstrip s = []" using lstrip_hd [of s] by (cases "lstrip s") auto
  then show "is_space c" using c by (auto simp: lstrip_def dropWhile_eq_Nil_conv)
qed

lemma add_chunk_covers:
  assumes "covered text start chunks"
  shows "covered text e (add_chunk text start e chunks)"
proof (cases "strip (text_slice text start e) = []")
  case True
  have "is_space (text ! i)" if "start \<le> i" "i < e" "i < length text" for i
  proof (rule strip_blank [OF True])
    have "text_slice text start e ! (i - start) = text ! i" "i - start < length (text_slice text start e)"
      using that by (auto simp: text_slice_def)
    then show "text ! i \<in> set (text_slice text start e)" by (metis nth_mem)
  qed
  then show ?thesis using True assms by (auto simp: add_chunk_def covered_def) (meson not_le_imp_less)
next
  case False
  then show ?thesis using assms by (auto simp: add_chunk_def covered_def Let_def not_less)
qed

lemma add_chunk_cut:
  assumes "cut_up_to text m ov start chunks" and "start < length text" and "0 < m"
    and "e = chunk_end text m start" and "n = e \<or> n = next_start ov start e"
  shows "cut_up_to text m ov n (add_chunk text start e chunks)"
proof -
  have e: "start < e" "e \<le> length text" "e \<le> start + m"
    using chunk_end_bounds [OF assms(2,3)] assms(4) by auto
  have n: "start < n" "n \<le> e" "e \<le> n + ov" using assms(5) next_start_bounds [OF e(1)] e(1) by auto
  have "covered text e (add_chunk text start e chunks)"
    using assms(1) by (intro add_chunk_covers) (simp add: cut_up_to_def)
  then have covers: "covered text n (add_chunk text start e chunks)" using n(2) by (simp add: covered_def)
  have old: "list_all (\<lambda>c. cs_start_offset c < n \<and> cs_end_offset c \<le> n + ov) chunks"
    using assms(1) n(1) by (auto simp: cut_up_to_def list_all_iff)
  show ?thesis
  proof (cases "strip (text_slice text start e) = []")
    case True
    then show ?thesis using assms(1) covers old by (simp add: add_chunk_def cut_up_to_def)
  next
    case False
    then show ?thesis using assms(1) covers old e n
      by (auto simp: add_chunk_def cut_up_to_def well_cut_def steps_forward_def Let_def sorted_wrt_append list_all_iff)
  qed
qed

lemma chunk_loop_returns:
  assumes "0 < m" and "cut_up_to text m ov start chunks" and "start < length text"
  shows "\<exists>result. chunk_loop text m ov start chunks = Some result \<and> cut_up_to text m ov (length text) result"
  using assms(2,3)
proof (induction "length text - start" arbitrary: start chunks rule: less_induct)
  case less
  let ?e = "chunk_end text m start"
  note e = chunk_end_bounds [OF less(3) assms(1)]
  note n = next_start_bounds [OF e(1), of ov]
  note cut = add_chunk_cut [OF less(2,3) assms(1) refl]
  show ?case
  proof (cases "length text \<le> ?e")
    case True
    then have "?e = length text" using e(2) by simp
    then show ?thesis using cut [of ?e] less(3) by (subst chunk_loop.simps) simp
  next
    case False
    let ?n = "next_start ov start ?e"
    have "length text - ?n < length text - start" and "?n < length text" using n False less(3) by auto
    from less(1) [OF this(1) cut [of ?n] this(2)] show ?thesis
      using False less(3) by (subst chunk_loop.simps) (simp add: Let_def)
  qed
qed

lemma well_cut_length: "well_cut text m c \<Longrightarrow> length (cs_text c) \<le> m"
  using length_strip [of "text_slice text (cs_start_offset c) (cs_end_offset c)"]
  by (auto simp: well_cut_def text_slice_def)

lemma nothing_cut: "cut_up_to text m ov 0 []" by (simp add: cut_up_to_def covered_def)

lemma document_chunks_short:
  "\<exists>chunks. document_chunks text = Some (Inr chunks) \<and> list_all (\<lambda>c. length (cs_text c) \<le> 2000) chunks"
proof (cases "chunk_normalize_text text = []")
  case True
  then show ?thesis
    by (simp add: document_chunks_def chunk_text_with_overlap_def CHUNK_MAX_CHARACTERS_def CHUNK_OVERLAP_CHARACTERS_def)
next
  case False
  from chunk_loop_returns [OF _ nothing_cut, of 2000 "chunk_normalize_text text" 200] False
  obtain chunks where "chunk_loop (chunk_normalize_text text) 2000 200 0 [] = Some chunks"
    and "cut_up_to (chunk_normalize_text text) 2000 200 (length (chunk_normalize_text text)) chunks" by auto
  then show ?thesis using False well_cut_length
    by (auto simp: document_chunks_def chunk_text_with_overlap_def CHUNK_MAX_CHARACTERS_def
        CHUNK_OVERLAP_CHARACTERS_def cut_up_to_def list_all_iff)
qed

text \<open>
  C40. Chunking returns for every text, length and overlap, and loses nothing: the chunks are
  numbered in order; each is the trimmed, non-empty slice between its offsets, which is no longer
  than allowed; each begins after the one before, which reaches at most the overlap into it; and
  every character of the normalised text that is not blank lies between the offsets of a chunk.
\<close>

theorem chunks_cover_text:
  assumes "1 \<le> m" and "0 \<le> ov" and "ov < m"
  shows "\<exists>chunks. chunk_text_with_overlap text m ov = Some (Inr chunks) \<and>
    map cs_position chunks = [0..<length chunks] \<and>
    list_all (well_cut (chunk_normalize_text text) (nat m)) chunks \<and>
    sorted_wrt (steps_forward (nat ov)) chunks \<and>
    covered (chunk_normalize_text text) (length (chunk_normalize_text text)) chunks"
proof (cases "chunk_normalize_text text = []")
  case True
  then show ?thesis using assms by (simp add: chunk_text_with_overlap_def covered_def)
next
  case False
  from chunk_loop_returns [OF _ nothing_cut, of "nat m" "chunk_normalize_text text" "nat ov"] show ?thesis
    using assms False by (auto simp: chunk_text_with_overlap_def cut_up_to_def)
qed

text \<open>
  A chunk may lie within the one before: a line that ends soon after the overlap is cut off twice.
\<close>

definition sample_document :: string where
  "sample_document = ''abcd'' @ [CHR 0x0A] @ ''efghijkl''"

lemma sample_chunks:
  "map_option (map_sum id (map (\<lambda>c. (cs_start_offset c, cs_end_offset c, cs_text c))))
     (chunk_text_with_overlap sample_document 8 3) =
   Some (Inr [(0, 4, ''abcd''), (1, 4, ''bcd''), (4, 12, ''efghijk''), (9, 13, ''ijkl'')])"
  by code_simp

theorem chunks_cover_text_witness:
  "\<exists>chunks. chunk_text_with_overlap sample_document 8 3 = Some (Inr chunks) \<and> length chunks = 4 \<and>
     covered (chunk_normalize_text sample_document) 13 chunks"
proof -
  obtain chunks where chunks: "chunk_text_with_overlap sample_document 8 3 = Some (Inr chunks)"
    and covers: "covered (chunk_normalize_text sample_document)
      (length (chunk_normalize_text sample_document)) chunks"
    using chunks_cover_text [of 8 3 sample_document] by auto
  have "length chunks = 4" using sample_chunks chunks by (auto dest: map_eq_imp_length_eq)
  moreover have "length (chunk_normalize_text sample_document) = 13" by code_simp
  ultimately show ?thesis using chunks covers by auto
qed

end
