(* ===== verification/Spec2Isabelle.thy ===== *)
theory Spec2Isabelle
  imports Outbox_Worker Metrics_Correctness Messaging_Laws Outbound_Safety Whatsapp_Lifecycle
    Auth_Guarantees Retention_Termination Knowledge_Chunking
begin

text \<open>
  CloserOS backend: a verification development.

  The program (\<open>src/packages/backend/src/closeros\<close>, Python) is the backend of a sales assistant. It
  receives messages of customers over WhatsApp, keeps their texts encrypted until they expire, sends
  approved replies, computes metrics of managers and authenticates its users. Its layers are \<^emph>\<open>domain\<close> (values with
  their checks), \<^emph>\<open>application\<close> (services, one unit of work per request) and \<^emph>\<open>infrastructure\<close> (tables,
  repositories, clients). Work that must survive a crash goes through an outbox: a service stores a
  job together with its data, a publisher hands the job to a queue, a worker runs the handler.

  \<^bold>\<open>Conventions.\<close> A Python dataclass is a record whose fields carry a prefix, an enumeration a datatype
  with a function for its values. \<open>C_post_init\<close> models \<open>C.__post_init__\<close>. A fallible function returns
  \<open>'e + 'a\<close>, \<open>Inl\<close> being the exception. Code with effects is a \<open>comp\<close>: a function from a state to a
  result and a state, sequenced by \<open>bindS\<close>, with \<open>tryS\<close> for handlers; an effect before an exception
  stays. Tests with \<open>isinstance\<close> are discharged by the types. A UUID is a 128-bit word, bytes are 8-bit
  words, Python integers are \<open>int\<close>, a timestamp counts microseconds and is naive or aware. Strings are
  lists of code points below 256. What is not under \<open>src\<close> is a parameter: clocks and \<open>uuid4\<close> (a
  function of a serial number), random bytes, AES-GCM, SHA-256, HMAC, Argon2, the HTTP transport, the
  resolver of secrets, the message queue. Laws of a parameter are hypotheses of the properties that
  need them, and their witnesses instantiate the parameter.

  \<^bold>\<open>Units of work.\<close> \<open>Unit_Of_Work\<close> models \<open>integrated_unit_of_work.py\<close>: a unit of work runs on a copy of
  the tables, \<open>commit\<close> stores the copy, leaving drops what was not committed. It holds the rules that
  the components share: \<open>uncommitting\<close> and \<open>changes\<close> (what was stored was committed, and everything
  before the commit had succeeded) and \<open>yields\<close> (invariants of the tables and facts about results).
  Units of work of one system run one after the other; where two can overlap in a way that matters
  (the send of a message, claims of jobs), the component has an explicit system of steps, or, for the
  purge of contents, a parameter that changes the tables between its units of work.

  \<^bold>\<open>Parts of the program and their theories.\<close>

  \<^item> The outbox. \<open>Outbox_Domain\<close> (\<open>domain/outbox.py\<close>): jobs, attempts, every operation. \<open>Outbox_Machine\<close>:
    runs of operations, the life cycle, leases, retries and their budget. \<open>Outbox_Repository\<close>
    (\<open>outbox_orm.py\<close>, \<open>outbox_mappers.py\<close>, \<open>outbox_repositories.py\<close>): rows, constraints, the methods of the
    repository. \<open>Outbox_Store\<close>: the repository refines the operations of the domain on an abstract map
    of jobs. \<open>Outbox_Services\<close> (publisher, processor, reconciliation): batches and jobs are settled as
    the counts say. \<open>Outbox_Worker\<close>: the loops around a queue that may lose a message, with a run that
    strands a job.
  \<^item> Metrics. \<open>Metrics_Domain\<close> (\<open>domain/metrics.py\<close>), \<open>Metrics_Engine\<close> (\<open>metrics_engine.py\<close>,
    \<open>manager_attribution.py\<close>), \<open>Metrics_Attribution\<close> and \<open>Metrics_Correctness\<close>: the engine equals a
    specification over sets of messages, so its values do not depend on the order of the rows.
  \<^item> Messages. \<open>Canonical_Enums\<close>, \<open>Messaging_Domain\<close> (\<open>domain/message.py\<close>, events, adapter metadata,
    outbound messages, the messaging policy) and \<open>Messaging_Laws\<close>: metadata that is accepted is safe,
    and a projection depends neither on the order of events nor on repeated ones.
  \<^item> The audit trail. \<open>Audit_Domain\<close> (\<open>domain/audit.py\<close>).
  \<^item> Encrypted content. \<open>Content_Domain\<close>, \<open>Content_Crypto\<close> (\<open>aes_gcm_encryption.py\<close>), \<open>Content_Service\<close>
    (\<open>content_encryption_service.py\<close> and its tables) and \<open>Content_Laws\<close>: contents read back, are bound
    to their identity, are read for permitted purposes only (where the table of the code departs from
    the documented one, this is stated), and survive a rotation of the key.
  \<^item> WhatsApp. \<open>Whatsapp_Client\<close> (\<open>whatsapp_cloud_api_client.py\<close>), \<open>Whatsapp_Connection\<close> (connections and
    their service) and \<open>Whatsapp_Lifecycle\<close>.
  \<^item> Outbound messages. \<open>Outbound_Service\<close> (drafts, approval, the send handler, reconciliation),
    \<open>Outbound_Effects\<close> (what each operation does to the tables), \<open>Outbound_Sample\<close> and
    \<open>Outbound_Safety\<close>: the operations and handlers, interleaved and crashing at will, refine a machine of
    statuses and hand no message to the provider twice.
  \<^item> Authentication. \<open>Identity_Enums\<close>, \<open>Auth_Domain\<close> (values, tokens, policies), \<open>Auth_Store\<close> (tables and
    repositories), \<open>Auth_Workflows\<close> (\<open>authentication_workflows.py\<close>), \<open>Auth_Totp\<close>
    (\<open>totp_mfa_verifier.py\<close>). \<open>Auth_Effects\<close> has the locale \<open>account_invariant\<close>: an invariant that
    survives the elementary changes of the tables survives every workflow. \<open>Auth_Outcomes\<close> inverts the
    workflows that present a secret; \<open>Auth_Safety\<close>, \<open>Auth_Typing\<close> and \<open>Auth_Totp_Laws\<close> interpret the
    locale for runs of requests; \<open>Auth_Tokens\<close> has the laws of Base64; \<open>Auth_Guarantees\<close> states the
    properties.
  \<^item> Retention and legal holds. \<open>Retention_Domain\<close> (\<open>domain/legal_hold.py\<close>,
    \<open>domain/retention_execution.py\<close>), \<open>Retention_Store\<close> (their parts of \<open>xy_orm.py\<close>, \<open>xy_mappers.py\<close>,
    \<open>xy_repositories.py\<close>) and \<open>Retention_Service\<close> (\<open>legal_hold_service.py\<close>,
    \<open>retention_purge_service.py\<close>, \<open>retention_purge_handler.py\<close>). Other sessions act between the units
    of work of an operation and while it waits for the advisory lock: \<open>re_others\<close> is what they do to
    the tables, and \<open>rw_seen\<close>, which no operation reads, records the tables of those moments.
    \<open>Retention_Laws\<close> has the locales \<open>retention_steps\<close>, \<open>purge_parts\<close> and \<open>purge_steps\<close>: from an
    invariant and a relation that every single change respects follows that the handler respects
    them among sessions which do. \<open>Retention_Safety\<close> (the retention code deletes
    no content under hold; other handlers, which it does not cover, do),
    \<open>Retention_Deletions\<close> (only expired contents, each recorded), \<open>Retention_Continuation\<close> (how a job
    ends, and what its continuation finds) and \<open>Retention_Termination\<close> (a pass over the purge jobs
    ends) interpret them; \<open>Retention_Sample\<close> has the tables of the examples.
  \<^item> Knowledge documents. \<open>Knowledge_Chunking\<close> (\<open>knowledge_chunking.py\<close>): a text is cut into bounded,
    overlapping chunks that leave out nothing but blanks.

  \<^bold>\<open>Loops.\<close> The loops of the modelled code run over lists and are structural recursions. The
  renewals of a lease while a handler runs are given as a list of instants. The loop that cuts a
  document into chunks and the pass over the purge jobs, which the jobs it handles prolong, are
  partial functions into \<open>option\<close>, and it is proved that they return. No fuel is used.

  \<^bold>\<open>Not modelled.\<close> The HTTP API, worker and operations scripts are glue; migrations define the schema,
  of which the constraints of modelled tables are part of their models. Privacy detection rests on
  regular expressions with Unicode classes. AI analysis, reply suggestions, the index of the knowledge base,
  the issuer of authentication notifications, buyer memory, CRM integration, CSV import, the product catalogue, dashboards, notifications,
  follow-up tasks and media are listed in the manifest as not modelled.
\<close>

end
